(* ===== verification/Prelude.thy ===== *)
theory Prelude
  imports Main "HOL-Library.AList" "HOL-Library.Multiset"
begin

text \<open>
  What every component shares: the error values of the Go code, the shape of a Go call that
  reads and writes a state and may return an error, the environment a process runs in
  (\<open>crypto/rand\<close>, the clock, the order in which a \<open>range\<close> loop visits a map), and
  the \<open>map[string]V\<close> of Go as an association list.
\<close>

section \<open>Hint collections\<close>

named_theorems go_run \<open>evaluation of the Go monad\<close>
named_theorems keeps_rules \<open>preservation of a predicate by an operation\<close>
named_theorems store_ops \<open>definitions of the store operations\<close>

section \<open>Errors\<close>

text \<open>
  \<open>domain.ErrNotFound\<close> is wrapped with a word of context (\<open>fmt.Errorf("%w: thread", ...)\<close>);
  the other sentinels of the packages are compared by identity; \<open>ErrMsg\<close> is an
  \<open>errors.New(text)\<close> nothing compares against; \<open>ErrExternal\<close> is whatever the
  environment (network, database, standard library) returns.
\<close>

datatype gerr =
    ErrNotFound string
  | ErrRecipientSuppressed
  | ErrProviderMessageNotFound
  | ErrReplayRequestUnavailable
  | ErrMsg string
  | ErrExternal string

definition is_not_found :: "gerr \<Rightarrow> bool" where
  "is_not_found e = (case e of ErrNotFound _ \<Rightarrow> True | _ \<Rightarrow> False)"

section \<open>Calls: a state and an error or a value\<close>

text \<open>
  A Go function \<open>func(...) (T, error)\<close> with effects is a function from the state to the
  outcome and the state it leaves. The state of a failed call is kept: what was written
  before the error stays written.
\<close>

type_synonym ('s, 'a) go = "'s \<Rightarrow> (gerr + 'a) \<times> 's"

definition go_ret :: "'a \<Rightarrow> ('s, 'a) go" where
  "go_ret x = (\<lambda>s. (Inr x, s))"

definition go_fail :: "gerr \<Rightarrow> ('s, 'a) go" where
  "go_fail e = (\<lambda>s. (Inl e, s))"

text \<open>\<open>x, err := m; if err != nil { return err }; f(x)\<close>\<close>

definition go_bind :: "('s, 'a) go \<Rightarrow> ('a \<Rightarrow> ('s, 'b) go) \<Rightarrow> ('s, 'b) go" where
  "go_bind m f = (\<lambda>s. case m s of (Inl e, s') \<Rightarrow> (Inl e, s') | (Inr x, s') \<Rightarrow> f x s')"

text \<open>\<open>x, err := m\<close> where the caller looks at the error itself.\<close>

definition go_try :: "('s, 'a) go \<Rightarrow> ('s, gerr + 'a) go" where
  "go_try m = (\<lambda>s. case m s of (r, s') \<Rightarrow> (Inr r, s'))"

definition go_lift :: "gerr + 'a \<Rightarrow> ('s, 'a) go" where
  "go_lift r = (\<lambda>s. (r, s))"

lemma go_ret_run [simp, go_run]: "go_ret x s = (Inr x, s)"
  by (simp add: go_ret_def)

lemma go_fail_run [simp, go_run]: "go_fail e s = (Inl e, s)"
  by (simp add: go_fail_def)

lemma go_lift_run [simp, go_run]: "go_lift r s = (r, s)"
  by (simp add: go_lift_def)

lemma go_try_run [go_run]: "m s = (r, s') \<Longrightarrow> go_try m s = (Inr r, s')"
  by (simp add: go_try_def)

lemma go_bind_ret [simp]: "go_bind (go_ret x) f = f x"
  by (simp add: go_bind_def go_ret_def)

lemma go_bind_fail [simp]: "go_bind (go_fail e) f = go_fail e"
  by (simp add: go_bind_def go_fail_def)

lemma go_bind_ok [go_run]: "m s = (Inr x, s') \<Longrightarrow> go_bind m f s = f x s'"
  by (simp add: go_bind_def)

lemma go_bind_okI: "m s = (Inr x, s') \<Longrightarrow> f x s' = r \<Longrightarrow> go_bind m f s = r"
  by (simp add: go_bind_def)

lemma go_bind_err [go_run]: "m s = (Inl e, s') \<Longrightarrow> go_bind m f s = (Inl e, s')"
  by (simp add: go_bind_def)

lemma go_bind_Inr_iff:
  "go_bind m f s = (Inr y, s'') \<longleftrightarrow> (\<exists>x s'. m s = (Inr x, s') \<and> f x s' = (Inr y, s''))"
  by (auto simp: go_bind_def split: prod.splits sum.splits)

lemma go_bind_Inl_iff:
  "go_bind m f s = (Inl e, s'') \<longleftrightarrow>
     m s = (Inl e, s'') \<or> (\<exists>x s'. m s = (Inr x, s') \<and> f x s' = (Inl e, s''))"
  by (auto simp: go_bind_def split: prod.splits sum.splits)

lemma go_bind_assoc: "go_bind (go_bind m f) g = go_bind m (\<lambda>x. go_bind (f x) g)"
  by (auto simp: go_bind_def fun_eq_iff split: prod.splits sum.splits)

lemma go_bind_InrE:
  assumes "go_bind m f s = (Inr y, s'')"
  obtains x s' where "m s = (Inr x, s')" and "f x s' = (Inr y, s'')"
  using assms by (auto simp: go_bind_Inr_iff)

subsection \<open>Preservation\<close>

text \<open>
  \<open>keeps P m\<close>: the call \<open>m\<close> keeps the predicate \<open>P\<close> of the state, on its
  error paths too. \<open>frames g m\<close>: it does not change what \<open>g\<close> reads.
\<close>

definition keeps :: "('s \<Rightarrow> bool) \<Rightarrow> ('s, 'a) go \<Rightarrow> bool" where
  "keeps P m \<longleftrightarrow> (\<forall>s. P s \<longrightarrow> P (snd (m s)))"

definition frames :: "('s \<Rightarrow> 'b) \<Rightarrow> ('s, 'a) go \<Rightarrow> bool" where
  "frames g m \<longleftrightarrow> (\<forall>s. g (snd (m s)) = g s)"

lemma keepsD: "keeps P m \<Longrightarrow> P s \<Longrightarrow> m s = (r, s') \<Longrightarrow> P s'"
  by (metis keeps_def snd_conv)

lemma framesD: "frames g m \<Longrightarrow> m s = (r, s') \<Longrightarrow> g s' = g s"
  by (metis frames_def snd_conv)

lemma keeps_ret [intro, simp, keeps_rules]: "keeps P (go_ret x)"
  by (simp add: keeps_def)

lemma keeps_Pair [intro, simp]: "keeps P (Pair r)"
  by (simp add: keeps_def)

lemma keeps_fail [intro, simp, keeps_rules]: "keeps P (go_fail e)"
  by (simp add: keeps_def)

lemma keeps_lift [intro, simp, keeps_rules]: "keeps P (go_lift r)"
  by (simp add: keeps_def)

lemma keeps_bind [intro, keeps_rules]:
  assumes m: "keeps P m" and f: "\<And>x. keeps P (f x)"
  shows "keeps P (go_bind m f)"
  unfolding keeps_def
proof (intro allI impI)
  fix s
  assume "P s"
  obtain r s' where ms: "m s = (r, s')" by (cases "m s")
  with m \<open>P s\<close> have "P s'" by (blast intro: keepsD)
  with ms f show "P (snd (go_bind m f s))"
    by (cases r) (simp_all add: go_bind_def keeps_def)
qed

lemma keeps_try [intro, keeps_rules]: "keeps P m \<Longrightarrow> keeps P (go_try m)"
  by (force simp: keeps_def go_try_def split: prod.splits)

lemma keeps_if [intro, keeps_rules]:
  "(b \<Longrightarrow> keeps P m) \<Longrightarrow> (\<not> b \<Longrightarrow> keeps P m') \<Longrightarrow> keeps P (if b then m else m')"
  by simp

lemma frames_ret [intro, simp, keeps_rules]: "frames g (go_ret x)"
  by (simp add: frames_def)

lemma frames_Pair [intro, simp]: "frames g (Pair r)"
  by (simp add: frames_def)

lemma frames_fail [intro, simp, keeps_rules]: "frames g (go_fail e)"
  by (simp add: frames_def)

lemma frames_lift [intro, simp, keeps_rules]: "frames g (go_lift r)"
  by (simp add: frames_def)

lemma frames_bind [intro, keeps_rules]:
  assumes m: "frames g m" and f: "\<And>x. frames g (f x)"
  shows "frames g (go_bind m f)"
  unfolding frames_def
proof
  fix s
  obtain r s' where ms: "m s = (r, s')" by (cases "m s")
  with m have "g s' = g s" by (rule framesD)
  with ms f show "g (snd (go_bind m f s)) = g s"
    by (cases r) (simp_all add: go_bind_def frames_def)
qed

lemma frames_try [intro, keeps_rules]: "frames g m \<Longrightarrow> frames g (go_try m)"
  by (simp add: frames_def go_try_def split: prod.splits) (metis snd_conv)

lemma frames_if [intro, keeps_rules]:
  "(b \<Longrightarrow> frames g m) \<Longrightarrow> (\<not> b \<Longrightarrow> frames g m') \<Longrightarrow> frames g (if b then m else m')"
  by simp

section \<open>The environment of a process\<close>

text \<open>
  \<^item> \<open>rand_src i n\<close>: what the \<open>i\<close>-th call of \<open>rand.Read\<close> on a buffer of \<open>n\<close>
    bytes does: \<open>Some\<close> bytes, or \<open>None\<close> for an error;
  \<^item> \<open>clock_src i\<close>: what the \<open>i\<close>-th call of \<open>time.Now\<close> returns;
  \<^item> \<open>iter_src i ks\<close>: the order in which the \<open>i\<close>-th \<open>range\<close> loop over a map
    visits the keys \<open>ks\<close>. Go leaves it open; an answer that is not a permutation of the
    keys is replaced by \<open>ks\<close> itself (\<open>next_order\<close>), so every oracle is a legal
    one and every legal order is the answer of some oracle.
\<close>

type_synonym gtime = int  \<comment> \<open>nanoseconds since January 1, year 1 UTC; 0 is the zero \<open>time.Time\<close>\<close>

record env =
  rand_src :: "nat \<Rightarrow> nat \<Rightarrow> string option"
  rand_ix :: nat
  clock_src :: "nat \<Rightarrow> gtime"
  clock_ix :: nat
  iter_src :: "nat \<Rightarrow> string list \<Rightarrow> string list"
  iter_ix :: nat

text \<open>\<open>rand.Read(buf)\<close> with \<open>len(buf) = n\<close>: fills the whole buffer or fails.\<close>

definition rand_read :: "nat \<Rightarrow> ('z env_scheme, string option) go" where
  "rand_read n = (\<lambda>s.
     (Inr (map_option (\<lambda>b. take n (b @ replicate n (CHR 0x00))) (rand_src s (rand_ix s) n)),
      s\<lparr>rand_ix := Suc (rand_ix s)\<rparr>))"

definition time_now :: "('z env_scheme, gtime) go" where
  "time_now = (\<lambda>s. (Inr (clock_src s (clock_ix s)), s\<lparr>clock_ix := Suc (clock_ix s)\<rparr>))"

definition is_order :: "string list \<Rightarrow> string list \<Rightarrow> bool" where
  "is_order ks' ks \<longleftrightarrow> length ks' = length ks \<and> distinct ks' \<and> list_all (\<lambda>k. k \<in> set ks) ks'"

definition legal_order :: "(string list \<Rightarrow> string list) \<Rightarrow> string list \<Rightarrow> string list" where
  "legal_order ord ks = (if is_order (ord ks) ks then ord ks else ks)"

definition next_order :: "('z env_scheme, string list \<Rightarrow> string list) go" where
  "next_order = (\<lambda>s. (Inr (iter_src s (iter_ix s)), s\<lparr>iter_ix := Suc (iter_ix s)\<rparr>))"

lemma set_legal_order: "distinct ks \<Longrightarrow> set (legal_order ord ks) = set ks"
proof (cases "is_order (ord ks) ks")
  case True
  then have sub: "set (ord ks) \<subseteq> set ks" and len: "length (ord ks) = length ks"
    and d: "distinct (ord ks)"
    by (auto simp: is_order_def list_all_iff)
  assume "distinct ks"
  with d len have "card (set (ord ks)) = card (set ks)"
    by (simp add: distinct_card)
  with sub have "set (ord ks) = set ks"
    by (simp add: card_subset_eq)
  with True show ?thesis by (simp add: legal_order_def)
qed (simp add: legal_order_def)

lemma distinct_legal_order: "distinct ks \<Longrightarrow> distinct (legal_order ord ks)"
  by (auto simp: legal_order_def is_order_def)

lemma legal_order_attained: "distinct ks' \<Longrightarrow> distinct ks \<Longrightarrow> set ks' = set ks
  \<Longrightarrow> legal_order (\<lambda>_. ks') ks = ks'"
  by (auto simp: legal_order_def is_order_def list_all_iff distinct_card [symmetric])

section \<open>Maps\<close>

text \<open>
  \<open>map[string]V\<close>: an association list whose keys are distinct (\<open>gmap_ok\<close>, kept by
  every write), read with \<open>map_of\<close>. The list's order is not observable: a \<open>range\<close>
  loop visits the keys in the order the environment gives.
\<close>

type_synonym 'v gmap = "(string \<times> 'v) list"

definition gput :: "string \<Rightarrow> 'v \<Rightarrow> 'v gmap \<Rightarrow> 'v gmap" where
  "gput k v m = AList.update k v m"

definition gmap_ok :: "'v gmap \<Rightarrow> bool" where
  "gmap_ok m \<longleftrightarrow> distinct (map fst m)"

definition gkeys :: "'v gmap \<Rightarrow> string list" where
  "gkeys m = map fst m"

text \<open>The values a \<open>range\<close> loop visits, in the order \<open>ord\<close> gives.\<close>

definition grange :: "(string list \<Rightarrow> string list) \<Rightarrow> 'v gmap \<Rightarrow> 'v list" where
  "grange ord m = map (\<lambda>k. the (map_of m k)) (legal_order ord (gkeys m))"

lemma map_of_gput [simp]: "map_of (gput k v m) = (map_of m)(k \<mapsto> v)"
  by (simp add: gput_def update_conv')

lemma gmap_ok_Nil [simp]: "gmap_ok []"
  by (simp add: gmap_ok_def)

lemma gmap_ok_gput [simp, intro]: "gmap_ok m \<Longrightarrow> gmap_ok (gput k v m)"
  by (simp add: gmap_ok_def gput_def distinct_update)

lemma distinct_gkeys: "gmap_ok m \<Longrightarrow> distinct (gkeys m)"
  by (simp add: gmap_ok_def gkeys_def)

lemma set_gkeys: "set (gkeys m) = dom (map_of m)"
  by (simp add: gkeys_def dom_map_of_conv_image_fst)

lemma mset_legal_order: "distinct ks \<Longrightarrow> mset (legal_order ord ks) = mset ks"
  by (metis distinct_legal_order set_eq_iff_mset_eq_distinct set_legal_order)

lemma map_the_gkeys: "gmap_ok m \<Longrightarrow> map (\<lambda>k. the (map_of m k)) (gkeys m) = map snd m"
  by (auto simp: gkeys_def gmap_ok_def)

lemma mset_grange: "gmap_ok m \<Longrightarrow> mset (grange ord m) = mset (map snd m)"
proof -
  assume ok: "gmap_ok m"
  have "mset (grange ord m) = mset (map (\<lambda>k. the (map_of m k)) (gkeys m))"
    using mset_legal_order [OF distinct_gkeys [OF ok], of ord] by (simp add: grange_def)
  with map_the_gkeys [OF ok] show ?thesis by simp
qed

lemma set_grange: "gmap_ok m \<Longrightarrow> set (grange ord m) = ran (map_of m)"
proof -
  assume ok: "gmap_ok m"
  then have "set (grange ord m) = set (map snd m)"
    by (metis mset_grange set_mset_mset)
  with ok show ?thesis by (simp add: gmap_ok_def ran_distinct)
qed

lemma in_grange_iff: "gmap_ok m \<Longrightarrow> v \<in> set (grange ord m) \<longleftrightarrow> (\<exists>k. map_of m k = Some v)"
  by (auto simp: set_grange ran_def)

end
