(* ===== verification/Go_Strings.thy ===== *)
theory Go_Strings
  imports Prelude
begin

text \<open>
  What the code uses of Go's \<open>strings\<close> and \<open>encoding/hex\<close> packages. A Go string is a
  sequence of bytes, here a \<open>string\<close> whose characters are the bytes. \<open>strings.ToLower\<close>
  and \<open>strings.TrimSpace\<close> are modelled on their ASCII paths: a byte of 128 and more (part
  of a UTF-8 sequence) is neither white space nor a letter here.
\<close>

section \<open>Case and white space\<close>

definition byte_of :: "char \<Rightarrow> nat" where
  "byte_of c = of_char c"

definition lower_char :: "char \<Rightarrow> char" where
  "lower_char c = (if 65 \<le> byte_of c \<and> byte_of c \<le> 90 then char_of (byte_of c + 32) else c)"

definition to_lower :: "string \<Rightarrow> string" where
  "to_lower s = map lower_char s"

definition is_space :: "char \<Rightarrow> bool" where
  "is_space c \<longleftrightarrow> (9 \<le> byte_of c \<and> byte_of c \<le> 13) \<or> byte_of c = 32"

definition trim_left :: "string \<Rightarrow> string" where
  "trim_left s = dropWhile is_space s"

definition trim_right :: "string \<Rightarrow> string" where
  "trim_right s = rev (dropWhile is_space (rev s))"

definition trim_space :: "string \<Rightarrow> string" where
  "trim_space s = trim_right (trim_left s)"

definition has_prefix :: "string \<Rightarrow> string \<Rightarrow> bool" where
  "has_prefix s p \<longleftrightarrow> take (length p) s = p"

text \<open>\<open>strings.Join(parts, sep)\<close>\<close>

fun join :: "string list \<Rightarrow> string \<Rightarrow> string" where
  "join [] sep = []"
| "join [x] sep = x"
| "join (x # y # ys) sep = x @ sep @ join (y # ys) sep"

text \<open>\<open>strings.Split(s, "/")\<close>\<close>

fun split_slash :: "string \<Rightarrow> string list" where
  "split_slash [] = [[]]"
| "split_slash (c # s) =
     (if c = CHR ''/'' then [] # split_slash s
      else (case split_slash s of [] \<Rightarrow> [[c]] | p # ps \<Rightarrow> (c # p) # ps))"

text \<open>\<open>hex.EncodeToString\<close>: two lower-case digits for each byte.\<close>

definition hex_digit :: "nat \<Rightarrow> char" where
  "hex_digit n = ''0123456789abcdef'' ! (n mod 16)"

definition hex_byte :: "char \<Rightarrow> string" where
  "hex_byte c = [hex_digit (byte_of c div 16), hex_digit (byte_of c)]"

definition hex_encode :: "string \<Rightarrow> string" where
  "hex_encode bs = concat (map hex_byte bs)"

section \<open>Lower case\<close>

lemma byte_of_less [simp]: "byte_of c < 256"
  by (simp add: byte_of_def)

lemma lower_char_idem [simp]: "lower_char (lower_char c) = lower_char c"
  by (auto simp: lower_char_def byte_of_def)

lemma is_space_lower [simp]: "is_space (lower_char c) = is_space c"
  by (auto simp: lower_char_def is_space_def byte_of_def)

lemma to_lower_Nil [simp]: "to_lower [] = []"
  by (simp add: to_lower_def)

lemma to_lower_Cons [simp]: "to_lower (c # s) = lower_char c # to_lower s"
  by (simp add: to_lower_def)

lemma to_lower_append [simp]: "to_lower (s @ t) = to_lower s @ to_lower t"
  by (simp add: to_lower_def)

lemma to_lower_idem [simp]: "to_lower (to_lower s) = to_lower s"
  by (simp add: to_lower_def comp_def)

lemma length_to_lower [simp]: "length (to_lower s) = length s"
  by (simp add: to_lower_def)

lemma take_to_lower: "take n (to_lower s) = to_lower (take n s)"
  by (simp add: to_lower_def take_map)

lemma drop_to_lower: "drop n (to_lower s) = to_lower (drop n s)"
  by (simp add: to_lower_def drop_map)

section \<open>Trimming\<close>

lemma trim_left_Nil [simp]: "trim_left [] = []"
  by (simp add: trim_left_def)

lemma trim_right_Nil [simp]: "trim_right [] = []"
  by (simp add: trim_right_def)

lemma trim_left_space [simp]: "is_space c \<Longrightarrow> trim_left (c # s) = trim_left s"
  by (simp add: trim_left_def)

lemma trim_left_nonspace: "\<not> is_space c \<Longrightarrow> trim_left (c # s) = c # s"
  by (simp add: trim_left_def)

lemma trim_right_snoc: "trim_right (s @ [c]) = (if is_space c then trim_right s else s @ [c])"
  by (simp add: trim_right_def)

lemma trim_right_idem [simp]: "trim_right (trim_right s) = trim_right s"
  by (simp add: trim_right_def)

lemma trim_left_idem [simp]: "trim_left (trim_left s) = trim_left s"
  by (simp add: trim_left_def)

lemma trim_right_Cons:
  "trim_right (c # s) = (if trim_right s = [] \<and> is_space c then [] else c # trim_right s)"
proof (induction s rule: rev_induct)
  case Nil
  then show ?case by (simp add: trim_right_def)
next
  case (snoc d s)
  have "trim_right (c # s @ [d]) = (if is_space d then trim_right (c # s) else c # s @ [d])"
    using trim_right_snoc [of "c # s" d] by simp
  with snoc show ?case by (auto simp: trim_right_snoc)
qed

lemma trim_swap: "trim_left (trim_right s) = trim_right (trim_left s)"
proof (induction s)
  case (Cons c s)
  then show ?case
    by (cases "is_space c") (auto simp: trim_right_Cons trim_left_nonspace)
qed simp

lemma trim_space_idem [simp]: "trim_space (trim_space s) = trim_space s"
  by (simp add: trim_space_def trim_swap)

lemma trim_space_left [simp]: "trim_space (trim_left s) = trim_space s"
  by (simp add: trim_space_def)

lemma trim_space_right [simp]: "trim_space (trim_right s) = trim_space s"
  by (simp add: trim_space_def trim_swap)

lemma trim_left_of_trim_space [simp]: "trim_left (trim_space s) = trim_space s"
  by (simp add: trim_space_def trim_swap)

lemma trim_space_Nil [simp]: "trim_space [] = []"
  by (simp add: trim_space_def)

lemma trim_space_space [simp]: "is_space c \<Longrightarrow> trim_space (c # s) = trim_space s"
  by (simp add: trim_space_def)

lemma trim_space_nonspace: "\<not> is_space c \<Longrightarrow> trim_space (c # s) = c # trim_right s"
  by (simp add: trim_space_def trim_left_nonspace trim_right_Cons)

lemma length_trim_left: "length (trim_left s) \<le> length s"
  by (simp add: trim_left_def length_dropWhile_le)

lemma length_trim_right: "length (trim_right s) \<le> length s"
  by (metis length_dropWhile_le length_rev trim_right_def)

lemma length_trim_space: "length (trim_space s) \<le> length s"
  by (metis le_trans length_trim_left length_trim_right trim_space_def)

lemma to_lower_trim_left: "to_lower (trim_left s) = trim_left (to_lower s)"
  by (simp add: trim_left_def to_lower_def dropWhile_map comp_def)

lemma to_lower_trim_right: "to_lower (trim_right s) = trim_right (to_lower s)"
  by (simp add: trim_right_def to_lower_def dropWhile_map comp_def rev_map)

lemma to_lower_trim_space: "to_lower (trim_space s) = trim_space (to_lower s)"
  by (simp add: trim_space_def to_lower_trim_left to_lower_trim_right)

section \<open>Prefixes and joins\<close>

lemma has_prefix_append [simp]: "has_prefix (p @ s) p"
  by (simp add: has_prefix_def)

lemma has_prefix_length: "has_prefix s p \<Longrightarrow> length p \<le> length s"
  by (metis has_prefix_def length_take min.bounded_iff order_refl)

lemma has_prefix_split: "has_prefix s p \<Longrightarrow> s = p @ drop (length p) s"
  by (metis append_take_drop_id has_prefix_def)

lemma has_prefix_lower_split:
  "has_prefix (to_lower s) p \<Longrightarrow> to_lower (take (length p) s) = p \<and> s = take (length p) s @ drop (length p) s"
  by (simp add: has_prefix_def take_to_lower)

lemma join_append: "xs \<noteq> [] \<Longrightarrow> ys \<noteq> [] \<Longrightarrow> join (xs @ ys) sep = join xs sep @ sep @ join ys sep"
proof (induction xs sep rule: join.induct)
  case (2 x sep)
  then show ?case by (cases ys) auto
qed auto

section \<open>Hexadecimal\<close>

lemma hex_digit_inj: "m < 16 \<Longrightarrow> n < 16 \<Longrightarrow> hex_digit m = hex_digit n \<longleftrightarrow> m = n"
proof -
  assume "m < 16" and "n < 16"
  moreover have "distinct ''0123456789abcdef''" by simp
  ultimately show ?thesis by (simp add: hex_digit_def nth_eq_iff_index_eq)
qed

lemma hex_byte_inj: "hex_byte c = hex_byte d \<longleftrightarrow> c = d"
proof
  assume eq: "hex_byte c = hex_byte d"
  have "hex_digit (byte_of c mod 16) = hex_digit (byte_of d mod 16)"
    using eq by (simp add: hex_byte_def hex_digit_def)
  then have low: "byte_of c mod 16 = byte_of d mod 16"
    by (simp add: hex_digit_inj)
  have "byte_of c div 16 = byte_of d div 16"
    using eq byte_of_less [of c] byte_of_less [of d]
    by (simp add: hex_byte_def hex_digit_inj div_less_iff_less_mult)
  with low have "byte_of c = byte_of d"
    by (metis div_mult_mod_eq)
  then show "c = d" by (simp add: byte_of_def)
qed simp

lemma length_hex_byte [simp]: "length (hex_byte c) = 2"
  by (simp add: hex_byte_def)

lemma length_hex_encode: "length (hex_encode bs) = 2 * length bs"
  by (induction bs) (auto simp: hex_encode_def)

lemma hex_encode_inj: "hex_encode a = hex_encode b \<longleftrightarrow> a = b"
proof (induction a arbitrary: b)
  case Nil
  then show ?case
    using length_hex_encode [of b] by (cases b) (auto simp: hex_encode_def hex_byte_def)
next
  case (Cons c a)
  show ?case
  proof (cases b)
    case Nil
    then show ?thesis by (simp add: hex_encode_def hex_byte_def)
  next
    case (Cons d b')
    have "hex_encode (c # a) = hex_encode (d # b') \<longleftrightarrow>
        hex_byte c = hex_byte d \<and> hex_encode a = hex_encode b'"
      by (simp add: hex_encode_def)
    with Cons Cons.IH show ?thesis by (simp add: hex_byte_inj)
  qed
qed

section \<open>Splitting at slashes\<close>

lemma split_slash_plain: "CHR ''/'' \<notin> set p \<Longrightarrow> split_slash p = [p]"
  by (induction p) auto

lemma split_slash_append: "CHR ''/'' \<notin> set p \<Longrightarrow> split_slash (p @ CHR ''/'' # s) = p # split_slash s"
  by (induction p) auto

lemma split_slash_nonempty [simp]: "split_slash s \<noteq> []"
  by (induction s) (auto split: list.splits)

lemma split_slash_segments: "\<forall>p \<in> set (split_slash s). CHR ''/'' \<notin> set p"
  by (induction s) (auto split: list.splits)

lemma split_slash_join:
  "ps \<noteq> [] \<Longrightarrow> \<forall>p \<in> set ps. CHR ''/'' \<notin> set p \<Longrightarrow> split_slash (join ps ''/'') = ps"
proof (induction ps)
  case (Cons p ps)
  then show ?case by (cases ps) (simp_all add: split_slash_plain split_slash_append)
qed simp

end
