(* ===== verification/Go_Time.thy ===== *)
theory Go_Time
  imports Go_Strings "HOL-Library.Word"
begin

text \<open>
  What the code uses of Go's \<open>time\<close> package. An instant is the number of nanoseconds since
  January 1, year 1, 00:00:00 UTC, so the zero \<open>time.Time\<close> is 0 and \<open>UTC()\<close>, which
  changes the location and not the instant, is the identity. A \<open>time.Duration\<close> is a signed
  64-bit number of nanoseconds: \<open>Sub\<close> saturates at its bounds, arithmetic on durations wraps.
\<close>

section \<open>Instants and durations\<close>

type_synonym duration = "64 word"

definition is_zero_time :: "gtime \<Rightarrow> bool" where
  "is_zero_time t \<longleftrightarrow> t = 0"

definition time_after :: "gtime \<Rightarrow> gtime \<Rightarrow> bool" where
  "time_after t u \<longleftrightarrow> u < t"

definition max_duration :: int where
  "max_duration = 9223372036854775807"

definition min_duration :: int where
  "min_duration = - 9223372036854775808"

definition time_sub :: "gtime \<Rightarrow> gtime \<Rightarrow> int" where
  "time_sub t u = max min_duration (min max_duration (t - u))"

definition time_add :: "gtime \<Rightarrow> duration \<Rightarrow> gtime" where
  "time_add t d = t + sint d"

definition nanos_per_second :: int where
  "nanos_per_second = 1000000000"

definition hour :: int where
  "hour = 3600 * nanos_per_second"

definition minute :: duration where
  "minute = 60000000000"

lemma time_sub_le_iff: "min_duration \<le> d \<Longrightarrow> d < max_duration \<Longrightarrow> time_sub t u \<le> d \<longleftrightarrow> t - u \<le> d"
  by (auto simp: time_sub_def)

lemma time_sub_gt_iff: "min_duration \<le> d \<Longrightarrow> d < max_duration \<Longrightarrow> d < time_sub t u \<longleftrightarrow> d < t - u"
  by (auto simp: time_sub_def)

section \<open>Calendar\<close>

text \<open>
  The proleptic Gregorian date of an instant: cycles of 400, 100, 4 and 1 years, then the
  day of the year split into month and day.
\<close>

record civil =
  cv_year :: int
  cv_month :: int
  cv_day :: int
  cv_hour :: int
  cv_min :: int
  cv_sec :: int
  cv_nano :: int

definition is_leap :: "int \<Rightarrow> bool" where
  "is_leap y \<longleftrightarrow> y mod 4 = 0 \<and> (y mod 100 \<noteq> 0 \<or> y mod 400 = 0)"

definition month_lengths :: "bool \<Rightarrow> int list" where
  "month_lengths leap = [31, if leap then 29 else 28, 31, 30, 31, 30, 31, 31, 30, 31, 30, 31]"

fun split_month :: "int list \<Rightarrow> int \<Rightarrow> int \<Rightarrow> int \<times> int" where
  "split_month [] m d = (m, d + 1)"
| "split_month (l # ls) m d = (if d < l then (m, d + 1) else split_month ls (m + 1) (d - l))"

definition year_day :: "int \<Rightarrow> int \<times> int" where
  "year_day days =
     (let n400 = days div 146097; r400 = days mod 146097;
          n100 = min 3 (r400 div 36524); r100 = r400 - n100 * 36524;
          n4 = r100 div 1461; r4 = r100 mod 1461;
          n1 = min 3 (r4 div 365)
      in (400 * n400 + 100 * n100 + 4 * n4 + n1 + 1, r4 - n1 * 365))"

definition civil_of :: "gtime \<Rightarrow> civil" where
  "civil_of t =
     (let secs = t div nanos_per_second; days = secs div 86400; sod = secs mod 86400;
          (y, yd) = year_day days; (m, d) = split_month (month_lengths (is_leap y)) 1 yd
      in \<lparr>cv_year = y, cv_month = m, cv_day = d, cv_hour = sod div 3600,
          cv_min = sod mod 3600 div 60, cv_sec = sod mod 60, cv_nano = t mod nanos_per_second\<rparr>)"

section \<open>Formatting\<close>

definition digit_char :: "nat \<Rightarrow> char" where
  "digit_char n = char_of (48 + n mod 10)"

fun nat_digits :: "nat \<Rightarrow> string" where
  "nat_digits n = (if n < 10 then [digit_char n] else nat_digits (n div 10) @ [digit_char n])"

declare nat_digits.simps [simp del]

definition zero_pad :: "nat \<Rightarrow> nat \<Rightarrow> string" where
  "zero_pad w n = (let ds = nat_digits n in replicate (w - length ds) (CHR ''0'') @ ds)"

definition pad_int :: "nat \<Rightarrow> int \<Rightarrow> string" where
  "pad_int w i = (if i < 0 then ''-'' @ zero_pad w (nat (- i)) else zero_pad w (nat i))"

text \<open>\<open>Format("2006-01-02T15:04:05Z")\<close>; \<open>time.RFC3339\<close> prints the same for an instant in UTC.\<close>

definition format_rfc3339 :: "gtime \<Rightarrow> string" where
  "format_rfc3339 t = (let c = civil_of t in
     pad_int 4 (cv_year c) @ ''-'' @ pad_int 2 (cv_month c) @ ''-'' @ pad_int 2 (cv_day c) @ ''T'' @
     pad_int 2 (cv_hour c) @ '':'' @ pad_int 2 (cv_min c) @ '':'' @ pad_int 2 (cv_sec c) @ ''Z'')"

text \<open>\<open>Format("20060102T150405.000000000Z")\<close>\<close>

definition format_session :: "gtime \<Rightarrow> string" where
  "format_session t = (let c = civil_of t in
     pad_int 4 (cv_year c) @ pad_int 2 (cv_month c) @ pad_int 2 (cv_day c) @ ''T'' @
     pad_int 2 (cv_hour c) @ pad_int 2 (cv_min c) @ pad_int 2 (cv_sec c) @ ''.'' @
     pad_int 9 (cv_nano c) @ ''Z'')"

text \<open>\<open>Format("2006/01/02")\<close>\<close>

definition format_date_path :: "gtime \<Rightarrow> string" where
  "format_date_path t = (let c = civil_of t in
     pad_int 4 (cv_year c) @ ''/'' @ pad_int 2 (cv_month c) @ ''/'' @ pad_int 2 (cv_day c))"

lemma format_rfc3339_example: "format_rfc3339 63903204007000000000 = ''2026-01-05T10:00:07Z''"
  by code_simp

lemma format_session_leap_example:
  "format_session 63845668799000000042 = ''20240310T115959.000000042Z''"
  by code_simp

end
