(* ===== verification/Domain.thy ===== *)
theory Domain
  imports Go_Time
begin

text \<open>
  The data of \<open>internal/domain/types.go\<close> and \<open>internal/core/interfaces.go\<close>: one record per
  struct, one field per field. The string-backed enumerations of the code (\<open>ThreadState\<close>,
  \<open>MessageDirection\<close>, \<open>AgentStatus\<close>) stay strings, since the code stores and compares
  values that are none of the constants (the empty string is the zero value). Field names
  carry a prefix for their record; a nil slice that JSON can tell from an empty one is \<open>None\<close>.
\<close>

section \<open>Enumerations\<close>

type_synonym thread_state = string
type_synonym message_direction = string
type_synonym agent_status = string

definition ThreadStateActive :: thread_state where "ThreadStateActive = ''ACTIVE''"
definition ThreadStateWaiting :: thread_state where "ThreadStateWaiting = ''WAITING''"
definition ThreadStateEscalated :: thread_state where "ThreadStateEscalated = ''ESCALATED''"
definition ThreadStateResolved :: thread_state where "ThreadStateResolved = ''RESOLVED''"
definition ThreadStateDormant :: thread_state where "ThreadStateDormant = ''DORMANT''"

definition ThreadState_IsValid :: "thread_state \<Rightarrow> bool" where
  "ThreadState_IsValid s \<longleftrightarrow>
     s \<in> {ThreadStateActive, ThreadStateWaiting, ThreadStateEscalated, ThreadStateResolved,
          ThreadStateDormant}"

definition MessageDirectionInbound :: message_direction where "MessageDirectionInbound = ''inbound''"
definition MessageDirectionOutbound :: message_direction where "MessageDirectionOutbound = ''outbound''"

definition MessageDirection_IsValid :: "message_direction \<Rightarrow> bool" where
  "MessageDirection_IsValid d \<longleftrightarrow> d \<in> {MessageDirectionInbound, MessageDirectionOutbound}"

definition AgentStatusActive :: agent_status where "AgentStatusActive = ''active''"
definition AgentStatusPaused :: agent_status where "AgentStatusPaused = ''paused''"
definition AgentStatusArchived :: agent_status where "AgentStatusArchived = ''archived''"

definition AgentStatus_IsValid :: "agent_status \<Rightarrow> bool" where
  "AgentStatus_IsValid s \<longleftrightarrow> s \<in> {AgentStatusActive, AgentStatusPaused, AgentStatusArchived}"

lemmas enum_defs = ThreadStateActive_def ThreadStateWaiting_def ThreadStateEscalated_def
  ThreadStateResolved_def ThreadStateDormant_def MessageDirectionInbound_def
  MessageDirectionOutbound_def AgentStatusActive_def AgentStatusPaused_def AgentStatusArchived_def

section \<open>Domain records\<close>

record organization =
  o_ID :: string
  o_Name :: string
  o_CreatedAt :: gtime
  o_UpdatedAt :: gtime

record agent =
  ag_ID :: string
  ag_OrganizationID :: string
  ag_Name :: string
  ag_Status :: agent_status
  ag_WebhookURL :: string
  ag_WebhookSecret :: string
  ag_CreatedAt :: gtime
  ag_UpdatedAt :: gtime

record inbox =
  i_ID :: string
  i_OrganizationID :: string
  i_AgentID :: string
  i_EmailAddress :: string
  i_Domain :: string
  i_DisplayName :: string
  i_OutboundIdentity :: string
  i_CreatedAt :: gtime
  i_UpdatedAt :: gtime

record contact =
  c_ID :: string
  c_OrganizationID :: string
  c_EmailAddress :: string
  c_DisplayName :: string
  c_LastSeenAt :: gtime
  c_CreatedAt :: gtime
  c_UpdatedAt :: gtime

record contact_memory_entry =
  cm_ID :: string
  cm_ContactID :: string
  cm_ThreadID :: string
  cm_Note :: string
  cm_Tags :: "string list option"
  cm_CreatedAt :: gtime

record thread =
  t_ID :: string
  t_OrganizationID :: string
  t_AgentID :: string
  t_InboxID :: string
  t_ContactID :: string
  t_SubjectNormalized :: string
  t_State :: thread_state
  t_LastInboundID :: string
  t_LastOutboundID :: string
  t_LastActivityAt :: gtime
  t_CreatedAt :: gtime
  t_UpdatedAt :: gtime

record message =
  m_ID :: string
  m_OrganizationID :: string
  m_ThreadID :: string
  m_InboxID :: string
  m_ContactID :: string
  m_Direction :: message_direction
  m_Subject :: string
  m_SubjectNormalized :: string
  m_MessageIDHeader :: string
  m_InReplyTo :: string
  m_References :: "string list"
  m_TextBody :: string
  m_HTMLBody :: string
  m_RawMIMEObjectKey :: string
  m_DeliveryState :: string
  m_ProviderMessageID :: string
  m_SentAt :: gtime
  m_DeliveredAt :: gtime
  m_BouncedAt :: gtime
  m_CreatedAt :: gtime

record suppressed_address =
  sa_ID :: string
  sa_OrganizationID :: string
  sa_EmailAddress :: string
  sa_Reason :: string
  sa_Source :: string
  sa_CreatedAt :: gtime
  sa_UpdatedAt :: gtime

record webhook_delivery =
  wd_ID :: string
  wd_OrganizationID :: string
  wd_AgentID :: string
  wd_EventType :: string
  wd_EventID :: string
  wd_RequestURL :: string
  wd_RequestPayload :: string
  wd_RequestHeaders :: "string gmap"
  wd_Status :: string
  wd_AttemptCount :: int
  wd_ResponseCode :: int
  wd_ResponseBody :: string
  wd_LastAttemptAt :: gtime
  wd_NextAttemptAt :: gtime
  wd_CreatedAt :: gtime
  wd_UpdatedAt :: gtime

text \<open>Zero values of the structs, where the code relies on them.\<close>

definition zero_organization :: organization where
  "zero_organization = \<lparr>o_ID = [], o_Name = [], o_CreatedAt = 0, o_UpdatedAt = 0\<rparr>"

definition zero_agent :: agent where
  "zero_agent = \<lparr>ag_ID = [], ag_OrganizationID = [], ag_Name = [], ag_Status = [],
     ag_WebhookURL = [], ag_WebhookSecret = [], ag_CreatedAt = 0, ag_UpdatedAt = 0\<rparr>"

definition zero_inbox :: inbox where
  "zero_inbox = \<lparr>i_ID = [], i_OrganizationID = [], i_AgentID = [], i_EmailAddress = [],
     i_Domain = [], i_DisplayName = [], i_OutboundIdentity = [], i_CreatedAt = 0, i_UpdatedAt = 0\<rparr>"

definition zero_contact :: contact where
  "zero_contact = \<lparr>c_ID = [], c_OrganizationID = [], c_EmailAddress = [], c_DisplayName = [],
     c_LastSeenAt = 0, c_CreatedAt = 0, c_UpdatedAt = 0\<rparr>"

definition zero_memory :: contact_memory_entry where
  "zero_memory = \<lparr>cm_ID = [], cm_ContactID = [], cm_ThreadID = [], cm_Note = [], cm_Tags = None,
     cm_CreatedAt = 0\<rparr>"

definition zero_thread :: thread where
  "zero_thread = \<lparr>t_ID = [], t_OrganizationID = [], t_AgentID = [], t_InboxID = [],
     t_ContactID = [], t_SubjectNormalized = [], t_State = [], t_LastInboundID = [],
     t_LastOutboundID = [], t_LastActivityAt = 0, t_CreatedAt = 0, t_UpdatedAt = 0\<rparr>"

definition zero_message :: message where
  "zero_message = \<lparr>m_ID = [], m_OrganizationID = [], m_ThreadID = [], m_InboxID = [],
     m_ContactID = [], m_Direction = [], m_Subject = [], m_SubjectNormalized = [],
     m_MessageIDHeader = [], m_InReplyTo = [], m_References = [], m_TextBody = [],
     m_HTMLBody = [], m_RawMIMEObjectKey = [], m_DeliveryState = [], m_ProviderMessageID = [],
     m_SentAt = 0, m_DeliveredAt = 0, m_BouncedAt = 0, m_CreatedAt = 0\<rparr>"

definition zero_suppression :: suppressed_address where
  "zero_suppression = \<lparr>sa_ID = [], sa_OrganizationID = [], sa_EmailAddress = [], sa_Reason = [],
     sa_Source = [], sa_CreatedAt = 0, sa_UpdatedAt = 0\<rparr>"

definition zero_delivery :: webhook_delivery where
  "zero_delivery = \<lparr>wd_ID = [], wd_OrganizationID = [], wd_AgentID = [], wd_EventType = [],
     wd_EventID = [], wd_RequestURL = [], wd_RequestPayload = [], wd_RequestHeaders = [],
     wd_Status = [], wd_AttemptCount = 0, wd_ResponseCode = 0, wd_ResponseBody = [],
     wd_LastAttemptAt = 0, wd_NextAttemptAt = 0, wd_CreatedAt = 0, wd_UpdatedAt = 0\<rparr>"

lemmas zero_defs = zero_organization_def zero_agent_def zero_inbox_def zero_contact_def
  zero_memory_def zero_thread_def zero_message_def zero_suppression_def zero_delivery_def

section \<open>Service boundary records\<close>

record inbound_receipt =
  ir_SMTPTransactionID :: string
  ir_OrganizationID :: string
  ir_AgentID :: string
  ir_InboxID :: string
  ir_EnvelopeSender :: string
  ir_EnvelopeRecipients :: "string list"
  ir_RawMessageObjectKey :: string
  ir_ReceivedAt :: gtime

record stored_inbound_message =
  sm_Receipt :: inbound_receipt
  sm_RawSizeBytes :: int

record parsed_address =
  pa_Email :: string
  pa_DisplayName :: string

record parsed_attachment =
  pt_FileName :: string
  pt_ContentType :: string
  pt_ObjectKey :: string
  pt_SizeBytes :: int
  pt_ContentID :: string
  pt_ContentDisposition :: string

record parsed_message =
  pm_MessageIDHeader :: string
  pm_InReplyTo :: string
  pm_References :: "string list"
  pm_Subject :: string
  pm_SubjectNormalized :: string
  pm_TextBody :: string
  pm_HTMLBody :: string
  pm_From :: parsed_address
  pm_ReplyTo :: "parsed_address list"
  pm_To :: "parsed_address list"
  pm_CC :: "parsed_address list"
  pm_Attachments :: "parsed_attachment list"
  pm_RawHeaders :: "string list gmap"

record thread_resolution_input =
  ti_OrganizationID :: string
  ti_AgentID :: string
  ti_InboxID :: string
  ti_ContactID :: string
  ti_ParsedMessage :: parsed_message
  ti_ReceivedAt :: gtime

record thread_resolution_result =
  tr_Thread :: thread
  tr_MatchedBy :: string
  tr_Created :: bool

record contact_resolution_input =
  ci_OrganizationID :: string
  ci_ParsedMessage :: parsed_message
  ci_ReceivedAt :: gtime

record contact_resolution_result =
  cr_Contact :: contact
  cr_Created :: bool

record webhook_dispatch_request =
  wq_Delivery :: webhook_delivery
  wq_Payload :: string
  wq_Headers :: "string gmap"

record webhook_dispatch_result =
  wr_StatusCode :: int
  wr_Body :: string
  wr_DeliveredAt :: gtime

record outbound_send_request =
  os_Organization :: organization
  os_Agent :: agent
  os_Inbox :: inbox
  os_Thread :: thread
  os_Contact :: contact
  os_Message :: message
  os_RawMIME :: string

record send_result =
  sr_ProviderMessageID :: string
  sr_AcceptedAt :: gtime

record delivery_status =
  ds_ProviderMessageID :: string
  ds_State :: string
  ds_UpdatedAt :: gtime

record provider_health =
  ph_ProviderName :: string
  ph_Healthy :: bool
  ph_CheckedAt :: gtime
  ph_Details :: string

text \<open>\<open>core.EmailProvider\<close>: the operations of an outbound provider.\<close>

record 's email_provider =
  ep_Send :: "outbound_send_request \<Rightarrow> ('s, send_result) go"
  ep_GetDeliveryStatus :: "string \<Rightarrow> ('s, delivery_status) go"
  ep_HealthCheck :: "('s, provider_health) go"

section \<open>Generated identifiers\<close>

text \<open>
  Every package has its own copy of the same generator: eight random bytes in hexadecimal
  behind a prefix, or a fixed string when the random source fails
  (\<open>newThreadID\<close>, \<open>newContactID\<close>, \<open>newMessageID\<close>, ...).
\<close>

definition random_id :: "string \<Rightarrow> string \<Rightarrow> ('z env_scheme, string) go" where
  "random_id prefix fallback = go_bind (rand_read 8) (\<lambda>r. case r of
       None \<Rightarrow> go_ret fallback
     | Some buf \<Rightarrow> go_ret (prefix @ hex_encode buf))"

lemma random_id_run:
  "random_id p f s =
     (Inr (case rand_src s (rand_ix s) 8 of None \<Rightarrow> f
           | Some b \<Rightarrow> p @ hex_encode (take 8 (b @ replicate 8 (CHR 0x00)))),
      s\<lparr>rand_ix := Suc (rand_ix s)\<rparr>)"
  by (simp add: random_id_def rand_read_def go_bind_def split: option.splits)

lemma random_id_length:
  "random_id p f s = (Inr i, s') \<Longrightarrow> i = f \<or> length i = length p + 16"
  by (auto simp: random_id_run length_hex_encode split: option.splits)

lemma random_id_nonempty:
  "random_id p f s = (Inr i, s') \<Longrightarrow> f \<noteq> [] \<Longrightarrow> i \<noteq> []"
  using random_id_length by force

lemma random_id_state: "random_id p f s = (r, s') \<Longrightarrow> s' = s\<lparr>rand_ix := Suc (rand_ix s)\<rparr>"
  by (simp add: random_id_run)

lemma random_id_returns: "\<exists>i. random_id p f s = (Inr i, s\<lparr>rand_ix := Suc (rand_ix s)\<rparr>)"
  by (simp add: random_id_run)

end
