(* ===== verification/Sha256.thy ===== *)
theory Sha256
  imports Go_Strings "HOL-Library.Word"
begin

text \<open>
  \<open>crypto/sha256\<close> and \<open>crypto/hmac\<close> as the code uses them: the one-shot digest of a byte
  string (FIPS 180-4) and the keyed digest built on it (RFC 2104), on 32-bit words.
\<close>

unbundle bit_operations_syntax

section \<open>The compression function\<close>

type_synonym w32 = "32 word"

text \<open>
  The standard takes its constants from the fractional parts of square and cube roots of the first
  primes, 32 bits of each. \<open>int_root k n\<close> finds the integer \<open>k\<close>-th root of \<open>n\<close> from its highest bit
  down; scaling a prime by \<open>2 ^ (32 * k)\<close> puts 32 fractional bits into the integer root, and the
  conversion to a word drops its integer part.
\<close>

definition int_root :: "nat \<Rightarrow> int \<Rightarrow> int" where
  "int_root k n = fold (\<lambda>b r. if (r + b) ^ k \<le> n then r + b else r) (map (\<lambda>i. 2 ^ i) (rev [0..<40])) 0"

definition root_fraction :: "nat \<Rightarrow> int \<Rightarrow> w32" where
  "root_fraction k p = of_int (int_root k (p * 2 ^ (32 * k)))"

definition first_primes :: "int list" where
  "first_primes =
    [2, 3, 5, 7, 11, 13, 17, 19, 23, 29, 31, 37, 41, 43, 47, 53,
     59, 61, 67, 71, 73, 79, 83, 89, 97, 101, 103, 107, 109, 113, 127, 131,
     137, 139, 149, 151, 157, 163, 167, 173, 179, 181, 191, 193, 197, 199, 211, 223,
     227, 229, 233, 239, 241, 251, 257, 263, 269, 271, 277, 281, 283, 293, 307, 311]"

definition sha_k :: "w32 list" where
  "sha_k = map (root_fraction 3) first_primes"

definition sha_init :: "w32 list" where
  "sha_init = map (root_fraction 2) (take 8 first_primes)"

lemma root_fraction_examples:
  "root_fraction 3 2 = 0x428a2f98" "root_fraction 3 311 = 0xc67178f2" "root_fraction 2 19 = 0x5be0cd19"
  by (simp_all add: root_fraction_def int_root_def upt_conv_Cons)

definition rotr :: "nat \<Rightarrow> w32 \<Rightarrow> w32" where
  "rotr n x = drop_bit n x OR push_bit (32 - n) x"

definition small_sigma0 :: "w32 \<Rightarrow> w32" where
  "small_sigma0 x = rotr 7 x XOR rotr 18 x XOR drop_bit 3 x"

definition small_sigma1 :: "w32 \<Rightarrow> w32" where
  "small_sigma1 x = rotr 17 x XOR rotr 19 x XOR drop_bit 10 x"

definition big_sigma0 :: "w32 \<Rightarrow> w32" where
  "big_sigma0 x = rotr 2 x XOR rotr 13 x XOR rotr 22 x"

definition big_sigma1 :: "w32 \<Rightarrow> w32" where
  "big_sigma1 x = rotr 6 x XOR rotr 11 x XOR rotr 25 x"

text \<open>The message schedule, newest word first: 48 words added to the 16 of the block.\<close>

fun extend_schedule :: "nat \<Rightarrow> w32 list \<Rightarrow> w32 list" where
  "extend_schedule 0 ws = ws"
| "extend_schedule (Suc n) ws =
     extend_schedule n
       ((small_sigma1 (ws ! 1) + ws ! 6 + small_sigma0 (ws ! 14) + ws ! 15) # ws)"

fun sha_round :: "w32 list \<Rightarrow> w32 \<times> w32 \<Rightarrow> w32 list" where
  "sha_round [a, b, c, d, e, f, g, h] (k, w) =
     (let t1 = h + big_sigma1 e + ((e AND f) XOR (NOT e AND g)) + k + w;
          t2 = big_sigma0 a + ((a AND b) XOR (a AND c) XOR (b AND c))
      in [t1 + t2, a, b, c, d + t1, e, f, g])"
| "sha_round hs _ = hs"

definition compress :: "w32 list \<Rightarrow> w32 list \<Rightarrow> w32 list" where
  "compress hs block =
     map2 (+) hs (fold (\<lambda>kw s. sha_round s kw) (zip sha_k (rev (extend_schedule 48 (rev block)))) hs)"

section \<open>Padding and the digest\<close>

definition char_word :: "char \<Rightarrow> w32" where
  "char_word c = of_nat (byte_of c)"

definition be_word :: "char \<Rightarrow> char \<Rightarrow> char \<Rightarrow> char \<Rightarrow> w32" where
  "be_word a b c d =
     push_bit 24 (char_word a) OR push_bit 16 (char_word b) OR push_bit 8 (char_word c) OR char_word d"

fun be_words :: "string \<Rightarrow> w32 list" where
  "be_words (a # b # c # d # s) = be_word a b c d # be_words s"
| "be_words _ = []"

definition word_bytes :: "w32 \<Rightarrow> string" where
  "word_bytes w = map (\<lambda>n. char_of (unat (drop_bit n w) mod 256)) [24, 16, 8, 0]"

definition be_bytes64 :: "nat \<Rightarrow> string" where
  "be_bytes64 n = map (\<lambda>i. char_of (n div 256 ^ i mod 256)) [7, 6, 5, 4, 3, 2, 1, 0]"

definition sha_pad :: "string \<Rightarrow> string" where
  "sha_pad s =
     s @ [CHR 0x80] @ replicate ((119 - length s mod 64) mod 64) (CHR 0x00) @
     be_bytes64 (8 * length s)"

fun blocks :: "nat \<Rightarrow> w32 list \<Rightarrow> w32 list list" where
  "blocks 0 ws = []"
| "blocks (Suc n) ws = take 16 ws # blocks n (drop 16 ws)"

definition sha256 :: "string \<Rightarrow> string" where
  "sha256 s =
     (let p = sha_pad s
      in concat (map word_bytes (fold (\<lambda>b h. compress h b) (blocks (length p div 64) (be_words p)) sha_init)))"

section \<open>HMAC\<close>

definition xor_bytes :: "nat \<Rightarrow> string \<Rightarrow> string" where
  "xor_bytes n s = map (\<lambda>c. char_of (byte_of c XOR n)) s"

definition hmac_key :: "string \<Rightarrow> string" where
  "hmac_key key =
     (let k = (if 64 < length key then sha256 key else key)
      in k @ replicate (64 - length k) (CHR 0x00))"

definition hmac_sha256 :: "string \<Rightarrow> string \<Rightarrow> string" where
  "hmac_sha256 key msg =
     sha256 (xor_bytes 92 (hmac_key key) @ sha256 (xor_bytes 54 (hmac_key key) @ msg))"

lemma pad_mod:
  assumes "m < 64"
  shows "(m + ((119 - m) mod 64 + 9)) mod 64 = (0::nat)"
proof (cases "m \<le> 55")
  case True
  then have "119 - m = (55 - m) + 64" by linarith
  then have "(119 - m) mod 64 = (55 - m) mod 64" by (simp only: mod_add_self2)
  also have "\<dots> = 55 - m" by (rule mod_less) linarith
  finally have "m + ((119 - m) mod 64 + 9) = 64" using True by linarith
  then show ?thesis by (simp only: mod_self)
next
  case False
  then have "(119 - m) mod 64 = 119 - m" by (intro mod_less) linarith
  then have "m + ((119 - m) mod 64 + 9) = 2 * 64" using assms by linarith
  then show ?thesis by (simp only: mod_mult_self2_is_0)
qed

lemma length_sha_pad: "length (sha_pad s) mod 64 = 0"
proof -
  have "length (sha_pad s) = length s + ((119 - length s mod 64) mod 64 + 9)"
    by (simp add: sha_pad_def be_bytes64_def)
  also have "\<dots> mod 64 = (length s mod 64 + ((119 - length s mod 64) mod 64 + 9)) mod 64"
    by (simp only: mod_add_left_eq)
  also have "\<dots> = 0" by (rule pad_mod) simp
  finally show ?thesis .
qed

end
