(* ===== verification/Receipt.thy ===== *)
theory Receipt
  imports Domain Sha256
begin

text \<open>
  The durable hand-off contract from the SMTP edge (\<open>internal/inbound/receipt.go\<close>) and the
  idempotency keys (\<open>internal/platform/idempotency/keys.go\<close>).
\<close>

section \<open>Durable receipts\<close>

record durable_receipt_request =
  dr_SMTPTransactionID :: string
  dr_OrganizationID :: string
  dr_AgentID :: string
  dr_InboxID :: string
  dr_EnvelopeSender :: string
  dr_EnvelopeRecipients :: "string list"
  dr_RawMessageObjectKey :: string
  dr_ReceivedAt :: gtime

definition Validate :: "durable_receipt_request \<Rightarrow> gerr option" where
  "Validate r =
     (if dr_SMTPTransactionID r = [] then Some (ErrMsg ''smtp transaction id is required'')
      else if dr_OrganizationID r = [] then Some (ErrMsg ''organization id is required'')
      else if dr_AgentID r = [] then Some (ErrMsg ''agent id is required'')
      else if dr_InboxID r = [] then Some (ErrMsg ''inbox id is required'')
      else if dr_EnvelopeSender r = [] then Some (ErrMsg ''envelope sender is required'')
      else if length (dr_EnvelopeRecipients r) = 0
        then Some (ErrMsg ''at least one envelope recipient is required'')
      else if dr_RawMessageObjectKey r = [] then Some (ErrMsg ''raw message object key is required'')
      else if is_zero_time (dr_ReceivedAt r) then Some (ErrMsg ''received at is required'')
      else None)"

text \<open>
  The conversion \<open>core.InboundReceipt{...}\<close> that both \<open>ReceiptHandlerSink.Enqueue\<close> and
  \<open>InboundReprocessService.ReprocessByObjectKey\<close> write out field by field.
\<close>

definition receipt_to_inbound :: "durable_receipt_request \<Rightarrow> inbound_receipt" where
  "receipt_to_inbound r =
     \<lparr>ir_SMTPTransactionID = dr_SMTPTransactionID r,
      ir_OrganizationID = dr_OrganizationID r,
      ir_AgentID = dr_AgentID r,
      ir_InboxID = dr_InboxID r,
      ir_EnvelopeSender = dr_EnvelopeSender r,
      ir_EnvelopeRecipients = dr_EnvelopeRecipients r,
      ir_RawMessageObjectKey = dr_RawMessageObjectKey r,
      ir_ReceivedAt = dr_ReceivedAt r\<rparr>"

lemma Validate_None_iff:
  "Validate r = None \<longleftrightarrow>
     dr_SMTPTransactionID r \<noteq> [] \<and> dr_OrganizationID r \<noteq> [] \<and> dr_AgentID r \<noteq> [] \<and>
     dr_InboxID r \<noteq> [] \<and> dr_EnvelopeSender r \<noteq> [] \<and> dr_EnvelopeRecipients r \<noteq> [] \<and>
     dr_RawMessageObjectKey r \<noteq> [] \<and> dr_ReceivedAt r \<noteq> 0"
  by (simp add: Validate_def is_zero_time_def)

section \<open>Idempotency keys\<close>

definition scopedKey :: "string \<Rightarrow> string \<Rightarrow> string \<Rightarrow> string" where
  "scopedKey scope primary secondary =
     scope @ '':'' @ hex_encode (sha256 (scope @ '':'' @ primary @ '':'' @ secondary))"

definition InboundMessageKey :: "string \<Rightarrow> string \<Rightarrow> string" where
  "InboundMessageKey inboxID messageIDHeader = scopedKey ''inbound'' inboxID messageIDHeader"

definition ReplySubmissionKey :: "string \<Rightarrow> string \<Rightarrow> string" where
  "ReplySubmissionKey threadID requestID = scopedKey ''reply'' threadID requestID"

text \<open>Splitting at the first colon recovers the two parts when the first part has none.\<close>

lemma colon_split:
  assumes "CHR '':'' \<notin> set a" and "CHR '':'' \<notin> set a'"
    and "a @ '':'' @ b = a' @ '':'' @ b'"
  shows "a = a' \<and> b = b'"
  using assms by (simp add: append_eq_append_conv2) (auto simp: append_eq_Cons_conv Cons_eq_append_conv)

lemma scopedKey_eq_iff:
  "scopedKey sc p q = scopedKey sc p' q' \<longleftrightarrow>
     sha256 (sc @ '':'' @ p @ '':'' @ q) = sha256 (sc @ '':'' @ p' @ '':'' @ q')"
  by (simp add: scopedKey_def hex_encode_inj)

text \<open>
  The bytes \<open>scopedKey\<close> hashes. Two keys of one scope agree only if their parts agree or
  these very byte strings are a SHA-256 collision, provided the first parts hold no colon.
\<close>

definition scoped_input :: "string \<Rightarrow> string \<Rightarrow> string \<Rightarrow> string" where
  "scoped_input scope primary secondary = scope @ '':'' @ primary @ '':'' @ secondary"

lemma scoped_input_inj:
  assumes "CHR '':'' \<notin> set p" and "CHR '':'' \<notin> set p'"
    and "scoped_input sc p q = scoped_input sc p' q'"
  shows "p = p' \<and> q = q'"
proof -
  from assms(3) have "p @ '':'' @ q = p' @ '':'' @ q'" by (simp add: scoped_input_def)
  with assms(1,2) show ?thesis by (rule colon_split)
qed

lemma scopedKey_cases:
  assumes "CHR '':'' \<notin> set p" and "CHR '':'' \<notin> set p'"
    and "scopedKey sc p q = scopedKey sc p' q'"
  shows "(p = p' \<and> q = q') \<or>
    (scoped_input sc p q \<noteq> scoped_input sc p' q' \<and>
     sha256 (scoped_input sc p q) = sha256 (scoped_input sc p' q'))"
proof (cases "scoped_input sc p q = scoped_input sc p' q'")
  case True
  with assms(1,2) show ?thesis using scoped_input_inj by blast
next
  case False
  moreover from assms(3) have "sha256 (scoped_input sc p q) = sha256 (scoped_input sc p' q')"
    unfolding scopedKey_eq_iff scoped_input_def .
  ultimately show ?thesis by blast
qed

end
