(* ===== verification/Memory_Store.thy ===== *)
theory Memory_Store
  imports Receipt "HOL-Library.Char_ord" "HOL-Library.List_Lexorder"
begin

text \<open>
  The in-memory runtime store, \<open>internal/store/memory/store.go\<close>: the \<open>Store\<close> struct as the
  record \<open>mem_store\<close>, one definition per method. The mutex makes every method atomic, so a
  method is one function on the whole store. A method that ranges over a map takes the
  iteration order as its first argument.
\<close>

section \<open>State\<close>

record mem_store =
  organizationsByID :: "organization gmap"
  agentsByID :: "agent gmap"
  rawMessages :: "string gmap"
  inboxesByID :: "inbox gmap"
  inboxesByEmail :: "inbox gmap"
  inboundReceiptsByKey :: "durable_receipt_request gmap"
  contactsByID :: "contact gmap"
  contactsByEmail :: "contact gmap"
  threadsByID :: "thread gmap"
  messagesByID :: "message gmap"
  messagesByInboundKey :: "string gmap"
  messagesByProviderID :: "message gmap"
  messagesByThreadID :: "string list gmap"
  replySubmissionsByKey :: "string gmap"
  memoriesByID :: "contact_memory_entry gmap"
  memoriesByContactID :: "string list gmap"
  suppressionsByID :: "suppressed_address gmap"
  webhookDeliveriesByID :: "webhook_delivery gmap"

definition NewStore :: mem_store where
  "NewStore = \<lparr>organizationsByID = [], agentsByID = [], rawMessages = [], inboxesByID = [],
     inboxesByEmail = [], inboundReceiptsByKey = [], contactsByID = [], contactsByEmail = [],
     threadsByID = [], messagesByID = [], messagesByInboundKey = [], messagesByProviderID = [],
     messagesByThreadID = [], replySubmissionsByKey = [], memoriesByID = [],
     memoriesByContactID = [], suppressionsByID = [], webhookDeliveriesByID = []\<rparr>"

text \<open>\<open>v, ok := m[k]; if !ok { return ErrNotFound: what }\<close>\<close>

definition found_or :: "string \<Rightarrow> 'v option \<Rightarrow> gerr + 'v" where
  "found_or what r = (case r of None \<Rightarrow> Inl (ErrNotFound what) | Some v \<Rightarrow> Inr v)"

text \<open>\<open>m[k]\<close> for a map of slices: a missing key reads as the nil slice.\<close>

definition slice_at :: "'v list gmap \<Rightarrow> string \<Rightarrow> 'v list" where
  "slice_at m k = (case map_of m k of None \<Rightarrow> [] | Some xs \<Rightarrow> xs)"

text \<open>\<open>if limit > 0 && len(out) > limit { out = out[:limit] }\<close>\<close>

definition take_limit :: "int \<Rightarrow> 'a list \<Rightarrow> 'a list" where
  "take_limit limit out =
     (if 0 < limit \<and> limit < int (length out) then take (nat limit) out else out)"

section \<open>Recency order\<close>

text \<open>
  The comparison the three \<open>List...\<close> methods give to \<open>sort.Slice\<close>: the later time first,
  and the larger key first when the times are equal.
\<close>

datatype recency = Recency (rec_time: gtime) (rec_key: string)

instantiation recency :: linorder
begin

definition less_eq_recency :: "recency \<Rightarrow> recency \<Rightarrow> bool" where
  "less_eq_recency a b \<longleftrightarrow>
     rec_time b < rec_time a \<or> (rec_time a = rec_time b \<and> rec_key b \<le> rec_key a)"

definition less_recency :: "recency \<Rightarrow> recency \<Rightarrow> bool" where
  "less_recency a b \<longleftrightarrow>
     rec_time b < rec_time a \<or> (rec_time a = rec_time b \<and> rec_key b < rec_key a)"

instance
  by standard (auto simp: less_eq_recency_def less_recency_def intro: recency.expand)

end

definition receipt_recency :: "durable_receipt_request \<Rightarrow> recency" where
  "receipt_recency r = Recency (dr_ReceivedAt r) (dr_RawMessageObjectKey r)"

definition suppression_recency :: "suppressed_address \<Rightarrow> recency" where
  "suppression_recency r = Recency (sa_UpdatedAt r) (sa_ID r)"

definition delivery_recency :: "webhook_delivery \<Rightarrow> recency" where
  "delivery_recency d = Recency (wd_UpdatedAt d) (wd_ID d)"

section \<open>Bootstrap records\<close>

definition Store_SeedInbox :: "inbox \<Rightarrow> (mem_store, unit) go" where
  "Store_SeedInbox inbox = (\<lambda>s. (Inr (),
     s\<lparr>inboxesByID := gput (i_ID inbox) inbox (inboxesByID s),
       inboxesByEmail := gput (i_EmailAddress inbox) inbox (inboxesByEmail s)\<rparr>))"

definition Store_SaveOrganization :: "organization \<Rightarrow> (mem_store, organization) go" where
  "Store_SaveOrganization organization = (\<lambda>s. (Inr organization,
     s\<lparr>organizationsByID := gput (o_ID organization) organization (organizationsByID s)\<rparr>))"

definition Store_GetOrganizationByID :: "string \<Rightarrow> (mem_store, organization) go" where
  "Store_GetOrganizationByID organizationID = (\<lambda>s.
     (found_or ''organization'' (map_of (organizationsByID s) organizationID), s))"

definition Store_SaveAgent :: "agent \<Rightarrow> (mem_store, agent) go" where
  "Store_SaveAgent agent = (\<lambda>s. (Inr agent,
     s\<lparr>agentsByID := gput (ag_ID agent) agent (agentsByID s)\<rparr>))"

definition Store_GetAgentByID :: "string \<Rightarrow> (mem_store, agent) go" where
  "Store_GetAgentByID agentID = (\<lambda>s. (found_or ''agent'' (map_of (agentsByID s) agentID), s))"

definition Store_SaveInbox :: "inbox \<Rightarrow> (mem_store, inbox) go" where
  "Store_SaveInbox inbox = (\<lambda>s. (Inr inbox,
     s\<lparr>inboxesByID := gput (i_ID inbox) inbox (inboxesByID s),
       inboxesByEmail := gput (i_EmailAddress inbox) inbox (inboxesByEmail s)\<rparr>))"

definition Store_GetInboxByID :: "string \<Rightarrow> (mem_store, inbox) go" where
  "Store_GetInboxByID inboxID = (\<lambda>s. (found_or ''inbox'' (map_of (inboxesByID s) inboxID), s))"

definition Store_FindByEmailAddress :: "string \<Rightarrow> (mem_store, inbox option) go" where
  "Store_FindByEmailAddress emailAddress = (\<lambda>s. (Inr (map_of (inboxesByEmail s) emailAddress), s))"

section \<open>Raw messages and receipts\<close>

definition Store_Put :: "string \<Rightarrow> string \<Rightarrow> (mem_store, unit) go" where
  "Store_Put objectKey data = (\<lambda>s. (Inr (), s\<lparr>rawMessages := gput objectKey data (rawMessages s)\<rparr>))"

definition Store_Get :: "string \<Rightarrow> (mem_store, string) go" where
  "Store_Get objectKey = (\<lambda>s. (found_or ''raw message'' (map_of (rawMessages s) objectKey), s))"

definition Store_SaveInboundReceipt :: "durable_receipt_request \<Rightarrow> (mem_store, unit) go" where
  "Store_SaveInboundReceipt receipt = (\<lambda>s. (Inr (),
     s\<lparr>inboundReceiptsByKey := gput (dr_RawMessageObjectKey receipt) receipt (inboundReceiptsByKey s)\<rparr>))"

definition Store_GetInboundReceiptByObjectKey :: "string \<Rightarrow> (mem_store, durable_receipt_request) go" where
  "Store_GetInboundReceiptByObjectKey objectKey = (\<lambda>s.
     (found_or ''inbound receipt'' (map_of (inboundReceiptsByKey s) objectKey), s))"

definition Store_ListInboundReceipts ::
    "(string list \<Rightarrow> string list) \<Rightarrow> int \<Rightarrow> (mem_store, durable_receipt_request list) go" where
  "Store_ListInboundReceipts ord limit = (\<lambda>s.
     (Inr (take_limit limit (sort_key receipt_recency (grange ord (inboundReceiptsByKey s)))), s))"

section \<open>Contacts\<close>

definition Store_FindByEmail :: "string \<Rightarrow> string \<Rightarrow> (mem_store, contact option) go" where
  "Store_FindByEmail organizationID emailAddress = (\<lambda>s.
     (Inr (map_of (contactsByEmail s) emailAddress), s))"

definition Store_UpsertByEmail :: "contact \<Rightarrow> (mem_store, contact) go" where
  "Store_UpsertByEmail contact = (\<lambda>s. (Inr contact,
     s\<lparr>contactsByID := gput (c_ID contact) contact (contactsByID s),
       contactsByEmail := gput (c_EmailAddress contact) contact (contactsByEmail s)\<rparr>))"

definition Store_GetContactByID :: "string \<Rightarrow> (mem_store, contact) go" where
  "Store_GetContactByID contactID = (\<lambda>s. (found_or ''contact'' (map_of (contactsByID s) contactID), s))"

section \<open>Threads\<close>

definition Store_GetByID :: "string \<Rightarrow> (mem_store, thread) go" where
  "Store_GetByID threadID = (\<lambda>s. (found_or ''thread'' (map_of (threadsByID s) threadID), s))"

text \<open>\<open>Save\<close> fills six empty fields of the argument from the stored thread; the other fields
  are replaced.\<close>

definition or_else :: "string \<Rightarrow> string \<Rightarrow> string" where
  "or_else a b = (if a = [] then b else a)"

definition merge_thread :: "thread \<Rightarrow> thread \<Rightarrow> thread" where
  "merge_thread existing thread = thread\<lparr>
     t_OrganizationID := or_else (t_OrganizationID thread) (t_OrganizationID existing),
     t_AgentID := or_else (t_AgentID thread) (t_AgentID existing),
     t_InboxID := or_else (t_InboxID thread) (t_InboxID existing),
     t_ContactID := or_else (t_ContactID thread) (t_ContactID existing),
     t_SubjectNormalized := or_else (t_SubjectNormalized thread) (t_SubjectNormalized existing),
     t_State := or_else (t_State thread) (t_State existing)\<rparr>"

definition Store_Save :: "thread \<Rightarrow> (mem_store, thread) go" where
  "Store_Save thread = (\<lambda>s.
     let thread' = (case map_of (threadsByID s) (t_ID thread) of
                      None \<Rightarrow> thread
                    | Some existing \<Rightarrow> merge_thread existing thread)
     in (Inr thread', s\<lparr>threadsByID := gput (t_ID thread) thread' (threadsByID s)\<rparr>))"

definition Store_FindByMessageID ::
    "(string list \<Rightarrow> string list) \<Rightarrow> string \<Rightarrow> (mem_store, thread option) go" where
  "Store_FindByMessageID ord messageID = (\<lambda>s.
     (Inr (case List.find (\<lambda>message. m_MessageIDHeader message = messageID)
                  (grange ord (messagesByID s)) of
             None \<Rightarrow> None
           | Some message \<Rightarrow> map_of (threadsByID s) (m_ThreadID message)), s))"

text \<open>The loop of \<open>FindMostRecentBySubject\<close>: the best thread so far, replaced only by a
  strictly later one.\<close>

definition subject_matches :: "string \<Rightarrow> string \<Rightarrow> string \<Rightarrow> string \<Rightarrow> thread \<Rightarrow> bool" where
  "subject_matches organizationID inboxID contactID subjectNormalized thread \<longleftrightarrow>
     t_OrganizationID thread = organizationID \<and> t_InboxID thread = inboxID \<and>
     t_ContactID thread = contactID \<and> t_SubjectNormalized thread = subjectNormalized"

fun most_recent :: "(thread \<Rightarrow> bool) \<Rightarrow> thread option \<Rightarrow> thread list \<Rightarrow> thread option" where
  "most_recent P best [] = best"
| "most_recent P best (thread # rest) =
     (if \<not> P thread then most_recent P best rest
      else case best of
        None \<Rightarrow> most_recent P (Some thread) rest
      | Some b \<Rightarrow>
          if time_after (t_LastActivityAt thread) (t_LastActivityAt b)
          then most_recent P (Some thread) rest
          else most_recent P best rest)"

definition Store_FindMostRecentBySubject ::
    "(string list \<Rightarrow> string list) \<Rightarrow> string \<Rightarrow> string \<Rightarrow> string \<Rightarrow> string \<Rightarrow> (mem_store, thread option) go" where
  "Store_FindMostRecentBySubject ord organizationID inboxID contactID subjectNormalized = (\<lambda>s.
     (Inr (most_recent (subject_matches organizationID inboxID contactID subjectNormalized) None
             (grange ord (threadsByID s))), s))"

section \<open>Messages\<close>

text \<open>The part \<open>Create\<close> and \<open>SaveMessage\<close> share: the message and its two indexes.\<close>

definition index_message :: "message \<Rightarrow> mem_store \<Rightarrow> mem_store" where
  "index_message message s =
     (let s1 = s\<lparr>messagesByID := gput (m_ID message) message (messagesByID s)\<rparr>;
          s2 = (if m_InboxID message \<noteq> [] \<and> m_MessageIDHeader message \<noteq> []
                then s1\<lparr>messagesByInboundKey :=
                  gput (InboundMessageKey (m_InboxID message) (m_MessageIDHeader message))
                    (m_ID message) (messagesByInboundKey s1)\<rparr>
                else s1)
      in (if m_ProviderMessageID message \<noteq> []
          then s2\<lparr>messagesByProviderID :=
            gput (m_ProviderMessageID message) message (messagesByProviderID s2)\<rparr>
          else s2))"

definition Store_Create :: "message \<Rightarrow> (mem_store, message) go" where
  "Store_Create message = (\<lambda>s.
     let s' = index_message message s
     in (Inr message,
         if m_ThreadID message \<noteq> []
         then s'\<lparr>messagesByThreadID :=
           gput (m_ThreadID message)
             (slice_at (messagesByThreadID s') (m_ThreadID message) @ [m_ID message])
             (messagesByThreadID s')\<rparr>
         else s'))"

definition Store_SaveMessage :: "message \<Rightarrow> (mem_store, message) go" where
  "Store_SaveMessage message = (\<lambda>s. (Inr message, index_message message s))"

definition Store_FindInboundByHeader :: "string \<Rightarrow> string \<Rightarrow> (mem_store, message option) go" where
  "Store_FindInboundByHeader inboxID messageIDHeader = (\<lambda>s.
     (Inr (case map_of (messagesByInboundKey s) (InboundMessageKey inboxID messageIDHeader) of
             None \<Rightarrow> None
           | Some messageID \<Rightarrow> map_of (messagesByID s) messageID), s))"

definition Store_ListByThreadID :: "string \<Rightarrow> int \<Rightarrow> (mem_store, message list) go" where
  "Store_ListByThreadID threadID limit = (\<lambda>s.
     (Inr (map (\<lambda>i. case map_of (messagesByID s) i of None \<Rightarrow> zero_message | Some m \<Rightarrow> m)
             (take_limit limit (slice_at (messagesByThreadID s) threadID))), s))"

definition Store_FindByProviderMessageID :: "string \<Rightarrow> (mem_store, message option) go" where
  "Store_FindByProviderMessageID providerMessageID = (\<lambda>s.
     (Inr (map_of (messagesByProviderID s) providerMessageID), s))"

definition Store_GetMessageByID :: "string \<Rightarrow> (mem_store, message) go" where
  "Store_GetMessageByID messageID = (\<lambda>s. (found_or ''message'' (map_of (messagesByID s) messageID), s))"

definition Store_SaveReplySubmission :: "string \<Rightarrow> string \<Rightarrow> (mem_store, unit) go" where
  "Store_SaveReplySubmission submissionKey messageID = (\<lambda>s. (Inr (),
     s\<lparr>replySubmissionsByKey := gput submissionKey messageID (replySubmissionsByKey s)\<rparr>))"

definition Store_FindReplyBySubmissionKey :: "string \<Rightarrow> (mem_store, message option) go" where
  "Store_FindReplyBySubmissionKey submissionKey = (\<lambda>s.
     (Inr (case map_of (replySubmissionsByKey s) submissionKey of
             None \<Rightarrow> None
           | Some messageID \<Rightarrow> map_of (messagesByID s) messageID), s))"

section \<open>Contact memory\<close>

definition Store_CreateMemory :: "contact_memory_entry \<Rightarrow> (mem_store, contact_memory_entry) go" where
  "Store_CreateMemory entry = (\<lambda>s.
     let s' = s\<lparr>memoriesByID := gput (cm_ID entry) entry (memoriesByID s)\<rparr>
     in (Inr entry,
         if cm_ContactID entry \<noteq> []
         then s'\<lparr>memoriesByContactID :=
           gput (cm_ContactID entry)
             (slice_at (memoriesByContactID s') (cm_ContactID entry) @ [cm_ID entry])
             (memoriesByContactID s')\<rparr>
         else s'))"

definition Store_ListMemoryByContactID :: "string \<Rightarrow> int \<Rightarrow> (mem_store, contact_memory_entry list) go" where
  "Store_ListMemoryByContactID contactID limit = (\<lambda>s.
     (Inr (map (\<lambda>i. case map_of (memoriesByID s) i of None \<Rightarrow> zero_memory | Some e \<Rightarrow> e)
             (take_limit limit (slice_at (memoriesByContactID s) contactID))), s))"

section \<open>Suppressions\<close>

definition Store_SaveSuppression :: "suppressed_address \<Rightarrow> (mem_store, suppressed_address) go" where
  "Store_SaveSuppression record = (\<lambda>s. (Inr record,
     s\<lparr>suppressionsByID := gput (sa_ID record) record (suppressionsByID s)\<rparr>))"

definition Store_IsSuppressed ::
    "(string list \<Rightarrow> string list) \<Rightarrow> string \<Rightarrow> string \<Rightarrow> (mem_store, bool) go" where
  "Store_IsSuppressed ord organizationID emailAddress = (\<lambda>s.
     (Inr (list_ex (\<lambda>record. sa_OrganizationID record = organizationID \<and>
                            sa_EmailAddress record = emailAddress)
             (grange ord (suppressionsByID s))), s))"

definition Store_GetSuppressionByID :: "string \<Rightarrow> (mem_store, suppressed_address) go" where
  "Store_GetSuppressionByID suppressionID = (\<lambda>s.
     (found_or ''suppression'' (map_of (suppressionsByID s) suppressionID), s))"

definition Store_ListSuppressions ::
    "(string list \<Rightarrow> string list) \<Rightarrow> int \<Rightarrow> (mem_store, suppressed_address list) go" where
  "Store_ListSuppressions ord limit = (\<lambda>s.
     (Inr (take_limit limit (sort_key suppression_recency (grange ord (suppressionsByID s)))), s))"

section \<open>Webhook deliveries\<close>

definition Store_SaveWebhookDelivery :: "webhook_delivery \<Rightarrow> (mem_store, webhook_delivery) go" where
  "Store_SaveWebhookDelivery delivery = (\<lambda>s. (Inr delivery,
     s\<lparr>webhookDeliveriesByID := gput (wd_ID delivery) delivery (webhookDeliveriesByID s)\<rparr>))"

definition Store_GetWebhookDeliveryByID :: "string \<Rightarrow> (mem_store, webhook_delivery) go" where
  "Store_GetWebhookDeliveryByID deliveryID = (\<lambda>s.
     (found_or ''webhook delivery'' (map_of (webhookDeliveriesByID s) deliveryID), s))"

definition Store_ListWebhookDeliveries ::
    "(string list \<Rightarrow> string list) \<Rightarrow> int \<Rightarrow> (mem_store, webhook_delivery list) go" where
  "Store_ListWebhookDeliveries ord limit = (\<lambda>s.
     (Inr (take_limit limit (sort_key delivery_recency (grange ord (webhookDeliveriesByID s)))), s))"

end
