(* ===== verification/Memory_Laws.thy ===== *)
theory Memory_Laws
  imports Memory_Store
begin

text \<open>
  What the in-memory store guarantees: a well-formedness invariant that every method keeps,
  the lookup laws, and the exact contents of the three sorted listings.
\<close>

section \<open>Well-formed stores\<close>

text \<open>\<open>keyed f m\<close>: every value is stored under the key its field \<open>f\<close> names.\<close>

definition keyed :: "('v \<Rightarrow> string) \<Rightarrow> 'v gmap \<Rightarrow> bool" where
  "keyed f m \<longleftrightarrow> gmap_ok m \<and> (\<forall>k v. map_of m k = Some v \<longrightarrow> f v = k)"

text \<open>\<open>points_into xs m\<close>: the ids listed in the index \<open>xs\<close> exist in \<open>m\<close>.\<close>

definition points_into :: "string list gmap \<Rightarrow> 'v gmap \<Rightarrow> bool" where
  "points_into xs m \<longleftrightarrow> gmap_ok xs \<and> (\<forall>k is. map_of xs k = Some is \<longrightarrow> set is \<subseteq> dom (map_of m))"

definition mem_ok :: "mem_store \<Rightarrow> bool" where
  "mem_ok s \<longleftrightarrow>
     keyed o_ID (organizationsByID s) \<and> keyed ag_ID (agentsByID s) \<and>
     gmap_ok (rawMessages s) \<and>
     keyed i_ID (inboxesByID s) \<and> keyed i_EmailAddress (inboxesByEmail s) \<and>
     keyed dr_RawMessageObjectKey (inboundReceiptsByKey s) \<and>
     keyed c_ID (contactsByID s) \<and> keyed c_EmailAddress (contactsByEmail s) \<and>
     keyed t_ID (threadsByID s) \<and> keyed m_ID (messagesByID s) \<and>
     gmap_ok (messagesByInboundKey s) \<and>
     (\<forall>k i. map_of (messagesByInboundKey s) k = Some i \<longrightarrow> i \<in> dom (map_of (messagesByID s))) \<and>
     keyed m_ProviderMessageID (messagesByProviderID s) \<and>
     (\<forall>p m. map_of (messagesByProviderID s) p = Some m \<longrightarrow>
        p \<noteq> [] \<and> m_ID m \<in> dom (map_of (messagesByID s))) \<and>
     points_into (messagesByThreadID s) (messagesByID s) \<and>
     gmap_ok (replySubmissionsByKey s) \<and>
     keyed cm_ID (memoriesByID s) \<and> points_into (memoriesByContactID s) (memoriesByID s) \<and>
     keyed sa_ID (suppressionsByID s) \<and> keyed wd_ID (webhookDeliveriesByID s)"

lemma keyed_Nil [simp]: "keyed f []"
  by (simp add: keyed_def)

lemma keyed_gput [simp, intro]: "keyed f m \<Longrightarrow> f v = k \<Longrightarrow> keyed f (gput k v m)"
  by (auto simp: keyed_def)

lemma keyed_gmap_ok: "keyed f m \<Longrightarrow> gmap_ok m"
  by (simp add: keyed_def)

lemma keyedD: "keyed f m \<Longrightarrow> map_of m k = Some v \<Longrightarrow> f v = k"
  by (simp add: keyed_def)

lemma points_into_Nil [simp]: "points_into [] m"
  by (simp add: points_into_def)

lemma points_into_gput: "points_into xs m \<Longrightarrow> points_into xs (gput k v m)"
  by (auto simp: points_into_def)

lemma points_into_slice: "points_into xs m \<Longrightarrow> set (slice_at xs k) \<subseteq> dom (map_of m)"
  by (cases "map_of xs k") (auto simp: points_into_def slice_at_def)

lemma points_into_append:
  "points_into xs m \<Longrightarrow> i \<in> dom (map_of m) \<Longrightarrow> points_into (gput k (slice_at xs k @ [i]) xs) m"
  using points_into_slice [of xs m k] by (auto simp: points_into_def)

lemmas points_into_intros = points_into_gput points_into_append

lemma mem_ok_NewStore: "mem_ok NewStore"
  by (simp add: mem_ok_def NewStore_def)

lemma mem_ok_index_message: "mem_ok s \<Longrightarrow> mem_ok (index_message message s)"
  by (auto simp: mem_ok_def index_message_def Let_def points_into_gput)

lemma index_message_no_provider:
  "m_ProviderMessageID m = [] \<Longrightarrow> messagesByProviderID (index_message m s) = messagesByProviderID s"
  by (simp add: index_message_def Let_def)

lemma index_message_stored [simp]:
  "map_of (messagesByID (index_message message s)) = (map_of (messagesByID s))(m_ID message \<mapsto> message)"
  by (simp add: index_message_def Let_def)

lemma index_message_frame [simp]:
  "messagesByThreadID (index_message m s) = messagesByThreadID s"
  "threadsByID (index_message m s) = threadsByID s"
  "contactsByID (index_message m s) = contactsByID s"
  "contactsByEmail (index_message m s) = contactsByEmail s"
  "rawMessages (index_message m s) = rawMessages s"
  "inboundReceiptsByKey (index_message m s) = inboundReceiptsByKey s"
  "suppressionsByID (index_message m s) = suppressionsByID s"
  "webhookDeliveriesByID (index_message m s) = webhookDeliveriesByID s"
  "replySubmissionsByKey (index_message m s) = replySubmissionsByKey s"
  "organizationsByID (index_message m s) = organizationsByID s"
  "agentsByID (index_message m s) = agentsByID s"
  "inboxesByID (index_message m s) = inboxesByID s"
  "inboxesByEmail (index_message m s) = inboxesByEmail s"
  "memoriesByID (index_message m s) = memoriesByID s"
  "memoriesByContactID (index_message m s) = memoriesByContactID s"
  "inboxesByEmail (index_message m s) = inboxesByEmail s"
  "memoriesByID (index_message m s) = memoriesByID s"
  "memoriesByContactID (index_message m s) = memoriesByContactID s"
  by (simp_all add: index_message_def Let_def)

lemma index_message_inbound:
  "map_of (messagesByInboundKey (index_message m s)) =
     (if m_InboxID m \<noteq> [] \<and> m_MessageIDHeader m \<noteq> []
      then (map_of (messagesByInboundKey s))(InboundMessageKey (m_InboxID m) (m_MessageIDHeader m) \<mapsto> m_ID m)
      else map_of (messagesByInboundKey s))"
  by (simp add: index_message_def Let_def)

lemma index_message_provider:
  "map_of (messagesByProviderID (index_message m s)) =
     (if m_ProviderMessageID m \<noteq> []
      then (map_of (messagesByProviderID s))(m_ProviderMessageID m \<mapsto> m)
      else map_of (messagesByProviderID s))"
  by (simp add: index_message_def Let_def)

lemma merge_thread_ID [simp]: "t_ID (merge_thread e t) = t_ID t"
  by (simp add: merge_thread_def)

subsection \<open>Every method keeps the invariant\<close>

lemmas store_write_defs =
  Store_SeedInbox_def Store_SaveOrganization_def Store_SaveAgent_def Store_SaveInbox_def
  Store_Put_def Store_SaveInboundReceipt_def Store_UpsertByEmail_def Store_Save_def
  Store_Create_def Store_SaveMessage_def Store_SaveReplySubmission_def Store_CreateMemory_def
  Store_SaveSuppression_def Store_SaveWebhookDelivery_def

lemmas store_read_defs =
  Store_GetOrganizationByID_def Store_GetAgentByID_def Store_GetInboxByID_def
  Store_FindByEmailAddress_def Store_Get_def Store_GetInboundReceiptByObjectKey_def
  Store_ListInboundReceipts_def Store_FindByEmail_def Store_GetContactByID_def Store_GetByID_def
  Store_FindByMessageID_def Store_FindMostRecentBySubject_def Store_FindInboundByHeader_def
  Store_ListByThreadID_def Store_FindByProviderMessageID_def Store_GetMessageByID_def
  Store_FindReplyBySubmissionKey_def Store_ListMemoryByContactID_def Store_IsSuppressed_def
  Store_GetSuppressionByID_def Store_ListSuppressions_def Store_GetWebhookDeliveryByID_def
  Store_ListWebhookDeliveries_def

lemma mem_ok_upds [intro]:
  "mem_ok s \<Longrightarrow> mem_ok (s\<lparr>organizationsByID := gput (o_ID a) a (organizationsByID s)\<rparr>)"
  "mem_ok s \<Longrightarrow> mem_ok (s\<lparr>agentsByID := gput (ag_ID b) b (agentsByID s)\<rparr>)"
  "mem_ok s \<Longrightarrow> mem_ok (s\<lparr>rawMessages := gput k d (rawMessages s)\<rparr>)"
  "mem_ok s \<Longrightarrow> mem_ok (s\<lparr>inboxesByID := gput (i_ID x) x (inboxesByID s),
      inboxesByEmail := gput (i_EmailAddress x) x (inboxesByEmail s)\<rparr>)"
  "mem_ok s \<Longrightarrow> mem_ok (s\<lparr>inboundReceiptsByKey :=
      gput (dr_RawMessageObjectKey r) r (inboundReceiptsByKey s)\<rparr>)"
  "mem_ok s \<Longrightarrow> mem_ok (s\<lparr>contactsByID := gput (c_ID c) c (contactsByID s),
      contactsByEmail := gput (c_EmailAddress c) c (contactsByEmail s)\<rparr>)"
  "mem_ok s \<Longrightarrow> t_ID t = i \<Longrightarrow> mem_ok (s\<lparr>threadsByID := gput i t (threadsByID s)\<rparr>)"
  "mem_ok s \<Longrightarrow> mem_ok (s\<lparr>replySubmissionsByKey := gput k d (replySubmissionsByKey s)\<rparr>)"
  "mem_ok s \<Longrightarrow> mem_ok (s\<lparr>memoriesByID := gput (cm_ID e) e (memoriesByID s)\<rparr>)"
  "mem_ok s \<Longrightarrow> mem_ok (s\<lparr>suppressionsByID := gput (sa_ID p) p (suppressionsByID s)\<rparr>)"
  "mem_ok s \<Longrightarrow> mem_ok (s\<lparr>webhookDeliveriesByID := gput (wd_ID w) w (webhookDeliveriesByID s)\<rparr>)"
  by (simp_all add: mem_ok_def points_into_gput)

lemma mem_ok_thread_index:
  "mem_ok s \<Longrightarrow> i \<in> dom (map_of (messagesByID s)) \<Longrightarrow>
   mem_ok (s\<lparr>messagesByThreadID := gput k (slice_at (messagesByThreadID s) k @ [i]) (messagesByThreadID s)\<rparr>)"
  by (simp add: mem_ok_def points_into_append)

lemma mem_ok_memory_index:
  "mem_ok s \<Longrightarrow> i \<in> dom (map_of (memoriesByID s)) \<Longrightarrow>
   mem_ok (s\<lparr>memoriesByContactID := gput k (slice_at (memoriesByContactID s) k @ [i]) (memoriesByContactID s)\<rparr>)"
  by (simp add: mem_ok_def points_into_append)

lemma mem_ok_Create: "keeps mem_ok (Store_Create m)"
  by (auto simp: keeps_def Store_Create_def Let_def
      intro!: mem_ok_thread_index [of "index_message m s" for s, simplified] mem_ok_index_message)

lemma mem_ok_Save: "keeps mem_ok (Store_Save t)"
  by (auto simp: keeps_def Store_Save_def Let_def split: option.splits)

lemma mem_ok_CreateMemory: "keeps mem_ok (Store_CreateMemory e)"
proof -
  have "mem_ok s \<Longrightarrow> mem_ok (snd (Store_CreateMemory e s))" for s
    using mem_ok_memory_index [of "s\<lparr>memoriesByID := gput (cm_ID e) e (memoriesByID s)\<rparr>" "cm_ID e" "cm_ContactID e"]
    by (auto simp: Store_CreateMemory_def Let_def)
  then show ?thesis by (simp add: keeps_def)
qed

lemma mem_ok_simple_writes:
  "keeps mem_ok (Store_SeedInbox x)"
  "keeps mem_ok (Store_SaveOrganization a)"
  "keeps mem_ok (Store_SaveAgent b)"
  "keeps mem_ok (Store_SaveInbox x)"
  "keeps mem_ok (Store_Put k d)"
  "keeps mem_ok (Store_SaveInboundReceipt r)"
  "keeps mem_ok (Store_UpsertByEmail c)"
  "keeps mem_ok (Store_SaveMessage m)"
  "keeps mem_ok (Store_SaveReplySubmission k d)"
  "keeps mem_ok (Store_SaveSuppression p)"
  "keeps mem_ok (Store_SaveWebhookDelivery w)"
  by (auto simp: keeps_def store_write_defs Let_def intro: mem_ok_index_message)

lemmas mem_ok_writes = mem_ok_simple_writes mem_ok_Create mem_ok_Save mem_ok_CreateMemory

text \<open>A read leaves the store as it is.\<close>

lemma store_reads_pure:
  "snd (Store_GetOrganizationByID k s) = s"
  "snd (Store_GetAgentByID k s) = s"
  "snd (Store_GetInboxByID k s) = s"
  "snd (Store_FindByEmailAddress k s) = s"
  "snd (Store_Get k s) = s"
  "snd (Store_GetInboundReceiptByObjectKey k s) = s"
  "snd (Store_ListInboundReceipts ord n s) = s"
  "snd (Store_FindByEmail org k s) = s"
  "snd (Store_GetContactByID k s) = s"
  "snd (Store_GetByID k s) = s"
  "snd (Store_FindByMessageID ord k s) = s"
  "snd (Store_FindMostRecentBySubject ord org i c k s) = s"
  "snd (Store_FindInboundByHeader i k s) = s"
  "snd (Store_ListByThreadID k n s) = s"
  "snd (Store_FindByProviderMessageID k s) = s"
  "snd (Store_GetMessageByID k s) = s"
  "snd (Store_FindReplyBySubmissionKey k s) = s"
  "snd (Store_ListMemoryByContactID k n s) = s"
  "snd (Store_IsSuppressed ord org k s) = s"
  "snd (Store_GetSuppressionByID k s) = s"
  "snd (Store_ListSuppressions ord n s) = s"
  "snd (Store_GetWebhookDeliveryByID k s) = s"
  "snd (Store_ListWebhookDeliveries ord n s) = s"
  by (simp_all add: store_read_defs)

section \<open>Sorted listings\<close>

lemma take_limit_take: "take_limit n xs = (if 0 < n then take (nat n) xs else xs)"
  by (auto simp: take_limit_def)

lemma length_take_limit: "length (take_limit n xs) = (if 0 < n then min (nat n) (length xs) else length xs)"
  by (simp add: take_limit_take min.commute)

lemma set_take_limit: "set (take_limit n xs) \<subseteq> set xs"
  by (auto simp: take_limit_take dest: in_set_takeD)

lemma Recency_le_iff [simp]:
  "Recency t k \<le> Recency t' k' \<longleftrightarrow> t' < t \<or> (t = t' \<and> k' \<le> k)"
  by (simp add: less_eq_recency_def)

lemma Recency_less_iff [simp]:
  "Recency t k < Recency t' k' \<longleftrightarrow> t' < t \<or> (t = t' \<and> k' < k)"
  by (simp add: less_recency_def)

text \<open>
  With distinct sort keys a list has one sorted permutation, so the unstable
  \<open>sort.Slice\<close> and the iteration order of the map make no difference.
\<close>

lemma sort_key_unique:
  assumes "mset ys = mset xs" and "sorted (map f ys)" and "inj_on f (set xs)"
  shows "ys = sort_key f xs"
proof (rule properties_for_sort_key [symmetric])
  show "mset ys = mset xs" by fact
  show "sorted (map f ys)" by fact
  fix k
  assume "k \<in> set ys"
  have set_eq: "set ys = set xs" using assms(1) by (rule mset_eq_setD)
  have const: "\<forall>x \<in> set zs. x = k" if "set zs \<subseteq> {x \<in> set xs. f k = f x}" for zs
    using that assms(3) \<open>k \<in> set ys\<close> set_eq by (auto simp: inj_on_def)
  have eq: "zs = replicate (length zs) k" if "\<forall>x \<in> set zs. x = k" for zs
    using that by (simp add: replicate_length_same [symmetric])
  have len: "length (filter (\<lambda>x. f k = f x) ys) = length (filter (\<lambda>x. f k = f x) xs)"
    using assms(1) by (metis mset_filter size_mset)
  have "filter (\<lambda>x. f k = f x) ys = replicate (length (filter (\<lambda>x. f k = f x) ys)) k"
    by (rule eq [OF const]) (auto simp: set_eq)
  also have "\<dots> = filter (\<lambda>x. f k = f x) xs"
    unfolding len by (rule eq [OF const, symmetric]) auto
  finally show "filter (\<lambda>x. f k = f x) ys = filter (\<lambda>x. f k = f x) xs" .
qed

lemma sort_grange_unique:
  assumes "gmap_ok m" and "inj_on f (ran (map_of m))"
  shows "sort_key f (grange ord m) = sort_key f (grange ord' m)"
  by (rule sort_key_unique) (use assms in \<open>auto simp: mset_grange set_grange\<close>)

lemma keyed_inj: "keyed g m \<Longrightarrow> inj_on g (ran (map_of m))"
  by (auto simp: inj_on_def ran_def keyed_def)

lemma keyed_inj_recency: "keyed g m \<Longrightarrow> inj_on (\<lambda>v. Recency (h v) (g v)) (ran (map_of m))"
  using keyed_inj [of g m] by (auto simp: inj_on_def)

section \<open>Lookups that range over a map\<close>

lemma List_find_Some: "List.find P xs = Some x \<Longrightarrow> x \<in> set xs \<and> P x"
  by (induction xs) (auto split: if_splits)

lemma List_find_None: "List.find P xs = None \<longleftrightarrow> (\<forall>x \<in> set xs. \<not> P x)"
  by (induction xs) auto

text \<open>
  The running best of \<open>most_recent\<close> ends as a matching thread that no matching thread
  is later than, and is missing only when nothing matches.
\<close>

lemma most_recent_None: "most_recent P best ts = None \<longleftrightarrow> best = None \<and> (\<forall>t \<in> set ts. \<not> P t)"
  by (induction P best ts rule: most_recent.induct) (auto split: option.splits)

lemma most_recent_cases:
  "most_recent P best ts = Some t \<Longrightarrow> best = Some t \<or> (t \<in> set ts \<and> P t)"
  by (induction P best ts rule: most_recent.induct) (auto split: option.splits if_splits)

lemma most_recent_ge_best:
  "most_recent P (Some b) ts = Some t \<Longrightarrow> t_LastActivityAt b \<le> t_LastActivityAt t"
proof (induction P "Some b" ts arbitrary: b rule: most_recent.induct)
  case (2 P thread rest)
  then show ?case
    by (auto simp: time_after_def split: if_splits)
qed simp

lemma most_recent_max:
  "most_recent P best ts = Some t \<Longrightarrow> u \<in> set ts \<Longrightarrow> P u \<Longrightarrow> t_LastActivityAt u \<le> t_LastActivityAt t"
proof (induction P best ts rule: most_recent.induct)
  case (2 P best thread rest)
  show ?case
  proof (cases "u = thread")
    case True
    with 2 show ?thesis
      by (cases best) (auto simp: time_after_def split: if_splits dest!: most_recent_ge_best)
  next
    case False
    with 2 show ?thesis
      by (cases best) (auto split: if_splits)
  qed
qed simp

lemma FindMostRecentBySubject_Some:
  assumes "mem_ok s"
    and "Store_FindMostRecentBySubject ord org i c subj s = (Inr (Some t), s')"
  shows "map_of (threadsByID s) (t_ID t) = Some t \<and> subject_matches org i c subj t \<and>
    (\<forall>k u. map_of (threadsByID s) k = Some u \<longrightarrow> subject_matches org i c subj u \<longrightarrow>
       t_LastActivityAt u \<le> t_LastActivityAt t)"
proof -
  have ok: "gmap_ok (threadsByID s)" and keyed: "keyed t_ID (threadsByID s)"
    using assms(1) by (auto simp: mem_ok_def keyed_def)
  have mr: "most_recent (subject_matches org i c subj) None (grange ord (threadsByID s)) = Some t"
    using assms(2) by (auto simp: Store_FindMostRecentBySubject_def)
  obtain k where "map_of (threadsByID s) k = Some t" and match: "subject_matches org i c subj t"
    using most_recent_cases [OF mr] by (auto simp: in_grange_iff [OF ok])
  with keyed have "map_of (threadsByID s) (t_ID t) = Some t"
    by (auto simp: keyed_def)
  with match show ?thesis
    using most_recent_max [OF mr] by (auto simp: in_grange_iff [OF ok])
qed

lemma FindMostRecentBySubject_None:
  assumes "mem_ok s"
  shows "Store_FindMostRecentBySubject ord org i c subj s = (Inr None, s) \<longleftrightarrow>
    (\<forall>k u. map_of (threadsByID s) k = Some u \<longrightarrow> \<not> subject_matches org i c subj u)"
proof -
  have ok: "gmap_ok (threadsByID s)" using assms by (simp add: mem_ok_def keyed_def)
  show ?thesis
    by (auto simp: Store_FindMostRecentBySubject_def most_recent_None in_grange_iff [OF ok])
qed

lemma IsSuppressed_iff:
  assumes "mem_ok s"
  shows "Store_IsSuppressed ord org e s =
    (Inr (\<exists>k r. map_of (suppressionsByID s) k = Some r \<and>
           sa_OrganizationID r = org \<and> sa_EmailAddress r = e), s)"
proof -
  have ok: "gmap_ok (suppressionsByID s)" using assms by (simp add: mem_ok_def keyed_def)
  show ?thesis
    unfolding Store_IsSuppressed_def list_ex_iff set_grange [OF ok] ran_def by blast
qed

end
