(* ===== verification/Interfaces.thy ===== *)
theory Interfaces
  imports Receipt
begin

text \<open>
  The repository interfaces the services are written against, as locales: the operations a
  client calls, an abstract view of the state behind them, and the laws every provider keeps.
  The services' lemmas are proved from these laws; the runtime store discharges them for the
  in-memory implementation (theory \<open>Runtime_Store\<close>).
\<close>

section \<open>Views of the state\<close>

text \<open>A view that random numbers and the clock do not touch.\<close>

locale env_view =
  fixes view :: "'z env_scheme \<Rightarrow> 'v"
    and inv :: "'z env_scheme \<Rightarrow> bool"
  assumes view_rand [simp]: "view (s\<lparr>rand_ix := n\<rparr>) = view s"
    and view_clock [simp]: "view (s\<lparr>clock_ix := n\<rparr>) = view s"
    and inv_rand [simp]: "inv (s\<lparr>rand_ix := n\<rparr>) = inv s"
    and inv_clock [simp]: "inv (s\<lparr>clock_ix := n\<rparr>) = inv s"
begin

lemma view_random_id: "random_id p f s = (r, s') \<Longrightarrow> view s' = view s \<and> inv s' = inv s"
  by (auto simp: random_id_run)

lemma view_time_now: "time_now s = (r, s') \<Longrightarrow> view s' = view s \<and> inv s' = inv s"
  by (auto simp: time_now_def)

end

section \<open>Thread lookup\<close>

text \<open>
  \<open>threading.ThreadLookupRepository\<close>. The view is the pair of stored threads and stored
  messages.
\<close>

definition subject_scope :: "string \<Rightarrow> string \<Rightarrow> string \<Rightarrow> string \<Rightarrow> thread \<Rightarrow> bool" where
  "subject_scope organizationID inboxID contactID subjectNormalized thread \<longleftrightarrow>
     t_OrganizationID thread = organizationID \<and> t_InboxID thread = inboxID \<and>
     t_ContactID thread = contactID \<and> t_SubjectNormalized thread = subjectNormalized"

locale thread_lookup_repo = env_view view inv
  for view :: "'z env_scheme \<Rightarrow> thread set \<times> message set" and inv +
  fixes find_by_message_id :: "string \<Rightarrow> ('z env_scheme, thread option) go"
    and find_most_recent :: "string \<Rightarrow> string \<Rightarrow> string \<Rightarrow> string \<Rightarrow> ('z env_scheme, thread option) go"
  assumes by_id_frame: "inv s \<Longrightarrow> find_by_message_id k s = (r, s') \<Longrightarrow> inv s' \<and> view s' = view s"
    and by_id_sound: "inv s \<Longrightarrow> find_by_message_id k s = (Inr (Some t), s') \<Longrightarrow>
      t \<in> fst (view s) \<and> (\<exists>m \<in> snd (view s). m_MessageIDHeader m = k \<and> m_ThreadID m = t_ID t)"
    and by_id_none: "inv s \<Longrightarrow> find_by_message_id k s = (Inr None, s') \<Longrightarrow>
      (\<forall>m \<in> snd (view s). \<exists>t \<in> fst (view s). t_ID t = m_ThreadID m) \<Longrightarrow>
      m \<in> snd (view s) \<Longrightarrow> m_MessageIDHeader m \<noteq> k"
    and recent_frame: "inv s \<Longrightarrow> find_most_recent org i c subj s = (r, s') \<Longrightarrow> inv s' \<and> view s' = view s"
    and recent_sound: "inv s \<Longrightarrow> find_most_recent org i c subj s = (Inr (Some t), s') \<Longrightarrow>
      t \<in> fst (view s) \<and> subject_scope org i c subj t \<and>
      (\<forall>u \<in> fst (view s). subject_scope org i c subj u \<longrightarrow> t_LastActivityAt u \<le> t_LastActivityAt t)"
    and recent_none: "inv s \<Longrightarrow> find_most_recent org i c subj s = (Inr None, s') \<Longrightarrow>
      u \<in> fst (view s) \<Longrightarrow> \<not> subject_scope org i c subj u"

section \<open>Suppressions\<close>

text \<open>
  \<open>outbound.SuppressionRepository\<close> and \<open>outbound.SuppressionChecker\<close>. The view is the set
  of record ids in use and the set of suppressed (organization, address) pairs.
\<close>

locale suppression_repo = env_view view inv
  for view :: "'z env_scheme \<Rightarrow> string set \<times> (string \<times> string) set" and inv +
  fixes save :: "suppressed_address \<Rightarrow> ('z env_scheme, suppressed_address) go"
    and is_suppressed :: "string \<Rightarrow> string \<Rightarrow> ('z env_scheme, bool) go"
  assumes save_returns: "inv s \<Longrightarrow> \<exists>s'. save r s = (Inr r, s')"
    and save_adds: "inv s \<Longrightarrow> save r s = (Inr r', s') \<Longrightarrow>
      inv s' \<and> (sa_OrganizationID r, sa_EmailAddress r) \<in> snd (view s')"
    and save_keeps: "inv s \<Longrightarrow> save r s = (Inr r', s') \<Longrightarrow> sa_ID r \<notin> fst (view s) \<Longrightarrow>
      snd (view s) \<subseteq> snd (view s')"
    and check_returns: "inv s \<Longrightarrow> \<exists>s'. is_suppressed org e s = (Inr ((org, e) \<in> snd (view s)), s')"
    and check_frame: "inv s \<Longrightarrow> is_suppressed org e s = (b, s') \<Longrightarrow> inv s' \<and> view s' = view s"

section \<open>Webhook deliveries\<close>

text \<open>
  \<open>webhooks.DeliveryRepository\<close>, \<open>webhooks.DeliveryGetter\<close> and \<open>webhooks.DeliveryLister\<close>.
  The view is the map from delivery id to delivery.
\<close>

locale delivery_repo = env_view deliveries inv
  for deliveries :: "'z env_scheme \<Rightarrow> string \<Rightarrow> webhook_delivery option" and inv +
  fixes save :: "webhook_delivery \<Rightarrow> ('z env_scheme, webhook_delivery) go"
    and get :: "string \<Rightarrow> ('z env_scheme, webhook_delivery) go"
    and list :: "int \<Rightarrow> ('z env_scheme, webhook_delivery list) go"
  assumes save_stores: "inv s \<Longrightarrow> \<exists>s'. save d s = (Inr d, s') \<and> inv s' \<and>
      deliveries s' = (deliveries s)(wd_ID d \<mapsto> d)"
    and get_reads: "inv s \<Longrightarrow> \<exists>s'. inv s' \<and> deliveries s' = deliveries s \<and>
      get k s = (case deliveries s k of
                   None \<Rightarrow> (Inl (ErrNotFound ''webhook delivery''), s') | Some d \<Rightarrow> (Inr d, s'))"
    and list_reads: "inv s \<Longrightarrow> \<exists>ds s'. list n s = (Inr ds, s') \<and> inv s' \<and>
      deliveries s' = deliveries s \<and> distinct (map wd_ID ds) \<and>
      (\<forall>d \<in> set ds. deliveries s (wd_ID d) = Some d) \<and> (0 < n \<longrightarrow> int (length ds) \<le> n)"

section \<open>Raw messages and receipts\<close>

text \<open>\<open>smtpedge.RawMessageStore\<close> and \<open>parser.RawMessageReader\<close>.\<close>

locale blob_store = env_view blobs inv
  for blobs :: "'z env_scheme \<Rightarrow> string \<Rightarrow> string option" and inv +
  fixes put :: "string \<Rightarrow> string \<Rightarrow> ('z env_scheme, unit) go"
    and get :: "string \<Rightarrow> ('z env_scheme, string) go"
  assumes put_stores: "inv s \<Longrightarrow> put k d s = (Inr u, s') \<Longrightarrow> inv s' \<and> blobs s' = (blobs s)(k \<mapsto> d)"
    and put_fails: "inv s \<Longrightarrow> put k d s = (Inl e, s') \<Longrightarrow> inv s' \<and> blobs s' = blobs s"
    and get_reads: "inv s \<Longrightarrow> blobs s k = Some d \<Longrightarrow>
      \<exists>s'. get k s = (Inr d, s') \<and> inv s' \<and> blobs s' = blobs s"
    and get_missing: "inv s \<Longrightarrow> blobs s k = None \<Longrightarrow> \<exists>e s'. get k s = (Inl e, s') \<and> is_not_found e"

text \<open>\<open>smtpedge.ReceiptRecorder\<close> and \<open>app.InboundReceiptGetter\<close>.\<close>

locale receipt_repo = env_view receipts inv
  for receipts :: "'z env_scheme \<Rightarrow> string \<Rightarrow> durable_receipt_request option" and inv +
  fixes save :: "durable_receipt_request \<Rightarrow> ('z env_scheme, unit) go"
    and get :: "string \<Rightarrow> ('z env_scheme, durable_receipt_request) go"
  assumes save_stores: "inv s \<Longrightarrow> save r s = (Inr u, s') \<Longrightarrow>
      inv s' \<and> receipts s' = (receipts s)(dr_RawMessageObjectKey r \<mapsto> r)"
    and get_reads: "inv s \<Longrightarrow> receipts s k = Some r \<Longrightarrow>
      \<exists>s'. get k s = (Inr r, s') \<and> inv s' \<and> receipts s' = receipts s"
    and get_missing: "inv s \<Longrightarrow> receipts s k = None \<Longrightarrow>
      \<exists>e s'. get k s = (Inl e, s') \<and> is_not_found e"

section \<open>Messages\<close>

text \<open>
  \<open>outbound.MessageStatusRepository\<close>, \<open>outbound.ProviderMessageLookup\<close> and the message
  getter. The view gives the messages by id and by provider message id.
\<close>

locale message_repo = env_view view inv
  for view :: "'z env_scheme \<Rightarrow> (string \<Rightarrow> message option) \<times> (string \<Rightarrow> message option)" and inv +
  fixes save :: "message \<Rightarrow> ('z env_scheme, message) go"
    and find_provider :: "string \<Rightarrow> ('z env_scheme, message option) go"
    and get :: "string \<Rightarrow> ('z env_scheme, message) go"
  assumes save_stores: "inv s \<Longrightarrow> \<exists>s'. save m s = (Inr m, s') \<and> inv s' \<and>
      fst (view s') = (fst (view s))(m_ID m \<mapsto> m) \<and>
      snd (view s') = (if m_ProviderMessageID m = [] then snd (view s)
                       else (snd (view s))(m_ProviderMessageID m \<mapsto> m))"
    and find_reads: "inv s \<Longrightarrow> \<exists>s'. find_provider p s = (Inr (snd (view s) p), s') \<and>
      inv s' \<and> view s' = view s"
    and find_keyed: "inv s \<Longrightarrow> snd (view s) p = Some m \<Longrightarrow> m_ProviderMessageID m = p \<and> p \<noteq> []"
    and get_reads: "inv s \<Longrightarrow> fst (view s) k = Some m \<Longrightarrow> \<exists>s'. get k s = (Inr m, s') \<and>
      inv s' \<and> view s' = view s"

end
