(* ===== verification/World.thy ===== *)
theory World
  imports Memory_Laws Interfaces
begin

text \<open>
  The state of the running process: the environment of the prelude, the in-memory runtime
  store behind \<open>runtimeStore\<close> (\<open>cmd/agentlayer\<close>), and the HTTP client's view of the
  network. A store method runs on the \<open>mem\<close> field; a method that ranges over a map first
  takes an iteration order from the environment.
\<close>

section \<open>HTTP requests\<close>

record http_request =
  hq_Method :: string
  hq_URL :: string
  hq_Headers :: "string gmap"
  hq_Body :: string

text \<open>The response body is a stream: reading it to the end can fail.\<close>

record http_response =
  hp_StatusCode :: int
  hp_Body :: "gerr + string"

text \<open>
  The remote side is a parameter: \<open>http_srv log q\<close> is the outcome of \<open>client.Do(q)\<close> after the
  requests \<open>log\<close>; \<open>url_check u\<close> is the error \<open>http.NewRequestWithContext\<close> gives for a
  URL it cannot parse. \<open>http_log\<close> records every request handed to \<open>Do\<close>.
\<close>

record world = env +
  mem :: mem_store
  http_srv :: "http_request list \<Rightarrow> http_request \<Rightarrow> gerr + http_response"
  url_check :: "string \<Rightarrow> gerr option"
  http_log :: "http_request list"

definition http_do :: "http_request \<Rightarrow> ('z world_scheme, http_response) go" where
  "http_do q = (\<lambda>w. (http_srv w (http_log w) q, w\<lparr>http_log := http_log w @ [q]\<rparr>))"

section \<open>Store methods on the world\<close>

definition on_mem :: "(mem_store, 'a) go \<Rightarrow> ('z world_scheme, 'a) go" where
  "on_mem f = (\<lambda>w. case f (mem w) of (r, m) \<Rightarrow> (r, w\<lparr>mem := m\<rparr>))"

definition on_mem_range :: "((string list \<Rightarrow> string list) \<Rightarrow> (mem_store, 'a) go) \<Rightarrow> ('z world_scheme, 'a) go" where
  "on_mem_range f = go_bind next_order (\<lambda>ord. on_mem (f ord))"

lemma on_mem_run: "f (mem w) = (r, m) \<Longrightarrow> on_mem f w = (r, w\<lparr>mem := m\<rparr>)"
  by (simp add: on_mem_def)

lemma on_mem_eq: "on_mem f w = (fst (f (mem w)), w\<lparr>mem := snd (f (mem w))\<rparr>)"
  by (simp add: on_mem_def split: prod.splits)

lemma on_mem_range_eq:
  "on_mem_range f w =
     (fst (f (iter_src w (iter_ix w)) (mem w)),
      w\<lparr>iter_ix := Suc (iter_ix w), mem := snd (f (iter_src w (iter_ix w)) (mem w))\<rparr>)"
  by (simp add: on_mem_range_def go_bind_def next_order_def on_mem_eq)

subsection \<open>Preservation on the world\<close>

definition world_ok :: "'z world_scheme \<Rightarrow> bool" where
  "world_ok w \<longleftrightarrow> mem_ok (mem w)"

lemma keeps_on_mem [intro, keeps_rules]: "keeps mem_ok f \<Longrightarrow> keeps world_ok (on_mem f)"
  by (auto simp: keeps_def world_ok_def on_mem_eq)

lemma keeps_on_mem_range [intro, keeps_rules]:
  "(\<And>ord. keeps mem_ok (f ord)) \<Longrightarrow> keeps world_ok (on_mem_range f)"
  by (auto simp: keeps_def world_ok_def on_mem_range_eq)

lemma world_ok_env [simp]:
  "world_ok (w\<lparr>rand_ix := n\<rparr>) = world_ok w"
  "world_ok (w\<lparr>clock_ix := n\<rparr>) = world_ok w"
  "world_ok (w\<lparr>iter_ix := n\<rparr>) = world_ok w"
  "world_ok (w\<lparr>http_log := l\<rparr>) = world_ok w"
  by (simp_all add: world_ok_def)

lemma keeps_world_env [intro, simp, keeps_rules]:
  "keeps world_ok (rand_read n)"
  "keeps world_ok time_now"
  "keeps world_ok next_order"
  "keeps world_ok (random_id p f)"
  "keeps world_ok (http_do q)"
  by (auto simp: keeps_def rand_read_def time_now_def next_order_def random_id_run http_do_def)

lemma frames_mem_env [intro, simp, keeps_rules]:
  "frames mem (rand_read n)"
  "frames mem time_now"
  "frames mem next_order"
  "frames mem (random_id p f)"
  "frames mem (http_do q)"
  by (auto simp: frames_def rand_read_def time_now_def next_order_def random_id_run http_do_def)

lemma frames_keeps_world: "frames mem m \<Longrightarrow> keeps world_ok m"
  by (auto simp: frames_def keeps_def world_ok_def)

text \<open>A read of the store leaves the store as it is.\<close>

definition store_read :: "(mem_store, 'a) go \<Rightarrow> bool" where
  "store_read f \<longleftrightarrow> (\<forall>s. snd (f s) = s)"

lemma store_reads [simp, intro]:
  "store_read (Store_GetOrganizationByID k)"
  "store_read (Store_GetAgentByID k)"
  "store_read (Store_GetInboxByID k)"
  "store_read (Store_FindByEmailAddress k)"
  "store_read (Store_Get k)"
  "store_read (Store_GetInboundReceiptByObjectKey k)"
  "store_read (Store_ListInboundReceipts ord n)"
  "store_read (Store_FindByEmail org k)"
  "store_read (Store_GetContactByID k)"
  "store_read (Store_GetByID k)"
  "store_read (Store_FindByMessageID ord k)"
  "store_read (Store_FindMostRecentBySubject ord org i c k)"
  "store_read (Store_FindInboundByHeader i k)"
  "store_read (Store_ListByThreadID k n)"
  "store_read (Store_FindByProviderMessageID k)"
  "store_read (Store_GetMessageByID k)"
  "store_read (Store_FindReplyBySubmissionKey k)"
  "store_read (Store_ListMemoryByContactID k n)"
  "store_read (Store_IsSuppressed ord org k)"
  "store_read (Store_GetSuppressionByID k)"
  "store_read (Store_ListSuppressions ord n)"
  "store_read (Store_GetWebhookDeliveryByID k)"
  "store_read (Store_ListWebhookDeliveries ord n)"
  by (simp_all add: store_read_def store_reads_pure)

lemma store_read_keeps [intro, keeps_rules]: "store_read f \<Longrightarrow> keeps mem_ok f"
  by (simp add: store_read_def keeps_def)

lemma frames_on_mem_read [intro, simp, keeps_rules]: "store_read f \<Longrightarrow> frames mem (on_mem f)"
  by (simp add: frames_def on_mem_eq store_read_def)

lemma frames_on_mem_range_read [intro, simp, keeps_rules]:
  "(\<And>ord. store_read (f ord)) \<Longrightarrow> frames mem (on_mem_range f)"
  by (simp add: frames_def on_mem_range_eq store_read_def)

lemma on_mem_read: "store_read f \<Longrightarrow> on_mem f w = (fst (f (mem w)), w)"
  by (simp add: on_mem_eq store_read_def)

lemma on_mem_range_read:
  "(\<And>ord. store_read (f ord)) \<Longrightarrow>
   on_mem_range f w = (fst (f (iter_src w (iter_ix w)) (mem w)), w\<lparr>iter_ix := Suc (iter_ix w)\<rparr>)"
  by (simp add: on_mem_range_eq store_read_def)

section \<open>A concrete process\<close>

text \<open>
  An environment to evaluate the model in: random bytes that count up, a clock that ticks once a
  second, maps visited in insertion order, and a remote side that answers 200 to everything.
\<close>

definition demo_world :: "mem_store \<Rightarrow> world" where
  "demo_world m =
     \<lparr>rand_src = \<lambda>i n. Some (replicate n (char_of (i mod 256))), rand_ix = 0,
      clock_src = \<lambda>i. 63903204007000000000 + int i * nanos_per_second, clock_ix = 0,
      iter_src = \<lambda>i ks. ks, iter_ix = 0, mem = m,
      http_srv = \<lambda>log q. Inr \<lparr>hp_StatusCode = 200, hp_Body = Inr []\<rparr>, url_check = \<lambda>u. None,
      http_log = []\<rparr>"

lemma demo_world_sel [simp]:
  "mem (demo_world m) = m" "rand_ix (demo_world m) = 0" "clock_ix (demo_world m) = 0"
  "iter_ix (demo_world m) = 0" "http_log (demo_world m) = []" "url_check (demo_world m) u = None"
  "rand_src (demo_world m) i n = Some (replicate n (char_of (i mod 256)))"
  "clock_src (demo_world m) i = 63903204007000000000 + int i * nanos_per_second"
  "iter_src (demo_world m) i ks = ks"
  "http_srv (demo_world m) log q = Inr \<lparr>hp_StatusCode = 200, hp_Body = Inr []\<rparr>"
  by (simp_all add: demo_world_def)

lemma demo_world_ok [simp]: "world_ok (demo_world m) = mem_ok m"
  by (simp add: world_ok_def)

end
