(* ===== verification/Runtime_Store.thy ===== *)
theory Runtime_Store
  imports World
begin

text \<open>
  \<open>runtimeStore\<close> as the services see it: the interface \<open>appStore\<close> of
  \<open>cmd/agentlayer/runtime_store.go\<close>, each method served by the in-memory store, and the
  interpretation of every repository interface on it.
\<close>

section \<open>The appStore methods\<close>

definition rt_SaveOrganization :: "organization \<Rightarrow> ('z world_scheme, organization) go" where
  "rt_SaveOrganization organization = on_mem (Store_SaveOrganization organization)"

definition rt_GetOrganizationByID :: "string \<Rightarrow> ('z world_scheme, organization) go" where
  "rt_GetOrganizationByID organizationID = on_mem (Store_GetOrganizationByID organizationID)"

definition rt_SaveAgent :: "agent \<Rightarrow> ('z world_scheme, agent) go" where
  "rt_SaveAgent agent = on_mem (Store_SaveAgent agent)"

definition rt_GetAgentByID :: "string \<Rightarrow> ('z world_scheme, agent) go" where
  "rt_GetAgentByID agentID = on_mem (Store_GetAgentByID agentID)"

definition rt_SaveInbox :: "inbox \<Rightarrow> ('z world_scheme, inbox) go" where
  "rt_SaveInbox inbox = on_mem (Store_SaveInbox inbox)"

definition rt_GetInboxByID :: "string \<Rightarrow> ('z world_scheme, inbox) go" where
  "rt_GetInboxByID inboxID = on_mem (Store_GetInboxByID inboxID)"

definition rt_FindByEmailAddress :: "string \<Rightarrow> ('z world_scheme, inbox option) go" where
  "rt_FindByEmailAddress emailAddress = on_mem (Store_FindByEmailAddress emailAddress)"

definition rt_Put :: "string \<Rightarrow> string \<Rightarrow> ('z world_scheme, unit) go" where
  "rt_Put objectKey data = on_mem (Store_Put objectKey data)"

definition rt_Get :: "string \<Rightarrow> ('z world_scheme, string) go" where
  "rt_Get objectKey = on_mem (Store_Get objectKey)"

definition rt_SaveInboundReceipt :: "durable_receipt_request \<Rightarrow> ('z world_scheme, unit) go" where
  "rt_SaveInboundReceipt receipt = on_mem (Store_SaveInboundReceipt receipt)"

definition rt_GetInboundReceiptByObjectKey :: "string \<Rightarrow> ('z world_scheme, durable_receipt_request) go" where
  "rt_GetInboundReceiptByObjectKey objectKey = on_mem (Store_GetInboundReceiptByObjectKey objectKey)"

definition rt_ListInboundReceipts :: "int \<Rightarrow> ('z world_scheme, durable_receipt_request list) go" where
  "rt_ListInboundReceipts limit = on_mem_range (\<lambda>ord. Store_ListInboundReceipts ord limit)"

definition rt_FindByEmail :: "string \<Rightarrow> string \<Rightarrow> ('z world_scheme, contact option) go" where
  "rt_FindByEmail organizationID emailAddress = on_mem (Store_FindByEmail organizationID emailAddress)"

definition rt_UpsertByEmail :: "contact \<Rightarrow> ('z world_scheme, contact) go" where
  "rt_UpsertByEmail contact = on_mem (Store_UpsertByEmail contact)"

definition rt_GetContactByID :: "string \<Rightarrow> ('z world_scheme, contact) go" where
  "rt_GetContactByID contactID = on_mem (Store_GetContactByID contactID)"

definition rt_GetByID :: "string \<Rightarrow> ('z world_scheme, thread) go" where
  "rt_GetByID threadID = on_mem (Store_GetByID threadID)"

definition rt_Save :: "thread \<Rightarrow> ('z world_scheme, thread) go" where
  "rt_Save thread = on_mem (Store_Save thread)"

definition rt_FindByMessageID :: "string \<Rightarrow> ('z world_scheme, thread option) go" where
  "rt_FindByMessageID messageID = on_mem_range (\<lambda>ord. Store_FindByMessageID ord messageID)"

definition rt_FindMostRecentBySubject ::
    "string \<Rightarrow> string \<Rightarrow> string \<Rightarrow> string \<Rightarrow> ('z world_scheme, thread option) go" where
  "rt_FindMostRecentBySubject organizationID inboxID contactID subjectNormalized =
     on_mem_range (\<lambda>ord. Store_FindMostRecentBySubject ord organizationID inboxID contactID subjectNormalized)"

definition rt_Create :: "message \<Rightarrow> ('z world_scheme, message) go" where
  "rt_Create message = on_mem (Store_Create message)"

definition rt_SaveMessage :: "message \<Rightarrow> ('z world_scheme, message) go" where
  "rt_SaveMessage message = on_mem (Store_SaveMessage message)"

definition rt_ListByThreadID :: "string \<Rightarrow> int \<Rightarrow> ('z world_scheme, message list) go" where
  "rt_ListByThreadID threadID limit = on_mem (Store_ListByThreadID threadID limit)"

definition rt_FindByProviderMessageID :: "string \<Rightarrow> ('z world_scheme, message option) go" where
  "rt_FindByProviderMessageID providerMessageID = on_mem (Store_FindByProviderMessageID providerMessageID)"

definition rt_FindInboundByHeader :: "string \<Rightarrow> string \<Rightarrow> ('z world_scheme, message option) go" where
  "rt_FindInboundByHeader inboxID messageIDHeader = on_mem (Store_FindInboundByHeader inboxID messageIDHeader)"

definition rt_FindReplyBySubmissionKey :: "string \<Rightarrow> ('z world_scheme, message option) go" where
  "rt_FindReplyBySubmissionKey submissionKey = on_mem (Store_FindReplyBySubmissionKey submissionKey)"

definition rt_GetMessageByID :: "string \<Rightarrow> ('z world_scheme, message) go" where
  "rt_GetMessageByID messageID = on_mem (Store_GetMessageByID messageID)"

definition rt_SaveReplySubmission :: "string \<Rightarrow> string \<Rightarrow> ('z world_scheme, unit) go" where
  "rt_SaveReplySubmission submissionKey messageID = on_mem (Store_SaveReplySubmission submissionKey messageID)"

definition rt_CreateMemory :: "contact_memory_entry \<Rightarrow> ('z world_scheme, contact_memory_entry) go" where
  "rt_CreateMemory entry = on_mem (Store_CreateMemory entry)"

definition rt_ListMemoryByContactID :: "string \<Rightarrow> int \<Rightarrow> ('z world_scheme, contact_memory_entry list) go" where
  "rt_ListMemoryByContactID contactID limit = on_mem (Store_ListMemoryByContactID contactID limit)"

definition rt_SaveSuppression :: "suppressed_address \<Rightarrow> ('z world_scheme, suppressed_address) go" where
  "rt_SaveSuppression record = on_mem (Store_SaveSuppression record)"

definition rt_IsSuppressed :: "string \<Rightarrow> string \<Rightarrow> ('z world_scheme, bool) go" where
  "rt_IsSuppressed organizationID emailAddress =
     on_mem_range (\<lambda>ord. Store_IsSuppressed ord organizationID emailAddress)"

definition rt_GetSuppressionByID :: "string \<Rightarrow> ('z world_scheme, suppressed_address) go" where
  "rt_GetSuppressionByID suppressionID = on_mem (Store_GetSuppressionByID suppressionID)"

definition rt_ListSuppressions :: "int \<Rightarrow> ('z world_scheme, suppressed_address list) go" where
  "rt_ListSuppressions limit = on_mem_range (\<lambda>ord. Store_ListSuppressions ord limit)"

definition rt_SaveWebhookDelivery :: "webhook_delivery \<Rightarrow> ('z world_scheme, webhook_delivery) go" where
  "rt_SaveWebhookDelivery delivery = on_mem (Store_SaveWebhookDelivery delivery)"

definition rt_GetWebhookDeliveryByID :: "string \<Rightarrow> ('z world_scheme, webhook_delivery) go" where
  "rt_GetWebhookDeliveryByID deliveryID = on_mem (Store_GetWebhookDeliveryByID deliveryID)"

definition rt_ListWebhookDeliveries :: "int \<Rightarrow> ('z world_scheme, webhook_delivery list) go" where
  "rt_ListWebhookDeliveries limit = on_mem_range (\<lambda>ord. Store_ListWebhookDeliveries ord limit)"

lemmas rt_write_defs = rt_SaveOrganization_def rt_SaveAgent_def rt_SaveInbox_def rt_Put_def
  rt_SaveInboundReceipt_def rt_UpsertByEmail_def rt_Save_def rt_Create_def rt_SaveMessage_def
  rt_SaveReplySubmission_def rt_CreateMemory_def rt_SaveSuppression_def rt_SaveWebhookDelivery_def

lemmas rt_read_defs = rt_GetOrganizationByID_def rt_GetAgentByID_def rt_GetInboxByID_def
  rt_FindByEmailAddress_def rt_Get_def rt_GetInboundReceiptByObjectKey_def rt_FindByEmail_def
  rt_GetContactByID_def rt_GetByID_def rt_ListByThreadID_def rt_FindByProviderMessageID_def
  rt_FindInboundByHeader_def rt_FindReplyBySubmissionKey_def rt_GetMessageByID_def
  rt_ListMemoryByContactID_def rt_GetSuppressionByID_def rt_GetWebhookDeliveryByID_def

lemmas rt_range_defs = rt_ListInboundReceipts_def rt_FindByMessageID_def
  rt_FindMostRecentBySubject_def rt_IsSuppressed_def rt_ListSuppressions_def
  rt_ListWebhookDeliveries_def

lemma keeps_rt_writes [intro, simp, keeps_rules]:
  "keeps world_ok (rt_SaveOrganization a)"
  "keeps world_ok (rt_SaveAgent b)"
  "keeps world_ok (rt_SaveInbox x)"
  "keeps world_ok (rt_Put k d)"
  "keeps world_ok (rt_SaveInboundReceipt r)"
  "keeps world_ok (rt_UpsertByEmail c)"
  "keeps world_ok (rt_Save t)"
  "keeps world_ok (rt_Create m)"
  "keeps world_ok (rt_SaveMessage m)"
  "keeps world_ok (rt_SaveReplySubmission k d)"
  "keeps world_ok (rt_CreateMemory e)"
  "keeps world_ok (rt_SaveSuppression p)"
  "keeps world_ok (rt_SaveWebhookDelivery v)"
  by (simp_all add: rt_write_defs keeps_on_mem mem_ok_writes)

lemma keeps_rt_reads [intro, simp, keeps_rules]:
  "keeps world_ok (rt_GetOrganizationByID k)"
  "keeps world_ok (rt_GetAgentByID k)"
  "keeps world_ok (rt_GetInboxByID k)"
  "keeps world_ok (rt_FindByEmailAddress k)"
  "keeps world_ok (rt_Get k)"
  "keeps world_ok (rt_GetInboundReceiptByObjectKey k)"
  "keeps world_ok (rt_FindByEmail org k)"
  "keeps world_ok (rt_GetContactByID k)"
  "keeps world_ok (rt_GetByID k)"
  "keeps world_ok (rt_ListByThreadID k n)"
  "keeps world_ok (rt_FindByProviderMessageID k)"
  "keeps world_ok (rt_FindInboundByHeader i k)"
  "keeps world_ok (rt_FindReplyBySubmissionKey k)"
  "keeps world_ok (rt_GetMessageByID k)"
  "keeps world_ok (rt_ListMemoryByContactID k n)"
  "keeps world_ok (rt_GetSuppressionByID k)"
  "keeps world_ok (rt_GetWebhookDeliveryByID k)"
  "keeps world_ok (rt_ListInboundReceipts n)"
  "keeps world_ok (rt_FindByMessageID k)"
  "keeps world_ok (rt_FindMostRecentBySubject org i c k)"
  "keeps world_ok (rt_IsSuppressed org k)"
  "keeps world_ok (rt_ListSuppressions n)"
  "keeps world_ok (rt_ListWebhookDeliveries n)"
  by (simp_all add: rt_read_defs rt_range_defs keeps_on_mem keeps_on_mem_range store_read_keeps)

lemma frames_rt_reads [intro, simp, keeps_rules]:
  "frames mem (rt_GetOrganizationByID k)"
  "frames mem (rt_GetAgentByID k)"
  "frames mem (rt_GetInboxByID k)"
  "frames mem (rt_FindByEmailAddress k)"
  "frames mem (rt_Get k)"
  "frames mem (rt_GetInboundReceiptByObjectKey k)"
  "frames mem (rt_FindByEmail org k)"
  "frames mem (rt_GetContactByID k)"
  "frames mem (rt_GetByID k)"
  "frames mem (rt_ListByThreadID k n)"
  "frames mem (rt_FindByProviderMessageID k)"
  "frames mem (rt_FindInboundByHeader i k)"
  "frames mem (rt_FindReplyBySubmissionKey k)"
  "frames mem (rt_GetMessageByID k)"
  "frames mem (rt_ListMemoryByContactID k n)"
  "frames mem (rt_GetSuppressionByID k)"
  "frames mem (rt_GetWebhookDeliveryByID k)"
  "frames mem (rt_ListInboundReceipts n)"
  "frames mem (rt_FindByMessageID k)"
  "frames mem (rt_FindMostRecentBySubject org i c k)"
  "frames mem (rt_IsSuppressed org k)"
  "frames mem (rt_ListSuppressions n)"
  "frames mem (rt_ListWebhookDeliveries n)"
  by (simp_all add: rt_read_defs rt_range_defs)

section \<open>The interfaces hold of the runtime store\<close>

lemma found_or_simps [simp]:
  "found_or what None = Inl (ErrNotFound what)"
  "found_or what (Some v) = Inr v"
  by (simp_all add: found_or_def)

lemma is_not_found_simps [simp]: "is_not_found (ErrNotFound w)"
  by (simp add: is_not_found_def)

lemmas rt_eqs = rt_write_defs rt_read_defs rt_range_defs on_mem_eq on_mem_range_eq

text \<open>The views: what is stored, read off the maps.\<close>

definition thread_view :: "'z world_scheme \<Rightarrow> thread set \<times> message set" where
  "thread_view w = (ran (map_of (threadsByID (mem w))), ran (map_of (messagesByID (mem w))))"

definition suppression_view :: "'z world_scheme \<Rightarrow> string set \<times> (string \<times> string) set" where
  "suppression_view w = (dom (map_of (suppressionsByID (mem w))),
     (\<lambda>r. (sa_OrganizationID r, sa_EmailAddress r)) ` ran (map_of (suppressionsByID (mem w))))"

definition delivery_view :: "'z world_scheme \<Rightarrow> string \<Rightarrow> webhook_delivery option" where
  "delivery_view w = map_of (webhookDeliveriesByID (mem w))"

definition blob_view :: "'z world_scheme \<Rightarrow> string \<Rightarrow> string option" where
  "blob_view w = map_of (rawMessages (mem w))"

definition receipt_view :: "'z world_scheme \<Rightarrow> string \<Rightarrow> durable_receipt_request option" where
  "receipt_view w = map_of (inboundReceiptsByKey (mem w))"

definition message_view :: "'z world_scheme \<Rightarrow> (string \<Rightarrow> message option) \<times> (string \<Rightarrow> message option)" where
  "message_view w = (map_of (messagesByID (mem w)), map_of (messagesByProviderID (mem w)))"

lemmas view_defs = thread_view_def suppression_view_def delivery_view_def blob_view_def
  receipt_view_def message_view_def

lemma subject_scope_matches: "subject_scope = subject_matches"
  by (simp add: fun_eq_iff subject_scope_def subject_matches_def)

lemma mem_ok_keyed:
  "mem_ok s \<Longrightarrow> keyed t_ID (threadsByID s)"
  "mem_ok s \<Longrightarrow> keyed m_ID (messagesByID s)"
  "mem_ok s \<Longrightarrow> keyed sa_ID (suppressionsByID s)"
  "mem_ok s \<Longrightarrow> keyed wd_ID (webhookDeliveriesByID s)"
  "mem_ok s \<Longrightarrow> keyed dr_RawMessageObjectKey (inboundReceiptsByKey s)"
  by (simp_all add: mem_ok_def)

lemma FindByMessageID_Some:
  assumes "mem_ok s" and "Store_FindByMessageID ord k s = (Inr (Some t), s')"
  shows "t \<in> ran (map_of (threadsByID s)) \<and>
    (\<exists>m \<in> ran (map_of (messagesByID s)). m_MessageIDHeader m = k \<and> m_ThreadID m = t_ID t)"
proof -
  have ok: "gmap_ok (messagesByID s)" and keyed: "keyed t_ID (threadsByID s)"
    using mem_ok_keyed [OF assms(1)] by (simp_all add: keyed_gmap_ok)
  obtain m where m: "List.find (\<lambda>message. m_MessageIDHeader message = k) (grange ord (messagesByID s)) = Some m"
    and t: "map_of (threadsByID s) (m_ThreadID m) = Some t"
    using assms(2) by (auto simp: Store_FindByMessageID_def split: option.splits)
  from List_find_Some [OF m] have "m \<in> ran (map_of (messagesByID s))" "m_MessageIDHeader m = k"
    by (simp_all add: set_grange [OF ok])
  moreover from keyedD [OF keyed t] have "m_ThreadID m = t_ID t" ..
  moreover from t have "t \<in> ran (map_of (threadsByID s))" by (rule ranI)
  ultimately show ?thesis by blast
qed

lemma FindByMessageID_None:
  assumes "mem_ok s" and "Store_FindByMessageID ord k s = (Inr None, s')"
    and "\<forall>m \<in> ran (map_of (messagesByID s)). \<exists>t \<in> ran (map_of (threadsByID s)). t_ID t = m_ThreadID m"
    and "m \<in> ran (map_of (messagesByID s))"
  shows "m_MessageIDHeader m \<noteq> k"
proof -
  have ok: "gmap_ok (messagesByID s)" and keyed: "keyed t_ID (threadsByID s)"
    using mem_ok_keyed [OF assms(1)] by (simp_all add: keyed_gmap_ok)
  have stored: "map_of (threadsByID s) (m_ThreadID x) \<noteq> None" if x: "x \<in> ran (map_of (messagesByID s))" for x
  proof -
    from assms(3) x obtain t where t: "t \<in> ran (map_of (threadsByID s))" "t_ID t = m_ThreadID x" by blast
    then obtain l where l: "map_of (threadsByID s) l = Some t" by (auto simp: ran_def)
    with keyedD [OF keyed l] t(2) show ?thesis by simp
  qed
  have "List.find (\<lambda>message. m_MessageIDHeader message = k) (grange ord (messagesByID s)) = None"
  proof (rule ccontr)
    assume "\<not> ?thesis"
    then obtain x where x: "List.find (\<lambda>message. m_MessageIDHeader message = k) (grange ord (messagesByID s)) = Some x"
      by blast
    with List_find_Some [OF x] stored [of x] assms(2) show False
      by (auto simp: Store_FindByMessageID_def set_grange [OF ok])
  qed
  with assms(4) show ?thesis by (simp add: List_find_None set_grange [OF ok])
qed

interpretation threads: thread_lookup_repo thread_view world_ok rt_FindByMessageID rt_FindMostRecentBySubject
proof (unfold_locales, goal_cases)
  case (5 s k r s')
  then show ?case by (auto simp: rt_eqs world_ok_def view_defs store_reads_pure)
next
  case (6 s k t s')
  then show ?case
    using FindByMessageID_Some [of "mem s" "iter_src s (iter_ix s)" k t]
    by (auto simp: rt_eqs world_ok_def view_defs store_reads_pure prod_eq_iff)
next
  case (7 s k s' m)
  then show ?case
    using FindByMessageID_None [of "mem s" "iter_src s (iter_ix s)" k _ m]
    by (auto simp: rt_eqs world_ok_def view_defs store_reads_pure prod_eq_iff)
next
  case (8 s org i c subj r s')
  then show ?case by (auto simp: rt_eqs world_ok_def view_defs store_reads_pure)
next
  case (9 s org i c subj t s')
  then show ?case
    using FindMostRecentBySubject_Some [of "mem s" "iter_src s (iter_ix s)" org i c subj t]
    by (fastforce simp: rt_eqs world_ok_def view_defs store_reads_pure prod_eq_iff subject_scope_matches
        ran_def)
next
  case (10 s org i c subj s' u)
  then show ?case
    using FindMostRecentBySubject_None [of "mem s" "iter_src s (iter_ix s)" org i c subj]
    by (auto simp: rt_eqs world_ok_def view_defs store_reads_pure prod_eq_iff subject_scope_matches
        ran_def)
qed (auto simp: view_defs)

lemma SaveSuppression_view:
  assumes "rt_SaveSuppression r w = (x, w')"
  shows "x = Inr r \<and> snd (suppression_view w') \<supseteq> {(sa_OrganizationID r, sa_EmailAddress r)} \<and>
    (sa_ID r \<notin> fst (suppression_view w) \<longrightarrow> snd (suppression_view w) \<subseteq> snd (suppression_view w'))"
proof -
  let ?m = "map_of (suppressionsByID (mem w))"
  have eqs: "x = Inr r" "map_of (suppressionsByID (mem w')) = ?m(sa_ID r \<mapsto> r)"
    using assms by (auto simp: rt_eqs Store_SaveSuppression_def)
  have "ran ?m \<subseteq> ran (?m(sa_ID r \<mapsto> r))" if "sa_ID r \<notin> dom ?m"
    using that by (auto simp: ran_map_upd domIff)
  moreover have "r \<in> ran (?m(sa_ID r \<mapsto> r))" by (simp add: ran_def) blast
  ultimately show ?thesis by (auto simp: suppression_view_def eqs(1) eqs(2))
qed

interpretation sup: suppression_repo suppression_view world_ok rt_SaveSuppression rt_IsSuppressed
proof (unfold_locales, goal_cases)
  case (5 s r)
  then show ?case by (simp add: rt_eqs Store_SaveSuppression_def)
next
  case (6 s r r' s')
  then show ?case
    using keepsD [OF keeps_rt_writes(12)] SaveSuppression_view [of r s "Inr r'" s'] by auto
next
  case (7 s r r' s')
  then show ?case using SaveSuppression_view [of r s "Inr r'" s'] by blast
next
  case (8 s org e)
  then show ?case
    by (auto simp: rt_eqs world_ok_def IsSuppressed_iff suppression_view_def ran_def image_iff)
next
  case (9 s org e b s')
  then show ?case by (auto simp: rt_eqs world_ok_def view_defs store_reads_pure)
qed (auto simp: view_defs)

lemma set_sort_listing:
  "gmap_ok m \<Longrightarrow> set (take_limit n (sort_key f (grange ord m))) \<subseteq> ran (map_of m)"
  using set_take_limit [of n "sort_key f (grange ord m)"] by (simp add: set_grange)

lemma distinct_listing:
  assumes "keyed g m"
  shows "distinct (map g (take_limit n (sort_key f (grange ord m))))"
proof -
  from assms have ok: "gmap_ok m" by (rule keyed_gmap_ok)
  have "map g (grange ord m) = legal_order ord (gkeys m)"
    using assms ok by (auto simp: grange_def keyed_def set_legal_order distinct_gkeys set_gkeys intro!: map_idI)
  then have "distinct (map g (grange ord m))"
    by (simp add: distinct_legal_order distinct_gkeys ok)
  then have "distinct (map g (sort_key f (grange ord m)))"
    by (metis mset_map mset_sort mset_eq_imp_distinct_iff)
  then show ?thesis by (simp add: take_limit_take take_map [symmetric])
qed

lemma length_listing: "0 < n \<Longrightarrow> int (length (take_limit n xs)) \<le> n"
  by (simp add: length_take_limit)

interpretation deliv: delivery_repo delivery_view world_ok
  rt_SaveWebhookDelivery rt_GetWebhookDeliveryByID rt_ListWebhookDeliveries
proof (unfold_locales, goal_cases)
  case (5 s d)
  then show ?case
    using keepsD [OF keeps_rt_writes(13)] by (force simp: rt_eqs Store_SaveWebhookDelivery_def view_defs)
next
  case (6 s k)
  then show ?case
    by (auto simp: rt_eqs Store_GetWebhookDeliveryByID_def view_defs split: option.splits)
next
  case (7 s n)
  let ?m = "webhookDeliveriesByID (mem s)"
  let ?ds = "take_limit n (sort_key delivery_recency (grange (iter_src s (iter_ix s)) ?m))"
  from 7 have keyed: "keyed wd_ID ?m" by (simp add: world_ok_def mem_ok_def)
  have "\<forall>d \<in> set ?ds. map_of ?m (wd_ID d) = Some d"
    using set_sort_listing [OF keyed_gmap_ok [OF keyed], of n delivery_recency] keyed
    by (fastforce simp: ran_def keyed_def)
  with distinct_listing [OF keyed, of n delivery_recency "iter_src s (iter_ix s)"] 7
  show ?case
    by (simp add: rt_eqs Store_ListWebhookDeliveries_def view_defs length_listing world_ok_def)
qed (auto simp: view_defs)

interpretation blob: blob_store blob_view world_ok rt_Put rt_Get
proof (unfold_locales, goal_cases)
  case (5 s k d u s')
  then show ?case
    using keepsD [OF keeps_rt_writes(4) 5] by (auto simp: rt_eqs Store_Put_def view_defs)
next
  case (6 s k d e s')
  then show ?case by (simp add: rt_eqs Store_Put_def)
next
  case (7 s k d)
  then show ?case by (simp add: rt_eqs Store_Get_def view_defs)
next
  case (8 s k)
  then show ?case by (simp add: rt_eqs Store_Get_def view_defs)
qed (auto simp: view_defs)

interpretation rcpt: receipt_repo receipt_view world_ok rt_SaveInboundReceipt rt_GetInboundReceiptByObjectKey
proof (unfold_locales, goal_cases)
  case (5 s r u s')
  then show ?case
    using keepsD [OF keeps_rt_writes(5) 5] by (auto simp: rt_eqs Store_SaveInboundReceipt_def view_defs)
next
  case (6 s k r)
  then show ?case by (simp add: rt_eqs Store_GetInboundReceiptByObjectKey_def view_defs)
next
  case (7 s k)
  then show ?case by (simp add: rt_eqs Store_GetInboundReceiptByObjectKey_def view_defs)
qed (auto simp: view_defs)

interpretation msgs: message_repo message_view world_ok
  rt_SaveMessage rt_FindByProviderMessageID rt_GetMessageByID
proof (unfold_locales, goal_cases)
  case (5 s m)
  then show ?case
    using keepsD [OF keeps_rt_writes(9)]
    by (force simp: rt_eqs Store_SaveMessage_def view_defs index_message_provider)
next
  case (6 s p)
  then show ?case by (simp add: rt_eqs Store_FindByProviderMessageID_def view_defs)
next
  case (7 s p m)
  then show ?case by (auto simp: world_ok_def mem_ok_def keyed_def view_defs)
next
  case (8 s k m)
  then show ?case by (simp add: rt_eqs Store_GetMessageByID_def view_defs)
qed (auto simp: view_defs)

end
