(* ===== verification/Resolution.thy ===== *)
theory Resolution
  imports Runtime_Store
begin

text \<open>
  Who wrote a message and which conversation it belongs to: the contact resolver
  (\<open>internal/contacts/resolver.go\<close>), the thread resolver
  (\<open>internal/threading/resolver.go\<close>) and the subject normalisation of
  \<open>internal/parser/parser.go\<close> that feeds it.
\<close>

section \<open>Subjects\<close>

lemma trim_drop_less: "has_prefix (to_lower s) p \<Longrightarrow> p \<noteq> [] \<Longrightarrow> 0 < n \<Longrightarrow>
    length (trim_space (drop n s)) < length s"
  using has_prefix_length [of "to_lower s" p] length_trim_space [of "drop n s"]
  by (cases s) auto

text \<open>
  \<open>normalizeSubject\<close>: the loop strips one reply or forward prefix a round; every round
  shortens the string, which is the measure.
\<close>

function normalize_loop :: "string \<Rightarrow> string" where
  "normalize_loop normalized =
     (let lower = to_lower normalized
      in if has_prefix lower ''re:'' then normalize_loop (trim_space (drop 3 normalized))
         else if has_prefix lower ''fwd:'' then normalize_loop (trim_space (drop 4 normalized))
         else if has_prefix lower ''fw:'' then normalize_loop (trim_space (drop 3 normalized))
         else to_lower normalized)"
  by pat_completeness auto

termination
  by (relation "measure length") (auto intro: trim_drop_less)

declare normalize_loop.simps [simp del]

definition normalizeSubject :: "string \<Rightarrow> string" where
  "normalizeSubject subject = normalize_loop (trim_space subject)"

text \<open>A subject the loop is done with.\<close>

definition bare_subject :: "string \<Rightarrow> bool" where
  "bare_subject s \<longleftrightarrow> \<not> has_prefix s ''re:'' \<and> \<not> has_prefix s ''fwd:'' \<and> \<not> has_prefix s ''fw:''"

lemma has_prefix_Cons [simp]:
  "has_prefix s [] = True"
  "has_prefix [] (c # p) = False"
  "has_prefix (d # s) (c # p) = (c = d \<and> has_prefix s p)"
  by (auto simp: has_prefix_def)

lemma normalize_loop_bare: "bare_subject (to_lower s) \<Longrightarrow> normalize_loop s = to_lower s"
  by (subst normalize_loop.simps) (simp add: bare_subject_def Let_def)

lemma prefixes_exclusive:
  "has_prefix t ''fwd:'' \<Longrightarrow> \<not> has_prefix t ''re:''"
  "has_prefix t ''fw:'' \<Longrightarrow> \<not> has_prefix t ''re:''"
  "has_prefix t ''fw:'' \<Longrightarrow> \<not> has_prefix t ''fwd:''"
proof -
  have uncons: "\<exists>t'. t = c # t' \<and> has_prefix t' p" if "has_prefix t (c # p)" for t c p
    using that by (cases t) auto
  show "has_prefix t ''fwd:'' \<Longrightarrow> \<not> has_prefix t ''re:''"
    and "has_prefix t ''fw:'' \<Longrightarrow> \<not> has_prefix t ''re:''"
    and "has_prefix t ''fw:'' \<Longrightarrow> \<not> has_prefix t ''fwd:''"
    by (auto dest!: uncons)
qed

lemma normalize_loop_step:
  "has_prefix (to_lower s) ''re:'' \<Longrightarrow> normalize_loop s = normalize_loop (trim_space (drop 3 s))"
  "has_prefix (to_lower s) ''fwd:'' \<Longrightarrow> normalize_loop s = normalize_loop (trim_space (drop 4 s))"
  "has_prefix (to_lower s) ''fw:'' \<Longrightarrow> normalize_loop s = normalize_loop (trim_space (drop 3 s))"
  by (subst normalize_loop.simps, simp add: Let_def prefixes_exclusive)+

text \<open>The cases of one round, as an induction rule.\<close>

lemma normalize_induct:
  assumes bare: "\<And>s. bare_subject (to_lower s) \<Longrightarrow> P s"
    and strip: "\<And>s n. n \<in> {3, 4} \<Longrightarrow> normalize_loop s = normalize_loop (trim_space (drop n s)) \<Longrightarrow>
      normalize_loop (to_lower s) = normalize_loop (trim_space (drop n (to_lower s))) \<Longrightarrow>
      P (trim_space (drop n s)) \<Longrightarrow> P s"
  shows "P s"
proof (induction s rule: measure_induct_rule [of length])
  case (less s)
  have step: "P s" if "has_prefix (to_lower s) p" "p \<noteq> []" "n \<in> {3, 4}"
    "normalize_loop s = normalize_loop (trim_space (drop n s))"
    "normalize_loop (to_lower s) = normalize_loop (trim_space (drop n (to_lower s)))" for p n
    by (rule strip [OF that(3,4,5)], rule less) (use that trim_drop_less [of s p n] in auto)
  consider "has_prefix (to_lower s) ''re:''" | "has_prefix (to_lower s) ''fwd:''"
    | "has_prefix (to_lower s) ''fw:''" | "bare_subject (to_lower s)"
    by (auto simp: bare_subject_def)
  then show ?case
  proof cases
    case 1
    then show ?thesis by (rule step [where n = 3]) (simp_all add: normalize_loop_step(1) 1)
  next
    case 2
    then show ?thesis by (rule step [where n = 4]) (simp_all add: normalize_loop_step(2) 2)
  next
    case 3
    then show ?thesis by (rule step [where n = 3]) (simp_all add: normalize_loop_step(3) 3)
  qed (rule bare)
qed

lemma normalize_loop_result:
  "trim_space s = s \<Longrightarrow>
   bare_subject (normalize_loop s) \<and> trim_space (normalize_loop s) = normalize_loop s \<and>
   to_lower (normalize_loop s) = normalize_loop s"
  by (induction s rule: normalize_induct)
    (simp_all add: normalize_loop_bare to_lower_trim_space [symmetric])

lemma normalize_loop_lower: "normalize_loop (to_lower s) = normalize_loop s"
proof (induction s rule: normalize_induct)
  case (2 s n)
  then show ?case by (simp add: drop_to_lower to_lower_trim_space [symmetric])
qed (simp add: normalize_loop_bare)

lemma normalizeSubject_result:
  "bare_subject (normalizeSubject s) \<and> trim_space (normalizeSubject s) = normalizeSubject s \<and>
   to_lower (normalizeSubject s) = normalizeSubject s"
  unfolding normalizeSubject_def by (rule normalize_loop_result) simp

text \<open>Normalising is idempotent, and its result is lower case, trimmed and free of reply
  and forward prefixes: two subjects that differ only in such prefixes, in case and in outer
  white space group under one key, and the key is its own normal form.\<close>

theorem normalizeSubject_canonical:
  "normalizeSubject (normalizeSubject s) = normalizeSubject s \<and>
   bare_subject (normalizeSubject s) \<and> to_lower (normalizeSubject s) = normalizeSubject s \<and>
   trim_space (normalizeSubject s) = normalizeSubject s \<and>
   normalizeSubject (to_lower s) = normalizeSubject s"
proof -
  have "bare_subject (to_lower (normalizeSubject s))"
    by (simp add: normalizeSubject_result)
  then have "normalizeSubject (normalizeSubject s) = normalizeSubject s"
    unfolding normalizeSubject_def [of "normalizeSubject s"]
    by (simp add: normalizeSubject_result normalize_loop_bare)
  moreover have "normalizeSubject (to_lower s) = normalizeSubject s"
    by (simp add: normalizeSubject_def to_lower_trim_space [symmetric] normalize_loop_lower)
  ultimately show ?thesis using normalizeSubject_result [of s] by simp
qed

section \<open>Contacts\<close>

definition newContactID :: "('z env_scheme, string) go" where
  "newContactID = random_id ''contact-'' ''contact-generated''"

text \<open>The first argument is \<open>contacts.Repository.FindByEmail\<close>.\<close>

definition contacts_Resolve ::
    "(string \<Rightarrow> string \<Rightarrow> ('z env_scheme, contact option) go) \<Rightarrow> contact_resolution_input \<Rightarrow>
     ('z env_scheme, contact_resolution_result) go" where
  "contacts_Resolve findByEmail input =
     (let from = pm_From (ci_ParsedMessage input) in
      go_bind (findByEmail (ci_OrganizationID input) (pa_Email from)) (\<lambda>r. case r of
        Some existing \<Rightarrow>
          (let named = (if pa_DisplayName from \<noteq> [] then existing\<lparr>c_DisplayName := pa_DisplayName from\<rparr>
                        else existing)
           in go_ret \<lparr>cr_Contact = named\<lparr>c_LastSeenAt := ci_ReceivedAt input,
                                          c_UpdatedAt := ci_ReceivedAt input\<rparr>,
                      cr_Created = False\<rparr>)
      | None \<Rightarrow> go_bind newContactID (\<lambda>i.
          go_ret \<lparr>cr_Contact =
            \<lparr>c_ID = i, c_OrganizationID = ci_OrganizationID input, c_EmailAddress = pa_Email from,
             c_DisplayName = pa_DisplayName from, c_LastSeenAt = ci_ReceivedAt input,
             c_CreatedAt = ci_ReceivedAt input, c_UpdatedAt = ci_ReceivedAt input\<rparr>,
            cr_Created = True\<rparr>)))"

section \<open>Threads\<close>

definition MatchStrategyInReplyTo :: string where "MatchStrategyInReplyTo = ''in_reply_to''"
definition MatchStrategyReferences :: string where "MatchStrategyReferences = ''references''"
definition MatchStrategySubjectRecent :: string where "MatchStrategySubjectRecent = ''subject_recent''"
definition MatchStrategyNewThread :: string where "MatchStrategyNewThread = ''new_thread''"

text \<open>\<open>Config\<close> holds one \<open>time.Duration\<close>; a threshold that is not positive is replaced.\<close>

definition default_threshold :: duration where
  "default_threshold = word_of_int (30 * 24 * hour)"

definition NewResolverWithConfig :: "duration \<Rightarrow> duration" where
  "NewResolverWithConfig threshold = (if sint threshold \<le> 0 then default_threshold else threshold)"

definition NewResolver :: duration where
  "NewResolver = NewResolverWithConfig default_threshold"

definition isDormant :: "duration \<Rightarrow> thread \<Rightarrow> gtime \<Rightarrow> bool" where
  "isDormant threshold thread receivedAt =
     (if t_State thread = ThreadStateDormant then True
      else if is_zero_time (t_LastActivityAt thread) then False
      else sint threshold < time_sub receivedAt (t_LastActivityAt thread))"

definition newThreadID :: "('z env_scheme, string) go" where
  "newThreadID = random_id ''thread-'' ''thread-generated''"

text \<open>The loop over \<open>References\<close>: the first reference that finds a thread.\<close>

fun find_reference :: "(string \<Rightarrow> ('s, thread option) go) \<Rightarrow> string list \<Rightarrow> ('s, thread option) go" where
  "find_reference findByMessageID [] = go_ret None"
| "find_reference findByMessageID (reference # rest) =
     go_bind (findByMessageID reference) (\<lambda>r. case r of
       Some thread \<Rightarrow> go_ret (Some thread)
     | None \<Rightarrow> find_reference findByMessageID rest)"

definition fresh_thread :: "thread_resolution_input \<Rightarrow> string \<Rightarrow> thread" where
  "fresh_thread input i = zero_thread
     \<lparr>t_ID := i, t_OrganizationID := ti_OrganizationID input, t_AgentID := ti_AgentID input,
      t_InboxID := ti_InboxID input, t_ContactID := ti_ContactID input,
      t_SubjectNormalized := pm_SubjectNormalized (ti_ParsedMessage input),
      t_State := ThreadStateActive, t_LastActivityAt := ti_ReceivedAt input,
      t_CreatedAt := ti_ReceivedAt input, t_UpdatedAt := ti_ReceivedAt input\<rparr>"

definition matched :: "thread \<Rightarrow> string \<Rightarrow> thread_resolution_result" where
  "matched thread strategy = \<lparr>tr_Thread = thread, tr_MatchedBy = strategy, tr_Created = False\<rparr>"

text \<open>The end of \<open>Resolve\<close>: the subject lookup, and a new thread when it gives none.\<close>

definition resolve_subject ::
    "(string \<Rightarrow> string \<Rightarrow> string \<Rightarrow> string \<Rightarrow> ('z env_scheme, thread option) go) \<Rightarrow>
     duration \<Rightarrow> thread_resolution_input \<Rightarrow> ('z env_scheme, thread_resolution_result) go" where
  "resolve_subject findMostRecent threshold input =
     (let subject = pm_SubjectNormalized (ti_ParsedMessage input) in
      go_bind (if subject \<noteq> []
               then findMostRecent (ti_OrganizationID input) (ti_InboxID input) (ti_ContactID input) subject
               else go_ret None)
       (\<lambda>recent. if recent \<noteq> None \<and> \<not> isDormant threshold (the recent) (ti_ReceivedAt input)
          then go_ret (matched (the recent) MatchStrategySubjectRecent)
          else go_bind newThreadID (\<lambda>i.
            go_ret \<lparr>tr_Thread = fresh_thread input i, tr_MatchedBy = MatchStrategyNewThread,
                    tr_Created = True\<rparr>)))"

text \<open>The two function arguments are the methods of \<open>ThreadLookupRepository\<close>.\<close>

definition threading_Resolve ::
    "(string \<Rightarrow> ('z env_scheme, thread option) go) \<Rightarrow>
     (string \<Rightarrow> string \<Rightarrow> string \<Rightarrow> string \<Rightarrow> ('z env_scheme, thread option) go) \<Rightarrow>
     duration \<Rightarrow> thread_resolution_input \<Rightarrow> ('z env_scheme, thread_resolution_result) go" where
  "threading_Resolve findByMessageID findMostRecent threshold input =
     (let p = ti_ParsedMessage input in
      go_bind (if pm_InReplyTo p \<noteq> [] then findByMessageID (pm_InReplyTo p) else go_ret None)
       (\<lambda>replied. case replied of
          Some thread \<Rightarrow> go_ret (matched thread MatchStrategyInReplyTo)
        | None \<Rightarrow> go_bind (find_reference findByMessageID (pm_References p)) (\<lambda>referenced. case referenced of
            Some thread \<Rightarrow> go_ret (matched thread MatchStrategyReferences)
          | None \<Rightarrow> resolve_subject findMostRecent threshold input)))"

section \<open>What resolution promises\<close>

text \<open>Over the stored threads \<open>ts\<close> and messages \<open>ms\<close>.\<close>

definition cites :: "message set \<Rightarrow> string \<Rightarrow> thread \<Rightarrow> bool" where
  "cites ms k t \<longleftrightarrow> (\<exists>m \<in> ms. m_MessageIDHeader m = k \<and> m_ThreadID m = t_ID t)"

definition uncited :: "message set \<Rightarrow> string \<Rightarrow> bool" where
  "uncited ms k \<longleftrightarrow> (\<forall>m \<in> ms. m_MessageIDHeader m \<noteq> k)"

definition attached :: "thread set \<times> message set \<Rightarrow> bool" where
  "attached v \<longleftrightarrow> (\<forall>m \<in> snd v. \<exists>t \<in> fst v. t_ID t = m_ThreadID m)"

definition latest_in_scope :: "thread set \<Rightarrow> thread_resolution_input \<Rightarrow> thread \<Rightarrow> bool" where
  "latest_in_scope ts input t \<longleftrightarrow>
     (let scope = subject_scope (ti_OrganizationID input) (ti_InboxID input) (ti_ContactID input)
                    (pm_SubjectNormalized (ti_ParsedMessage input))
      in t \<in> ts \<and> scope t \<and> (\<forall>u \<in> ts. scope u \<longrightarrow> t_LastActivityAt u \<le> t_LastActivityAt t))"

definition by_reply :: "thread set \<times> message set \<Rightarrow> parsed_message \<Rightarrow> thread_resolution_result \<Rightarrow> bool" where
  "by_reply v p res \<longleftrightarrow> pm_InReplyTo p \<noteq> [] \<and>
     (\<exists>t \<in> fst v. cites (snd v) (pm_InReplyTo p) t \<and> res = matched t MatchStrategyInReplyTo)"

definition no_reply :: "thread set \<times> message set \<Rightarrow> parsed_message \<Rightarrow> bool" where
  "no_reply v p \<longleftrightarrow> pm_InReplyTo p = [] \<or> uncited (snd v) (pm_InReplyTo p)"

definition first_cited :: "thread set \<times> message set \<Rightarrow> string list \<Rightarrow> thread \<Rightarrow> bool" where
  "first_cited v refs t \<longleftrightarrow> t \<in> fst v \<and>
     (\<exists>pre k post. refs = pre @ k # post \<and> (\<forall>r \<in> set pre. uncited (snd v) r) \<and> cites (snd v) k t)"

definition by_subject ::
    "thread set \<times> message set \<Rightarrow> duration \<Rightarrow> thread_resolution_input \<Rightarrow> thread_resolution_result \<Rightarrow> bool" where
  "by_subject v threshold input res \<longleftrightarrow> pm_SubjectNormalized (ti_ParsedMessage input) \<noteq> [] \<and>
     (\<exists>t. latest_in_scope (fst v) input t \<and> \<not> isDormant threshold t (ti_ReceivedAt input) \<and>
          res = matched t MatchStrategySubjectRecent)"

definition no_subject ::
    "thread set \<times> message set \<Rightarrow> duration \<Rightarrow> thread_resolution_input \<Rightarrow> bool" where
  "no_subject v threshold input \<longleftrightarrow> pm_SubjectNormalized (ti_ParsedMessage input) = [] \<or>
     (\<forall>t. \<not> latest_in_scope (fst v) input t) \<or>
     (\<exists>t. latest_in_scope (fst v) input t \<and> isDormant threshold t (ti_ReceivedAt input))"

definition opened :: "thread_resolution_input \<Rightarrow> thread_resolution_result \<Rightarrow> bool" where
  "opened input res \<longleftrightarrow> (\<exists>i. (i = ''thread-generated'' \<or> length i = 23) \<and>
     res = \<lparr>tr_Thread = fresh_thread input i, tr_MatchedBy = MatchStrategyNewThread, tr_Created = True\<rparr>)"

definition resolution_spec ::
    "thread set \<times> message set \<Rightarrow> duration \<Rightarrow> thread_resolution_input \<Rightarrow> thread_resolution_result \<Rightarrow> bool" where
  "resolution_spec v threshold input res \<longleftrightarrow>
     (let p = ti_ParsedMessage input in
      by_reply v p res \<or>
      no_reply v p \<and>
        ((\<exists>t. first_cited v (pm_References p) t \<and> res = matched t MatchStrategyReferences) \<or>
         (\<forall>r \<in> set (pm_References p). uncited (snd v) r) \<and>
           (by_subject v threshold input res \<or> no_subject v threshold input \<and> opened input res)))"

lemma first_cited_Cons:
  assumes "uncited (snd v) k" and "first_cited v refs t"
  shows "first_cited v (k # refs) t"
proof -
  from assms(2) obtain pre l post where "refs = pre @ l # post" "\<forall>r \<in> set pre. uncited (snd v) r"
    "cites (snd v) l t" "t \<in> fst v"
    unfolding first_cited_def by blast
  with assms(1) have "k # refs = (k # pre) @ l # post \<and> (\<forall>r \<in> set (k # pre). uncited (snd v) r) \<and>
      cites (snd v) l t" "t \<in> fst v" by auto
  then show ?thesis unfolding first_cited_def by blast
qed

lemma first_cited_hd:
  assumes "cites (snd v) k t" and "t \<in> fst v"
  shows "first_cited v (k # refs) t"
proof -
  from assms(1) have "k # refs = [] @ k # refs \<and> (\<forall>r \<in> set []. uncited (snd v) r) \<and> cites (snd v) k t"
    by simp
  with assms(2) show ?thesis unfolding first_cited_def by blast
qed

context thread_lookup_repo
begin

lemma lookup_by_id:
  assumes "inv s" and "attached (view s)" and "find_by_message_id k s = (Inr r, s')"
  shows "inv s' \<and> view s' = view s \<and>
    (case r of None \<Rightarrow> uncited (snd (view s)) k
     | Some t \<Rightarrow> t \<in> fst (view s) \<and> cites (snd (view s)) k t)"
proof (cases r)
  case None
  with assms show ?thesis
    using by_id_frame [OF assms(1,3)] by_id_none [OF assms(1), of k s']
    by (auto simp: uncited_def attached_def)
next
  case (Some t)
  with assms show ?thesis
    using by_id_frame [OF assms(1,3)] by_id_sound [OF assms(1), of k t s'] by (auto simp: cites_def)
qed

lemma find_reference_spec:
  assumes "inv s" and "attached (view s)"
    and "find_reference find_by_message_id refs s = (Inr r, s')"
  shows "inv s' \<and> view s' = view s \<and>
    (case r of None \<Rightarrow> \<forall>k \<in> set refs. uncited (snd (view s)) k
     | Some t \<Rightarrow> first_cited (view s) refs t)"
  using assms
proof (induction refs arbitrary: s)
  case (Cons k refs)
  then obtain q s1 where q: "find_by_message_id k s = (Inr q, s1)"
    and rest: "(case q of None \<Rightarrow> find_reference find_by_message_id refs
                | Some t \<Rightarrow> go_ret (Some t)) s1 = (Inr r, s')"
    by (auto simp: go_bind_Inr_iff split: option.splits)
  note l = lookup_by_id [OF Cons.prems(1,2) q]
  show ?case
  proof (cases q)
    case None
    with l Cons.prems rest Cons.IH [of s1] show ?thesis
      by (auto split: option.splits intro: first_cited_Cons)
  next
    case (Some t)
    with l rest show ?thesis by (auto intro: first_cited_hd)
  qed
qed simp

lemma lookup_recent:
  assumes "inv s"
    and "find_most_recent (ti_OrganizationID input) (ti_InboxID input) (ti_ContactID input)
      (pm_SubjectNormalized (ti_ParsedMessage input)) s = (Inr r, s')"
  shows "inv s' \<and> view s' = view s \<and>
    (case r of None \<Rightarrow> \<forall>t. \<not> latest_in_scope (fst (view s)) input t
     | Some t \<Rightarrow> latest_in_scope (fst (view s)) input t)"
  using recent_frame [OF assms] recent_none [OF assms(1)] recent_sound [OF assms(1)] assms(2)
  by (cases r) (auto simp: latest_in_scope_def Let_def)

lemma resolve_subject_spec:
  assumes "inv s" and run: "resolve_subject find_most_recent threshold input s = (Inr res, s')"
  shows "inv s' \<and> view s' = view s \<and>
    (by_subject (view s) threshold input res \<or> no_subject (view s) threshold input \<and> opened input res)"
proof -
  define subject where "subject = pm_SubjectNormalized (ti_ParsedMessage input)"
  from run obtain r s1 where
    r: "(if subject \<noteq> [] then find_most_recent (ti_OrganizationID input) (ti_InboxID input)
           (ti_ContactID input) subject else go_ret None) s = (Inr r, s1)"
    and rest: "(if r \<noteq> None \<and> \<not> isDormant threshold (the r) (ti_ReceivedAt input)
            then go_ret (matched (the r) MatchStrategySubjectRecent)
            else go_bind newThreadID (\<lambda>i.
              go_ret \<lparr>tr_Thread = fresh_thread input i, tr_MatchedBy = MatchStrategyNewThread,
                      tr_Created = True\<rparr>)) s1 = (Inr res, s')"
    unfolding resolve_subject_def Let_def subject_def by (rule go_bind_InrE)
  have l: "inv s1 \<and> view s1 = view s \<and> (if subject \<noteq> []
      then case r of None \<Rightarrow> \<forall>t. \<not> latest_in_scope (fst (view s)) input t
        | Some t \<Rightarrow> latest_in_scope (fst (view s)) input t else r = None)"
    using r assms(1) lookup_recent [OF assms(1), of input r s1]
    by (cases "subject = []") (simp_all add: subject_def)
  show ?thesis
  proof (cases "r \<noteq> None \<and> \<not> isDormant threshold (the r) (ti_ReceivedAt input)")
    case True
    with l rest show ?thesis by (auto simp: by_subject_def subject_def split: if_splits)
  next
    case False
    with rest obtain i s2 where i: "newThreadID s1 = (Inr i, s2)"
      and res: "res = \<lparr>tr_Thread = fresh_thread input i, tr_MatchedBy = MatchStrategyNewThread,
        tr_Created = True\<rparr>" and s2: "s' = s2"
      by (auto simp: go_bind_Inr_iff)
    have "view s2 = view s1 \<and> inv s2 = inv s1"
      by (rule view_random_id [OF i [unfolded newThreadID_def]])
    moreover have "no_subject (view s) threshold input"
      using l False by (auto simp: no_subject_def subject_def split: if_splits option.splits)
    moreover have "opened input res"
      using random_id_length [OF i [unfolded newThreadID_def]] by (auto simp: opened_def res)
    ultimately show ?thesis using l s2 by simp
  qed
qed

lemma Resolve_spec:
  assumes "inv s" and att: "attached (view s)"
    and run: "threading_Resolve find_by_message_id find_most_recent threshold input s = (Inr res, s')"
  shows "inv s' \<and> view s' = view s \<and> resolution_spec (view s) threshold input res"
proof -
  define p where "p = ti_ParsedMessage input"
  from run obtain r s1 where
    r: "(if pm_InReplyTo p \<noteq> [] then find_by_message_id (pm_InReplyTo p) else go_ret None) s = (Inr r, s1)"
    and rest: "(case r of Some t \<Rightarrow> go_ret (matched t MatchStrategyInReplyTo)
        | None \<Rightarrow> go_bind (find_reference find_by_message_id (pm_References p)) (\<lambda>referenced. case referenced of
            Some thread \<Rightarrow> go_ret (matched thread MatchStrategyReferences)
          | None \<Rightarrow> resolve_subject find_most_recent threshold input)) s1 = (Inr res, s')"
    unfolding threading_Resolve_def Let_def p_def by (rule go_bind_InrE)
  have l: "inv s1 \<and> view s1 = view s \<and> (if pm_InReplyTo p \<noteq> []
      then case r of None \<Rightarrow> uncited (snd (view s)) (pm_InReplyTo p)
        | Some t \<Rightarrow> t \<in> fst (view s) \<and> cites (snd (view s)) (pm_InReplyTo p) t else r = None)"
    using r assms(1) lookup_by_id [OF assms(1) att, of "pm_InReplyTo p" r s1]
    by (cases "pm_InReplyTo p = []") simp_all
  show ?thesis
  proof (cases r)
    case (Some t)
    with l rest have "by_reply (view s) p res" "s' = s1"
      by (auto simp: by_reply_def split: if_splits)
    with l show ?thesis by (simp add: resolution_spec_def p_def Let_def)
  next
    case None
    with l have no: "no_reply (view s) p" by (auto simp: no_reply_def split: if_splits)
    from None rest obtain q s2 where
      q: "find_reference find_by_message_id (pm_References p) s1 = (Inr q, s2)"
      and rest2: "(case q of Some thread \<Rightarrow> go_ret (matched thread MatchStrategyReferences)
          | None \<Rightarrow> resolve_subject find_most_recent threshold input) s2 = (Inr res, s')"
      by (auto elim: go_bind_InrE)
    from l att have s1: "inv s1" "attached (view s1)" "view s1 = view s" by simp_all
    note f = find_reference_spec [OF s1(1,2) q]
    show ?thesis
    proof (cases q)
      case (Some t)
      with f s1 rest2 no show ?thesis by (auto simp: resolution_spec_def p_def Let_def)
    next
      case None
      with f rest2 have "inv s2" and "resolve_subject find_most_recent threshold input s2 = (Inr res, s')"
        by simp_all
      from resolve_subject_spec [OF this] f s1 None no show ?thesis
        by (auto simp: resolution_spec_def p_def Let_def)
    qed
  qed
qed

end

section \<open>Resolution over the runtime store\<close>

text \<open>A store whose lookups never fail: resolution then always gives an answer.\<close>

locale thread_lookup_total = thread_lookup_repo +
  assumes by_id_returns: "inv s \<Longrightarrow> \<exists>r s'. find_by_message_id k s = (Inr r, s')"
    and recent_returns: "inv s \<Longrightarrow> \<exists>r s'. find_most_recent org i c subj s = (Inr r, s')"
begin

lemma find_reference_returns: "inv s \<Longrightarrow> \<exists>r s'. find_reference find_by_message_id refs s = (Inr r, s') \<and> inv s'"
proof (induction refs arbitrary: s)
  case (Cons k refs)
  then obtain q s1 where q: "find_by_message_id k s = (Inr q, s1)" using by_id_returns by blast
  with Cons.prems by_id_frame have "inv s1" by blast
  with q Cons.IH show ?case by (cases q) (auto simp: go_bind_def)
qed simp

lemma resolve_subject_returns: "inv s \<Longrightarrow> \<exists>r s'. resolve_subject find_most_recent threshold input s = (Inr r, s')"
  using recent_returns [of s "ti_OrganizationID input" "ti_InboxID input" "ti_ContactID input"
      "pm_SubjectNormalized (ti_ParsedMessage input)"]
  by (auto simp: resolve_subject_def go_bind_def Let_def newThreadID_def random_id_run)

lemma Resolve_returns:
  assumes "inv s"
  shows "\<exists>r s'. threading_Resolve find_by_message_id find_most_recent threshold input s = (Inr r, s')"
proof -
  define p where "p = ti_ParsedMessage input"
  obtain r s1 where
    r: "(if pm_InReplyTo p \<noteq> [] then find_by_message_id (pm_InReplyTo p) else go_ret None) s = (Inr r, s1)"
    and s1: "inv s1"
  proof (cases "pm_InReplyTo p = []")
    case False
    obtain r s1 where "find_by_message_id (pm_InReplyTo p) s = (Inr r, s1)"
      using by_id_returns [OF assms] by blast
    with that False by_id_frame [OF assms this] show ?thesis by simp
  qed (use that assms in simp)
  obtain q s2 where q: "find_reference find_by_message_id (pm_References p) s1 = (Inr q, s2)" and "inv s2"
    using find_reference_returns [OF s1] by blast
  then obtain u s3 where "resolve_subject find_most_recent threshold input s2 = (Inr u, s3)"
    using resolve_subject_returns by blast
  with r q show ?thesis
    unfolding threading_Resolve_def Let_def p_def [symmetric]
    by (cases r; cases q) (simp_all add: go_bind_def)
qed

end

interpretation threads_total: thread_lookup_total thread_view world_ok rt_FindByMessageID
  rt_FindMostRecentBySubject
  by unfold_locales
    (simp_all add: rt_eqs Store_FindByMessageID_def Store_FindMostRecentBySubject_def)

lemma frames_find_reference [intro, keeps_rules]:
  "(\<And>k. frames g (f k)) \<Longrightarrow> frames g (find_reference f refs)"
  by (induction refs) (auto intro!: frames_bind split: option.split)

lemma frames_Resolve [intro, keeps_rules]:
  fixes g :: "'z env_scheme \<Rightarrow> 'v"
  assumes "\<And>k. frames g (f k)" and "\<And>o' i c k. frames g (h o' i c k)" and "frames g newThreadID"
  shows "frames g (threading_Resolve f h threshold input)"
  unfolding threading_Resolve_def resolve_subject_def Let_def
  by (auto intro!: frames_bind frames_if frames_find_reference assms split: option.split)

lemma frames_mem_Resolve:
  "frames mem (threading_Resolve rt_FindByMessageID rt_FindMostRecentBySubject threshold input)"
  by (auto intro!: frames_Resolve simp: newThreadID_def)

lemma keeps_find_reference [intro, keeps_rules]:
  "(\<And>k. keeps P (f k)) \<Longrightarrow> keeps P (find_reference f refs)"
  by (induction refs) (auto intro!: keeps_bind split: option.split)

text \<open>C1: on the runtime store, whose messages all belong to stored threads, resolution always
  answers, leaves the store alone, and its answer is the one the rules name: the thread of the
  message replied to; else of the first reference that is known; else the latest thread of the
  same organization, inbox, contact and subject, if that thread is not dormant; else a new thread.\<close>

theorem thread_resolution_refines:
  assumes "world_ok w" and "attached (thread_view w)"
  shows "\<exists>res w'. threading_Resolve rt_FindByMessageID rt_FindMostRecentBySubject threshold input w = (Inr res, w') \<and>
    mem w' = mem w \<and> resolution_spec (thread_view w) threshold input res"
proof -
  obtain res w' where run:
    "threading_Resolve rt_FindByMessageID rt_FindMostRecentBySubject threshold input w = (Inr res, w')"
    using threads_total.Resolve_returns [OF assms(1)] by blast
  moreover have "mem w' = mem w"
    by (rule framesD [OF frames_mem_Resolve, OF run])
  ultimately show ?thesis using threads.Resolve_spec [OF assms run] by blast
qed

definition demo_thread :: thread where
  "demo_thread = zero_thread\<lparr>t_ID := ''thread-1'', t_OrganizationID := ''org'', t_AgentID := ''agent'',
     t_InboxID := ''inbox'', t_ContactID := ''contact-1'', t_SubjectNormalized := ''hello'',
     t_State := ThreadStateActive, t_LastActivityAt := 63903204000000000000\<rparr>"

definition demo_message :: message where
  "demo_message = zero_message\<lparr>m_ID := ''message-1'', m_OrganizationID := ''org'',
     m_ThreadID := ''thread-1'', m_InboxID := ''inbox'', m_ContactID := ''contact-1'',
     m_MessageIDHeader := ''<a@x>'', m_Subject := ''Hello'', m_SubjectNormalized := ''hello''\<rparr>"

definition demo_contact :: contact where
  "demo_contact = zero_contact\<lparr>c_ID := ''contact-1'', c_OrganizationID := ''org'',
     c_EmailAddress := ''ada@x''\<rparr>"

definition demo_store :: mem_store where
  "demo_store = NewStore\<lparr>contactsByID := [(''contact-1'', demo_contact)],
     contactsByEmail := [(''ada@x'', demo_contact)],
     threadsByID := [(''thread-1'', demo_thread)], messagesByID := [(''message-1'', demo_message)],
     messagesByThreadID := [(''thread-1'', [''message-1''])]\<rparr>"

lemmas demo_defs = demo_store_def demo_thread_def demo_message_def demo_contact_def zero_defs NewStore_def

lemma demo_store_ok: "mem_ok demo_store"
  by (simp add: mem_ok_def keyed_def gmap_ok_def points_into_def demo_defs)

lemma demo_attached: "attached (thread_view (demo_world demo_store))"
  by (simp add: attached_def thread_view_def demo_defs)

theorem thread_resolution_refines_witness:
  "\<exists>res w'. threading_Resolve rt_FindByMessageID rt_FindMostRecentBySubject NewResolver
     \<lparr>ti_OrganizationID = ''org'', ti_AgentID = ''agent'', ti_InboxID = ''inbox'', ti_ContactID = ''contact-1'',
      ti_ParsedMessage = \<lparr>pm_MessageIDHeader = ''<b@x>'', pm_InReplyTo = ''<a@x>'', pm_References = [],
        pm_Subject = [], pm_SubjectNormalized = [], pm_TextBody = [], pm_HTMLBody = [],
        pm_From = \<lparr>pa_Email = ''ada@x'', pa_DisplayName = []\<rparr>, pm_ReplyTo = [], pm_To = [], pm_CC = [],
        pm_Attachments = [], pm_RawHeaders = []\<rparr>,
      ti_ReceivedAt = 63903204007000000000\<rparr> (demo_world demo_store) = (Inr res, w') \<and>
    mem w' = demo_store \<and> resolution_spec (thread_view (demo_world demo_store)) NewResolver
     \<lparr>ti_OrganizationID = ''org'', ti_AgentID = ''agent'', ti_InboxID = ''inbox'', ti_ContactID = ''contact-1'',
      ti_ParsedMessage = \<lparr>pm_MessageIDHeader = ''<b@x>'', pm_InReplyTo = ''<a@x>'', pm_References = [],
        pm_Subject = [], pm_SubjectNormalized = [], pm_TextBody = [], pm_HTMLBody = [],
        pm_From = \<lparr>pa_Email = ''ada@x'', pa_DisplayName = []\<rparr>, pm_ReplyTo = [], pm_To = [], pm_CC = [],
        pm_Attachments = [], pm_RawHeaders = []\<rparr>,
      ti_ReceivedAt = 63903204007000000000\<rparr> res"
  using thread_resolution_refines [OF _ demo_attached] demo_store_ok by simp

text \<open>Whoever a message comes from, storing the resolved contact and resolving the same address
  again finds that contact, with its id and creation time; the resolution itself writes nothing.\<close>

theorem contact_resolution_stable:
  assumes "contacts_Resolve rt_FindByEmail input w = (Inr res, w1)"
    and "rt_UpsertByEmail (cr_Contact res) w1 = (Inr c, w2)"
    and "contacts_Resolve rt_FindByEmail input' w2 = (r', w3)"
    and "pa_Email (pm_From (ci_ParsedMessage input')) = c_EmailAddress (cr_Contact res)"
  shows "mem w1 = mem w \<and> mem w3 = mem w2 \<and>
    (\<exists>res'. r' = Inr res' \<and> \<not> cr_Created res' \<and> c_ID (cr_Contact res') = c_ID c \<and>
       c_CreatedAt (cr_Contact res') = c_CreatedAt c \<and>
       c_OrganizationID (cr_Contact res') = c_OrganizationID c \<and>
       c_LastSeenAt (cr_Contact res') = ci_ReceivedAt input')"
proof -
  have frame: "frames mem (contacts_Resolve rt_FindByEmail i)" for i
    unfolding contacts_Resolve_def Let_def newContactID_def
    by (auto intro!: frames_bind split: option.split)
  have "c = cr_Contact res" and "map_of (contactsByEmail (mem w2)) (c_EmailAddress c) = Some c"
    using assms(2) by (auto simp: rt_eqs Store_UpsertByEmail_def)
  with assms(3,4) framesD [OF frame assms(1)] framesD [OF frame assms(3)] show ?thesis
    by (auto simp: contacts_Resolve_def rt_eqs Store_FindByEmail_def go_bind_def Let_def)
qed

definition demo_contact_input :: "string \<Rightarrow> gtime \<Rightarrow> contact_resolution_input" where
  "demo_contact_input organizationID at = \<lparr>ci_OrganizationID = organizationID,
     ci_ParsedMessage = \<lparr>pm_MessageIDHeader = ''<b@x>'', pm_InReplyTo = [], pm_References = [],
        pm_Subject = [], pm_SubjectNormalized = [], pm_TextBody = [], pm_HTMLBody = [],
        pm_From = \<lparr>pa_Email = ''bob@y'', pa_DisplayName = ''Bob''\<rparr>, pm_ReplyTo = [], pm_To = [], pm_CC = [],
        pm_Attachments = [], pm_RawHeaders = []\<rparr>, ci_ReceivedAt = at\<rparr>"

text \<open>The second resolution is for another organization, and still finds the first one's contact.\<close>

theorem contact_resolution_stable_witness:
  "\<exists>res w1 c w2 res' w3.
     contacts_Resolve rt_FindByEmail (demo_contact_input ''org-a'' 5) (demo_world NewStore) = (Inr res, w1) \<and>
     rt_UpsertByEmail (cr_Contact res) w1 = (Inr c, w2) \<and>
     contacts_Resolve rt_FindByEmail (demo_contact_input ''org-b'' 9) w2 = (Inr res', w3) \<and>
     \<not> cr_Created res' \<and> c_OrganizationID (cr_Contact res') = c_OrganizationID c \<and>
     c_LastSeenAt (cr_Contact res') = 9"
proof -
  obtain res w1 where r: "contacts_Resolve rt_FindByEmail (demo_contact_input ''org-a'' 5) (demo_world NewStore) = (Inr res, w1)"
    and email: "c_EmailAddress (cr_Contact res) = ''bob@y''"
    by (simp add: contacts_Resolve_def rt_eqs Store_FindByEmail_def go_bind_def Let_def newContactID_def
        random_id_run demo_contact_input_def NewStore_def zero_contact_def)
  obtain c w2 where u: "rt_UpsertByEmail (cr_Contact res) w1 = (Inr c, w2)"
    by (simp add: rt_eqs Store_UpsertByEmail_def)
  obtain r' w3 where r': "contacts_Resolve rt_FindByEmail (demo_contact_input ''org-b'' 9) w2 = (r', w3)"
    by (cases "contacts_Resolve rt_FindByEmail (demo_contact_input ''org-b'' 9) w2")
  have "pa_Email (pm_From (ci_ParsedMessage (demo_contact_input ''org-b'' 9))) = c_EmailAddress (cr_Contact res)"
    by (simp add: email) (simp add: demo_contact_input_def)
  from contact_resolution_stable [OF r u r' this] r u r' show ?thesis
    by (auto simp: demo_contact_input_def)
qed

end
