(* ===== verification/Inbound.thy ===== *)
theory Inbound
  imports Resolution
begin

text \<open>
  The inbound pipeline, \<open>internal/inbound\<close>: the processor (parse, resolve contact, resolve
  thread), the recorder (contact, thread, message, thread again) and the service that skips
  what it has recorded before. The components a struct holds are the arguments of its methods.
\<close>

section \<open>Data\<close>

record process_result =
  pr_ParsedMessage :: parsed_message
  pr_Contact :: contact
  pr_Thread :: thread
  pr_ThreadMatchStrategy :: string
  pr_ThreadCreated :: bool

record record_result =
  rr_Contact :: contact
  rr_Thread :: thread
  rr_Message :: message

record handle_result =
  hr_ParsedMessage :: parsed_message
  hr_Contact :: contact
  hr_Thread :: thread
  hr_Message :: message
  hr_ThreadMatchStrategy :: string
  hr_ThreadCreated :: bool
  hr_Duplicate :: bool

section \<open>Processor\<close>

definition Processor_Process ::
    "(stored_inbound_message \<Rightarrow> ('s, parsed_message) go) \<Rightarrow>
     (contact_resolution_input \<Rightarrow> ('s, contact_resolution_result) go) \<Rightarrow>
     (thread_resolution_input \<Rightarrow> ('s, thread_resolution_result) go) \<Rightarrow>
     stored_inbound_message \<Rightarrow> ('s, process_result) go" where
  "Processor_Process parse resolveContact resolveThread message =
     (let receipt = sm_Receipt message in
      go_bind (parse message) (\<lambda>parsed.
      go_bind (resolveContact \<lparr>ci_OrganizationID = ir_OrganizationID receipt, ci_ParsedMessage = parsed,
                               ci_ReceivedAt = ir_ReceivedAt receipt\<rparr>) (\<lambda>contactResult.
      go_bind (resolveThread \<lparr>ti_OrganizationID = ir_OrganizationID receipt, ti_AgentID = ir_AgentID receipt,
                              ti_InboxID = ir_InboxID receipt,
                              ti_ContactID = c_ID (cr_Contact contactResult),
                              ti_ParsedMessage = parsed, ti_ReceivedAt = ir_ReceivedAt receipt\<rparr>)
       (\<lambda>threadResult.
      go_ret \<lparr>pr_ParsedMessage = parsed, pr_Contact = cr_Contact contactResult,
              pr_Thread = tr_Thread threadResult, pr_ThreadMatchStrategy = tr_MatchedBy threadResult,
              pr_ThreadCreated = tr_Created threadResult\<rparr>))))"

section \<open>Recorder\<close>

definition newMessageID :: "('z env_scheme, string) go" where
  "newMessageID = random_id ''message-'' ''message-generated''"

definition inbound_message ::
    "stored_inbound_message \<Rightarrow> parsed_message \<Rightarrow> string \<Rightarrow> string \<Rightarrow> string \<Rightarrow> message" where
  "inbound_message stored parsed i threadID contactID = zero_message
     \<lparr>m_ID := i, m_OrganizationID := ir_OrganizationID (sm_Receipt stored), m_ThreadID := threadID,
      m_InboxID := ir_InboxID (sm_Receipt stored), m_ContactID := contactID,
      m_Direction := MessageDirectionInbound, m_Subject := pm_Subject parsed,
      m_SubjectNormalized := pm_SubjectNormalized parsed,
      m_MessageIDHeader := pm_MessageIDHeader parsed, m_InReplyTo := pm_InReplyTo parsed,
      m_References := pm_References parsed, m_TextBody := pm_TextBody parsed,
      m_HTMLBody := pm_HTMLBody parsed,
      m_RawMIMEObjectKey := ir_RawMessageObjectKey (sm_Receipt stored),
      m_CreatedAt := ir_ReceivedAt (sm_Receipt stored)\<rparr>"

definition inbound_Record ::
    "(contact \<Rightarrow> ('z env_scheme, contact) go) \<Rightarrow> (thread \<Rightarrow> ('z env_scheme, thread) go) \<Rightarrow>
     (message \<Rightarrow> ('z env_scheme, message) go) \<Rightarrow> stored_inbound_message \<Rightarrow> process_result \<Rightarrow>
     ('z env_scheme, record_result) go" where
  "inbound_Record upsertByEmail saveThread createMessage stored processed =
     go_bind (upsertByEmail (pr_Contact processed)) (\<lambda>contact.
     go_bind (saveThread (pr_Thread processed)) (\<lambda>thread.
     go_bind newMessageID (\<lambda>i.
     go_bind (createMessage (inbound_message stored (pr_ParsedMessage processed) i (t_ID thread) (c_ID contact)))
      (\<lambda>message.
     go_bind (saveThread (thread\<lparr>t_LastInboundID := m_ID message,
                                t_LastActivityAt := ir_ReceivedAt (sm_Receipt stored),
                                t_UpdatedAt := ir_ReceivedAt (sm_Receipt stored)\<rparr>)) (\<lambda>thread'.
     go_ret \<lparr>rr_Contact = contact, rr_Thread = thread', rr_Message = message\<rparr>)))))"

section \<open>Service\<close>

text \<open>\<open>DuplicateLookupInterface\<close>; a service built without it holds none.\<close>

record 's duplicate_lookup =
  dl_FindInboundByHeader :: "string \<Rightarrow> string \<Rightarrow> ('s, message option) go"
  dl_GetByID :: "string \<Rightarrow> ('s, thread) go"
  dl_GetContactByID :: "string \<Rightarrow> ('s, contact) go"

text \<open>The lookup of lines 61--86: the result of a message recorded before, if there is one.\<close>

definition find_duplicate ::
    "'s duplicate_lookup option \<Rightarrow> stored_inbound_message \<Rightarrow> parsed_message \<Rightarrow>
     ('s, handle_result option) go" where
  "find_duplicate duplicates stored parsed = (case duplicates of
       None \<Rightarrow> go_ret None
     | Some d \<Rightarrow>
         if pm_MessageIDHeader parsed = [] then go_ret None
         else go_bind (dl_FindInboundByHeader d (ir_InboxID (sm_Receipt stored)) (pm_MessageIDHeader parsed))
           (\<lambda>found. case found of
              None \<Rightarrow> go_ret None
            | Some existing \<Rightarrow>
                go_bind (dl_GetByID d (m_ThreadID existing)) (\<lambda>thread.
                go_bind (dl_GetContactByID d (m_ContactID existing)) (\<lambda>contact.
                go_ret (Some \<lparr>hr_ParsedMessage = parsed, hr_Contact = contact, hr_Thread = thread,
                              hr_Message = existing, hr_ThreadMatchStrategy = ''duplicate'',
                              hr_ThreadCreated = False, hr_Duplicate = True\<rparr>)))))"

definition HandleStoredMessage ::
    "(stored_inbound_message \<Rightarrow> ('s, process_result) go) \<Rightarrow>
     (stored_inbound_message \<Rightarrow> process_result \<Rightarrow> ('s, record_result) go) \<Rightarrow>
     's duplicate_lookup option \<Rightarrow> stored_inbound_message \<Rightarrow> ('s, handle_result) go" where
  "HandleStoredMessage process recordIt duplicates stored =
     go_bind (process stored) (\<lambda>processed.
     go_bind (find_duplicate duplicates stored (pr_ParsedMessage processed)) (\<lambda>dup. case dup of
       Some result \<Rightarrow> go_ret result
     | None \<Rightarrow>
         go_bind (recordIt stored processed) (\<lambda>recorded.
         go_ret \<lparr>hr_ParsedMessage = pr_ParsedMessage processed, hr_Contact = rr_Contact recorded,
                 hr_Thread = rr_Thread recorded, hr_Message = rr_Message recorded,
                 hr_ThreadMatchStrategy = pr_ThreadMatchStrategy processed,
                 hr_ThreadCreated = pr_ThreadCreated processed, hr_Duplicate = False\<rparr>)))"

section \<open>The pipeline over the runtime store\<close>

text \<open>
  \<open>newInboundProcessor\<close>, \<open>newInboundRecorder\<close> and the base service of \<open>newInboundService\<close>.
  \<open>decode\<close> is what the parser makes of the raw bytes once it has read them
  (\<open>net/mail\<close>, \<open>mime\<close> and the body walk of \<open>Parser.Parse\<close>).
\<close>

definition Parser_Parse ::
    "(string \<Rightarrow> ('s, string) go) \<Rightarrow> (string \<Rightarrow> gerr + parsed_message) \<Rightarrow> stored_inbound_message \<Rightarrow>
     ('s, parsed_message) go" where
  "Parser_Parse get decode message =
     go_bind (get (ir_RawMessageObjectKey (sm_Receipt message))) (\<lambda>raw. go_lift (decode raw))"

definition newInboundProcessor ::
    "(string \<Rightarrow> gerr + parsed_message) \<Rightarrow> stored_inbound_message \<Rightarrow> ('z world_scheme, process_result) go" where
  "newInboundProcessor decode =
     Processor_Process (Parser_Parse rt_Get decode) (contacts_Resolve rt_FindByEmail)
       (threading_Resolve rt_FindByMessageID rt_FindMostRecentBySubject NewResolver)"

definition newInboundRecorder ::
    "stored_inbound_message \<Rightarrow> process_result \<Rightarrow> ('z world_scheme, record_result) go" where
  "newInboundRecorder = inbound_Record rt_UpsertByEmail rt_Save rt_Create"

definition rt_duplicates :: "'z world_scheme duplicate_lookup" where
  "rt_duplicates = \<lparr>dl_FindInboundByHeader = rt_FindInboundByHeader, dl_GetByID = rt_GetByID,
     dl_GetContactByID = rt_GetContactByID\<rparr>"

definition inbound_base ::
    "(string \<Rightarrow> gerr + parsed_message) \<Rightarrow> stored_inbound_message \<Rightarrow> ('z world_scheme, handle_result) go" where
  "inbound_base decode =
     HandleStoredMessage (newInboundProcessor decode) newInboundRecorder (Some rt_duplicates)"

subsection \<open>Processing writes nothing\<close>

lemma frames_contacts_Resolve [intro, simp, keeps_rules]:
  "frames mem (contacts_Resolve rt_FindByEmail input)"
  unfolding contacts_Resolve_def Let_def newContactID_def
  by (auto intro!: frames_bind split: option.split)

lemma frames_newInboundProcessor [intro, simp, keeps_rules]:
  "frames mem (newInboundProcessor decode stored)"
  unfolding newInboundProcessor_def Processor_Process_def Parser_Parse_def Let_def
  by (intro frames_bind frames_ret frames_lift frames_rt_reads frames_contacts_Resolve frames_mem_Resolve)

lemma frames_find_duplicate [intro, simp, keeps_rules]:
  "frames mem (find_duplicate (Some rt_duplicates) stored parsed)"
  unfolding find_duplicate_def rt_duplicates_def
  by (auto intro!: frames_bind split: option.split)

lemma contacts_Resolve_returns: "\<exists>r w'. contacts_Resolve rt_FindByEmail input w = (Inr r, w')"
  by (auto simp: contacts_Resolve_def rt_eqs Store_FindByEmail_def go_bind_def Let_def newContactID_def
      random_id_run split: option.splits)

lemma mem_eq_ok: "mem w' = mem w \<Longrightarrow> world_ok w' = world_ok w"
  by (simp add: world_ok_def)

lemma rt_Get_run: "rt_Get k w = (found_or ''raw message'' (map_of (rawMessages (mem w)) k), w)"
  by (simp add: rt_eqs Store_Get_def)

lemma Processor_run:
  assumes "world_ok w"
    and raw: "map_of (rawMessages (mem w)) (ir_RawMessageObjectKey (sm_Receipt stored)) = Some raw"
    and dec: "decode raw = Inr parsed"
  shows "\<exists>pr w'. newInboundProcessor decode stored w = (Inr pr, w') \<and> mem w' = mem w \<and>
    pr_ParsedMessage pr = parsed"
proof -
  have parse: "Parser_Parse rt_Get decode stored w = (Inr parsed, w)"
    by (simp add: Parser_Parse_def go_bind_def rt_Get_run raw dec)
  define ci where "ci = \<lparr>ci_OrganizationID = ir_OrganizationID (sm_Receipt stored),
    ci_ParsedMessage = parsed, ci_ReceivedAt = ir_ReceivedAt (sm_Receipt stored)\<rparr>"
  obtain cr w1 where c: "contacts_Resolve rt_FindByEmail ci w = (Inr cr, w1)"
    using contacts_Resolve_returns by blast
  have w1: "mem w1 = mem w" by (rule framesD [OF frames_contacts_Resolve, OF c])
  define ti where "ti = \<lparr>ti_OrganizationID = ir_OrganizationID (sm_Receipt stored),
    ti_AgentID = ir_AgentID (sm_Receipt stored), ti_InboxID = ir_InboxID (sm_Receipt stored),
    ti_ContactID = c_ID (cr_Contact cr), ti_ParsedMessage = parsed,
    ti_ReceivedAt = ir_ReceivedAt (sm_Receipt stored)\<rparr>"
  have "world_ok w1" using assms(1) mem_eq_ok [OF w1] by simp
  then obtain tr w2 where t: "threading_Resolve rt_FindByMessageID rt_FindMostRecentBySubject NewResolver ti w1 = (Inr tr, w2)"
    using threads_total.Resolve_returns by blast
  have w2: "mem w2 = mem w1" by (rule framesD [OF frames_mem_Resolve, OF t])
  show ?thesis
    unfolding newInboundProcessor_def Processor_Process_def Let_def
    by (intro exI conjI, rule go_bind_okI, rule parse, fold ci_def, rule go_bind_okI, rule c,
        fold ti_def, rule go_bind_okI, rule t, rule go_ret_run) (simp_all add: w1 w2)
qed

lemma Processor_InrD:
  assumes "newInboundProcessor decode stored w = (Inr pr, w')"
  shows "mem w' = mem w \<and> (\<exists>raw. map_of (rawMessages (mem w)) (ir_RawMessageObjectKey (sm_Receipt stored)) = Some raw \<and>
    decode raw = Inr (pr_ParsedMessage pr))"
proof -
  have "mem w' = mem w" by (rule framesD [OF frames_newInboundProcessor, OF assms])
  moreover have "\<exists>raw. map_of (rawMessages (mem w)) (ir_RawMessageObjectKey (sm_Receipt stored)) = Some raw \<and>
    decode raw = Inr (pr_ParsedMessage pr)"
    using assms
    by (auto simp: newInboundProcessor_def Processor_Process_def Parser_Parse_def Let_def
        go_bind_Inr_iff rt_Get_run found_or_def split: option.splits)
  ultimately show ?thesis by blast
qed

subsection \<open>Recording\<close>

text \<open>What the recorder does to the store, map by map.\<close>

definition stored_thread :: "mem_store \<Rightarrow> thread \<Rightarrow> thread" where
  "stored_thread s t = (case map_of (threadsByID s) (t_ID t) of None \<Rightarrow> t | Some e \<Rightarrow> merge_thread e t)"

definition touch_thread :: "string \<Rightarrow> gtime \<Rightarrow> thread \<Rightarrow> thread" where
  "touch_thread i at t = t\<lparr>t_LastInboundID := i, t_LastActivityAt := at, t_UpdatedAt := at\<rparr>"

lemma stored_thread_ID [simp]: "t_ID (stored_thread s t) = t_ID t"
  by (simp add: stored_thread_def split: option.splits)

lemma merge_touched: "merge_thread t (touch_thread i a t) = touch_thread i a t"
  by (simp add: merge_thread_def touch_thread_def or_else_def)

text \<open>The maps recording a message has no business with: all but the contacts, the threads, the
  messages and their indexes.\<close>

definition same_but_conversation :: "mem_store \<Rightarrow> mem_store \<Rightarrow> bool" where
  "same_but_conversation s s' \<longleftrightarrow>
     organizationsByID s' = organizationsByID s \<and> agentsByID s' = agentsByID s \<and>
     rawMessages s' = rawMessages s \<and>
     inboxesByID s' = inboxesByID s \<and> inboxesByEmail s' = inboxesByEmail s \<and>
     inboundReceiptsByKey s' = inboundReceiptsByKey s \<and>
     messagesByProviderID s' = messagesByProviderID s \<and>
     replySubmissionsByKey s' = replySubmissionsByKey s \<and>
     memoriesByID s' = memoriesByID s \<and> memoriesByContactID s' = memoriesByContactID s \<and>
     suppressionsByID s' = suppressionsByID s \<and> webhookDeliveriesByID s' = webhookDeliveriesByID s"

definition recorded :: "mem_store \<Rightarrow> contact \<Rightarrow> thread \<Rightarrow> message \<Rightarrow> mem_store \<Rightarrow> bool" where
  "recorded s c t m s' \<longleftrightarrow>
     map_of (contactsByID s') = (map_of (contactsByID s))(c_ID c \<mapsto> c) \<and>
     map_of (contactsByEmail s') = (map_of (contactsByEmail s))(c_EmailAddress c \<mapsto> c) \<and>
     map_of (threadsByID s') = (map_of (threadsByID s))(t_ID t \<mapsto> t) \<and>
     map_of (messagesByID s') = (map_of (messagesByID s))(m_ID m \<mapsto> m) \<and>
     map_of (messagesByInboundKey s') =
       (if m_InboxID m \<noteq> [] \<and> m_MessageIDHeader m \<noteq> []
        then (map_of (messagesByInboundKey s))(InboundMessageKey (m_InboxID m) (m_MessageIDHeader m) \<mapsto> m_ID m)
        else map_of (messagesByInboundKey s)) \<and>
     (\<forall>k. slice_at (messagesByThreadID s') k =
        slice_at (messagesByThreadID s) k @ (if k = t_ID t \<and> k \<noteq> [] then [m_ID m] else [])) \<and>
     same_but_conversation s s'"

lemmas recorded_defs = recorded_def same_but_conversation_def

lemma slice_at_gput: "slice_at (gput k xs m) l = (if l = k then xs else slice_at m l)"
  by (simp add: slice_at_def)

lemma rt_UpsertByEmail_run: "rt_UpsertByEmail c w = (Inr c, w\<lparr>mem := mem w
    \<lparr>contactsByID := gput (c_ID c) c (contactsByID (mem w)),
     contactsByEmail := gput (c_EmailAddress c) c (contactsByEmail (mem w))\<rparr>\<rparr>)"
  by (simp add: rt_eqs Store_UpsertByEmail_def)

lemma rt_Save_run: "rt_Save t w = (Inr (stored_thread (mem w) t),
    w\<lparr>mem := mem w\<lparr>threadsByID := gput (t_ID t) (stored_thread (mem w) t) (threadsByID (mem w))\<rparr>\<rparr>)"
  by (simp add: rt_eqs Store_Save_def Let_def stored_thread_def)

lemma rt_Create_returns: "fst (rt_Create m w) = Inr m"
  by (simp add: rt_eqs Store_Create_def Let_def)

lemma Store_Create_effect:
  "threadsByID (snd (Store_Create m s)) = threadsByID s"
  "contactsByID (snd (Store_Create m s)) = contactsByID s"
  "contactsByEmail (snd (Store_Create m s)) = contactsByEmail s"
  "rawMessages (snd (Store_Create m s)) = rawMessages s"
  "inboundReceiptsByKey (snd (Store_Create m s)) = inboundReceiptsByKey s"
  "suppressionsByID (snd (Store_Create m s)) = suppressionsByID s"
  "webhookDeliveriesByID (snd (Store_Create m s)) = webhookDeliveriesByID s"
  "organizationsByID (snd (Store_Create m s)) = organizationsByID s"
  "agentsByID (snd (Store_Create m s)) = agentsByID s"
  "inboxesByID (snd (Store_Create m s)) = inboxesByID s"
  "replySubmissionsByKey (snd (Store_Create m s)) = replySubmissionsByKey s"
  "inboxesByEmail (snd (Store_Create m s)) = inboxesByEmail s"
  "memoriesByID (snd (Store_Create m s)) = memoriesByID s"
  "memoriesByContactID (snd (Store_Create m s)) = memoriesByContactID s"
  "m_ProviderMessageID m = [] \<Longrightarrow> messagesByProviderID (snd (Store_Create m s)) = messagesByProviderID s"
  "map_of (messagesByID (snd (Store_Create m s))) = (map_of (messagesByID s))(m_ID m \<mapsto> m)"
  "map_of (messagesByInboundKey (snd (Store_Create m s))) =
     (if m_InboxID m \<noteq> [] \<and> m_MessageIDHeader m \<noteq> []
      then (map_of (messagesByInboundKey s))(InboundMessageKey (m_InboxID m) (m_MessageIDHeader m) \<mapsto> m_ID m)
      else map_of (messagesByInboundKey s))"
  "slice_at (messagesByThreadID (snd (Store_Create m s))) k =
     slice_at (messagesByThreadID s) k @ (if k = m_ThreadID m \<and> k \<noteq> [] then [m_ID m] else [])"
  by (simp_all add: Store_Create_def Let_def index_message_inbound slice_at_gput index_message_no_provider)

lemma inbound_Record_run:
  assumes "newInboundRecorder stored processed w = (r, w')"
  shows "\<exists>i. r = Inr \<lparr>rr_Contact = pr_Contact processed,
        rr_Thread = touch_thread i (ir_ReceivedAt (sm_Receipt stored)) (stored_thread (mem w) (pr_Thread processed)),
        rr_Message = inbound_message stored (pr_ParsedMessage processed) i (t_ID (pr_Thread processed))
                       (c_ID (pr_Contact processed))\<rparr> \<and>
    recorded (mem w) (pr_Contact processed)
      (touch_thread i (ir_ReceivedAt (sm_Receipt stored)) (stored_thread (mem w) (pr_Thread processed)))
      (inbound_message stored (pr_ParsedMessage processed) i (t_ID (pr_Thread processed)) (c_ID (pr_Contact processed)))
      (mem w')"
proof -
  define c where "c = pr_Contact processed"
  define t where "t = stored_thread (mem w) (pr_Thread processed)"
  define w1 where "w1 = w\<lparr>mem := mem w\<lparr>contactsByID := gput (c_ID c) c (contactsByID (mem w)),
     contactsByEmail := gput (c_EmailAddress c) c (contactsByEmail (mem w))\<rparr>\<rparr>"
  define w2 where "w2 = w1\<lparr>mem := mem w1\<lparr>threadsByID := gput (t_ID t) t (threadsByID (mem w1))\<rparr>\<rparr>"
  have up: "rt_UpsertByEmail c w = (Inr c, w1)" by (simp add: rt_UpsertByEmail_run w1_def)
  have same: "stored_thread (mem w1) = stored_thread (mem w)"
    by (simp add: fun_eq_iff stored_thread_def w1_def)
  have sv: "rt_Save (pr_Thread processed) w1 = (Inr t, w2)"
    by (simp add: rt_Save_run w2_def same t_def)
  obtain i w3 where i: "newMessageID w2 = (Inr i, w3)"
    unfolding newMessageID_def using random_id_returns by blast
  have w3: "mem w3 = mem w2" by (rule framesD [OF frames_mem_env(4), OF i [unfolded newMessageID_def]])
  define m where "m = inbound_message stored (pr_ParsedMessage processed) i (t_ID t) (c_ID c)"
  obtain w4 where cr: "rt_Create m w3 = (Inr m, w4)"
    using rt_Create_returns [of m w3] by (metis prod.exhaust_sel)
  have w4: "mem w4 = snd (Store_Create m (mem w3))"
    using cr by (auto simp: rt_eqs)
  have mi: "m_ID m = i" by (simp add: m_def inbound_message_def)
  have mt: "m_ThreadID m = t_ID t" "m_ProviderMessageID m = []"
    by (simp_all add: m_def inbound_message_def zero_message_def)
  define t' where "t' = touch_thread i (ir_ReceivedAt (sm_Receipt stored)) t"
  have ids: "t_ID t' = t_ID t" by (simp add: t'_def touch_thread_def)
  have "map_of (threadsByID (mem w4)) (t_ID t) = Some t"
    by (simp add: w4 Store_Create_effect w3 w2_def)
  then have st: "stored_thread (mem w4) t' = t'"
    by (simp add: stored_thread_def ids) (simp add: t'_def merge_touched)
  have "rt_Save t' w4 = (Inr t', w4\<lparr>mem := mem w4\<lparr>threadsByID := gput (t_ID t') t' (threadsByID (mem w4))\<rparr>\<rparr>)"
    by (simp add: rt_Save_run st)
  then have sv': "rt_Save (t\<lparr>t_LastInboundID := m_ID m, t_LastActivityAt := ir_ReceivedAt (sm_Receipt stored),
      t_UpdatedAt := ir_ReceivedAt (sm_Receipt stored)\<rparr>) w4 =
      (Inr t', w4\<lparr>mem := mem w4\<lparr>threadsByID := gput (t_ID t') t' (threadsByID (mem w4))\<rparr>\<rparr>)"
    by (simp add: t'_def touch_thread_def mi)
  have "newInboundRecorder stored processed w =
      (Inr \<lparr>rr_Contact = c, rr_Thread = t', rr_Message = m\<rparr>,
       w4\<lparr>mem := mem w4\<lparr>threadsByID := gput (t_ID t') t' (threadsByID (mem w4))\<rparr>\<rparr>)"
    unfolding newInboundRecorder_def inbound_Record_def c_def [symmetric]
    by (rule go_bind_okI, rule up, rule go_bind_okI, rule sv, rule go_bind_okI, rule i,
        fold m_def, rule go_bind_okI, rule cr, rule go_bind_okI, rule sv', rule go_ret_run)
  with assms have r: "r = Inr \<lparr>rr_Contact = c, rr_Thread = t', rr_Message = m\<rparr>"
    and w': "w' = w4\<lparr>mem := mem w4\<lparr>threadsByID := gput (t_ID t') t' (threadsByID (mem w4))\<rparr>\<rparr>"
    by simp_all
  have "recorded (mem w) c t' m (mem w')"
    unfolding recorded_defs
    by (simp add: w' w4 Store_Create_effect w3 w2_def w1_def ids mt)
  with r show ?thesis
    by (intro exI [of _ i]) (simp add: c_def m_def t'_def t_def)
qed

subsection \<open>Duplicates\<close>

text \<open>A message that a later delivery of the same header finds, with its thread and contact.\<close>

definition known_inbound :: "mem_store \<Rightarrow> string \<Rightarrow> string \<Rightarrow> message \<Rightarrow> thread \<Rightarrow> contact \<Rightarrow> bool" where
  "known_inbound s inboxID header m t c \<longleftrightarrow>
     (\<exists>i. map_of (messagesByInboundKey s) (InboundMessageKey inboxID header) = Some i \<and>
          map_of (messagesByID s) i = Some m) \<and>
     map_of (threadsByID s) (m_ThreadID m) = Some t \<and> map_of (contactsByID s) (m_ContactID m) = Some c"

lemma rt_reads_run:
  "rt_FindInboundByHeader inboxID header w =
     (Inr (case map_of (messagesByInboundKey (mem w)) (InboundMessageKey inboxID header) of
             None \<Rightarrow> None | Some i \<Rightarrow> map_of (messagesByID (mem w)) i), w)"
  "rt_GetByID k w = (found_or ''thread'' (map_of (threadsByID (mem w)) k), w)"
  "rt_GetContactByID k w = (found_or ''contact'' (map_of (contactsByID (mem w)) k), w)"
  "rt_GetMessageByID k w = (found_or ''message'' (map_of (messagesByID (mem w)) k), w)"
  "rt_GetOrganizationByID k w = (found_or ''organization'' (map_of (organizationsByID (mem w)) k), w)"
  "rt_GetAgentByID k w = (found_or ''agent'' (map_of (agentsByID (mem w)) k), w)"
  "rt_GetInboxByID k w = (found_or ''inbox'' (map_of (inboxesByID (mem w)) k), w)"
  "rt_FindByEmailAddress e w = (Inr (map_of (inboxesByEmail (mem w)) e), w)"
  "rt_GetInboundReceiptByObjectKey k w =
     (found_or ''inbound receipt'' (map_of (inboundReceiptsByKey (mem w)) k), w)"
  by (simp_all add: rt_eqs store_read_defs)

lemma find_duplicate_known:
  assumes "known_inbound (mem w) (ir_InboxID (sm_Receipt stored)) (pm_MessageIDHeader parsed) m t c"
    and "pm_MessageIDHeader parsed \<noteq> []"
  shows "find_duplicate (Some rt_duplicates) stored parsed w =
    (Inr (Some \<lparr>hr_ParsedMessage = parsed, hr_Contact = c, hr_Thread = t, hr_Message = m,
       hr_ThreadMatchStrategy = ''duplicate'', hr_ThreadCreated = False, hr_Duplicate = True\<rparr>), w)"
  using assms by (auto simp: find_duplicate_def rt_duplicates_def known_inbound_def go_bind_def rt_reads_run)

lemma find_duplicate_SomeD:
  assumes "find_duplicate (Some rt_duplicates) stored parsed w = (Inr (Some r), w')"
  shows "w' = w \<and> hr_Duplicate r \<and> hr_ParsedMessage r = parsed \<and> pm_MessageIDHeader parsed \<noteq> [] \<and>
    known_inbound (mem w) (ir_InboxID (sm_Receipt stored)) (pm_MessageIDHeader parsed)
      (hr_Message r) (hr_Thread r) (hr_Contact r)"
  using assms
  by (auto simp: find_duplicate_def rt_duplicates_def known_inbound_def go_bind_Inr_iff rt_reads_run
      found_or_def split: if_splits option.splits)

lemma find_duplicate_NoneD:
  assumes "find_duplicate (Some rt_duplicates) stored parsed w = (Inr None, w')"
  shows "w' = w \<and> (pm_MessageIDHeader parsed = [] \<or>
    \<not> known_inbound (mem w) (ir_InboxID (sm_Receipt stored)) (pm_MessageIDHeader parsed) m t c)"
  using assms
  by (auto simp: find_duplicate_def rt_duplicates_def known_inbound_def go_bind_Inr_iff rt_reads_run
      found_or_def split: if_splits option.splits)

text \<open>The two ways a handled message comes out.\<close>

lemma inbound_base_cases:
  assumes run: "inbound_base decode stored w = (Inr r, w')"
  obtains (dup) w1 where "mem w1 = mem w" and "w' = w1" and "hr_Duplicate r"
      and "known_inbound (mem w) (ir_InboxID (sm_Receipt stored)) (pm_MessageIDHeader (hr_ParsedMessage r))
             (hr_Message r) (hr_Thread r) (hr_Contact r)"
  | (fresh) pr w1 i where "mem w1 = mem w" and "\<not> hr_Duplicate r"
      and "newInboundRecorder stored pr w1 = (Inr \<lparr>rr_Contact = hr_Contact r, rr_Thread = hr_Thread r,
             rr_Message = hr_Message r\<rparr>, w')"
      and "hr_ParsedMessage r = pr_ParsedMessage pr" and "hr_ThreadCreated r = pr_ThreadCreated pr"
      and "hr_Contact r = pr_Contact pr"
      and "hr_Thread r = touch_thread i (ir_ReceivedAt (sm_Receipt stored)) (stored_thread (mem w) (pr_Thread pr))"
      and "hr_Message r = inbound_message stored (pr_ParsedMessage pr) i (t_ID (pr_Thread pr)) (c_ID (pr_Contact pr))"
      and "recorded (mem w) (hr_Contact r) (hr_Thread r) (hr_Message r) (mem w')"
proof -
  from run obtain pr w0 where p: "newInboundProcessor decode stored w = (Inr pr, w0)"
    and rest: "go_bind (find_duplicate (Some rt_duplicates) stored (pr_ParsedMessage pr)) (\<lambda>dup. case dup of
       Some result \<Rightarrow> go_ret result
     | None \<Rightarrow>
         go_bind (newInboundRecorder stored pr) (\<lambda>recorded.
         go_ret \<lparr>hr_ParsedMessage = pr_ParsedMessage pr, hr_Contact = rr_Contact recorded,
                 hr_Thread = rr_Thread recorded, hr_Message = rr_Message recorded,
                 hr_ThreadMatchStrategy = pr_ThreadMatchStrategy pr,
                 hr_ThreadCreated = pr_ThreadCreated pr, hr_Duplicate = False\<rparr>)) w0 = (Inr r, w')"
    unfolding inbound_base_def HandleStoredMessage_def by (rule go_bind_InrE)
  have w0: "mem w0 = mem w" using Processor_InrD [OF p] by simp
  from rest obtain d w1 where
    d: "find_duplicate (Some rt_duplicates) stored (pr_ParsedMessage pr) w0 = (Inr d, w1)"
    and rest2: "(case d of Some result \<Rightarrow> go_ret result
     | None \<Rightarrow>
         go_bind (newInboundRecorder stored pr) (\<lambda>recorded.
         go_ret \<lparr>hr_ParsedMessage = pr_ParsedMessage pr, hr_Contact = rr_Contact recorded,
                 hr_Thread = rr_Thread recorded, hr_Message = rr_Message recorded,
                 hr_ThreadMatchStrategy = pr_ThreadMatchStrategy pr,
                 hr_ThreadCreated = pr_ThreadCreated pr, hr_Duplicate = False\<rparr>)) w1 = (Inr r, w')"
    by (rule go_bind_InrE)
  show thesis
  proof (cases d)
    case (Some x)
    with d have "find_duplicate (Some rt_duplicates) stored (pr_ParsedMessage pr) w0 = (Inr (Some x), w1)" by simp
    from find_duplicate_SomeD [OF this] Some rest2 w0 show thesis
      by (intro dup [of w1]) auto
  next
    case None
    with d have "w1 = w0" using find_duplicate_NoneD by blast
    with w0 have w1: "mem w1 = mem w" by simp
    from None rest2 obtain rr w2 where rec: "newInboundRecorder stored pr w1 = (Inr rr, w2)"
      and r: "r = \<lparr>hr_ParsedMessage = pr_ParsedMessage pr, hr_Contact = rr_Contact rr,
                 hr_Thread = rr_Thread rr, hr_Message = rr_Message rr,
                 hr_ThreadMatchStrategy = pr_ThreadMatchStrategy pr,
                 hr_ThreadCreated = pr_ThreadCreated pr, hr_Duplicate = False\<rparr>" and w2: "w' = w2"
      by (auto elim: go_bind_InrE)
    from inbound_Record_run [OF rec] w1 obtain i where
      i: "rr = \<lparr>rr_Contact = pr_Contact pr,
        rr_Thread = touch_thread i (ir_ReceivedAt (sm_Receipt stored)) (stored_thread (mem w) (pr_Thread pr)),
        rr_Message = inbound_message stored (pr_ParsedMessage pr) i (t_ID (pr_Thread pr)) (c_ID (pr_Contact pr))\<rparr>"
      "recorded (mem w) (rr_Contact rr) (rr_Thread rr) (rr_Message rr) (mem w2)"
      by auto
    show thesis
      by (rule fresh [of w1 pr i]) (use w1 rec r w2 i in simp_all)
  qed
qed

lemma inbound_message_sel [simp]:
  "m_ID (inbound_message st p i t c) = i"
  "m_ThreadID (inbound_message st p i t c) = t"
  "m_ContactID (inbound_message st p i t c) = c"
  "m_InboxID (inbound_message st p i t c) = ir_InboxID (sm_Receipt st)"
  "m_OrganizationID (inbound_message st p i t c) = ir_OrganizationID (sm_Receipt st)"
  "m_MessageIDHeader (inbound_message st p i t c) = pm_MessageIDHeader p"
  "m_Direction (inbound_message st p i t c) = MessageDirectionInbound"
  "m_RawMIMEObjectKey (inbound_message st p i t c) = ir_RawMessageObjectKey (sm_Receipt st)"
  "m_CreatedAt (inbound_message st p i t c) = ir_ReceivedAt (sm_Receipt st)"
  "m_ProviderMessageID (inbound_message st p i t c) = []"
  by (simp_all add: inbound_message_def zero_message_def)

lemma touch_thread_sel [simp]:
  "t_ID (touch_thread i at t) = t_ID t" "t_LastInboundID (touch_thread i at t) = i"
  "t_LastActivityAt (touch_thread i at t) = at" "t_UpdatedAt (touch_thread i at t) = at"
  by (simp_all add: touch_thread_def)

lemma inbound_base_fresh:
  assumes "world_ok w"
    and "map_of (rawMessages (mem w)) (ir_RawMessageObjectKey (sm_Receipt stored)) = Some raw"
    and "decode raw = Inr parsed"
    and "pm_MessageIDHeader parsed = [] \<or>
      map_of (messagesByInboundKey (mem w))
        (InboundMessageKey (ir_InboxID (sm_Receipt stored)) (pm_MessageIDHeader parsed)) = None"
  shows "\<exists>r w'. inbound_base decode stored w = (Inr r, w') \<and> \<not> hr_Duplicate r \<and> hr_ParsedMessage r = parsed"
proof -
  obtain pr w1 where p: "newInboundProcessor decode stored w = (Inr pr, w1)" and w1: "mem w1 = mem w"
    and pr: "pr_ParsedMessage pr = parsed"
    using Processor_run [of w stored raw decode parsed] assms by blast
  have d: "find_duplicate (Some rt_duplicates) stored (pr_ParsedMessage pr) w1 = (Inr None, w1)"
    using assms(4) by (auto simp: find_duplicate_def rt_duplicates_def go_bind_def rt_reads_run w1 pr)
  obtain x w2 where "newInboundRecorder stored pr w1 = (x, w2)" by (cases "newInboundRecorder stored pr w1")
  with inbound_Record_run [OF this] obtain rr where rec: "newInboundRecorder stored pr w1 = (Inr rr, w2)"
    by auto
  show ?thesis
    unfolding inbound_base_def HandleStoredMessage_def
    by (intro exI conjI, rule go_bind_okI, rule p, rule go_bind_okI, rule d,
        simp only: option.case, rule go_bind_okI, rule rec, rule go_ret_run) (simp_all add: pr)
qed

lemma keeps_inbound_base [intro, simp, keeps_rules]: "keeps world_ok (inbound_base decode stored)"
  unfolding inbound_base_def HandleStoredMessage_def newInboundRecorder_def inbound_Record_def newMessageID_def
  by (intro keeps_bind frames_keeps_world [OF frames_newInboundProcessor] keeps_ret keeps_rt_writes
      frames_keeps_world [OF frames_find_duplicate] keeps_world_env)
    (auto intro!: keeps_bind frames_keeps_world [OF frames_newInboundProcessor]
      frames_keeps_world [OF frames_find_duplicate] split: option.split)

text \<open>C2: a message whose bytes are stored, that parses, and whose Message-ID the inbox has not seen
  is recorded, always: its contact, its thread and the message itself, indexed under its thread
  and its header, all linked to each other and to the raw bytes. Nothing else in the store changes:
  the maps of contacts, threads and messages gain those entries only, and the other twelve maps
  are as they were.\<close>

theorem inbound_message_recorded:
  assumes "world_ok w"
    and "map_of (rawMessages (mem w)) (ir_RawMessageObjectKey (sm_Receipt stored)) = Some raw"
    and "decode raw = Inr parsed"
    and "pm_MessageIDHeader parsed = [] \<or>
      map_of (messagesByInboundKey (mem w))
        (InboundMessageKey (ir_InboxID (sm_Receipt stored)) (pm_MessageIDHeader parsed)) = None"
  shows "\<exists>r w'. inbound_base decode stored w = (Inr r, w') \<and> \<not> hr_Duplicate r \<and> world_ok w' \<and>
    recorded (mem w) (hr_Contact r) (hr_Thread r) (hr_Message r) (mem w') \<and>
    m_ThreadID (hr_Message r) = t_ID (hr_Thread r) \<and> m_ContactID (hr_Message r) = c_ID (hr_Contact r) \<and>
    m_Direction (hr_Message r) = MessageDirectionInbound \<and>
    m_MessageIDHeader (hr_Message r) = pm_MessageIDHeader parsed \<and>
    m_InboxID (hr_Message r) = ir_InboxID (sm_Receipt stored) \<and>
    m_RawMIMEObjectKey (hr_Message r) = ir_RawMessageObjectKey (sm_Receipt stored) \<and>
    t_LastInboundID (hr_Thread r) = m_ID (hr_Message r) \<and>
    t_LastActivityAt (hr_Thread r) = ir_ReceivedAt (sm_Receipt stored)"
proof -
  obtain r w' where run: "inbound_base decode stored w = (Inr r, w')" and new: "\<not> hr_Duplicate r"
    and p: "hr_ParsedMessage r = parsed"
    using inbound_base_fresh [of w stored raw decode parsed] assms by blast
  moreover have "world_ok w'" by (rule keepsD [OF keeps_inbound_base, OF assms(1) run])
  ultimately show ?thesis
    by (cases rule: inbound_base_cases [OF run]) (auto intro!: exI [of _ r] exI [of _ w'])
qed

lemma recorded_known:
  assumes "recorded s c t m s'" and "m_ThreadID m = t_ID t" and "m_ContactID m = c_ID c"
    and "m_InboxID m \<noteq> []" and "m_MessageIDHeader m \<noteq> []"
  shows "known_inbound s' (m_InboxID m) (m_MessageIDHeader m) m t c"
  using assms by (simp add: known_inbound_def recorded_defs)

lemma handled_known:
  assumes "inbound_base decode stored w = (Inr r, w')"
    and "ir_InboxID (sm_Receipt stored) \<noteq> []" and "pm_MessageIDHeader (hr_ParsedMessage r) \<noteq> []"
  shows "known_inbound (mem w') (ir_InboxID (sm_Receipt stored)) (pm_MessageIDHeader (hr_ParsedMessage r))
    (hr_Message r) (hr_Thread r) (hr_Contact r)"
  using assms(1)
proof (cases rule: inbound_base_cases)
  case (fresh pr w1 i)
  with assms recorded_known [of "mem w" "hr_Contact r" "hr_Thread r" "hr_Message r" "mem w'"]
  show ?thesis by simp
qed simp

lemma inbound_base_known:
  assumes "world_ok w"
    and "map_of (rawMessages (mem w)) (ir_RawMessageObjectKey (sm_Receipt stored)) = Some raw"
    and "decode raw = Inr parsed" and "pm_MessageIDHeader parsed \<noteq> []"
    and "known_inbound (mem w) (ir_InboxID (sm_Receipt stored)) (pm_MessageIDHeader parsed) m t c"
  shows "\<exists>r w'. inbound_base decode stored w = (Inr r, w') \<and> mem w' = mem w \<and>
    r = \<lparr>hr_ParsedMessage = parsed, hr_Contact = c, hr_Thread = t, hr_Message = m,
       hr_ThreadMatchStrategy = ''duplicate'', hr_ThreadCreated = False, hr_Duplicate = True\<rparr>"
proof -
  obtain pr w1 where p: "newInboundProcessor decode stored w = (Inr pr, w1)" and w1: "mem w1 = mem w"
    and pr: "pr_ParsedMessage pr = parsed"
    using Processor_run [of w stored raw decode parsed] assms by blast
  have d: "find_duplicate (Some rt_duplicates) stored (pr_ParsedMessage pr) w1 =
    (Inr (Some \<lparr>hr_ParsedMessage = parsed, hr_Contact = c, hr_Thread = t, hr_Message = m,
       hr_ThreadMatchStrategy = ''duplicate'', hr_ThreadCreated = False, hr_Duplicate = True\<rparr>), w1)"
    using find_duplicate_known [of w1 stored parsed m t c] assms(4,5) by (simp add: w1 pr)
  show ?thesis
    unfolding inbound_base_def HandleStoredMessage_def
    by (intro exI conjI, rule go_bind_okI, rule p, rule go_bind_okI, rule d,
        simp only: option.case, rule go_ret_run) (simp_all add: w1)
qed

text \<open>C3: handling is idempotent. Once a message has been handled, whether it was recorded or found
  to be a duplicate, every later delivery to the same inbox that parses to the same Message-ID,
  even one stored under another object key, is answered with the stored message, thread and
  contact, marked as a duplicate, and leaves the store unchanged.\<close>

theorem inbound_handling_idempotent:
  assumes "world_ok w'" and "inbound_base decode stored w = (Inr r, w')"
    and "ir_InboxID (sm_Receipt stored) \<noteq> []" and "pm_MessageIDHeader (hr_ParsedMessage r) \<noteq> []"
    and "ir_InboxID (sm_Receipt again) = ir_InboxID (sm_Receipt stored)"
    and "map_of (rawMessages (mem w')) (ir_RawMessageObjectKey (sm_Receipt again)) = Some raw"
    and "decode raw = Inr parsed"
    and "pm_MessageIDHeader parsed = pm_MessageIDHeader (hr_ParsedMessage r)"
  shows "\<exists>r2 w2. inbound_base decode again w' = (Inr r2, w2) \<and> mem w2 = mem w' \<and> hr_Duplicate r2 \<and>
    hr_Message r2 = hr_Message r \<and> hr_Thread r2 = hr_Thread r \<and> hr_Contact r2 = hr_Contact r"
  using inbound_base_known [of w' again raw decode parsed "hr_Message r" "hr_Thread r" "hr_Contact r"]
    handled_known [OF assms(2-4)] assms
  by force

subsection \<open>A concrete delivery\<close>

definition demo_parsed :: parsed_message where
  "demo_parsed = \<lparr>pm_MessageIDHeader = ''<b@x>'', pm_InReplyTo = ''<a@x>'', pm_References = [''<a@x>''],
     pm_Subject = ''Re: Hello'', pm_SubjectNormalized = ''hello'', pm_TextBody = ''hi'', pm_HTMLBody = [],
     pm_From = \<lparr>pa_Email = ''ada@x'', pa_DisplayName = ''Ada''\<rparr>, pm_ReplyTo = [], pm_To = [], pm_CC = [],
     pm_Attachments = [], pm_RawHeaders = []\<rparr>"

definition demo_decode :: "string \<Rightarrow> gerr + parsed_message" where
  "demo_decode raw = (if raw = ''RAW'' then Inr demo_parsed else Inl (ErrExternal ''EOF''))"

definition demo_stored :: stored_inbound_message where
  "demo_stored = \<lparr>sm_Receipt = \<lparr>ir_SMTPTransactionID = ''smtp-1'', ir_OrganizationID = ''org'',
     ir_AgentID = ''agent'', ir_InboxID = ''inbox'', ir_EnvelopeSender = ''ada@x'',
     ir_EnvelopeRecipients = [''agent@x''], ir_RawMessageObjectKey = ''raw-1'',
     ir_ReceivedAt = 63903204007000000000\<rparr>, sm_RawSizeBytes = 3\<rparr>"

definition demo_raw_store :: mem_store where
  "demo_raw_store = demo_store\<lparr>rawMessages := [(''raw-1'', ''RAW'')]\<rparr>"

lemma demo_raw_store_ok: "mem_ok demo_raw_store"
  using demo_store_ok by (simp add: mem_ok_def demo_raw_store_def gmap_ok_def)

lemma demo_raw_store_maps:
  "map_of (rawMessages demo_raw_store) ''raw-1'' = Some ''RAW''"
  "messagesByInboundKey demo_raw_store = []"
  by (simp_all add: demo_raw_store_def demo_store_def NewStore_def)

lemma demo_delivery:
  "ir_RawMessageObjectKey (sm_Receipt demo_stored) = ''raw-1''"
  "ir_InboxID (sm_Receipt demo_stored) = ''inbox''"
  "demo_decode ''RAW'' = Inr demo_parsed" "pm_MessageIDHeader demo_parsed = ''<b@x>''"
  by (simp_all add: demo_stored_def demo_decode_def demo_parsed_def)

theorem inbound_message_recorded_witness:
  "\<exists>r w'. inbound_base demo_decode demo_stored (demo_world demo_raw_store) = (Inr r, w') \<and>
     \<not> hr_Duplicate r \<and> recorded demo_raw_store (hr_Contact r) (hr_Thread r) (hr_Message r) (mem w')"
  using inbound_message_recorded [of "demo_world demo_raw_store" demo_stored "''RAW''" demo_decode demo_parsed]
  by (auto simp: demo_raw_store_ok demo_raw_store_maps demo_delivery)

theorem inbound_handling_idempotent_witness:
  "\<exists>r w' r2 w2. inbound_base demo_decode demo_stored (demo_world demo_raw_store) = (Inr r, w') \<and>
     \<not> hr_Duplicate r \<and> inbound_base demo_decode demo_stored w' = (Inr r2, w2) \<and> hr_Duplicate r2 \<and>
     mem w2 = mem w'"
proof -
  let ?w = "demo_world demo_raw_store"
  obtain r w' where run: "inbound_base demo_decode demo_stored ?w = (Inr r, w')" and new: "\<not> hr_Duplicate r"
    and p: "hr_ParsedMessage r = demo_parsed"
    using inbound_base_fresh [of ?w demo_stored "''RAW''" demo_decode demo_parsed]
    by (auto simp: demo_raw_store_ok demo_raw_store_maps demo_delivery)
  have ok: "world_ok w'" by (rule keepsD [OF keeps_inbound_base, OF _ run]) (simp add: demo_raw_store_ok)
  have raw: "map_of (rawMessages (mem w')) ''raw-1'' = Some ''RAW''"
    using run new by (cases rule: inbound_base_cases) (simp_all add: recorded_defs demo_raw_store_maps)
  from inbound_handling_idempotent [OF ok run, of demo_stored "''RAW''" demo_parsed] run new raw
  show ?thesis by (auto simp: demo_delivery p)
qed

end
