(* ===== verification/Outbound.thy ===== *)
theory Outbound
  imports Inbound
begin

text \<open>
  The reply path, \<open>internal/outbound\<close>: the assembler, the queue recorder, the sender, the status
  recorder and the service that runs them; and the provider callbacks: status recording,
  suppression and the flow that joins them. The provider is a parameter; the local one
  (\<open>internal/providers/dev\<close>) is modelled here.
\<close>

section \<open>Assembling a reply\<close>

record reply_assembly_input =
  ra_Organization :: organization
  ra_Agent :: agent
  ra_Inbox :: inbox
  ra_Thread :: thread
  ra_ReplyToMessage :: message
  ra_Contact :: contact
  ra_BodyText :: string

record reply_metadata =
  rm_MessageIDHeader :: string
  rm_Subject :: string
  rm_InReplyTo :: string
  rm_References :: "string list"

definition replySubject :: "string \<Rightarrow> string" where
  "replySubject subject =
     (if has_prefix (to_lower subject) ''re:'' then subject
      else if trim_space subject = [] then ''Re:''
      else ''Re: '' @ subject)"

definition formatAddress :: "string \<Rightarrow> string \<Rightarrow> string" where
  "formatAddress name email = (if trim_space name = [] then email else name @ '' <'' @ email @ ''>'')"

definition crlf :: string where
  "crlf = [CHR 0x0D, CHR 0x0A]"

definition reply_lines :: "reply_assembly_input \<Rightarrow> string \<Rightarrow> string list" where
  "reply_lines input messageID =
     (let reply = ra_ReplyToMessage input
      in [''From: '' @ formatAddress (i_DisplayName (ra_Inbox input)) (i_EmailAddress (ra_Inbox input)),
          ''To: '' @ formatAddress (c_DisplayName (ra_Contact input)) (c_EmailAddress (ra_Contact input)),
          ''Subject: '' @ replySubject (m_Subject reply),
          ''Message-ID: '' @ messageID,
          ''In-Reply-To: '' @ m_MessageIDHeader reply,
          ''References: '' @ join (m_References reply @ [m_MessageIDHeader reply]) '' '',
          ''MIME-Version: 1.0'',
          ''Content-Type: text/plain; charset=utf-8''])"

text \<open>The generator is a call: it may read the environment, or return a constant.\<close>

definition AssembleReply ::
    "('s, string) go \<Rightarrow> reply_assembly_input \<Rightarrow> ('s, string \<times> reply_metadata) go" where
  "AssembleReply generateMessageID input =
     (let reply = ra_ReplyToMessage input in
      if i_EmailAddress (ra_Inbox input) = [] then go_fail (ErrMsg ''inbox email address is required'')
      else if c_EmailAddress (ra_Contact input) = [] then go_fail (ErrMsg ''contact email address is required'')
      else if m_MessageIDHeader reply = [] then go_fail (ErrMsg ''reply-to message id header is required'')
      else go_bind generateMessageID (\<lambda>messageID. go_ret
        (join (reply_lines input messageID @ [[], ra_BodyText input]) crlf,
         \<lparr>rm_MessageIDHeader = messageID, rm_Subject = replySubject (m_Subject reply),
          rm_InReplyTo = m_MessageIDHeader reply,
          rm_References = m_References reply @ [m_MessageIDHeader reply]\<rparr>)))"

section \<open>Recording and sending\<close>

definition DeliveryStateQueued :: string where "DeliveryStateQueued = ''queued''"
definition DeliveryStateSent :: string where "DeliveryStateSent = ''sent''"
definition DeliveryStateDelivered :: string where "DeliveryStateDelivered = ''delivered''"
definition DeliveryStateHardBounce :: string where "DeliveryStateHardBounce = ''hard_bounce''"
definition DeliveryStateSoftBounce :: string where "DeliveryStateSoftBounce = ''soft_bounce''"
definition DeliveryStateComplaint :: string where "DeliveryStateComplaint = ''complaint''"

lemmas delivery_state_defs = DeliveryStateQueued_def DeliveryStateSent_def DeliveryStateDelivered_def
  DeliveryStateHardBounce_def DeliveryStateSoftBounce_def DeliveryStateComplaint_def

record record_queued_input =
  rq_Organization :: organization
  rq_Agent :: agent
  rq_Inbox :: inbox
  rq_Thread :: thread
  rq_Contact :: contact
  rq_Metadata :: reply_metadata
  rq_RawMIME :: string
  rq_ObjectKey :: string
  rq_BodyText :: string
  rq_QueuedAt :: gtime

record record_queued_result =
  qd_Thread :: thread
  qd_Message :: message

text \<open>\<open>Recorder\<close>: the thread and raw stores are optional.\<close>

record 's queue_recorder =
  qr_Create :: "message \<Rightarrow> ('s, message) go"
  qr_Save :: "(thread \<Rightarrow> ('s, thread) go) option"
  qr_Put :: "(string \<Rightarrow> string \<Rightarrow> ('s, unit) go) option"

definition newOutboundMessageID :: "('z env_scheme, string) go" where
  "newOutboundMessageID = random_id ''message-'' ''outbound-message-generated''"

definition queued_message :: "record_queued_input \<Rightarrow> string \<Rightarrow> message" where
  "queued_message input i = zero_message
     \<lparr>m_ID := i, m_OrganizationID := o_ID (rq_Organization input), m_ThreadID := t_ID (rq_Thread input),
      m_InboxID := i_ID (rq_Inbox input), m_ContactID := c_ID (rq_Contact input),
      m_Direction := MessageDirectionOutbound, m_Subject := rm_Subject (rq_Metadata input),
      m_MessageIDHeader := rm_MessageIDHeader (rq_Metadata input),
      m_InReplyTo := rm_InReplyTo (rq_Metadata input), m_References := rm_References (rq_Metadata input),
      m_TextBody := rq_BodyText input, m_RawMIMEObjectKey := rq_ObjectKey input,
      m_DeliveryState := DeliveryStateQueued, m_CreatedAt := rq_QueuedAt input\<rparr>"

definition RecordQueuedReply ::
    "'z env_scheme queue_recorder \<Rightarrow> record_queued_input \<Rightarrow> ('z env_scheme, record_queued_result) go" where
  "RecordQueuedReply r input =
     go_bind (case qr_Put r of
         None \<Rightarrow> go_ret ()
       | Some put \<Rightarrow>
           if rq_ObjectKey input = [] then go_fail (ErrMsg ''object key is required'')
           else put (rq_ObjectKey input) (rq_RawMIME input)) (\<lambda>_.
     go_bind newOutboundMessageID (\<lambda>i.
     go_bind (qr_Create r (queued_message input i)) (\<lambda>message.
     go_bind (case qr_Save r of
         None \<Rightarrow> go_ret (rq_Thread input)
       | Some save \<Rightarrow>
           save ((rq_Thread input)\<lparr>t_LastOutboundID := m_ID message, t_LastActivityAt := rq_QueuedAt input,
                                   t_UpdatedAt := rq_QueuedAt input\<rparr>)) (\<lambda>thread.
     go_ret \<lparr>qd_Thread = thread, qd_Message = message\<rparr>))))"

definition SendQueuedReply ::
    "'s email_provider \<Rightarrow> outbound_send_request \<Rightarrow> ('s, send_result) go" where
  "SendQueuedReply provider input = ep_Send provider
     \<lparr>os_Organization = os_Organization input, os_Agent = os_Agent input, os_Inbox = os_Inbox input,
      os_Thread = os_Thread input, os_Contact = os_Contact input, os_Message = os_Message input,
      os_RawMIME = os_RawMIME input\<rparr>"

definition RecordSent ::
    "(message \<Rightarrow> ('s, message) go) \<Rightarrow> message \<Rightarrow> send_result \<Rightarrow> ('s, message) go" where
  "RecordSent save message sendResult =
     save (message\<lparr>m_DeliveryState := DeliveryStateSent,
                   m_ProviderMessageID := sr_ProviderMessageID sendResult,
                   m_SentAt := sr_AcceptedAt sendResult\<rparr>)"

section \<open>The reply service\<close>

record send_reply_input =
  si_Organization :: organization
  si_Agent :: agent
  si_Inbox :: inbox
  si_Thread :: thread
  si_ReplyToMessage :: message
  si_Contact :: contact
  si_BodyText :: string
  si_ObjectKey :: string
  si_IdempotencyKey :: string

record send_reply_result =
  so_Thread :: thread
  so_Message :: message
  so_SendResult :: send_result

record 's reply_service =
  rs_generateMessageID :: "('s, string) go"
  rs_queueRecorder :: "'s queue_recorder"
  rs_provider :: "'s email_provider"
  rs_saveStatus :: "message \<Rightarrow> ('s, message) go"
  rs_isSuppressed :: "(string \<Rightarrow> string \<Rightarrow> ('s, bool) go) option"

text \<open>The part of \<open>SendReply\<close> after the suppression check.\<close>

definition send_unsuppressed ::
    "'z env_scheme reply_service \<Rightarrow> send_reply_input \<Rightarrow> ('z env_scheme, send_reply_result) go" where
  "send_unsuppressed s input =
     go_bind (AssembleReply (rs_generateMessageID s)
        \<lparr>ra_Organization = si_Organization input, ra_Agent = si_Agent input, ra_Inbox = si_Inbox input,
         ra_Thread = si_Thread input, ra_ReplyToMessage = si_ReplyToMessage input,
         ra_Contact = si_Contact input, ra_BodyText = si_BodyText input\<rparr>) (\<lambda>(rawMIME, metadata).
     go_bind time_now (\<lambda>now.
     go_bind (RecordQueuedReply (rs_queueRecorder s)
        \<lparr>rq_Organization = si_Organization input, rq_Agent = si_Agent input, rq_Inbox = si_Inbox input,
         rq_Thread = si_Thread input, rq_Contact = si_Contact input, rq_Metadata = metadata,
         rq_RawMIME = rawMIME, rq_ObjectKey = si_ObjectKey input, rq_BodyText = si_BodyText input,
         rq_QueuedAt = now\<rparr>) (\<lambda>queued.
     go_bind (SendQueuedReply (rs_provider s)
        \<lparr>os_Organization = si_Organization input, os_Agent = si_Agent input, os_Inbox = si_Inbox input,
         os_Thread = qd_Thread queued, os_Contact = si_Contact input, os_Message = qd_Message queued,
         os_RawMIME = rawMIME\<rparr>) (\<lambda>sendResult.
     go_bind (RecordSent (rs_saveStatus s) (qd_Message queued) sendResult) (\<lambda>message.
     go_ret \<lparr>so_Thread = qd_Thread queued, so_Message = message, so_SendResult = sendResult\<rparr>)))))"

definition SendReply ::
    "'z env_scheme reply_service \<Rightarrow> send_reply_input \<Rightarrow> ('z env_scheme, send_reply_result) go" where
  "SendReply s input =
     go_bind (case rs_isSuppressed s of
         None \<Rightarrow> go_ret ()
       | Some isSuppressed \<Rightarrow>
           go_bind (isSuppressed (o_ID (si_Organization input)) (c_EmailAddress (si_Contact input)))
             (\<lambda>suppressed. if suppressed then go_fail ErrRecipientSuppressed else go_ret ()))
      (\<lambda>_. send_unsuppressed s input)"

section \<open>Provider callbacks\<close>

record delivery_callback_event =
  ce_ProviderMessageID :: string
  ce_Status :: string
  ce_OccurredAt :: gtime

definition mapCallbackEventType :: "string \<Rightarrow> gerr + string" where
  "mapCallbackEventType eventType =
     (if eventType = DeliveryStateDelivered then Inr DeliveryStateDelivered
      else if eventType = DeliveryStateHardBounce then Inr DeliveryStateHardBounce
      else if eventType = DeliveryStateSoftBounce then Inr DeliveryStateSoftBounce
      else if eventType = DeliveryStateComplaint then Inr DeliveryStateComplaint
      else Inl (ErrMsg ''unknown delivery callback event type''))"

text \<open>The message \<open>RecordStatus\<close> saves.\<close>

definition status_message :: "message \<Rightarrow> string \<Rightarrow> gtime \<Rightarrow> message" where
  "status_message message status occurredAt =
     (let m = message\<lparr>m_DeliveryState := status\<rparr>
      in if status = DeliveryStateDelivered then m\<lparr>m_DeliveredAt := occurredAt\<rparr>
         else if status = DeliveryStateHardBounce \<or> status = DeliveryStateSoftBounce \<or>
                 status = DeliveryStateComplaint then m\<lparr>m_BouncedAt := occurredAt\<rparr>
         else m)"

definition RecordStatus ::
    "(message \<Rightarrow> ('s, message) go) \<Rightarrow> message \<Rightarrow> string \<Rightarrow> gtime \<Rightarrow> ('s, message) go" where
  "RecordStatus save message status occurredAt = save (status_message message status occurredAt)"

lemma status_message_sel [simp]:
  "m_ID (status_message m st a) = m_ID m" "m_DeliveryState (status_message m st a) = st"
  "m_OrganizationID (status_message m st a) = m_OrganizationID m"
  "m_ThreadID (status_message m st a) = m_ThreadID m" "m_InboxID (status_message m st a) = m_InboxID m"
  "m_ContactID (status_message m st a) = m_ContactID m"
  "m_MessageIDHeader (status_message m st a) = m_MessageIDHeader m"
  "m_ProviderMessageID (status_message m st a) = m_ProviderMessageID m"
  "m_DeliveredAt (status_message m st a) = (if st = DeliveryStateDelivered then a else m_DeliveredAt m)"
  "m_BouncedAt (status_message m st a) =
     (if st \<in> {DeliveryStateHardBounce, DeliveryStateSoftBounce, DeliveryStateComplaint} then a
      else m_BouncedAt m)"
  by (simp_all add: status_message_def Let_def delivery_state_defs)

definition ApplyCallback ::
    "(string \<Rightarrow> ('s, message option) go) \<Rightarrow> (message \<Rightarrow> string \<Rightarrow> gtime \<Rightarrow> ('s, message) go) \<Rightarrow>
     delivery_callback_event \<Rightarrow> ('s, message) go" where
  "ApplyCallback findByProvider recordStatus event =
     go_bind (findByProvider (ce_ProviderMessageID event)) (\<lambda>found. case found of
       None \<Rightarrow> go_fail ErrProviderMessageNotFound
     | Some message \<Rightarrow> recordStatus message (ce_Status event) (ce_OccurredAt event))"

definition newSuppressionID :: "('z env_scheme, string) go" where
  "newSuppressionID = random_id ''suppression-'' ''suppression-generated''"

definition Suppression_Apply ::
    "(suppressed_address \<Rightarrow> ('z env_scheme, suppressed_address) go) \<Rightarrow> message \<Rightarrow> contact \<Rightarrow> string \<Rightarrow>
     gtime \<Rightarrow> ('z env_scheme, suppressed_address \<times> bool) go" where
  "Suppression_Apply save message contact status occurredAt =
     (if status \<noteq> DeliveryStateHardBounce \<and> status \<noteq> DeliveryStateComplaint
      then go_ret (zero_suppression, False)
      else go_bind newSuppressionID (\<lambda>i.
           go_bind (save \<lparr>sa_ID = i, sa_OrganizationID = m_OrganizationID message,
                          sa_EmailAddress = c_EmailAddress contact, sa_Reason = status,
                          sa_Source = ''provider_callback'', sa_CreatedAt = occurredAt,
                          sa_UpdatedAt = occurredAt\<rparr>) (\<lambda>saved.
           go_ret (saved, True))))"

record callback_flow_result =
  cf_Message :: message
  cf_Suppression :: suppressed_address
  cf_Suppressed :: bool

definition CallbackFlow_Apply ::
    "(delivery_callback_event \<Rightarrow> ('s, message) go) \<Rightarrow>
     (message \<Rightarrow> contact \<Rightarrow> string \<Rightarrow> gtime \<Rightarrow> ('s, suppressed_address \<times> bool) go) \<Rightarrow>
     delivery_callback_event \<Rightarrow> contact \<Rightarrow> ('s, callback_flow_result) go" where
  "CallbackFlow_Apply applyCallback applySuppression event contact =
     go_bind (applyCallback event) (\<lambda>message.
     go_bind (applySuppression message contact (ce_Status event) (ce_OccurredAt event)) (\<lambda>(suppression, changed).
     go_ret \<lparr>cf_Message = message, cf_Suppression = suppression, cf_Suppressed = changed\<rparr>))"

section \<open>The local provider\<close>

definition dev_randomID :: "('z env_scheme, string) go" where
  "dev_randomID = random_id [] ''generated''"

definition dev_provider :: "'z env_scheme email_provider" where
  "dev_provider =
     \<lparr>ep_Send = (\<lambda>_. go_bind dev_randomID (\<lambda>i. go_bind time_now (\<lambda>now.
        go_ret \<lparr>sr_ProviderMessageID = ''dev-'' @ i, sr_AcceptedAt = now\<rparr>))),
      ep_GetDeliveryStatus = (\<lambda>providerMessageID. go_bind time_now (\<lambda>now.
        go_ret \<lparr>ds_ProviderMessageID = providerMessageID, ds_State = ''accepted'', ds_UpdatedAt = now\<rparr>)),
      ep_HealthCheck = go_bind time_now (\<lambda>now.
        go_ret \<lparr>ph_ProviderName = ''dev'', ph_Healthy = True, ph_CheckedAt = now,
                ph_Details = ''local development provider''\<rparr>)\<rparr>"

section \<open>Wiring over the runtime store\<close>

text \<open>\<open>newReplyService\<close> of \<open>cmd/agentlayer/main.go\<close>, with the provider as a parameter.\<close>

definition generated_message_id :: string where
  "generated_message_id = ''<generated@agentlayer.local>''"

definition newReplyService :: "'z world_scheme email_provider \<Rightarrow> 'z world_scheme reply_service" where
  "newReplyService provider =
     \<lparr>rs_generateMessageID = go_ret generated_message_id,
      rs_queueRecorder = \<lparr>qr_Create = rt_Create, qr_Save = Some rt_Save, qr_Put = Some rt_Put\<rparr>,
      rs_provider = provider, rs_saveStatus = rt_SaveMessage, rs_isSuppressed = Some rt_IsSuppressed\<rparr>"

definition newOutboundCallbackFlow ::
    "delivery_callback_event \<Rightarrow> contact \<Rightarrow> ('z world_scheme, callback_flow_result) go" where
  "newOutboundCallbackFlow =
     CallbackFlow_Apply (ApplyCallback rt_FindByProviderMessageID (RecordStatus rt_SaveMessage))
       (Suppression_Apply rt_SaveSuppression)"

end
