(* ===== verification/Json.thy ===== *)
theory Json
  imports Go_Strings
begin

text \<open>
  What the code uses of \<open>encoding/json\<close> to write: \<open>json.Marshal\<close> of structs, slices, strings,
  booleans and integers, the last as their literal. Strings are escaped as the package does it, including the HTML-safe escapes, the two
  line separators, and the replacement of bytes that are not UTF-8.
\<close>

datatype json =
    JNull
  | JBool bool
  | JNumber string
  | JString string
  | JArray "json list"
  | JObject "(string \<times> json) list"

section \<open>Strings\<close>

definition hex_escape :: "char \<Rightarrow> string" where
  "hex_escape c = [CHR 0x5C] @ ''u00'' @ hex_byte c"

text \<open>One byte below 128.\<close>

definition json_escape :: "char \<Rightarrow> string" where
  "json_escape c =
     (if c = CHR 0x22 \<or> c = CHR 0x5C then [CHR 0x5C, c]
      else if c = CHR 0x08 then [CHR 0x5C, CHR ''b'']
      else if c = CHR 0x0C then [CHR 0x5C, CHR ''f'']
      else if c = CHR 0x0A then [CHR 0x5C, CHR ''n'']
      else if c = CHR 0x0D then [CHR 0x5C, CHR ''r'']
      else if c = CHR 0x09 then [CHR 0x5C, CHR ''t'']
      else if byte_of c < 32 \<or> c = CHR ''<'' \<or> c = CHR ''>'' \<or> c = CHR ''&'' then hex_escape c
      else [c])"

definition continuation :: "char \<Rightarrow> bool" where
  "continuation c \<longleftrightarrow> 128 \<le> byte_of c \<and> byte_of c < 192"

text \<open>\<open>utf8.DecodeRuneInString\<close> on a first byte of 128 and more: the bytes of the rune, or \<open>None\<close>
  for an encoding error, which is one byte wide.\<close>

fun utf8_seq :: "string \<Rightarrow> nat option" where
  "utf8_seq (a # b # rest) =
     (let x = byte_of a; y = byte_of b in
      if 194 \<le> x \<and> x < 224 then (if continuation b then Some 2 else None)
      else if 224 \<le> x \<and> x < 240 then
        (case rest of
           [] \<Rightarrow> None
         | c # _ \<Rightarrow>
             if continuation b \<and> continuation c \<and> (x = 224 \<longrightarrow> 160 \<le> y) \<and> (x = 237 \<longrightarrow> y < 160)
             then Some 3 else None)
      else if 240 \<le> x \<and> x < 245 then
        (case rest of
           c # d # _ \<Rightarrow>
             if continuation b \<and> continuation c \<and> continuation d \<and> (x = 240 \<longrightarrow> 144 \<le> y) \<and> (x = 244 \<longrightarrow> y < 144)
             then Some 4 else None
         | _ \<Rightarrow> None)
      else None)"
| "utf8_seq _ = None"

function json_chars :: "string \<Rightarrow> string" where
  "json_chars [] = []"
| "json_chars (c # s) =
     (if byte_of c < 128 then json_escape c @ json_chars s
      else case utf8_seq (c # s) of
        None \<Rightarrow> [CHR 0x5C] @ ''ufffd'' @ json_chars s
      | Some n \<Rightarrow>
          (if take n (c # s) = [CHR 0xE2, CHR 0x80, CHR 0xA8] then [CHR 0x5C] @ ''u2028''
           else if take n (c # s) = [CHR 0xE2, CHR 0x80, CHR 0xA9] then [CHR 0x5C] @ ''u2029''
           else take n (c # s)) @ json_chars (drop (n - 1) s))"
  by pat_completeness auto

termination
  by (relation "measure length") auto

definition json_string :: "string \<Rightarrow> string" where
  "json_string s = [CHR 0x22] @ json_chars s @ [CHR 0x22]"

section \<open>Values\<close>

fun json_encode :: "json \<Rightarrow> string" and json_items :: "json list \<Rightarrow> string list"
  and json_fields :: "(string \<times> json) list \<Rightarrow> string list" where
  "json_encode JNull = ''null''"
| "json_encode (JBool b) = (if b then ''true'' else ''false'')"
| "json_encode (JNumber n) = n"
| "json_encode (JString s) = json_string s"
| "json_encode (JArray vs) = ''['' @ join (json_items vs) '','' @ '']''"
| "json_encode (JObject fs) = ''{'' @ join (json_fields fs) '','' @ ''}''"
| "json_items [] = []"
| "json_items (v # vs) = json_encode v # json_items vs"
| "json_fields [] = []"
| "json_fields ((k, v) # fs) = (json_string k @ '':'' @ json_encode v) # json_fields fs"

section \<open>Reading a string back\<close>

text \<open>What a JSON reader makes of the inside of a string literal, for the escapes above.\<close>

definition unhex :: "char \<Rightarrow> nat" where
  "unhex c = (let n = byte_of c in if n < 58 then n - 48 else n - 87)"

fun json_unescape :: "string \<Rightarrow> string" where
  "json_unescape [] = []"
| "json_unescape [c] = [c]"
| "json_unescape (c # d # s) =
     (if c \<noteq> CHR 0x5C then c # json_unescape (d # s)
      else if d = CHR ''u'' then (case s of
          _ # _ # h # l # rest \<Rightarrow> char_of (16 * unhex h + unhex l) # json_unescape rest
        | _ \<Rightarrow> [])
      else (if d = CHR ''b'' then CHR 0x08 else if d = CHR ''f'' then CHR 0x0C
            else if d = CHR ''n'' then CHR 0x0A else if d = CHR ''r'' then CHR 0x0D
            else if d = CHR ''t'' then CHR 0x09 else d) # json_unescape s)"

lemma unhex_hex_digit: "n < 16 \<Longrightarrow> unhex (hex_digit n) = n"
proof -
  have "\<forall>n \<in> set [0..<16]. unhex (hex_digit n) = n" by code_simp
  then show "n < 16 \<Longrightarrow> unhex (hex_digit n) = n" by simp
qed

lemma unhex_byte: "char_of (16 * unhex (hex_digit (byte_of c div 16)) + unhex (hex_digit (byte_of c))) = c"
proof -
  have "byte_of c div 16 < 16" by (simp add: div_less_iff_less_mult)
  then have "unhex (hex_digit (byte_of c div 16)) = byte_of c div 16" by (rule unhex_hex_digit)
  moreover have "hex_digit (byte_of c) = hex_digit (byte_of c mod 16)" by (simp add: hex_digit_def)
  then have "unhex (hex_digit (byte_of c)) = byte_of c mod 16" by (simp add: unhex_hex_digit)
  ultimately show ?thesis by (simp add: byte_of_def)
qed

lemma json_unescape_plain: "c \<noteq> CHR 0x5C \<Longrightarrow> json_unescape (c # s) = c # json_unescape s"
  by (cases s) simp_all

lemma json_unescape_escape: "json_unescape (json_escape c @ s) = c # json_unescape s"
  by (simp add: json_escape_def hex_escape_def hex_byte_def unhex_byte json_unescape_plain)

lemma json_unescape_chars: "\<forall>c \<in> set s. byte_of c < 128 \<Longrightarrow> json_unescape (json_chars s) = s"
  by (induction s) (simp_all add: json_unescape_escape)

end
