(* ===== verification/Webhooks.thy ===== *)
theory Webhooks
  imports Inbound Json
begin

text \<open>
  Webhook delivery, \<open>internal/webhooks\<close>: the payload builder, the signer, the dispatcher, the
  attempt recorder, and the services that deliver, replay and sweep. The subscriber's side of
  the connection is the \<open>http_srv\<close> of the world.
\<close>

section \<open>The message.received payload\<close>

record build_message_received_input =
  bi_Organization :: organization
  bi_Agent :: agent
  bi_Inbox :: inbox
  bi_Delivery :: webhook_delivery
  bi_Handled :: handle_result
  bi_ThreadMessages :: "message list"
  bi_Memory :: "contact_memory_entry list"

text \<open>\<open>mapMessage\<close> and the other payload structs, as the JSON objects their tags describe.\<close>

definition mapMessage :: "message \<Rightarrow> json" where
  "mapMessage message = JObject
     [(''id'', JString (m_ID message)),
      (''thread_id'', JString (m_ThreadID message)),
      (''direction'', JString (m_Direction message)),
      (''subject'', JString (m_Subject message)),
      (''text_body'', JString (m_TextBody message)),
      (''message_id_header'', JString (m_MessageIDHeader message)),
      (''created_at'', JString (format_rfc3339 (m_CreatedAt message)))]"

definition payload_memory :: "contact_memory_entry \<Rightarrow> json" where
  "payload_memory entry = JObject
     [(''id'', JString (cm_ID entry)),
      (''contact_id'', JString (cm_ContactID entry)),
      (''thread_id'', JString (cm_ThreadID entry)),
      (''note'', JString (cm_Note entry)),
      (''tags'', case cm_Tags entry of None \<Rightarrow> JNull | Some tags \<Rightarrow> JArray (map JString tags)),
      (''created_at'', JString (format_rfc3339 (cm_CreatedAt entry)))]"

definition message_received_payload :: "build_message_received_input \<Rightarrow> json" where
  "message_received_payload input =
     (let handled = bi_Handled input; delivery = bi_Delivery input in JObject
       [(''event_id'', JString (wd_EventID delivery)),
        (''event_type'', JString (wd_EventType delivery)),
        (''occurred_at'', JString (format_rfc3339 (wd_CreatedAt delivery))),
        (''organization'', JObject
          [(''id'', JString (o_ID (bi_Organization input))),
           (''name'', JString (o_Name (bi_Organization input)))]),
        (''agent'', JObject
          [(''id'', JString (ag_ID (bi_Agent input))), (''name'', JString (ag_Name (bi_Agent input)))]),
        (''inbox'', JObject
          [(''id'', JString (i_ID (bi_Inbox input))),
           (''email_address'', JString (i_EmailAddress (bi_Inbox input)))]),
        (''message'', mapMessage (hr_Message handled)),
        (''thread'', JObject
          [(''id'', JString (t_ID (hr_Thread handled))),
           (''subject_normalized'', JString (t_SubjectNormalized (hr_Thread handled))),
           (''state'', JString (t_State (hr_Thread handled)))]),
        (''contact'', JObject
          [(''id'', JString (c_ID (hr_Contact handled))),
           (''email_address'', JString (c_EmailAddress (hr_Contact handled))),
           (''display_name'', JString (c_DisplayName (hr_Contact handled)))]),
        (''thread_messages'', JArray (map mapMessage (bi_ThreadMessages input))),
        (''memory'', JArray (map payload_memory (bi_Memory input)))])"

definition Builder_Build :: "build_message_received_input \<Rightarrow> webhook_dispatch_request" where
  "Builder_Build input =
     \<lparr>wq_Delivery = bi_Delivery input, wq_Payload = json_encode (message_received_payload input),
      wq_Headers = [(''Content-Type'', ''application/json'')]\<rparr>"

section \<open>Signing\<close>

definition HeaderSignature :: string where "HeaderSignature = ''X-AgentLayer-Signature''"
definition HeaderSignatureTimestamp :: string where
  "HeaderSignatureTimestamp = ''X-AgentLayer-Signature-Timestamp''"

definition signPayload :: "string \<Rightarrow> string \<Rightarrow> string \<Rightarrow> string" where
  "signPayload secret timestamp payload = hex_encode (hmac_sha256 secret (timestamp @ ''.'' @ payload))"

definition Signer_Sign ::
    "webhook_dispatch_request \<Rightarrow> string \<Rightarrow> ('z env_scheme, webhook_dispatch_request) go" where
  "Signer_Sign request secret =
     (if secret = [] then go_fail (ErrMsg ''webhook secret is required'')
      else go_bind time_now (\<lambda>now.
        let timestamp = format_rfc3339 now;
            headers = gput HeaderSignature (''sha256='' @ signPayload secret timestamp (wq_Payload request))
                        (gput HeaderSignatureTimestamp timestamp (wq_Headers request))
        in go_ret (request\<lparr>wq_Headers := headers\<rparr>)))"

section \<open>Dispatching\<close>

text \<open>\<open>http.Header.Set\<close> writes the canonical form of a key: letters after a hyphen in upper case,
  the others in lower case, unless the key holds a byte no header name may hold.\<close>

definition token_char :: "char \<Rightarrow> bool" where
  "token_char c \<longleftrightarrow> (let n = byte_of c in
     (48 \<le> n \<and> n \<le> 57) \<or> (65 \<le> n \<and> n \<le> 90) \<or> (97 \<le> n \<and> n \<le> 122) \<or>
     c \<in> set ''!#$%&*+-.^_|~'' \<or> n = 39 \<or> n = 96)"

definition upper_char :: "char \<Rightarrow> char" where
  "upper_char c = (if 97 \<le> byte_of c \<and> byte_of c \<le> 122 then char_of (byte_of c - 32) else c)"

fun canonical_from :: "bool \<Rightarrow> string \<Rightarrow> string" where
  "canonical_from upper [] = []"
| "canonical_from upper (c # s) =
     (if upper then upper_char c else lower_char c) # canonical_from (c = CHR ''-'') s"

definition canonical_key :: "string \<Rightarrow> string" where
  "canonical_key k = (if list_all token_char k then canonical_from True k else k)"

text \<open>The loop over the header map, in the order \<open>ord\<close>.\<close>

definition set_headers :: "(string list \<Rightarrow> string list) \<Rightarrow> string gmap \<Rightarrow> string gmap" where
  "set_headers ord headers =
     fold (\<lambda>k h. gput (canonical_key k) (the (map_of headers k)) h) (legal_order ord (gkeys headers)) []"

definition Dispatcher_Dispatch ::
    "string \<Rightarrow> webhook_dispatch_request \<Rightarrow> ('z world_scheme, webhook_dispatch_result) go" where
  "Dispatcher_Dispatch url request =
     go_bind (\<lambda>w. (case url_check w url of None \<Rightarrow> Inr () | Some e \<Rightarrow> Inl e, w)) (\<lambda>_.
     go_bind next_order (\<lambda>ord.
     go_bind (http_do \<lparr>hq_Method = ''POST'', hq_URL = url, hq_Headers = set_headers ord (wq_Headers request),
                      hq_Body = wq_Payload request\<rparr>) (\<lambda>response.
     go_bind (go_lift (hp_Body response)) (\<lambda>body.
     go_bind time_now (\<lambda>now.
     go_ret \<lparr>wr_StatusCode = hp_StatusCode response, wr_Body = body, wr_DeliveredAt = now\<rparr>)))))"

section \<open>Recording attempts\<close>

definition DeliveryStatusSucceeded :: string where "DeliveryStatusSucceeded = ''succeeded''"
definition DeliveryStatusRetrying :: string where "DeliveryStatusRetrying = ''retrying''"
definition DeliveryStatusDeadLetter :: string where "DeliveryStatusDeadLetter = ''dead_letter''"

lemmas delivery_status_defs = DeliveryStatusSucceeded_def DeliveryStatusRetrying_def DeliveryStatusDeadLetter_def

text \<open>The loop that doubles the delay, with the wrap-around of \<open>time.Duration\<close>.\<close>

fun double_times :: "nat \<Rightarrow> duration \<Rightarrow> duration" where
  "double_times 0 delay = delay"
| "double_times (Suc n) delay = double_times n (delay * 2)"

definition defaultBackoff :: "int \<Rightarrow> duration" where
  "defaultBackoff attempt = (let a = (if attempt < 1 then 1 else attempt) in double_times (nat (a - 1)) minute)"

text \<open>The delivery that \<open>RecordAttempt\<close> saves; \<open>NewRecorder\<close> sets \<open>maxAttempts\<close> to 3 and
  \<open>backoff\<close> to \<open>defaultBackoff\<close>.\<close>

definition attempt_delivery ::
    "int \<Rightarrow> (int \<Rightarrow> duration) \<Rightarrow> webhook_delivery \<Rightarrow> webhook_dispatch_result \<Rightarrow> webhook_delivery" where
  "attempt_delivery maxAttempts backoff d response =
     (let delivery = d\<lparr>wd_AttemptCount := wd_AttemptCount d + 1, wd_ResponseCode := wr_StatusCode response,
                       wd_ResponseBody := wr_Body response, wd_LastAttemptAt := wr_DeliveredAt response,
                       wd_UpdatedAt := wr_DeliveredAt response\<rparr>
      in if 200 \<le> wr_StatusCode response \<and> wr_StatusCode response < 300
         then delivery\<lparr>wd_Status := DeliveryStatusSucceeded, wd_NextAttemptAt := 0\<rparr>
         else if wd_AttemptCount delivery \<le> maxAttempts
         then delivery\<lparr>wd_Status := DeliveryStatusRetrying,
                wd_NextAttemptAt := time_add (wr_DeliveredAt response) (backoff (wd_AttemptCount delivery))\<rparr>
         else delivery\<lparr>wd_Status := DeliveryStatusDeadLetter, wd_NextAttemptAt := 0\<rparr>)"

definition RecordAttempt ::
    "(webhook_delivery \<Rightarrow> ('s, webhook_delivery) go) \<Rightarrow> webhook_delivery \<Rightarrow> webhook_dispatch_result \<Rightarrow>
     ('s, webhook_delivery) go" where
  "RecordAttempt save delivery response = save (attempt_delivery 3 defaultBackoff delivery response)"

section \<open>Delivering\<close>

record delivery_result =
  dv_Request :: webhook_dispatch_request
  dv_Response :: webhook_dispatch_result
  dv_Delivery :: webhook_delivery

definition copyHeaders :: "string gmap \<Rightarrow> string gmap" where
  "copyHeaders headers = headers"

text \<open>The dispatcher is a field of every service below.\<close>

type_synonym 's dispatcher = "string \<Rightarrow> webhook_dispatch_request \<Rightarrow> ('s, webhook_dispatch_result) go"

definition DeliverMessageReceived ::
    "'z env_scheme dispatcher \<Rightarrow> string \<Rightarrow> string \<Rightarrow> build_message_received_input \<Rightarrow>
     ('z env_scheme, webhook_dispatch_request \<times> webhook_dispatch_result) go" where
  "DeliverMessageReceived dispatch url secret buildInput =
     go_bind (Signer_Sign (Builder_Build buildInput) secret) (\<lambda>request.
     go_bind (dispatch url request) (\<lambda>response.
     go_ret (request, response)))"

definition DeliverAndRecordMessageReceived ::
    "'z env_scheme dispatcher \<Rightarrow> (webhook_delivery \<Rightarrow> ('z env_scheme, webhook_delivery) go) \<Rightarrow> string \<Rightarrow> string \<Rightarrow>
     build_message_received_input \<Rightarrow> ('z env_scheme, delivery_result) go" where
  "DeliverAndRecordMessageReceived dispatch save url secret buildInput =
     go_bind (DeliverMessageReceived dispatch url secret buildInput) (\<lambda>(request, response).
     go_bind (RecordAttempt save
        ((wq_Delivery request)\<lparr>wd_RequestURL := url, wd_RequestPayload := wq_Payload request,
           wd_RequestHeaders := copyHeaders (wq_Headers request)\<rparr>) response) (\<lambda>recorded.
     go_ret \<lparr>dv_Request = request, dv_Response = response, dv_Delivery = recorded\<rparr>))"

section \<open>Replaying and sweeping\<close>

definition ReplayDelivery ::
    "(string \<Rightarrow> ('s, webhook_delivery) go) \<Rightarrow> 's dispatcher \<Rightarrow>
     (webhook_delivery \<Rightarrow> ('s, webhook_delivery) go) \<Rightarrow> string \<Rightarrow> ('s, delivery_result) go" where
  "ReplayDelivery get dispatch save deliveryID =
     go_bind (get deliveryID) (\<lambda>delivery.
       if wd_RequestURL delivery = [] \<or> length (wd_RequestPayload delivery) = 0
       then go_fail ErrReplayRequestUnavailable
       else
         let request = \<lparr>wq_Delivery = delivery, wq_Payload = wd_RequestPayload delivery,
                        wq_Headers = copyHeaders (wd_RequestHeaders delivery)\<rparr>
         in go_bind (dispatch (wd_RequestURL delivery) request) (\<lambda>response.
            go_bind (RecordAttempt save delivery response) (\<lambda>recorded.
            go_ret \<lparr>dv_Request = request, dv_Response = response, dv_Delivery = recorded\<rparr>)))"

definition isRetryDue :: "webhook_delivery \<Rightarrow> gtime \<Rightarrow> bool" where
  "isRetryDue delivery at =
     (if wd_Status delivery \<noteq> DeliveryStatusRetrying then False
      else if is_zero_time (wd_NextAttemptAt delivery) then False
      else \<not> time_after (wd_NextAttemptAt delivery) at)"

record retry_sweep_result =
  rw_Attempted :: nat
  rw_Succeeded :: nat
  rw_Failed :: nat
  rw_Skipped :: nat
  rw_Deliveries :: "webhook_delivery list"

definition empty_sweep :: retry_sweep_result where
  "empty_sweep = \<lparr>rw_Attempted = 0, rw_Succeeded = 0, rw_Failed = 0, rw_Skipped = 0, rw_Deliveries = []\<rparr>"

fun sweep_loop ::
    "(string \<Rightarrow> ('s, delivery_result) go) \<Rightarrow> gtime \<Rightarrow> webhook_delivery list \<Rightarrow> retry_sweep_result \<Rightarrow>
     ('s, retry_sweep_result) go" where
  "sweep_loop replay at [] result = go_ret result"
| "sweep_loop replay at (delivery # rest) result =
     (if \<not> isRetryDue delivery at
      then sweep_loop replay at rest (result\<lparr>rw_Skipped := rw_Skipped result + 1\<rparr>)
      else
        let attempted = result\<lparr>rw_Attempted := rw_Attempted result + 1\<rparr>
        in go_bind (go_try (replay (wd_ID delivery))) (\<lambda>r. case r of
             Inl _ \<Rightarrow> sweep_loop replay at rest (attempted\<lparr>rw_Failed := rw_Failed attempted + 1\<rparr>)
           | Inr replayed \<Rightarrow> sweep_loop replay at rest
               (attempted\<lparr>rw_Succeeded := rw_Succeeded attempted + 1,
                          rw_Deliveries := rw_Deliveries attempted @ [dv_Delivery replayed]\<rparr>)))"

definition RetryDueDeliveries ::
    "(int \<Rightarrow> ('z env_scheme, webhook_delivery list) go) \<Rightarrow> (string \<Rightarrow> ('z env_scheme, delivery_result) go) \<Rightarrow>
     int \<Rightarrow> ('z env_scheme, retry_sweep_result) go" where
  "RetryDueDeliveries list_deliveries replay limit =
     go_bind (list_deliveries limit) (\<lambda>deliveries.
     go_bind time_now (\<lambda>at.
     sweep_loop replay at deliveries empty_sweep))"

section \<open>Wiring over the runtime store\<close>

definition rt_ReplayDelivery :: "string \<Rightarrow> ('z world_scheme, delivery_result) go" where
  "rt_ReplayDelivery =
     ReplayDelivery rt_GetWebhookDeliveryByID Dispatcher_Dispatch rt_SaveWebhookDelivery"

definition newWebhookRetrySweepService :: "int \<Rightarrow> ('z world_scheme, retry_sweep_result) go" where
  "newWebhookRetrySweepService = RetryDueDeliveries rt_ListWebhookDeliveries rt_ReplayDelivery"

definition newMessageReceivedDeliveryService ::
    "string \<Rightarrow> string \<Rightarrow> build_message_received_input \<Rightarrow> ('z world_scheme, delivery_result) go" where
  "newMessageReceivedDeliveryService =
     DeliverAndRecordMessageReceived Dispatcher_Dispatch rt_SaveWebhookDelivery"

end
