(* ===== verification/Smtp_Edge.thy ===== *)
theory Smtp_Edge
  imports Inbound
begin

text \<open>
  The SMTP edge, \<open>internal/smtpedge\<close>: identifiers and object keys, the session state machine, the
  receipt sink, the adapter the SMTP library drives and the server's defaults. The SMTP library
  is not modelled: it may call the session's methods in any order.
\<close>

section \<open>Identifiers\<close>

definition randomHex :: "nat \<Rightarrow> ('z env_scheme, string) go" where
  "randomHex byteLen = go_bind (rand_read byteLen) (\<lambda>r. case r of
       None \<Rightarrow> go_ret (replicate (byteLen * 2) (CHR ''0''))
     | Some buf \<Rightarrow> go_ret (hex_encode buf))"

definition NewSessionID :: "gtime \<Rightarrow> ('z env_scheme, string) go" where
  "NewSessionID now = go_bind (randomHex 6) (\<lambda>h. go_ret (''smtp-'' @ format_session now @ ''-'' @ h))"

text \<open>
  A \<open>range\<close> loop over a string visits runes. \<open>rune_width\<close> is the number of bytes the next rune
  takes: the length of a well-formed UTF-8 sequence, and 1 for a byte that starts none.
\<close>

definition second_byte_ok :: "nat \<Rightarrow> nat \<Rightarrow> bool" where
  "second_byte_ok b d \<longleftrightarrow>
     (if b = 224 then 160 else if b = 240 then 144 else 128) \<le> d \<and>
     d \<le> (if b = 237 then 159 else if b = 244 then 143 else 191)"

definition continuation_byte :: "char \<Rightarrow> bool" where
  "continuation_byte c \<longleftrightarrow> 128 \<le> byte_of c \<and> byte_of c \<le> 191"

fun rune_width :: "string \<Rightarrow> nat" where
  "rune_width (c # d # e # f # _) =
     (let b = byte_of c in
      if b < 194 \<or> 244 < b \<or> \<not> second_byte_ok b (byte_of d) then 1
      else if b < 224 then 2
      else if \<not> continuation_byte e then 1
      else if b < 240 then 3
      else if continuation_byte f then 4 else 1)"
| "rune_width [c, d, e] =
     (let b = byte_of c in
      if b < 194 \<or> 244 < b \<or> \<not> second_byte_ok b (byte_of d) then 1
      else if b < 224 then 2
      else if b < 240 \<and> continuation_byte e then 3 else 1)"
| "rune_width [c, d] =
     (let b = byte_of c in if 194 \<le> b \<and> b < 224 \<and> second_byte_ok b (byte_of d) then 2 else 1)"
| "rune_width [c] = 1"
| "rune_width [] = 0"

definition sanitize_rune :: "char \<Rightarrow> char" where
  "sanitize_rune c =
     (let b = byte_of c in
      if 97 \<le> b \<and> b \<le> 122 then c
      else if 65 \<le> b \<and> b \<le> 90 then char_of (b + 32)
      else if 48 \<le> b \<and> b \<le> 57 then c
      else if c = CHR ''-'' \<or> c = CHR ''_'' then c
      else CHR ''-'')"

function sanitize_runes :: "string \<Rightarrow> string" where
  "sanitize_runes [] = []"
| "sanitize_runes (c # s) = sanitize_rune c # sanitize_runes (drop (rune_width (c # s) - 1) s)"
  by pat_completeness auto

termination
  by (relation "measure length") auto

text \<open>\<open>strings.Trim(s, "-")\<close>\<close>

definition trim_dashes :: "string \<Rightarrow> string" where
  "trim_dashes s = rev (dropWhile (\<lambda>c. c = CHR ''-'') (rev (dropWhile (\<lambda>c. c = CHR ''-'') s)))"

definition sanitizePathSegment :: "string \<Rightarrow> string" where
  "sanitizePathSegment value =
     (let v = trim_space value in if v = [] then [] else trim_dashes (sanitize_runes v))"

definition NewRawMessageObjectKey :: "gtime \<Rightarrow> inbox \<Rightarrow> ('z env_scheme, string) go" where
  "NewRawMessageObjectKey now inbox =
     (let s = sanitizePathSegment (i_ID inbox); inboxID = (if s = [] then ''unknown'' else s)
      in go_bind (randomHex 12) (\<lambda>h.
         go_ret (''raw/'' @ format_date_path now @ ''/'' @ inboxID @ ''/'' @ h @ ''.eml'')))"

section \<open>The session\<close>

record 's session =
  ss_lookup :: "string \<Rightarrow> ('s, inbox option) go"
  ss_store :: "string \<Rightarrow> string \<Rightarrow> ('s, unit) go"
  ss_sink :: "durable_receipt_request \<Rightarrow> ('s, unit) go"
  ss_now :: "('s, gtime) go"
  ss_nextKey :: "gtime \<Rightarrow> inbox \<Rightarrow> ('s, string) go"
  ss_sessionID :: string
  ss_sender :: string
  ss_recipient :: string
  ss_targetInbox :: inbox

definition NewSession ::
    "(string \<Rightarrow> ('z env_scheme, inbox option) go) \<Rightarrow> (string \<Rightarrow> string \<Rightarrow> ('z env_scheme, unit) go) \<Rightarrow>
     (durable_receipt_request \<Rightarrow> ('z env_scheme, unit) go) \<Rightarrow> ('z env_scheme, gtime) go option \<Rightarrow>
     (gtime \<Rightarrow> inbox \<Rightarrow> ('z env_scheme, string) go) option \<Rightarrow> string \<Rightarrow> 'z env_scheme session" where
  "NewSession lookup store sink now nextKey sessionID =
     \<lparr>ss_lookup = lookup, ss_store = store, ss_sink = sink,
      ss_now = (case now of None \<Rightarrow> time_now | Some f \<Rightarrow> f),
      ss_nextKey = (case nextKey of None \<Rightarrow> NewRawMessageObjectKey | Some f \<Rightarrow> f),
      ss_sessionID = sessionID, ss_sender = [], ss_recipient = [], ss_targetInbox = zero_inbox\<rparr>"

text \<open>The methods have a pointer receiver: they run on the session and the state outside it.\<close>

type_synonym 's session_state = "'s session \<times> 's"

definition Session_Mail :: "string \<Rightarrow> ('s session_state, unit) go" where
  "Session_Mail from = (\<lambda>(s, w).
     if from = [] then (Inl (ErrMsg ''mail from is required''), (s, w))
     else (Inr (), (s\<lparr>ss_sender := from\<rparr>, w)))"

definition Session_Rcpt :: "string \<Rightarrow> ('s session_state, unit) go" where
  "Session_Rcpt to = (\<lambda>(s, w).
     if to = [] then (Inl (ErrMsg ''rcpt to is required''), (s, w))
     else case ss_lookup s to w of
       (Inl e, w') \<Rightarrow> (Inl e, (s, w'))
     | (Inr None, w') \<Rightarrow> (Inl (ErrMsg ''recipient inbox not found''), (s, w'))
     | (Inr (Some inbox), w') \<Rightarrow> (Inr (), (s\<lparr>ss_recipient := to, ss_targetInbox := inbox\<rparr>, w')))"

definition session_receipt :: "'s session \<Rightarrow> string \<Rightarrow> gtime \<Rightarrow> durable_receipt_request" where
  "session_receipt s objectKey receivedAt =
     \<lparr>dr_SMTPTransactionID = ss_sessionID s, dr_OrganizationID = i_OrganizationID (ss_targetInbox s),
      dr_AgentID = i_AgentID (ss_targetInbox s), dr_InboxID = i_ID (ss_targetInbox s),
      dr_EnvelopeSender = ss_sender s, dr_EnvelopeRecipients = [ss_recipient s],
      dr_RawMessageObjectKey = objectKey, dr_ReceivedAt = receivedAt\<rparr>"

definition session_accept :: "'s session \<Rightarrow> string \<Rightarrow> ('s, unit) go" where
  "session_accept s raw =
     go_bind (ss_now s) (\<lambda>receivedAt.
     go_bind (ss_nextKey s receivedAt (ss_targetInbox s)) (\<lambda>objectKey.
     go_bind (ss_store s objectKey raw) (\<lambda>_.
     ss_sink s (session_receipt s objectKey receivedAt))))"

text \<open>The reader of the message is a stream: reading it to the end can fail.\<close>

definition Session_Data :: "gerr + string \<Rightarrow> ('s session_state, unit) go" where
  "Session_Data reader = (\<lambda>(s, w).
     if ss_sender s = [] then (Inl (ErrMsg ''mail from must be set before data''), (s, w))
     else if ss_recipient s = []
       then (Inl (ErrMsg ''at least one recipient must be accepted before data''), (s, w))
     else case reader of
       Inl e \<Rightarrow> (Inl e, (s, w))
     | Inr raw \<Rightarrow> (case session_accept s raw w of (r, w') \<Rightarrow> (r, (s, w'))))"

section \<open>The receipt sink\<close>

text \<open>\<open>ReceiptHandlerSink.Enqueue\<close>; the recorder is optional.\<close>

definition Enqueue ::
    "(stored_inbound_message \<Rightarrow> ('s, handle_result) go) \<Rightarrow> (durable_receipt_request \<Rightarrow> ('s, unit) go) option \<Rightarrow>
     durable_receipt_request \<Rightarrow> ('s, unit) go" where
  "Enqueue handler recorder receipt =
     go_bind (case recorder of None \<Rightarrow> go_ret () | Some save \<Rightarrow> save receipt) (\<lambda>_.
     go_bind (handler \<lparr>sm_Receipt = receipt_to_inbound receipt, sm_RawSizeBytes = 0\<rparr>) (\<lambda>_.
     go_ret ()))"

section \<open>The adapter and the server\<close>

record 'c core_session =
  cs_Mail :: "string \<Rightarrow> ('c, unit) go"
  cs_Rcpt :: "string \<Rightarrow> ('c, unit) go"
  cs_Data :: "gerr + string \<Rightarrow> ('c, unit) go"

definition session_core :: "'s session_state core_session" where
  "session_core = \<lparr>cs_Mail = Session_Mail, cs_Rcpt = Session_Rcpt, cs_Data = Session_Data\<rparr>"

record 'c adapter_session =
  as_core :: "'c core_session"

definition NewAdapterSession :: "'c core_session \<Rightarrow> 'c adapter_session" where
  "NewAdapterSession core = \<lparr>as_core = core\<rparr>"

text \<open>The commands the SMTP library turns into calls of the adapter.\<close>

datatype smtp_command =
    Mail string
  | Rcpt string
  | Data "gerr + string"
  | Reset
  | Logout

fun AdapterSession_call :: "'c adapter_session \<Rightarrow> smtp_command \<Rightarrow> ('c, unit) go" where
  "AdapterSession_call a (Mail from) = cs_Mail (as_core a) from"
| "AdapterSession_call a (Rcpt to) = cs_Rcpt (as_core a) to"
| "AdapterSession_call a (Data reader) = cs_Data (as_core a) reader"
| "AdapterSession_call a Reset = go_ret ()"
| "AdapterSession_call a Logout = go_ret ()"

record smtp_config =
  sc_Addr :: string
  sc_Domain :: string
  sc_MaxRecipients :: int
  sc_MaxMessageBytes :: int
  sc_ReadTimeout :: duration
  sc_WriteTimeout :: duration

definition defaultString :: "string \<Rightarrow> string \<Rightarrow> string" where
  "defaultString v fallback = (if v \<noteq> [] then v else fallback)"

definition defaultInt :: "int \<Rightarrow> int \<Rightarrow> int" where
  "defaultInt v fallback = (if v \<noteq> 0 then v else fallback)"

definition defaultDuration :: "duration \<Rightarrow> duration \<Rightarrow> duration" where
  "defaultDuration v fallback = (if v \<noteq> 0 then v else fallback)"

text \<open>The fields of \<open>smtp.Server\<close> that \<open>NewServer\<close> sets.\<close>

definition NewServer :: "smtp_config \<Rightarrow> smtp_config" where
  "NewServer cfg =
     \<lparr>sc_Addr = defaultString (sc_Addr cfg) ''localhost:2525'',
      sc_Domain = defaultString (sc_Domain cfg) ''localhost'',
      sc_MaxRecipients = defaultInt (sc_MaxRecipients cfg) 1,
      sc_MaxMessageBytes = defaultInt (sc_MaxMessageBytes cfg) (25 * 1024 * 1024),
      sc_ReadTimeout = defaultDuration (sc_ReadTimeout cfg) (10 * 1000000000),
      sc_WriteTimeout = defaultDuration (sc_WriteTimeout cfg) (10 * 1000000000)\<rparr>"

section \<open>Object keys\<close>

definition safe_char :: "char \<Rightarrow> bool" where
  "safe_char c \<longleftrightarrow> (let b = byte_of c in
     (97 \<le> b \<and> b \<le> 122) \<or> (48 \<le> b \<and> b \<le> 57) \<or> c = CHR ''-'' \<or> c = CHR ''_'')"

lemma safe_sanitize_rune: "safe_char (sanitize_rune c)"
  by (simp add: sanitize_rune_def safe_char_def Let_def byte_of_def)

lemma safe_sanitize_runes: "list_all safe_char (sanitize_runes s)"
  by (induction s rule: sanitize_runes.induct) (simp_all add: safe_sanitize_rune)

lemma safe_char_facts:
  assumes "safe_char c"
  shows "byte_of c < 128" "sanitize_rune c = c" "\<not> is_space c" "c \<noteq> CHR ''/''" "c \<noteq> CHR ''.''"
proof -
  have "byte_of (CHR ''-'') = 45" "byte_of (CHR ''_'') = 95" "byte_of (CHR ''/'') = 47" "byte_of (CHR ''.'') = 46"
    by (simp_all add: byte_of_def)
  with assms show "byte_of c < 128" "sanitize_rune c = c" "\<not> is_space c" "c \<noteq> CHR ''/''" "c \<noteq> CHR ''.''"
    by (auto simp: safe_char_def sanitize_rune_def is_space_def Let_def)
qed

lemma rune_width_ascii: "byte_of c < 128 \<Longrightarrow> rune_width (c # s) = 1"
  by (cases "c # s" rule: rune_width.cases) (auto simp: Let_def)

lemma sanitize_runes_safe: "list_all safe_char s \<Longrightarrow> sanitize_runes s = s"
  by (induction s) (simp_all add: safe_char_facts rune_width_ascii)

lemma trim_space_safe: "list_all safe_char s \<Longrightarrow> trim_space s = s"
proof (cases s)
  case (Cons c s')
  assume safe: "list_all safe_char s"
  then have "list_all safe_char (rev s)" by (simp add: list_all_iff)
  then have "dropWhile is_space (rev s) = rev s"
    by (cases "rev s") (simp_all add: safe_char_facts)
  moreover from safe Cons have "trim_left s = s" by (simp add: safe_char_facts trim_left_nonspace)
  ultimately show ?thesis by (simp add: trim_space_def trim_right_def)
qed simp

lemma trim_dashes_sublist: "set (trim_dashes s) \<subseteq> set s"
proof -
  have "set (dropWhile P xs) \<subseteq> set xs" for P and xs :: string by (auto dest: set_dropWhileD)
  then show ?thesis unfolding trim_dashes_def by (metis dual_order.trans set_rev)
qed

lemma trim_dashes_ends:
  "trim_dashes s \<noteq> [] \<Longrightarrow> hd (trim_dashes s) \<noteq> CHR ''-'' \<and> last (trim_dashes s) \<noteq> CHR ''-''"
proof -
  let ?D = "dropWhile (\<lambda>c. c = CHR ''-'')"
  assume ne: "trim_dashes s \<noteq> []"
  then have drop_ne: "?D (rev (?D s)) \<noteq> []" by (simp add: trim_dashes_def)
  have last: "last (trim_dashes s) \<noteq> CHR ''-''"
    using hd_dropWhile [OF drop_ne] by (simp add: trim_dashes_def last_rev)
  obtain ys where ys: "?D s = trim_dashes s @ ys"
    unfolding trim_dashes_def by (metis rev_append rev_rev_ident takeWhile_dropWhile_id)
  with ne have "hd (?D s) = hd (trim_dashes s)" and "?D s \<noteq> []" by simp_all
  with hd_dropWhile [of "\<lambda>c. c = CHR ''-''" s] last show ?thesis by auto
qed

lemma trim_dashes_fixed:
  assumes "s \<noteq> [] \<Longrightarrow> hd s \<noteq> CHR ''-'' \<and> last s \<noteq> CHR ''-''"
  shows "trim_dashes s = s"
proof (cases "s = []")
  case False
  with assms have h: "hd s \<noteq> CHR ''-''" and l: "hd (rev s) \<noteq> CHR ''-''" by (simp_all add: hd_rev)
  have "dropWhile (\<lambda>c. c = CHR ''-'') xs = xs" if "hd xs \<noteq> CHR ''-''" for xs
    using that by (cases xs) simp_all
  with h l show ?thesis by (simp add: trim_dashes_def)
qed (simp add: trim_dashes_def)

definition safe_segment :: "string \<Rightarrow> bool" where
  "safe_segment s \<longleftrightarrow> list_all safe_char s \<and> (s \<noteq> [] \<longrightarrow> hd s \<noteq> CHR ''-'' \<and> last s \<noteq> CHR ''-'')"

lemma safe_segment_sanitize: "safe_segment (sanitizePathSegment v)"
proof -
  have "list_all safe_char (trim_dashes (sanitize_runes s))" for s
    using safe_sanitize_runes [of s] trim_dashes_sublist [of "sanitize_runes s"] by (auto simp: list_all_iff)
  with trim_dashes_ends show ?thesis by (simp add: safe_segment_def sanitizePathSegment_def Let_def)
qed

lemma sanitize_segment: "safe_segment s \<Longrightarrow> sanitizePathSegment s = s"
  by (auto simp: safe_segment_def sanitizePathSegment_def Let_def trim_space_safe sanitize_runes_safe
      trim_dashes_fixed)

lemma randomHex_run:
  "\<exists>h. randomHex n s = (Inr h, s\<lparr>rand_ix := Suc (rand_ix s)\<rparr>) \<and> length h = 2 * n \<and>
     set h \<subseteq> set ''0123456789abcdef''"
proof -
  have "hex_digit k \<in> set ''0123456789abcdef''" for k
    unfolding hex_digit_def by (rule nth_mem) simp
  then have "set (hex_encode b) \<subseteq> set ''0123456789abcdef''" for b
    by (auto simp: hex_encode_def hex_byte_def)
  then show ?thesis
    by (auto simp: randomHex_def rand_read_def go_bind_def length_hex_encode split: option.split)
qed

text \<open>C34: whatever bytes an inbox id holds, the object key of a raw message has exactly the shape
  raw/date/segment/24 hex digits.eml: the segment is never empty, holds no slash and no dot, and a
  segment that is already clean is left as it is.\<close>

theorem object_key_shape:
  "\<exists>seg h. NewRawMessageObjectKey now inbox w =
      (Inr (''raw/'' @ format_date_path now @ ''/'' @ seg @ ''/'' @ h @ ''.eml''), w\<lparr>rand_ix := Suc (rand_ix w)\<rparr>) \<and>
     seg \<noteq> [] \<and> CHR ''/'' \<notin> set seg \<and> CHR ''.'' \<notin> set seg \<and> hd seg \<noteq> CHR ''-'' \<and>
     sanitizePathSegment seg = seg \<and> length h = 24 \<and> set h \<subseteq> set ''0123456789abcdef''"
proof -
  let ?s = "sanitizePathSegment (i_ID inbox)"
  define seg where "seg = (if ?s = [] then ''unknown'' else ?s)"
  have "safe_segment ''unknown''" by code_simp
  with safe_segment_sanitize have seg: "safe_segment seg" by (simp add: seg_def)
  have ne: "seg \<noteq> []" by (simp add: seg_def)
  obtain h where h: "randomHex 12 w = (Inr h, w\<lparr>rand_ix := Suc (rand_ix w)\<rparr>)" "length h = 24"
    "set h \<subseteq> set ''0123456789abcdef''"
    using randomHex_run [of 12 w] by auto
  have "NewRawMessageObjectKey now inbox w =
      (Inr (''raw/'' @ format_date_path now @ ''/'' @ seg @ ''/'' @ h @ ''.eml''), w\<lparr>rand_ix := Suc (rand_ix w)\<rparr>)"
    using h(1) by (simp add: NewRawMessageObjectKey_def Let_def seg_def go_bind_def)
  moreover have "CHR ''/'' \<notin> set seg" "CHR ''.'' \<notin> set seg"
    using seg safe_char_facts(4,5) by (auto simp: safe_segment_def list_all_iff)
  ultimately show ?thesis
    using ne seg sanitize_segment [OF seg] h(2,3) unfolding safe_segment_def by blast
qed

section \<open>The session as a state machine\<close>

text \<open>
  The sessions \<open>newSMTPServer\<close> makes: a fixed receipt time, the default object keys, and a sink that
  records the receipt before it handles the message.
\<close>

definition edge_session ::
    "(string \<Rightarrow> ('z env_scheme, inbox option) go) \<Rightarrow> (string \<Rightarrow> string \<Rightarrow> ('z env_scheme, unit) go) \<Rightarrow>
     (durable_receipt_request \<Rightarrow> ('z env_scheme, unit) go) \<Rightarrow>
     (stored_inbound_message \<Rightarrow> ('z env_scheme, handle_result) go) \<Rightarrow> gtime \<Rightarrow> string \<Rightarrow> 'z env_scheme session" where
  "edge_session lookup put save handler at sessionID =
     NewSession lookup put (Enqueue handler (Some save)) (Some (go_ret at)) (Some NewRawMessageObjectKey) sessionID"

text \<open>What a client can reach with any sequence of commands, refused ones included.\<close>

inductive session_reach :: "'s session \<Rightarrow> 's \<Rightarrow> 's session \<Rightarrow> 's \<Rightarrow> bool" for s0 w0 where
  start: "session_reach s0 w0 s0 w0"
| call: "session_reach s0 w0 s w \<Longrightarrow>
    AdapterSession_call (NewAdapterSession session_core) cmd (s, w) = (r, (s', w')) \<Longrightarrow>
    session_reach s0 w0 s' w'"

text \<open>A receipt that one DATA of a session justifies: its envelope and its inbox.\<close>

definition receipt_from ::
    "string \<Rightarrow> gtime \<Rightarrow> (string \<Rightarrow> inbox option) \<Rightarrow> string \<Rightarrow> durable_receipt_request \<Rightarrow> bool" where
  "receipt_from sessionID at inboxes k q \<longleftrightarrow>
     dr_RawMessageObjectKey q = k \<and> dr_SMTPTransactionID q = sessionID \<and> dr_ReceivedAt q = at \<and>
     dr_EnvelopeSender q \<noteq> [] \<and>
     (\<exists>to i. to \<noteq> [] \<and> dr_EnvelopeRecipients q = [to] \<and> inboxes to = Some i \<and> dr_InboxID q = i_ID i \<and>
        dr_OrganizationID q = i_OrganizationID i \<and> dr_AgentID q = i_AgentID i)"

definition same_wiring :: "'s session \<Rightarrow> 's session \<Rightarrow> bool" where
  "same_wiring s s0 \<longleftrightarrow> ss_lookup s = ss_lookup s0 \<and> ss_store s = ss_store s0 \<and> ss_sink s = ss_sink s0 \<and>
     ss_now s = ss_now s0 \<and> ss_nextKey s = ss_nextKey s0 \<and> ss_sessionID s = ss_sessionID s0"

lemma same_wiring_simps [simp]:
  "same_wiring s s"
  "same_wiring (s\<lparr>ss_sender := f\<rparr>) s0 = same_wiring s s0"
  "same_wiring (s\<lparr>ss_recipient := r, ss_targetInbox := i\<rparr>) s0 = same_wiring s s0"
  by (simp_all add: same_wiring_def)

lemmas same_wiringD = same_wiring_def [THEN iffD1]

lemma edge_session_sel [simp]:
  "ss_lookup (edge_session lookup put save handler at i) = lookup"
  "ss_store (edge_session lookup put save handler at i) = put"
  "ss_sink (edge_session lookup put save handler at i) = Enqueue handler (Some save)"
  "ss_now (edge_session lookup put save handler at i) = go_ret at"
  "ss_nextKey (edge_session lookup put save handler at i) = NewRawMessageObjectKey"
  "ss_sessionID (edge_session lookup put save handler at i) = i"
  "ss_sender (edge_session lookup put save handler at i) = []"
  "ss_recipient (edge_session lookup put save handler at i) = []"
  by (simp_all add: edge_session_def NewSession_def)

text \<open>
  The stores a session writes and the handler it calls, as the session needs them: the stores may
  fail, and a handler, whatever else it does, leaves raw messages, receipts and inboxes alone.
\<close>

locale durable_edge =
  blob_store blobs inv put bget + receipt_repo receipts inv save rget
  for blobs :: "'z env_scheme \<Rightarrow> string \<Rightarrow> string option" and inv and put and bget
    and receipts :: "'z env_scheme \<Rightarrow> string \<Rightarrow> durable_receipt_request option" and save and rget +
  fixes inboxes :: "'z env_scheme \<Rightarrow> string \<Rightarrow> inbox option"
    and lookup :: "string \<Rightarrow> ('z env_scheme, inbox option) go"
    and handler :: "stored_inbound_message \<Rightarrow> ('z env_scheme, handle_result) go"
  assumes lookup_reads: "inv s \<Longrightarrow> lookup to s = (Inr (inboxes s to), s)"
    and inboxes_rand [simp]: "inboxes (s\<lparr>rand_ix := n\<rparr>) = inboxes s"
    and put_frame: "inv s \<Longrightarrow> put k d s = (r, s') \<Longrightarrow> receipts s' = receipts s \<and> inboxes s' = inboxes s"
    and save_frame: "inv s \<Longrightarrow> save q s = (r, s') \<Longrightarrow> inv s' \<and> blobs s' = blobs s \<and> inboxes s' = inboxes s"
    and save_fails: "inv s \<Longrightarrow> save q s = (Inl e, s') \<Longrightarrow> receipts s' = receipts s"
    and handler_frame: "inv s \<Longrightarrow> handler m s = (h, s') \<Longrightarrow>
      inv s' \<and> blobs s' = blobs s \<and> receipts s' = receipts s \<and> inboxes s' = inboxes s"
begin

lemma Enqueue_effect:
  assumes "inv s" and run: "Enqueue handler (Some save) q s = (r, s')"
  shows "inv s' \<and> blobs s' = blobs s \<and> inboxes s' = inboxes s \<and>
    (receipts s' = (receipts s)(dr_RawMessageObjectKey q \<mapsto> q) \<or>
     receipts s' = receipts s \<and> (\<exists>e. fst (save q s) = Inl e))"
proof -
  obtain a s1 where sv: "save q s = (a, s1)" by (cases "save q s")
  note fr = save_frame [OF assms(1) sv]
  show ?thesis
  proof (cases a)
    case (Inl e)
    with run sv have "s' = s1" by (simp add: Enqueue_def go_bind_def)
    with fr save_fails [OF assms(1)] sv Inl show ?thesis by auto
  next
    case (Inr u)
    with sv have st: "receipts s1 = (receipts s)(dr_RawMessageObjectKey q \<mapsto> q)"
      using save_stores [OF assms(1)] by blast
    obtain h s2 where hd: "handler \<lparr>sm_Receipt = receipt_to_inbound q, sm_RawSizeBytes = 0\<rparr> s1 = (h, s2)"
      by (cases "handler \<lparr>sm_Receipt = receipt_to_inbound q, sm_RawSizeBytes = 0\<rparr> s1")
    with run sv Inr have "s' = s2"
      by (cases h) (simp_all add: Enqueue_def go_bind_def)
    with fr st handler_frame [OF _ hd] show ?thesis by simp
  qed
qed

lemma accept_effect:
  assumes "inv w" and wired: "same_wiring s (edge_session lookup put save handler at i)"
    and run: "session_accept s raw w = (r, w')"
  shows "\<exists>k w1 w2. k \<noteq> [] \<and> inv w1 \<and> inv w2 \<and> inv w' \<and> inboxes w' = inboxes w \<and>
     ((blobs w' = (blobs w)(k \<mapsto> raw) \<and> receipts w' = (receipts w)(k \<mapsto> session_receipt s k at)) \<or>
      (blobs w' = (blobs w)(k \<mapsto> raw) \<and> receipts w' = receipts w \<and>
         (\<exists>e. fst (save (session_receipt s k at) w2) = Inl e)) \<or>
      (blobs w' = blobs w \<and> receipts w' = receipts w \<and> (\<exists>e. fst (put k raw w1) = Inl e)))"
proof -
  obtain k where key: "NewRawMessageObjectKey at (ss_targetInbox s) w = (Inr k, w\<lparr>rand_ix := Suc (rand_ix w)\<rparr>)"
    and k: "k \<noteq> []"
    using randomHex_run [of 12 w] by (auto simp: NewRawMessageObjectKey_def Let_def go_bind_def)
  define w1 where "w1 = w\<lparr>rand_ix := Suc (rand_ix w)\<rparr>"
  have w1: "inv w1" "blobs w1 = blobs w" "receipts w1 = receipts w" "inboxes w1 = inboxes w"
    using assms(1) by (simp_all add: w1_def)
  have parts: "ss_now s = go_ret at" "ss_nextKey s = NewRawMessageObjectKey" "ss_store s = put"
      "ss_sink s = Enqueue handler (Some save)"
    using same_wiringD [OF wired] by simp_all
  obtain p w2 where pt: "put k raw w1 = (p, w2)" by (cases "put k raw w1")
  have run': "go_bind (put k raw) (\<lambda>_. Enqueue handler (Some save) (session_receipt s k at)) w1 = (r, w')"
    using run key by (simp add: session_accept_def parts go_bind_def w1_def)
  note fr = put_frame [OF w1(1) pt]
  show ?thesis
  proof (cases p)
    case (Inl e)
    with run' pt have "w' = w2" by (simp add: go_bind_def)
    with pt Inl fr w1 put_fails [OF w1(1)] k show ?thesis
      by (intro exI [of _ k] exI [of _ w1] exI [of _ w1]) auto
  next
    case (Inr u)
    with pt put_stores [OF w1(1)] have w2: "inv w2" "blobs w2 = (blobs w1)(k \<mapsto> raw)" by blast+
    from run' pt Inr have "Enqueue handler (Some save) (session_receipt s k at) w2 = (r, w')"
      by (simp add: go_bind_def)
    from Enqueue_effect [OF w2(1) this] have eff: "inv w'" "blobs w' = blobs w2" "inboxes w' = inboxes w2"
      "receipts w' = (receipts w2)(k \<mapsto> session_receipt s k at) \<or>
       receipts w' = receipts w2 \<and> (\<exists>e. fst (save (session_receipt s k at) w2) = Inl e)"
      by (simp_all add: session_receipt_def)
    show ?thesis
      by (rule exI [of _ k], rule exI [of _ w1], rule exI [of _ w2])
        (use eff w1 w2 fr k in auto)
  qed
qed

text \<open>What holds of every session and state a client can reach.\<close>

definition edge_inv ::
    "gtime \<Rightarrow> 'z env_scheme session \<Rightarrow> 'z env_scheme \<Rightarrow> 'z env_scheme session \<Rightarrow> 'z env_scheme \<Rightarrow> bool" where
  "edge_inv at s0 w0 s w \<longleftrightarrow>
     inv w \<and> inboxes w = inboxes w0 \<and> same_wiring s s0 \<and>
     (ss_recipient s \<noteq> [] \<longrightarrow> inboxes w (ss_recipient s) = Some (ss_targetInbox s)) \<and>
     dom (blobs w0) \<subseteq> dom (blobs w) \<and>
     (\<forall>k q. receipts w k = Some q \<longrightarrow> receipts w0 k = Some q \<or>
        receipt_from (ss_sessionID s0) at (inboxes w0) k q \<and> k \<in> dom (blobs w))"

lemma edge_inv_accept:
  assumes I: "edge_inv at s0 w0 s w" and s0: "s0 = edge_session lookup put save handler at i"
    and env: "ss_sender s \<noteq> []" "ss_recipient s \<noteq> []"
    and run: "session_accept s raw w = (r, w')"
  shows "edge_inv at s0 w0 s w'"
proof -
  have inv: "inv w" and wired: "same_wiring s (edge_session lookup put save handler at i)"
    using I s0 by (simp_all add: edge_inv_def)
  from accept_effect [OF inv wired run] obtain k where w': "inv w'" "inboxes w' = inboxes w"
    and eff: "blobs w' = (blobs w)(k \<mapsto> raw) \<and> receipts w' = (receipts w)(k \<mapsto> session_receipt s k at) \<or>
      receipts w' = receipts w \<and> (blobs w' = (blobs w)(k \<mapsto> raw) \<or> blobs w' = blobs w)"
    by blast
  from eff have dom: "dom (blobs w) \<subseteq> dom (blobs w')" by auto
  from eff have rc: "receipts w' = receipts w \<or>
      receipts w' = (receipts w)(k \<mapsto> session_receipt s k at) \<and> k \<in> dom (blobs w')" by auto
  have "inboxes w0 (ss_recipient s) = Some (ss_targetInbox s)" using I env(2) by (auto simp: edge_inv_def)
  then have "receipt_from (ss_sessionID s0) at (inboxes w0) k (session_receipt s k at)"
    using env same_wiringD [OF wired] by (auto simp: receipt_from_def session_receipt_def s0)
  with rc dom I have "receipts w0 k' = Some q \<or>
      receipt_from (ss_sessionID s0) at (inboxes w0) k' q \<and> k' \<in> dom (blobs w')"
    if "receipts w' k' = Some q" for k' q
    using that unfolding edge_inv_def by (metis fun_upd_apply option.inject subsetD)
  with I w' dom show ?thesis unfolding edge_inv_def by (metis order_trans)
qed

lemma edge_inv_call:
  assumes I: "edge_inv at s0 w0 s w" and s0: "s0 = edge_session lookup put save handler at i"
    and run: "AdapterSession_call (NewAdapterSession session_core) cmd (s, w) = (r, (s', w'))"
  shows "edge_inv at s0 w0 s' w'"
proof (cases cmd)
  case (Mail sender)
  with run I show ?thesis
    by (auto simp: NewAdapterSession_def session_core_def Session_Mail_def edge_inv_def split: if_splits)
next
  case (Rcpt to)
  have "ss_lookup s = lookup" and "inv w" using I s0 same_wiringD [of s s0] by (simp_all add: edge_inv_def)
  then have "ss_lookup s to w = (Inr (inboxes w to), w)" by (simp add: lookup_reads)
  with run I Rcpt show ?thesis
    by (auto simp: NewAdapterSession_def session_core_def Session_Rcpt_def edge_inv_def split: if_splits option.splits)
next
  case (Data reader)
  show ?thesis
  proof (cases "ss_sender s = [] \<or> ss_recipient s = [] \<or> (\<exists>e. reader = Inl e)")
    case True
    with run Data have "s' = s" and "w' = w"
      by (auto simp: NewAdapterSession_def session_core_def Session_Data_def split: if_splits sum.splits)
    with I show ?thesis by simp
  next
    case False
    then obtain raw where env: "ss_sender s \<noteq> []" "ss_recipient s \<noteq> []" and raw: "reader = Inr raw"
      by (cases reader) auto
    with run Data have "s' = s" and "session_accept s raw w = (r, w')"
      by (auto simp: NewAdapterSession_def session_core_def Session_Data_def split: prod.splits)
    with edge_inv_accept [OF I s0 env] show ?thesis by simp
  qed
qed (use run I in simp_all)

lemma edge_inv_reach:
  assumes "session_reach s0 w0 s w" and "s0 = edge_session lookup put save handler at i" and "inv w0"
  shows "edge_inv at s0 w0 s w"
  using assms(1)
proof induction
  case start
  then show ?case using assms(2,3) by (simp add: edge_inv_def)
next
  case (call s w cmd r s' w')
  then show ?case using edge_inv_call [OF _ assms(2)] by blast
qed

end

end
