(* ===== verification/Services.thy ===== *)
theory Services
  imports Outbound Webhooks Smtp_Edge
begin

text \<open>
  The application services of \<open>internal/app\<close> and their wiring in \<open>cmd/agentlayer\<close>: bootstrap,
  reads and listings, the inbound runtime that dispatches webhooks, reprocessing, escalation,
  contact memory, the idempotent reply handler, the SMTP session factory and the retry worker.
  The process environment (\<open>os.Getenv\<close>) is a function from names to values.
\<close>

section \<open>Bootstrap\<close>

record bootstrap_input =
  bs_OrganizationName :: string
  bs_AgentName :: string
  bs_AgentStatus :: agent_status
  bs_WebhookURL :: string
  bs_WebhookSecret :: string
  bs_InboxAddress :: string
  bs_InboxDomain :: string
  bs_InboxDisplayName :: string

text \<open>\<open>BootstrapResult\<close>, and \<open>BootstrapReadResult\<close>, which has the same three fields.\<close>

record bootstrap_result =
  br_Organization :: organization
  br_Agent :: agent
  br_Inbox :: inbox

definition BootstrapLocal ::
    "(organization \<Rightarrow> ('s, organization) go) \<Rightarrow> (agent \<Rightarrow> ('s, agent) go) \<Rightarrow> (inbox \<Rightarrow> ('s, inbox) go) \<Rightarrow>
     ('s, gtime) go \<Rightarrow> bootstrap_input \<Rightarrow> ('s, bootstrap_result) go" where
  "BootstrapLocal saveOrganization saveAgent saveInbox clock input =
     go_bind clock (\<lambda>now.
     let status = (if bs_AgentStatus input = [] then AgentStatusActive else bs_AgentStatus input) in
     go_bind (saveOrganization (zero_organization\<lparr>o_ID := ''org-local'', o_Name := bs_OrganizationName input,
        o_UpdatedAt := now\<rparr>)) (\<lambda>organization.
     go_bind (saveAgent (zero_agent\<lparr>ag_ID := ''agent-local'', ag_OrganizationID := o_ID organization,
        ag_Name := bs_AgentName input, ag_Status := status, ag_WebhookURL := bs_WebhookURL input,
        ag_WebhookSecret := bs_WebhookSecret input, ag_UpdatedAt := now\<rparr>)) (\<lambda>agent.
     go_bind (saveInbox (zero_inbox\<lparr>i_ID := ''inbox-local'', i_OrganizationID := o_ID organization,
        i_AgentID := ag_ID agent, i_EmailAddress := bs_InboxAddress input, i_Domain := bs_InboxDomain input,
        i_DisplayName := bs_InboxDisplayName input, i_UpdatedAt := now\<rparr>)) (\<lambda>inbox.
     go_ret \<lparr>br_Organization = organization, br_Agent = agent, br_Inbox = inbox\<rparr>))))"

definition GetBootstrap ::
    "(string \<Rightarrow> ('s, organization) go) \<Rightarrow> (string \<Rightarrow> ('s, agent) go) \<Rightarrow> (string \<Rightarrow> ('s, inbox) go) \<Rightarrow>
     ('s, bootstrap_result) go" where
  "GetBootstrap getOrganization getAgent getInbox =
     go_bind (getOrganization ''org-local'') (\<lambda>organization.
     go_bind (getAgent ''agent-local'') (\<lambda>agent.
     go_bind (getInbox ''inbox-local'') (\<lambda>inbox.
     go_ret \<lparr>br_Organization = organization, br_Agent = agent, br_Inbox = inbox\<rparr>)))"

section \<open>Listings\<close>

text \<open>The constructors replace a limit that is not positive by 20.\<close>

definition NewListService :: "int \<Rightarrow> int" where
  "NewListService limit = (if limit \<le> 0 then 20 else limit)"

definition ListInboundReceipts ::
    "(int \<Rightarrow> ('s, durable_receipt_request list) go) \<Rightarrow> int \<Rightarrow> int \<Rightarrow> ('s, durable_receipt_request list) go" where
  "ListInboundReceipts receipts serviceLimit limit = receipts (if limit \<le> 0 then serviceLimit else limit)"

definition ListThreadMessages ::
    "(string \<Rightarrow> int \<Rightarrow> ('s, message list) go) \<Rightarrow> int \<Rightarrow> string \<Rightarrow> int \<Rightarrow> ('s, message list) go" where
  "ListThreadMessages repository serviceLimit threadID limit =
     repository threadID (if limit \<le> 0 then serviceLimit else limit)"

definition ListSuppressions ::
    "(int \<Rightarrow> ('s, suppressed_address list) go) \<Rightarrow> int \<Rightarrow> int \<Rightarrow> ('s, suppressed_address list) go" where
  "ListSuppressions repository serviceLimit limit = repository (if limit \<le> 0 then serviceLimit else limit)"

definition ListWebhookDeliveries ::
    "(int \<Rightarrow> ('s, webhook_delivery list) go) \<Rightarrow> int \<Rightarrow> int \<Rightarrow> ('s, webhook_delivery list) go" where
  "ListWebhookDeliveries deliveries serviceLimit limit = deliveries (if limit \<le> 0 then serviceLimit else limit)"

section \<open>The inbound runtime\<close>

record inbound_runtime_config =
  rc_Organization :: organization
  rc_Agent :: agent
  rc_Inbox :: inbox
  rc_WebhookURL :: string
  rc_WebhookSecret :: string
  rc_HistoryLimit :: int
  rc_MemoryLimit :: int

definition NewInboundRuntimeService :: "inbound_runtime_config \<Rightarrow> inbound_runtime_config" where
  "NewInboundRuntimeService config =
     (let c = (if rc_HistoryLimit config \<le> 0 then config\<lparr>rc_HistoryLimit := 20\<rparr> else config)
      in if rc_MemoryLimit c \<le> 0 then c\<lparr>rc_MemoryLimit := 10\<rparr> else c)"

definition randomHexID :: "('z env_scheme, string) go" where
  "randomHexID = random_id [] ''generated''"

definition newMessageReceivedDelivery ::
    "string \<Rightarrow> string \<Rightarrow> gtime \<Rightarrow> ('z env_scheme, webhook_delivery) go" where
  "newMessageReceivedDelivery organizationID agentID now =
     go_bind randomHexID (\<lambda>i. go_bind randomHexID (\<lambda>e.
     go_ret (zero_delivery\<lparr>wd_ID := ''delivery-'' @ i, wd_OrganizationID := organizationID, wd_AgentID := agentID,
        wd_EventID := ''event-'' @ e, wd_EventType := ''message.received'', wd_Status := ''pending'',
        wd_CreatedAt := now, wd_UpdatedAt := now\<rparr>)))"

text \<open>The webhook service, a field that may be nil, takes the URL, the secret and the build input.\<close>

type_synonym 's webhook_service = "string \<Rightarrow> string \<Rightarrow> build_message_received_input \<Rightarrow> ('s, delivery_result) go"

definition dispatch_handled ::
    "(string \<Rightarrow> int \<Rightarrow> ('z env_scheme, message list) go) \<Rightarrow>
     (string \<Rightarrow> int \<Rightarrow> ('z env_scheme, contact_memory_entry list) go) \<Rightarrow>
     'z env_scheme webhook_service \<Rightarrow> ('z env_scheme, gtime) go \<Rightarrow> inbound_runtime_config \<Rightarrow> handle_result \<Rightarrow>
     ('z env_scheme, handle_result) go" where
  "dispatch_handled listMessages listMemory deliver clock config handled =
     go_bind (listMessages (t_ID (hr_Thread handled)) (rc_HistoryLimit config)) (\<lambda>threadMessages.
     go_bind (listMemory (c_ID (hr_Contact handled)) (rc_MemoryLimit config)) (\<lambda>memoryEntries.
     go_bind clock (\<lambda>now.
     go_bind (newMessageReceivedDelivery (o_ID (rc_Organization config)) (ag_ID (rc_Agent config)) now) (\<lambda>delivery.
     go_bind (deliver (rc_WebhookURL config) (rc_WebhookSecret config)
        \<lparr>bi_Organization = rc_Organization config, bi_Agent = rc_Agent config, bi_Inbox = rc_Inbox config,
         bi_Delivery = delivery, bi_Handled = handled, bi_ThreadMessages = threadMessages,
         bi_Memory = memoryEntries\<rparr>) (\<lambda>_.
     go_ret handled)))))"

definition InboundRuntime_HandleStoredMessage ::
    "(stored_inbound_message \<Rightarrow> ('z env_scheme, handle_result) go) \<Rightarrow>
     (string \<Rightarrow> int \<Rightarrow> ('z env_scheme, message list) go) \<Rightarrow>
     (string \<Rightarrow> int \<Rightarrow> ('z env_scheme, contact_memory_entry list) go) \<Rightarrow>
     'z env_scheme webhook_service option \<Rightarrow> ('z env_scheme, gtime) go \<Rightarrow> inbound_runtime_config \<Rightarrow>
     stored_inbound_message \<Rightarrow> ('z env_scheme, handle_result) go" where
  "InboundRuntime_HandleStoredMessage handler listMessages listMemory webhooks clock config stored =
     go_bind (handler stored) (\<lambda>handled.
       if hr_Duplicate handled then go_ret handled
       else if rc_WebhookURL config = [] \<or> ag_Status (rc_Agent config) \<noteq> AgentStatusActive then go_ret handled
       else case webhooks of
         None \<Rightarrow> go_ret handled
       | Some deliver \<Rightarrow> dispatch_handled listMessages listMemory deliver clock config handled)"

definition ReprocessByObjectKey ::
    "(string \<Rightarrow> ('s, durable_receipt_request) go) \<Rightarrow> (stored_inbound_message \<Rightarrow> ('s, handle_result) go) \<Rightarrow>
     string \<Rightarrow> ('s, handle_result) go" where
  "ReprocessByObjectKey getReceipt handler objectKey =
     go_bind (getReceipt objectKey) (\<lambda>receipt.
     handler \<lparr>sm_Receipt = receipt_to_inbound receipt, sm_RawSizeBytes = 0\<rparr>)"

section \<open>Escalation and contact memory\<close>

definition EscalateThread ::
    "(thread \<Rightarrow> ('s, thread) go) \<Rightarrow> ('s, gtime) go \<Rightarrow> string \<Rightarrow> ('s, thread) go" where
  "EscalateThread save clock threadID =
     go_bind clock (\<lambda>now.
     save (zero_thread\<lparr>t_ID := threadID, t_State := ThreadStateEscalated, t_UpdatedAt := now\<rparr>))"

definition threadEscalationServiceAdapter ::
    "(string \<Rightarrow> ('s, thread) go) \<Rightarrow> (string \<Rightarrow> ('s, thread) go) \<Rightarrow> string \<Rightarrow> ('s, thread) go" where
  "threadEscalationServiceAdapter getThread escalate threadID =
     go_bind (getThread threadID) (\<lambda>_. escalate threadID)"

record create_memory_input =
  mi_ThreadID :: string
  mi_Note :: string
  mi_Tags :: "string list option"

definition newContactMemoryID :: "('z env_scheme, string) go" where
  "newContactMemoryID = random_id ''memory-'' ''memory-generated''"

definition CreateContactMemory ::
    "(contact_memory_entry \<Rightarrow> ('z env_scheme, contact_memory_entry) go) \<Rightarrow> ('z env_scheme, gtime) go \<Rightarrow> string \<Rightarrow>
     create_memory_input \<Rightarrow> ('z env_scheme, contact_memory_entry) go" where
  "CreateContactMemory create clock contactID input =
     go_bind newContactMemoryID (\<lambda>i. go_bind clock (\<lambda>now.
     create \<lparr>cm_ID = i, cm_ContactID = contactID, cm_ThreadID = mi_ThreadID input, cm_Note = mi_Note input,
             cm_Tags = mi_Tags input, cm_CreatedAt = now\<rparr>))"

definition contactMemoryServiceAdapter ::
    "(string \<Rightarrow> ('s, contact) go) \<Rightarrow> (string \<Rightarrow> ('s, thread) go) \<Rightarrow>
     (string \<Rightarrow> create_memory_input \<Rightarrow> ('s, contact_memory_entry) go) \<Rightarrow> string \<Rightarrow> create_memory_input \<Rightarrow>
     ('s, contact_memory_entry) go" where
  "contactMemoryServiceAdapter getContact getThread create contactID input =
     go_bind (getContact contactID) (\<lambda>_.
     go_bind (if mi_ThreadID input \<noteq> [] then go_bind (getThread (mi_ThreadID input)) (\<lambda>_. go_ret ()) else go_ret ())
      (\<lambda>_. create contactID input))"

section \<open>The reply handler\<close>

text \<open>The repositories \<open>replyServiceAdapter\<close> holds.\<close>

record 's reply_adapter =
  ad_FindReply :: "string \<Rightarrow> ('s, message option) go"
  ad_SaveSubmission :: "string \<Rightarrow> string \<Rightarrow> ('s, unit) go"
  ad_orgs :: "string \<Rightarrow> ('s, organization) go"
  ad_agents :: "string \<Rightarrow> ('s, agent) go"
  ad_inboxes :: "string \<Rightarrow> ('s, inbox) go"
  ad_threads :: "string \<Rightarrow> ('s, thread) go"
  ad_contacts :: "string \<Rightarrow> ('s, contact) go"
  ad_messages :: "string \<Rightarrow> ('s, message) go"

definition reply_from_existing :: "thread \<Rightarrow> message \<Rightarrow> send_reply_result" where
  "reply_from_existing thread existing =
     \<lparr>so_Thread = thread, so_Message = existing,
      so_SendResult = \<lparr>sr_ProviderMessageID = m_ProviderMessageID existing, sr_AcceptedAt = m_SentAt existing\<rparr>\<rparr>"

text \<open>The lookup of an earlier submission under the same key.\<close>

definition find_submission :: "'s reply_adapter \<Rightarrow> send_reply_input \<Rightarrow> ('s, send_reply_result option) go" where
  "find_submission a input =
     (if si_IdempotencyKey input = [] then go_ret None
      else go_bind (ad_FindReply a (ReplySubmissionKey (t_ID (si_Thread input)) (si_IdempotencyKey input)))
        (\<lambda>found. case found of
           None \<Rightarrow> go_ret None
         | Some existing \<Rightarrow> go_bind (ad_threads a (t_ID (si_Thread input)))
             (\<lambda>thread. go_ret (Some (reply_from_existing thread existing)))))"

text \<open>The records a fresh reply is sent with, by id or by the local defaults.\<close>

definition load_reply :: "'s reply_adapter \<Rightarrow> send_reply_input \<Rightarrow> ('s, send_reply_input) go" where
  "load_reply a input =
     go_bind (ad_orgs a (or_else (o_ID (si_Organization input)) ''org-local'')) (\<lambda>organization.
     go_bind (ad_agents a (or_else (ag_ID (si_Agent input)) ''agent-local'')) (\<lambda>agent.
     go_bind (ad_inboxes a (or_else (i_ID (si_Inbox input)) ''inbox-local'')) (\<lambda>inbox.
     go_bind (ad_threads a (t_ID (si_Thread input))) (\<lambda>thread.
     go_bind (ad_contacts a (or_else (c_ID (si_Contact input)) (t_ContactID thread))) (\<lambda>contact.
     go_bind (ad_messages a (m_ID (si_ReplyToMessage input))) (\<lambda>replyToMessage.
     go_ret \<lparr>si_Organization = organization, si_Agent = agent, si_Inbox = inbox, si_Thread = thread,
             si_ReplyToMessage = replyToMessage, si_Contact = contact, si_BodyText = si_BodyText input,
             si_ObjectKey = si_ObjectKey input, si_IdempotencyKey = si_IdempotencyKey input\<rparr>))))))"

definition replyServiceAdapter ::
    "'s reply_adapter \<Rightarrow> (send_reply_input \<Rightarrow> ('s, send_reply_result) go) \<Rightarrow> send_reply_input \<Rightarrow>
     ('s, send_reply_result) go" where
  "replyServiceAdapter a send input =
     go_bind (find_submission a input) (\<lambda>existing. case existing of
       Some result \<Rightarrow> go_ret result
     | None \<Rightarrow>
         go_bind (load_reply a input) (\<lambda>loaded.
         go_bind (send loaded) (\<lambda>result.
         go_bind (if si_IdempotencyKey input \<noteq> []
                  then ad_SaveSubmission a (ReplySubmissionKey (t_ID (si_Thread input)) (si_IdempotencyKey input))
                         (m_ID (so_Message result))
                  else go_ret ()) (\<lambda>_.
         go_ret result))))"

section \<open>Wiring over the runtime store\<close>

text \<open>The seed writes through any store; its errors are dropped.\<close>

definition seedLocalRuntime ::
    "(organization \<Rightarrow> ('s, organization) go) \<Rightarrow> (agent \<Rightarrow> ('s, agent) go) \<Rightarrow> (inbox \<Rightarrow> ('s, inbox) go) \<Rightarrow>
     ('s, unit) go" where
  "seedLocalRuntime saveOrganization saveAgent saveInbox =
     go_bind (go_try (saveOrganization (zero_organization\<lparr>o_ID := ''org-local'', o_Name := ''AgentLayer Local''\<rparr>))) (\<lambda>_.
     go_bind (go_try (saveAgent (zero_agent\<lparr>ag_ID := ''agent-local'', ag_OrganizationID := ''org-local'',
        ag_Name := ''Local Agent'', ag_Status := AgentStatusActive\<rparr>))) (\<lambda>_.
     go_bind (go_try (saveInbox (zero_inbox\<lparr>i_ID := ''inbox-local'', i_OrganizationID := ''org-local'',
        i_AgentID := ''agent-local'', i_EmailAddress := ''agent@localhost'', i_Domain := ''localhost'',
        i_DisplayName := ''AgentLayer Local''\<rparr>))) (\<lambda>_.
     go_ret ())))"

abbreviation seedMemoryRuntime :: "('z world_scheme, unit) go" where
  "seedMemoryRuntime \<equiv> seedLocalRuntime rt_SaveOrganization rt_SaveAgent rt_SaveInbox"

type_synonym getenv = "string \<Rightarrow> string"

definition webhookURL :: "getenv \<Rightarrow> string" where
  "webhookURL env = env ''AGENTLAYER_WEBHOOK_URL''"

definition webhookSecret :: "getenv \<Rightarrow> string" where
  "webhookSecret env = env ''AGENTLAYER_WEBHOOK_SECRET''"

definition currentOrganization :: "('z world_scheme, organization) go" where
  "currentOrganization = go_bind (go_try (rt_GetOrganizationByID ''org-local'')) (\<lambda>r. go_ret (case r of
       Inl _ \<Rightarrow> zero_organization\<lparr>o_ID := ''org-local'', o_Name := ''AgentLayer Local''\<rparr>
     | Inr organization \<Rightarrow> organization))"

definition currentAgent :: "getenv \<Rightarrow> ('z world_scheme, agent) go" where
  "currentAgent env = go_bind (go_try (rt_GetAgentByID ''agent-local'')) (\<lambda>r. go_ret (case r of
       Inl _ \<Rightarrow> zero_agent\<lparr>ag_ID := ''agent-local'', ag_OrganizationID := ''org-local'', ag_Name := ''Local Agent'',
                 ag_Status := AgentStatusActive, ag_WebhookURL := webhookURL env,
                 ag_WebhookSecret := webhookSecret env\<rparr>
     | Inr agent \<Rightarrow> agent\<lparr>ag_WebhookURL := or_else (ag_WebhookURL agent) (webhookURL env),
                         ag_WebhookSecret := or_else (ag_WebhookSecret agent) (webhookSecret env)\<rparr>))"

definition currentInbox :: "('z world_scheme, inbox) go" where
  "currentInbox = go_bind (go_try (rt_GetInboxByID ''inbox-local'')) (\<lambda>r. go_ret (case r of
       Inl _ \<Rightarrow> zero_inbox\<lparr>i_ID := ''inbox-local'', i_OrganizationID := ''org-local'', i_AgentID := ''agent-local'',
                 i_EmailAddress := ''agent@localhost'', i_Domain := ''localhost'',
                 i_DisplayName := ''AgentLayer Local''\<rparr>
     | Inr inbox \<Rightarrow> inbox))"

text \<open>The inbound service with a fixed configuration, and its construction from the current records.\<close>

definition runtime_handler ::
    "(string \<Rightarrow> gerr + parsed_message) \<Rightarrow> inbound_runtime_config \<Rightarrow> stored_inbound_message \<Rightarrow>
     ('z world_scheme, handle_result) go" where
  "runtime_handler decode config =
     InboundRuntime_HandleStoredMessage (inbound_base decode) rt_ListByThreadID rt_ListMemoryByContactID
       (Some newMessageReceivedDeliveryService) time_now (NewInboundRuntimeService config)"

definition newInboundService ::
    "getenv \<Rightarrow> (string \<Rightarrow> gerr + parsed_message) \<Rightarrow>
     ('z world_scheme, stored_inbound_message \<Rightarrow> ('z world_scheme, handle_result) go) go" where
  "newInboundService env decode =
     go_bind currentOrganization (\<lambda>organization. go_bind (currentAgent env) (\<lambda>agent. go_bind currentInbox (\<lambda>inbox.
     go_ret (runtime_handler decode
       \<lparr>rc_Organization = organization, rc_Agent = agent, rc_Inbox = inbox, rc_WebhookURL = ag_WebhookURL agent,
        rc_WebhookSecret = ag_WebhookSecret agent, rc_HistoryLimit = 20, rc_MemoryLimit = 10\<rparr>))))"

text \<open>The session factory of \<open>newSMTPServer\<close>.\<close>

definition newSMTPSession ::
    "getenv \<Rightarrow> (string \<Rightarrow> gerr + parsed_message) \<Rightarrow> ('z world_scheme, 'z world_scheme session) go" where
  "newSMTPSession env decode =
     go_bind time_now (\<lambda>now. go_bind (NewSessionID now) (\<lambda>sessionID.
     go_bind (newInboundService env decode) (\<lambda>handler.
     go_ret (edge_session rt_FindByEmailAddress rt_Put rt_SaveInboundReceipt handler now sessionID))))"

definition newInboundReprocessService ::
    "(string \<Rightarrow> gerr + parsed_message) \<Rightarrow> inbound_runtime_config \<Rightarrow> string \<Rightarrow> ('z world_scheme, handle_result) go" where
  "newInboundReprocessService decode config =
     ReprocessByObjectKey rt_GetInboundReceiptByObjectKey (runtime_handler decode config)"

definition newInboundReceiptListService :: "int \<Rightarrow> ('z world_scheme, durable_receipt_request list) go" where
  "newInboundReceiptListService = ListInboundReceipts rt_ListInboundReceipts (NewListService 20)"

definition newThreadMessagesReadService :: "string \<Rightarrow> int \<Rightarrow> ('z world_scheme, message list) go" where
  "newThreadMessagesReadService = ListThreadMessages rt_ListByThreadID (NewListService 20)"

definition newSuppressionListService :: "int \<Rightarrow> ('z world_scheme, suppressed_address list) go" where
  "newSuppressionListService = ListSuppressions rt_ListSuppressions (NewListService 20)"

definition newWebhookDeliveryListService :: "int \<Rightarrow> ('z world_scheme, webhook_delivery list) go" where
  "newWebhookDeliveryListService = ListWebhookDeliveries rt_ListWebhookDeliveries (NewListService 20)"

definition newBootstrapService :: "bootstrap_input \<Rightarrow> ('z world_scheme, bootstrap_result) go" where
  "newBootstrapService = BootstrapLocal rt_SaveOrganization rt_SaveAgent rt_SaveInbox time_now"

definition newBootstrapReadService :: "('z world_scheme, bootstrap_result) go" where
  "newBootstrapReadService = GetBootstrap rt_GetOrganizationByID rt_GetAgentByID rt_GetInboxByID"

definition newThreadEscalationHandlerService :: "string \<Rightarrow> ('z world_scheme, thread) go" where
  "newThreadEscalationHandlerService = threadEscalationServiceAdapter rt_GetByID (EscalateThread rt_Save time_now)"

definition newContactMemoryHandlerService ::
    "string \<Rightarrow> create_memory_input \<Rightarrow> ('z world_scheme, contact_memory_entry) go" where
  "newContactMemoryHandlerService =
     contactMemoryServiceAdapter rt_GetContactByID rt_GetByID (CreateContactMemory rt_CreateMemory time_now)"

definition rt_reply_adapter :: "'z world_scheme reply_adapter" where
  "rt_reply_adapter =
     \<lparr>ad_FindReply = rt_FindReplyBySubmissionKey, ad_SaveSubmission = rt_SaveReplySubmission,
      ad_orgs = rt_GetOrganizationByID, ad_agents = rt_GetAgentByID, ad_inboxes = rt_GetInboxByID,
      ad_threads = rt_GetByID, ad_contacts = rt_GetContactByID, ad_messages = rt_GetMessageByID\<rparr>"

definition newReplyHandlerService ::
    "'z world_scheme email_provider \<Rightarrow> send_reply_input \<Rightarrow> ('z world_scheme, send_reply_result) go" where
  "newReplyHandlerService provider =
     replyServiceAdapter rt_reply_adapter (SendReply (newReplyService provider))"

section \<open>The retry worker\<close>

definition runOnce :: "int \<Rightarrow> ('z world_scheme, unit) go" where
  "runOnce limit = go_bind (go_try (newWebhookRetrySweepService limit)) (\<lambda>_. go_ret ())"

text \<open>\<open>Run\<close> until its context is cancelled after \<open>ticks\<close> ticks of the timer.\<close>

fun worker_ticks :: "int \<Rightarrow> nat \<Rightarrow> ('z world_scheme, unit) go" where
  "worker_ticks limit 0 = go_ret ()"
| "worker_ticks limit (Suc n) = go_bind (runOnce limit) (\<lambda>_. worker_ticks limit n)"

definition webhookRetryWorker_Run :: "duration \<Rightarrow> int \<Rightarrow> nat \<Rightarrow> ('z world_scheme, unit) go" where
  "webhookRetryWorker_Run interval limit ticks =
     (if sint interval \<le> 0 then go_ret ()
      else go_bind (runOnce limit) (\<lambda>_. worker_ticks limit ticks))"

end
