(* ===== verification/Json_Decode.thy ===== *)
theory Json_Decode
  imports Json
begin

text \<open>
  What the code uses of \<open>encoding/json\<close> to read: \<open>json.Unmarshal\<close> and \<open>json.Decoder\<close> into structs
  of strings. The syntax is the one the package accepts, bytes that are not UTF-8 and lone
  surrogates are replaced, nesting is limited to 10000, and a key matches a field exactly or else
  up to case.
\<close>

section \<open>Tokens\<close>

definition json_space :: "char \<Rightarrow> bool" where
  "json_space c \<longleftrightarrow> c = CHR 0x20 \<or> c = CHR 0x09 \<or> c = CHR 0x0D \<or> c = CHR 0x0A"

definition skip_space :: "string \<Rightarrow> string" where
  "skip_space s = dropWhile json_space s"

definition hex_value :: "char \<Rightarrow> nat option" where
  "hex_value c = (let b = byte_of c in
     if 48 \<le> b \<and> b \<le> 57 then Some (b - 48)
     else if 97 \<le> b \<and> b \<le> 102 then Some (b - 87)
     else if 65 \<le> b \<and> b \<le> 70 then Some (b - 55)
     else None)"

fun hex4 :: "string \<Rightarrow> (nat \<times> string) option" where
  "hex4 (a # b # c # d # s) =
     (case (hex_value a, hex_value b, hex_value c, hex_value d) of
        (Some x, Some y, Some z, Some t) \<Rightarrow> Some (4096 * x + 256 * y + 16 * z + t, s)
      | _ \<Rightarrow> None)"
| "hex4 _ = None"

definition replacement :: string where
  "replacement = [CHR 0xEF, CHR 0xBF, CHR 0xBD]"

text \<open>\<open>utf8.EncodeRune\<close> of a rune that is not a surrogate.\<close>

definition utf8_encode :: "nat \<Rightarrow> string" where
  "utf8_encode n =
     (if n < 128 then [char_of n]
      else if n < 2048 then [char_of (192 + n div 64), char_of (128 + n mod 64)]
      else if n < 65536 then [char_of (224 + n div 4096), char_of (128 + n div 64 mod 64), char_of (128 + n mod 64)]
      else [char_of (240 + n div 262144), char_of (128 + n div 4096 mod 64), char_of (128 + n div 64 mod 64),
            char_of (128 + n mod 64)])"

definition is_surrogate :: "nat \<Rightarrow> bool" where
  "is_surrogate n \<longleftrightarrow> 55296 \<le> n \<and> n < 57344"

text \<open>The second half of a surrogate pair after the first half \<open>n\<close>, if it is there: \<open>utf16.DecodeRune\<close>.\<close>

definition low_surrogate :: "nat \<Rightarrow> string \<Rightarrow> (nat \<times> string) option" where
  "low_surrogate n s = (case s of
     a # b # t \<Rightarrow>
       if a = CHR 0x5C \<and> b = CHR ''u''
       then (case hex4 t of
               Some (m, r) \<Rightarrow> if n < 56320 \<and> 56320 \<le> m \<and> m < 57344
                              then Some (65536 + (n - 55296) * 1024 + (m - 56320), r) else None
             | None \<Rightarrow> None)
       else None
   | _ \<Rightarrow> None)"

definition simple_escape :: "char \<Rightarrow> char option" where
  "simple_escape e =
     (if e = CHR 0x22 \<or> e = CHR 0x5C \<or> e = CHR ''/'' then Some e
      else if e = CHR ''b'' then Some (CHR 0x08)
      else if e = CHR ''f'' then Some (CHR 0x0C)
      else if e = CHR ''n'' then Some (CHR 0x0A)
      else if e = CHR ''r'' then Some (CHR 0x0D)
      else if e = CHR ''t'' then Some (CHR 0x09)
      else None)"

lemma hex4_length: "hex4 s = Some (n, r) \<Longrightarrow> length s = length r + 4"
  by (cases s rule: hex4.cases) (auto split: option.splits)

lemma low_surrogate_length: "low_surrogate n s = Some (m, r) \<Longrightarrow> length r < length s"
  by (auto simp: low_surrogate_def split: list.splits if_splits option.splits dest: hex4_length)

definition prepend :: "string \<Rightarrow> (string \<times> string) option \<Rightarrow> (string \<times> string) option" where
  "prepend x r = (case r of None \<Rightarrow> None | Some (y, s) \<Rightarrow> Some (x @ y, s))"

text \<open>The inside of a string literal, after the opening quote: its value and what follows the closing
  quote.\<close>

function json_literal :: "string \<Rightarrow> (string \<times> string) option" where
  "json_literal [] = None"
| "json_literal (c # s) =
     (if c = CHR 0x22 then Some ([], s)
      else if c = CHR 0x5C then
        (case s of
           [] \<Rightarrow> None
         | e # t \<Rightarrow>
             if e = CHR ''u'' then
               (case hex4 t of
                  None \<Rightarrow> None
                | Some (n, r) \<Rightarrow>
                    if is_surrogate n then
                      (case low_surrogate n r of
                         None \<Rightarrow> prepend replacement (json_literal r)
                       | Some (m, r') \<Rightarrow> prepend (utf8_encode m) (json_literal r'))
                    else prepend (utf8_encode n) (json_literal r))
             else (case simple_escape e of
                     None \<Rightarrow> None
                   | Some d \<Rightarrow> prepend [d] (json_literal t)))
      else if byte_of c < 32 then None
      else if byte_of c < 128 then prepend [c] (json_literal s)
      else (case utf8_seq (c # s) of
              None \<Rightarrow> prepend replacement (json_literal s)
            | Some n \<Rightarrow> prepend (take n (c # s)) (json_literal (drop (n - 1) s))))"
  by pat_completeness auto

termination
  by (relation "measure length") (auto dest!: hex4_length low_surrogate_length)

definition is_digit :: "char \<Rightarrow> bool" where
  "is_digit c \<longleftrightarrow> 48 \<le> byte_of c \<and> byte_of c \<le> 57"

text \<open>A number literal: sign, integer part without leading zeros, fraction, exponent.\<close>

definition number_int :: "string \<Rightarrow> (string \<times> string) option" where
  "number_int s = (case s of
     [] \<Rightarrow> None
   | d # t \<Rightarrow> if d = CHR ''0'' then Some ([d], t)
              else if is_digit d then Some (takeWhile is_digit s, dropWhile is_digit s)
              else None)"

definition number_digits :: "string \<Rightarrow> (string \<times> string) option" where
  "number_digits s = (if takeWhile is_digit s = [] then None else Some (takeWhile is_digit s, dropWhile is_digit s))"

definition number_frac :: "string \<Rightarrow> (string \<times> string) option" where
  "number_frac s = (case s of
     c # t \<Rightarrow> if c = CHR ''.'' then prepend [c] (number_digits t) else Some ([], s)
   | [] \<Rightarrow> Some ([], s))"

definition number_exp :: "string \<Rightarrow> (string \<times> string) option" where
  "number_exp s = (case s of
     c # t \<Rightarrow> if c = CHR ''e'' \<or> c = CHR ''E''
              then (case t of
                      d # u \<Rightarrow> if d = CHR ''+'' \<or> d = CHR ''-'' then prepend [c, d] (number_digits u)
                               else prepend [c] (number_digits t)
                    | [] \<Rightarrow> None)
              else Some ([], s)
   | [] \<Rightarrow> Some ([], s))"

definition json_number :: "string \<Rightarrow> (string \<times> string) option" where
  "json_number s =
     (let (sign, s1) = (case s of c # t \<Rightarrow> if c = CHR ''-'' then ([c], t) else ([], s) | [] \<Rightarrow> ([], s))
      in case number_int s1 of
           None \<Rightarrow> None
         | Some (i, s2) \<Rightarrow> (case number_frac s2 of
             None \<Rightarrow> None
           | Some (f, s3) \<Rightarrow> prepend (sign @ i @ f) (number_exp s3)))"

section \<open>Values\<close>

text \<open>
  The recursive descent has fuel \<open>n\<close> and \<open>d\<close> levels of nesting left. Fuel of twice the length of the
  text and two is enough (\<open>parse_fuel\<close> below), so only the nesting limit is visible.
\<close>

fun parse_value :: "nat \<Rightarrow> nat \<Rightarrow> string \<Rightarrow> (json \<times> string) option"
  and parse_items :: "nat \<Rightarrow> nat \<Rightarrow> string \<Rightarrow> (json list \<times> string) option"
  and parse_members :: "nat \<Rightarrow> nat \<Rightarrow> string \<Rightarrow> ((string \<times> json) list \<times> string) option" where
  "parse_value 0 d s = None"
| "parse_value (Suc n) d s =
     (case skip_space s of
        [] \<Rightarrow> None
      | c # t \<Rightarrow>
          if c = CHR ''{'' then
            (if d = 0 then None
             else if take 1 (skip_space t) = ''}'' then Some (JObject [], drop 1 (skip_space t))
             else map_option (\<lambda>(fs, r). (JObject fs, r)) (parse_members n (d - 1) t))
          else if c = CHR ''['' then
            (if d = 0 then None
             else if take 1 (skip_space t) = '']'' then Some (JArray [], drop 1 (skip_space t))
             else map_option (\<lambda>(vs, r). (JArray vs, r)) (parse_items n (d - 1) t))
          else if c = CHR 0x22 then map_option (\<lambda>(x, r). (JString x, r)) (json_literal t)
          else if take 4 (c # t) = ''null'' then Some (JNull, drop 4 (c # t))
          else if take 4 (c # t) = ''true'' then Some (JBool True, drop 4 (c # t))
          else if take 5 (c # t) = ''false'' then Some (JBool False, drop 5 (c # t))
          else map_option (\<lambda>(x, r). (JNumber x, r)) (json_number (c # t)))"
| "parse_items 0 d s = None"
| "parse_items (Suc n) d s =
     (case parse_value n d s of
        None \<Rightarrow> None
      | Some (v, r) \<Rightarrow> (case skip_space r of
          [] \<Rightarrow> None
        | c # t \<Rightarrow>
            if c = CHR '','' then map_option (\<lambda>(vs, r'). (v # vs, r')) (parse_items n d t)
            else if c = CHR '']'' then Some ([v], t)
            else None))"
| "parse_members 0 d s = None"
| "parse_members (Suc n) d s =
     (case skip_space s of
        [] \<Rightarrow> None
      | q # t \<Rightarrow> if q \<noteq> CHR 0x22 then None else (case json_literal t of
          None \<Rightarrow> None
        | Some (k, u) \<Rightarrow> (case skip_space u of
            [] \<Rightarrow> None
          | c # w \<Rightarrow> if c \<noteq> CHR '':'' then None else (case parse_value n d w of
              None \<Rightarrow> None
            | Some (v, r) \<Rightarrow> (case skip_space r of
                [] \<Rightarrow> None
              | e # x \<Rightarrow>
                  if e = CHR '','' then map_option (\<lambda>(fs, r'). ((k, v) # fs, r')) (parse_members n d x)
                  else if e = CHR ''}'' then Some ([(k, v)], x)
                  else None)))))"

definition max_nesting :: nat where
  "max_nesting = 10000"

definition json_parse :: "string \<Rightarrow> (json \<times> string) option" where
  "json_parse s = parse_value (2 * length s + 2) max_nesting s"

text \<open>\<open>json.NewDecoder(body).Decode\<close> reads the first value and leaves the rest of the stream alone;
  \<open>json.Unmarshal\<close> wants nothing but white space after it.\<close>

definition Decoder_value :: "string \<Rightarrow> gerr + json" where
  "Decoder_value s = (case json_parse s of None \<Rightarrow> Inl (ErrExternal ''invalid json'') | Some (v, _) \<Rightarrow> Inr v)"

definition Unmarshal_value :: "string \<Rightarrow> gerr + json" where
  "Unmarshal_value s = (case json_parse s of
     Some (v, r) \<Rightarrow> if skip_space r = [] then Inr v else Inl (ErrExternal ''invalid json'')
   | None \<Rightarrow> Inl (ErrExternal ''invalid json''))"

section \<open>Fields\<close>

text \<open>The folding of names: ASCII letters to upper case, and the two other runes that fold to one.\<close>

fun fold_name :: "string \<Rightarrow> string" where
  "fold_name (a # b # c # s) =
     (if [a, b, c] = [CHR 0xE2, CHR 0x84, CHR 0xAA] then CHR ''K'' # fold_name s
      else if [a, b] = [CHR 0xC5, CHR 0xBF] then CHR ''S'' # fold_name (c # s)
      else (if 97 \<le> byte_of a \<and> byte_of a \<le> 122 then char_of (byte_of a - 32) else a) # fold_name (b # c # s))"
| "fold_name [a, b] =
     (if [a, b] = [CHR 0xC5, CHR 0xBF] then ''S''
      else map (\<lambda>c. if 97 \<le> byte_of c \<and> byte_of c \<le> 122 then char_of (byte_of c - 32) else c) [a, b])"
| "fold_name s = map (\<lambda>c. if 97 \<le> byte_of c \<and> byte_of c \<le> 122 then char_of (byte_of c - 32) else c) s"

definition key_field :: "string list \<Rightarrow> string \<Rightarrow> string option" where
  "key_field names key =
     (if key \<in> set names then Some key else List.find (\<lambda>n. fold_name n = fold_name key) names)"

text \<open>Decoding into a struct: each member whose key matches a field is stored there, later ones over
  earlier ones. A value of another kind is an error; the code that uses the package only looks at
  whether there was one.\<close>

fun decode_members ::
    "(string \<Rightarrow> json \<Rightarrow> 'a \<Rightarrow> gerr + 'a) \<Rightarrow> string list \<Rightarrow> (string \<times> json) list \<Rightarrow> 'a \<Rightarrow> gerr + 'a" where
  "decode_members store names [] p = Inr p"
| "decode_members store names ((key, v) # rest) p =
     (case key_field names key of
        None \<Rightarrow> decode_members store names rest p
      | Some n \<Rightarrow> (case store n v p of
          Inl e \<Rightarrow> Inl e
        | Inr p' \<Rightarrow> decode_members store names rest p'))"

definition decode_struct ::
    "(string \<Rightarrow> json \<Rightarrow> 'a \<Rightarrow> gerr + 'a) \<Rightarrow> string list \<Rightarrow> 'a \<Rightarrow> json \<Rightarrow> gerr + 'a" where
  "decode_struct store names zero v = (case v of
     JObject fs \<Rightarrow> decode_members store names fs zero
   | JNull \<Rightarrow> Inr zero
   | _ \<Rightarrow> Inl (ErrExternal ''json: cannot unmarshal''))"

definition set_string :: "((string \<Rightarrow> string) \<Rightarrow> 'a \<Rightarrow> 'a) \<Rightarrow> json \<Rightarrow> 'a \<Rightarrow> gerr + 'a" where
  "set_string update v p = (case v of
     JString s \<Rightarrow> Inr (update (\<lambda>_. s) p)
   | JNull \<Rightarrow> Inr p
   | _ \<Rightarrow> Inl (ErrExternal ''json: cannot unmarshal''))"

text \<open>A slice of strings: \<open>null\<close> is the nil slice, and a \<open>null\<close> element keeps what the slice held.\<close>

definition decode_elements :: "string list \<Rightarrow> json list \<Rightarrow> gerr + string list" where
  "decode_elements old vs =
     (if list_all (\<lambda>v. case v of JString _ \<Rightarrow> True | JNull \<Rightarrow> True | _ \<Rightarrow> False) vs
      then Inr (map (\<lambda>(i, v). case v of JString s \<Rightarrow> s | _ \<Rightarrow> if i < length old then old ! i else [])
                  (zip [0..<length vs] vs))
      else Inl (ErrExternal ''json: cannot unmarshal''))"

definition set_strings ::
    "((string list option \<Rightarrow> string list option) \<Rightarrow> 'a \<Rightarrow> 'a) \<Rightarrow> ('a \<Rightarrow> string list option) \<Rightarrow> json \<Rightarrow> 'a \<Rightarrow>
     gerr + 'a" where
  "set_strings update get v p = (case v of
     JArray vs \<Rightarrow> (case decode_elements (case get p of None \<Rightarrow> [] | Some old \<Rightarrow> old) vs of
         Inl e \<Rightarrow> Inl e
       | Inr xs \<Rightarrow> Inr (update (\<lambda>_. Some xs) p))
   | JNull \<Rightarrow> Inr (update (\<lambda>_. None) p)
   | _ \<Rightarrow> Inl (ErrExternal ''json: cannot unmarshal''))"

end
