(* ===== verification/Go_Parse.thy ===== *)
theory Go_Parse
  imports Go_Time Json_Decode
begin

text \<open>
  What the code reads with \<open>strconv\<close> and \<open>time.Parse\<close>: integers, booleans and RFC 3339 times. The
  code only asks whether reading failed, so an error says which function gave it and no more.
\<close>

section \<open>Integers and booleans\<close>

definition digits_value :: "string \<Rightarrow> int" where
  "digits_value s = fold (\<lambda>c n. 10 * n + (int (byte_of c) - 48)) s 0"

text \<open>\<open>strconv.Atoi\<close>: a decimal literal with an optional sign, in the range of a 64-bit \<open>int\<close>.\<close>

definition atoi :: "string \<Rightarrow> gerr + int" where
  "atoi s =
     (let (neg, ds) = (case s of
        c # t \<Rightarrow> if c = CHR ''-'' then (True, t) else if c = CHR ''+'' then (False, t) else (False, s)
      | [] \<Rightarrow> (False, []))
      in if ds = [] \<or> \<not> list_all is_digit ds then Inl (ErrExternal ''strconv.Atoi: invalid syntax'')
         else let n = (if neg then - digits_value ds else digits_value ds)
              in if n < - (2 ^ 63) \<or> 2 ^ 63 \<le> n then Inl (ErrExternal ''strconv.Atoi: value out of range'')
                 else Inr n)"

definition ParseBool :: "string \<Rightarrow> gerr + bool" where
  "ParseBool s =
     (if s \<in> {''1'', ''t'', ''T'', ''TRUE'', ''true'', ''True''} then Inr True
      else if s \<in> {''0'', ''f'', ''F'', ''FALSE'', ''false'', ''False''} then Inr False
      else Inl (ErrExternal ''strconv.ParseBool: invalid syntax''))"

section \<open>Calendar dates\<close>

text \<open>The days from January 1, year 1 to a date.\<close>

definition days_before_year :: "int \<Rightarrow> int" where
  "days_before_year y = (let p = y - 1 in 365 * p + p div 4 - p div 100 + p div 400)"

definition days_of_date :: "int \<Rightarrow> int \<Rightarrow> int \<Rightarrow> int" where
  "days_of_date y m d = days_before_year y + sum_list (take (nat (m - 1)) (month_lengths (is_leap y))) + (d - 1)"

definition instant_of :: "int \<Rightarrow> int \<Rightarrow> int \<Rightarrow> int \<Rightarrow> int \<Rightarrow> int \<Rightarrow> int \<Rightarrow> gtime" where
  "instant_of y mo d h mi s ns =
     (days_of_date y mo d * 86400 + h * 3600 + mi * 60 + s) * nanos_per_second + ns"

section \<open>RFC 3339\<close>

text \<open>
  \<open>time.Parse(time.RFC3339, value)\<close>, by its general parser, of which the fast path for this layout
  is a part: the layout's elements in order, each leaving the rest of the value. The hour may have
  one digit and the seconds a fraction, of which nine digits count; offsets of 24 hours and of 60
  minutes are let through.
\<close>

definition getnum :: "bool \<Rightarrow> string \<Rightarrow> (int \<times> string) option" where
  "getnum fixed s = (case s of
     [] \<Rightarrow> None
   | c # t \<Rightarrow>
       if \<not> is_digit c then None
       else case t of
         [] \<Rightarrow> if fixed then None else Some (digits_value [c], t)
       | d # u \<Rightarrow> if is_digit d then Some (digits_value [c, d], u)
                  else if fixed then None else Some (digits_value [c], t))"

definition num_in :: "bool \<Rightarrow> int \<Rightarrow> int \<Rightarrow> string \<Rightarrow> (int \<times> string) option" where
  "num_in fixed lo hi s = Option.bind (getnum fixed s)
     (\<lambda>(n, r). if lo \<le> n \<and> n \<le> hi then Some (n, r) else None)"

definition skip_char :: "char \<Rightarrow> string \<Rightarrow> string option" where
  "skip_char c s = (case s of d # t \<Rightarrow> if d = c then Some t else None | [] \<Rightarrow> None)"

definition long_year :: "string \<Rightarrow> (int \<times> string) option" where
  "long_year s = (if length s < 4 \<or> \<not> list_all is_digit (take 4 s) then None
     else Some (digits_value (take 4 s), drop 4 s))"

definition read_date :: "string \<Rightarrow> ((int \<times> int \<times> int) \<times> string) option" where
  "read_date s0 =
     Option.bind (long_year s0) (\<lambda>(y, s1). Option.bind (skip_char (CHR ''-'') s1) (\<lambda>s2.
     Option.bind (num_in True 1 12 s2) (\<lambda>(mo, s3). Option.bind (skip_char (CHR ''-'') s3) (\<lambda>s4.
     Option.bind (getnum True s4) (\<lambda>(d, s5).
     if 1 \<le> d \<and> d \<le> month_lengths (is_leap y) ! nat (mo - 1) then Some ((y, mo, d), s5) else None)))))"

definition read_clock :: "string \<Rightarrow> ((int \<times> int \<times> int) \<times> string) option" where
  "read_clock s0 =
     Option.bind (num_in False 0 23 s0) (\<lambda>(h, s1). Option.bind (skip_char (CHR '':'') s1) (\<lambda>s2.
     Option.bind (num_in True 0 59 s2) (\<lambda>(mi, s3). Option.bind (skip_char (CHR '':'') s3) (\<lambda>s4.
     Option.bind (num_in True 0 59 s4) (\<lambda>(s, s5). Some ((h, mi, s), s5))))))"

definition read_fraction :: "string \<Rightarrow> int \<times> string" where
  "read_fraction s = (case s of
     c # d # t \<Rightarrow>
       if (c = CHR ''.'' \<or> c = CHR '','') \<and> is_digit d then
         let ds = take 9 (takeWhile is_digit (d # t))
         in (digits_value ds * 10 ^ (9 - length ds), dropWhile is_digit (d # t))
       else (0, s)
   | _ \<Rightarrow> (0, s))"

text \<open>The offset in seconds east of UTC.\<close>

definition read_offset :: "string \<Rightarrow> (int \<times> string) option" where
  "read_offset s0 =
     (if take 1 s0 = ''Z'' then Some (0, drop 1 s0)
      else case s0 of
        [] \<Rightarrow> None
      | sign # s1 \<Rightarrow>
          if sign \<noteq> CHR ''+'' \<and> sign \<noteq> CHR ''-'' then None
          else Option.bind (num_in True 0 24 s1) (\<lambda>(hr, s2). Option.bind (skip_char (CHR '':'') s2) (\<lambda>s3.
               Option.bind (num_in True 0 60 s3) (\<lambda>(mm, s4).
               Some ((if sign = CHR ''-'' then - 1 else 1) * (hr * 60 + mm) * 60, s4)))))"

definition parse_rfc3339 :: "string \<Rightarrow> gerr + gtime" where
  "parse_rfc3339 s0 =
     (case Option.bind (read_date s0) (\<lambda>((y, mo, d), s1). Option.bind (skip_char (CHR ''T'') s1) (\<lambda>s2.
        Option.bind (read_clock s2) (\<lambda>((h, mi, s), s3).
        let (ns, s4) = read_fraction s3 in
        Option.bind (read_offset s4) (\<lambda>(off, s5).
        if s5 = [] then Some (instant_of y mo d h mi s ns - off * nanos_per_second) else None))))
      of None \<Rightarrow> Inl (ErrExternal ''parsing time'') | Some t \<Rightarrow> Inr t)"

end
