(* ===== verification/Callback_Parser.thy ===== *)
theory Callback_Parser
  imports Outbound Go_Parse
begin

text \<open>
  Reading a provider's delivery callback: \<open>outbound/callback_parser.go\<close>.
\<close>

record callback_payload =
  cp_EventType :: string
  cp_ProviderMessageID :: string
  cp_OccurredAt :: string

definition set_callback_payload :: "string \<Rightarrow> json \<Rightarrow> callback_payload \<Rightarrow> gerr + callback_payload" where
  "set_callback_payload n v p =
     (if n = ''event_type'' then set_string cp_EventType_update v p
      else if n = ''provider_message_id'' then set_string cp_ProviderMessageID_update v p
      else set_string cp_OccurredAt_update v p)"

definition callbackPayload :: "json \<Rightarrow> gerr + callback_payload" where
  "callbackPayload = decode_struct set_callback_payload [''event_type'', ''provider_message_id'', ''occurred_at'']
     \<lparr>cp_EventType = [], cp_ProviderMessageID = [], cp_OccurredAt = []\<rparr>"

text \<open>\<open>json.Unmarshal(body, &payload)\<close>\<close>

definition Unmarshal :: "(json \<Rightarrow> gerr + 'a) \<Rightarrow> string \<Rightarrow> gerr + 'a" where
  "Unmarshal decode body = (case Unmarshal_value body of Inl e \<Rightarrow> Inl e | Inr v \<Rightarrow> decode v)"

definition CallbackParser_Parse :: "string \<Rightarrow> gerr + delivery_callback_event" where
  "CallbackParser_Parse body = (case Unmarshal callbackPayload body of
     Inl e \<Rightarrow> Inl e
   | Inr payload \<Rightarrow> (case parse_rfc3339 (cp_OccurredAt payload) of
       Inl e \<Rightarrow> Inl e
     | Inr occurredAt \<Rightarrow> (case mapCallbackEventType (cp_EventType payload) of
         Inl e \<Rightarrow> Inl e
       | Inr status \<Rightarrow> Inr \<lparr>ce_ProviderMessageID = cp_ProviderMessageID payload, ce_Status = status,
                           ce_OccurredAt = occurredAt\<rparr>)))"

end
