(* ===== verification/Http_Api.thy ===== *)
theory Http_Api
  imports Services Callback_Parser
begin

text \<open>
  The HTTP handlers of \<open>internal/api\<close> and the adapters of \<open>cmd/agentlayer\<close> between them and the
  services: request paths, query parameters and bodies, the error statuses, and the responses. A
  request is what \<open>net/http\<close> hands to a handler: the segments of its path, each with its escapes
  decoded, the parsed query and headers, and the body read to the end or a read error.
\<close>

section \<open>Requests and responses\<close>

record http_in =
  hi_Method :: string
  hi_Segments :: "string list"
  hi_Query :: "(string \<times> string) list"
  hi_Header :: "(string \<times> string) list"
  hi_Body :: "gerr + string"

record http_out =
  ho_Status :: int
  ho_ContentType :: string
  ho_Body :: string

type_synonym 's handler = "http_in \<Rightarrow> 's \<Rightarrow> http_out \<times> 's"

definition URL_Path :: "http_in \<Rightarrow> string" where
  "URL_Path request = concat (map ((#) (CHR ''/'')) (hi_Segments request))"

text \<open>\<open>Query().Get(k)\<close> and \<open>Header.Get(k)\<close>: the first value, or the empty string.\<close>

definition first_value :: "(string \<times> string) list \<Rightarrow> string \<Rightarrow> string" where
  "first_value kvs k = (case map_of kvs k of None \<Rightarrow> [] | Some v \<Rightarrow> v)"

definition newline :: string where
  "newline = [CHR 0x0A]"

text \<open>\<open>http.Error\<close>\<close>

definition http_Error :: "string \<Rightarrow> int \<Rightarrow> http_out" where
  "http_Error msg code =
     \<lparr>ho_Status = code, ho_ContentType = ''text/plain; charset=utf-8'', ho_Body = msg @ newline\<rparr>"

definition respond_json :: "int \<Rightarrow> json \<Rightarrow> http_out" where
  "respond_json code v =
     \<lparr>ho_Status = code, ho_ContentType = ''application/json'', ho_Body = json_encode v @ newline\<rparr>"

text \<open>\<open>x, err := service(...); if err != nil { ... return }; respond(x)\<close>\<close>

definition respond :: "('s, 'a) go \<Rightarrow> (gerr \<Rightarrow> http_out) \<Rightarrow> ('a \<Rightarrow> http_out) \<Rightarrow> 's \<Rightarrow> http_out \<times> 's" where
  "respond m on_error on_ok = (\<lambda>s. case m s of (Inl e, s') \<Rightarrow> (on_error e, s') | (Inr x, s') \<Rightarrow> (on_ok x, s'))"

definition refuse :: "string \<Rightarrow> int \<Rightarrow> 's \<Rightarrow> http_out \<times> 's" where
  "refuse msg code = (\<lambda>s. (http_Error msg code, s))"

definition writeLookupError :: "string \<Rightarrow> string \<Rightarrow> gerr \<Rightarrow> http_out" where
  "writeLookupError notFoundMessage internalMessage err =
     (if is_not_found err then http_Error notFoundMessage 404 else http_Error internalMessage 500)"

text \<open>\<open>json.NewDecoder(request.Body).Decode(&payload)\<close>\<close>

definition decode_body :: "(json \<Rightarrow> gerr + 'a) \<Rightarrow> http_in \<Rightarrow> gerr + 'a" where
  "decode_body decode request = (case hi_Body request of
     Inl e \<Rightarrow> Inl e
   | Inr body \<Rightarrow> (case Decoder_value body of Inl e \<Rightarrow> Inl e | Inr v \<Rightarrow> decode v))"

definition blank :: "string \<Rightarrow> bool" where
  "blank s \<longleftrightarrow> trim_space s = []"

section \<open>Paths and limits\<close>

text \<open>\<open>strings.Trim(s, "/")\<close>\<close>

definition trim_slashes :: "string \<Rightarrow> string" where
  "trim_slashes s = rev (dropWhile (\<lambda>c. c = CHR ''/'') (rev (dropWhile (\<lambda>c. c = CHR ''/'') s)))"

text \<open>The loop of \<open>filterEmptySegments\<close>: the segment \<open>path[start:i]\<close> so far, and the rest of the path.\<close>

fun segments_from :: "string \<Rightarrow> string \<Rightarrow> string list" where
  "segments_from cur [] = (if cur \<noteq> [] then [cur] else [])"
| "segments_from cur (c # s) =
     (if c = CHR ''/'' then (if cur \<noteq> [] then cur # segments_from [] s else segments_from [] s)
      else segments_from (cur @ [c]) s)"

definition filterEmptySegments :: "string \<Rightarrow> string list" where
  "filterEmptySegments path = segments_from [] path"

definition splitPath :: "string \<Rightarrow> string list" where
  "splitPath path = (if path = [] then [] else filterEmptySegments path)"

definition threadIDFromPath :: "string \<Rightarrow> string" where
  "threadIDFromPath path = (let parts = split_slash (trim_slashes path) in
     if length parts \<noteq> 3 \<or> parts ! 0 \<noteq> ''threads'' \<or> parts ! 2 \<noteq> ''reply'' then [] else parts ! 1)"

definition threadIDFromThreadPath :: "string \<Rightarrow> string" where
  "threadIDFromThreadPath path = (let parts = splitPath path in
     if length parts \<noteq> 2 \<or> parts ! 0 \<noteq> ''threads'' then [] else parts ! 1)"

definition threadIDFromThreadMessagesPath :: "string \<Rightarrow> string" where
  "threadIDFromThreadMessagesPath path = (let parts = splitPath path in
     if length parts \<noteq> 3 \<or> parts ! 0 \<noteq> ''threads'' \<or> parts ! 2 \<noteq> ''messages'' then [] else parts ! 1)"

definition threadIDFromEscalatePath :: "string \<Rightarrow> string" where
  "threadIDFromEscalatePath path = (let parts = splitPath path in
     if length parts \<noteq> 3 \<or> parts ! 0 \<noteq> ''threads'' \<or> parts ! 2 \<noteq> ''escalate'' then [] else parts ! 1)"

definition contactIDFromPath :: "string \<Rightarrow> string" where
  "contactIDFromPath path = (let parts = splitPath path in
     if length parts \<noteq> 2 \<or> parts ! 0 \<noteq> ''contacts'' then [] else parts ! 1)"

definition contactIDFromMemoryPath :: "string \<Rightarrow> string" where
  "contactIDFromMemoryPath path = (let parts = splitPath path in
     if length parts \<noteq> 3 \<or> parts ! 0 \<noteq> ''contacts'' \<or> parts ! 2 \<noteq> ''memory'' then [] else parts ! 1)"

definition suppressionIDFromPath :: "string \<Rightarrow> string" where
  "suppressionIDFromPath path = (let parts = splitPath path in
     if length parts \<noteq> 2 \<or> parts ! 0 \<noteq> ''suppressions'' then [] else parts ! 1)"

definition webhookDeliveryIDFromShowPath :: "string \<Rightarrow> string" where
  "webhookDeliveryIDFromShowPath path = (let parts = splitPath path in
     if length parts \<noteq> 3 \<or> parts ! 0 \<noteq> ''webhooks'' \<or> parts ! 1 \<noteq> ''deliveries'' then [] else parts ! 2)"

definition webhookDeliveryIDFromReplayPath :: "string \<Rightarrow> string" where
  "webhookDeliveryIDFromReplayPath path = (let parts = splitPath path in
     if length parts \<noteq> 4 \<or> parts ! 0 \<noteq> ''webhooks'' \<or> parts ! 1 \<noteq> ''deliveries'' \<or> parts ! 3 \<noteq> ''replay''
     then [] else parts ! 2)"

text \<open>The three limit functions have the same body.\<close>

definition threadMessagesLimit :: "http_in \<Rightarrow> gerr + int" where
  "threadMessagesLimit request = (let value = first_value (hi_Query request) ''limit'' in
     if value = [] then Inr 0
     else case atoi value of
       Inl _ \<Rightarrow> Inl (ErrMsg ''invalid syntax'')
     | Inr limit \<Rightarrow> if limit < 0 then Inl (ErrMsg ''invalid syntax'') else Inr limit)"

definition inboundReceiptsLimit :: "http_in \<Rightarrow> gerr + int" where
  "inboundReceiptsLimit request = (let value = first_value (hi_Query request) ''limit'' in
     if value = [] then Inr 0
     else case atoi value of
       Inl _ \<Rightarrow> Inl (ErrMsg ''invalid syntax'')
     | Inr limit \<Rightarrow> if limit < 0 then Inl (ErrMsg ''invalid syntax'') else Inr limit)"

definition webhookDeliveriesLimit :: "http_in \<Rightarrow> gerr + int" where
  "webhookDeliveriesLimit request = (let value = first_value (hi_Query request) ''limit'' in
     if value = [] then Inr 0
     else case atoi value of
       Inl _ \<Rightarrow> Inl (ErrMsg ''invalid syntax'')
     | Inr limit \<Rightarrow> if limit < 0 then Inl (ErrMsg ''invalid syntax'') else Inr limit)"

section \<open>Responses\<close>

definition json_int :: "int \<Rightarrow> json" where
  "json_int i = JNumber ((if i < 0 then ''-'' else []) @ nat_digits (nat \<bar>i\<bar>))"

text \<open>A field with \<open>omitempty\<close>.\<close>

definition omit_empty :: "string \<Rightarrow> string \<Rightarrow> (string \<times> json) list" where
  "omit_empty k v = (if v = [] then [] else [(k, JString v)])"

definition formatResponseTime :: "gtime \<Rightarrow> string" where
  "formatResponseTime value = (if is_zero_time value then [] else format_rfc3339 value)"

text \<open>\<open>Format(http.TimeFormat)\<close> of an instant in UTC; day 0 was a Monday.\<close>

definition format_http :: "gtime \<Rightarrow> string" where
  "format_http t = (let c = civil_of t in
     [''Mon'', ''Tue'', ''Wed'', ''Thu'', ''Fri'', ''Sat'', ''Sun''] ! nat (t div nanos_per_second div 86400 mod 7) @
     '', '' @ pad_int 2 (cv_day c) @ '' '' @
     [''Jan'', ''Feb'', ''Mar'', ''Apr'', ''May'', ''Jun'', ''Jul'', ''Aug'', ''Sep'', ''Oct'', ''Nov'', ''Dec''] !
       nat (cv_month c - 1) @ '' '' @ pad_int 4 (cv_year c) @ '' '' @
     pad_int 2 (cv_hour c) @ '':'' @ pad_int 2 (cv_min c) @ '':'' @ pad_int 2 (cv_sec c) @ '' GMT'')"

definition replyResponse :: "send_reply_result \<Rightarrow> json" where
  "replyResponse result = JObject
     [(''message_id'', JString (m_ID (so_Message result))),
      (''thread_id'', JString (m_ThreadID (so_Message result))),
      (''subject'', JString (m_Subject (so_Message result))),
      (''delivery_state'', JString (m_DeliveryState (so_Message result))),
      (''provider_message_id'', JString (m_ProviderMessageID (so_Message result)))]"

definition threadResponse :: "thread \<Rightarrow> json" where
  "threadResponse thread = JObject
     [(''id'', JString (t_ID thread)), (''organization_id'', JString (t_OrganizationID thread)),
      (''agent_id'', JString (t_AgentID thread)), (''inbox_id'', JString (t_InboxID thread)),
      (''contact_id'', JString (t_ContactID thread)),
      (''subject_normalized'', JString (t_SubjectNormalized thread)), (''state'', JString (t_State thread)),
      (''last_inbound_id'', JString (t_LastInboundID thread)),
      (''last_outbound_id'', JString (t_LastOutboundID thread))]"

definition messageResponse :: "message \<Rightarrow> json" where
  "messageResponse message = JObject
     [(''id'', JString (m_ID message)), (''thread_id'', JString (m_ThreadID message)),
      (''direction'', JString (m_Direction message)), (''subject'', JString (m_Subject message)),
      (''text_body'', JString (m_TextBody message)),
      (''message_id_header'', JString (m_MessageIDHeader message))]"

definition contactResponse :: "contact \<Rightarrow> json" where
  "contactResponse contact = JObject
     [(''id'', JString (c_ID contact)), (''organization_id'', JString (c_OrganizationID contact)),
      (''email_address'', JString (c_EmailAddress contact)), (''display_name'', JString (c_DisplayName contact))]"

definition json_strings :: "string list option \<Rightarrow> json" where
  "json_strings xs = (case xs of None \<Rightarrow> JNull | Some ys \<Rightarrow> JArray (map JString ys))"

definition contactMemoryResponse :: "contact_memory_entry \<Rightarrow> json" where
  "contactMemoryResponse entry = JObject
     [(''id'', JString (cm_ID entry)), (''contact_id'', JString (cm_ContactID entry)),
      (''thread_id'', JString (cm_ThreadID entry)), (''note'', JString (cm_Note entry)),
      (''tags'', json_strings (cm_Tags entry))]"

definition inboundReceiptResponse :: "durable_receipt_request \<Rightarrow> json" where
  "inboundReceiptResponse receipt = JObject
     [(''smtp_transaction_id'', JString (dr_SMTPTransactionID receipt)),
      (''organization_id'', JString (dr_OrganizationID receipt)), (''agent_id'', JString (dr_AgentID receipt)),
      (''inbox_id'', JString (dr_InboxID receipt)), (''envelope_sender'', JString (dr_EnvelopeSender receipt)),
      (''envelope_recipients'', JArray (map JString (dr_EnvelopeRecipients receipt))),
      (''raw_message_object_key'', JString (dr_RawMessageObjectKey receipt)),
      (''received_at'', JString (format_http (dr_ReceivedAt receipt)))]"

definition webhookDeliveryResponse :: "webhook_delivery \<Rightarrow> json" where
  "webhookDeliveryResponse delivery = JObject
     ([(''id'', JString (wd_ID delivery)), (''event_id'', JString (wd_EventID delivery)),
       (''event_type'', JString (wd_EventType delivery)), (''status'', JString (wd_Status delivery)),
       (''attempt_count'', json_int (wd_AttemptCount delivery)),
       (''response_code'', json_int (wd_ResponseCode delivery))] @
      omit_empty ''next_attempt_at'' (formatResponseTime (wd_NextAttemptAt delivery)))"

definition suppressionResponse :: "suppressed_address \<Rightarrow> json" where
  "suppressionResponse record = JObject
     ([(''id'', JString (sa_ID record)), (''organization_id'', JString (sa_OrganizationID record)),
       (''email_address'', JString (sa_EmailAddress record)), (''reason'', JString (sa_Reason record)),
       (''source'', JString (sa_Source record))] @
      omit_empty ''created_at'' (formatResponseTime (sa_CreatedAt record)) @
      omit_empty ''updated_at'' (formatResponseTime (sa_UpdatedAt record)))"

section \<open>Read handlers\<close>

text \<open>Each handler takes its service, the operation of the interface its struct holds.\<close>

definition ThreadHandler :: "(string \<Rightarrow> ('s, thread) go) \<Rightarrow> 's handler" where
  "ThreadHandler getThread request =
     (let threadID = threadIDFromThreadPath (URL_Path request) in
      if threadID = [] then refuse ''thread id is required'' 400
      else respond (getThread threadID) (writeLookupError ''thread not found'' ''failed to load thread'')
             (\<lambda>thread. respond_json 200 (threadResponse thread)))"

definition ContactHandler :: "(string \<Rightarrow> ('s, contact) go) \<Rightarrow> 's handler" where
  "ContactHandler getContact request =
     (let contactID = contactIDFromPath (URL_Path request) in
      if contactID = [] then refuse ''contact id is required'' 400
      else respond (getContact contactID) (writeLookupError ''contact not found'' ''failed to load contact'')
             (\<lambda>contact. respond_json 200 (contactResponse contact)))"

definition ThreadMessagesHandler :: "(string \<Rightarrow> int \<Rightarrow> ('s, message list) go) \<Rightarrow> 's handler" where
  "ThreadMessagesHandler listMessages request =
     (let threadID = threadIDFromThreadMessagesPath (URL_Path request) in
      if threadID = [] then refuse ''thread id is required'' 400
      else case threadMessagesLimit request of
        Inl _ \<Rightarrow> refuse ''invalid limit parameter'' 400
      | Inr limit \<Rightarrow> respond (listMessages threadID limit) (\<lambda>_. http_Error ''failed to load thread messages'' 500)
          (\<lambda>messages. respond_json 200 (JArray (map messageResponse messages))))"

definition InboundReceiptsHandler :: "(int \<Rightarrow> ('s, durable_receipt_request list) go) \<Rightarrow> 's handler" where
  "InboundReceiptsHandler listReceipts request = (case inboundReceiptsLimit request of
     Inl _ \<Rightarrow> refuse ''invalid limit parameter'' 400
   | Inr limit \<Rightarrow> respond (listReceipts limit) (\<lambda>_. http_Error ''failed to load inbound receipts'' 500)
       (\<lambda>receipts. respond_json 200 (JArray (map inboundReceiptResponse receipts))))"

definition InboundReceiptHandler :: "(string \<Rightarrow> ('s, durable_receipt_request) go) \<Rightarrow> 's handler" where
  "InboundReceiptHandler getReceipt request =
     (let objectKey = trim_space (first_value (hi_Query request) ''object_key'') in
      if objectKey = [] then refuse ''object_key is required'' 400
      else respond (getReceipt objectKey)
             (writeLookupError ''inbound receipt not found'' ''failed to load inbound receipt'')
             (\<lambda>receipt. respond_json 200 (inboundReceiptResponse receipt)))"

definition WebhookDeliveriesHandler :: "(int \<Rightarrow> ('s, webhook_delivery list) go) \<Rightarrow> 's handler" where
  "WebhookDeliveriesHandler listDeliveries request = (case webhookDeliveriesLimit request of
     Inl _ \<Rightarrow> refuse ''invalid limit parameter'' 400
   | Inr limit \<Rightarrow> respond (listDeliveries limit) (\<lambda>_. http_Error ''failed to load webhook deliveries'' 500)
       (\<lambda>deliveries. respond_json 200 (JArray (map webhookDeliveryResponse deliveries))))"

definition WebhookDeliveryHandler :: "(string \<Rightarrow> ('s, webhook_delivery) go) \<Rightarrow> 's handler" where
  "WebhookDeliveryHandler getDelivery request =
     (let deliveryID = webhookDeliveryIDFromShowPath (URL_Path request) in
      if deliveryID = [] then refuse ''delivery id is required'' 400
      else respond (getDelivery deliveryID)
             (writeLookupError ''webhook delivery not found'' ''failed to load webhook delivery'')
             (\<lambda>delivery. respond_json 200 (webhookDeliveryResponse delivery)))"

definition SuppressionsHandler :: "(int \<Rightarrow> ('s, suppressed_address list) go) \<Rightarrow> 's handler" where
  "SuppressionsHandler listSuppressions request = (case webhookDeliveriesLimit request of
     Inl _ \<Rightarrow> refuse ''invalid limit parameter'' 400
   | Inr limit \<Rightarrow> respond (listSuppressions limit) (\<lambda>_. http_Error ''failed to load suppressions'' 500)
       (\<lambda>records. respond_json 200 (JArray (map suppressionResponse records))))"

definition SuppressionHandler :: "(string \<Rightarrow> ('s, suppressed_address) go) \<Rightarrow> 's handler" where
  "SuppressionHandler getSuppression request =
     (let suppressionID = suppressionIDFromPath (URL_Path request) in
      if suppressionID = [] then refuse ''suppression id is required'' 400
      else respond (getSuppression suppressionID)
             (writeLookupError ''suppression not found'' ''failed to load suppression'')
             (\<lambda>record. respond_json 200 (suppressionResponse record)))"

section \<open>Write handlers\<close>

record reply_request =
  pq_OrganizationID :: string
  pq_AgentID :: string
  pq_InboxID :: string
  pq_ContactID :: string
  pq_IdempotencyKey :: string
  pq_ReplyToMessageID :: string
  pq_BodyText :: string
  pq_ObjectKey :: string

definition set_reply_request :: "string \<Rightarrow> json \<Rightarrow> reply_request \<Rightarrow> gerr + reply_request" where
  "set_reply_request n v p =
     (if n = ''organization_id'' then set_string pq_OrganizationID_update v p
      else if n = ''agent_id'' then set_string pq_AgentID_update v p
      else if n = ''inbox_id'' then set_string pq_InboxID_update v p
      else if n = ''contact_id'' then set_string pq_ContactID_update v p
      else if n = ''idempotency_key'' then set_string pq_IdempotencyKey_update v p
      else if n = ''reply_to_message_id'' then set_string pq_ReplyToMessageID_update v p
      else if n = ''body_text'' then set_string pq_BodyText_update v p
      else set_string pq_ObjectKey_update v p)"

definition replyRequest :: "json \<Rightarrow> gerr + reply_request" where
  "replyRequest = decode_struct set_reply_request
     [''organization_id'', ''agent_id'', ''inbox_id'', ''contact_id'', ''idempotency_key'', ''reply_to_message_id'',
      ''body_text'', ''object_key'']
     \<lparr>pq_OrganizationID = [], pq_AgentID = [], pq_InboxID = [], pq_ContactID = [], pq_IdempotencyKey = [],
      pq_ReplyToMessageID = [], pq_BodyText = [], pq_ObjectKey = []\<rparr>"

definition reply_input :: "string \<Rightarrow> string \<Rightarrow> reply_request \<Rightarrow> send_reply_input" where
  "reply_input threadID key payload =
     \<lparr>si_Organization = zero_organization\<lparr>o_ID := pq_OrganizationID payload\<rparr>,
      si_Agent = zero_agent\<lparr>ag_ID := pq_AgentID payload\<rparr>, si_Inbox = zero_inbox\<lparr>i_ID := pq_InboxID payload\<rparr>,
      si_Thread = zero_thread\<lparr>t_ID := threadID\<rparr>,
      si_ReplyToMessage = zero_message\<lparr>m_ID := pq_ReplyToMessageID payload\<rparr>,
      si_Contact = zero_contact\<lparr>c_ID := pq_ContactID payload\<rparr>, si_BodyText = pq_BodyText payload,
      si_ObjectKey = pq_ObjectKey payload, si_IdempotencyKey = key\<rparr>"

definition reply_error :: "gerr \<Rightarrow> http_out" where
  "reply_error err = (if err = ErrRecipientSuppressed then http_Error ''recipient is suppressed'' 409
     else writeLookupError ''reply context not found'' ''failed to send reply'' err)"

definition ReplyHandler :: "(send_reply_input \<Rightarrow> ('s, send_reply_result) go) \<Rightarrow> 's handler" where
  "ReplyHandler sendReply request =
     (let threadID = threadIDFromPath (URL_Path request) in
      if threadID = [] then refuse ''thread id is required'' 400
      else case decode_body replyRequest request of
        Inl _ \<Rightarrow> refuse ''invalid json payload'' 400
      | Inr payload \<Rightarrow>
          if blank (pq_ReplyToMessageID payload) then refuse ''reply_to_message_id is required'' 400
          else if blank (pq_BodyText payload) then refuse ''body_text is required'' 400
          else if blank (pq_ObjectKey payload) then refuse ''object_key is required'' 400
          else
            let key = (if blank (pq_IdempotencyKey payload)
                       then trim_space (first_value (hi_Header request) ''Idempotency-Key'')
                       else pq_IdempotencyKey payload)
            in respond (sendReply (reply_input threadID key payload)) reply_error
                 (\<lambda>result. respond_json 202 (replyResponse result)))"

record api_bootstrap_input =
  bt_OrganizationName :: string
  bt_AgentName :: string
  bt_AgentStatus :: string
  bt_WebhookURL :: string
  bt_WebhookSecret :: string
  bt_InboxAddress :: string
  bt_InboxDomain :: string
  bt_InboxDisplayName :: string

definition set_bootstrap_input :: "string \<Rightarrow> json \<Rightarrow> api_bootstrap_input \<Rightarrow> gerr + api_bootstrap_input" where
  "set_bootstrap_input n v p =
     (if n = ''organization_name'' then set_string bt_OrganizationName_update v p
      else if n = ''agent_name'' then set_string bt_AgentName_update v p
      else if n = ''agent_status'' then set_string bt_AgentStatus_update v p
      else if n = ''webhook_url'' then set_string bt_WebhookURL_update v p
      else if n = ''webhook_secret'' then set_string bt_WebhookSecret_update v p
      else if n = ''inbox_address'' then set_string bt_InboxAddress_update v p
      else if n = ''inbox_domain'' then set_string bt_InboxDomain_update v p
      else set_string bt_InboxDisplayName_update v p)"

definition bootstrapInput :: "json \<Rightarrow> gerr + api_bootstrap_input" where
  "bootstrapInput = decode_struct set_bootstrap_input
     [''organization_name'', ''agent_name'', ''agent_status'', ''webhook_url'', ''webhook_secret'',
      ''inbox_address'', ''inbox_domain'', ''inbox_display_name'']
     \<lparr>bt_OrganizationName = [], bt_AgentName = [], bt_AgentStatus = [], bt_WebhookURL = [],
      bt_WebhookSecret = [], bt_InboxAddress = [], bt_InboxDomain = [], bt_InboxDisplayName = []\<rparr>"

text \<open>\<open>api.BootstrapResult\<close>, and its response.\<close>

record api_bootstrap_result =
  bo_OrganizationID :: string
  bo_AgentID :: string
  bo_InboxID :: string
  bo_WebhookURL :: string
  bo_InboxAddress :: string

definition bootstrapResponse :: "api_bootstrap_result \<Rightarrow> json" where
  "bootstrapResponse result = JObject
     [(''organization_id'', JString (bo_OrganizationID result)), (''agent_id'', JString (bo_AgentID result)),
      (''inbox_id'', JString (bo_InboxID result)), (''webhook_url'', JString (bo_WebhookURL result)),
      (''inbox_address'', JString (bo_InboxAddress result))]"

definition BootstrapHandler :: "(api_bootstrap_input \<Rightarrow> ('s, api_bootstrap_result) go) \<Rightarrow> 's handler" where
  "BootstrapHandler bootstrap request = (case decode_body bootstrapInput request of
     Inl _ \<Rightarrow> refuse ''invalid json payload'' 400
   | Inr payload \<Rightarrow>
       if blank (bt_OrganizationName payload) then refuse ''organization_name is required'' 400
       else if blank (bt_AgentName payload) then refuse ''agent_name is required'' 400
       else if blank (bt_InboxAddress payload) then refuse ''inbox_address is required'' 400
       else if blank (bt_InboxDomain payload) then refuse ''inbox_domain is required'' 400
       else if blank (bt_InboxDisplayName payload) then refuse ''inbox_display_name is required'' 400
       else if bt_AgentStatus payload \<noteq> [] \<and> \<not> AgentStatus_IsValid (bt_AgentStatus payload)
       then refuse ''invalid agent status'' 400
       else respond (bootstrap payload) (\<lambda>_. http_Error ''failed to bootstrap runtime'' 500)
              (\<lambda>result. respond_json 201 (bootstrapResponse result)))"

definition BootstrapReadHandler :: "('s, api_bootstrap_result) go \<Rightarrow> 's handler" where
  "BootstrapReadHandler getBootstrap request =
     respond getBootstrap (\<lambda>_. http_Error ''failed to load bootstrap config'' 500)
       (\<lambda>result. respond_json 200 (bootstrapResponse result))"

definition set_memory_input :: "string \<Rightarrow> json \<Rightarrow> create_memory_input \<Rightarrow> gerr + create_memory_input" where
  "set_memory_input n v p =
     (if n = ''thread_id'' then set_string mi_ThreadID_update v p
      else if n = ''note'' then set_string mi_Note_update v p
      else set_strings mi_Tags_update mi_Tags v p)"

definition createContactMemoryInput :: "json \<Rightarrow> gerr + create_memory_input" where
  "createContactMemoryInput = decode_struct set_memory_input [''thread_id'', ''note'', ''tags'']
     \<lparr>mi_ThreadID = [], mi_Note = [], mi_Tags = None\<rparr>"

definition ContactMemoryHandler ::
    "(string \<Rightarrow> create_memory_input \<Rightarrow> ('s, contact_memory_entry) go) \<Rightarrow> 's handler" where
  "ContactMemoryHandler create request =
     (let contactID = contactIDFromMemoryPath (URL_Path request) in
      if contactID = [] then refuse ''contact id is required'' 400
      else case decode_body createContactMemoryInput request of
        Inl _ \<Rightarrow> refuse ''invalid json payload'' 400
      | Inr payload \<Rightarrow> respond (create contactID payload)
          (writeLookupError ''contact not found'' ''failed to create contact memory'')
          (\<lambda>entry. respond_json 201 (contactMemoryResponse entry)))"

text \<open>The structs of one string field, \<open>threadEscalateRequest\<close>, \<open>inboundReprocessRequest\<close> and
  \<open>outboundCallbackPayload\<close>, are that string.\<close>

definition one_string :: "string \<Rightarrow> json \<Rightarrow> gerr + string" where
  "one_string name = decode_struct (\<lambda>_. set_string (\<lambda>f. f)) [name] []"

definition threadEscalateRequest :: "json \<Rightarrow> gerr + string" where
  "threadEscalateRequest = one_string ''reason''"

definition inboundReprocessRequest :: "json \<Rightarrow> gerr + string" where
  "inboundReprocessRequest = one_string ''object_key''"

definition outboundCallbackPayload :: "json \<Rightarrow> gerr + string" where
  "outboundCallbackPayload = one_string ''contact_email''"

text \<open>The escalation service has a reason parameter, which it does not use.\<close>

definition ThreadEscalateHandler :: "(string \<Rightarrow> string \<Rightarrow> ('s, thread) go) \<Rightarrow> 's handler" where
  "ThreadEscalateHandler escalate request =
     (let threadID = threadIDFromEscalatePath (URL_Path request) in
      if threadID = [] then refuse ''thread id is required'' 400
      else case decode_body threadEscalateRequest request of
        Inl _ \<Rightarrow> refuse ''invalid json payload'' 400
      | Inr reason \<Rightarrow> respond (escalate threadID reason)
          (writeLookupError ''thread not found'' ''failed to escalate thread'')
          (\<lambda>thread. respond_json 202 (threadResponse thread)))"

record api_reprocess_result =
  pr_MessageID :: string
  pr_ThreadID :: string
  pr_Duplicate :: bool

definition inboundReprocessResponse :: "api_reprocess_result \<Rightarrow> json" where
  "inboundReprocessResponse result = JObject
     [(''message_id'', JString (pr_MessageID result)), (''thread_id'', JString (pr_ThreadID result)),
      (''duplicate'', JBool (pr_Duplicate result))]"

definition InboundReprocessHandler :: "(string \<Rightarrow> ('s, api_reprocess_result) go) \<Rightarrow> 's handler" where
  "InboundReprocessHandler reprocess request = (case decode_body inboundReprocessRequest request of
     Inl _ \<Rightarrow> refuse ''invalid json payload'' 400
   | Inr objectKey \<Rightarrow>
       if blank objectKey then refuse ''object_key is required'' 400
       else respond (reprocess objectKey)
              (writeLookupError ''inbound receipt not found'' ''failed to reprocess inbound message'')
              (\<lambda>result. respond_json 202 (inboundReprocessResponse result)))"

definition WebhookReplayHandler :: "(string \<Rightarrow> ('s, webhook_delivery) go) \<Rightarrow> 's handler" where
  "WebhookReplayHandler replay request =
     (let deliveryID = webhookDeliveryIDFromReplayPath (URL_Path request) in
      if deliveryID = [] then refuse ''delivery id is required'' 400
      else respond (replay deliveryID)
             (writeLookupError ''webhook delivery not found'' ''failed to replay webhook delivery'')
             (\<lambda>delivery. respond_json 202 (webhookDeliveryResponse delivery)))"

record api_retry_result =
  ar_Attempted :: nat
  ar_Succeeded :: nat
  ar_Failed :: nat
  ar_Skipped :: nat

definition webhookRetryResponse :: "api_retry_result \<Rightarrow> json" where
  "webhookRetryResponse result = JObject
     [(''attempted'', json_int (int (ar_Attempted result))), (''succeeded'', json_int (int (ar_Succeeded result))),
      (''failed'', json_int (int (ar_Failed result))), (''skipped'', json_int (int (ar_Skipped result)))]"

definition WebhookRetryHandler :: "(int \<Rightarrow> ('s, api_retry_result) go) \<Rightarrow> 's handler" where
  "WebhookRetryHandler retry request = (case webhookDeliveriesLimit request of
     Inl _ \<Rightarrow> refuse ''invalid limit parameter'' 400
   | Inr limit \<Rightarrow> respond (retry limit) (\<lambda>_. http_Error ''failed to retry webhook deliveries'' 500)
       (\<lambda>result. respond_json 202 (webhookRetryResponse result)))"

definition outboundCallbackResponse :: "callback_flow_result \<Rightarrow> json" where
  "outboundCallbackResponse result = JObject
     [(''message_id'', JString (m_ID (cf_Message result))),
      (''provider_message_id'', JString (m_ProviderMessageID (cf_Message result))),
      (''delivery_state'', JString (m_DeliveryState (cf_Message result))),
      (''suppressed'', JBool (cf_Suppressed result))]"

definition callback_error :: "gerr \<Rightarrow> http_out" where
  "callback_error err = (if err = ErrProviderMessageNotFound then http_Error ''provider message not found'' 404
     else http_Error ''failed to apply callback'' 500)"

definition OutboundCallbackHandler ::
    "(string \<Rightarrow> gerr + delivery_callback_event) \<Rightarrow>
     (delivery_callback_event \<Rightarrow> contact \<Rightarrow> ('s, callback_flow_result) go) \<Rightarrow> 's handler" where
  "OutboundCallbackHandler parse apply_flow request = (case hi_Body request of
     Inl _ \<Rightarrow> refuse ''invalid request body'' 400
   | Inr body \<Rightarrow> (case Unmarshal outboundCallbackPayload body of
       Inl _ \<Rightarrow> refuse ''invalid json payload'' 400
     | Inr contactEmail \<Rightarrow>
         if blank contactEmail then refuse ''contact_email is required'' 400
         else case parse body of
           Inl _ \<Rightarrow> refuse ''invalid callback payload'' 400
         | Inr event \<Rightarrow> respond (apply_flow event (zero_contact\<lparr>c_EmailAddress := contactEmail\<rparr>)) callback_error
             (\<lambda>result. respond_json 200 (outboundCallbackResponse result))))"

end
