(* ===== verification/Server.thy ===== *)
theory Server
  imports Http_Api
begin

text \<open>
  The process of \<open>cmd/agentlayer\<close>: its configuration from the environment, the choice of the
  email provider, the readiness probe, the adapters between services and handlers, and the route
  table of the HTTP server. \<open>net/http\<close> matches a request of canonical path against the table.
\<close>

section \<open>Configuration\<close>

definition env_or :: "getenv \<Rightarrow> string \<Rightarrow> string \<Rightarrow> string" where
  "env_or env name fallback = (if env name \<noteq> [] then env name else fallback)"

definition serverAddress :: "getenv \<Rightarrow> string" where
  "serverAddress env = env_or env ''AGENTLAYER_ADDR'' '':8080''"

definition smtpAddress :: "getenv \<Rightarrow> string" where
  "smtpAddress env = env_or env ''AGENTLAYER_SMTP_ADDR'' ''localhost:2525''"

definition smtpDomain :: "getenv \<Rightarrow> string" where
  "smtpDomain env = env_or env ''AGENTLAYER_SMTP_DOMAIN'' ''localhost''"

definition databaseURL :: "getenv \<Rightarrow> string" where
  "databaseURL env = env ''AGENTLAYER_DATABASE_URL''"

definition rawDataDir :: "getenv \<Rightarrow> string" where
  "rawDataDir env = env_or env ''AGENTLAYER_RAW_DATA_DIR'' ''.agentlayer-data/raw''"

definition rawStoreType :: "getenv \<Rightarrow> string" where
  "rawStoreType env = env_or env ''AGENTLAYER_RAW_STORE'' ''fs''"

definition rawS3Bucket :: "getenv \<Rightarrow> string" where
  "rawS3Bucket env = env ''AGENTLAYER_S3_BUCKET''"

definition rawS3PathStyle :: "getenv \<Rightarrow> bool" where
  "rawS3PathStyle env = (let value = env ''AGENTLAYER_S3_PATH_STYLE'' in
     if value = [] then True else case ParseBool value of Inl _ \<Rightarrow> True | Inr enabled \<Rightarrow> enabled)"

definition emailProviderType :: "getenv \<Rightarrow> string" where
  "emailProviderType env = env_or env ''AGENTLAYER_EMAIL_PROVIDER'' ''dev''"

definition awsRegion :: "getenv \<Rightarrow> string" where
  "awsRegion env = env ''AWS_REGION''"

definition autoMigrateEnabled :: "getenv \<Rightarrow> bool" where
  "autoMigrateEnabled env \<longleftrightarrow> env ''AGENTLAYER_AUTO_MIGRATE'' \<in> {''1'', ''true'', ''TRUE''}"

definition webhookRetryEnabled :: "getenv \<Rightarrow> bool" where
  "webhookRetryEnabled env = (let value = env ''AGENTLAYER_WEBHOOK_RETRY_ENABLED'' in
     if value = [] then True else value \<in> {''1'', ''true'', ''TRUE''})"

definition webhookRetryLimit :: "getenv \<Rightarrow> int" where
  "webhookRetryLimit env = (let value = env ''AGENTLAYER_WEBHOOK_RETRY_LIMIT'' in
     if value = [] then 20
     else case atoi value of Inl _ \<Rightarrow> 20 | Inr limit \<Rightarrow> if limit \<le> 0 then 20 else limit)"

text \<open>The verb \<open>%q\<close> on bytes below 128.\<close>

definition quote_char :: "char \<Rightarrow> string" where
  "quote_char c =
     (if c = CHR 0x22 \<or> c = CHR 0x5C then [CHR 0x5C, c]
      else if 32 \<le> byte_of c \<and> byte_of c < 127 then [c]
      else if 7 \<le> byte_of c \<and> byte_of c \<le> 13 then [CHR 0x5C, ''abtnvfr'' ! (byte_of c - 7)]
      else [CHR 0x5C, CHR ''x''] @ hex_byte c)"

definition quote :: "string \<Rightarrow> string" where
  "quote s = [CHR 0x22] @ concat (map quote_char s) @ [CHR 0x22]"

definition validateEmailProviderConfig :: "getenv \<Rightarrow> gerr + unit" where
  "validateEmailProviderConfig env =
     (if emailProviderType env = ''dev'' then Inr ()
      else if emailProviderType env = ''ses'' then
        (if blank (awsRegion env)
         then Inl (ErrMsg ''AWS_REGION is required when AGENTLAYER_EMAIL_PROVIDER=ses'') else Inr ())
      else Inl (ErrMsg (''unsupported email provider '' @ quote (emailProviderType env))))"

definition validateRawStoreConfig :: "getenv \<Rightarrow> gerr + unit" where
  "validateRawStoreConfig env =
     (if rawStoreType env = ''fs'' then Inr ()
      else if rawStoreType env = ''s3'' then
        (if blank (rawS3Bucket env)
         then Inl (ErrMsg ''AGENTLAYER_S3_BUCKET is required when AGENTLAYER_RAW_STORE=s3'')
         else if blank (awsRegion env)
         then Inl (ErrMsg ''AWS_REGION is required when AGENTLAYER_RAW_STORE=s3'') else Inr ())
      else Inl (ErrMsg (''unsupported raw store '' @ quote (rawStoreType env))))"

definition config_errors :: "gerr + unit \<Rightarrow> gerr list" where
  "config_errors r = (case r of Inl e \<Rightarrow> [e] | Inr _ \<Rightarrow> [])"

definition validateRuntimeConfig :: "getenv \<Rightarrow> gerr list" where
  "validateRuntimeConfig env = config_errors (validateEmailProviderConfig env) @
     (if databaseURL env \<noteq> [] then config_errors (validateRawStoreConfig env) else [])"

section \<open>Email providers\<close>

text \<open>\<open>err.Error()\<close>\<close>

definition error_text :: "gerr \<Rightarrow> string" where
  "error_text e = (case e of
     ErrNotFound what \<Rightarrow> ''not found: '' @ what
   | ErrRecipientSuppressed \<Rightarrow> ''recipient is suppressed''
   | ErrProviderMessageNotFound \<Rightarrow> ''provider message not found''
   | ErrReplayRequestUnavailable \<Rightarrow> ''webhook replay request unavailable''
   | ErrMsg s \<Rightarrow> s
   | ErrExternal s \<Rightarrow> s)"

text \<open>
  The client of the AWS SDK is a parameter: \<open>SendEmail\<close> takes the sender, the recipients and the raw
  message and gives the message id, if the output has one; \<open>GetAccount\<close> answers or fails.
\<close>

record 's ses_client =
  sc_SendEmail :: "string \<Rightarrow> string list \<Rightarrow> string \<Rightarrow> ('s, string option) go"
  sc_GetAccount :: "('s, unit) go"

definition ses_Send ::
    "'z env_scheme ses_client \<Rightarrow> outbound_send_request \<Rightarrow> ('z env_scheme, send_result) go" where
  "ses_Send client request =
     (if os_RawMIME request = [] then go_fail (ErrMsg ''raw mime is required'')
      else if i_EmailAddress (os_Inbox request) = [] then go_fail (ErrMsg ''inbox email address is required'')
      else if c_EmailAddress (os_Contact request) = [] then go_fail (ErrMsg ''contact email address is required'')
      else go_bind (sc_SendEmail client (i_EmailAddress (os_Inbox request)) [c_EmailAddress (os_Contact request)]
             (os_RawMIME request)) (\<lambda>messageId.
           go_bind time_now (\<lambda>now.
           go_ret \<lparr>sr_ProviderMessageID = (case messageId of None \<Rightarrow> [] | Some i \<Rightarrow> i), sr_AcceptedAt = now\<rparr>)))"

definition ses_GetDeliveryStatus :: "string \<Rightarrow> ('z env_scheme, delivery_status) go" where
  "ses_GetDeliveryStatus providerMessageID = go_bind time_now (\<lambda>now.
     go_ret \<lparr>ds_ProviderMessageID = providerMessageID, ds_State = ''accepted'', ds_UpdatedAt = now\<rparr>)"

text \<open>An unhealthy result goes out together with its error, whose text it repeats; only the error is kept here.\<close>

definition ses_HealthCheck :: "'z env_scheme ses_client \<Rightarrow> string \<Rightarrow> ('z env_scheme, provider_health) go" where
  "ses_HealthCheck client region = go_bind (go_try (sc_GetAccount client)) (\<lambda>account. go_bind time_now (\<lambda>now.
     case account of
       Inl err \<Rightarrow> go_fail err
     | Inr _ \<Rightarrow> go_ret \<lparr>ph_ProviderName = ''ses'', ph_Healthy = True, ph_CheckedAt = now,
                       ph_Details = ''region='' @ region\<rparr>))"

definition ses_provider :: "'z env_scheme ses_client \<Rightarrow> string \<Rightarrow> 'z env_scheme email_provider" where
  "ses_provider client region =
     \<lparr>ep_Send = ses_Send client, ep_GetDeliveryStatus = ses_GetDeliveryStatus,
      ep_HealthCheck = ses_HealthCheck client region\<rparr>"

text \<open>
  Loading the AWS configuration, with a region if one is given, makes the client and settles the region, or
  fails.
\<close>

definition ses_NewEmailProvider ::
    "(string option \<Rightarrow> gerr + ('z env_scheme ses_client \<times> string)) \<Rightarrow> string \<Rightarrow> gerr + 'z env_scheme email_provider" where
  "ses_NewEmailProvider load_aws region =
     (case load_aws (if region \<noteq> [] then Some region else None) of
        Inl err \<Rightarrow> Inl err
      | Inr (client, cfg_Region) \<Rightarrow> Inr (ses_provider client cfg_Region))"

text \<open>A configuration that is not valid panics: an \<open>Inl\<close> here is the value of the panic.\<close>

definition newEmailProvider ::
    "(string option \<Rightarrow> gerr + ('z env_scheme ses_client \<times> string)) \<Rightarrow> getenv \<Rightarrow> gerr + 'z env_scheme email_provider" where
  "newEmailProvider load_aws env = (case validateEmailProviderConfig env of
     Inl err \<Rightarrow> Inl err
   | Inr _ \<Rightarrow>
       if emailProviderType env = ''ses'' then ses_NewEmailProvider load_aws (awsRegion env)
       else Inr dev_provider)"

section \<open>Readiness\<close>

record readiness_check =
  rk_Name :: string
  rk_Healthy :: bool
  rk_Details :: string

record readiness_response =
  rr_Ready :: bool
  rr_Checks :: "readiness_check list"

text \<open>The fields of \<open>readinessChecker\<close>; the database is optional, and the email function may panic.\<close>

record 's readiness_checker =
  rn_config :: "gerr list"
  rn_db :: "('s, unit) go option"
  rn_email :: "gerr + 's email_provider"

definition config_checks :: "gerr list \<Rightarrow> readiness_check list" where
  "config_checks errs =
     (if errs \<noteq> []
      then map (\<lambda>err. \<lparr>rk_Name = ''config'', rk_Healthy = False, rk_Details = error_text err\<rparr>) errs
      else [\<lparr>rk_Name = ''config'', rk_Healthy = True, rk_Details = ''validated''\<rparr>])"

definition db_check :: "gerr + unit \<Rightarrow> readiness_check" where
  "db_check ping = (case ping of
     Inl err \<Rightarrow> \<lparr>rk_Name = ''database'', rk_Healthy = False, rk_Details = error_text err\<rparr>
   | Inr _ \<Rightarrow> \<lparr>rk_Name = ''database'', rk_Healthy = True, rk_Details = ''reachable''\<rparr>)"

definition email_check :: "gerr + provider_health \<Rightarrow> readiness_check" where
  "email_check outcome = (case outcome of
     Inl err \<Rightarrow> \<lparr>rk_Name = ''email_provider'', rk_Healthy = False, rk_Details = error_text err\<rparr>
   | Inr health \<Rightarrow> \<lparr>rk_Name = ''email_provider'', rk_Healthy = ph_Healthy health, rk_Details = ph_Details health\<rparr>)"

definition Check :: "'s readiness_checker \<Rightarrow> ('s, readiness_response) go" where
  "Check c =
     go_bind (case rn_db c of
        None \<Rightarrow> go_ret []
      | Some ping \<Rightarrow> go_bind (go_try ping) (\<lambda>r. go_ret [db_check r])) (\<lambda>db.
     go_bind (case rn_email c of
        Inl panic \<Rightarrow> go_fail panic
      | Inr provider \<Rightarrow> go_bind (go_try (ep_HealthCheck provider)) (\<lambda>r. go_ret [email_check r])) (\<lambda>email.
     let checks = config_checks (rn_config c) @ db @ email
     in go_ret \<lparr>rr_Ready = list_all rk_Healthy checks, rr_Checks = checks\<rparr>))"

definition readinessCheck_json :: "readiness_check \<Rightarrow> json" where
  "readinessCheck_json check = JObject
     ([(''name'', JString (rk_Name check)), (''healthy'', JBool (rk_Healthy check))] @
      omit_empty ''details'' (rk_Details check))"

definition readinessResponse_json :: "readiness_response \<Rightarrow> json" where
  "readinessResponse_json response = JObject
     [(''ready'', JBool (rr_Ready response)), (''checks'', JArray (map readinessCheck_json (rr_Checks response)))]"

text \<open>A handler that panics is cut off by \<open>net/http\<close> without a response, status 0 here.\<close>

definition cut_off :: http_out where
  "cut_off = \<lparr>ho_Status = 0, ho_ContentType = [], ho_Body = []\<rparr>"

definition ReadinessHandler :: "'s readiness_checker \<Rightarrow> 's handler" where
  "ReadinessHandler checker request = respond (Check checker) (\<lambda>_. cut_off)
     (\<lambda>response. respond_json (if rr_Ready response then 200 else 503) (readinessResponse_json response))"

text \<open>\<open>newReadinessChecker\<close> over the in-memory store, which has no \<open>PingContext\<close>.\<close>

definition newReadinessChecker ::
    "(string option \<Rightarrow> gerr + ('z env_scheme ses_client \<times> string)) \<Rightarrow> getenv \<Rightarrow> 'z env_scheme readiness_checker" where
  "newReadinessChecker load_aws env =
     \<lparr>rn_config = validateRuntimeConfig env, rn_db = None, rn_email = newEmailProvider load_aws env\<rparr>"

end
