(* ===== verification/Blob_Stores.thy ===== *)
theory Blob_Stores
  imports Server
begin

text \<open>
  Where the bytes of a mail go when the process does not keep them in memory:
  \<open>internal/store/blobfs/store.go\<close> on a file system, \<open>internal/store/blobs3/store.go\<close> on S3, and the
  choice between them (\<open>newRawStore\<close> of \<open>cmd/agentlayer/main.go\<close>). What the file store uses of
  \<open>path/filepath\<close> is that of Unix.
\<close>

section \<open>Paths\<close>

text \<open>
  \<open>filepath.Clean\<close>: the segments left to right, the ones kept so far as a stack. An empty segment and
  \<open>.\<close> are dropped; \<open>..\<close> removes the segment before it, stays in front of a relative path and is dropped
  in front of a rooted one.
\<close>

definition path_step :: "bool \<Rightarrow> string list \<Rightarrow> string \<Rightarrow> string list" where
  "path_step rooted out seg =
     (if seg = [] \<or> seg = ''.'' then out
      else if seg = ''..'' then
        (case out of
           [] \<Rightarrow> if rooted then [] else [''..'']
         | up # rest \<Rightarrow> if up = ''..'' then ''..'' # out else rest)
      else seg # out)"

definition path_rooted :: "string \<Rightarrow> bool" where
  "path_rooted path = has_prefix path ''/''"

definition path_parts :: "string \<Rightarrow> string list" where
  "path_parts path = rev (foldl (path_step (path_rooted path)) [] (split_slash path))"

definition path_Clean :: "string \<Rightarrow> string" where
  "path_Clean path =
     (let body = join (path_parts path) ''/''
      in if path_rooted path then CHR ''/'' # body else if path_parts path = [] then ''.'' else body)"

definition path_Join :: "string list \<Rightarrow> string" where
  "path_Join elems =
     (let parts = filter (\<lambda>e. e \<noteq> []) elems
      in if parts = [] then [] else path_Clean (join parts ''/''))"

definition path_Dir :: "string \<Rightarrow> string" where
  "path_Dir path = path_Clean (rev (dropWhile (\<lambda>c. c \<noteq> CHR ''/'') (rev path)))"

section \<open>The file store\<close>

text \<open>The first argument is the field \<open>root\<close> of the store.\<close>

definition objectPath :: "string \<Rightarrow> string \<Rightarrow> gerr + string" where
  "objectPath root objectKey =
     (let cleaned = path_Clean (trim_space objectKey)
      in if cleaned = ''.'' \<or> cleaned = [] then Inl (ErrMsg ''object key is required'')
         else if path_rooted cleaned \<or> cleaned = ''..'' \<or> has_prefix cleaned ''../''
           then Inl (ErrMsg ''object key must stay within blob store root'')
         else Inr (path_Join [root, cleaned]))"

text \<open>
  The file system: the contents of the files by path. The \<open>i\<close>-th call of the operating system fails
  with \<open>disk_fault i\<close>, if that is an error (a full disk, a missing permission, a path that runs
  through a file); a write that fails may leave something in the file, the second component.
  Directories need no state of their own then.
\<close>

record disk_world = world +
  disk_files :: "string gmap"
  disk_fault :: "nat \<Rightarrow> (string \<times> string option) option"
  disk_ix :: nat

definition os_MkdirAll :: "string \<Rightarrow> ('z disk_world_scheme, unit) go" where
  "os_MkdirAll dir = (\<lambda>w.
     (case disk_fault w (disk_ix w) of Some (e, _) \<Rightarrow> Inl (ErrExternal e) | None \<Rightarrow> Inr (),
      w\<lparr>disk_ix := Suc (disk_ix w)\<rparr>))"

definition os_WriteFile :: "string \<Rightarrow> string \<Rightarrow> ('z disk_world_scheme, unit) go" where
  "os_WriteFile path data = (\<lambda>w. let w' = w\<lparr>disk_ix := Suc (disk_ix w)\<rparr> in
     (case disk_fault w (disk_ix w) of
        None \<Rightarrow> (Inr (), w'\<lparr>disk_files := gput path data (disk_files w)\<rparr>)
      | Some (e, None) \<Rightarrow> (Inl (ErrExternal e), w')
      | Some (e, Some remains) \<Rightarrow> (Inl (ErrExternal e), w'\<lparr>disk_files := gput path remains (disk_files w)\<rparr>)))"

text \<open>\<open>None\<close> is \<open>os.ErrNotExist\<close>.\<close>

definition os_ReadFile :: "string \<Rightarrow> ('z disk_world_scheme, string option) go" where
  "os_ReadFile path = (\<lambda>w.
     (case disk_fault w (disk_ix w) of Some (e, _) \<Rightarrow> Inl (ErrExternal e) | None \<Rightarrow> Inr (map_of (disk_files w) path),
      w\<lparr>disk_ix := Suc (disk_ix w)\<rparr>))"

definition blobfs_Put :: "string \<Rightarrow> string \<Rightarrow> string \<Rightarrow> ('z disk_world_scheme, unit) go" where
  "blobfs_Put root objectKey data =
     go_bind (go_lift (objectPath root objectKey)) (\<lambda>path.
     go_bind (os_MkdirAll (path_Dir path)) (\<lambda>_.
     os_WriteFile path data))"

definition blobfs_Get :: "string \<Rightarrow> string \<Rightarrow> ('z disk_world_scheme, string) go" where
  "blobfs_Get root objectKey =
     go_bind (go_lift (objectPath root objectKey)) (\<lambda>path.
     go_bind (os_ReadFile path) (\<lambda>found. case found of
       None \<Rightarrow> go_fail (ErrNotFound [])
     | Some data \<Rightarrow> go_ret data))"

section \<open>The S3 store\<close>

text \<open>
  The client of the AWS SDK is a parameter. \<open>GetObject\<close> gives a body, which can fail while it is read,
  or an error, which is an \<open>smithy.APIError\<close> with a code or is none.
\<close>

datatype s3_get = S3_Body "gerr + string" | S3_APIError string gerr | S3_Error gerr

record 's s3_client =
  s3_PutObject :: "string \<Rightarrow> string \<Rightarrow> string \<Rightarrow> int \<Rightarrow> ('s, unit) go"
  s3_GetObject :: "string \<Rightarrow> string \<Rightarrow> ('s, s3_get) go"

record blobs3_config =
  bc_Region :: string
  bc_Bucket :: string
  bc_Endpoint :: string
  bc_PathStyle :: bool
  bc_AccessKeyID :: string
  bc_SecretAccessKey :: string

record 's blobs3_store =
  bs_client :: "'s s3_client"
  bs_bucket :: string

text \<open>Loading the AWS configuration takes the region, the static credentials if there are some, the path
  style and the base endpoint if there is one.\<close>

type_synonym 's load_s3 = "string \<Rightarrow> (string \<times> string) option \<Rightarrow> bool \<Rightarrow> string option \<Rightarrow> gerr + 's s3_client"

definition blobs3_NewStore :: "'s load_s3 \<Rightarrow> blobs3_config \<Rightarrow> gerr + 's blobs3_store" where
  "blobs3_NewStore load cfg =
     (if blank (bc_Region cfg) then Inl (ErrMsg ''region is required'')
      else if blank (bc_Bucket cfg) then Inl (ErrMsg ''bucket is required'')
      else (case load (bc_Region cfg)
                 (if bc_AccessKeyID cfg \<noteq> [] \<or> bc_SecretAccessKey cfg \<noteq> []
                  then Some (bc_AccessKeyID cfg, bc_SecretAccessKey cfg) else None)
                 (bc_PathStyle cfg) (if blank (bc_Endpoint cfg) then None else Some (bc_Endpoint cfg)) of
              Inl e \<Rightarrow> Inl e
            | Inr client \<Rightarrow> Inr \<lparr>bs_client = client, bs_bucket = bc_Bucket cfg\<rparr>))"

definition blobs3_Put :: "'s blobs3_store \<Rightarrow> string \<Rightarrow> string \<Rightarrow> ('s, unit) go" where
  "blobs3_Put s objectKey data =
     (if blank objectKey then go_fail (ErrMsg ''object key is required'')
      else s3_PutObject (bs_client s) (bs_bucket s) objectKey data (int (length data)))"

definition blobs3_Get :: "'s blobs3_store \<Rightarrow> string \<Rightarrow> ('s, string) go" where
  "blobs3_Get s objectKey =
     (if blank objectKey then go_fail (ErrMsg ''object key is required'')
      else go_bind (s3_GetObject (bs_client s) (bs_bucket s) objectKey) (\<lambda>output. case output of
        S3_APIError code e \<Rightarrow>
          if code = ''NoSuchKey'' \<or> code = ''NotFound'' then go_fail (ErrNotFound []) else go_fail e
      | S3_Error e \<Rightarrow> go_fail e
      | S3_Body body \<Rightarrow> go_lift body))"

section \<open>The choice\<close>

record 's raw_store =
  raw_Put :: "string \<Rightarrow> string \<Rightarrow> ('s, unit) go"
  raw_Get :: "string \<Rightarrow> ('s, string) go"

definition blobfs_NewStore :: "string \<Rightarrow> 'z disk_world_scheme raw_store" where
  "blobfs_NewStore root = \<lparr>raw_Put = blobfs_Put root, raw_Get = blobfs_Get root\<rparr>"

definition rawS3Endpoint :: "getenv \<Rightarrow> string" where
  "rawS3Endpoint env = env ''AGENTLAYER_S3_ENDPOINT''"

definition rawS3AccessKeyID :: "getenv \<Rightarrow> string" where
  "rawS3AccessKeyID env = env ''AGENTLAYER_S3_ACCESS_KEY_ID''"

definition rawS3SecretAccessKey :: "getenv \<Rightarrow> string" where
  "rawS3SecretAccessKey env = env ''AGENTLAYER_S3_SECRET_ACCESS_KEY''"

definition newRawStore ::
    "'z disk_world_scheme load_s3 \<Rightarrow> getenv \<Rightarrow> gerr + ('z disk_world_scheme raw_store \<times> string)" where
  "newRawStore load env =
     (if rawStoreType env = ''fs'' then
        Inr (blobfs_NewStore (rawDataDir env), ''fs:'' @ rawDataDir env)
      else if rawStoreType env = ''s3'' then
        (case blobs3_NewStore load
            \<lparr>bc_Region = awsRegion env, bc_Bucket = rawS3Bucket env, bc_Endpoint = rawS3Endpoint env,
             bc_PathStyle = rawS3PathStyle env, bc_AccessKeyID = rawS3AccessKeyID env,
             bc_SecretAccessKey = rawS3SecretAccessKey env\<rparr> of
           Inl e \<Rightarrow> Inl e
         | Inr store \<Rightarrow> Inr (\<lparr>raw_Put = blobs3_Put store, raw_Get = blobs3_Get store\<rparr>,
             ''s3:'' @ rawS3Bucket env @
             (if rawS3Endpoint env \<noteq> [] then ''@'' @ rawS3Endpoint env else [])))
      else Inl (ErrMsg (''unsupported raw store '' @ quote (rawStoreType env))))"

end
