(* ===== verification/Store_Models.thy ===== *)
theory Store_Models
  imports Receipt Json_Decode "HOL-Library.Char_ord" "HOL-Library.List_Lexorder"
begin

text \<open>
  The row models of the SQL store and the conversions between them and the domain records:
  \<open>internal/store/models.go\<close> and \<open>internal/store/convert.go\<close>. A copied slice
  (\<open>append([]T(nil), xs...)\<close>) is nil exactly when it is empty, so a slice of a model is a list.
\<close>

section \<open>Row models\<close>

record organization_model =
  org_ID :: string
  org_Name :: string
  org_CreatedAt :: gtime
  org_UpdatedAt :: gtime

record agent_model =
  agt_ID :: string
  agt_OrganizationID :: string
  agt_Name :: string
  agt_Status :: string
  agt_WebhookURL :: string
  agt_WebhookSecret :: string
  agt_CreatedAt :: gtime
  agt_UpdatedAt :: gtime

record inbox_model =
  ibx_ID :: string
  ibx_OrganizationID :: string
  ibx_AgentID :: string
  ibx_EmailAddress :: string
  ibx_Domain :: string
  ibx_DisplayName :: string
  ibx_OutboundIdentity :: string
  ibx_CreatedAt :: gtime
  ibx_UpdatedAt :: gtime

record contact_model =
  con_ID :: string
  con_OrganizationID :: string
  con_EmailAddress :: string
  con_DisplayName :: string
  con_LastSeenAt :: gtime
  con_CreatedAt :: gtime
  con_UpdatedAt :: gtime

record thread_model =
  thr_ID :: string
  thr_OrganizationID :: string
  thr_AgentID :: string
  thr_InboxID :: string
  thr_ContactID :: string
  thr_SubjectNormalized :: string
  thr_State :: string
  thr_LastInboundID :: string
  thr_LastOutboundID :: string
  thr_LastActivityAt :: gtime
  thr_CreatedAt :: gtime
  thr_UpdatedAt :: gtime

record message_model =
  msg_ID :: string
  msg_OrganizationID :: string
  msg_ThreadID :: string
  msg_InboxID :: string
  msg_ContactID :: string
  msg_Direction :: string
  msg_Subject :: string
  msg_SubjectNormalized :: string
  msg_MessageIDHeader :: string
  msg_InReplyTo :: string
  msg_References :: "string list"
  msg_TextBody :: string
  msg_HTMLBody :: string
  msg_RawMIMEObjectKey :: string
  msg_ProviderMessageID :: string
  msg_DeliveryState :: string
  msg_SentAt :: gtime
  msg_DeliveredAt :: gtime
  msg_BouncedAt :: gtime
  msg_CreatedAt :: gtime

record message_attachment_model =
  att_ID :: string
  att_MessageID :: string
  att_FileName :: string
  att_ContentType :: string
  att_ObjectKey :: string
  att_SizeBytes :: int
  att_ContentID :: string
  att_Disposition :: string
  att_CreatedAt :: gtime

record contact_memory_model =
  cmm_ID :: string
  cmm_OrganizationID :: string
  cmm_ContactID :: string
  cmm_ThreadID :: string
  cmm_Note :: string
  cmm_Tags :: "string list"
  cmm_CreatedAt :: gtime

record inbound_receipt_model =
  rcv_RawMessageObjectKey :: string
  rcv_SMTPTransactionID :: string
  rcv_OrganizationID :: string
  rcv_AgentID :: string
  rcv_InboxID :: string
  rcv_EnvelopeSender :: string
  rcv_EnvelopeRecipients :: "string list"
  rcv_ReceivedAt :: gtime
  rcv_CreatedAt :: gtime

record webhook_delivery_model =
  dlv_ID :: string
  dlv_OrganizationID :: string
  dlv_AgentID :: string
  dlv_EventType :: string
  dlv_EventID :: string
  dlv_RequestURL :: string
  dlv_RequestPayload :: string
  dlv_RequestHeaders :: string
  dlv_Status :: string
  dlv_AttemptCount :: int
  dlv_LastAttemptAt :: gtime
  dlv_NextAttemptAt :: gtime
  dlv_ResponseCode :: int
  dlv_ResponseBody :: string
  dlv_CreatedAt :: gtime
  dlv_UpdatedAt :: gtime

record suppressed_address_model =
  sup_ID :: string
  sup_OrganizationID :: string
  sup_EmailAddress :: string
  sup_Reason :: string
  sup_Source :: string
  sup_CreatedAt :: gtime
  sup_UpdatedAt :: gtime

record provider_config_model =
  pcf_ID :: string
  pcf_OrganizationID :: string
  pcf_ProviderType :: string
  pcf_IsDefault :: bool
  pcf_ConfigJSON :: string
  pcf_CreatedAt :: gtime
  pcf_UpdatedAt :: gtime

record audit_log_model =
  aud_ID :: string
  aud_OrganizationID :: string
  aud_EventType :: string
  aud_ActorType :: string
  aud_ActorID :: string
  aud_ResourceType :: string
  aud_ResourceID :: string
  aud_PayloadJSON :: string
  aud_CreatedAt :: gtime

text \<open>The one domain record only the conversions use (\<open>domain.ProviderConfig\<close>).\<close>

record provider_config =
  pv_ID :: string
  pv_OrganizationID :: string
  pv_ProviderType :: string
  pv_IsDefault :: bool
  pv_CreatedAt :: gtime
  pv_UpdatedAt :: gtime

section \<open>Maps of strings as JSON\<close>

text \<open>
  \<open>json.Marshal\<close> of a \<open>map[string]string\<close>: \<open>null\<close> for the nil map, which is the only map without
  entries the code makes (\<open>copyHeaders\<close>), else the entries sorted by key. It cannot fail.
\<close>

definition string_map_json :: "string gmap \<Rightarrow> json" where
  "string_map_json m =
     (if m = [] then JNull else JObject (map (\<lambda>(k, v). (k, JString v)) (sort_key fst m)))"

definition Marshal_string_map :: "string gmap \<Rightarrow> gerr + string" where
  "Marshal_string_map m = Inr (json_encode (string_map_json m))"

text \<open>\<open>json.Unmarshal\<close> into a \<open>map[string]string\<close>: later members win, a \<open>null\<close> member is the empty
  string, any other value is an error.\<close>

fun string_members :: "(string \<times> json) list \<Rightarrow> string gmap \<Rightarrow> gerr + string gmap" where
  "string_members [] m = Inr m"
| "string_members ((k, v) # rest) m =
     (case v of
        JString s \<Rightarrow> string_members rest (gput k s m)
      | JNull \<Rightarrow> string_members rest (gput k [] m)
      | _ \<Rightarrow> Inl (ErrExternal ''json: cannot unmarshal''))"

definition json_string_map :: "json \<Rightarrow> gerr + string gmap" where
  "json_string_map v = (case v of
     JObject fs \<Rightarrow> string_members fs []
   | JNull \<Rightarrow> Inr []
   | _ \<Rightarrow> Inl (ErrExternal ''json: cannot unmarshal''))"

definition Unmarshal_string_map :: "string \<Rightarrow> gerr + string gmap" where
  "Unmarshal_string_map s = (case Unmarshal_value s of Inl e \<Rightarrow> Inl e | Inr v \<Rightarrow> json_string_map v)"

section \<open>Conversions\<close>

definition OrganizationToModel :: "organization \<Rightarrow> organization_model" where
  "OrganizationToModel organization =
     \<lparr>org_ID = o_ID organization, org_Name = o_Name organization,
      org_CreatedAt = o_CreatedAt organization, org_UpdatedAt = o_UpdatedAt organization\<rparr>"

definition OrganizationFromModel :: "organization_model \<Rightarrow> organization" where
  "OrganizationFromModel model =
     \<lparr>o_ID = org_ID model, o_Name = org_Name model, o_CreatedAt = org_CreatedAt model,
      o_UpdatedAt = org_UpdatedAt model\<rparr>"

definition AgentToModel :: "agent \<Rightarrow> agent_model" where
  "AgentToModel agent =
     \<lparr>agt_ID = ag_ID agent, agt_OrganizationID = ag_OrganizationID agent,
      agt_Name = ag_Name agent, agt_Status = ag_Status agent,
      agt_WebhookURL = ag_WebhookURL agent, agt_WebhookSecret = ag_WebhookSecret agent,
      agt_CreatedAt = ag_CreatedAt agent, agt_UpdatedAt = ag_UpdatedAt agent\<rparr>"

definition AgentFromModel :: "agent_model \<Rightarrow> agent" where
  "AgentFromModel model =
     \<lparr>ag_ID = agt_ID model, ag_OrganizationID = agt_OrganizationID model,
      ag_Name = agt_Name model, ag_Status = agt_Status model,
      ag_WebhookURL = agt_WebhookURL model, ag_WebhookSecret = agt_WebhookSecret model,
      ag_CreatedAt = agt_CreatedAt model, ag_UpdatedAt = agt_UpdatedAt model\<rparr>"

definition InboxToModel :: "inbox \<Rightarrow> inbox_model" where
  "InboxToModel inbox =
     \<lparr>ibx_ID = i_ID inbox, ibx_OrganizationID = i_OrganizationID inbox,
      ibx_AgentID = i_AgentID inbox, ibx_EmailAddress = i_EmailAddress inbox,
      ibx_Domain = i_Domain inbox, ibx_DisplayName = i_DisplayName inbox,
      ibx_OutboundIdentity = i_OutboundIdentity inbox, ibx_CreatedAt = i_CreatedAt inbox,
      ibx_UpdatedAt = i_UpdatedAt inbox\<rparr>"

definition InboxFromModel :: "inbox_model \<Rightarrow> inbox" where
  "InboxFromModel model =
     \<lparr>i_ID = ibx_ID model, i_OrganizationID = ibx_OrganizationID model,
      i_AgentID = ibx_AgentID model, i_EmailAddress = ibx_EmailAddress model,
      i_Domain = ibx_Domain model, i_DisplayName = ibx_DisplayName model,
      i_OutboundIdentity = ibx_OutboundIdentity model, i_CreatedAt = ibx_CreatedAt model,
      i_UpdatedAt = ibx_UpdatedAt model\<rparr>"

definition ContactToModel :: "contact \<Rightarrow> contact_model" where
  "ContactToModel contact =
     \<lparr>con_ID = c_ID contact, con_OrganizationID = c_OrganizationID contact,
      con_EmailAddress = c_EmailAddress contact, con_DisplayName = c_DisplayName contact,
      con_LastSeenAt = c_LastSeenAt contact, con_CreatedAt = c_CreatedAt contact,
      con_UpdatedAt = c_UpdatedAt contact\<rparr>"

definition ContactFromModel :: "contact_model \<Rightarrow> contact" where
  "ContactFromModel model =
     \<lparr>c_ID = con_ID model, c_OrganizationID = con_OrganizationID model,
      c_EmailAddress = con_EmailAddress model, c_DisplayName = con_DisplayName model,
      c_LastSeenAt = con_LastSeenAt model, c_CreatedAt = con_CreatedAt model,
      c_UpdatedAt = con_UpdatedAt model\<rparr>"

definition ThreadToModel :: "thread \<Rightarrow> thread_model" where
  "ThreadToModel thread =
     \<lparr>thr_ID = t_ID thread, thr_OrganizationID = t_OrganizationID thread,
      thr_AgentID = t_AgentID thread, thr_InboxID = t_InboxID thread,
      thr_ContactID = t_ContactID thread, thr_SubjectNormalized = t_SubjectNormalized thread,
      thr_State = t_State thread, thr_LastInboundID = t_LastInboundID thread,
      thr_LastOutboundID = t_LastOutboundID thread, thr_LastActivityAt = t_LastActivityAt thread,
      thr_CreatedAt = t_CreatedAt thread, thr_UpdatedAt = t_UpdatedAt thread\<rparr>"

definition ThreadFromModel :: "thread_model \<Rightarrow> thread" where
  "ThreadFromModel model =
     \<lparr>t_ID = thr_ID model, t_OrganizationID = thr_OrganizationID model,
      t_AgentID = thr_AgentID model, t_InboxID = thr_InboxID model,
      t_ContactID = thr_ContactID model, t_SubjectNormalized = thr_SubjectNormalized model,
      t_State = thr_State model, t_LastInboundID = thr_LastInboundID model,
      t_LastOutboundID = thr_LastOutboundID model, t_LastActivityAt = thr_LastActivityAt model,
      t_CreatedAt = thr_CreatedAt model, t_UpdatedAt = thr_UpdatedAt model\<rparr>"

definition MessageToModel :: "message \<Rightarrow> message_model" where
  "MessageToModel message =
     \<lparr>msg_ID = m_ID message, msg_OrganizationID = m_OrganizationID message,
      msg_ThreadID = m_ThreadID message, msg_InboxID = m_InboxID message,
      msg_ContactID = m_ContactID message, msg_Direction = m_Direction message,
      msg_Subject = m_Subject message, msg_SubjectNormalized = m_SubjectNormalized message,
      msg_MessageIDHeader = m_MessageIDHeader message, msg_InReplyTo = m_InReplyTo message,
      msg_References = m_References message, msg_TextBody = m_TextBody message,
      msg_HTMLBody = m_HTMLBody message, msg_RawMIMEObjectKey = m_RawMIMEObjectKey message,
      msg_ProviderMessageID = m_ProviderMessageID message,
      msg_DeliveryState = m_DeliveryState message, msg_SentAt = m_SentAt message,
      msg_DeliveredAt = m_DeliveredAt message, msg_BouncedAt = m_BouncedAt message,
      msg_CreatedAt = m_CreatedAt message\<rparr>"

definition MessageFromModel :: "message_model \<Rightarrow> message" where
  "MessageFromModel model =
     \<lparr>m_ID = msg_ID model, m_OrganizationID = msg_OrganizationID model,
      m_ThreadID = msg_ThreadID model, m_InboxID = msg_InboxID model,
      m_ContactID = msg_ContactID model, m_Direction = msg_Direction model,
      m_Subject = msg_Subject model, m_SubjectNormalized = msg_SubjectNormalized model,
      m_MessageIDHeader = msg_MessageIDHeader model, m_InReplyTo = msg_InReplyTo model,
      m_References = msg_References model, m_TextBody = msg_TextBody model,
      m_HTMLBody = msg_HTMLBody model, m_RawMIMEObjectKey = msg_RawMIMEObjectKey model,
      m_DeliveryState = msg_DeliveryState model,
      m_ProviderMessageID = msg_ProviderMessageID model, m_SentAt = msg_SentAt model,
      m_DeliveredAt = msg_DeliveredAt model, m_BouncedAt = msg_BouncedAt model,
      m_CreatedAt = msg_CreatedAt model\<rparr>"

definition ContactMemoryToModel :: "contact_memory_entry \<Rightarrow> string \<Rightarrow> contact_memory_model" where
  "ContactMemoryToModel entry organizationID =
     \<lparr>cmm_ID = cm_ID entry, cmm_OrganizationID = organizationID,
      cmm_ContactID = cm_ContactID entry, cmm_ThreadID = cm_ThreadID entry,
      cmm_Note = cm_Note entry,
      cmm_Tags = (case cm_Tags entry of None \<Rightarrow> [] | Some tags \<Rightarrow> tags),
      cmm_CreatedAt = cm_CreatedAt entry\<rparr>"

definition ContactMemoryFromModel :: "contact_memory_model \<Rightarrow> contact_memory_entry" where
  "ContactMemoryFromModel model =
     \<lparr>cm_ID = cmm_ID model, cm_ContactID = cmm_ContactID model, cm_ThreadID = cmm_ThreadID model,
      cm_Note = cmm_Note model,
      cm_Tags = (if cmm_Tags model = [] then None else Some (cmm_Tags model)),
      cm_CreatedAt = cmm_CreatedAt model\<rparr>"

definition InboundReceiptToModel :: "durable_receipt_request \<Rightarrow> inbound_receipt_model" where
  "InboundReceiptToModel receipt =
     \<lparr>rcv_RawMessageObjectKey = dr_RawMessageObjectKey receipt,
      rcv_SMTPTransactionID = dr_SMTPTransactionID receipt,
      rcv_OrganizationID = dr_OrganizationID receipt, rcv_AgentID = dr_AgentID receipt,
      rcv_InboxID = dr_InboxID receipt, rcv_EnvelopeSender = dr_EnvelopeSender receipt,
      rcv_EnvelopeRecipients = dr_EnvelopeRecipients receipt,
      rcv_ReceivedAt = dr_ReceivedAt receipt, rcv_CreatedAt = dr_ReceivedAt receipt\<rparr>"

definition InboundReceiptFromModel :: "inbound_receipt_model \<Rightarrow> durable_receipt_request" where
  "InboundReceiptFromModel model =
     \<lparr>dr_SMTPTransactionID = rcv_SMTPTransactionID model,
      dr_OrganizationID = rcv_OrganizationID model, dr_AgentID = rcv_AgentID model,
      dr_InboxID = rcv_InboxID model, dr_EnvelopeSender = rcv_EnvelopeSender model,
      dr_EnvelopeRecipients = rcv_EnvelopeRecipients model,
      dr_RawMessageObjectKey = rcv_RawMessageObjectKey model,
      dr_ReceivedAt = rcv_ReceivedAt model\<rparr>"

definition WebhookDeliveryToModel :: "webhook_delivery \<Rightarrow> gerr + webhook_delivery_model" where
  "WebhookDeliveryToModel delivery = (case Marshal_string_map (wd_RequestHeaders delivery) of
     Inl e \<Rightarrow> Inl e
   | Inr headers \<Rightarrow> Inr
      \<lparr>dlv_ID = wd_ID delivery, dlv_OrganizationID = wd_OrganizationID delivery,
       dlv_AgentID = wd_AgentID delivery, dlv_EventType = wd_EventType delivery,
       dlv_EventID = wd_EventID delivery, dlv_RequestURL = wd_RequestURL delivery,
       dlv_RequestPayload = wd_RequestPayload delivery, dlv_RequestHeaders = headers,
       dlv_Status = wd_Status delivery, dlv_AttemptCount = wd_AttemptCount delivery,
       dlv_LastAttemptAt = wd_LastAttemptAt delivery,
       dlv_NextAttemptAt = wd_NextAttemptAt delivery,
       dlv_ResponseCode = wd_ResponseCode delivery, dlv_ResponseBody = wd_ResponseBody delivery,
       dlv_CreatedAt = wd_CreatedAt delivery, dlv_UpdatedAt = wd_UpdatedAt delivery\<rparr>)"

definition WebhookDeliveryFromModel :: "webhook_delivery_model \<Rightarrow> gerr + webhook_delivery" where
  "WebhookDeliveryFromModel model =
     (case (if 0 < length (dlv_RequestHeaders model) then Unmarshal_string_map (dlv_RequestHeaders model)
            else Inr []) of
        Inl e \<Rightarrow> Inl e
      | Inr headers \<Rightarrow> Inr
         \<lparr>wd_ID = dlv_ID model, wd_OrganizationID = dlv_OrganizationID model,
          wd_AgentID = dlv_AgentID model, wd_EventType = dlv_EventType model,
          wd_EventID = dlv_EventID model, wd_RequestURL = dlv_RequestURL model,
          wd_RequestPayload = dlv_RequestPayload model, wd_RequestHeaders = headers,
          wd_Status = dlv_Status model, wd_AttemptCount = dlv_AttemptCount model,
          wd_ResponseCode = dlv_ResponseCode model, wd_ResponseBody = dlv_ResponseBody model,
          wd_LastAttemptAt = dlv_LastAttemptAt model, wd_NextAttemptAt = dlv_NextAttemptAt model,
          wd_CreatedAt = dlv_CreatedAt model, wd_UpdatedAt = dlv_UpdatedAt model\<rparr>)"

definition SuppressedAddressToModel :: "suppressed_address \<Rightarrow> suppressed_address_model" where
  "SuppressedAddressToModel address =
     \<lparr>sup_ID = sa_ID address, sup_OrganizationID = sa_OrganizationID address,
      sup_EmailAddress = sa_EmailAddress address, sup_Reason = sa_Reason address,
      sup_Source = sa_Source address, sup_CreatedAt = sa_CreatedAt address,
      sup_UpdatedAt = sa_UpdatedAt address\<rparr>"

definition SuppressedAddressFromModel :: "suppressed_address_model \<Rightarrow> suppressed_address" where
  "SuppressedAddressFromModel model =
     \<lparr>sa_ID = sup_ID model, sa_OrganizationID = sup_OrganizationID model,
      sa_EmailAddress = sup_EmailAddress model, sa_Reason = sup_Reason model,
      sa_Source = sup_Source model, sa_CreatedAt = sup_CreatedAt model,
      sa_UpdatedAt = sup_UpdatedAt model\<rparr>"

definition ProviderConfigToModel :: "provider_config \<Rightarrow> string \<Rightarrow> provider_config_model" where
  "ProviderConfigToModel config configJSON =
     \<lparr>pcf_ID = pv_ID config, pcf_OrganizationID = pv_OrganizationID config,
      pcf_ProviderType = pv_ProviderType config, pcf_IsDefault = pv_IsDefault config,
      pcf_ConfigJSON = configJSON, pcf_CreatedAt = pv_CreatedAt config,
      pcf_UpdatedAt = pv_UpdatedAt config\<rparr>"

definition ProviderConfigFromModel :: "provider_config_model \<Rightarrow> provider_config" where
  "ProviderConfigFromModel model =
     \<lparr>pv_ID = pcf_ID model, pv_OrganizationID = pcf_OrganizationID model,
      pv_ProviderType = pcf_ProviderType model, pv_IsDefault = pcf_IsDefault model,
      pv_CreatedAt = pcf_CreatedAt model, pv_UpdatedAt = pcf_UpdatedAt model\<rparr>"

lemmas to_model_defs = OrganizationToModel_def AgentToModel_def InboxToModel_def
  ContactToModel_def ThreadToModel_def MessageToModel_def ContactMemoryToModel_def
  InboundReceiptToModel_def WebhookDeliveryToModel_def SuppressedAddressToModel_def
  ProviderConfigToModel_def

lemmas from_model_defs = OrganizationFromModel_def AgentFromModel_def InboxFromModel_def
  ContactFromModel_def ThreadFromModel_def MessageFromModel_def ContactMemoryFromModel_def
  InboundReceiptFromModel_def WebhookDeliveryFromModel_def SuppressedAddressFromModel_def
  ProviderConfigFromModel_def

end
