(* ===== verification/Postgres_Tables.thy ===== *)
theory Postgres_Tables
  imports Blob_Stores Store_Models
begin

text \<open>
  The database under the SQL store (\<open>internal/store/postgres\<close>): the tables of
  \<open>db/migrations/0001_v0_core.sql\<close> with their constraints, and the statements on them. A statement is
  a function on the tables, with the meaning its text has in SQL; what the database and the driver add
  to it is a parameter (\<open>pg_params\<close>, \<open>sql_fault\<close>).
\<close>

section \<open>Tables\<close>

text \<open>
  A row of a table whose columns are all \<open>TEXT NOT NULL\<close> or \<open>TIMESTAMPTZ NOT NULL\<close> is the row model
  itself. The other tables have columns of their own: nullable times, arrays and JSON documents, the last
  two as the text a reader gets.
\<close>

record message_row =
  mr_id :: string
  mr_organization_id :: string
  mr_thread_id :: string
  mr_inbox_id :: string
  mr_contact_id :: string
  mr_direction :: string
  mr_subject :: string
  mr_subject_normalized :: string
  mr_message_id_header :: string
  mr_in_reply_to :: string
  mr_references_headers :: string
  mr_text_body :: string
  mr_html_body :: string
  mr_raw_mime_object_key :: string
  mr_provider_message_id :: string
  mr_delivery_state :: string
  mr_sent_at :: "gtime option"
  mr_delivered_at :: "gtime option"
  mr_bounced_at :: "gtime option"
  mr_created_at :: gtime

record reply_submission_row =
  rp_submission_key :: string
  rp_message_id :: string
  rp_created_at :: gtime

record contact_memory_row =
  my_id :: string
  my_organization_id :: string
  my_contact_id :: string
  my_thread_id :: string
  my_note :: string
  my_tags :: string
  my_created_at :: gtime

record inbound_receipt_row =
  rx_raw_message_object_key :: string
  rx_smtp_transaction_id :: string
  rx_organization_id :: string
  rx_agent_id :: string
  rx_inbox_id :: string
  rx_envelope_sender :: string
  rx_envelope_recipients :: string
  rx_received_at :: gtime
  rx_created_at :: gtime

record webhook_delivery_row =
  dl_id :: string
  dl_organization_id :: string
  dl_agent_id :: string
  dl_event_type :: string
  dl_event_id :: string
  dl_request_url :: string
  dl_request_payload :: string
  dl_request_headers :: string
  dl_status :: string
  dl_attempt_count :: int
  dl_last_attempt_at :: "gtime option"
  dl_next_attempt_at :: "gtime option"
  dl_response_code :: int
  dl_response_body :: string
  dl_created_at :: gtime
  dl_updated_at :: gtime

text \<open>The tables the store writes; \<open>message_attachments\<close>, \<open>provider_configs\<close> and \<open>audit_log\<close> stay empty.\<close>

record pg_tables =
  tb_organizations :: "organization_model list"
  tb_agents :: "agent_model list"
  tb_inboxes :: "inbox_model list"
  tb_contacts :: "contact_model list"
  tb_threads :: "thread_model list"
  tb_messages :: "message_row list"
  tb_reply_submissions :: "reply_submission_row list"
  tb_contact_memory :: "contact_memory_row list"
  tb_inbound_receipts :: "inbound_receipt_row list"
  tb_webhook_deliveries :: "webhook_delivery_row list"
  tb_suppressed_addresses :: "suppressed_address_model list"

definition empty_tables :: pg_tables where
  "empty_tables = \<lparr>tb_organizations = [], tb_agents = [], tb_inboxes = [], tb_contacts = [], tb_threads = [],
     tb_messages = [], tb_reply_submissions = [], tb_contact_memory = [], tb_inbound_receipts = [],
     tb_webhook_deliveries = [], tb_suppressed_addresses = []\<rparr>"

section \<open>Constraints\<close>

definition unique_by :: "('r \<Rightarrow> 'k) \<Rightarrow> 'r list \<Rightarrow> bool" where
  "unique_by key rows \<longleftrightarrow> distinct (map key rows)"

definition references :: "('r \<Rightarrow> string) \<Rightarrow> 'r list \<Rightarrow> ('t \<Rightarrow> string) \<Rightarrow> 't list \<Rightarrow> bool" where
  "references col rows key targets \<longleftrightarrow> list_all (\<lambda>r. col r \<in> set (map key targets)) rows"

text \<open>Primary keys, \<open>UNIQUE\<close> constraints and the two partial unique indexes on messages.\<close>

definition unique_constraints :: "pg_tables \<Rightarrow> bool" where
  "unique_constraints ts \<longleftrightarrow>
     unique_by org_ID (tb_organizations ts) \<and> unique_by agt_ID (tb_agents ts) \<and>
     unique_by ibx_ID (tb_inboxes ts) \<and>
     unique_by (\<lambda>r. (ibx_OrganizationID r, ibx_EmailAddress r)) (tb_inboxes ts) \<and>
     unique_by con_ID (tb_contacts ts) \<and>
     unique_by (\<lambda>r. (con_OrganizationID r, con_EmailAddress r)) (tb_contacts ts) \<and>
     unique_by thr_ID (tb_threads ts) \<and> unique_by mr_id (tb_messages ts) \<and>
     unique_by mr_provider_message_id (filter (\<lambda>r. mr_provider_message_id r \<noteq> []) (tb_messages ts)) \<and>
     unique_by (\<lambda>r. (mr_inbox_id r, mr_message_id_header r))
       (filter (\<lambda>r. mr_message_id_header r \<noteq> []) (tb_messages ts)) \<and>
     unique_by rp_submission_key (tb_reply_submissions ts) \<and> unique_by my_id (tb_contact_memory ts) \<and>
     unique_by rx_raw_message_object_key (tb_inbound_receipts ts) \<and>
     unique_by dl_id (tb_webhook_deliveries ts) \<and>
     unique_by sup_ID (tb_suppressed_addresses ts) \<and>
     unique_by (\<lambda>r. (sup_OrganizationID r, sup_EmailAddress r)) (tb_suppressed_addresses ts)"

text \<open>The \<open>REFERENCES\<close> clauses.\<close>

definition organization_references :: "pg_tables \<Rightarrow> bool" where
  "organization_references ts \<longleftrightarrow> (let orgs = tb_organizations ts in
     references agt_OrganizationID (tb_agents ts) org_ID orgs \<and>
     references ibx_OrganizationID (tb_inboxes ts) org_ID orgs \<and>
     references con_OrganizationID (tb_contacts ts) org_ID orgs \<and>
     references thr_OrganizationID (tb_threads ts) org_ID orgs \<and>
     references mr_organization_id (tb_messages ts) org_ID orgs \<and>
     references my_organization_id (tb_contact_memory ts) org_ID orgs \<and>
     references rx_organization_id (tb_inbound_receipts ts) org_ID orgs \<and>
     references dl_organization_id (tb_webhook_deliveries ts) org_ID orgs \<and>
     references sup_OrganizationID (tb_suppressed_addresses ts) org_ID orgs)"

definition record_references :: "pg_tables \<Rightarrow> bool" where
  "record_references ts \<longleftrightarrow>
     references ibx_AgentID (tb_inboxes ts) agt_ID (tb_agents ts) \<and>
     references thr_AgentID (tb_threads ts) agt_ID (tb_agents ts) \<and>
     references thr_InboxID (tb_threads ts) ibx_ID (tb_inboxes ts) \<and>
     references thr_ContactID (tb_threads ts) con_ID (tb_contacts ts) \<and>
     references mr_thread_id (tb_messages ts) thr_ID (tb_threads ts) \<and>
     references mr_inbox_id (tb_messages ts) ibx_ID (tb_inboxes ts) \<and>
     references mr_contact_id (tb_messages ts) con_ID (tb_contacts ts) \<and>
     references rp_message_id (tb_reply_submissions ts) mr_id (tb_messages ts) \<and>
     references my_contact_id (tb_contact_memory ts) con_ID (tb_contacts ts) \<and>
     references rx_agent_id (tb_inbound_receipts ts) agt_ID (tb_agents ts) \<and>
     references rx_inbox_id (tb_inbound_receipts ts) ibx_ID (tb_inboxes ts) \<and>
     references dl_agent_id (tb_webhook_deliveries ts) agt_ID (tb_agents ts)"

definition schema_ok :: "pg_tables \<Rightarrow> bool" where
  "schema_ok ts \<longleftrightarrow> unique_constraints ts \<and> organization_references ts \<and> record_references ts"

section \<open>Statements\<close>

text \<open>
  What the database and the driver decide:
  \<^item> \<open>pr_time\<close>: the instant a \<open>TIMESTAMPTZ\<close> column keeps of a \<open>time.Time\<close> (microseconds);
  \<^item> \<open>pr_array\<close>: the text read back from a \<open>TEXT[]\<close> column after a parameter text was stored in it, or
    the error the text is refused with;
  \<^item> \<open>pr_jsonb\<close>: the same for \<open>JSONB\<close>;
  \<^item> \<open>pr_nil_bytes\<close>: what a nil \<open>[]byte\<close> parameter is, NULL (\<open>None\<close>) or some bytes;
  \<^item> \<open>pr_collate\<close>: the order of \<open>TEXT\<close>.
\<close>

record pg_params =
  pr_time :: "gtime \<Rightarrow> gtime"
  pr_array :: "string \<Rightarrow> gerr + string"
  pr_jsonb :: "string \<Rightarrow> gerr + string"
  pr_nil_bytes :: "string option"
  pr_collate :: "string \<Rightarrow> string \<Rightarrow> bool"

text \<open>
  The process on a database. \<open>pg_db\<close> is \<open>None\<close> before the migration. The \<open>i\<close>-th statement fails with
  \<open>sql_fault i\<close>, if that is an error (the connection, a time limit, a text that is not UTF-8); the
  flag says whether it took effect all the same. The in-memory store of \<open>world\<close> is not used.
\<close>

record pg_world = disk_world +
  pg_db :: "pg_tables option"
  pg_par :: pg_params
  sql_fault :: "nat \<Rightarrow> (string \<times> bool) option"
  sql_ix :: nat

definition sql :: "(pg_params \<Rightarrow> pg_tables \<Rightarrow> (gerr + 'a) \<times> pg_tables) \<Rightarrow> ('z pg_world_scheme, 'a) go" where
  "sql statement = (\<lambda>w. let w' = w\<lparr>sql_ix := Suc (sql_ix w)\<rparr> in
     (case pg_db w of
        None \<Rightarrow> (Inl (ErrExternal ''relation does not exist''), w')
      | Some ts \<Rightarrow> (case statement (pg_par w) ts of (r, ts') \<Rightarrow>
          (case sql_fault w (sql_ix w) of
             None \<Rightarrow> (r, w'\<lparr>pg_db := Some ts'\<rparr>)
           | Some (e, applied) \<Rightarrow> (Inl (ErrExternal e), if applied then w'\<lparr>pg_db := Some ts'\<rparr> else w')))))"

text \<open>\<open>ExecContext\<close>: the update is refused as a whole when a constraint does not hold after it.\<close>

definition sql_exec :: "(pg_params \<Rightarrow> pg_tables \<Rightarrow> gerr + pg_tables) \<Rightarrow> ('z pg_world_scheme, unit) go" where
  "sql_exec update = sql (\<lambda>p ts. case update p ts of
       Inl e \<Rightarrow> (Inl e, ts)
     | Inr ts' \<Rightarrow> if schema_ok ts' then (Inr (), ts')
                 else (Inl (ErrExternal ''violates constraint''), ts))"

definition sql_query :: "(pg_params \<Rightarrow> pg_tables \<Rightarrow> gerr + 'a) \<Rightarrow> ('z pg_world_scheme, 'a) go" where
  "sql_query query = sql (\<lambda>p ts. (query p ts, ts))"

text \<open>\<open>INSERT ... ON CONFLICT (key) DO UPDATE SET ...\<close>: \<open>set_row\<close> is the update of the row in conflict.\<close>

definition upsert :: "('r \<Rightarrow> 'k) \<Rightarrow> ('r \<Rightarrow> 'r \<Rightarrow> 'r) \<Rightarrow> 'r \<Rightarrow> 'r list \<Rightarrow> 'r list" where
  "upsert key set_row new rows =
     (if list_ex (\<lambda>r. key r = key new) rows
      then map (\<lambda>r. if key r = key new then set_row new r else r) rows
      else rows @ [new])"

text \<open>A query without \<open>ORDER BY\<close> reads the rows in any order.\<close>

definition heap_order :: "(string list \<Rightarrow> string list) \<Rightarrow> ('r \<Rightarrow> string) \<Rightarrow> 'r list \<Rightarrow> 'r list" where
  "heap_order ord key rows = grange ord (map (\<lambda>r. (key r, r)) rows)"

text \<open>\<open>ORDER BY at DESC, key DESC\<close>\<close>

definition comes_before :: "(string \<Rightarrow> string \<Rightarrow> bool) \<Rightarrow> ('r \<Rightarrow> gtime) \<Rightarrow> ('r \<Rightarrow> string) \<Rightarrow> 'r \<Rightarrow> 'r \<Rightarrow> bool" where
  "comes_before collate at key a b \<longleftrightarrow> at b < at a \<or> (at a = at b \<and> collate (key b) (key a))"

fun insert_row :: "('r \<Rightarrow> 'r \<Rightarrow> bool) \<Rightarrow> 'r \<Rightarrow> 'r list \<Rightarrow> 'r list" where
  "insert_row before x [] = [x]"
| "insert_row before x (y # ys) = (if before x y then x # y # ys else y # insert_row before x ys)"

definition order_desc :: "pg_params \<Rightarrow> ('r \<Rightarrow> gtime) \<Rightarrow> ('r \<Rightarrow> string) \<Rightarrow> 'r list \<Rightarrow> 'r list" where
  "order_desc p at key rows = foldr (insert_row (comes_before (pr_collate p) at key)) rows []"

text \<open>\<open>rows.Next\<close> and \<open>rows.Scan\<close> to the end, stopping at the first row that cannot be scanned.\<close>

fun scan_rows :: "('r \<Rightarrow> gerr + 'a) \<Rightarrow> 'r list \<Rightarrow> gerr + 'a list" where
  "scan_rows scan [] = Inr []"
| "scan_rows scan (r # rs) = (case scan r of
     Inl e \<Rightarrow> Inl e
   | Inr x \<Rightarrow> (case scan_rows scan rs of Inl e \<Rightarrow> Inl e | Inr xs \<Rightarrow> Inr (x # xs)))"

text \<open>\<open>if limit <= 0 { limit = n }\<close> and \<open>LIMIT\<close>\<close>

definition limit_or :: "int \<Rightarrow> int \<Rightarrow> nat" where
  "limit_or n limit = nat (if limit \<le> 0 then n else limit)"

text \<open>\<open>QueryRowContext\<close>: the two ways the store treats \<open>sql.ErrNoRows\<close>.\<close>

definition row_or_not_found :: "'a option \<Rightarrow> ('s, 'a) go" where
  "row_or_not_found r = (case r of None \<Rightarrow> go_fail (ErrNotFound []) | Some x \<Rightarrow> go_ret x)"

section \<open>Parameters and columns\<close>

definition nullableTime :: "gtime \<Rightarrow> gtime option" where
  "nullableTime t = (if is_zero_time t then None else Some t)"

text \<open>\<open>stringArrayValue.Value\<close>: the slice as JSON. The slices of the row models are nil when empty.\<close>

definition array_value :: "string list \<Rightarrow> string" where
  "array_value xs = json_encode (if xs = [] then JNull else JArray (map JString xs))"

text \<open>\<open>stringArrayScan.Scan\<close> of a column that is not NULL: \<open>json.Unmarshal\<close> into the empty target.\<close>

definition array_scan :: "string \<Rightarrow> gerr + string list" where
  "array_scan s = (case Unmarshal_value s of
     Inl e \<Rightarrow> Inl e
   | Inr v \<Rightarrow> (case v of
       JArray vs \<Rightarrow> decode_elements [] vs
     | JNull \<Rightarrow> Inr []
     | _ \<Rightarrow> Inl (ErrExternal ''json: cannot unmarshal'')))"

definition int4 :: "int \<Rightarrow> bool" where
  "int4 n \<longleftrightarrow> - 2147483648 \<le> n \<and> n \<le> 2147483647"

text \<open>\<open>BYTEA NOT NULL\<close>: a copied slice is nil when it is empty.\<close>

definition bytes_column :: "pg_params \<Rightarrow> string \<Rightarrow> gerr + string" where
  "bytes_column p bs =
     (if bs \<noteq> [] then Inr bs
      else case pr_nil_bytes p of
        None \<Rightarrow> Inl (ErrExternal ''violates not-null constraint'')
      | Some stored \<Rightarrow> Inr stored)"

end
