(* ===== verification/Postgres_Store.thy ===== *)
theory Postgres_Store
  imports Postgres_Tables
begin

text \<open>
  The SQL store itself: every method of \<open>internal/store/postgres\<close>, and \<open>postgresRuntimeStore\<close> of
  \<open>cmd/agentlayer/runtime_store.go\<close>, which serves \<open>appStore\<close> with them.
\<close>

section \<open>Organizations, agents and inboxes\<close>

definition organization_row :: "pg_params \<Rightarrow> organization_model \<Rightarrow> organization_model" where
  "organization_row p model = model\<lparr>org_CreatedAt := pr_time p (org_CreatedAt model),
     org_UpdatedAt := pr_time p (org_UpdatedAt model)\<rparr>"

definition BootstrapStore_SaveOrganization :: "organization \<Rightarrow> ('z pg_world_scheme, organization) go" where
  "BootstrapStore_SaveOrganization organization =
     go_bind (sql_exec (\<lambda>p ts. Inr (ts\<lparr>tb_organizations := upsert org_ID
        (\<lambda>new old. old\<lparr>org_Name := org_Name new, org_UpdatedAt := org_UpdatedAt new\<rparr>)
        (organization_row p (OrganizationToModel organization)) (tb_organizations ts)\<rparr>)))
     (\<lambda>_. go_ret organization)"

definition BootstrapStore_GetOrganizationByID :: "string \<Rightarrow> ('z pg_world_scheme, organization) go" where
  "BootstrapStore_GetOrganizationByID organizationID =
     go_bind (sql_query (\<lambda>p ts. Inr (List.find (\<lambda>r. org_ID r = organizationID) (tb_organizations ts)))) (\<lambda>r.
     go_bind (row_or_not_found r) (\<lambda>model. go_ret (OrganizationFromModel model)))"

definition agent_row :: "pg_params \<Rightarrow> agent_model \<Rightarrow> agent_model" where
  "agent_row p model = model\<lparr>agt_CreatedAt := pr_time p (agt_CreatedAt model),
     agt_UpdatedAt := pr_time p (agt_UpdatedAt model)\<rparr>"

definition BootstrapStore_SaveAgent :: "agent \<Rightarrow> ('z pg_world_scheme, agent) go" where
  "BootstrapStore_SaveAgent agent =
     go_bind (sql_exec (\<lambda>p ts. Inr (ts\<lparr>tb_agents := upsert agt_ID
        (\<lambda>new old. old\<lparr>agt_OrganizationID := agt_OrganizationID new, agt_Name := agt_Name new,
           agt_Status := agt_Status new, agt_WebhookURL := agt_WebhookURL new,
           agt_WebhookSecret := agt_WebhookSecret new, agt_UpdatedAt := agt_UpdatedAt new\<rparr>)
        (agent_row p (AgentToModel agent)) (tb_agents ts)\<rparr>)))
     (\<lambda>_. go_ret agent)"

definition BootstrapStore_GetAgentByID :: "string \<Rightarrow> ('z pg_world_scheme, agent) go" where
  "BootstrapStore_GetAgentByID agentID =
     go_bind (sql_query (\<lambda>p ts. Inr (List.find (\<lambda>r. agt_ID r = agentID) (tb_agents ts)))) (\<lambda>r.
     go_bind (row_or_not_found r) (\<lambda>model. go_ret (AgentFromModel model)))"

definition inbox_row :: "pg_params \<Rightarrow> inbox_model \<Rightarrow> inbox_model" where
  "inbox_row p model = model\<lparr>ibx_CreatedAt := pr_time p (ibx_CreatedAt model),
     ibx_UpdatedAt := pr_time p (ibx_UpdatedAt model)\<rparr>"

definition BootstrapStore_SaveInbox :: "inbox \<Rightarrow> ('z pg_world_scheme, inbox) go" where
  "BootstrapStore_SaveInbox inbox =
     go_bind (sql_exec (\<lambda>p ts. Inr (ts\<lparr>tb_inboxes := upsert ibx_ID
        (\<lambda>new old. old\<lparr>ibx_OrganizationID := ibx_OrganizationID new, ibx_AgentID := ibx_AgentID new,
           ibx_EmailAddress := ibx_EmailAddress new, ibx_Domain := ibx_Domain new,
           ibx_DisplayName := ibx_DisplayName new, ibx_OutboundIdentity := ibx_OutboundIdentity new,
           ibx_UpdatedAt := ibx_UpdatedAt new\<rparr>)
        (inbox_row p (InboxToModel inbox)) (tb_inboxes ts)\<rparr>)))
     (\<lambda>_. go_ret inbox)"

definition BootstrapStore_GetInboxByID :: "string \<Rightarrow> ('z pg_world_scheme, inbox) go" where
  "BootstrapStore_GetInboxByID inboxID =
     go_bind (sql_query (\<lambda>p ts. Inr (List.find (\<lambda>r. ibx_ID r = inboxID) (tb_inboxes ts)))) (\<lambda>r.
     go_bind (row_or_not_found r) (\<lambda>model. go_ret (InboxFromModel model)))"

text \<open>An address is unique only within its organization, and the query has no order.\<close>

definition BootstrapStore_FindByEmailAddress :: "string \<Rightarrow> ('z pg_world_scheme, inbox option) go" where
  "BootstrapStore_FindByEmailAddress emailAddress =
     go_bind next_order (\<lambda>ord.
     go_bind (sql_query (\<lambda>p ts. Inr (List.find (\<lambda>r. ibx_EmailAddress r = emailAddress)
        (heap_order ord ibx_ID (tb_inboxes ts))))) (\<lambda>r.
     go_ret (map_option InboxFromModel r)))"

section \<open>Contacts and contact memory\<close>

definition contact_row :: "pg_params \<Rightarrow> contact_model \<Rightarrow> contact_model" where
  "contact_row p model = model\<lparr>con_LastSeenAt := pr_time p (con_LastSeenAt model),
     con_CreatedAt := pr_time p (con_CreatedAt model), con_UpdatedAt := pr_time p (con_UpdatedAt model)\<rparr>"

definition ContactStore_FindByEmail :: "string \<Rightarrow> string \<Rightarrow> ('z pg_world_scheme, contact option) go" where
  "ContactStore_FindByEmail organizationID emailAddress =
     go_bind (sql_query (\<lambda>p ts. Inr (List.find
        (\<lambda>r. con_OrganizationID r = organizationID \<and> con_EmailAddress r = emailAddress) (tb_contacts ts)))) (\<lambda>r.
     go_ret (map_option ContactFromModel r))"

definition ContactStore_UpsertByEmail :: "contact \<Rightarrow> ('z pg_world_scheme, contact) go" where
  "ContactStore_UpsertByEmail contact =
     go_bind (sql_exec (\<lambda>p ts. Inr (ts\<lparr>tb_contacts := upsert (\<lambda>r. (con_OrganizationID r, con_EmailAddress r))
        (\<lambda>new old. old\<lparr>con_ID := con_ID new, con_DisplayName := con_DisplayName new,
           con_LastSeenAt := con_LastSeenAt new, con_UpdatedAt := con_UpdatedAt new\<rparr>)
        (contact_row p (ContactToModel contact)) (tb_contacts ts)\<rparr>)))
     (\<lambda>_. go_ret contact)"

definition ContactStore_GetContactByID :: "string \<Rightarrow> ('z pg_world_scheme, contact) go" where
  "ContactStore_GetContactByID contactID =
     go_bind (sql_query (\<lambda>p ts. Inr (List.find (\<lambda>r. con_ID r = contactID) (tb_contacts ts)))) (\<lambda>r.
     go_bind (row_or_not_found r) (\<lambda>model. go_ret (ContactFromModel model)))"

definition memory_row :: "pg_params \<Rightarrow> contact_memory_model \<Rightarrow> gerr + contact_memory_row" where
  "memory_row p model = (case pr_array p (array_value (cmm_Tags model)) of
     Inl e \<Rightarrow> Inl e
   | Inr tags \<Rightarrow> Inr \<lparr>my_id = cmm_ID model, my_organization_id = cmm_OrganizationID model,
       my_contact_id = cmm_ContactID model, my_thread_id = cmm_ThreadID model, my_note = cmm_Note model,
       my_tags = tags, my_created_at = pr_time p (cmm_CreatedAt model)\<rparr>)"

definition scan_memory :: "contact_memory_row \<Rightarrow> gerr + contact_memory_entry" where
  "scan_memory row = (case array_scan (my_tags row) of
     Inl e \<Rightarrow> Inl e
   | Inr tags \<Rightarrow> Inr (ContactMemoryFromModel \<lparr>cmm_ID = my_id row,
       cmm_OrganizationID = my_organization_id row, cmm_ContactID = my_contact_id row,
       cmm_ThreadID = my_thread_id row, cmm_Note = my_note row, cmm_Tags = tags,
       cmm_CreatedAt = my_created_at row\<rparr>))"

definition ContactMemoryStore_CreateMemory ::
    "contact_memory_entry \<Rightarrow> string \<Rightarrow> ('z pg_world_scheme, contact_memory_entry) go" where
  "ContactMemoryStore_CreateMemory entry organizationID =
     go_bind (sql_exec (\<lambda>p ts. case memory_row p (ContactMemoryToModel entry organizationID) of
        Inl e \<Rightarrow> Inl e
      | Inr row \<Rightarrow> Inr (ts\<lparr>tb_contact_memory := tb_contact_memory ts @ [row]\<rparr>)))
     (\<lambda>_. go_ret entry)"

definition ContactMemoryStore_ListMemoryByContactID ::
    "string \<Rightarrow> int \<Rightarrow> ('z pg_world_scheme, contact_memory_entry list) go" where
  "ContactMemoryStore_ListMemoryByContactID contactID limit =
     sql_query (\<lambda>p ts. scan_rows scan_memory (take (limit_or 10 limit)
       (order_desc p my_created_at my_id (filter (\<lambda>r. my_contact_id r = contactID) (tb_contact_memory ts)))))"

section \<open>Receipts\<close>

definition receipt_row :: "pg_params \<Rightarrow> inbound_receipt_model \<Rightarrow> gerr + inbound_receipt_row" where
  "receipt_row p model = (case pr_array p (array_value (rcv_EnvelopeRecipients model)) of
     Inl e \<Rightarrow> Inl e
   | Inr recipients \<Rightarrow> Inr
      \<lparr>rx_raw_message_object_key = rcv_RawMessageObjectKey model,
       rx_smtp_transaction_id = rcv_SMTPTransactionID model, rx_organization_id = rcv_OrganizationID model,
       rx_agent_id = rcv_AgentID model, rx_inbox_id = rcv_InboxID model,
       rx_envelope_sender = rcv_EnvelopeSender model, rx_envelope_recipients = recipients,
       rx_received_at = pr_time p (rcv_ReceivedAt model), rx_created_at = pr_time p (rcv_CreatedAt model)\<rparr>)"

definition scan_receipt :: "inbound_receipt_row \<Rightarrow> gerr + durable_receipt_request" where
  "scan_receipt row = (case array_scan (rx_envelope_recipients row) of
     Inl e \<Rightarrow> Inl e
   | Inr recipients \<Rightarrow> Inr (InboundReceiptFromModel
      \<lparr>rcv_RawMessageObjectKey = rx_raw_message_object_key row,
       rcv_SMTPTransactionID = rx_smtp_transaction_id row, rcv_OrganizationID = rx_organization_id row,
       rcv_AgentID = rx_agent_id row, rcv_InboxID = rx_inbox_id row,
       rcv_EnvelopeSender = rx_envelope_sender row, rcv_EnvelopeRecipients = recipients,
       rcv_ReceivedAt = rx_received_at row, rcv_CreatedAt = rx_created_at row\<rparr>))"

definition InboundReceiptStore_SaveInboundReceipt :: "durable_receipt_request \<Rightarrow> ('z pg_world_scheme, unit) go" where
  "InboundReceiptStore_SaveInboundReceipt receipt =
     sql_exec (\<lambda>p ts. case receipt_row p (InboundReceiptToModel receipt) of
        Inl e \<Rightarrow> Inl e
      | Inr row \<Rightarrow> Inr (ts\<lparr>tb_inbound_receipts := upsert rx_raw_message_object_key
          (\<lambda>new old. old\<lparr>rx_smtp_transaction_id := rx_smtp_transaction_id new,
             rx_organization_id := rx_organization_id new, rx_agent_id := rx_agent_id new,
             rx_inbox_id := rx_inbox_id new, rx_envelope_sender := rx_envelope_sender new,
             rx_envelope_recipients := rx_envelope_recipients new, rx_received_at := rx_received_at new\<rparr>)
          row (tb_inbound_receipts ts)\<rparr>))"

definition InboundReceiptStore_GetInboundReceiptByObjectKey ::
    "string \<Rightarrow> ('z pg_world_scheme, durable_receipt_request) go" where
  "InboundReceiptStore_GetInboundReceiptByObjectKey objectKey =
     go_bind (sql_query (\<lambda>p ts. Inr (List.find (\<lambda>r. rx_raw_message_object_key r = objectKey)
        (tb_inbound_receipts ts)))) (\<lambda>r.
     go_bind (row_or_not_found r) (\<lambda>row. go_lift (scan_receipt row)))"

definition InboundReceiptStore_ListInboundReceipts :: "int \<Rightarrow> ('z pg_world_scheme, durable_receipt_request list) go" where
  "InboundReceiptStore_ListInboundReceipts limit =
     sql_query (\<lambda>p ts. scan_rows scan_receipt (take (limit_or 20 limit)
       (order_desc p rx_received_at rx_raw_message_object_key (tb_inbound_receipts ts))))"

section \<open>Threads\<close>

definition thread_row :: "pg_params \<Rightarrow> thread_model \<Rightarrow> thread_model" where
  "thread_row p model = model\<lparr>thr_LastActivityAt := pr_time p (thr_LastActivityAt model),
     thr_CreatedAt := pr_time p (thr_CreatedAt model), thr_UpdatedAt := pr_time p (thr_UpdatedAt model)\<rparr>"

definition ThreadStore_Save :: "thread \<Rightarrow> ('z pg_world_scheme, thread) go" where
  "ThreadStore_Save thread =
     go_bind (sql_exec (\<lambda>p ts. Inr (ts\<lparr>tb_threads := upsert thr_ID
        (\<lambda>new old. old\<lparr>thr_OrganizationID := thr_OrganizationID new, thr_AgentID := thr_AgentID new,
           thr_InboxID := thr_InboxID new, thr_ContactID := thr_ContactID new,
           thr_SubjectNormalized := thr_SubjectNormalized new, thr_State := thr_State new,
           thr_LastInboundID := thr_LastInboundID new, thr_LastOutboundID := thr_LastOutboundID new,
           thr_LastActivityAt := thr_LastActivityAt new, thr_UpdatedAt := thr_UpdatedAt new\<rparr>)
        (thread_row p (ThreadToModel thread)) (tb_threads ts)\<rparr>)))
     (\<lambda>_. go_ret thread)"

definition ThreadStore_GetByID :: "string \<Rightarrow> ('z pg_world_scheme, thread) go" where
  "ThreadStore_GetByID threadID =
     go_bind (sql_query (\<lambda>p ts. Inr (List.find (\<lambda>r. thr_ID r = threadID) (tb_threads ts)))) (\<lambda>r.
     go_bind (row_or_not_found r) (\<lambda>model. go_ret (ThreadFromModel model)))"

definition ThreadStore_FindMostRecentBySubject ::
    "string \<Rightarrow> string \<Rightarrow> string \<Rightarrow> string \<Rightarrow> ('z pg_world_scheme, thread option) go" where
  "ThreadStore_FindMostRecentBySubject organizationID inboxID contactID subjectNormalized =
     go_bind (sql_query (\<lambda>p ts. Inr (case order_desc p thr_LastActivityAt thr_ID
          (filter (\<lambda>r. thr_OrganizationID r = organizationID \<and> thr_InboxID r = inboxID \<and>
             thr_ContactID r = contactID \<and> thr_SubjectNormalized r = subjectNormalized) (tb_threads ts)) of
        [] \<Rightarrow> None | r # _ \<Rightarrow> Some r))) (\<lambda>r.
     go_ret (map_option ThreadFromModel r))"

section \<open>Messages\<close>

definition time_column :: "pg_params \<Rightarrow> gtime \<Rightarrow> gtime option" where
  "time_column p t = map_option (pr_time p) (nullableTime t)"

definition message_row_of :: "pg_params \<Rightarrow> message_model \<Rightarrow> gerr + message_row" where
  "message_row_of p model = (case pr_array p (array_value (msg_References model)) of
     Inl e \<Rightarrow> Inl e
   | Inr refs \<Rightarrow> Inr
     \<lparr>mr_id = msg_ID model, mr_organization_id = msg_OrganizationID model,
      mr_thread_id = msg_ThreadID model, mr_inbox_id = msg_InboxID model,
      mr_contact_id = msg_ContactID model, mr_direction = msg_Direction model,
      mr_subject = msg_Subject model, mr_subject_normalized = msg_SubjectNormalized model,
      mr_message_id_header = msg_MessageIDHeader model, mr_in_reply_to = msg_InReplyTo model,
      mr_references_headers = refs, mr_text_body = msg_TextBody model,
      mr_html_body = msg_HTMLBody model, mr_raw_mime_object_key = msg_RawMIMEObjectKey model,
      mr_provider_message_id = msg_ProviderMessageID model,
      mr_delivery_state = msg_DeliveryState model, mr_sent_at = time_column p (msg_SentAt model),
      mr_delivered_at = time_column p (msg_DeliveredAt model),
      mr_bounced_at = time_column p (msg_BouncedAt model),
      mr_created_at = pr_time p (msg_CreatedAt model)\<rparr>)"

text \<open>\<open>sql.NullTime\<close>: a NULL leaves the zero time of the model.\<close>

definition null_time :: "gtime option \<Rightarrow> gtime" where
  "null_time t = (case t of None \<Rightarrow> 0 | Some t \<Rightarrow> t)"

definition scanMessage :: "message_row \<Rightarrow> gerr + message" where
  "scanMessage row = (case array_scan (mr_references_headers row) of
     Inl e \<Rightarrow> Inl e
   | Inr refs \<Rightarrow> Inr (MessageFromModel
     \<lparr>msg_ID = mr_id row, msg_OrganizationID = mr_organization_id row,
      msg_ThreadID = mr_thread_id row, msg_InboxID = mr_inbox_id row,
      msg_ContactID = mr_contact_id row, msg_Direction = mr_direction row,
      msg_Subject = mr_subject row, msg_SubjectNormalized = mr_subject_normalized row,
      msg_MessageIDHeader = mr_message_id_header row, msg_InReplyTo = mr_in_reply_to row,
      msg_References = refs, msg_TextBody = mr_text_body row, msg_HTMLBody = mr_html_body row,
      msg_RawMIMEObjectKey = mr_raw_mime_object_key row,
      msg_ProviderMessageID = mr_provider_message_id row,
      msg_DeliveryState = mr_delivery_state row, msg_SentAt = null_time (mr_sent_at row),
      msg_DeliveredAt = null_time (mr_delivered_at row),
      msg_BouncedAt = null_time (mr_bounced_at row), msg_CreatedAt = mr_created_at row\<rparr>))"

definition scan_found :: "('r \<Rightarrow> gerr + 'a) \<Rightarrow> 'r option \<Rightarrow> gerr + 'a option" where
  "scan_found scan r = (case r of
     None \<Rightarrow> Inr None
   | Some row \<Rightarrow> (case scan row of Inl e \<Rightarrow> Inl e | Inr x \<Rightarrow> Inr (Some x)))"

definition MessageStore_Create :: "message \<Rightarrow> ('z pg_world_scheme, message) go" where
  "MessageStore_Create message =
     go_bind (sql_exec (\<lambda>p ts. case message_row_of p (MessageToModel message) of
        Inl e \<Rightarrow> Inl e
      | Inr row \<Rightarrow> Inr (ts\<lparr>tb_messages := tb_messages ts @ [row]\<rparr>)))
     (\<lambda>_. go_ret message)"

definition set_message :: "message_row \<Rightarrow> message_row \<Rightarrow> message_row" where
  "set_message new old = old
    \<lparr>mr_organization_id := mr_organization_id new, mr_thread_id := mr_thread_id new,
     mr_inbox_id := mr_inbox_id new, mr_contact_id := mr_contact_id new,
     mr_direction := mr_direction new, mr_subject := mr_subject new,
     mr_subject_normalized := mr_subject_normalized new,
     mr_message_id_header := mr_message_id_header new, mr_in_reply_to := mr_in_reply_to new,
     mr_references_headers := mr_references_headers new, mr_text_body := mr_text_body new,
     mr_html_body := mr_html_body new, mr_raw_mime_object_key := mr_raw_mime_object_key new,
     mr_provider_message_id := mr_provider_message_id new,
     mr_delivery_state := mr_delivery_state new, mr_sent_at := mr_sent_at new,
     mr_delivered_at := mr_delivered_at new, mr_bounced_at := mr_bounced_at new\<rparr>"

definition MessageStore_Save :: "message \<Rightarrow> ('z pg_world_scheme, message) go" where
  "MessageStore_Save message =
     go_bind (sql_exec (\<lambda>p ts. case message_row_of p (MessageToModel message) of
        Inl e \<Rightarrow> Inl e
      | Inr row \<Rightarrow> Inr (ts\<lparr>tb_messages := upsert mr_id set_message row (tb_messages ts)\<rparr>)))
     (\<lambda>_. go_ret message)"

definition MessageStore_GetMessageByID :: "string \<Rightarrow> ('z pg_world_scheme, message) go" where
  "MessageStore_GetMessageByID messageID =
     go_bind (sql_query (\<lambda>p ts. Inr (List.find (\<lambda>r. mr_id r = messageID) (tb_messages ts)))) (\<lambda>r.
     go_bind (row_or_not_found r) (\<lambda>row. go_lift (scanMessage row)))"

text \<open>The three lookups below have no \<open>ORDER BY\<close>.\<close>

definition MessageStore_FindByMessageID :: "string \<Rightarrow> ('z pg_world_scheme, thread option) go" where
  "MessageStore_FindByMessageID messageIDHeader =
     go_bind next_order (\<lambda>ord.
     go_bind (sql_query (\<lambda>p ts. Inr (map_option mr_thread_id
        (List.find (\<lambda>r. mr_message_id_header r = messageIDHeader) (heap_order ord mr_id (tb_messages ts)))))) (\<lambda>r.
     case r of
       None \<Rightarrow> go_ret None
     | Some threadID \<Rightarrow> go_bind (ThreadStore_GetByID threadID) (\<lambda>thread. go_ret (Some thread))))"

definition MessageStore_FindInboundByHeader :: "string \<Rightarrow> string \<Rightarrow> ('z pg_world_scheme, message option) go" where
  "MessageStore_FindInboundByHeader inboxID messageIDHeader =
     go_bind next_order (\<lambda>ord.
     go_bind (sql_query (\<lambda>p ts. Inr (List.find
        (\<lambda>r. mr_inbox_id r = inboxID \<and> mr_message_id_header r = messageIDHeader)
        (heap_order ord mr_id (tb_messages ts))))) (\<lambda>r.
     go_lift (scan_found scanMessage r)))"

definition MessageStore_FindByProviderMessageID :: "string \<Rightarrow> ('z pg_world_scheme, message option) go" where
  "MessageStore_FindByProviderMessageID providerMessageID =
     go_bind next_order (\<lambda>ord.
     go_bind (sql_query (\<lambda>p ts. Inr (List.find (\<lambda>r. mr_provider_message_id r = providerMessageID)
        (heap_order ord mr_id (tb_messages ts))))) (\<lambda>r.
     go_lift (scan_found scanMessage r)))"

definition MessageStore_SaveReplySubmission :: "string \<Rightarrow> string \<Rightarrow> gtime \<Rightarrow> ('z pg_world_scheme, unit) go" where
  "MessageStore_SaveReplySubmission submissionKey messageID createdAt =
     sql_exec (\<lambda>p ts. Inr (ts\<lparr>tb_reply_submissions := upsert rp_submission_key
       (\<lambda>new old. old\<lparr>rp_message_id := rp_message_id new\<rparr>)
       \<lparr>rp_submission_key = submissionKey, rp_message_id = messageID, rp_created_at = pr_time p createdAt\<rparr>
       (tb_reply_submissions ts)\<rparr>))"

definition MessageStore_FindReplyBySubmissionKey :: "string \<Rightarrow> ('z pg_world_scheme, message option) go" where
  "MessageStore_FindReplyBySubmissionKey submissionKey =
     go_bind (sql_query (\<lambda>p ts. Inr (map_option rp_message_id
        (List.find (\<lambda>r. rp_submission_key r = submissionKey) (tb_reply_submissions ts))))) (\<lambda>r.
     case r of
       None \<Rightarrow> go_ret None
     | Some messageID \<Rightarrow> go_bind (MessageStore_GetMessageByID messageID) (\<lambda>message. go_ret (Some message)))"

section \<open>Reads\<close>

text \<open>\<open>ReadStore.GetByID\<close> and \<open>ReadStore.GetContactByID\<close> repeat the queries of the other stores.\<close>

definition ReadStore_GetByID :: "string \<Rightarrow> ('z pg_world_scheme, thread) go" where
  "ReadStore_GetByID threadID =
     go_bind (sql_query (\<lambda>p ts. Inr (List.find (\<lambda>r. thr_ID r = threadID) (tb_threads ts)))) (\<lambda>r.
     go_bind (row_or_not_found r) (\<lambda>model. go_ret (ThreadFromModel model)))"

definition ReadStore_ListByThreadID :: "string \<Rightarrow> int \<Rightarrow> ('z pg_world_scheme, message list) go" where
  "ReadStore_ListByThreadID threadID limit =
     sql_query (\<lambda>p ts. scan_rows scanMessage (take (limit_or 20 limit)
       (order_desc p mr_created_at mr_id (filter (\<lambda>r. mr_thread_id r = threadID) (tb_messages ts)))))"

definition ReadStore_GetContactByID :: "string \<Rightarrow> ('z pg_world_scheme, contact) go" where
  "ReadStore_GetContactByID contactID =
     go_bind (sql_query (\<lambda>p ts. Inr (List.find (\<lambda>r. con_ID r = contactID) (tb_contacts ts)))) (\<lambda>r.
     go_bind (row_or_not_found r) (\<lambda>model. go_ret (ContactFromModel model)))"

section \<open>Suppressions\<close>

definition suppression_row :: "pg_params \<Rightarrow> suppressed_address_model \<Rightarrow> suppressed_address_model" where
  "suppression_row p model = model\<lparr>sup_CreatedAt := pr_time p (sup_CreatedAt model),
     sup_UpdatedAt := pr_time p (sup_UpdatedAt model)\<rparr>"

definition SuppressionStore_Save :: "suppressed_address \<Rightarrow> ('z pg_world_scheme, suppressed_address) go" where
  "SuppressionStore_Save address =
     go_bind (sql_exec (\<lambda>p ts. Inr (ts\<lparr>tb_suppressed_addresses :=
        upsert (\<lambda>r. (sup_OrganizationID r, sup_EmailAddress r))
          (\<lambda>new old. old\<lparr>sup_ID := sup_ID new, sup_Reason := sup_Reason new, sup_Source := sup_Source new,
             sup_UpdatedAt := sup_UpdatedAt new\<rparr>)
          (suppression_row p (SuppressedAddressToModel address)) (tb_suppressed_addresses ts)\<rparr>)))
     (\<lambda>_. go_ret address)"

definition SuppressionStore_IsSuppressed :: "string \<Rightarrow> string \<Rightarrow> ('z pg_world_scheme, bool) go" where
  "SuppressionStore_IsSuppressed organizationID emailAddress =
     sql_query (\<lambda>p ts. Inr (list_ex (\<lambda>r. sup_OrganizationID r = organizationID \<and> sup_EmailAddress r = emailAddress)
       (tb_suppressed_addresses ts)))"

definition SuppressionStore_GetByID :: "string \<Rightarrow> ('z pg_world_scheme, suppressed_address) go" where
  "SuppressionStore_GetByID suppressionID =
     go_bind (sql_query (\<lambda>p ts. Inr (List.find (\<lambda>r. sup_ID r = suppressionID) (tb_suppressed_addresses ts)))) (\<lambda>r.
     go_bind (row_or_not_found r) (\<lambda>model. go_ret (SuppressedAddressFromModel model)))"

definition SuppressionStore_List :: "int \<Rightarrow> ('z pg_world_scheme, suppressed_address list) go" where
  "SuppressionStore_List limit =
     sql_query (\<lambda>p ts. Inr (map SuppressedAddressFromModel (take (limit_or 20 limit)
       (order_desc p sup_UpdatedAt sup_ID (tb_suppressed_addresses ts)))))"

section \<open>Webhook deliveries\<close>

definition delivery_row :: "pg_params \<Rightarrow> webhook_delivery_model \<Rightarrow> gerr + webhook_delivery_row" where
  "delivery_row p model =
     (case (bytes_column p (dlv_RequestPayload model), pr_jsonb p (dlv_RequestHeaders model),
            bytes_column p (dlv_ResponseBody model)) of
        (Inr payload, Inr headers, Inr body) \<Rightarrow>
          if int4 (dlv_AttemptCount model) \<and> int4 (dlv_ResponseCode model) then Inr
       \<lparr>dl_id = dlv_ID model, dl_organization_id = dlv_OrganizationID model,
        dl_agent_id = dlv_AgentID model, dl_event_type = dlv_EventType model,
        dl_event_id = dlv_EventID model, dl_request_url = dlv_RequestURL model,
        dl_request_payload = payload, dl_request_headers = headers, dl_status = dlv_Status model,
        dl_attempt_count = dlv_AttemptCount model,
        dl_last_attempt_at = time_column p (dlv_LastAttemptAt model),
        dl_next_attempt_at = time_column p (dlv_NextAttemptAt model),
        dl_response_code = dlv_ResponseCode model, dl_response_body = body,
        dl_created_at = pr_time p (dlv_CreatedAt model),
        dl_updated_at = pr_time p (dlv_UpdatedAt model)\<rparr>
          else Inl (ErrExternal ''integer out of range'')
      | (Inl e, _, _) \<Rightarrow> Inl e
      | (_, Inl e, _) \<Rightarrow> Inl e
      | (_, _, Inl e) \<Rightarrow> Inl e)"

text \<open>Both attempt times are scanned into a \<open>time.Time\<close>, which a NULL cannot be.\<close>

definition scan_delivery :: "webhook_delivery_row \<Rightarrow> gerr + webhook_delivery" where
  "scan_delivery row = (case (dl_last_attempt_at row, dl_next_attempt_at row) of
     (Some last_at, Some next_at) \<Rightarrow> WebhookDeliveryFromModel
       \<lparr>dlv_ID = dl_id row, dlv_OrganizationID = dl_organization_id row,
        dlv_AgentID = dl_agent_id row, dlv_EventType = dl_event_type row,
        dlv_EventID = dl_event_id row, dlv_RequestURL = dl_request_url row,
        dlv_RequestPayload = dl_request_payload row, dlv_RequestHeaders = dl_request_headers row,
        dlv_Status = dl_status row, dlv_AttemptCount = dl_attempt_count row,
        dlv_LastAttemptAt = last_at, dlv_NextAttemptAt = next_at,
        dlv_ResponseCode = dl_response_code row, dlv_ResponseBody = dl_response_body row,
        dlv_CreatedAt = dl_created_at row, dlv_UpdatedAt = dl_updated_at row\<rparr>
   | _ \<Rightarrow> Inl (ErrExternal ''sql: Scan error: converting NULL to time.Time is unsupported''))"

definition set_delivery :: "webhook_delivery_row \<Rightarrow> webhook_delivery_row \<Rightarrow> webhook_delivery_row" where
  "set_delivery new old = old
    \<lparr>dl_organization_id := dl_organization_id new, dl_agent_id := dl_agent_id new,
     dl_event_type := dl_event_type new, dl_event_id := dl_event_id new,
     dl_request_url := dl_request_url new, dl_request_payload := dl_request_payload new,
     dl_request_headers := dl_request_headers new, dl_status := dl_status new,
     dl_attempt_count := dl_attempt_count new, dl_last_attempt_at := dl_last_attempt_at new,
     dl_next_attempt_at := dl_next_attempt_at new, dl_response_code := dl_response_code new,
     dl_response_body := dl_response_body new, dl_updated_at := dl_updated_at new\<rparr>"

definition WebhookDeliveryStore_SaveWebhookDelivery :: "webhook_delivery \<Rightarrow> ('z pg_world_scheme, webhook_delivery) go" where
  "WebhookDeliveryStore_SaveWebhookDelivery delivery =
     go_bind (go_lift (WebhookDeliveryToModel delivery)) (\<lambda>model.
     go_bind (sql_exec (\<lambda>p ts. case delivery_row p model of
        Inl e \<Rightarrow> Inl e
      | Inr row \<Rightarrow> Inr (ts\<lparr>tb_webhook_deliveries := upsert dl_id set_delivery row (tb_webhook_deliveries ts)\<rparr>))) (\<lambda>_.
     go_ret delivery))"

definition WebhookDeliveryStore_GetWebhookDeliveryByID :: "string \<Rightarrow> ('z pg_world_scheme, webhook_delivery) go" where
  "WebhookDeliveryStore_GetWebhookDeliveryByID deliveryID =
     go_bind (sql_query (\<lambda>p ts. Inr (List.find (\<lambda>r. dl_id r = deliveryID) (tb_webhook_deliveries ts)))) (\<lambda>r.
     go_bind (row_or_not_found r) (\<lambda>row. go_lift (scan_delivery row)))"

definition WebhookDeliveryStore_ListWebhookDeliveries :: "int \<Rightarrow> ('z pg_world_scheme, webhook_delivery list) go" where
  "WebhookDeliveryStore_ListWebhookDeliveries limit =
     sql_query (\<lambda>p ts. scan_rows scan_delivery (take (limit_or 20 limit)
       (order_desc p dl_updated_at dl_id (tb_webhook_deliveries ts))))"

section \<open>The runtime store\<close>

text \<open>
  \<open>postgresRuntimeStore\<close>: each method of \<open>appStore\<close> by one of the stores. The raw messages are kept by
  another store, the argument of \<open>pg_Put\<close> and \<open>pg_Get\<close>.
\<close>

definition pg_SaveOrganization :: "organization \<Rightarrow> ('z pg_world_scheme, organization) go" where
  "pg_SaveOrganization = BootstrapStore_SaveOrganization"

definition pg_GetOrganizationByID :: "string \<Rightarrow> ('z pg_world_scheme, organization) go" where
  "pg_GetOrganizationByID = BootstrapStore_GetOrganizationByID"

definition pg_SaveAgent :: "agent \<Rightarrow> ('z pg_world_scheme, agent) go" where
  "pg_SaveAgent = BootstrapStore_SaveAgent"

definition pg_GetAgentByID :: "string \<Rightarrow> ('z pg_world_scheme, agent) go" where
  "pg_GetAgentByID = BootstrapStore_GetAgentByID"

definition pg_SaveInbox :: "inbox \<Rightarrow> ('z pg_world_scheme, inbox) go" where
  "pg_SaveInbox = BootstrapStore_SaveInbox"

definition pg_GetInboxByID :: "string \<Rightarrow> ('z pg_world_scheme, inbox) go" where
  "pg_GetInboxByID = BootstrapStore_GetInboxByID"

definition pg_FindByEmailAddress :: "string \<Rightarrow> ('z pg_world_scheme, inbox option) go" where
  "pg_FindByEmailAddress = BootstrapStore_FindByEmailAddress"

definition pg_Put :: "'z pg_world_scheme raw_store \<Rightarrow> string \<Rightarrow> string \<Rightarrow> ('z pg_world_scheme, unit) go" where
  "pg_Put raw objectKey data = raw_Put raw objectKey data"

definition pg_Get :: "'z pg_world_scheme raw_store \<Rightarrow> string \<Rightarrow> ('z pg_world_scheme, string) go" where
  "pg_Get raw objectKey = raw_Get raw objectKey"

definition pg_SaveInboundReceipt :: "durable_receipt_request \<Rightarrow> ('z pg_world_scheme, unit) go" where
  "pg_SaveInboundReceipt = InboundReceiptStore_SaveInboundReceipt"

definition pg_GetInboundReceiptByObjectKey :: "string \<Rightarrow> ('z pg_world_scheme, durable_receipt_request) go" where
  "pg_GetInboundReceiptByObjectKey = InboundReceiptStore_GetInboundReceiptByObjectKey"

definition pg_ListInboundReceipts :: "int \<Rightarrow> ('z pg_world_scheme, durable_receipt_request list) go" where
  "pg_ListInboundReceipts = InboundReceiptStore_ListInboundReceipts"

definition pg_FindByEmail :: "string \<Rightarrow> string \<Rightarrow> ('z pg_world_scheme, contact option) go" where
  "pg_FindByEmail = ContactStore_FindByEmail"

definition pg_UpsertByEmail :: "contact \<Rightarrow> ('z pg_world_scheme, contact) go" where
  "pg_UpsertByEmail = ContactStore_UpsertByEmail"

definition pg_GetContactByID :: "string \<Rightarrow> ('z pg_world_scheme, contact) go" where
  "pg_GetContactByID = ContactStore_GetContactByID"

definition pg_GetByID :: "string \<Rightarrow> ('z pg_world_scheme, thread) go" where
  "pg_GetByID = ThreadStore_GetByID"

definition pg_Save :: "thread \<Rightarrow> ('z pg_world_scheme, thread) go" where
  "pg_Save = ThreadStore_Save"

definition pg_FindByMessageID :: "string \<Rightarrow> ('z pg_world_scheme, thread option) go" where
  "pg_FindByMessageID = MessageStore_FindByMessageID"

definition pg_FindMostRecentBySubject :: "string \<Rightarrow> string \<Rightarrow> string \<Rightarrow> string \<Rightarrow> ('z pg_world_scheme, thread option) go" where
  "pg_FindMostRecentBySubject = ThreadStore_FindMostRecentBySubject"

definition pg_Create :: "message \<Rightarrow> ('z pg_world_scheme, message) go" where
  "pg_Create = MessageStore_Create"

definition pg_SaveMessage :: "message \<Rightarrow> ('z pg_world_scheme, message) go" where
  "pg_SaveMessage = MessageStore_Save"

definition pg_ListByThreadID :: "string \<Rightarrow> int \<Rightarrow> ('z pg_world_scheme, message list) go" where
  "pg_ListByThreadID = ReadStore_ListByThreadID"

definition pg_FindByProviderMessageID :: "string \<Rightarrow> ('z pg_world_scheme, message option) go" where
  "pg_FindByProviderMessageID = MessageStore_FindByProviderMessageID"

definition pg_FindInboundByHeader :: "string \<Rightarrow> string \<Rightarrow> ('z pg_world_scheme, message option) go" where
  "pg_FindInboundByHeader = MessageStore_FindInboundByHeader"

definition pg_FindReplyBySubmissionKey :: "string \<Rightarrow> ('z pg_world_scheme, message option) go" where
  "pg_FindReplyBySubmissionKey = MessageStore_FindReplyBySubmissionKey"

definition pg_GetMessageByID :: "string \<Rightarrow> ('z pg_world_scheme, message) go" where
  "pg_GetMessageByID = MessageStore_GetMessageByID"

definition pg_SaveReplySubmission :: "string \<Rightarrow> string \<Rightarrow> ('z pg_world_scheme, unit) go" where
  "pg_SaveReplySubmission submissionKey messageID =
     go_bind time_now (\<lambda>now. MessageStore_SaveReplySubmission submissionKey messageID now)"

definition pg_CreateMemory :: "contact_memory_entry \<Rightarrow> ('z pg_world_scheme, contact_memory_entry) go" where
  "pg_CreateMemory entry =
     go_bind (ContactStore_GetContactByID (cm_ContactID entry)) (\<lambda>contact.
     ContactMemoryStore_CreateMemory entry (c_OrganizationID contact))"

definition pg_ListMemoryByContactID :: "string \<Rightarrow> int \<Rightarrow> ('z pg_world_scheme, contact_memory_entry list) go" where
  "pg_ListMemoryByContactID = ContactMemoryStore_ListMemoryByContactID"

definition pg_SaveSuppression :: "suppressed_address \<Rightarrow> ('z pg_world_scheme, suppressed_address) go" where
  "pg_SaveSuppression = SuppressionStore_Save"

definition pg_IsSuppressed :: "string \<Rightarrow> string \<Rightarrow> ('z pg_world_scheme, bool) go" where
  "pg_IsSuppressed = SuppressionStore_IsSuppressed"

definition pg_GetSuppressionByID :: "string \<Rightarrow> ('z pg_world_scheme, suppressed_address) go" where
  "pg_GetSuppressionByID = SuppressionStore_GetByID"

definition pg_ListSuppressions :: "int \<Rightarrow> ('z pg_world_scheme, suppressed_address list) go" where
  "pg_ListSuppressions = SuppressionStore_List"

definition pg_SaveWebhookDelivery :: "webhook_delivery \<Rightarrow> ('z pg_world_scheme, webhook_delivery) go" where
  "pg_SaveWebhookDelivery = WebhookDeliveryStore_SaveWebhookDelivery"

definition pg_GetWebhookDeliveryByID :: "string \<Rightarrow> ('z pg_world_scheme, webhook_delivery) go" where
  "pg_GetWebhookDeliveryByID = WebhookDeliveryStore_GetWebhookDeliveryByID"

definition pg_ListWebhookDeliveries :: "int \<Rightarrow> ('z pg_world_scheme, webhook_delivery list) go" where
  "pg_ListWebhookDeliveries = WebhookDeliveryStore_ListWebhookDeliveries"

lemmas pg_defs = pg_SaveOrganization_def pg_GetOrganizationByID_def pg_SaveAgent_def
  pg_GetAgentByID_def pg_SaveInbox_def pg_GetInboxByID_def pg_FindByEmailAddress_def
  pg_SaveInboundReceipt_def pg_GetInboundReceiptByObjectKey_def pg_ListInboundReceipts_def
  pg_FindByEmail_def pg_UpsertByEmail_def pg_GetContactByID_def pg_GetByID_def pg_Save_def
  pg_FindByMessageID_def pg_FindMostRecentBySubject_def pg_Create_def pg_SaveMessage_def
  pg_ListByThreadID_def pg_FindByProviderMessageID_def pg_FindInboundByHeader_def
  pg_FindReplyBySubmissionKey_def pg_GetMessageByID_def pg_ListMemoryByContactID_def
  pg_SaveSuppression_def pg_IsSuppressed_def pg_GetSuppressionByID_def pg_ListSuppressions_def
  pg_SaveWebhookDelivery_def pg_GetWebhookDeliveryByID_def pg_ListWebhookDeliveries_def
  pg_Put_def pg_Get_def pg_SaveReplySubmission_def pg_CreateMemory_def

end
