(* ===== verification/Blob_Laws.thy ===== *)
theory Blob_Laws
  imports Blob_Stores
begin

text \<open>
  What holds of the raw message stores: no key leads out of the directory of the file store, and what
  is put under a key is read back under it.
\<close>

section \<open>Cleaned paths\<close>

definition plain_part :: "string \<Rightarrow> bool" where
  "plain_part s \<longleftrightarrow> s \<noteq> [] \<and> s \<noteq> ''.'' \<and> s \<noteq> ''..'' \<and> CHR ''/'' \<notin> set s"

text \<open>What the stack looks like: plain segments over the \<open>..\<close> a relative path starts with.\<close>

definition stack_ok :: "bool \<Rightarrow> string list \<Rightarrow> bool" where
  "stack_ok rooted out \<longleftrightarrow> (\<exists>plain n. out = plain @ replicate n ''..'' \<and> (\<forall>s \<in> set plain. plain_part s) \<and>
     (rooted \<longrightarrow> n = 0))"

lemma stack_ok_Nil [simp]: "stack_ok r []"
  by (simp add: stack_ok_def)

lemma path_step_ok:
  assumes "stack_ok r out" and "CHR ''/'' \<notin> set seg"
  shows "stack_ok r (path_step r out seg)"
proof -
  from assms(1) obtain plain n where out: "out = plain @ replicate n ''..''"
    and plain: "\<forall>s \<in> set plain. plain_part s" and r: "r \<longrightarrow> n = 0"
    unfolding stack_ok_def by blast
  consider "seg = [] \<or> seg = ''.''" | "seg = ''..''" | "plain_part seg"
    using assms(2) by (auto simp: plain_part_def)
  then show ?thesis
  proof cases
    case 1
    with assms(1) show ?thesis by (simp add: path_step_def)
  next
    case 2
    show ?thesis
    proof (cases plain)
      case Nil
      with 2 out have "path_step r out seg = (if r then [] else replicate (Suc n) ''..'')"
        using r by (cases n) (auto simp: path_step_def)
      then have "path_step r out seg = [] @ replicate (if r then 0 else Suc n) ''..''" by simp
      then show ?thesis unfolding stack_ok_def by (metis empty_iff list.set(1))
    next
      case (Cons a list)
      with 2 out plain have "path_step r out seg = list @ replicate n ''..''"
        by (auto simp: path_step_def plain_part_def)
      with Cons plain r show ?thesis unfolding stack_ok_def by auto
    qed
  next
    case 3
    then have "path_step r out seg = (seg # plain) @ replicate n ''..''"
      by (simp add: path_step_def plain_part_def out)
    with 3 plain r show ?thesis unfolding stack_ok_def by (metis set_ConsD)
  qed
qed

lemma path_fold_ok: "stack_ok r out \<Longrightarrow> \<forall>s \<in> set segs. CHR ''/'' \<notin> set s \<Longrightarrow> stack_ok r (foldl (path_step r) out segs)"
  by (induction segs arbitrary: out) (simp_all add: path_step_ok)

lemma path_fold_plain: "\<forall>s \<in> set segs. plain_part s \<Longrightarrow> foldl (path_step r) out segs = rev segs @ out"
  by (induction segs arbitrary: out) (simp_all add: path_step_def plain_part_def)

lemma path_fold_up:
  "foldl (path_step False) (replicate m ''..'') (replicate n ''..'') = replicate (m + n) ''..''"
proof (induction n arbitrary: m)
  case (Suc n)
  have "path_step False (replicate m ''..'') ''..'' = replicate (Suc m) ''..''"
    by (cases m) (simp_all add: path_step_def)
  with Suc [of "Suc m"] show ?case by simp
qed simp

lemma path_parts_shape:
  obtains plain n where "path_parts p = replicate n ''..'' @ plain" and "\<forall>s \<in> set plain. plain_part s"
    and "path_rooted p \<Longrightarrow> n = 0"
proof -
  have "stack_ok (path_rooted p) (foldl (path_step (path_rooted p)) [] (split_slash p))"
    by (rule path_fold_ok) (simp_all add: split_slash_segments)
  then obtain plain n where s: "foldl (path_step (path_rooted p)) [] (split_slash p) = plain @ replicate n ''..''"
    "\<forall>s \<in> set plain. plain_part s" "path_rooted p \<longrightarrow> n = 0"
    unfolding stack_ok_def by blast
  show thesis
    by (rule that [of n "rev plain"]) (use s in \<open>simp_all add: path_parts_def\<close>)
qed

lemma path_parts_cases: "s \<in> set (path_parts p) \<Longrightarrow> s = ''..'' \<or> plain_part s"
  by (rule path_parts_shape [of p]) auto

lemma path_parts_plain: "s \<in> set (path_parts p) \<Longrightarrow> CHR ''/'' \<notin> set s"
  by (drule path_parts_cases) (auto simp: plain_part_def)

lemma path_parts_nonempty: "s \<in> set (path_parts p) \<Longrightarrow> s \<noteq> []"
  by (drule path_parts_cases) (auto simp: plain_part_def)

lemma split_slash_concat: "split_slash (a @ CHR ''/'' # b) = split_slash a @ split_slash b"
  by (induction a) (auto split: list.splits)

lemma path_rooted_simps [simp]: "path_rooted (CHR ''/'' # p)" "\<not> path_rooted []"
  "path_rooted (c # p) \<longleftrightarrow> c = CHR ''/''"
  by (auto simp: path_rooted_def)

lemma join_Cons: "join ((c # p) # ps) sep = c # join (p # ps) sep"
  by (cases ps) simp_all

lemma path_rooted_join: "ps \<noteq> [] \<Longrightarrow> \<forall>p \<in> set ps. p \<noteq> [] \<and> CHR ''/'' \<notin> set p \<Longrightarrow> \<not> path_rooted (join ps ''/'')"
proof (cases ps)
  case (Cons p qs)
  assume "\<forall>p \<in> set ps. p \<noteq> [] \<and> CHR ''/'' \<notin> set p"
  with Cons obtain c p' where "p = c # p'" "c \<noteq> CHR ''/''" by (cases p) auto
  with Cons show ?thesis by (simp add: join_Cons)
qed simp

lemma path_rooted_Clean [simp]: "path_rooted (path_Clean p) = path_rooted p"
  using path_rooted_join [of "path_parts p"] path_parts_plain [of _ p] path_parts_nonempty [of _ p]
  by (auto simp: path_Clean_def Let_def)

lemma path_parts_Clean [simp]: "path_parts (path_Clean p) = path_parts p"
proof -
  obtain plain n where parts: "path_parts p = replicate n ''..'' @ plain" and plain: "\<forall>s \<in> set plain. plain_part s"
    and rooted: "path_rooted p \<Longrightarrow> n = 0"
    by (rule path_parts_shape) blast
  have fold: "rev (foldl (path_step (path_rooted p)) [] (path_parts p)) = path_parts p"
  proof (cases "path_rooted p")
    case True
    with parts rooted plain show ?thesis by (simp add: path_fold_plain)
  next
    case False
    with parts plain path_fold_up [of 0 n] show ?thesis by (simp add: path_fold_plain)
  qed
  have split: "split_slash (join (path_parts p) ''/'') = path_parts p" if "path_parts p \<noteq> []"
    by (rule split_slash_join) (use that path_parts_plain in auto)
  show ?thesis
  proof (cases "path_parts p = []")
    case True
    then show ?thesis
      by (subst path_parts_def) (simp add: path_Clean_def path_step_def)
  next
    case False
    then have "\<not> path_rooted (join (path_parts p) ''/'')"
      by (rule path_rooted_join) (simp add: path_parts_plain path_parts_nonempty)
    with fold split False show ?thesis
      by (cases "path_rooted p")
        (simp_all add: path_Clean_def Let_def path_step_def [of _ _ "[]"]
          path_parts_def [of "CHR ''/'' # join (path_parts p) ''/''"] path_parts_def [of "join (path_parts p) ''/''"])
  qed
qed

lemma path_Clean_idem [simp]: "path_Clean (path_Clean p) = path_Clean p"
  unfolding path_Clean_def [of "path_Clean p"] path_parts_Clean path_rooted_Clean
  unfolding path_Clean_def ..

text \<open>A key the store accepts: its cleaned path is a non-empty list of plain segments.\<close>

lemma accepted_key:
  assumes "objectPath root key = Inr p"
  shows "\<not> path_rooted (trim_space key) \<and> path_parts (trim_space key) \<noteq> [] \<and>
    (\<forall>s \<in> set (path_parts (trim_space key)). plain_part s) \<and>
    p = path_Join [root, join (path_parts (trim_space key)) ''/'']"
proof -
  let ?k = "trim_space key"
  obtain plain n where parts: "path_parts ?k = replicate n ''..'' @ plain" and plain: "\<forall>s \<in> set plain. plain_part s"
    by (rule path_parts_shape) blast
  from assms have k: "path_Clean ?k \<noteq> ''.''" "\<not> path_rooted ?k" "path_Clean ?k \<noteq> ''..''"
    "\<not> has_prefix (path_Clean ?k) ''../''" "p = path_Join [root, path_Clean ?k]"
    by (auto simp: objectPath_def Let_def split: if_splits)
  then have ne: "path_parts ?k \<noteq> []" and clean: "path_Clean ?k = join (path_parts ?k) ''/''"
    by (auto simp: path_Clean_def Let_def split: if_splits)
  have "n = 0"
  proof (cases n)
    case (Suc m)
    with parts have "path_parts ?k = ''..'' # (replicate m ''..'' @ plain)" by simp
    with k(3,4) clean show ?thesis
      by (cases "replicate m ''..'' @ plain") (auto simp: has_prefix_def)
  qed simp
  with parts plain ne k clean show ?thesis by simp
qed

lemma blob_path_parts:
  assumes "objectPath root key = Inr p"
  shows "path_parts p = path_parts root @ path_parts (trim_space key) \<and> path_rooted p = path_rooted root \<and>
    path_Clean p = p"
proof -
  let ?ps = "path_parts (trim_space key)"
  from accepted_key [OF assms] have ne: "?ps \<noteq> []" and plain: "\<forall>s \<in> set ?ps. plain_part s"
    and p: "p = path_Join [root, join ?ps ''/'']" by blast+
  from plain have seg: "\<forall>s \<in> set ?ps. s \<noteq> [] \<and> CHR ''/'' \<notin> set s" by (simp add: plain_part_def)
  then have split: "split_slash (join ?ps ''/'') = ?ps" and rel: "\<not> path_rooted (join ?ps ''/'')"
    using ne by (simp_all add: split_slash_join path_rooted_join)
  have join: "join ?ps ''/'' \<noteq> []"
    using ne seg by (cases ?ps; cases "hd ?ps") (auto simp: join_Cons)
  let ?q = "if root = [] then join ?ps ''/'' else root @ CHR ''/'' # join ?ps ''/''"
  have q: "p = path_Clean ?q" using p join by (simp add: path_Join_def)
  have rooted: "path_rooted ?q = path_rooted root"
    using rel by (cases root) (simp_all add: path_rooted_def)
  have "path_parts ?q = path_parts root @ ?ps"
  proof (cases "root = []")
    case True
    with rel split plain show ?thesis by (simp add: path_parts_def [of "join ?ps ''/''"] path_fold_plain path_parts_def [of "[]"] path_step_def)
  next
    case False
    with rooted split plain show ?thesis
      by (simp add: path_parts_def [of "root @ CHR ''/'' # join ?ps ''/''"] split_slash_concat path_fold_plain)
        (simp add: path_parts_def [of root])
  qed
  with q rooted show ?thesis by simp
qed

text \<open>C24: whatever the key, with \<open>..\<close>, absolute, with doubled slashes or white space around it, a path
  the file store opens is the directory of the store followed by at least one segment that is neither
  empty nor \<open>.\<close> nor \<open>..\<close> and holds no slash: no key reads or writes outside that directory.\<close>

theorem blob_path_contained:
  assumes "objectPath root key = Inr p"
  shows "path_parts p = path_parts root @ path_parts (trim_space key) \<and> path_rooted p = path_rooted root \<and>
    path_Clean p = p \<and> path_parts (trim_space key) \<noteq> [] \<and>
    (\<forall>s \<in> set (path_parts (trim_space key)). s \<noteq> [] \<and> s \<noteq> ''.'' \<and> s \<noteq> ''..'' \<and> CHR ''/'' \<notin> set s)"
  using blob_path_parts [OF assms] accepted_key [OF assms] by (simp add: plain_part_def)

theorem blob_path_contained_witness:
  "path_parts ''/var/raw/a/c.eml'' = path_parts ''/var/raw'' @ path_parts (trim_space '' a/b/..//./c.eml '')"
  using blob_path_contained [of "''/var/raw''" "'' a/b/..//./c.eml ''" "''/var/raw/a/c.eml''"] by code_simp

section \<open>Putting and getting\<close>

lemma accepted_path_iff:
  assumes "objectPath root key = Inr p" and "objectPath root key' = Inr p'"
  shows "p = p' \<longleftrightarrow> path_parts (trim_space key) = path_parts (trim_space key')"
proof
  assume "p = p'"
  moreover have "path_parts p = path_parts root @ path_parts (trim_space key)"
    and "path_parts p' = path_parts root @ path_parts (trim_space key')"
    using blob_path_parts [OF assms(1)] blob_path_parts [OF assms(2)] by blast+
  ultimately show "path_parts (trim_space key) = path_parts (trim_space key')" by simp
next
  assume "path_parts (trim_space key) = path_parts (trim_space key')"
  with accepted_key [OF assms(1)] accepted_key [OF assms(2)] show "p = p'" by simp
qed

text \<open>After a successful \<open>Put\<close> of the file store, \<open>Get\<close> gives the bytes under that key and under every
  key that names the same segments, and what it gave before under every other key, unless the operating
  system fails the read.\<close>

theorem blobfs_reads_back:
  assumes "blobfs_Put root key data w = (Inr (), w')"
    and "objectPath root key' = Inr p"
    and "disk_fault w' (disk_ix w') = None"
  shows "fst (blobfs_Get root key' w') =
    (if path_parts (trim_space key') = path_parts (trim_space key) then Inr data
     else case map_of (disk_files w) p of None \<Rightarrow> Inl (ErrNotFound []) | Some before \<Rightarrow> Inr before)"
proof -
  obtain q where q: "objectPath root key = Inr q"
    using assms(1) by (cases "objectPath root key") (auto simp: blobfs_Put_def go_bind_def)
  with assms(1) have files: "disk_files w' = gput q data (disk_files w)"
    by (auto simp: blobfs_Put_def go_bind_def os_MkdirAll_def os_WriteFile_def Let_def
        split: option.splits prod.splits)
  have "q = p \<longleftrightarrow> path_parts (trim_space key') = path_parts (trim_space key)"
    using accepted_path_iff [OF q assms(2)] by auto
  then show ?thesis
    by (auto simp: blobfs_Get_def assms(2,3) files go_bind_def os_ReadFile_def split: option.splits)
qed

definition demo_disk :: disk_world where
  "demo_disk = world.extend (demo_world NewStore)
     \<lparr>disk_files = [(''raw/b'', ''old'')], disk_fault = \<lambda>i. None, disk_ix = 0\<rparr>"

lemma demo_disk_sel [simp]:
  "disk_files demo_disk = [(''raw/b'', ''old'')]" "disk_fault demo_disk i = None" "disk_ix demo_disk = 0"
  by (simp_all add: demo_disk_def world.extend_def)

theorem blobfs_reads_back_witness:
  "\<exists>w'. blobfs_Put ''raw'' ''a'' ''new'' demo_disk = (Inr (), w') \<and>
     fst (blobfs_Get ''raw'' ''./a'' w') = Inr ''new'' \<and> fst (blobfs_Get ''raw'' ''b'' w') = Inr ''old''"
proof -
  have paths: "objectPath ''raw'' ''a'' = Inr ''raw/a''" "objectPath ''raw'' ''./a'' = Inr ''raw/a''"
    "objectPath ''raw'' ''b'' = Inr ''raw/b''" by code_simp+
  then have put: "blobfs_Put ''raw'' ''a'' ''new'' demo_disk =
      (Inr (), demo_disk\<lparr>disk_ix := 2, disk_files := gput ''raw/a'' ''new'' (disk_files demo_disk)\<rparr>)"
    by (simp add: blobfs_Put_def go_bind_def os_MkdirAll_def os_WriteFile_def Let_def numeral_2_eq_2)
  have parts: "path_parts (trim_space ''./a'') = path_parts (trim_space ''a'')"
    "path_parts (trim_space ''b'') \<noteq> path_parts (trim_space ''a'')" by code_simp+
  show ?thesis
    using blobfs_reads_back [OF put paths(2)] blobfs_reads_back [OF put paths(3)] put parts by simp
qed

end
