(* ===== verification/Postgres_Laws.thy ===== *)
theory Postgres_Laws
  imports Postgres_Store Blob_Laws
begin

text \<open>
  What holds of the SQL store: the constraints of the schema in every state, thread resolution over it,
  and what is read back of what was written.
\<close>

section \<open>Running a statement\<close>

lemma sql_query_state: "sql_query q w = (r, w') \<Longrightarrow> w' = w\<lparr>sql_ix := Suc (sql_ix w)\<rparr>"
  by (auto simp: sql_query_def sql_def Let_def split: option.splits if_splits)

lemma sql_query_Inr:
  "sql_query q w = (Inr x, w') \<longleftrightarrow> sql_fault w (sql_ix w) = None \<and> w' = w\<lparr>sql_ix := Suc (sql_ix w)\<rparr> \<and>
     (\<exists>ts. pg_db w = Some ts \<and> q (pg_par w) ts = Inr x)"
  by (auto simp: sql_query_def sql_def Let_def split: option.splits)

lemma sql_query_run:
  "sql_fault w (sql_ix w) = None \<Longrightarrow> pg_db w = Some ts \<Longrightarrow>
   sql_query q w = (q (pg_par w) ts, w\<lparr>sql_ix := Suc (sql_ix w)\<rparr>)"
  by (simp add: sql_query_def sql_def Let_def)

lemma sql_exec_Inr:
  "sql_exec u w = (Inr x, w') \<longleftrightarrow> sql_fault w (sql_ix w) = None \<and>
     (\<exists>ts ts'. pg_db w = Some ts \<and> u (pg_par w) ts = Inr ts' \<and> schema_ok ts' \<and>
        w' = w\<lparr>sql_ix := Suc (sql_ix w), pg_db := Some ts'\<rparr>)"
  by (auto simp: sql_exec_def sql_def Let_def split: option.splits sum.splits if_splits prod.splits)

lemma sql_exec_refused:
  assumes "sql_exec u w = (r, w')" and "pg_db w = Some ts"
    and "\<And>ts'. u (pg_par w) ts = Inr ts' \<Longrightarrow> \<not> schema_ok ts'"
  shows "(\<exists>e. r = Inl e) \<and> pg_db w' = pg_db w"
  using assms by (auto simp: sql_exec_def sql_def Let_def split: option.splits sum.splits if_splits)

lemma sql_exec_cases:
  assumes "sql_exec u w = (r, w')" and "pg_db w = Some ts"
  obtains "pg_db w' = Some ts"
  | ts' where "u (pg_par w) ts = Inr ts'" and "schema_ok ts'" and "pg_db w' = Some ts'"
  using assms by (auto simp: sql_exec_def sql_def Let_def split: option.splits sum.splits if_splits prod.splits)

section \<open>The constraints hold in every state\<close>

definition pg_ok :: "'z pg_world_scheme \<Rightarrow> bool" where
  "pg_ok w \<longleftrightarrow> (case pg_db w of None \<Rightarrow> True | Some ts \<Rightarrow> schema_ok ts)"

lemma pg_ok_env [simp]:
  "pg_ok (w\<lparr>rand_ix := n\<rparr>) = pg_ok w" "pg_ok (w\<lparr>clock_ix := n\<rparr>) = pg_ok w"
  "pg_ok (w\<lparr>iter_ix := n\<rparr>) = pg_ok w" "pg_ok (w\<lparr>sql_ix := n\<rparr>) = pg_ok w"
  by (simp_all add: pg_ok_def)

lemma keeps_pg_env [intro, simp, keeps_rules]:
  fixes w :: "'z pg_world_scheme"
  shows "keeps (pg_ok :: 'z pg_world_scheme \<Rightarrow> bool) next_order"
    and "keeps (pg_ok :: 'z pg_world_scheme \<Rightarrow> bool) time_now"
    and "keeps (pg_ok :: 'z pg_world_scheme \<Rightarrow> bool) (random_id a b)"
  by (auto simp: keeps_def next_order_def time_now_def random_id_run)

lemma keeps_sql_query [intro, simp, keeps_rules]: "keeps pg_ok (sql_query q)"
  unfolding keeps_def by (metis pg_ok_env(4) sql_query_state surjective_pairing)

lemma keeps_sql_exec [intro, simp, keeps_rules]: "keeps pg_ok (sql_exec u)"
  by (auto simp: keeps_def pg_ok_def sql_exec_def sql_def Let_def split: option.splits sum.splits if_splits prod.splits)

lemma frames_sql_query [intro, simp, keeps_rules]:
  "frames (pg_db :: 'z pg_world_scheme \<Rightarrow> _) (sql_query q)"
  unfolding frames_def
proof
  fix w :: "'z pg_world_scheme"
  show "pg_db (snd (sql_query q w)) = pg_db w"
    using sql_query_state [of q w "fst (sql_query q w)" "snd (sql_query q w)"] by simp
qed

lemma keeps_row_or_not_found [intro, simp, keeps_rules]: "keeps P (row_or_not_found r)"
  by (auto simp: row_or_not_found_def split: option.splits)

lemma frames_row_or_not_found [intro, simp, keeps_rules]: "frames g (row_or_not_found r)"
  by (auto simp: row_or_not_found_def split: option.splits)

section \<open>Rows\<close>

lemma schema_keys:
  "schema_ok ts \<Longrightarrow> distinct (map mr_id (tb_messages ts))"
  "schema_ok ts \<Longrightarrow> distinct (map thr_ID (tb_threads ts))"
  "schema_ok ts \<Longrightarrow> distinct (map ibx_ID (tb_inboxes ts))"
  "schema_ok ts \<Longrightarrow> distinct (map dl_id (tb_webhook_deliveries ts))"
  by (simp_all add: schema_ok_def unique_constraints_def unique_by_def)

lemma set_heap_order: "distinct (map key rows) \<Longrightarrow> set (heap_order ord key rows) = set rows"
proof -
  assume d: "distinct (map key rows)"
  have fst: "map fst (map (\<lambda>r. (key r, r)) rows) = map key rows" by simp
  from d have "gmap_ok (map (\<lambda>r. (key r, r)) rows)" by (simp add: gmap_ok_def fst comp_def)
  moreover have "ran (map_of (map (\<lambda>r. (key r, r)) rows)) = set rows"
    using d by (subst ran_distinct) (simp_all add: comp_def image_image)
  ultimately show ?thesis by (simp add: heap_order_def set_grange)
qed

lemma set_insert_row [simp]: "set (insert_row b x ys) = insert x (set ys)"
  by (induction ys) auto

lemma set_order_desc [simp]: "set (order_desc p at key rows) = set rows"
  unfolding order_desc_def by (induction rows) simp_all

lemma length_insert_row [simp]: "length (insert_row b x ys) = Suc (length ys)"
  by (induction ys) simp_all

lemma length_order_desc [simp]: "length (order_desc p at key rows) = length rows"
  unfolding order_desc_def by (induction rows) simp_all

lemma insert_row_sorted:
  assumes "sorted_wrt (\<lambda>a b. at b \<le> at a) ys"
  shows "sorted_wrt (\<lambda>a b. at b \<le> at a) (insert_row (comes_before c at key) x ys)"
  using assms by (induction ys) (auto simp: comes_before_def)

lemma order_desc_sorted: "sorted_wrt (\<lambda>a b. at b \<le> at a) (order_desc p at key rows)"
  unfolding order_desc_def by (induction rows) (simp_all add: insert_row_sorted)

lemma order_desc_head:
  assumes "order_desc p at key rows = m # ms"
  shows "m \<in> set rows \<and> (\<forall>u \<in> set rows. at u \<le> at m)"
proof -
  have "set rows = set (m # ms)" by (metis assms set_order_desc)
  moreover have "sorted_wrt (\<lambda>a b. at b \<le> at a) (m # ms)" by (metis assms order_desc_sorted)
  ultimately show ?thesis by auto
qed

lemma find_by_key: "distinct (map key rows) \<Longrightarrow> r \<in> set rows \<Longrightarrow> List.find (\<lambda>x. key x = key r) rows = Some r"
  by (induction rows) auto

section \<open>Thread lookup\<close>

text \<open>The stored threads, and the columns of the stored messages that the lookups read.\<close>

definition pg_tables_of :: "'z pg_world_scheme \<Rightarrow> pg_tables" where
  "pg_tables_of w = (case pg_db w of None \<Rightarrow> empty_tables | Some ts \<Rightarrow> ts)"

definition linked_message :: "message_row \<Rightarrow> message" where
  "linked_message row = zero_message\<lparr>m_ID := mr_id row, m_ThreadID := mr_thread_id row,
     m_MessageIDHeader := mr_message_id_header row\<rparr>"

definition pg_thread_view :: "'z pg_world_scheme \<Rightarrow> thread set \<times> message set" where
  "pg_thread_view w = (ThreadFromModel ` set (tb_threads (pg_tables_of w)),
     linked_message ` set (tb_messages (pg_tables_of w)))"

lemma pg_view_db: "pg_db w' = pg_db w \<Longrightarrow> pg_thread_view w' = pg_thread_view w"
  by (simp add: pg_thread_view_def pg_tables_of_def)

lemma ThreadFromModel_sel [simp]:
  "t_ID (ThreadFromModel m) = thr_ID m" "t_OrganizationID (ThreadFromModel m) = thr_OrganizationID m"
  "t_InboxID (ThreadFromModel m) = thr_InboxID m" "t_ContactID (ThreadFromModel m) = thr_ContactID m"
  "t_SubjectNormalized (ThreadFromModel m) = thr_SubjectNormalized m"
  "t_LastActivityAt (ThreadFromModel m) = thr_LastActivityAt m"
  by (simp_all add: ThreadFromModel_def)

lemma linked_message_sel [simp]:
  "m_ThreadID (linked_message r) = mr_thread_id r" "m_MessageIDHeader (linked_message r) = mr_message_id_header r"
  by (simp_all add: linked_message_def)

lemma frames_db_order [intro, simp, keeps_rules]:
  "frames pg_db (next_order :: ('z pg_world_scheme, string list \<Rightarrow> string list) go)"
  by (simp add: frames_def next_order_def)

lemma pg_reads_frame [intro, simp, keeps_rules]:
  "frames pg_db (ThreadStore_GetByID k)" "frames pg_db (pg_GetByID k)"
  "frames pg_db (pg_FindByMessageID k)" "frames pg_db (pg_FindMostRecentBySubject org i c subj)"
  unfolding pg_defs ThreadStore_GetByID_def MessageStore_FindByMessageID_def
    ThreadStore_FindMostRecentBySubject_def
  by (auto intro!: frames_bind split: option.split)

lemma frames_pg_ok: "frames pg_db m \<Longrightarrow> m w = (r, w') \<Longrightarrow> pg_ok w' = pg_ok w"
  unfolding pg_ok_def by (drule framesD) auto

lemma GetByID_Inr:
  assumes "ThreadStore_GetByID k w = (Inr t, w')" and "pg_ok w"
  shows "t \<in> fst (pg_thread_view w) \<and> t_ID t = k"
  using assms
  by (auto simp: ThreadStore_GetByID_def go_bind_Inr_iff sql_query_Inr row_or_not_found_def pg_thread_view_def
      pg_tables_of_def find_Some_iff split: option.splits)

lemma pg_view_of: "pg_db w = Some ts \<Longrightarrow>
    pg_thread_view w = (ThreadFromModel ` set (tb_threads ts), linked_message ` set (tb_messages ts))"
  by (simp add: pg_thread_view_def pg_tables_of_def)

lemma FindByMessageID_Inr:
  assumes "pg_FindByMessageID k w = (Inr r, w')" and "pg_ok w"
  shows "case r of None \<Rightarrow> (\<forall>m \<in> snd (pg_thread_view w). m_MessageIDHeader m \<noteq> k)
    | Some t \<Rightarrow> t \<in> fst (pg_thread_view w) \<and>
        (\<exists>m \<in> snd (pg_thread_view w). m_MessageIDHeader m = k \<and> m_ThreadID m = t_ID t)"
proof -
  let ?w1 = "w\<lparr>iter_ix := Suc (iter_ix w), sql_ix := Suc (sql_ix w)\<rparr>"
  let ?rows = "\<lambda>ts. heap_order (iter_src w (iter_ix w)) mr_id (tb_messages ts)"
  from assms(1) obtain ts where ts: "pg_db w = Some ts"
    and r: "(case map_option mr_thread_id (List.find (\<lambda>r. mr_message_id_header r = k) (?rows ts)) of
         None \<Rightarrow> go_ret None
       | Some threadID \<Rightarrow> go_bind (ThreadStore_GetByID threadID) (\<lambda>thread. go_ret (Some thread))) ?w1 = (Inr r, w')"
    by (auto simp: pg_FindByMessageID_def MessageStore_FindByMessageID_def go_bind_Inr_iff next_order_def
        sql_query_Inr simp del: case_map_option)
  have rows: "set (?rows ts) = set (tb_messages ts)"
    using assms(2) ts by (simp add: pg_ok_def schema_keys set_heap_order)
  show ?thesis
  proof (cases "List.find (\<lambda>r. mr_message_id_header r = k) (?rows ts)")
    case None
    with r have "r = None" by simp
    with None show ?thesis by (auto simp: List_find_None rows pg_view_of [OF ts])
  next
    case (Some row)
    with r obtain t w2 where t: "r = Some t" "ThreadStore_GetByID (mr_thread_id row) ?w1 = (Inr t, w2)"
      by (auto simp: go_bind_Inr_iff)
    have "t \<in> fst (pg_thread_view w) \<and> t_ID t = mr_thread_id row"
      using GetByID_Inr [OF t(2)] assms(2) by (simp add: pg_view_db [of ?w1 w])
    with List_find_Some [OF Some] t(1) show ?thesis by (auto simp: rows pg_view_of [OF ts])
  qed
qed

lemma FindMostRecent_Inr:
  assumes "pg_FindMostRecentBySubject org i c subj w = (Inr r, w')"
  shows "case r of None \<Rightarrow> (\<forall>u \<in> fst (pg_thread_view w). \<not> subject_scope org i c subj u)
    | Some t \<Rightarrow> t \<in> fst (pg_thread_view w) \<and> subject_scope org i c subj t \<and>
        (\<forall>u \<in> fst (pg_thread_view w). subject_scope org i c subj u \<longrightarrow> t_LastActivityAt u \<le> t_LastActivityAt t)"
proof -
  let ?P = "\<lambda>m. subject_scope org i c subj (ThreadFromModel m)"
  let ?rows = "\<lambda>ts. order_desc (pg_par w) thr_LastActivityAt thr_ID (filter ?P (tb_threads ts))"
  from assms obtain ts where ts: "pg_db w = Some ts"
    and r: "r = map_option ThreadFromModel (case ?rows ts of [] \<Rightarrow> None | m # _ \<Rightarrow> Some m)"
    by (auto simp: pg_FindMostRecentBySubject_def ThreadStore_FindMostRecentBySubject_def go_bind_Inr_iff
        sql_query_Inr subject_scope_def)
  show ?thesis
  proof (cases "?rows ts")
    case Nil
    then have "set (filter ?P (tb_threads ts)) = {}" by (metis empty_set set_order_desc)
    with r Nil show ?thesis by (auto simp: pg_view_of [OF ts] filter_empty_conv)
  next
    case (Cons m ms)
    from order_desc_head [OF Cons] r Cons show ?thesis by (auto simp: pg_view_of [OF ts])
  qed
qed

interpretation pg_threads: thread_lookup_repo "pg_thread_view :: 'z pg_world_scheme \<Rightarrow> _" pg_ok
  pg_FindByMessageID pg_FindMostRecentBySubject
proof (unfold_locales, goal_cases)
  case (5 s k r s')
  then show ?case
    using frames_pg_ok [OF pg_reads_frame(3)] framesD [OF pg_reads_frame(3)] pg_view_db by metis
next
  case (6 s k t s')
  then show ?case using FindByMessageID_Inr [OF 6(2,1)] by simp
next
  case (7 s k s' m)
  then show ?case using FindByMessageID_Inr [OF 7(2,1)] by auto
next
  case (8 s org i c subj r s')
  then show ?case
    using frames_pg_ok [OF pg_reads_frame(4)] framesD [OF pg_reads_frame(4)] pg_view_db by metis
next
  case (9 s org i c subj t s')
  then show ?case using FindMostRecent_Inr [OF 9(2)] by simp
next
  case (10 s org i c subj s' u)
  then show ?case using FindMostRecent_Inr [OF 10(2)] by auto
qed (auto simp: pg_thread_view_def pg_tables_of_def)

text \<open>A database that has been migrated and fails no statement.\<close>

definition pg_ready :: "'z pg_world_scheme \<Rightarrow> bool" where
  "pg_ready w \<longleftrightarrow> (\<exists>ts. pg_db w = Some ts \<and> schema_ok ts) \<and> (\<forall>i. sql_fault w i = None)"

lemma pg_ready_ok: "pg_ready w \<Longrightarrow> pg_ok w"
  by (auto simp: pg_ready_def pg_ok_def)

lemma pg_ready_env [simp]:
  "pg_ready (w\<lparr>rand_ix := n\<rparr>) = pg_ready w" "pg_ready (w\<lparr>clock_ix := n\<rparr>) = pg_ready w"
  "pg_ready (w\<lparr>iter_ix := n\<rparr>) = pg_ready w" "pg_ready (w\<lparr>sql_ix := n\<rparr>) = pg_ready w"
  by (simp_all add: pg_ready_def)

lemma frames_fault [intro, simp, keeps_rules]:
  "frames (sql_fault :: 'z pg_world_scheme \<Rightarrow> _) (sql_query q)"
  "frames (sql_fault :: 'z pg_world_scheme \<Rightarrow> _) (sql_exec u)"
  "frames (sql_fault :: 'z pg_world_scheme \<Rightarrow> _) next_order"
  by (auto simp: frames_def sql_query_def sql_exec_def sql_def next_order_def Let_def split: option.splits
      sum.splits prod.splits)

lemma pg_reads_fault [intro, simp, keeps_rules]:
  "frames sql_fault (pg_FindByMessageID k)" "frames sql_fault (pg_FindMostRecentBySubject org i c subj)"
  unfolding pg_defs ThreadStore_GetByID_def MessageStore_FindByMessageID_def
    ThreadStore_FindMostRecentBySubject_def
  by (auto intro!: frames_bind split: option.split)

lemma frames_pg_ready:
  "frames pg_db m \<Longrightarrow> frames sql_fault m \<Longrightarrow> m w = (r, w') \<Longrightarrow> pg_ready w' = pg_ready w"
  unfolding pg_ready_def by (frule framesD, assumption, drule (1) framesD [of sql_fault]) auto

text \<open>Every message belongs to a stored thread: a foreign key.\<close>

lemma message_thread:
  "schema_ok ts \<Longrightarrow> row \<in> set (tb_messages ts) \<Longrightarrow> \<exists>t \<in> set (tb_threads ts). thr_ID t = mr_thread_id row"
  unfolding schema_ok_def record_references_def references_def list_all_iff by (metis imageE list.set_map)

lemma pg_attached: "pg_ok w \<Longrightarrow> attached (pg_thread_view w)"
  using message_thread
  by (fastforce simp: attached_def pg_thread_view_def pg_tables_of_def pg_ok_def empty_tables_def
      split: option.splits)

lemma FindByMessageID_returns:
  assumes "pg_ready w"
  shows "\<exists>r w'. pg_FindByMessageID k w = (Inr r, w')"
proof -
  from assms obtain ts where ts: "pg_db w = Some ts" "schema_ok ts" and nf: "\<And>i. sql_fault w i = None"
    unfolding pg_ready_def by blast
  have "\<exists>r w'. ThreadStore_GetByID (mr_thread_id row) (w\<lparr>iter_ix := i, sql_ix := j\<rparr>) = (Inr r, w')"
    if row: "row \<in> set (tb_messages ts)" for row i j
  proof -
    from message_thread [OF ts(2) row] obtain t where "t \<in> set (tb_threads ts)" "thr_ID t = mr_thread_id row"
      by blast
    with find_by_key [of thr_ID "tb_threads ts" t] ts nf show ?thesis
      by (simp add: ThreadStore_GetByID_def go_bind_def sql_query_run row_or_not_found_def schema_keys)
  qed
  then show ?thesis
    using List_find_Some [of "\<lambda>r. mr_message_id_header r = k" "heap_order (iter_src w (iter_ix w)) mr_id (tb_messages ts)"]
      set_heap_order [OF schema_keys(1) [OF ts(2)], of "iter_src w (iter_ix w)"]
    by (cases "List.find (\<lambda>r. mr_message_id_header r = k) (heap_order (iter_src w (iter_ix w)) mr_id (tb_messages ts))")
      (auto simp: pg_FindByMessageID_def MessageStore_FindByMessageID_def go_bind_def next_order_def
        sql_query_run ts nf split: prod.splits sum.splits, metis Pair_inject sum.distinct(1))
qed

interpretation pg_total: thread_lookup_total "pg_thread_view :: 'z pg_world_scheme \<Rightarrow> _" pg_ready
  pg_FindByMessageID pg_FindMostRecentBySubject
proof (unfold_locales, goal_cases)
  case (5 s k r s')
  then show ?case
    using frames_pg_ready [OF pg_reads_frame(3) pg_reads_fault(1)] framesD [OF pg_reads_frame(3)] pg_view_db
    by metis
next
  case (6 s k t s')
  then show ?case using FindByMessageID_Inr [OF 6(2) pg_ready_ok] by simp
next
  case (7 s k s' m)
  then show ?case using FindByMessageID_Inr [OF 7(2) pg_ready_ok] by auto
next
  case (8 s org i c subj r s')
  then show ?case
    using frames_pg_ready [OF pg_reads_frame(4) pg_reads_fault(2)] framesD [OF pg_reads_frame(4)] pg_view_db
    by metis
next
  case (9 s org i c subj t s')
  then show ?case using FindMostRecent_Inr [OF 9(2)] by simp
next
  case (10 s org i c subj s' u)
  then show ?case using FindMostRecent_Inr [OF 10(2)] by auto
next
  case (11 s k)
  then show ?case by (rule FindByMessageID_returns)
next
  case (12 s org i c subj)
  then show ?case
    by (auto simp: pg_FindMostRecentBySubject_def ThreadStore_FindMostRecentBySubject_def go_bind_def
        pg_ready_def sql_query_run)
qed (auto simp: pg_thread_view_def pg_tables_of_def)

text \<open>C18: over the SQL store, in any state, resolution writes nothing, and when it answers its answer is the
  one the rules name over the stored threads and messages; it answers whenever no statement fails. That
  every message has a thread is a foreign key here and needs no hypothesis.\<close>

theorem pg_thread_resolution_refines:
  assumes "pg_ok w"
  shows "case threading_Resolve pg_FindByMessageID pg_FindMostRecentBySubject threshold input w of (r, w') \<Rightarrow>
    pg_db w' = pg_db w \<and>
    (case r of Inr res \<Rightarrow> resolution_spec (pg_thread_view w) threshold input res | Inl e \<Rightarrow> \<not> pg_ready w)"
proof -
  obtain r w' where run: "threading_Resolve pg_FindByMessageID pg_FindMostRecentBySubject threshold input w = (r, w')"
    by (cases "threading_Resolve pg_FindByMessageID pg_FindMostRecentBySubject threshold input w")
  have "frames (pg_db :: 'a pg_world_scheme \<Rightarrow> _) newThreadID"
    by (auto simp: frames_def newThreadID_def random_id_run)
  then have "pg_db w' = pg_db w"
    by (rule framesD [OF frames_Resolve [OF pg_reads_frame(3,4)] run])
  moreover have "resolution_spec (pg_thread_view w) threshold input res" if "r = Inr res" for res
    using pg_threads.Resolve_spec [OF assms pg_attached [OF assms]] run that by blast
  moreover have "\<not> pg_ready w" if "r = Inl e" for e
    using pg_total.Resolve_returns [of w threshold input] run that by auto
  ultimately show ?thesis by (simp add: run split: sum.split)
qed

section \<open>A concrete database\<close>

text \<open>
  Times to the microsecond, array literals in braces as PostgreSQL writes them, JSON kept as it is, a nil
  slice as NULL, and the order of bytes. No statement fails.
\<close>

definition brace_array :: "string \<Rightarrow> gerr + string" where
  "brace_array s = (if take 1 s = ''{'' then Inr s else Inl (ErrExternal ''malformed array literal''))"

definition demo_params :: pg_params where
  "demo_params = \<lparr>pr_time = \<lambda>t. t - t mod 1000, pr_array = brace_array, pr_jsonb = Inr, pr_nil_bytes = None,
     pr_collate = \<lambda>a b. a \<le> b\<rparr>"

definition demo_pg :: "pg_tables option \<Rightarrow> pg_world" where
  "demo_pg db = disk_world.extend demo_disk
     \<lparr>pg_db = db, pg_par = demo_params, sql_fault = \<lambda>i. None, sql_ix = 0\<rparr>"

lemma demo_pg_sel [simp]:
  "pg_db (demo_pg db) = db" "pg_par (demo_pg db) = demo_params" "sql_fault (demo_pg db) i = None"
  "sql_ix (demo_pg db) = 0" "rand_ix (demo_pg db) = 0" "clock_ix (demo_pg db) = 0" "iter_ix (demo_pg db) = 0"
  "iter_src (demo_pg db) i ks = ks" "http_log (demo_pg db) = []" "url_check (demo_pg db) u = None"
  "clock_src (demo_pg db) i = 63903204007000000000 + int i * nanos_per_second"
  "rand_src (demo_pg db) i n = Some (replicate n (char_of (i mod 256)))"
  "http_srv (demo_pg db) log q = Inr \<lparr>hp_StatusCode = 200, hp_Body = Inr []\<rparr>"
  "disk_fault (demo_pg db) i = None" "disk_files (demo_pg db) = [(''raw/b'', ''old'')]" "disk_ix (demo_pg db) = 0"
  by (simp_all add: demo_pg_def disk_world.extend_def demo_disk_def world.extend_def demo_world_def)

definition demo_tables :: pg_tables where
  "demo_tables = empty_tables
    \<lparr>tb_organizations := [\<lparr>org_ID = ''org'', org_Name = [], org_CreatedAt = 0, org_UpdatedAt = 0\<rparr>],
     tb_agents := [\<lparr>agt_ID = ''agent'', agt_OrganizationID = ''org'', agt_Name = [], agt_Status = ''active'',
       agt_WebhookURL = ''http://hook'', agt_WebhookSecret = [], agt_CreatedAt = 0, agt_UpdatedAt = 0\<rparr>],
     tb_inboxes := [\<lparr>ibx_ID = ''inbox'', ibx_OrganizationID = ''org'', ibx_AgentID = ''agent'',
       ibx_EmailAddress = ''agent@x'', ibx_Domain = ''x'', ibx_DisplayName = [], ibx_OutboundIdentity = [],
       ibx_CreatedAt = 0, ibx_UpdatedAt = 0\<rparr>],
     tb_contacts := [\<lparr>con_ID = ''contact-1'', con_OrganizationID = ''org'', con_EmailAddress = ''ada@x'',
       con_DisplayName = [], con_LastSeenAt = 0, con_CreatedAt = 0, con_UpdatedAt = 0\<rparr>],
     tb_threads := [\<lparr>thr_ID = ''thread-1'', thr_OrganizationID = ''org'', thr_AgentID = ''agent'',
       thr_InboxID = ''inbox'', thr_ContactID = ''contact-1'', thr_SubjectNormalized = ''hello'',
       thr_State = ''ACTIVE'', thr_LastInboundID = [], thr_LastOutboundID = [], thr_LastActivityAt = 1000,
       thr_CreatedAt = 1000, thr_UpdatedAt = 1000\<rparr>],
     tb_messages := [\<lparr>mr_id = ''message-1'', mr_organization_id = ''org'', mr_thread_id = ''thread-1'',
       mr_inbox_id = ''inbox'', mr_contact_id = ''contact-1'', mr_direction = ''inbound'', mr_subject = ''Hello'',
       mr_subject_normalized = ''hello'', mr_message_id_header = ''<a@x>'', mr_in_reply_to = [],
       mr_references_headers = ''{}'', mr_text_body = [], mr_html_body = [], mr_raw_mime_object_key = ''raw/b'',
       mr_provider_message_id = [], mr_delivery_state = [], mr_sent_at = None, mr_delivered_at = None,
       mr_bounced_at = None, mr_created_at = 1000\<rparr>]\<rparr>"

lemmas schema_defs = schema_ok_def unique_constraints_def organization_references_def record_references_def
  unique_by_def references_def

lemma demo_tables_ok [simp]: "schema_ok demo_tables"
  by (simp add: schema_defs demo_tables_def empty_tables_def Let_def)

lemma demo_pg_ready [simp]: "pg_ready (demo_pg (Some demo_tables))" "pg_ok (demo_pg (Some demo_tables))"
  by (simp_all add: pg_ready_def pg_ok_def)

definition demo_reply_input :: thread_resolution_input where
  "demo_reply_input = \<lparr>ti_OrganizationID = ''org'', ti_AgentID = ''agent'', ti_InboxID = ''inbox'',
     ti_ContactID = ''contact-1'',
     ti_ParsedMessage = \<lparr>pm_MessageIDHeader = ''<b@x>'', pm_InReplyTo = ''<a@x>'', pm_References = [],
        pm_Subject = [], pm_SubjectNormalized = [], pm_TextBody = [], pm_HTMLBody = [],
        pm_From = \<lparr>pa_Email = ''ada@x'', pa_DisplayName = []\<rparr>, pm_ReplyTo = [], pm_To = [], pm_CC = [],
        pm_Attachments = [], pm_RawHeaders = []\<rparr>,
     ti_ReceivedAt = 63903204007000000000\<rparr>"

theorem pg_thread_resolution_refines_witness:
  "case threading_Resolve pg_FindByMessageID pg_FindMostRecentBySubject NewResolver demo_reply_input
      (demo_pg (Some demo_tables)) of (r, w') \<Rightarrow>
     \<exists>res. r = Inr res \<and> pg_db w' = Some demo_tables \<and>
       resolution_spec (pg_thread_view (demo_pg (Some demo_tables))) NewResolver demo_reply_input res"
  using pg_thread_resolution_refines [of "demo_pg (Some demo_tables)" NewResolver demo_reply_input]
  by (auto split: prod.splits sum.splits)

end
