(* ===== verification/Postgres_Services.thy ===== *)
theory Postgres_Services
  imports Postgres_Laws Services
begin

text \<open>
  The services over the SQL store: what becomes of mail, replies, escalations and webhook deliveries when
  \<open>runtimeStore\<close> is \<open>postgresRuntimeStore\<close>.
\<close>

section \<open>Calls that cannot succeed\<close>

text \<open>\<open>blocked P m m'\<close>: from a state where \<open>P\<close> holds, \<open>m\<close> fails, and \<open>m'\<close> does the very same.\<close>

definition blocked :: "('s \<Rightarrow> bool) \<Rightarrow> ('s, 'a) go \<Rightarrow> ('s, 'a) go \<Rightarrow> bool" where
  "blocked P m m' \<longleftrightarrow> (\<forall>w. P w \<longrightarrow> isl (fst (m w)) \<and> m' w = m w)"

lemma blocked_bind_first: "blocked P m m \<Longrightarrow> blocked P (go_bind m f) (go_bind m g)"
  unfolding blocked_def
proof (intro allI impI)
  fix w
  assume a: "\<forall>w. P w \<longrightarrow> isl (fst (m w)) \<and> m w = m w" and "P w"
  then obtain e w' where "m w = (Inl e, w')" by (metis isl_def prod.collapse)
  then show "isl (fst (go_bind m f w)) \<and> go_bind m g w = go_bind m f w" by (simp add: go_bind_def)
qed

lemma blocked_bind_result:
  assumes "keeps P m" and "\<And>w x w'. m w = (Inr x, w') \<Longrightarrow> blocked P (f x) (g x)"
  shows "blocked P (go_bind m f) (go_bind m g)"
  unfolding blocked_def
proof (intro allI impI)
  fix w
  assume "P w"
  obtain r w' where m: "m w = (r, w')" by (cases "m w")
  with assms(1) \<open>P w\<close> have "P w'" by (blast intro: keepsD)
  with assms(2) [of w _ w'] m show "isl (fst (go_bind m f w)) \<and> go_bind m g w = go_bind m f w"
    by (cases r) (auto simp: go_bind_def blocked_def)
qed

lemma blocked_bind:
  "keeps P m \<Longrightarrow> (\<And>x. blocked P (f x) (g x)) \<Longrightarrow> blocked P (go_bind m f) (go_bind m g)"
  by (rule blocked_bind_result)

lemma blocked_fail [intro, simp]: "blocked P (go_fail e) (go_fail e)"
  by (simp add: blocked_def)

lemma blocked_if: "(b \<Longrightarrow> blocked P m m') \<Longrightarrow> (\<not> b \<Longrightarrow> blocked P n n') \<Longrightarrow>
    blocked P (if b then m else n) (if b then m' else n')"
  by simp

lemma frames_keeps: "frames g m \<Longrightarrow> keeps (\<lambda>w. P (g w)) m"
  by (simp add: frames_def keeps_def)

section \<open>Array columns\<close>

text \<open>
  PostgreSQL's input of an array: after white space, a literal starts with a brace, or with its explicit
  dimensions, a bracket before a number.
\<close>

definition array_literal :: "string \<Rightarrow> bool" where
  "array_literal s \<longleftrightarrow> (case trim_left s of
     [] \<Rightarrow> False
   | c # t \<Rightarrow> c = CHR ''{'' \<or> (c = CHR ''['' \<and> (case trim_left t of
       [] \<Rightarrow> False | d # _ \<Rightarrow> is_digit d \<or> d = CHR ''+'' \<or> d = CHR ''-'')))"

definition documented_arrays :: "pg_params \<Rightarrow> bool" where
  "documented_arrays p \<longleftrightarrow> (\<forall>s u. pr_array p s = Inr u \<longrightarrow> array_literal s)"

lemma array_value_literal: "\<not> array_literal (array_value xs)"
proof (cases xs)
  case Nil
  moreover have "\<not> array_literal ''null''" by code_simp
  ultimately show ?thesis by (simp add: array_value_def)
next
  case (Cons x ys)
  then have "\<exists>t. array_value xs = CHR ''['' # CHR 0x22 # t"
    by (cases ys) (simp_all add: array_value_def json_string_def)
  then show ?thesis
    by (auto simp: array_literal_def trim_left_nonspace is_space_def is_digit_def byte_of_def)
qed

lemma array_value_refused: "documented_arrays p \<Longrightarrow> \<exists>e. pr_array p (array_value xs) = Inl e"
  using array_value_literal [of xs] by (cases "pr_array p (array_value xs)") (auto simp: documented_arrays_def)

lemma frames_par [intro, simp, keeps_rules]:
  "frames (pg_par :: 'z pg_world_scheme \<Rightarrow> _) (sql_query q)"
  "frames (pg_par :: 'z pg_world_scheme \<Rightarrow> _) (sql_exec u)"
  "frames (pg_par :: 'z pg_world_scheme \<Rightarrow> _) next_order"
  "frames (pg_par :: 'z pg_world_scheme \<Rightarrow> _) time_now"
  "frames (pg_par :: 'z pg_world_scheme \<Rightarrow> _) (random_id a b)"
  by (auto simp: frames_def sql_query_def sql_exec_def sql_def next_order_def time_now_def random_id_run Let_def
      split: option.splits sum.splits prod.splits)

lemma frames_db_env [intro, simp, keeps_rules]:
  "frames (pg_db :: 'z pg_world_scheme \<Rightarrow> _) time_now"
  "frames (pg_db :: 'z pg_world_scheme \<Rightarrow> _) (random_id a b)"
  by (auto simp: frames_def time_now_def random_id_run)

lemma frames_disk [intro, simp, keeps_rules]:
  "frames (pg_par :: 'z pg_world_scheme \<Rightarrow> _) (blobfs_Put root k d)"
  "frames (pg_db :: 'z pg_world_scheme \<Rightarrow> _) (blobfs_Put root k d)"
  by (auto simp: blobfs_Put_def os_MkdirAll_def os_WriteFile_def frames_def go_bind_def Let_def
      split: option.splits sum.splits prod.splits)

lemma sql_exec_fails:
  assumes "\<And>ts. isl (u (pg_par w) ts)"
  shows "isl (fst (sql_exec u w)) \<and> pg_db (snd (sql_exec u w)) = pg_db w"
proof (cases "pg_db w")
  case (Some ts)
  with assms [of ts] show ?thesis
    by (auto simp: sql_exec_def sql_def Let_def isl_def split: option.splits)
qed (simp add: sql_exec_def sql_def Let_def)

lemma array_rows_refused:
  assumes "documented_arrays p"
  shows "\<exists>e. receipt_row p q = Inl e" "\<exists>e. message_row_of p m = Inl e" "\<exists>e. memory_row p c = Inl e"
  using array_value_refused [OF assms, of "rcv_EnvelopeRecipients q"]
    array_value_refused [OF assms, of "msg_References m"] array_value_refused [OF assms, of "cmm_Tags c"]
  by (auto simp: receipt_row_def message_row_of_def memory_row_def)

lemma array_exec_fails:
  assumes "documented_arrays (pg_par w)"
  shows "isl (fst (pg_SaveInboundReceipt q w)) \<and> pg_db (snd (pg_SaveInboundReceipt q w)) = pg_db w"
    and "isl (fst (pg_Create m w)) \<and> pg_db (snd (pg_Create m w)) = pg_db w"
    and "isl (fst (pg_SaveMessage m w)) \<and> pg_db (snd (pg_SaveMessage m w)) = pg_db w"
    and "isl (fst (ContactMemoryStore_CreateMemory e org w)) \<and>
      pg_db (snd (ContactMemoryStore_CreateMemory e org w)) = pg_db w"
proof -
  have first: "isl (fst (go_bind n f w)) \<and> pg_db (snd (go_bind n f w)) = pg_db w"
    if "isl (fst (n w)) \<and> pg_db (snd (n w)) = pg_db w" for n :: "('a pg_world_scheme, 'b) go" and f :: "'b \<Rightarrow> ('a pg_world_scheme, 'c) go"
    using that by (cases "n w"; cases "fst (n w)") (auto simp: go_bind_def)
  note rows = array_rows_refused [OF assms]
  show "isl (fst (pg_SaveInboundReceipt q w)) \<and> pg_db (snd (pg_SaveInboundReceipt q w)) = pg_db w"
    unfolding pg_defs InboundReceiptStore_SaveInboundReceipt_def
    by (rule sql_exec_fails) (use rows(1) [of "InboundReceiptToModel q"] in auto)
  show "isl (fst (pg_Create m w)) \<and> pg_db (snd (pg_Create m w)) = pg_db w"
    unfolding pg_defs MessageStore_Create_def
    by (intro first sql_exec_fails) (use rows(2) [of "MessageToModel m"] in auto)
  show "isl (fst (pg_SaveMessage m w)) \<and> pg_db (snd (pg_SaveMessage m w)) = pg_db w"
    unfolding pg_defs MessageStore_Save_def
    by (intro first sql_exec_fails) (use rows(2) [of "MessageToModel m"] in auto)
  show "isl (fst (ContactMemoryStore_CreateMemory e org w)) \<and>
      pg_db (snd (ContactMemoryStore_CreateMemory e org w)) = pg_db w"
    unfolding ContactMemoryStore_CreateMemory_def
    by (intro first sql_exec_fails) (use rows(3) [of "ContactMemoryToModel e org"] in auto)
qed

lemma braces_not_scanned: "isl (array_scan (CHR ''{'' # s))"
proof -
  have "case parse_value n d (CHR ''{'' # s) of None \<Rightarrow> True | Some (v, r) \<Rightarrow> \<exists>fs. v = JObject fs" for n d
    by (cases n) (auto simp: skip_space_def json_space_def split: option.splits)
  from this [of "2 * length (CHR ''{'' # s) + 2" max_nesting] show ?thesis
    by (auto simp: array_scan_def Unmarshal_value_def json_parse_def split: option.splits)
qed

text \<open>When array columns take the literals PostgreSQL documents, saving a receipt, creating or saving a
  message and creating a note fail for every argument and write nothing, since the slice is handed over as
  JSON; nor can a literal in braces, which is what PostgreSQL gives back, be read.\<close>

theorem pg_arrays_refused:
  assumes "documented_arrays (pg_par w)"
  shows "isl (fst (pg_SaveInboundReceipt q w)) \<and> pg_db (snd (pg_SaveInboundReceipt q w)) = pg_db w \<and>
    isl (fst (pg_Create m w)) \<and> pg_db (snd (pg_Create m w)) = pg_db w \<and>
    isl (fst (pg_SaveMessage m w)) \<and> pg_db (snd (pg_SaveMessage m w)) = pg_db w \<and>
    isl (fst (pg_CreateMemory e w)) \<and> pg_db (snd (pg_CreateMemory e w)) = pg_db w \<and>
    isl (array_scan (CHR ''{'' # s))"
proof -
  have "isl (fst (pg_CreateMemory e w)) \<and> pg_db (snd (pg_CreateMemory e w)) = pg_db w"
  proof -
    obtain r w1 where get: "ContactStore_GetContactByID (cm_ContactID e) w = (r, w1)"
      by (cases "ContactStore_GetContactByID (cm_ContactID e) w")
    have f: "frames (pg_db :: 'a pg_world_scheme \<Rightarrow> _) (ContactStore_GetContactByID (cm_ContactID e))"
      "frames (pg_par :: 'a pg_world_scheme \<Rightarrow> _) (ContactStore_GetContactByID (cm_ContactID e))"
      unfolding ContactStore_GetContactByID_def by (auto intro!: frames_bind)
    from f(1) get have "pg_db w1 = pg_db w" by (rule framesD)
    moreover from f(2) get have "pg_par w1 = pg_par w" by (rule framesD)
    ultimately have "pg_db w1 = pg_db w" "documented_arrays (pg_par w1)" using assms by simp_all
    with get array_exec_fails(4) [of w1 e] show ?thesis
      by (cases r) (auto simp: pg_CreateMemory_def go_bind_def)
  qed
  with array_exec_fails [OF assms] braces_not_scanned show ?thesis by blast
qed

definition demo_receipt :: durable_receipt_request where
  "demo_receipt = \<lparr>dr_SMTPTransactionID = ''session'', dr_OrganizationID = ''org'', dr_AgentID = ''agent'',
     dr_InboxID = ''inbox'', dr_EnvelopeSender = ''ada@x'', dr_EnvelopeRecipients = [''agent@x''],
     dr_RawMessageObjectKey = ''raw/b'', dr_ReceivedAt = 1000\<rparr>"

lemma demo_documented [simp]: "documented_arrays demo_params"
proof -
  have "array_literal s" if "take 1 s = ''{''" for s
    using that by (cases s) (auto simp: array_literal_def trim_left_nonspace is_space_def byte_of_def)
  then show ?thesis by (auto simp: documented_arrays_def demo_params_def brace_array_def split: if_splits)
qed

theorem pg_arrays_refused_witness:
  "isl (fst (pg_SaveInboundReceipt demo_receipt (demo_pg (Some demo_tables)))) \<and>
   isl (fst (pg_Create zero_message (demo_pg (Some demo_tables))))"
  using pg_arrays_refused [of "demo_pg (Some demo_tables)" demo_receipt zero_message zero_memory "[]"] by simp

section \<open>Mail and replies\<close>

lemma frames_lookup [intro, simp, keeps_rules]:
  "frames (pg_db :: 'z pg_world_scheme \<Rightarrow> _) (pg_FindByEmailAddress a)"
  "frames (pg_par :: 'z pg_world_scheme \<Rightarrow> _) (pg_FindByEmailAddress a)"
  unfolding pg_defs BootstrapStore_FindByEmailAddress_def by (auto intro!: frames_bind)

lemma frames_objectKey [intro, simp, keeps_rules]:
  "frames (pg_db :: 'z pg_world_scheme \<Rightarrow> _) (NewRawMessageObjectKey at i)"
  "frames (pg_par :: 'z pg_world_scheme \<Rightarrow> _) (NewRawMessageObjectKey at i)"
  by (auto simp: NewRawMessageObjectKey_def randomHex_def frames_def go_bind_def rand_read_def Let_def
      split: prod.splits option.splits sum.splits)

lemma pg_session_accept:
  fixes w :: "'z pg_world_scheme"
  assumes wired: "same_wiring s (edge_session pg_FindByEmailAddress (pg_Put (blobfs_NewStore root))
      pg_SaveInboundReceipt handler at i)" and doc: "documented_arrays (pg_par w)"
    and run: "session_accept s raw w = (r, w')"
  shows "isl r \<and> pg_db w' = pg_db w \<and> pg_par w' = pg_par w"
proof -
  have parts: "ss_now s = go_ret at" "ss_nextKey s = NewRawMessageObjectKey"
    "ss_store s = blobfs_Put root" "ss_sink s = Enqueue handler (Some pg_SaveInboundReceipt)"
    using same_wiringD [OF wired] by (simp_all add: pg_Put_def blobfs_NewStore_def fun_eq_iff)
  have sink: "isl (fst (Enqueue handler (Some pg_SaveInboundReceipt) q v)) \<and>
      pg_db (snd (Enqueue handler (Some pg_SaveInboundReceipt) q v)) = pg_db v \<and>
      pg_par (snd (Enqueue handler (Some pg_SaveInboundReceipt) q v)) = pg_par v"
    if "documented_arrays (pg_par v)" for q and v :: "'z pg_world_scheme"
  proof -
    obtain a v' where a: "pg_SaveInboundReceipt q v = (a, v')" by (cases "pg_SaveInboundReceipt q v")
    moreover have "pg_par v' = pg_par v"
      using framesD [OF frames_par(2) a [unfolded pg_SaveInboundReceipt_def InboundReceiptStore_SaveInboundReceipt_def]] .
    ultimately show ?thesis
      using array_exec_fails(1) [OF that, of q] by (auto simp: Enqueue_def go_bind_def isl_def)
  qed
  obtain k w1 where k: "NewRawMessageObjectKey at (ss_targetInbox s) w = (k, w1)"
    by (cases "NewRawMessageObjectKey at (ss_targetInbox s) w")
  note fk = framesD [OF frames_objectKey(1) k] framesD [OF frames_objectKey(2) k]
  show ?thesis
  proof (cases k)
    case (Inl e)
    with run k fk show ?thesis by (auto simp: session_accept_def parts go_bind_def)
  next
    case (Inr key)
    obtain p w2 where p: "blobfs_Put root key raw w1 = (p, w2)" by (cases "blobfs_Put root key raw w1")
    note fp = framesD [OF frames_disk(1) p] framesD [OF frames_disk(2) p]
    with run k fk Inr p sink [of w2 "session_receipt s key at"] doc show ?thesis
      by (cases p) (auto simp: session_accept_def parts go_bind_def)
  qed
qed

lemma pg_session_call:
  fixes w :: "'z pg_world_scheme"
  assumes wired: "same_wiring s (edge_session pg_FindByEmailAddress (pg_Put (blobfs_NewStore root))
      pg_SaveInboundReceipt handler at i)" and doc: "documented_arrays (pg_par w)"
    and run: "AdapterSession_call (NewAdapterSession session_core) cmd (s, w) = (r, (s', w'))"
  shows "pg_db w' = pg_db w \<and> pg_par w' = pg_par w \<and> (case cmd of Data _ \<Rightarrow> isl r | _ \<Rightarrow> True) \<and>
    same_wiring s' (edge_session pg_FindByEmailAddress (pg_Put (blobfs_NewStore root))
      pg_SaveInboundReceipt handler at i)"
proof (cases cmd)
  case (Rcpt to)
  have lookup: "ss_lookup s = pg_FindByEmailAddress" using same_wiringD [OF wired] by simp
  obtain a v where a: "pg_FindByEmailAddress to w = (a, v)" by (cases "pg_FindByEmailAddress to w")
  note fr = framesD [OF frames_lookup(1) a] framesD [OF frames_lookup(2) a]
  from run a fr wired lookup Rcpt show ?thesis
    by (auto simp: NewAdapterSession_def session_core_def Session_Rcpt_def split: if_splits sum.splits option.splits)
next
  case (Data reader)
  show ?thesis
  proof (cases reader)
    case (Inr raw)
    obtain a v where a: "session_accept s raw w = (a, v)" by (cases "session_accept s raw w")
    from run a pg_session_accept [OF wired doc a] wired Data Inr show ?thesis
      by (auto simp: NewAdapterSession_def session_core_def Session_Data_def isl_def split: if_splits)
  qed (use run wired Data in \<open>auto simp: NewAdapterSession_def session_core_def Session_Data_def split: if_splits\<close>)
qed (use run wired in \<open>auto simp: NewAdapterSession_def session_core_def Session_Mail_def split: if_splits\<close>)

text \<open>C22: with the SQL store and the file store, as long as array columns take what PostgreSQL documents, no
  mail gets in: whatever a client sends, DATA is refused in every state it can reach, and no command
  changes a table.\<close>

theorem pg_mail_refused:
  fixes w :: "'z pg_world_scheme"
  assumes "documented_arrays (pg_par w)"
    and "session_reach (edge_session pg_FindByEmailAddress (pg_Put (blobfs_NewStore root)) pg_SaveInboundReceipt
      handler at i) w s w'"
  shows "pg_db w' = pg_db w \<and>
    isl (fst (AdapterSession_call (NewAdapterSession session_core) (Data reader) (s, w')))"
proof -
  let ?s0 = "edge_session pg_FindByEmailAddress (pg_Put (blobfs_NewStore root)) pg_SaveInboundReceipt handler at i
    :: 'z pg_world_scheme session"
  from assms(2) have inv: "pg_db w' = pg_db w \<and> pg_par w' = pg_par w \<and> same_wiring s ?s0"
  proof induction
    case (call s v cmd r s' v')
    then have "documented_arrays (pg_par v)" "same_wiring s ?s0" using assms(1) by simp_all
    from pg_session_call [OF this(2,1) call.hyps(2)] call.IH show ?case by simp
  qed simp
  obtain r s1 w1 where run: "AdapterSession_call (NewAdapterSession session_core) (Data reader) (s, w') = (r, (s1, w1))"
    by (metis surjective_pairing)
  have "documented_arrays (pg_par w')" "same_wiring s ?s0" using inv assms(1) by simp_all
  from pg_session_call [OF this(2,1) run] inv run show ?thesis by simp
qed

theorem pg_mail_refused_witness:
  "isl (fst (AdapterSession_call (NewAdapterSession session_core) (Data (Inr ''Subject: hi''))
     (edge_session pg_FindByEmailAddress (pg_Put (blobfs_NewStore ''raw'')) pg_SaveInboundReceipt
        (\<lambda>m. go_fail (ErrMsg ''unused'')) 5 ''session-1'', demo_pg (Some demo_tables))))"
  using pg_mail_refused [OF _ session_reach.start, of "demo_pg (Some demo_tables)"] by simp

text \<open>\<open>newReplyService\<close> of \<open>cmd/agentlayer/main.go\<close> over this store.\<close>

definition pg_newReplyService ::
    "'z pg_world_scheme raw_store \<Rightarrow> 'z pg_world_scheme email_provider \<Rightarrow> 'z pg_world_scheme reply_service" where
  "pg_newReplyService raw provider =
     \<lparr>rs_generateMessageID = go_ret generated_message_id,
      rs_queueRecorder = \<lparr>qr_Create = pg_Create, qr_Save = Some pg_Save, qr_Put = Some (pg_Put raw)\<rparr>,
      rs_provider = provider, rs_saveStatus = pg_SaveMessage, rs_isSuppressed = Some pg_IsSuppressed\<rparr>"

text \<open>Recording a queued reply needs a row in \<open>messages\<close>; where that row is refused nothing is sent.\<close>

lemma blocked_queue:
  assumes create: "\<And>i. blocked P (qr_Create q (queued_message input i)) (qr_Create q (queued_message input i))"
    and put: "\<And>put k d. qr_Put q = Some put \<Longrightarrow> keeps P (put k d)"
    and ids: "keeps P newOutboundMessageID"
  shows "blocked P (RecordQueuedReply q input) (RecordQueuedReply q input)"
  unfolding RecordQueuedReply_def
  by (rule blocked_bind, use put in \<open>force split: option.split intro!: keeps_if\<close>, rule blocked_bind [OF ids],
      rule blocked_bind_first [OF create])

lemma pg_send_blocked:
  fixes Q :: "pg_tables option \<Rightarrow> pg_params \<Rightarrow> bool"
  defines "P \<equiv> \<lambda>w :: 'z pg_world_scheme. Q (pg_db w) (pg_par w)"
  assumes create: "\<And>q i. rq_Inbox q = si_Inbox input \<Longrightarrow> rm_MessageIDHeader (rq_Metadata q) = generated_message_id \<Longrightarrow>
      blocked P (pg_Create (queued_message q i)) (pg_Create (queued_message q i))"
  shows "blocked P (SendReply (pg_newReplyService (blobfs_NewStore root) provider) input)
    (SendReply (pg_newReplyService (blobfs_NewStore root) provider') input)"
proof -
  have fr: "keeps P m" if "frames (pg_par :: 'z pg_world_scheme \<Rightarrow> _) m" "frames (pg_db :: 'z pg_world_scheme \<Rightarrow> _) m"
    for m :: "('z pg_world_scheme, 'b) go"
    using that by (simp add: keeps_def frames_def P_def)
  have env: "keeps P (pg_IsSuppressed org e)" "keeps P time_now" "keeps P newOutboundMessageID"
      "keeps P (pg_Put (blobfs_NewStore root) k d)" for org e k d
    by (auto intro!: fr simp: pg_defs SuppressionStore_IsSuppressed_def newOutboundMessageID_def blobfs_NewStore_def)
  let ?s = "\<lambda>p. pg_newReplyService (blobfs_NewStore root) p"
  have same: "rs_queueRecorder (?s provider') = rs_queueRecorder (?s provider)"
    "rs_generateMessageID (?s provider') = rs_generateMessageID (?s provider)"
    "rs_isSuppressed (?s provider') = rs_isSuppressed (?s provider)"
    by (simp_all add: pg_newReplyService_def)
  have queue: "blocked P (RecordQueuedReply (rs_queueRecorder (?s provider)) q)
      (RecordQueuedReply (rs_queueRecorder (?s provider)) q)"
    if "rq_Inbox q = si_Inbox input" "rm_MessageIDHeader (rq_Metadata q) = generated_message_id" for q
    by (rule blocked_queue) (auto simp: pg_newReplyService_def env create that)
  have assemble: "keeps P (AssembleReply (rs_generateMessageID (?s provider)) a)" for a
    by (auto simp: AssembleReply_def pg_newReplyService_def Let_def)
  have header: "rm_MessageIDHeader metadata = generated_message_id"
    if "AssembleReply (rs_generateMessageID (?s provider)) a w = (Inr (raw, metadata), w')" for a w raw metadata w'
    using that by (auto simp: AssembleReply_def pg_newReplyService_def Let_def split: if_splits)
  have "blocked P (send_unsuppressed (?s provider) input) (send_unsuppressed (?s provider') input)"
    unfolding send_unsuppressed_def same
    by (rule blocked_bind_result [OF assemble])
      (auto split: prod.split dest: header intro!: blocked_bind [OF env(2)] blocked_bind_first [OF queue])
  moreover have "keeps P (case rs_isSuppressed (?s provider) of None \<Rightarrow> go_ret ()
     | Some isSuppressed \<Rightarrow> go_bind (isSuppressed org e)
         (\<lambda>suppressed. if suppressed then go_fail ErrRecipientSuppressed else go_ret ()))" for org e
    by (auto simp: pg_newReplyService_def intro!: keeps_bind env)
  ultimately show ?thesis
    unfolding SendReply_def same by (intro blocked_bind)
qed

text \<open>With the SQL store, as long as array columns take what PostgreSQL documents, no reply is ever sent:
  the reply service fails for every input, and it does the same whatever the email provider is, so it
  does not get as far as to call it.\<close>

theorem pg_reply_refused:
  assumes "documented_arrays (pg_par w)"
  shows "isl (fst (SendReply (pg_newReplyService (blobfs_NewStore root) provider) input w)) \<and>
    SendReply (pg_newReplyService (blobfs_NewStore root) provider') input w =
    SendReply (pg_newReplyService (blobfs_NewStore root) provider) input w"
proof -
  have "blocked (\<lambda>w. documented_arrays (pg_par w)) (pg_Create m) (pg_Create m)" for m
    using array_exec_fails(2) by (auto simp: blocked_def)
  then have "blocked (\<lambda>w. documented_arrays (pg_par w))
    (SendReply (pg_newReplyService (blobfs_NewStore root) provider) input)
    (SendReply (pg_newReplyService (blobfs_NewStore root) provider') input)"
    by (rule pg_send_blocked [of input "\<lambda>db p. documented_arrays p"])
  with assms show ?thesis by (simp add: blocked_def)
qed

theorem pg_reply_refused_witness:
  "isl (fst (SendReply (pg_newReplyService (blobfs_NewStore ''raw'') dev_provider)
     \<lparr>si_Organization = zero_organization, si_Agent = zero_agent, si_Inbox = zero_inbox\<lparr>i_EmailAddress := ''agent@x''\<rparr>,
      si_Thread = zero_thread, si_ReplyToMessage = zero_message\<lparr>m_MessageIDHeader := ''<a@x>''\<rparr>,
      si_Contact = zero_contact\<lparr>c_EmailAddress := ''ada@x''\<rparr>, si_BodyText = ''hi'', si_ObjectKey = ''raw/c'',
      si_IdempotencyKey = []\<rparr> (demo_pg (Some demo_tables))))"
  using pg_reply_refused [of "demo_pg (Some demo_tables)"] by simp

text \<open>Every reply of the process carries the same message id header, which the index on messages wants to be
  unique in an inbox.\<close>

definition holds_reply :: "string \<Rightarrow> pg_tables option \<Rightarrow> bool" where
  "holds_reply inboxID db \<longleftrightarrow> (\<exists>ts. db = Some ts \<and> (\<exists>row \<in> set (tb_messages ts).
     mr_inbox_id row = inboxID \<and> mr_message_id_header row = generated_message_id))"

lemma second_reply_row:
  assumes "holds_reply (i_ID (rq_Inbox q)) (Some ts)" and "rm_MessageIDHeader (rq_Metadata q) = generated_message_id"
    and "message_row_of p (MessageToModel (queued_message q i)) = Inr row"
  shows "\<not> schema_ok (ts\<lparr>tb_messages := tb_messages ts @ [row]\<rparr>)"
proof -
  have row: "mr_inbox_id row = i_ID (rq_Inbox q)" "mr_message_id_header row = generated_message_id"
    using assms(2,3) by (auto simp: message_row_of_def MessageToModel_def queued_message_def split: sum.splits)
  from assms(1) obtain r where "r \<in> set (tb_messages ts)" "mr_inbox_id r = i_ID (rq_Inbox q)"
    "mr_message_id_header r = generated_message_id" by (auto simp: holds_reply_def)
  then have "(mr_inbox_id row, mr_message_id_header row) \<in>
      (\<lambda>r. (mr_inbox_id r, mr_message_id_header r)) ` set (filter (\<lambda>r. mr_message_id_header r \<noteq> []) (tb_messages ts))"
    by (auto simp: row generated_message_id_def image_iff)
  then show ?thesis
    by (auto simp: schema_ok_def unique_constraints_def unique_by_def row generated_message_id_def)
qed

text \<open>C23: over the SQL store an inbox sends one reply at most, however the database stores arrays: once a
  message with the constant message id is recorded in it, every further reply from it fails before the
  provider is called.\<close>

theorem pg_one_reply_per_inbox:
  assumes "holds_reply (i_ID (si_Inbox input)) (pg_db w)"
  shows "isl (fst (SendReply (pg_newReplyService (blobfs_NewStore root) provider) input w)) \<and>
    SendReply (pg_newReplyService (blobfs_NewStore root) provider') input w =
    SendReply (pg_newReplyService (blobfs_NewStore root) provider) input w"
proof -
  let ?P = "\<lambda>w :: 'a pg_world_scheme. holds_reply (i_ID (si_Inbox input)) (pg_db w)"
  have "blocked ?P (pg_Create (queued_message q i)) (pg_Create (queued_message q i))"
    if q: "rq_Inbox q = si_Inbox input" "rm_MessageIDHeader (rq_Metadata q) = generated_message_id" for q i
    unfolding blocked_def
  proof (intro allI impI conjI refl)
    fix w :: "'a pg_world_scheme"
    assume h: "?P w"
    then obtain ts where ts: "pg_db w = Some ts" by (auto simp: holds_reply_def)
    define u :: "pg_params \<Rightarrow> pg_tables \<Rightarrow> gerr + pg_tables" where
      "u = (\<lambda>p ts. case message_row_of p (MessageToModel (queued_message q i)) of
        Inl e \<Rightarrow> Inl e | Inr row \<Rightarrow> Inr (ts\<lparr>tb_messages := tb_messages ts @ [row]\<rparr>))"
    have bad: "\<not> schema_ok ts'" if "u (pg_par w) ts = Inr ts'" for ts'
      using that second_reply_row [of q ts "pg_par w" i] h q ts by (auto simp: u_def split: sum.splits)
    obtain r w' where run: "sql_exec u w = (r, w')" by (cases "sql_exec u w")
    from sql_exec_refused [OF run ts bad] run show "isl (fst (pg_Create (queued_message q i) w))"
      by (auto simp: pg_Create_def MessageStore_Create_def go_bind_def u_def [symmetric] isl_def)
  qed
  then have "blocked ?P (SendReply (pg_newReplyService (blobfs_NewStore root) provider) input)
    (SendReply (pg_newReplyService (blobfs_NewStore root) provider') input)"
    by (rule pg_send_blocked [of input "\<lambda>db p. holds_reply (i_ID (si_Inbox input)) db"])
  with assms show ?thesis by (simp add: blocked_def)
qed

definition replied_tables :: pg_tables where
  "replied_tables = demo_tables\<lparr>tb_messages := map (\<lambda>r. r\<lparr>mr_message_id_header := generated_message_id\<rparr>)
     (tb_messages demo_tables)\<rparr>"

theorem pg_one_reply_per_inbox_witness:
  "isl (fst (SendReply (pg_newReplyService (blobfs_NewStore ''raw'') dev_provider)
     \<lparr>si_Organization = zero_organization, si_Agent = zero_agent,
      si_Inbox = zero_inbox\<lparr>i_ID := ''inbox'', i_EmailAddress := ''agent@x''\<rparr>,
      si_Thread = zero_thread, si_ReplyToMessage = zero_message\<lparr>m_MessageIDHeader := ''<a@x>''\<rparr>,
      si_Contact = zero_contact\<lparr>c_EmailAddress := ''ada@x''\<rparr>, si_BodyText = ''hi'', si_ObjectKey = ''raw/c'',
      si_IdempotencyKey = []\<rparr> (demo_pg (Some replied_tables))))"
proof -
  have "holds_reply ''inbox'' (Some replied_tables)"
    by (simp add: holds_reply_def replied_tables_def demo_tables_def empty_tables_def)
  then show ?thesis by (intro pg_one_reply_per_inbox [THEN conjunct1]) simp
qed

section \<open>Escalation\<close>

lemma upsert_field:
  assumes "f new = v" and "\<And>old. f (set_row new old) = v"
  shows "\<exists>r \<in> set (upsert key set_row new rows). f r = v"
  using assms by (auto simp: upsert_def list_ex_iff image_iff)

lemma thread_organization:
  "schema_ok ts \<Longrightarrow> r \<in> set (tb_threads ts) \<Longrightarrow> thr_OrganizationID r \<in> org_ID ` set (tb_organizations ts)"
  by (simp add: schema_ok_def organization_references_def references_def list_all_iff Let_def)

text \<open>A record that names no organization is refused: a foreign key.\<close>

lemma orphan_thread_refused:
  assumes db: "\<forall>ts. pg_db w = Some ts \<longrightarrow> t_OrganizationID t \<notin> org_ID ` set (tb_organizations ts)"
  shows "isl (fst (pg_Save t w)) \<and> pg_db (snd (pg_Save t w)) = pg_db w"
proof (cases "pg_db w")
  case None
  then show ?thesis by (simp add: pg_defs ThreadStore_Save_def go_bind_def sql_exec_def sql_def Let_def)
next
  case (Some ts)
  define update where "update = (\<lambda>p ts. Inr (ts\<lparr>tb_threads := upsert thr_ID
        (\<lambda>new old. old\<lparr>thr_OrganizationID := thr_OrganizationID new, thr_AgentID := thr_AgentID new,
           thr_InboxID := thr_InboxID new, thr_ContactID := thr_ContactID new,
           thr_SubjectNormalized := thr_SubjectNormalized new, thr_State := thr_State new,
           thr_LastInboundID := thr_LastInboundID new, thr_LastOutboundID := thr_LastOutboundID new,
           thr_LastActivityAt := thr_LastActivityAt new, thr_UpdatedAt := thr_UpdatedAt new\<rparr>)
        (thread_row p (ThreadToModel t)) (tb_threads ts)\<rparr>) :: gerr + pg_tables)"
  have bad: "\<not> schema_ok ts'" if u: "update (pg_par w) ts = Inr ts'" for ts'
  proof -
    from u have ts': "tb_organizations ts' = tb_organizations ts" by (auto simp: update_def)
    have "\<exists>r \<in> set (tb_threads ts'). thr_OrganizationID r = t_OrganizationID t"
      using u by (auto simp: update_def thread_row_def ThreadToModel_def intro!: upsert_field)
    with db Some ts' thread_organization [of ts'] show ?thesis by metis
  qed
  obtain r w' where run: "sql_exec update w = (r, w')" by (cases "sql_exec update w")
  from sql_exec_refused [OF run Some bad] have "isl r" "pg_db w' = pg_db w" by auto
  with run show ?thesis
    by (cases r) (simp_all add: pg_defs ThreadStore_Save_def go_bind_def update_def [symmetric])
qed

text \<open>\<open>newThreadEscalationHandlerService\<close> over this store.\<close>

definition pg_newThreadEscalationHandlerService :: "string \<Rightarrow> ('z pg_world_scheme, thread) go" where
  "pg_newThreadEscalationHandlerService = threadEscalationServiceAdapter pg_GetByID (EscalateThread pg_Save time_now)"

text \<open>Over the SQL store no thread can be escalated, stored or not: the thread that escalation saves
  names no organization, so the foreign key refuses it and no table changes, as long as there is no
  organization whose id is empty.\<close>

theorem pg_escalation_refused:
  assumes "\<forall>ts. pg_db w = Some ts \<longrightarrow> [] \<notin> org_ID ` set (tb_organizations ts)"
  shows "isl (fst (pg_newThreadEscalationHandlerService threadID w)) \<and>
    pg_db (snd (pg_newThreadEscalationHandlerService threadID w)) = pg_db w"
proof -
  obtain r w1 where get: "pg_GetByID threadID w = (r, w1)" by (cases "pg_GetByID threadID w")
  from pg_reads_frame(2) get have db: "pg_db w1 = pg_db w" by (rule framesD)
  let ?t = "zero_thread\<lparr>t_ID := threadID, t_State := ThreadStateEscalated, t_UpdatedAt := clock_src w1 (clock_ix w1)\<rparr>"
  have "isl (fst (pg_Save ?t (w1\<lparr>clock_ix := Suc (clock_ix w1)\<rparr>))) \<and>
      pg_db (snd (pg_Save ?t (w1\<lparr>clock_ix := Suc (clock_ix w1)\<rparr>))) = pg_db w1"
    using orphan_thread_refused [of "w1\<lparr>clock_ix := Suc (clock_ix w1)\<rparr>" ?t] assms db
    by (simp add: zero_thread_def)
  with get db show ?thesis
    by (cases r) (simp_all add: pg_newThreadEscalationHandlerService_def threadEscalationServiceAdapter_def
        EscalateThread_def go_bind_def time_now_def)
qed

theorem pg_escalation_refused_witness:
  "isl (fst (pg_newThreadEscalationHandlerService ''thread-1'' (demo_pg (Some demo_tables))))"
  using pg_escalation_refused [of "demo_pg (Some demo_tables)" "''thread-1''"]
  by (simp add: demo_tables_def empty_tables_def)

end
