(* ===== verification/Json_Laws.thy ===== *)
theory Json_Laws
  imports Json_Decode
begin

text \<open>
  Reading back what \<open>encoding/json\<close> writes, and the fuel of the reader: what the encoder model writes
  for a value, the decoder model reads as that value, with bytes that are not UTF-8 replaced.
\<close>

section \<open>What was written is read back\<close>

text \<open>A string with every byte that is not UTF-8 replaced, as the encoder writes it.\<close>

function to_valid :: "string \<Rightarrow> string" where
  "to_valid [] = []"
| "to_valid (c # s) =
     (if byte_of c < 128 then c # to_valid s
      else case utf8_seq (c # s) of
        None \<Rightarrow> replacement @ to_valid s
      | Some n \<Rightarrow> take n (c # s) @ to_valid (drop (n - 1) s))"
  by pat_completeness auto

termination
  by (relation "measure length") auto

lemma prepend_simps [simp]: "prepend x None = None" "prepend x (Some (y, s)) = Some (x @ y, s)"
  by (simp_all add: prepend_def)

lemma utf8_seq_cases:
  assumes "utf8_seq s = Some n"
  obtains (two) a b r where "s = a # b # r" "n = 2" "194 \<le> byte_of a" "byte_of a < 224" "continuation b"
  | (three) a b c r where "s = a # b # c # r" "n = 3" "224 \<le> byte_of a" "byte_of a < 240" "continuation b"
      "continuation c" "byte_of a = 224 \<longrightarrow> 160 \<le> byte_of b" "byte_of a = 237 \<longrightarrow> byte_of b < 160"
  | (four) a b c d r where "s = a # b # c # d # r" "n = 4" "240 \<le> byte_of a" "byte_of a < 245" "continuation b"
      "continuation c" "continuation d" "byte_of a = 240 \<longrightarrow> 144 \<le> byte_of b"
      "byte_of a = 244 \<longrightarrow> byte_of b < 144"
proof (cases s rule: utf8_seq.cases)
  case (1 a b rest)
  consider "194 \<le> byte_of a \<and> byte_of a < 224" | "224 \<le> byte_of a \<and> byte_of a < 240"
    | "240 \<le> byte_of a \<and> byte_of a < 245"
    using assms 1 by (fastforce simp: Let_def split: if_splits)
  then show thesis
  proof cases
    case A: 1
    with assms 1 show thesis by (intro two [of a b rest]) (simp_all add: Let_def split: if_splits)
  next
    case A: 2
    with assms 1 obtain c r where "rest = c # r" by (cases rest) (simp_all add: Let_def)
    with A assms 1 show thesis by (intro three [of a b c r]) (simp_all add: Let_def split: if_splits)
  next
    case A: 3
    with assms 1 obtain c d r where "rest = c # d # r" by (cases rest rule: remdups_adj.cases) (simp_all add: Let_def)
    with A assms 1 show thesis by (intro four [of a b c d r]) (simp_all add: Let_def split: if_splits)
  qed
qed (use assms in simp_all)

lemma utf8_seq_prefix:
  assumes "utf8_seq s = Some n"
  shows "utf8_seq (take n s @ r) = Some n" and "n \<le> length s" and "2 \<le> n"
  using assms by (cases rule: utf8_seq_cases; simp)+

lemma hex_value_digit: "n < 16 \<Longrightarrow> hex_value (hex_digit n) = Some n"
proof -
  have "\<forall>n \<in> set [0..<16]. hex_value (hex_digit n) = Some n" by code_simp
  then show "n < 16 \<Longrightarrow> hex_value (hex_digit n) = Some n" by simp
qed

lemma hex4_byte:
  assumes "byte_of c < 128"
  shows "hex4 (''00'' @ hex_byte c @ r) = Some (byte_of c, r)"
proof -
  have z: "hex_value (CHR ''0'') = Some 0" by code_simp
  have "hex_digit (byte_of c) = hex_digit (byte_of c mod 16)" by (simp add: hex_digit_def)
  then have l: "hex_value (hex_digit (byte_of c)) = Some (byte_of c mod 16)" by (simp add: hex_value_digit)
  have "byte_of c div 16 < 16" using assms by (simp add: div_less_iff_less_mult)
  then have h: "hex_value (hex_digit (byte_of c div 16)) = Some (byte_of c div 16)" by (rule hex_value_digit)
  show ?thesis by (simp add: hex_byte_def z l h)
qed

lemma byte_of_char [simp]: "char_of (byte_of c) = c"
  by (simp add: byte_of_def)

lemma escape_reads:
  assumes "byte_of c < 128"
  shows "json_literal (json_escape c @ s) = prepend [c] (json_literal s)"
proof -
  have q: "byte_of (CHR 0x22) = 34" "byte_of (CHR 0x5C) = 92" by (simp_all add: byte_of_def)
  have e: "simple_escape (CHR 0x22) = Some (CHR 0x22)" "simple_escape (CHR 0x5C) = Some (CHR 0x5C)"
    "simple_escape (CHR ''b'') = Some (CHR 0x08)" "simple_escape (CHR ''f'') = Some (CHR 0x0C)"
    "simple_escape (CHR ''n'') = Some (CHR 0x0A)" "simple_escape (CHR ''r'') = Some (CHR 0x0D)"
    "simple_escape (CHR ''t'') = Some (CHR 0x09)"
    by (simp_all add: simple_escape_def)
  have n: "\<not> is_surrogate (byte_of c)" "utf8_encode (byte_of c) = [c]"
    using assms by (simp_all add: is_surrogate_def utf8_encode_def)
  have h: "json_literal (hex_escape c @ s) = prepend [c] (json_literal s)"
    using hex4_byte [OF assms, of s] n by (simp add: hex_escape_def)
  show ?thesis using assms h by (auto simp: json_escape_def e)
qed

lemma utf8_bytes:
  "char_of (239 :: nat) = CHR 0xEF" "char_of (191 :: nat) = CHR 0xBF" "char_of (189 :: nat) = CHR 0xBD"
  "char_of (226 :: nat) = CHR 0xE2" "char_of (128 :: nat) = CHR 0x80" "char_of (168 :: nat) = CHR 0xA8"
  "char_of (169 :: nat) = CHR 0xA9"
  by code_simp+

lemma replacement_reads: "json_literal ([CHR 0x5C] @ ''ufffd'' @ s) = prepend replacement (json_literal s)"
proof -
  have v: "hex_value (CHR ''f'') = Some 15" "hex_value (CHR ''d'') = Some 13" by code_simp+
  have "utf8_encode 65533 = replacement" by (simp add: utf8_encode_def replacement_def utf8_bytes)
  then show ?thesis by (subst append_Cons, subst json_literal.simps(2)) (simp add: v is_surrogate_def del: json_literal.simps)
qed

lemma separator_reads:
  "json_literal ([CHR 0x5C] @ ''u2028'' @ s) = prepend [CHR 0xE2, CHR 0x80, CHR 0xA8] (json_literal s)"
  "json_literal ([CHR 0x5C] @ ''u2029'' @ s) = prepend [CHR 0xE2, CHR 0x80, CHR 0xA9] (json_literal s)"
proof -
  have v: "hex_value (CHR ''2'') = Some 2" "hex_value (CHR ''0'') = Some 0" "hex_value (CHR ''8'') = Some 8"
    "hex_value (CHR ''9'') = Some 9" by code_simp+
  have "utf8_encode 8232 = [CHR 0xE2, CHR 0x80, CHR 0xA8]" "utf8_encode 8233 = [CHR 0xE2, CHR 0x80, CHR 0xA9]"
    by (simp_all add: utf8_encode_def utf8_bytes)
  then show "json_literal ([CHR 0x5C] @ ''u2028'' @ s) = prepend [CHR 0xE2, CHR 0x80, CHR 0xA8] (json_literal s)"
    "json_literal ([CHR 0x5C] @ ''u2029'' @ s) = prepend [CHR 0xE2, CHR 0x80, CHR 0xA9] (json_literal s)"
    by ((subst append_Cons, subst json_literal.simps(2), simp add: v is_surrogate_def del: json_literal.simps)+)
qed

lemma plain_reads:
  assumes "32 \<le> byte_of c" and "byte_of c < 128" and "c \<noteq> CHR 0x22" and "c \<noteq> CHR 0x5C"
  shows "json_literal (c # s) = prepend [c] (json_literal s)"
  using assms by simp

lemma utf8_reads:
  assumes "utf8_seq (c # s) = Some n" and "128 \<le> byte_of c"
  shows "json_literal (take n (c # s) @ r) = prepend (take n (c # s)) (json_literal r)"
proof -
  note pre = utf8_seq_prefix [OF assms(1)]
  have seq: "utf8_seq (take n (c # s) @ r) = Some n" by (rule pre(1))
  have ne: "c \<noteq> CHR 0x22" "c \<noteq> CHR 0x5C" using assms(2) by (auto simp: byte_of_def)
  obtain t where t: "take n (c # s) = c # t" using pre(3) by (cases n) simp_all
  have len: "length t = n - 1" using arg_cong [OF t, of length] pre(2) by simp
  have "json_literal (c # t @ r) = prepend (take n (c # t @ r)) (json_literal (drop (n - 1) (t @ r)))"
    using seq ne assms(2) unfolding t by (subst json_literal.simps(2)) (simp del: json_literal.simps)
  moreover have "take n (c # t @ r) = c # t" using len pre(3) by (cases n) simp_all
  ultimately show ?thesis by (simp add: t len)
qed

text \<open>A string literal reads back as the string that was written, made valid.\<close>

lemma prepend_prepend [simp]: "prepend x (prepend y r) = prepend (x @ y) r"
  by (cases r) (auto simp: prepend_def)

lemma json_chars_read: "json_literal (json_chars s @ r) = prepend (to_valid s) (json_literal r)"
proof (induction s rule: json_chars.induct)
  case 1
  show ?case by (simp add: prepend_def split: option.split)
next
  case (2 c s)
  show ?case
  proof (cases "byte_of c < 128")
    case True
    with 2(1) show ?thesis by (simp add: escape_reads)
  next
    case False
    show ?thesis
    proof (cases "utf8_seq (c # s)")
      case None
      with False 2(2) show ?thesis using replacement_reads [of "json_chars s @ r"] by simp
    next
      case (Some n)
      let ?rest = "json_chars (drop (n - 1) s) @ r"
      have ih: "json_literal ?rest = prepend (to_valid (drop (n - 1) s)) (json_literal r)"
        by (rule 2(3) [OF False Some])
      have "json_literal ((if take n (c # s) = [CHR 0xE2, CHR 0x80, CHR 0xA8] then [CHR 0x5C] @ ''u2028''
           else if take n (c # s) = [CHR 0xE2, CHR 0x80, CHR 0xA9] then [CHR 0x5C] @ ''u2029''
           else take n (c # s)) @ ?rest) = prepend (take n (c # s)) (json_literal ?rest)"
        using separator_reads [of ?rest] utf8_reads [OF Some, of ?rest] False by auto
      then have "json_literal (json_chars (c # s) @ r) = prepend (take n (c # s)) (json_literal ?rest)"
        using False Some by simp
      with ih False Some show ?thesis by simp
    qed
  qed
qed

lemma json_string_reads: "json_literal (json_chars s @ [CHR 0x22] @ r) = Some (to_valid s, r)"
  by (simp add: json_chars_read)

text \<open>What may follow a value in the code's output.\<close>

definition stops :: "string \<Rightarrow> bool" where
  "stops r \<longleftrightarrow> r = [] \<or> hd r \<in> {CHR '','', CHR ''}'', CHR '']'', CHR 0x0A}"

lemma stops_digits:
  assumes "stops r"
  shows "takeWhile is_digit (s @ r) = takeWhile is_digit s" "dropWhile is_digit (s @ r) = dropWhile is_digit s @ r"
proof -
  have "takeWhile is_digit r = []" "dropWhile is_digit r = r"
    using assms by (cases r; auto simp: stops_def is_digit_def byte_of_def)+
  then show "takeWhile is_digit (s @ r) = takeWhile is_digit s" "dropWhile is_digit (s @ r) = dropWhile is_digit s @ r"
    by (induction s) simp_all
qed

lemma number_stops:
  assumes "stops r"
  shows "number_int s = Some (a, b) \<Longrightarrow> number_int (s @ r) = Some (a, b @ r)"
    "number_digits s = Some (a, b) \<Longrightarrow> number_digits (s @ r) = Some (a, b @ r)"
    "number_frac s = Some (a, b) \<Longrightarrow> number_frac (s @ r) = Some (a, b @ r)"
    "number_exp s = Some (a, b) \<Longrightarrow> number_exp (s @ r) = Some (a, b @ r)"
proof -
  have dig: "number_digits s = Some (a, b) \<Longrightarrow> number_digits (s @ r) = Some (a, b @ r)" for s a b
    by (auto simp: number_digits_def stops_digits [OF assms] split: if_splits)
  have pre: "prepend x (number_digits s) = Some (a, b) \<Longrightarrow> prepend x (number_digits (s @ r)) = Some (a, b @ r)" for x s a b
    by (auto simp: prepend_def dig split: option.splits)
  have nil: "number_frac r = Some ([], r)" "number_exp r = Some ([], r)"
    using assms by (cases r; auto simp: stops_def number_frac_def number_exp_def)+
  show "number_int s = Some (a, b) \<Longrightarrow> number_int (s @ r) = Some (a, b @ r)"
    using stops_digits [OF assms, of s] by (cases s) (auto simp: number_int_def split: if_splits)
  show "number_digits s = Some (a, b) \<Longrightarrow> number_digits (s @ r) = Some (a, b @ r)" by (rule dig)
  show "number_frac s = Some (a, b) \<Longrightarrow> number_frac (s @ r) = Some (a, b @ r)"
    using nil(1) by (cases s) (auto simp: number_frac_def pre split: if_splits)
  show "number_exp s = Some (a, b) \<Longrightarrow> number_exp (s @ r) = Some (a, b @ r)"
    using nil(2) pre by (cases s rule: remdups_adj.cases) (force simp: number_exp_def split: if_splits)+
qed

definition number_literal :: "string \<Rightarrow> bool" where
  "number_literal x \<longleftrightarrow> json_number x = Some (x, [])"

lemma json_number_hd: "json_number x = Some y \<Longrightarrow> \<exists>c t. x = c # t \<and> (c = CHR ''-'' \<or> is_digit c)"
proof -
  have "is_digit (CHR ''0'')" by code_simp
  then show "json_number x = Some y \<Longrightarrow> ?thesis"
    by (cases x) (auto simp: json_number_def number_int_def split: if_splits option.splits)
qed

lemma number_literal_stops:
  assumes "number_literal x" and "stops r"
  shows "json_number (x @ r) = Some (x, r)"
proof -
  let ?split = "\<lambda>x. case x of c # t \<Rightarrow> if c = CHR ''-'' then ([c], t) else ([], x) | [] \<Rightarrow> ([], x)"
  obtain sign x1 where sg: "(sign, x1) = ?split x" by (cases "?split x") simp
  then have x: "x = sign @ x1" by (auto split: list.splits if_splits)
  obtain i x2 f x3 e where i: "number_int x1 = Some (i, x2)" and f: "number_frac x2 = Some (f, x3)"
    and e: "number_exp x3 = Some (e, [])" and all: "sign @ i @ f @ e = x"
    using assms(1) unfolding number_literal_def json_number_def sg [symmetric]
    by (auto simp: prepend_def split: option.splits)
  have "?split (x @ r) = (sign, x1 @ r)"
    using sg x json_number_hd [of x] assms(1) by (auto simp: number_literal_def split: if_splits)
  then show ?thesis
    using number_stops(1) [OF assms(2) i] number_stops(3) [OF assms(2) f] number_stops(4) [OF assms(2) e] all
    by (simp add: json_number_def)
qed

text \<open>A value as it reads back: its strings made valid.\<close>

fun valid_json :: "json \<Rightarrow> json" and valid_items :: "json list \<Rightarrow> json list"
  and valid_members :: "(string \<times> json) list \<Rightarrow> (string \<times> json) list" where
  "valid_json (JString s) = JString (to_valid s)"
| "valid_json (JArray vs) = JArray (valid_items vs)"
| "valid_json (JObject fs) = JObject (valid_members fs)"
| "valid_json v = v"
| "valid_items [] = []"
| "valid_items (v # vs) = valid_json v # valid_items vs"
| "valid_members [] = []"
| "valid_members ((k, v) # fs) = (to_valid k, valid_json v) # valid_members fs"

text \<open>Numbers that are literals, and nesting of at most \<open>d\<close> levels.\<close>

fun fits :: "nat \<Rightarrow> json \<Rightarrow> bool" and fits_items :: "nat \<Rightarrow> json list \<Rightarrow> bool"
  and fits_members :: "nat \<Rightarrow> (string \<times> json) list \<Rightarrow> bool" where
  "fits d (JNumber x) \<longleftrightarrow> number_literal x"
| "fits d (JArray vs) \<longleftrightarrow> 0 < d \<and> fits_items (d - 1) vs"
| "fits d (JObject fs) \<longleftrightarrow> 0 < d \<and> fits_members (d - 1) fs"
| "fits d _ \<longleftrightarrow> True"
| "fits_items d [] \<longleftrightarrow> True"
| "fits_items d (v # vs) \<longleftrightarrow> fits d v \<and> fits_items d vs"
| "fits_members d [] \<longleftrightarrow> True"
| "fits_members d ((k, v) # fs) \<longleftrightarrow> fits d v \<and> fits_members d fs"

lemma skip_plain [simp]: "\<not> json_space c \<Longrightarrow> skip_space (c # s) = c # s"
  by (simp add: skip_space_def)

lemma no_space [simp]: "\<not> json_space (CHR ''{'')" "\<not> json_space (CHR ''}'')" "\<not> json_space (CHR ''['')"
  "\<not> json_space (CHR '']'')" "\<not> json_space (CHR 0x22)" "\<not> json_space (CHR '','')" "\<not> json_space (CHR '':'')"
  "\<not> json_space (CHR ''n'')" "\<not> json_space (CHR ''t'')" "\<not> json_space (CHR ''f'')"
  by (simp_all add: json_space_def)

text \<open>The first character of a written value starts it.\<close>

lemma json_encode_start:
  assumes "fits d v"
  shows "\<exists>c t. json_encode v = c # t \<and> \<not> json_space c \<and> c \<noteq> CHR '']'' \<and> c \<noteq> CHR ''}''"
proof (cases v)
  case (JNumber x)
  then obtain c t where "x = c # t" "c = CHR ''-'' \<or> is_digit c"
    using assms json_number_hd [of x] by (auto simp: number_literal_def)
  with JNumber show ?thesis by (auto simp: is_digit_def json_space_def byte_of_def)
qed (auto simp: json_string_def)

lemma join_cons: "join (x # xs) sep = (if xs = [] then x else x @ sep @ join xs sep)"
  by (cases xs) simp_all

lemma stops_simps [simp]: "stops []" "stops (CHR '','' # r)" "stops (CHR ''}'' # r)" "stops (CHR '']'' # r)"
  "stops (CHR 0x0A # r)"
  by (simp_all add: stops_def)

lemma parse_number:
  assumes "number_literal x" and "stops r"
  shows "parse_value (Suc n) d (x @ r) = Some (JNumber x, r)"
proof -
  obtain c t where x: "x = c # t" and c: "c = CHR ''-'' \<or> is_digit c"
    using assms json_number_hd [of x] by (auto simp: number_literal_def)
  have ne: "c \<noteq> CHR ''{''" "c \<noteq> CHR ''[''" "c \<noteq> CHR 0x22" "c \<noteq> CHR ''n''" "c \<noteq> CHR ''t''" "c \<noteq> CHR ''f''"
    and sp: "\<not> json_space c"
    using c by (auto simp: is_digit_def json_space_def byte_of_def)
  have "json_number (c # t @ r) = Some (x, r)" using number_literal_stops [OF assms] by (simp add: x)
  with ne sp show ?thesis by (simp add: x)
qed

lemma parse_written:
  "fits d v \<Longrightarrow> stops r \<Longrightarrow> 2 * length (json_encode v) < n \<Longrightarrow>
     parse_value n d (json_encode v @ r) = Some (valid_json v, r)"
  "fits_items d vs \<Longrightarrow> vs \<noteq> [] \<Longrightarrow> 2 * length (join (json_items vs) '','') + 1 < n \<Longrightarrow>
     parse_items n d (join (json_items vs) '','' @ '']'' @ r) = Some (valid_items vs, r)"
  "fits_members d fs \<Longrightarrow> fs \<noteq> [] \<Longrightarrow> 2 * length (join (json_fields fs) '','') < n \<Longrightarrow>
     parse_members n d (join (json_fields fs) '','' @ ''}'' @ r) = Some (valid_members fs, r)"
proof (induction v and vs and fs arbitrary: n d r and n d r and n d r
    rule: json_encode_json_items_json_fields.induct)
  case 1
  then show ?case by (cases n) simp_all
next
  case (2 b)
  then show ?case by (cases n; cases b) simp_all
next
  case (3 x)
  then show ?case by (cases n) (simp_all add: parse_number del: parse_value.simps)
next
  case (4 s)
  then show ?case using json_string_reads [of s r] by (cases n) (simp_all add: json_string_def)
next
  case (5 vs)
  then obtain m where n: "n = Suc m" by (cases n) simp_all
  show ?case
  proof (cases vs)
    case Nil
    with 5 n show ?thesis by simp
  next
    case (Cons v ws)
    obtain c t where c: "json_encode v = c # t" "\<not> json_space c" "c \<noteq> CHR '']''"
      using json_encode_start [of "d - 1" v] 5(2) Cons by auto
    have "parse_items m (d - 1) (join (json_items vs) '','' @ '']'' @ r) = Some (valid_items vs, r)"
      using 5(1) [of "d - 1" m r] 5(2,4) Cons n by simp
    moreover have "take 1 (skip_space (join (json_items vs) '','' @ '']'' @ r)) \<noteq> '']''"
      using c by (simp add: Cons join_cons)
    ultimately show ?thesis using 5(2) n by simp
  qed
next
  case (6 fs)
  then obtain m where n: "n = Suc m" by (cases n) simp_all
  show ?case
  proof (cases fs)
    case Nil
    with 6 n show ?thesis by simp
  next
    case (Cons f gs)
    obtain k v where f: "f = (k, v)" by (cases f)
    have "parse_members m (d - 1) (join (json_fields fs) '','' @ ''}'' @ r) = Some (valid_members fs, r)"
      using 6(1) [of "d - 1" m r] 6(2,4) Cons n by simp
    moreover have "take 1 (skip_space (join (json_fields fs) '','' @ ''}'' @ r)) \<noteq> ''}''"
      by (simp add: Cons f join_cons json_string_def)
    ultimately show ?thesis using 6(2) n by simp
  qed
next
  case 7
  then show ?case by simp
next
  case (8 v vs)
  then obtain m where n: "n = Suc m" by (cases n) simp_all
  show ?case
  proof (cases vs)
    case Nil
    have "parse_value m d (json_encode v @ '']'' @ r) = Some (valid_json v, '']'' @ r)"
      using 8(1) [of d "'']'' @ r" m] 8(3,5) n Nil by simp
    with Nil n show ?thesis by simp
  next
    case (Cons w ws)
    let ?rest = "join (json_items vs) '','' @ '']'' @ r"
    have eq: "join (json_items (v # vs)) '','' @ '']'' @ r = json_encode v @ '','' @ ?rest"
      using Cons by (simp add: join_cons)
    have len: "length (join (json_items (v # vs)) '','') = length (json_encode v) + 1 + length (join (json_items vs) '','')"
      using Cons by (simp add: join_cons)
    have "parse_value m d (json_encode v @ '','' @ ?rest) = Some (valid_json v, '','' @ ?rest)"
      using 8(1) [of d "'','' @ ?rest" m] 8(3,5) n len by simp
    moreover have "parse_items m d ?rest = Some (valid_items vs, r)"
      using 8(2) [of d m r] 8(3,5) n len Cons by simp
    ultimately show ?thesis unfolding eq n by simp
  qed
next
  case 9
  then show ?case by simp
next
  case (10 k v fs)
  then obtain m where n: "n = Suc m" by (cases n) simp_all
  show ?case
  proof (cases fs)
    case Nil
    have "parse_value m d (json_encode v @ ''}'' @ r) = Some (valid_json v, ''}'' @ r)"
      using 10(1) [of d "''}'' @ r" m] 10(3,5) n Nil by simp
    with Nil n json_string_reads [of k "'':'' @ json_encode v @ ''}'' @ r"] show ?thesis
      by (simp add: json_string_def)
  next
    case (Cons w ws)
    let ?rest = "join (json_fields fs) '','' @ ''}'' @ r"
    have eq: "join (json_fields ((k, v) # fs)) '','' @ ''}'' @ r =
        CHR 0x22 # json_chars k @ [CHR 0x22] @ '':'' @ json_encode v @ '','' @ ?rest"
      using Cons by (cases w) (simp add: join_cons json_string_def)
    have len: "length (join (json_fields ((k, v) # fs)) '','') =
        length (json_string k) + 1 + length (json_encode v) + 1 + length (join (json_fields fs) '','')"
      using Cons by (cases w) (simp add: join_cons)
    have "parse_value m d (json_encode v @ '','' @ ?rest) = Some (valid_json v, '','' @ ?rest)"
      using 10(1) [of d "'','' @ ?rest" m] 10(3,5) n len by simp
    moreover have "parse_members m d ?rest = Some (valid_members fs, r)"
      using 10(2) [of d m r] 10(3,5) n len Cons by simp
    ultimately show ?thesis
      unfolding eq n using json_string_reads [of k "'':'' @ json_encode v @ '','' @ ?rest"] by simp
  qed
qed

lemma json_reads_back:
  assumes "fits max_nesting v" and "stops r"
  shows "json_parse (json_encode v @ r) = Some (valid_json v, r)"
  unfolding json_parse_def using assms by (intro parse_written) simp_all

section \<open>The fuel is enough\<close>

lemma skip_space_length: "length (skip_space s) \<le> length s"
  by (simp add: skip_space_def length_dropWhile_le)

lemma prepend_SomeD: "prepend y p = Some (x, r) \<Longrightarrow> \<exists>z. p = Some (z, r)"
  by (cases p) (auto simp: prepend_def)

lemma json_literal_length: "json_literal s = Some (x, r) \<Longrightarrow> length r < length s"
proof (induction s arbitrary: x r rule: json_literal.induct)
  case (2 c s)
  consider "c = CHR 0x22" | (esc) e t where "c = CHR 0x5C" "s = e # t" "e \<noteq> CHR ''u''"
    | (uni) t n q where "c = CHR 0x5C" "s = CHR ''u'' # t" "hex4 t = Some (n, q)"
    | (plain) "c \<noteq> CHR 0x22" "c \<noteq> CHR 0x5C" "32 \<le> byte_of c" "byte_of c < 128"
    | (multi) "c \<noteq> CHR 0x22" "c \<noteq> CHR 0x5C" "128 \<le> byte_of c"
    using 2(8) by (fastforce split: if_splits list.splits option.splits)
  then show ?case
  proof cases
    case 1
    with 2(8) show ?thesis by simp
  next
    case esc
    with 2(8) obtain d where "simple_escape e = Some d" "prepend [d] (json_literal t) = Some (x, r)"
      by (auto split: option.splits)
    with esc 2(4) show ?thesis by (fastforce dest!: prepend_SomeD)
  next
    case uni
    note len = hex4_length [OF uni(3)]
    show ?thesis
    proof (cases "is_surrogate n")
      case False
      with 2(8) uni obtain z where "json_literal q = Some (z, r)" by (auto dest!: prepend_SomeD)
      with 2(3) uni False len show ?thesis by fastforce
    next
      case True
      show ?thesis
      proof (cases "low_surrogate n q")
        case None
        with 2(8) uni True obtain z where "json_literal q = Some (z, r)" by (auto dest!: prepend_SomeD)
        with 2(1) uni True None len show ?thesis by fastforce
      next
        case (Some mq)
        obtain m q' where mq: "mq = (m, q')" by (cases mq)
        with 2(8) uni True Some obtain z where "json_literal q' = Some (z, r)" by (auto dest!: prepend_SomeD)
        with 2(2) uni True Some mq len low_surrogate_length [of n q m q'] show ?thesis by fastforce
      qed
    qed
  next
    case plain
    with 2(8) obtain z where "json_literal s = Some (z, r)" by (auto dest!: prepend_SomeD)
    with 2(5) plain show ?thesis by fastforce
  next
    case multi
    then have ge: "\<not> byte_of c < 32" "\<not> byte_of c < 128" by simp_all
    show ?thesis
    proof (cases "utf8_seq (c # s)")
      case None
      with 2(8) multi ge obtain z where "json_literal s = Some (z, r)" by (auto dest!: prepend_SomeD)
      with 2(6) multi ge None show ?thesis by fastforce
    next
      case (Some n)
      with 2(8) multi ge obtain z where "json_literal (drop (n - 1) s) = Some (z, r)" by (auto dest!: prepend_SomeD)
      with 2(7) [OF multi(1,2) ge Some] show ?thesis by fastforce
    qed
  qed
qed simp

lemma json_number_length:
  assumes "json_number s = Some (x, r)"
  shows "length r < length s"
proof -
  have d: "number_digits s = Some (a, b) \<Longrightarrow> length b \<le> length s" for s a b
    by (auto simp: number_digits_def length_dropWhile_le split: if_splits)
  have f: "number_frac s = Some (a, b) \<Longrightarrow> length b \<le> length s" for s a b
    by (cases s) (auto simp: number_frac_def le_Suc_eq split: if_splits dest!: prepend_SomeD d)
  have e: "number_exp s = Some (a, b) \<Longrightarrow> length b \<le> length s" for s a b
    by (cases s rule: remdups_adj.cases)
      (auto simp: number_exp_def le_Suc_eq split: if_splits dest!: prepend_SomeD d)
  have i: "number_int s = Some (a, b) \<Longrightarrow> length b < length s" for s a b
    by (cases s) (auto simp: number_int_def less_Suc_eq_le length_dropWhile_le split: if_splits)
  let ?s = "case s of c # t \<Rightarrow> if c = CHR ''-'' then t else s | [] \<Rightarrow> s"
  obtain a s2 f' s3 g h where "number_int ?s = Some (a, s2)" "number_frac s2 = Some (f', s3)"
    "number_exp s3 = Some (g, r)"
    using assms by (auto simp: json_number_def split: option.splits list.splits if_splits dest!: prepend_SomeD)
  from i [OF this(1)] f [OF this(2)] e [OF this(3)] have "length r < length ?s" by simp
  then show ?thesis by (auto split: list.splits if_splits)
qed

lemma skip_Cons: "skip_space s = c # t \<Longrightarrow> length t < length s"
  using skip_space_length [of s] by simp

lemma parse_shorter:
  "parse_value n d s = Some (v, r) \<Longrightarrow> length r < length s"
  "parse_items n d s = Some (vs, r) \<Longrightarrow> length r < length s"
  "parse_members n d s = Some (fs, r) \<Longrightarrow> length r < length s"
proof (induction n arbitrary: d s v r vs fs)
  case (Suc n)
  {
    case 1
    then obtain c t where s: "skip_space s = c # t" by (cases "skip_space s") simp_all
    note len = skip_Cons [OF s]
    have drop: "length (drop (Suc k) (c # t)) < length s" for k using len by simp
    have sp: "length (drop (Suc 0) (skip_space t)) \<le> length t" using skip_space_length [of t] by simp
    show ?case
      using 1 len drop [of 3] drop [of 4] sp Suc.IH(2,3) [of _ t] json_literal_length [of t] json_number_length [of "c # t"]
      by (fastforce simp: s split: if_splits)
  next
    case 2
    then obtain w u where v: "parse_value n d s = Some (w, u)" by (auto split: option.splits)
    with 2 obtain c t where u: "skip_space u = c # t" by (cases "skip_space u") simp_all
    note len = skip_Cons [OF u] Suc.IH(1) [OF v]
    show ?case
      using 2 len Suc.IH(2) [of d t] by (fastforce simp: v u split: if_splits)
  next
    case 3
    then obtain t where s: "skip_space s = CHR 0x22 # t" by (auto split: list.splits if_splits)
    with 3 obtain k u where k: "json_literal t = Some (k, u)" by (auto split: option.splits)
    with 3 s obtain w where u: "skip_space u = CHR '':'' # w" by (auto split: list.splits if_splits)
    with 3 s k obtain x q where x: "parse_value n d w = Some (x, q)" by (auto split: option.splits)
    with 3 s k u obtain e y where q: "skip_space q = e # y" by (cases "skip_space q") simp_all
    note len = skip_Cons [OF s] json_literal_length [OF k] skip_Cons [OF u] Suc.IH(1) [OF x] skip_Cons [OF q]
    show ?case
      using 3 len Suc.IH(3) [of d y] by (fastforce simp: s k u x q split: if_splits)
  }
qed simp_all

text \<open>With enough fuel more of it makes no difference, so \<open>json_parse\<close> is the reader without fuel.\<close>

lemma parse_fuel:
  "2 * length s + 2 \<le> n \<Longrightarrow> 2 * length s + 2 \<le> m \<Longrightarrow> parse_value n d s = parse_value m d s"
  "2 * length s + 3 \<le> n \<Longrightarrow> 2 * length s + 3 \<le> m \<Longrightarrow> parse_items n d s = parse_items m d s"
  "2 * length s + 1 \<le> n \<Longrightarrow> 2 * length s + 1 \<le> m \<Longrightarrow> parse_members n d s = parse_members m d s"
proof (induction n arbitrary: m d s)
  case (Suc n)
  {
    case 1
    then obtain k where m: "m = Suc k" by (cases m) simp_all
    show ?case
    proof (cases "skip_space s")
      case (Cons c t)
      note len = skip_Cons [OF Cons]
      have "parse_items n (d - 1) t = parse_items k (d - 1) t" by (rule Suc.IH(2)) (use 1 len m in simp_all)
      moreover have "parse_members n (d - 1) t = parse_members k (d - 1) t"
        by (rule Suc.IH(3)) (use 1 len m in simp_all)
      ultimately show ?thesis by (simp add: m Cons)
    qed (simp add: m)
  next
    case 2
    then obtain k where m: "m = Suc k" by (cases m) simp_all
    have v: "parse_value n d s = parse_value k d s" by (rule Suc.IH(1)) (use 2 m in simp_all)
    show ?case
    proof (cases "parse_value k d s")
      case (Some wu)
      obtain w u where wu: "wu = (w, u)" by (cases wu)
      show ?thesis
      proof (cases "skip_space u")
        case (Cons c t)
        have "length t < length s"
          using skip_Cons [OF Cons] parse_shorter(1) [of k d s w u] Some wu by simp
        then have "parse_items n d t = parse_items k d t" by (intro Suc.IH(2)) (use 2 m in simp_all)
        with Some wu Cons v show ?thesis by (simp add: m)
      qed (use Some wu v in \<open>simp add: m\<close>)
    qed (simp add: m v)
  next
    case 3
    then obtain k where m: "m = Suc k" by (cases m) simp_all
    show ?case
    proof (cases "skip_space s = [] \<or> hd (skip_space s) \<noteq> CHR 0x22 \<or> json_literal (tl (skip_space s)) = None")
      case False
      then obtain t x u where s: "skip_space s = CHR 0x22 # t" and x: "json_literal t = Some (x, u)"
        by (cases "skip_space s") auto
      show ?thesis
      proof (cases "skip_space u = [] \<or> hd (skip_space u) \<noteq> CHR '':''")
        case False
        then obtain w where u: "skip_space u = CHR '':'' # w" by (cases "skip_space u") auto
        have len: "length w + 2 < length s"
          using skip_Cons [OF s] json_literal_length [OF x] skip_Cons [OF u] by simp
        have v: "parse_value n d w = parse_value k d w" by (rule Suc.IH(1)) (use 3 len m in simp_all)
        show ?thesis
        proof (cases "parse_value k d w")
          case (Some vq)
          obtain y q where vq: "vq = (y, q)" by (cases vq)
          show ?thesis
          proof (cases "skip_space q")
            case (Cons e z)
            have "length z < length s"
              using skip_Cons [OF Cons] parse_shorter(1) [of k d w y q] Some vq len by simp
            then have "parse_members n d z = parse_members k d z" by (intro Suc.IH(3)) (use 3 m in simp_all)
            with Some vq Cons v s x u show ?thesis by (simp add: m)
          qed (use Some vq v s x u in \<open>simp add: m\<close>)
        qed (use v s x u in \<open>simp add: m\<close>)
      qed (use s x in \<open>auto simp: m split: list.splits\<close>)
    qed (auto simp: m split: list.splits option.splits)
  }
qed simp_all

end
