(* ===== verification/Store_Laws.thy ===== *)
theory Store_Laws
  imports Store_Models Json_Laws
begin

text \<open>
  The conversions between domain records and row models lose nothing: \<open>FromModel\<close> after \<open>ToModel\<close> is the
  record, the headers of a delivery as the map they are.
\<close>

section \<open>Maps of strings\<close>

definition string_fields :: "(string \<times> string) list \<Rightarrow> (string \<times> json) list" where
  "string_fields fs = map (\<lambda>(k, v). (k, JString v)) fs"

text \<open>Every key and value is valid UTF-8, so the encoder replaces nothing.\<close>

definition valid_strings :: "(string \<times> string) list \<Rightarrow> bool" where
  "valid_strings fs \<longleftrightarrow> list_all (\<lambda>(k, v). to_valid k = k \<and> to_valid v = v) fs"

lemma string_fields_simps [simp]:
  "string_fields [] = []" "string_fields ((k, v) # fs) = (k, JString v) # string_fields fs"
  by (simp_all add: string_fields_def)

lemma valid_string_fields: "valid_strings fs \<Longrightarrow> valid_members (string_fields fs) = string_fields fs"
  by (induction fs) (auto simp: valid_strings_def)

lemma fits_string_fields: "fits_members d (string_fields fs)"
  by (induction fs) auto

lemma string_object_read:
  assumes "valid_strings fs"
  shows "Unmarshal_value (json_encode (JObject (string_fields fs))) = Inr (JObject (string_fields fs))"
proof -
  have "valid_json (JObject (string_fields fs)) = JObject (string_fields fs)"
    by (simp add: valid_string_fields assms)
  moreover have "fits max_nesting (JObject (string_fields fs))"
    by (simp add: fits_string_fields max_nesting_def)
  ultimately have "json_parse (json_encode (JObject (string_fields fs))) = Some (JObject (string_fields fs), [])"
    using json_reads_back [of "JObject (string_fields fs)" "[]"] by simp
  then show ?thesis by (simp add: Unmarshal_value_def skip_space_def)
qed

lemma string_map_written:
  assumes "valid_strings m"
  shows "Unmarshal_value (json_encode (string_map_json m)) =
    Inr (if m = [] then JNull else JObject (string_fields (sort_key fst m)))"
proof (cases "m = []")
  case True
  have "Unmarshal_value (json_encode JNull) = Inr JNull" by code_simp
  with True show ?thesis by (simp add: string_map_json_def)
next
  case False
  have "valid_strings (sort_key fst m)" using assms by (simp add: valid_strings_def list_all_iff)
  with False show ?thesis
    using string_object_read by (simp add: string_map_json_def string_fields_def [symmetric])
qed

lemma string_members_read:
  "distinct (map fst fs) \<Longrightarrow> \<exists>r. string_members (string_fields fs) m = Inr r \<and> map_of r = map_of m ++ map_of fs"
proof (induction fs arbitrary: m)
  case (Cons kv fs)
  obtain k v where kv: "kv = (k, v)" by (cases kv)
  have "distinct (map fst fs)" using Cons.prems by simp
  from Cons.IH [OF this, of "gput k v m"] obtain r where
    r: "string_members (string_fields fs) (gput k v m) = Inr r"
    "map_of r = map_of (gput k v m) ++ map_of fs" by blast
  from Cons.prems kv have "map_of fs k = None" by (auto simp: map_of_eq_None_iff)
  with r kv show ?case
    by (intro exI [of _ r]) (auto simp: map_add_def fun_eq_iff split: option.splits)
qed simp

lemma headers_read:
  assumes "gmap_ok m" and "set fs = set m" and "distinct (map fst fs)"
  shows "\<exists>r. json_string_map (JObject (string_fields fs)) = Inr r \<and> map_of r = map_of m"
proof -
  have "map_of fs = map_of m" using assms by (simp add: map_of_inject_set gmap_ok_def)
  with string_members_read [OF assms(3), of "[]"] show ?thesis by (simp add: json_string_map_def)
qed

section \<open>Conversions\<close>

text \<open>Converting a record to its row model and back gives the record, for every record the store
  keeps; a contact memory with an empty slice of tags comes back with a nil one, and the headers of a
  delivery, which travel as JSON, come back as the same map when they are valid UTF-8.\<close>

theorem conversions_lossless:
  assumes "gmap_ok (wd_RequestHeaders d)" and "valid_strings (wd_RequestHeaders d)"
  shows "OrganizationFromModel (OrganizationToModel org) = org \<and> AgentFromModel (AgentToModel agent) = agent \<and>
    InboxFromModel (InboxToModel inbox) = inbox \<and> ContactFromModel (ContactToModel contact) = contact \<and>
    ThreadFromModel (ThreadToModel thread) = thread \<and> MessageFromModel (MessageToModel message) = message \<and>
    InboundReceiptFromModel (InboundReceiptToModel receipt) = receipt \<and>
    SuppressedAddressFromModel (SuppressedAddressToModel address) = address \<and>
    ProviderConfigFromModel (ProviderConfigToModel config configJSON) = config \<and>
    ContactMemoryFromModel (ContactMemoryToModel entry organizationID) =
      (if cm_Tags entry = Some [] then entry\<lparr>cm_Tags := None\<rparr> else entry) \<and>
    (\<exists>model headers. WebhookDeliveryToModel d = Inr model \<and>
      WebhookDeliveryFromModel model = Inr (d\<lparr>wd_RequestHeaders := headers\<rparr>) \<and>
      map_of headers = map_of (wd_RequestHeaders d))"
proof -
  let ?m = "wd_RequestHeaders d"
  have "set (sort_key fst ?m) = set ?m" "distinct (map fst (sort_key fst ?m))"
    using assms(1) by (simp_all add: gmap_ok_def distinct_map inj_on_def) 
  then obtain headers where h: "Unmarshal_string_map (json_encode (string_map_json ?m)) = Inr headers"
    "map_of headers = map_of ?m"
    using headers_read [OF assms(1), of "sort_key fst ?m"] string_map_written [OF assms(2)]
    by (cases "?m = []") (auto simp: Unmarshal_string_map_def json_string_map_def)
  moreover have e: "json_encode (string_map_json ?m) \<noteq> []" by (simp add: string_map_json_def)
  ultimately have "\<exists>model headers. WebhookDeliveryToModel d = Inr model \<and>
      WebhookDeliveryFromModel model = Inr (d\<lparr>wd_RequestHeaders := headers\<rparr>) \<and>
      map_of headers = map_of ?m"
    by (intro exI [of _ "projr (WebhookDeliveryToModel d)"] exI [of _ headers] conjI)
      (simp_all add: WebhookDeliveryToModel_def Marshal_string_map_def WebhookDeliveryFromModel_def)
  then show ?thesis
    by (auto simp: to_model_defs from_model_defs split: option.splits)
qed

theorem conversions_lossless_witness:
  "\<exists>model headers.
     WebhookDeliveryToModel (zero_delivery\<lparr>wd_RequestHeaders := [(''b'', ''2''), (''a'', ''1'')]\<rparr>) = Inr model \<and>
     WebhookDeliveryFromModel model = Inr (zero_delivery\<lparr>wd_RequestHeaders := headers\<rparr>) \<and>
     map_of headers ''a'' = Some ''1'' \<and> map_of headers ''b'' = Some ''2''"
proof -
  let ?d = "zero_delivery\<lparr>wd_RequestHeaders := [(''b'', ''2''), (''a'', ''1'')]\<rparr>"
  have "gmap_ok (wd_RequestHeaders ?d)" "valid_strings (wd_RequestHeaders ?d)"
    by (simp_all add: gmap_ok_def valid_strings_def byte_of_def)
  from conversions_lossless [OF this, THEN conjunct2, THEN conjunct2, THEN conjunct2, THEN conjunct2,
      THEN conjunct2, THEN conjunct2, THEN conjunct2, THEN conjunct2, THEN conjunct2, THEN conjunct2]
  obtain model headers where "WebhookDeliveryToModel ?d = Inr model"
    "WebhookDeliveryFromModel model = Inr (?d\<lparr>wd_RequestHeaders := headers\<rparr>)"
    "map_of headers = map_of (wd_RequestHeaders ?d)" by blast
  then show ?thesis by (intro exI [of _ model] exI [of _ headers]) simp
qed

end
