(* ===== verification/Webhook_Laws.thy ===== *)
theory Webhook_Laws
  imports Webhooks
begin

text \<open>
  What webhook delivery guarantees: the retry schedule and its bounds, the life of a delivery
  over its attempts, what a delivery or a replay sends and records, what a failed one leaves,
  and what a retry sweep visits.
\<close>

section \<open>The retry schedule\<close>

lemma double_times_word: "double_times n d = d * 2 ^ n"
  by (induction n arbitrary: d) (simp_all add: algebra_simps)

lemma defaultBackoff_word: "defaultBackoff n = minute * 2 ^ nat (max 1 n - 1)"
  by (simp add: defaultBackoff_def double_times_word max_def)

lemma backoff_values:
  "\<forall>n \<in> set [1..28]. sint (defaultBackoff n) = 60000000000 * 2 ^ nat (n - 1)"
  by code_simp

text \<open>The delay doubles from one minute: exactly \<open>2^(n-1)\<close> minutes before the attempt after the
  \<open>n\<close>-th, for every \<open>n\<close> up to 28; beyond that \<open>time.Duration\<close> overflows (the 29th delay is
  negative), which the limit of three retries keeps out of reach.\<close>

theorem backoff_doubles:
  "(1 \<le> n \<and> n \<le> 28 \<longrightarrow> sint (defaultBackoff n) = 60000000000 * 2 ^ nat (n - 1)) \<and>
   (n < 1 \<longrightarrow> sint (defaultBackoff n) = 60000000000) \<and> sint (defaultBackoff 29) < 0 \<and>
   defaultBackoff n = minute * 2 ^ nat (max 1 n - 1)"
proof (intro conjI impI)
  show "sint (defaultBackoff n) = 60000000000 * 2 ^ nat (n - 1)" if "1 \<le> n \<and> n \<le> 28"
    using backoff_values that by auto
  show "sint (defaultBackoff n) = 60000000000" if "n < 1"
    using that by (simp add: defaultBackoff_word minute_def)
  show "sint (defaultBackoff 29) < 0" by code_simp
qed (rule defaultBackoff_word)

theorem backoff_doubles_witness: "sint (defaultBackoff 3) = 240000000000"
proof -
  have "1 \<le> (3::int) \<and> (3::int) \<le> 28 \<longrightarrow> sint (defaultBackoff 3) = 60000000000 * 2 ^ nat (3 - 1)"
    using backoff_doubles [of 3] by (rule conjunct1)
  then show ?thesis by simp
qed

section \<open>The life of a delivery\<close>

abbreviation attempted :: "webhook_delivery \<Rightarrow> webhook_dispatch_result \<Rightarrow> webhook_delivery" where
  "attempted \<equiv> attempt_delivery 3 defaultBackoff"

definition ok_status :: "webhook_dispatch_result \<Rightarrow> bool" where
  "ok_status r \<longleftrightarrow> 200 \<le> wr_StatusCode r \<and> wr_StatusCode r < 300"

text \<open>The states a recorded delivery can be in.\<close>

definition delivery_ok :: "webhook_delivery \<Rightarrow> bool" where
  "delivery_ok d \<longleftrightarrow> 0 < wd_AttemptCount d \<and>
     (wd_Status d = DeliveryStatusSucceeded \<and> wd_NextAttemptAt d = 0 \<or>
      wd_Status d = DeliveryStatusRetrying \<and> wd_AttemptCount d \<le> 3 \<and>
        wd_NextAttemptAt d = time_add (wd_LastAttemptAt d) (defaultBackoff (wd_AttemptCount d)) \<or>
      wd_Status d = DeliveryStatusDeadLetter \<and> wd_NextAttemptAt d = 0 \<and> 3 < wd_AttemptCount d)"

lemma attempted_ok: "0 \<le> wd_AttemptCount d \<Longrightarrow> delivery_ok (attempted d r)"
  by (auto simp: delivery_ok_def attempt_delivery_def Let_def)

lemma attempted_sel [simp]:
  "wd_ID (attempt_delivery n b d r) = wd_ID d"
  "wd_AttemptCount (attempt_delivery n b d r) = wd_AttemptCount d + 1"
  "wd_RequestURL (attempt_delivery n b d r) = wd_RequestURL d"
  "wd_RequestPayload (attempt_delivery n b d r) = wd_RequestPayload d"
  "wd_RequestHeaders (attempt_delivery n b d r) = wd_RequestHeaders d"
  "wd_ResponseCode (attempt_delivery n b d r) = wr_StatusCode r"
  "wd_LastAttemptAt (attempt_delivery n b d r) = wr_DeliveredAt r"
  by (simp_all add: attempt_delivery_def Let_def)

lemma status_distinct [simp]:
  "DeliveryStatusSucceeded \<noteq> DeliveryStatusRetrying" "DeliveryStatusRetrying \<noteq> DeliveryStatusSucceeded"
  "DeliveryStatusDeadLetter \<noteq> DeliveryStatusRetrying" "DeliveryStatusRetrying \<noteq> DeliveryStatusDeadLetter"
  "DeliveryStatusSucceeded \<noteq> DeliveryStatusDeadLetter" "DeliveryStatusDeadLetter \<noteq> DeliveryStatusSucceeded"
  by (simp_all add: delivery_status_defs)

lemma due_retrying: "isRetryDue d at \<Longrightarrow> wd_Status d = DeliveryStatusRetrying"
  by (simp add: isRetryDue_def split: if_splits)

lemma due_count: "delivery_ok d \<Longrightarrow> isRetryDue d at \<Longrightarrow> wd_AttemptCount d \<le> 3"
  using due_retrying by (fastforce simp: delivery_ok_def)

section \<open>What a dispatch does\<close>

lemma frames_Dispatch [intro, simp, keeps_rules]: "frames mem (Dispatcher_Dispatch url request)"
  unfolding Dispatcher_Dispatch_def
  by (intro frames_bind frames_mem_env frames_lift frames_ret) (simp add: frames_def)

lemma Dispatch_run:
  "Dispatcher_Dispatch url request w =
     (case url_check w url of
        Some e \<Rightarrow> (Inl e, w)
      | None \<Rightarrow>
          (let q = \<lparr>hq_Method = ''POST'', hq_URL = url,
                    hq_Headers = set_headers (iter_src w (iter_ix w)) (wq_Headers request),
                    hq_Body = wq_Payload request\<rparr>;
               w1 = w\<lparr>iter_ix := Suc (iter_ix w), http_log := http_log w @ [q]\<rparr>
           in case http_srv w (http_log w) q of
                Inl e \<Rightarrow> (Inl e, w1)
              | Inr response \<Rightarrow> (case hp_Body response of
                    Inl e \<Rightarrow> (Inl e, w1)
                  | Inr body \<Rightarrow>
                      (Inr \<lparr>wr_StatusCode = hp_StatusCode response, wr_Body = body,
                            wr_DeliveredAt = clock_src w (clock_ix w)\<rparr>,
                       w1\<lparr>clock_ix := Suc (clock_ix w)\<rparr>))))"
  by (simp add: Dispatcher_Dispatch_def go_bind_def next_order_def http_do_def time_now_def Let_def
      split: option.split sum.split)

lemma Dispatch_log:
  assumes "Dispatcher_Dispatch url request w = (r, w')"
  shows "http_log w' = http_log w \<or> (\<exists>q. http_log w' = http_log w @ [q] \<and> hq_Method q = ''POST'' \<and>
    hq_URL q = url \<and> hq_Body q = wq_Payload request \<and> (\<exists>ord. hq_Headers q = set_headers ord (wq_Headers request)))"
  using assms by (auto simp: Dispatch_run Let_def split: option.splits sum.splits)

lemma Dispatch_log_ok:
  assumes "Dispatcher_Dispatch url request w = (Inr r, w')"
  shows "\<exists>q. http_log w' = http_log w @ [q] \<and> hq_Method q = ''POST'' \<and>
    hq_URL q = url \<and> hq_Body q = wq_Payload request \<and> (\<exists>ord. hq_Headers q = set_headers ord (wq_Headers request))"
  using assms by (auto simp: Dispatch_run Let_def split: option.splits sum.splits)

text \<open>With keys that stay apart in canonical form, the order of the loop does not matter.\<close>

lemma map_of_fold_gput:
  "inj_on f (set ks) \<Longrightarrow> distinct ks \<Longrightarrow>
   map_of (fold (\<lambda>k h. gput (f k) (g k) h) ks h0) x =
     (case List.find (\<lambda>k. f k = x) ks of Some k \<Rightarrow> Some (g k) | None \<Rightarrow> map_of h0 x)"
proof (induction ks arbitrary: h0)
  case (Cons k ks)
  then have "f k \<notin> f ` set ks" by (auto simp: inj_on_def)
  then have "List.find (\<lambda>l. f l = f k) ks = None" by (simp add: List_find_None) (metis imageI)
  with Cons show ?case by (auto split: option.splits)
qed simp

definition header_keys_ok :: "string gmap \<Rightarrow> bool" where
  "header_keys_ok h \<longleftrightarrow> gmap_ok h \<and> inj_on canonical_key (dom (map_of h))"

lemma set_headers_lookup:
  assumes "header_keys_ok h" and "map_of h k = Some v"
  shows "map_of (set_headers ord h) (canonical_key k) = Some v"
proof -
  let ?ks = "legal_order ord (gkeys h)"
  from assms(1) have ok: "gmap_ok h" and inj: "inj_on canonical_key (dom (map_of h))"
    by (auto simp: header_keys_ok_def)
  have s: "set ?ks = dom (map_of h)" by (simp add: set_legal_order distinct_gkeys ok set_gkeys)
  have d: "distinct ?ks" by (simp add: distinct_legal_order distinct_gkeys ok)
  obtain l where l: "List.find (\<lambda>l. canonical_key l = canonical_key k) ?ks = Some l"
  proof (cases "List.find (\<lambda>l. canonical_key l = canonical_key k) ?ks")
    case None
    with assms(2) s show ?thesis by (auto simp: List_find_None)
  qed (rule that)
  from List_find_Some [OF l] s assms(2) inj have "l = k" by (auto simp: inj_on_def domI)
  with l map_of_fold_gput [of canonical_key ?ks "\<lambda>k. the (map_of h k)" "[]" "canonical_key k"] inj s d assms(2)
  show ?thesis by (simp add: set_headers_def)
qed

section \<open>Delivering over any delivery repository\<close>

lemma Signer_Sign_run:
  "Signer_Sign request secret s =
     (if secret = [] then (Inl (ErrMsg ''webhook secret is required''), s)
      else (Inr (request\<lparr>wq_Headers :=
              gput HeaderSignature
                (''sha256='' @ signPayload secret (format_rfc3339 (clock_src s (clock_ix s))) (wq_Payload request))
                (gput HeaderSignatureTimestamp (format_rfc3339 (clock_src s (clock_ix s))) (wq_Headers request))\<rparr>),
            s\<lparr>clock_ix := Suc (clock_ix s)\<rparr>))"
  by (simp add: Signer_Sign_def go_bind_def time_now_def Let_def)

definition to_record :: "string \<Rightarrow> webhook_dispatch_request \<Rightarrow> webhook_delivery" where
  "to_record url request = (wq_Delivery request)\<lparr>wd_RequestURL := url, wd_RequestPayload := wq_Payload request,
     wd_RequestHeaders := wq_Headers request\<rparr>"

lemma to_record_sel [simp]:
  "wd_ID (to_record url q) = wd_ID (wq_Delivery q)" "wd_RequestURL (to_record url q) = url"
  "wd_RequestPayload (to_record url q) = wq_Payload q" "wd_RequestHeaders (to_record url q) = wq_Headers q"
  "wd_AttemptCount (to_record url q) = wd_AttemptCount (wq_Delivery q)"
  by (simp_all add: to_record_def)

definition replay_request :: "webhook_delivery \<Rightarrow> webhook_dispatch_request" where
  "replay_request d = \<lparr>wq_Delivery = d, wq_Payload = wd_RequestPayload d, wq_Headers = wd_RequestHeaders d\<rparr>"

definition replayable :: "webhook_delivery \<Rightarrow> bool" where
  "replayable d \<longleftrightarrow> wd_RequestURL d \<noteq> [] \<and> wd_RequestPayload d \<noteq> []"

text \<open>A dispatcher that keeps \<open>P\<close> and does not touch what \<open>g\<close> reads.\<close>

definition leaves :: "('s \<Rightarrow> bool) \<Rightarrow> ('s \<Rightarrow> 'v) \<Rightarrow> 's dispatcher \<Rightarrow> bool" where
  "leaves P g dispatch \<longleftrightarrow> (\<forall>u q. keeps P (dispatch u q) \<and> frames g (dispatch u q))"

lemma leavesD: "leaves P g dispatch \<Longrightarrow> P t \<Longrightarrow> dispatch u q t = (r, t') \<Longrightarrow> P t' \<and> g t' = g t"
  by (metis leaves_def keepsD framesD)

context delivery_repo
begin

lemma view_Sign: "Signer_Sign request secret s = (r, s') \<Longrightarrow> deliveries s' = deliveries s \<and> inv s' = inv s"
  by (auto simp: Signer_Sign_run split: if_splits)

lemma RecordAttempt_run:
  assumes "inv s"
  shows "\<exists>s'. RecordAttempt save d r s = (Inr (attempted d r), s') \<and> inv s' \<and>
    deliveries s' = (deliveries s)(wd_ID d \<mapsto> attempted d r)"
  using save_stores [OF assms, of "attempted d r"] by (simp add: RecordAttempt_def)

lemma DeliverAndRecord_spec:
  assumes "inv s"
    and frame: "leaves inv deliveries dispatch"
    and run: "DeliverAndRecordMessageReceived dispatch save url secret bi s = (r, s')"
  shows "inv s' \<and> (case r of
      Inl e \<Rightarrow> deliveries s' = deliveries s
    | Inr res \<Rightarrow> \<exists>request response s1 s2. Signer_Sign (Builder_Build bi) secret s = (Inr request, s1) \<and>
        dispatch url request s1 = (Inr response, s2) \<and>
        res = \<lparr>dv_Request = request, dv_Response = response, dv_Delivery = attempted (to_record url request) response\<rparr> \<and>
        deliveries s' = (deliveries s)(wd_ID (bi_Delivery bi) \<mapsto> attempted (to_record url request) response) \<and>
        (\<exists>u. RecordAttempt save (to_record url request) response s2 = (u, s')))"
proof (cases "Signer_Sign (Builder_Build bi) secret s")
  case (Pair a s1)
  note v1 = view_Sign [OF Pair]
  show ?thesis
  proof (cases a)
    case (Inl e)
    with Pair run v1 assms(1) show ?thesis
      by (auto simp: DeliverAndRecordMessageReceived_def DeliverMessageReceived_def go_bind_def)
  next
    case (Inr request)
    obtain b s2 where d: "dispatch url request s1 = (b, s2)" by (cases "dispatch url request s1")
    have v2: "inv s2 \<and> deliveries s2 = deliveries s1"
      using leavesD [OF frame _ d] v1 assms(1) by simp
    show ?thesis
    proof (cases b)
      case (Inl e)
      with Pair Inr d run v1 v2 show ?thesis
        by (auto simp: DeliverAndRecordMessageReceived_def DeliverMessageReceived_def go_bind_def)
    next
      case resp: (Inr response)
      obtain s3 where rec: "RecordAttempt save (to_record url request) response s2 =
          (Inr (attempted (to_record url request) response), s3)"
        and v3: "inv s3" "deliveries s3 = (deliveries s2)(wd_ID (to_record url request) \<mapsto> attempted (to_record url request) response)"
        using RecordAttempt_run v2 by blast
      have deliv: "wq_Delivery request = bi_Delivery bi"
        using Pair Inr by (auto simp: Signer_Sign_run Builder_Build_def split: if_splits)
      have "DeliverAndRecordMessageReceived dispatch save url secret bi s =
          (Inr \<lparr>dv_Request = request, dv_Response = response,
             dv_Delivery = attempted (to_record url request) response\<rparr>, s3)"
        using Pair Inr d resp rec
        by (simp add: DeliverAndRecordMessageReceived_def DeliverMessageReceived_def go_bind_def
            to_record_def copyHeaders_def)
      with run v1 v2 v3 Pair Inr d resp rec deliv show ?thesis by auto
    qed
  qed
qed

lemma ReplayDelivery_spec:
  assumes "inv s"
    and frame: "leaves inv deliveries dispatch"
    and run: "ReplayDelivery get dispatch save k s = (r, s')"
  shows "inv s' \<and> (case r of
      Inl e \<Rightarrow> deliveries s' = deliveries s
    | Inr res \<Rightarrow> \<exists>d response s1 s2. deliveries s k = Some d \<and> replayable d \<and> deliveries s1 = deliveries s \<and>
        get k s = (Inr d, s1) \<and>
        dispatch (wd_RequestURL d) (replay_request d) s1 = (Inr response, s2) \<and>
        res = \<lparr>dv_Request = replay_request d, dv_Response = response, dv_Delivery = attempted d response\<rparr> \<and>
        (\<exists>u. RecordAttempt save d response s2 = (u, s')) \<and>
        deliveries s' = (deliveries s)(wd_ID d \<mapsto> attempted d response))"
proof -
  obtain s1 where v1: "inv s1" "deliveries s1 = deliveries s"
    and g: "get k s = (case deliveries s k of None \<Rightarrow> (Inl (ErrNotFound ''webhook delivery''), s1) | Some d \<Rightarrow> (Inr d, s1))"
    using get_reads [OF assms(1)] by blast
  show ?thesis
  proof (cases "deliveries s k")
    case None
    with g run v1 show ?thesis by (auto simp: ReplayDelivery_def go_bind_def)
  next
    case (Some d)
    show ?thesis
    proof (cases "replayable d")
      case False
      with Some g run v1 show ?thesis by (auto simp: ReplayDelivery_def go_bind_def replayable_def)
    next
      case True
      obtain b s2 where d: "dispatch (wd_RequestURL d) (replay_request d) s1 = (b, s2)"
        by (cases "dispatch (wd_RequestURL d) (replay_request d) s1")
      have v2: "inv s2 \<and> deliveries s2 = deliveries s1" using leavesD [OF frame _ d] v1 by simp
      have eq: "ReplayDelivery get dispatch save k s = go_bind (dispatch (wd_RequestURL d) (replay_request d))
          (\<lambda>response. go_bind (RecordAttempt save d response) (\<lambda>recorded.
            go_ret \<lparr>dv_Request = replay_request d, dv_Response = response, dv_Delivery = recorded\<rparr>)) s1"
        using True Some g by (simp add: ReplayDelivery_def go_bind_def [of "get k"] replayable_def
            replay_request_def copyHeaders_def Let_def)
      show ?thesis
      proof (cases b)
        case (Inl e)
        with eq d run v1 v2 show ?thesis by (auto simp: go_bind_def)
      next
        case (Inr response)
        obtain s3 where rec: "RecordAttempt save d response s2 = (Inr (attempted d response), s3)"
          and v3: "inv s3" "deliveries s3 = (deliveries s2)(wd_ID d \<mapsto> attempted d response)"
          using RecordAttempt_run v2 by blast
        with eq d Inr run v1 v2 True Some g show ?thesis by (auto simp: go_bind_def)
      qed
    qed
  qed
qed

text \<open>What a sweep does to the stored deliveries.\<close>

lemma sweep_loop_view:
  assumes "inv s"
    and frame: "leaves inv deliveries dispatch"
    and "distinct (map wd_ID ds)" and "\<forall>d \<in> set ds. deliveries s (wd_ID d) = Some d"
    and "sweep_loop (ReplayDelivery get dispatch save) at ds res s = (out, s')"
  shows "inv s' \<and> (\<forall>k. deliveries s' k = deliveries s k \<or>
    (\<exists>d \<in> set ds. wd_ID d = k \<and> isRetryDue d at \<and> (\<exists>r. deliveries s' k = Some (attempted d r))))"
  using assms(1,3,4,5)
proof (induction ds arbitrary: res s)
  case (Cons d ds)
  show ?case
  proof (cases "isRetryDue d at")
    case False
    with Cons show ?thesis by fastforce
  next
    case True
    obtain r s1 where run: "ReplayDelivery get dispatch save (wd_ID d) s = (r, s1)"
      by (cases "ReplayDelivery get dispatch save (wd_ID d) s")
    note spec = ReplayDelivery_spec [OF Cons.prems(1) frame run]
    have inv1: "inv s1" using spec by simp
    have others: "deliveries s1 k = deliveries s k" if "k \<noteq> wd_ID d" for k
      using spec Cons.prems(3) that by (auto split: sum.splits)
    have own: "deliveries s1 (wd_ID d) = deliveries s (wd_ID d) \<or> (\<exists>r. deliveries s1 (wd_ID d) = Some (attempted d r))"
      using spec Cons.prems(3) by (auto split: sum.splits)
    obtain res1 where rest: "sweep_loop (ReplayDelivery get dispatch save) at ds res1 s1 = (out, s')"
      using Cons.prems(4) True run by (cases r) (auto simp: go_bind_def go_try_def Let_def)
    have "\<forall>e \<in> set ds. deliveries s1 (wd_ID e) = Some e"
    proof
      fix e
      assume e: "e \<in> set ds"
      then have "wd_ID e \<noteq> wd_ID d" using Cons.prems(2) by (auto simp: image_iff)
      with others Cons.prems(3) e show "deliveries s1 (wd_ID e) = Some e" by simp
    qed
    then have IH: "inv s' \<and> (\<forall>k. deliveries s' k = deliveries s1 k \<or>
      (\<exists>e \<in> set ds. wd_ID e = k \<and> isRetryDue e at \<and> (\<exists>r. deliveries s' k = Some (attempted e r))))"
      using Cons.IH [OF inv1 _ _ rest] Cons.prems(2) by simp
    have "deliveries s' k = deliveries s k \<or>
      (\<exists>e \<in> set (d # ds). wd_ID e = k \<and> isRetryDue e at \<and> (\<exists>r. deliveries s' k = Some (attempted e r)))" for k
    proof (cases "k = wd_ID d")
      case k: True
      have "\<not> (\<exists>e \<in> set ds. wd_ID e = k)" using Cons.prems(2) k by (auto simp: image_iff)
      with IH have "deliveries s' k = deliveries s1 k" by blast
      with own True k show ?thesis by auto
    next
      case False
      from IH have "deliveries s' k = deliveries s1 k \<or>
        (\<exists>e \<in> set ds. wd_ID e = k \<and> isRetryDue e at \<and> (\<exists>r. deliveries s' k = Some (attempted e r)))" by blast
      with others [OF False] show ?thesis by auto
    qed
    with IH show ?thesis by blast
  qed
qed simp

end

lemma sweep_loop_counts:
  "\<exists>out s'. sweep_loop replay at ds res s = (Inr out, s') \<and>
     rw_Attempted out = rw_Attempted res + length (filter (\<lambda>d. isRetryDue d at) ds) \<and>
     rw_Skipped out = rw_Skipped res + length (filter (\<lambda>d. \<not> isRetryDue d at) ds) \<and>
     rw_Succeeded out + rw_Failed out + rw_Attempted res = rw_Succeeded res + rw_Failed res + rw_Attempted out \<and>
     length (rw_Deliveries out) + rw_Succeeded res = length (rw_Deliveries res) + rw_Succeeded out"
proof (induction ds arbitrary: res s)
  case (Cons d ds)
  show ?case
  proof (cases "isRetryDue d at")
    case False
    then show ?thesis using Cons.IH [of "res\<lparr>rw_Skipped := rw_Skipped res + 1\<rparr>" s] by auto
  next
    case True
    obtain r s1 where run: "replay (wd_ID d) s = (r, s1)" by (cases "replay (wd_ID d) s")
    let ?a = "res\<lparr>rw_Attempted := rw_Attempted res + 1\<rparr>"
    show ?thesis
    proof (cases r)
      case (Inl e)
      with True run Cons.IH [of "?a\<lparr>rw_Failed := rw_Failed ?a + 1\<rparr>" s1] show ?thesis
        by (auto simp: go_bind_def go_try_def Let_def)
    next
      case (Inr x)
      with True run Cons.IH [of "?a\<lparr>rw_Succeeded := rw_Succeeded ?a + 1,
          rw_Deliveries := rw_Deliveries ?a @ [dv_Delivery x]\<rparr>" s1] show ?thesis
        by (auto simp: go_bind_def go_try_def Let_def)
    qed
  qed
qed simp

section \<open>Delivering over the runtime store\<close>

lemma frames_delivery_Dispatch: "frames delivery_view (Dispatcher_Dispatch u q)"
  by (simp add: frames_def delivery_view_def frames_Dispatch [unfolded frames_def, rule_format])

lemma leaves_Dispatch: "leaves world_ok delivery_view Dispatcher_Dispatch"
  by (simp add: leaves_def frames_keeps_world frames_delivery_Dispatch)

lemma canonical_headers:
  "canonical_key ''Content-Type'' = ''Content-Type''"
  "canonical_key HeaderSignature = ''X-Agentlayer-Signature''"
  "canonical_key HeaderSignatureTimestamp = ''X-Agentlayer-Signature-Timestamp''"
  by code_simp+

definition signed_headers :: "string \<Rightarrow> string \<Rightarrow> string \<Rightarrow> string gmap" where
  "signed_headers secret ts payload =
     gput HeaderSignature (''sha256='' @ signPayload secret ts payload)
       (gput HeaderSignatureTimestamp ts [(''Content-Type'', ''application/json'')])"

lemma signed_headers_ok: "header_keys_ok (signed_headers secret ts payload)"
proof -
  have "dom (map_of (signed_headers secret ts payload)) \<subseteq> {''Content-Type'', HeaderSignature, HeaderSignatureTimestamp}"
    by (auto simp: signed_headers_def)
  moreover have "inj_on canonical_key {''Content-Type'', HeaderSignature, HeaderSignatureTimestamp}"
    by (auto simp: inj_on_def canonical_headers)
  ultimately have "inj_on canonical_key (dom (map_of (signed_headers secret ts payload)))"
    by (rule inj_on_subset [rotated])
  then show ?thesis
    by (simp add: header_keys_ok_def signed_headers_def gmap_ok_def gput_def distinct_update)
qed

lemma signed_headers_lookup:
  "map_of (signed_headers secret ts payload) HeaderSignature = Some (''sha256='' @ signPayload secret ts payload)"
  "map_of (signed_headers secret ts payload) HeaderSignatureTimestamp = Some ts"
  "map_of (signed_headers secret ts payload) ''Content-Type'' = Some ''application/json''"
  by (simp_all add: signed_headers_def HeaderSignature_def HeaderSignatureTimestamp_def)

lemma signed_headers_sent:
  "map_of (set_headers ord (signed_headers secret ts payload)) ''X-Agentlayer-Signature'' =
     Some (''sha256='' @ signPayload secret ts payload)"
  "map_of (set_headers ord (signed_headers secret ts payload)) ''X-Agentlayer-Signature-Timestamp'' = Some ts"
  "map_of (set_headers ord (signed_headers secret ts payload)) ''Content-Type'' = Some ''application/json''"
  using set_headers_lookup [OF signed_headers_ok signed_headers_lookup(1)]
    set_headers_lookup [OF signed_headers_ok signed_headers_lookup(2)]
    set_headers_lookup [OF signed_headers_ok signed_headers_lookup(3)]
  by (simp_all add: canonical_headers)

text \<open>The check a subscriber makes of a request.\<close>

definition subscriber_accepts :: "string \<Rightarrow> http_request \<Rightarrow> bool" where
  "subscriber_accepts secret q = (case (map_of (hq_Headers q) ''X-Agentlayer-Signature-Timestamp'',
       map_of (hq_Headers q) ''X-Agentlayer-Signature'') of
     (Some ts, Some sig) \<Rightarrow> sig = ''sha256='' @ hex_encode (hmac_sha256 secret (ts @ ''.'' @ hq_Body q))
   | _ \<Rightarrow> False)"

lemma Sign_Build:
  assumes "Signer_Sign (Builder_Build bi) secret w = (Inr request, w')"
  shows "secret \<noteq> [] \<and> wq_Delivery request = bi_Delivery bi \<and>
    wq_Payload request = json_encode (message_received_payload bi) \<and>
    (\<exists>ts. wq_Headers request = signed_headers secret ts (wq_Payload request)) \<and>
    (\<exists>n. w' = w\<lparr>clock_ix := n\<rparr>)"
  using assms
  by (auto simp: Signer_Sign_run Builder_Build_def signed_headers_def split: if_splits)

lemma deliver_recorded:
  assumes "world_ok w" and "newMessageReceivedDeliveryService url secret bi w = (Inr r, w')"
    and "wd_AttemptCount (bi_Delivery bi) = 0"
  shows "\<exists>q. http_log w' = http_log w @ [q] \<and> hq_Method q = ''POST'' \<and> hq_URL q = url \<and>
    hq_Body q = json_encode (message_received_payload bi) \<and> subscriber_accepts secret q \<and> secret \<noteq> [] \<and>
    delivery_view w' = (delivery_view w)(wd_ID (bi_Delivery bi) \<mapsto> dv_Delivery r) \<and>
    wd_RequestURL (dv_Delivery r) = url \<and> wd_RequestPayload (dv_Delivery r) = hq_Body q \<and>
    (\<exists>ord. hq_Headers q = set_headers ord (wd_RequestHeaders (dv_Delivery r))) \<and>
    delivery_ok (dv_Delivery r) \<and> wd_AttemptCount (dv_Delivery r) = 1 \<and>
    (wd_Status (dv_Delivery r) = DeliveryStatusSucceeded \<longleftrightarrow> ok_status (dv_Response r))"
proof -
  from deliv.DeliverAndRecord_spec [OF assms(1) leaves_Dispatch assms(2) [unfolded newMessageReceivedDeliveryService_def]]
  obtain request response s1 s2 u where
    sign: "Signer_Sign (Builder_Build bi) secret w = (Inr request, s1)"
    and disp: "Dispatcher_Dispatch url request s1 = (Inr response, s2)"
    and r: "r = \<lparr>dv_Request = request, dv_Response = response, dv_Delivery = attempted (to_record url request) response\<rparr>"
    and view: "delivery_view w' = (delivery_view w)(wd_ID (bi_Delivery bi) \<mapsto> attempted (to_record url request) response)"
    and rec: "RecordAttempt rt_SaveWebhookDelivery (to_record url request) response s2 = (u, w')"
    by auto
  note sb = Sign_Build [OF sign]
  from sb obtain ts where ts: "wq_Headers request = signed_headers secret ts (wq_Payload request)" by blast
  from Dispatch_log_ok [OF disp] obtain q ord where
    q: "http_log s2 = http_log s1 @ [q]" "hq_Method q = ''POST''" "hq_URL q = url"
      "hq_Body q = wq_Payload request" "hq_Headers q = set_headers ord (wq_Headers request)"
    by blast
  have logs: "http_log s1 = http_log w" "http_log w' = http_log s2"
    using sb rec by (auto simp: RecordAttempt_def rt_eqs)
  have count: "wd_AttemptCount (to_record url request) = 0"
    using sb assms(3) by simp
  have "subscriber_accepts secret q"
    by (simp add: subscriber_accepts_def q ts signed_headers_sent signPayload_def)
  moreover have "delivery_ok (attempted (to_record url request) response)"
    using count by (intro attempted_ok) simp
  moreover have "wd_Status (attempted (to_record url request) response) = DeliveryStatusSucceeded \<longleftrightarrow> ok_status response"
    by (simp add: attempt_delivery_def Let_def ok_status_def)
  ultimately show ?thesis
    using q logs view sb count by (intro exI [of _ q]) (auto simp: r)
qed

text \<open>When a delivery succeeds or is answered with any HTTP status, exactly one POST went out, with
  the payload of this message; its signature is the HMAC a subscriber computes from the shared
  secret; and one delivery is recorded, under its own id and only there, which holds the URL,
  the bytes and the headers that were sent, and the status that follows from the response.\<close>

theorem delivered_webhook_recorded:
  assumes "world_ok w" and "newMessageReceivedDeliveryService url secret bi w = (Inr r, w')"
    and "wd_AttemptCount (bi_Delivery bi) = 0"
  shows "\<exists>q. http_log w' = http_log w @ [q] \<and> hq_Method q = ''POST'' \<and> hq_URL q = url \<and>
    hq_Body q = json_encode (message_received_payload bi) \<and> subscriber_accepts secret q \<and> secret \<noteq> [] \<and>
    delivery_view w' = (delivery_view w)(wd_ID (bi_Delivery bi) \<mapsto> dv_Delivery r) \<and>
    wd_RequestURL (dv_Delivery r) = url \<and> wd_RequestPayload (dv_Delivery r) = hq_Body q \<and>
    (\<exists>ord. hq_Headers q = set_headers ord (wd_RequestHeaders (dv_Delivery r))) \<and>
    delivery_ok (dv_Delivery r) \<and> wd_AttemptCount (dv_Delivery r) = 1 \<and>
    (wd_Status (dv_Delivery r) = DeliveryStatusSucceeded \<longleftrightarrow> ok_status (dv_Response r))"
  using assms by (rule deliver_recorded)

text \<open>A webhook that cannot be sent leaves no trace: when the first delivery or a replay fails in any
  way (an unusable URL, a transport error, a response cut short), the store of deliveries is
  unchanged, so nothing is recorded for a retry, no attempt is counted, and a delivery that was
  due stays due.\<close>

theorem failed_dispatch_unrecorded:
  assumes "world_ok w"
  shows "(newMessageReceivedDeliveryService url secret bi w = (Inl e, w1) \<longrightarrow> delivery_view w1 = delivery_view w) \<and>
    (rt_ReplayDelivery k w = (Inl e', w2) \<longrightarrow> delivery_view w2 = delivery_view w)"
  using deliv.DeliverAndRecord_spec [OF assms leaves_Dispatch, of url secret bi "Inl e" w1]
    deliv.ReplayDelivery_spec [OF assms leaves_Dispatch, of k "Inl e'" w2]
  by (auto simp: newMessageReceivedDeliveryService_def rt_ReplayDelivery_def)

text \<open>A replay sends the recorded request again: the same URL, the same bytes and the same headers,
  with the signature of the first time, and counts one attempt on that delivery alone; a delivery
  without a recorded request is refused.\<close>

theorem replay_resends_recorded_request:
  assumes "world_ok w" and "rt_ReplayDelivery k w = (Inr r, w')"
  shows "\<exists>d q. delivery_view w k = Some d \<and> replayable d \<and> http_log w' = http_log w @ [q] \<and>
    hq_URL q = wd_RequestURL d \<and> hq_Body q = wd_RequestPayload d \<and>
    (\<exists>ord. hq_Headers q = set_headers ord (wd_RequestHeaders d)) \<and>
    delivery_view w' = (delivery_view w)(k \<mapsto> attempted d (dv_Response r))"
proof -
  from deliv.ReplayDelivery_spec [OF assms(1) leaves_Dispatch assms(2) [unfolded rt_ReplayDelivery_def]]
  obtain d response s1 s2 u where d: "delivery_view w k = Some d" "replayable d"
    and g: "rt_GetWebhookDeliveryByID k w = (Inr d, s1)"
    and disp: "Dispatcher_Dispatch (wd_RequestURL d) (replay_request d) s1 = (Inr response, s2)"
    and r: "dv_Response r = response"
    and rec: "RecordAttempt rt_SaveWebhookDelivery d response s2 = (u, w')"
    and view: "delivery_view w' = (delivery_view w)(wd_ID d \<mapsto> attempted d response)"
    by auto
  from Dispatch_log_ok [OF disp] obtain q where "http_log s2 = http_log s1 @ [q]" "hq_URL q = wd_RequestURL d"
      "hq_Body q = wd_RequestPayload d" "\<exists>ord. hq_Headers q = set_headers ord (wd_RequestHeaders d)"
    by (auto simp: replay_request_def)
  moreover have "http_log s1 = http_log w" "http_log w' = http_log s2"
    using g rec by (auto simp: RecordAttempt_def rt_eqs)
  moreover have "wd_ID d = k"
    using d(1) assms(1) by (auto simp: delivery_view_def world_ok_def mem_ok_def keyed_def)
  ultimately show ?thesis
    using d r view by (intro exI [of _ d] exI [of _ q]) auto
qed

section \<open>Sweeping over the runtime store\<close>

lemma rt_ListWebhookDeliveries_run:
  "rt_ListWebhookDeliveries n w =
     (Inr (take_limit n (sort_key delivery_recency (grange (iter_src w (iter_ix w)) (webhookDeliveriesByID (mem w))))),
      w\<lparr>iter_ix := Suc (iter_ix w)\<rparr>)"
  by (simp add: rt_eqs Store_ListWebhookDeliveries_def)

lemma sweep_run:
  assumes ok: "world_ok w"
  shows "\<exists>ds w1. newWebhookRetrySweepService n w =
      sweep_loop rt_ReplayDelivery (clock_src w (clock_ix w)) ds empty_sweep w1 \<and>
    ds = take_limit n (sort_key delivery_recency (grange (iter_src w (iter_ix w)) (webhookDeliveriesByID (mem w)))) \<and>
    world_ok w1 \<and> delivery_view w1 = delivery_view w \<and> http_srv w1 = http_srv w \<and>
    http_log w1 = http_log w \<and> url_check w1 = url_check w \<and>
    distinct (map wd_ID ds) \<and> (\<forall>d \<in> set ds. delivery_view w (wd_ID d) = Some d) \<and>
    (0 < n \<longrightarrow> int (length ds) \<le> n)"
proof -
  obtain ds w0 where l: "rt_ListWebhookDeliveries n w = (Inr ds, w0)"
    and w0: "world_ok w0" "delivery_view w0 = delivery_view w"
    and ds: "distinct (map wd_ID ds)" "\<forall>d \<in> set ds. delivery_view w (wd_ID d) = Some d"
      "0 < n \<longrightarrow> int (length ds) \<le> n"
    using deliv.list_reads [OF ok] by blast
  have eqs: "w0 = w\<lparr>iter_ix := Suc (iter_ix w)\<rparr>"
    "ds = take_limit n (sort_key delivery_recency (grange (iter_src w (iter_ix w)) (webhookDeliveriesByID (mem w))))"
    using l by (simp_all add: rt_ListWebhookDeliveries_run)
  let ?w1 = "w0\<lparr>clock_ix := Suc (clock_ix w0)\<rparr>"
  have "newWebhookRetrySweepService n w = sweep_loop rt_ReplayDelivery (clock_src w (clock_ix w)) ds empty_sweep ?w1"
    by (simp add: newWebhookRetrySweepService_def RetryDueDeliveries_def go_bind_def l time_now_def eqs(1))
  moreover have "world_ok ?w1" "delivery_view ?w1 = delivery_view w" "http_srv ?w1 = http_srv w"
    "http_log ?w1 = http_log w" "url_check ?w1 = url_check w"
    using w0 by (simp_all add: delivery_view_def eqs(1))
  ultimately show ?thesis using ds eqs(2) by blast
qed

text \<open>The deliveries whose replay reaches the network, and the request it makes.\<close>

definition posted :: "(string \<Rightarrow> gerr option) \<Rightarrow> webhook_delivery \<Rightarrow> bool" where
  "posted check d \<longleftrightarrow> replayable d \<and> check (wd_RequestURL d) = None"

definition resends :: "webhook_delivery \<Rightarrow> http_request \<Rightarrow> bool" where
  "resends d q \<longleftrightarrow> hq_Method q = ''POST'' \<and> hq_URL q = wd_RequestURL d \<and> hq_Body q = wd_RequestPayload d \<and>
     (\<exists>ord. hq_Headers q = set_headers ord (wd_RequestHeaders d))"

lemma Dispatch_posts:
  assumes "Dispatcher_Dispatch (wd_RequestURL d) (replay_request d) w = (r, w')" and "replayable d"
  shows "url_check w' = url_check w"
    and "\<exists>qs. http_log w' = http_log w @ qs \<and> list_all2 resends (if posted (url_check w) d then [d] else []) qs"
    and "(\<exists>x. r = Inr x) \<longrightarrow> posted (url_check w) d"
  using assms
  by (auto simp: Dispatch_run Let_def posted_def resends_def replay_request_def split: option.splits sum.splits)

text \<open>One replay of a stored delivery: the request it makes, and what it leaves of the delivery.\<close>

definition outcome_of :: "(string \<Rightarrow> gerr option) \<Rightarrow> webhook_delivery \<Rightarrow> gerr + delivery_result \<Rightarrow>
    webhook_delivery option \<Rightarrow> bool" where
  "outcome_of check d x after \<longleftrightarrow> (case x of
       Inl e \<Rightarrow> after = Some d
     | Inr y \<Rightarrow> posted check d \<and> dv_Delivery y = attempted d (dv_Response y) \<and> after = Some (dv_Delivery y))"

lemma Replay_outcome:
  fixes w w' :: "'z world_scheme"
  assumes ok: "world_ok w" and d: "delivery_view w k = Some d" and run: "rt_ReplayDelivery k w = (r, w')"
  shows "world_ok w'" and "url_check w' = url_check w"
    and "\<exists>qs. http_log w' = http_log w @ qs \<and> list_all2 resends (if posted (url_check w) d then [d] else []) qs"
    and "outcome_of (url_check w) d r (delivery_view w' k)"
    and "\<And>l. l \<noteq> k \<Longrightarrow> delivery_view w' l = delivery_view w l"
proof -
  have k: "wd_ID d = k"
    using d ok by (auto simp: delivery_view_def world_ok_def mem_ok_def keyed_def)
  have get: "rt_GetWebhookDeliveryByID k w = (Inr d, w)"
    using d by (simp add: rt_eqs Store_GetWebhookDeliveryByID_def found_or_def delivery_view_def)
  note spec = deliv.ReplayDelivery_spec [OF ok leaves_Dispatch run [unfolded rt_ReplayDelivery_def]]
  show "world_ok w'" using spec by blast
  show "delivery_view w' l = delivery_view w l" if "l \<noteq> k" for l
    using spec that d k by (auto split: sum.splits)
  show "url_check w' = url_check w"
    "\<exists>qs. http_log w' = http_log w @ qs \<and> list_all2 resends (if posted (url_check w) d then [d] else []) qs"
    "outcome_of (url_check w) d r (delivery_view w' k)"
  proof -
    have "url_check w' = url_check w \<and>
      (\<exists>qs. http_log w' = http_log w @ qs \<and> list_all2 resends (if posted (url_check w) d then [d] else []) qs) \<and>
      ((\<exists>x. r = Inr x) \<longrightarrow> posted (url_check w) d)"
    proof (cases "replayable d")
      case False
      then show ?thesis
        using run get by (auto simp: rt_ReplayDelivery_def ReplayDelivery_def go_bind_def replayable_def posted_def)
    next
      case True
      obtain b w2 where disp: "Dispatcher_Dispatch (wd_RequestURL d) (replay_request d) w = (b, w2)"
        by (cases "Dispatcher_Dispatch (wd_RequestURL d) (replay_request d) w")
      note p = Dispatch_posts [OF disp True]
      have "go_bind (\<lambda>w. (b, w2)) (\<lambda>response. go_bind (RecordAttempt rt_SaveWebhookDelivery d response)
          (\<lambda>recorded. go_ret \<lparr>dv_Request = replay_request d, dv_Response = response, dv_Delivery = recorded\<rparr>)) w = (r, w')"
        using run get True disp
        by (simp add: rt_ReplayDelivery_def ReplayDelivery_def go_bind_def replayable_def replay_request_def
            copyHeaders_def Let_def)
      then show ?thesis
        using p by (cases b) (auto simp: go_bind_def RecordAttempt_def rt_eqs Store_SaveWebhookDelivery_def)
    qed
    moreover have "case r of Inl e \<Rightarrow> delivery_view w' k = Some d
        | Inr y \<Rightarrow> dv_Delivery y = attempted d (dv_Response y) \<and> delivery_view w' k = Some (dv_Delivery y)"
      using spec d k by (auto split: sum.splits)
    ultimately show "url_check w' = url_check w"
      "\<exists>qs. http_log w' = http_log w @ qs \<and> list_all2 resends (if posted (url_check w) d then [d] else []) qs"
      "outcome_of (url_check w) d r (delivery_view w' k)"
      by (auto simp: outcome_of_def split: sum.splits)
  qed
qed

text \<open>The loop: one outcome for each due delivery, in the order of the list.\<close>

abbreviation due_of :: "gtime \<Rightarrow> webhook_delivery list \<Rightarrow> webhook_delivery list" where
  "due_of at ds \<equiv> filter (\<lambda>d. isRetryDue d at) ds"

definition swept :: "retry_sweep_result \<Rightarrow> nat \<Rightarrow> (gerr + delivery_result) list \<Rightarrow> retry_sweep_result" where
  "swept res skipped outs = \<lparr>rw_Attempted = rw_Attempted res + length outs,
     rw_Succeeded = rw_Succeeded res + length (filter (\<lambda>x. \<not> isl x) outs),
     rw_Failed = rw_Failed res + length (filter isl outs), rw_Skipped = rw_Skipped res + skipped,
     rw_Deliveries = rw_Deliveries res @ map (\<lambda>x. dv_Delivery (projr x)) (filter (\<lambda>x. \<not> isl x) outs)\<rparr>"

lemma swept_Nil: "swept res 0 [] = res"
  by (simp add: swept_def)

lemma swept_skip: "swept (res\<lparr>rw_Skipped := Suc (rw_Skipped res)\<rparr>) m outs = swept res (Suc m) outs"
  by (simp add: swept_def)

lemma swept_one:
  "swept (res\<lparr>rw_Attempted := rw_Attempted res + 1, rw_Failed := rw_Failed res + 1\<rparr>) m outs = swept res m (Inl e # outs)"
  "swept (res\<lparr>rw_Attempted := rw_Attempted res + 1, rw_Succeeded := rw_Succeeded res + 1,
     rw_Deliveries := rw_Deliveries res @ [dv_Delivery y]\<rparr>) m outs = swept res m (Inr y # outs)"
  by (simp_all add: swept_def)

lemma sweep_loop_outcomes:
  fixes w :: "'z world_scheme"
  assumes "world_ok w" and "distinct (map wd_ID ds)" and "\<forall>d \<in> set ds. delivery_view w (wd_ID d) = Some d"
  shows "\<exists>outs qs w'. sweep_loop rt_ReplayDelivery at ds res w =
      (Inr (swept res (length (filter (\<lambda>d. \<not> isRetryDue d at) ds)) outs), w') \<and> world_ok w' \<and>
    list_all2 (\<lambda>d x. outcome_of (url_check w) d x (delivery_view w' (wd_ID d))) (due_of at ds) outs \<and>
    (\<forall>k. k \<notin> wd_ID ` set (due_of at ds) \<longrightarrow> delivery_view w' k = delivery_view w k) \<and>
    http_log w' = http_log w @ qs \<and> list_all2 resends (filter (posted (url_check w)) (due_of at ds)) qs"
  using assms
proof (induction ds arbitrary: res w)
  case Nil
  then show ?case by (auto simp: swept_Nil)
next
  case (Cons d ds)
  show ?case
  proof (cases "isRetryDue d at")
    case False
    with Cons.IH [of w "res\<lparr>rw_Skipped := rw_Skipped res + 1\<rparr>"] Cons.prems show ?thesis
      by (simp add: swept_skip)
  next
    case True
    obtain x and w1 :: "'z world_scheme" where run: "rt_ReplayDelivery (wd_ID d) w = (x, w1)"
      by (cases "rt_ReplayDelivery (wd_ID d) w")
    have d: "delivery_view w (wd_ID d) = Some d" using Cons.prems(3) by simp
    note one = Replay_outcome [OF Cons.prems(1) d run]
    let ?res = "case x of Inl e \<Rightarrow> res\<lparr>rw_Attempted := rw_Attempted res + 1, rw_Failed := rw_Failed res + 1\<rparr>
      | Inr y \<Rightarrow> res\<lparr>rw_Attempted := rw_Attempted res + 1, rw_Succeeded := rw_Succeeded res + 1,
          rw_Deliveries := rw_Deliveries res @ [dv_Delivery y]\<rparr>"
    have loop: "sweep_loop rt_ReplayDelivery at (d # ds) res w = sweep_loop rt_ReplayDelivery at ds ?res w1"
      using True run by (cases x) (simp_all add: go_bind_def go_try_def Let_def)
    have apart: "wd_ID d \<notin> wd_ID ` set ds" and dist: "distinct (map wd_ID ds)" using Cons.prems(2) by auto
    have "\<forall>e \<in> set ds. delivery_view w1 (wd_ID e) = Some e"
      using one(5) apart Cons.prems(3) by (metis image_eqI list.set_intros(2))
    from Cons.IH [OF one(1) dist this, of ?res] obtain outs qs and w' :: "'z world_scheme" where
      IH: "sweep_loop rt_ReplayDelivery at ds ?res w1 =
        (Inr (swept ?res (length (filter (\<lambda>d. \<not> isRetryDue d at) ds)) outs), w')" "world_ok w'"
      "list_all2 (\<lambda>d x. outcome_of (url_check w) d x (delivery_view w' (wd_ID d))) (due_of at ds) outs"
      "\<And>k. k \<notin> wd_ID ` set (due_of at ds) \<Longrightarrow> delivery_view w' k = delivery_view w1 k"
      "http_log w' = http_log w1 @ qs" "list_all2 resends (filter (posted (url_check w)) (due_of at ds)) qs"
      unfolding one(2) by blast
    obtain q1 where q1: "http_log w1 = http_log w @ q1"
      "list_all2 resends (if posted (url_check w) d then [d] else []) q1" using one(3) by blast
    have mine: "outcome_of (url_check w) d x (delivery_view w' (wd_ID d))"
    proof -
      have "wd_ID d \<notin> wd_ID ` set (due_of at ds)" using apart by (auto simp: image_iff)
      from IH(4) [OF this] one(4) show ?thesis by simp
    qed
    have sum: "swept ?res m outs = swept res m (x # outs)" for m
      by (cases x) (simp_all only: sum.case swept_one)
    have rest: "delivery_view w' k = delivery_view w k" if "k \<notin> wd_ID ` set (due_of at (d # ds))" for k
      using IH(4) [of k] one(5) [of k] that True by auto
    show ?thesis
    proof (intro exI conjI)
      show "sweep_loop rt_ReplayDelivery at (d # ds) res w =
          (Inr (swept res (length (filter (\<lambda>d. \<not> isRetryDue d at) (d # ds))) (x # outs)), w')"
        using True by (simp only: loop IH(1) sum filter.simps if_True not_True_eq_False if_False simp_thms)
      show "list_all2 (\<lambda>d x. outcome_of (url_check w) d x (delivery_view w' (wd_ID d))) (due_of at (d # ds)) (x # outs)"
        using True mine IH(3) by simp
      show "list_all2 resends (filter (posted (url_check w)) (due_of at (d # ds))) (q1 @ qs)"
        using True q1(2) IH(6) by (cases "posted (url_check w) d") (auto simp: list_all2_Cons1)
    qed (use IH q1 rest in auto)
  qed
qed


section \<open>A delivery over its life\<close>

text \<open>
  What the process does to the deliveries without being asked for a replay: it announces new messages and
  sweeps, with any limit. In between the clock, the subscriber and the rest of the store may change.
\<close>

inductive webhook_history :: "'z world_scheme \<Rightarrow> 'z world_scheme \<Rightarrow> bool" for w where
  start: "webhook_history w w"
| announce: "webhook_history w v \<Longrightarrow> wd_AttemptCount (bi_Delivery bi) = 0 \<Longrightarrow>
    newMessageReceivedDeliveryService url secret bi v = (r, v') \<Longrightarrow> webhook_history w v'"
| sweep: "webhook_history w v \<Longrightarrow> newWebhookRetrySweepService n v = (r, v') \<Longrightarrow> webhook_history w v'"
| meanwhile: "webhook_history w v \<Longrightarrow> world_ok v' \<Longrightarrow> delivery_view v' = delivery_view v \<Longrightarrow> webhook_history w v'"

definition within_budget :: "'z world_scheme \<Rightarrow> bool" where
  "within_budget w \<longleftrightarrow> (\<forall>k d. delivery_view w k = Some d \<longrightarrow> delivery_ok d \<and> wd_AttemptCount d \<le> 4)"

lemma within_budget_cong: "delivery_view v' = delivery_view v \<Longrightarrow> within_budget v' = within_budget v"
  by (simp only: within_budget_def)

lemma sweep_changes:
  fixes w w' :: "'z world_scheme"
  assumes "world_ok w" and "newWebhookRetrySweepService n w = (r, w')"
  shows "world_ok w'" and "delivery_view w' k = delivery_view w k \<or>
    (\<exists>d x at. delivery_view w k = Some d \<and> isRetryDue d at \<and> delivery_view w' k = Some (attempted d x))"
proof -
  let ?at = "clock_src w (clock_ix w)"
  obtain ds and w1 :: "'z world_scheme" where run: "newWebhookRetrySweepService n w = sweep_loop rt_ReplayDelivery ?at ds empty_sweep w1"
    and w1: "world_ok w1" "delivery_view w1 = delivery_view w"
    and ds: "distinct (map wd_ID ds)" "\<forall>d \<in> set ds. delivery_view w (wd_ID d) = Some d"
    using sweep_run [OF assms(1), of n] by blast
  have "sweep_loop (ReplayDelivery rt_GetWebhookDeliveryByID Dispatcher_Dispatch rt_SaveWebhookDelivery) ?at ds
      empty_sweep w1 = (r, w')"
    using run assms(2) by (simp add: rt_ReplayDelivery_def)
  from deliv.sweep_loop_view [OF w1(1) leaves_Dispatch ds(1) _ this] ds(2) w1(2)
  have view: "world_ok w' \<and> (\<forall>k. delivery_view w' k = delivery_view w k \<or>
    (\<exists>d \<in> set ds. wd_ID d = k \<and> isRetryDue d ?at \<and> (\<exists>x. delivery_view w' k = Some (attempted d x))))"
    by simp
  then show "world_ok w'" by blast
  from view ds(2) show "delivery_view w' k = delivery_view w k \<or>
    (\<exists>d x at. delivery_view w k = Some d \<and> isRetryDue d at \<and> delivery_view w' k = Some (attempted d x))"
    by metis
qed

lemma history_budget:
  assumes "webhook_history w v" and "world_ok w" and "within_budget w"
  shows "world_ok v \<and> within_budget v"
  using assms
proof (induction rule: webhook_history.induct)
  case (announce v bi url secret r v')
  then have ok: "world_ok v" and good: "within_budget v" by simp_all
  note spec = deliv.DeliverAndRecord_spec [OF ok leaves_Dispatch announce(3) [unfolded newMessageReceivedDeliveryService_def]]
  show ?case
  proof (cases r)
    case (Inl e)
    with spec good show ?thesis by (simp add: within_budget_def)
  next
    case (Inr x)
    from deliver_recorded [OF ok announce(3) [unfolded Inr] announce(2)] obtain d where
      "delivery_view v' = (delivery_view v)(wd_ID (bi_Delivery bi) \<mapsto> d)" "delivery_ok d" "wd_AttemptCount d = 1"
      by blast
    with spec good show ?thesis by (auto simp: within_budget_def)
  qed
next
  case (sweep v n r v')
  then have ok: "world_ok v" and good: "within_budget v" by simp_all
  note changes = sweep_changes [OF ok sweep(2)]
  have "delivery_ok d' \<and> wd_AttemptCount d' \<le> 4" if d': "delivery_view v' k = Some d'" for k d'
    using changes(2) [of k]
  proof
    assume "delivery_view v' k = delivery_view v k"
    with good d' show ?thesis by (auto simp: within_budget_def)
  next
    assume "\<exists>d x at. delivery_view v k = Some d \<and> isRetryDue d at \<and> delivery_view v' k = Some (attempted d x)"
    then obtain d x at where d: "delivery_view v k = Some d" "isRetryDue d at" "d' = attempted d x" using d' by auto
    then have "delivery_ok d" using good by (auto simp: within_budget_def)
    with due_count [OF this d(2)] d(3) show ?thesis
      using attempted_ok [of d x] by (auto simp: delivery_ok_def)
  qed
  with changes(1) show ?case by (simp add: within_budget_def)
next
  case (meanwhile v v')
  then show ?case using within_budget_cong by blast
qed simp

text \<open>C32: the retry budget. Starting from deliveries that keep to it, for instance from none, and through
  any sequence of announcements and sweeps, with any limits, responses and times, every stored delivery has
  at most four attempts recorded and is in one of its three states: succeeded, retrying with at most three
  attempts and its next one scheduled by the backoff, or a dead letter. A delivery that has four
  attempts, succeeded or is a dead letter is never changed by a sweep again. Attempts count when the
  subscriber answered: a transport failure is not recorded and does not count, and a replay requested over the
  API is not subject to the budget.\<close>

theorem retry_budget:
  assumes "world_ok w" and "within_budget w" and "webhook_history w v"
  shows "(\<forall>k d. delivery_view v k = Some d \<longrightarrow> wd_AttemptCount d \<le> 4 \<and> delivery_ok d) \<and>
    (\<forall>n r v' k d. newWebhookRetrySweepService n v = (r, v') \<and> delivery_view v k = Some d \<and>
       (wd_AttemptCount d = 4 \<or> wd_Status d \<noteq> DeliveryStatusRetrying) \<longrightarrow> delivery_view v' k = Some d)"
proof -
  have v: "world_ok v" "within_budget v" using history_budget [OF assms(3,1,2)] by simp_all
  have "delivery_view v' k = Some d"
    if "newWebhookRetrySweepService n v = (r, v')" "delivery_view v k = Some d"
      "wd_AttemptCount d = 4 \<or> wd_Status d \<noteq> DeliveryStatusRetrying" for n r v' k d
  proof -
    have "\<not> isRetryDue d at" for at
      using due_retrying [of d at] due_count [of d at] that(2,3) v(2) by (auto simp: within_budget_def)
    with sweep_changes(2) [OF v(1) that(1), of k] that(2) show ?thesis by auto
  qed
  with v(2) show ?thesis by (auto simp: within_budget_def)
qed

text \<open>The \<open>n\<close> first of a sorted list leave out whatever has \<open>n\<close> smaller keys before it.\<close>

lemma not_in_take_sorted:
  assumes "n \<le> card {x \<in> set xs. f x < f d}"
  shows "d \<notin> set (take n (sort_key f xs))"
proof
  let ?ys = "sort_key f xs"
  assume "d \<in> set (take n ?ys)"
  then obtain i where i: "i < n" "i < length ?ys" "?ys ! i = d"
    by (auto simp: in_set_conv_nth)
  have sorted: "sorted (map f ?ys)" by simp
  have "{x \<in> set xs. f x < f d} \<subseteq> set (take i ?ys)"
  proof
    fix x
    assume "x \<in> {x \<in> set xs. f x < f d}"
    then have "x \<in> set ?ys" and less: "f x < f d" by auto
    then obtain j where j: "j < length ?ys" "?ys ! j = x" by (metis in_set_conv_nth)
    have "j < i"
    proof (rule ccontr)
      assume "\<not> j < i"
      then have "map f ?ys ! i \<le> map f ?ys ! j"
        using sorted j(1) by (intro sorted_nth_mono) simp_all
      with i j less show False by simp
    qed
    with i j have "take i ?ys ! j = x" "j < length (take i ?ys)" by simp_all
    then show "x \<in> set (take i ?ys)" by (metis nth_mem)
  qed
  then have "card {x \<in> set xs. f x < f d} \<le> card (set (take i ?ys))"
    by (intro card_mono) simp_all
  also have "\<dots> \<le> i"
    using card_length [of "take i ?ys"] by simp
  finally show False using assms i(1) by simp
qed

text \<open>A due delivery can be starved: the sweep lists the most recently updated deliveries, of any
  status, and only then looks for due ones, so as long as \<open>n\<close> deliveries are more recent, a sweep
  with limit \<open>n\<close> does not touch it, however long it has been due.\<close>

theorem sweep_starves_old_deliveries:
  assumes "world_ok w" and "delivery_view w k = Some d" and "0 < n"
    and "nat n \<le> card {d'. d' \<in> ran (delivery_view w) \<and> delivery_recency d' < delivery_recency d}"
  shows "\<exists>out w'. newWebhookRetrySweepService n w = (Inr out, w') \<and> delivery_view w' k = Some d"
proof -
  let ?at = "clock_src w (clock_ix w)" and ?m = "webhookDeliveriesByID (mem w)"
  obtain ds w1 where run: "newWebhookRetrySweepService n w = sweep_loop rt_ReplayDelivery ?at ds empty_sweep w1"
    and ds_eq: "ds = take_limit n (sort_key delivery_recency (grange (iter_src w (iter_ix w)) ?m))"
    and w1: "world_ok w1" "delivery_view w1 = delivery_view w"
    and ds: "distinct (map wd_ID ds)" "\<forall>d \<in> set ds. delivery_view w (wd_ID d) = Some d"
    using sweep_run [OF assms(1), of n] by blast
  have ok: "gmap_ok ?m" and keyed: "keyed wd_ID ?m"
    using assms(1) by (simp_all add: world_ok_def mem_ok_def keyed_def)
  have "{x \<in> set (grange (iter_src w (iter_ix w)) ?m). delivery_recency x < delivery_recency d} =
      {d'. d' \<in> ran (delivery_view w) \<and> delivery_recency d' < delivery_recency d}"
    by (auto simp: set_grange [OF ok] delivery_view_def)
  with assms(4) have "d \<notin> set (take (nat n) (sort_key delivery_recency (grange (iter_src w (iter_ix w)) ?m)))"
    by (intro not_in_take_sorted) simp
  with assms(3) have "d \<notin> set ds" by (simp add: ds_eq take_limit_take)
  moreover have "wd_ID d = k" using keyed assms(2) by (simp add: keyed_def delivery_view_def)
  ultimately have fresh: "\<not> (\<exists>e \<in> set ds. wd_ID e = k)"
    using ds(2) assms(2) by (metis option.inject)
  from sweep_loop_counts [of rt_ReplayDelivery ?at ds empty_sweep w1] obtain out w' where
    out: "sweep_loop rt_ReplayDelivery ?at ds empty_sweep w1 = (Inr out, w')" by blast
  from deliv.sweep_loop_view [OF w1(1) leaves_Dispatch ds(1) _ out [unfolded rt_ReplayDelivery_def]] ds(2) w1(2)
  have "delivery_view w' k = delivery_view w k \<or> (\<exists>d \<in> set ds. wd_ID d = k)" by auto
  with fresh assms(2) show ?thesis by (intro exI [of _ out] exI [of _ w']) (auto simp: run out)
qed

text \<open>A subscriber nobody can reach.\<close>

definition unreachable :: "'z world_scheme \<Rightarrow> bool" where
  "unreachable w \<longleftrightarrow> (\<forall>log q. \<exists>e. http_srv w log q = Inl e)"

lemma unreachable_Dispatch:
  "unreachable w \<Longrightarrow> \<exists>e w'. Dispatcher_Dispatch url request w = (Inl e, w') \<and> unreachable w'"
proof (cases "url_check w url")
  case None
  assume u: "unreachable w"
  then obtain e where "http_srv w (http_log w) \<lparr>hq_Method = ''POST'', hq_URL = url,
      hq_Headers = set_headers (iter_src w (iter_ix w)) (wq_Headers request), hq_Body = wq_Payload request\<rparr> = Inl e"
    unfolding unreachable_def by blast
  with None u show ?thesis by (simp add: Dispatch_run Let_def unreachable_def)
qed (simp add: Dispatch_run)

lemma unreachable_Replay:
  assumes "world_ok w" and "unreachable w"
  shows "\<exists>e w'. rt_ReplayDelivery k w = (Inl e, w') \<and> world_ok w' \<and> unreachable w' \<and>
    delivery_view w' = delivery_view w"
proof -
  obtain r w' where run: "rt_ReplayDelivery k w = (r, w')" by (cases "rt_ReplayDelivery k w")
  obtain b w1 where g: "rt_GetWebhookDeliveryByID k w = (b, w1)" by (cases "rt_GetWebhookDeliveryByID k w")
  have w1: "unreachable w1" using g assms(2) by (auto simp: rt_eqs unreachable_def)
  have "(\<exists>e. r = Inl e) \<and> unreachable w'"
  proof (cases b)
    case (Inl e)
    with run g w1 show ?thesis by (auto simp: rt_ReplayDelivery_def ReplayDelivery_def go_bind_def)
  next
    case (Inr d)
    obtain e w2 where "Dispatcher_Dispatch (wd_RequestURL d) (replay_request d) w1 = (Inl e, w2)" "unreachable w2"
      using unreachable_Dispatch [OF w1] by blast
    with run g w1 Inr show ?thesis
      by (auto simp: rt_ReplayDelivery_def ReplayDelivery_def go_bind_def replay_request_def copyHeaders_def
          Let_def split: if_splits)
  qed
  moreover from this obtain e where "r = Inl e" by blast
  with deliv.ReplayDelivery_spec [OF assms(1) leaves_Dispatch run [unfolded rt_ReplayDelivery_def]]
  have "world_ok w' \<and> delivery_view w' = delivery_view w" by simp
  ultimately show ?thesis using run by blast
qed

lemma unreachable_loop:
  assumes "world_ok w" and "unreachable w" and "sweep_loop rt_ReplayDelivery at ds res w = (out, w')"
  shows "world_ok w' \<and> unreachable w' \<and> delivery_view w' = delivery_view w"
  using assms
proof (induction ds arbitrary: res w)
  case (Cons d ds)
  show ?case
  proof (cases "isRetryDue d at")
    case False
    with Cons show ?thesis by auto
  next
    case True
    obtain e w1 where run: "rt_ReplayDelivery (wd_ID d) w = (Inl e, w1)"
      and w1: "world_ok w1" "unreachable w1" "delivery_view w1 = delivery_view w"
      using unreachable_Replay [OF Cons.prems(1,2)] by blast
    obtain res1 where "sweep_loop rt_ReplayDelivery at ds res1 w1 = (out, w')"
      using Cons.prems(3) True run by (auto simp: go_bind_def go_try_def Let_def)
    from Cons.IH [OF w1(1,2) this] w1(3) show ?thesis by simp
  qed
qed simp

text \<open>Against a subscriber that cannot be reached the retries never end and never count: after any
  number of sweeps every delivery is as it was, with its attempt count and its due time, so
  none becomes a dead letter.\<close>

theorem unreachable_never_dead_letters:
  assumes "world_ok w" and "unreachable w"
  shows "delivery_view (((\<lambda>v. snd (newWebhookRetrySweepService n v)) ^^ m) w) = delivery_view w"
proof -
  let ?sweep = "\<lambda>v. snd (newWebhookRetrySweepService n v)"
  have one: "world_ok (?sweep v) \<and> unreachable (?sweep v) \<and> delivery_view (?sweep v) = delivery_view v"
    if v: "world_ok v" "unreachable v" for v :: "'a world_scheme"
  proof -
    obtain ds w1 where run: "newWebhookRetrySweepService n v =
        sweep_loop rt_ReplayDelivery (clock_src v (clock_ix v)) ds empty_sweep w1"
      and w1: "world_ok w1" "delivery_view w1 = delivery_view v" "http_srv w1 = http_srv v"
      using sweep_run [OF v(1), of n] by blast
    have "unreachable w1" using v(2) w1(3) by (simp add: unreachable_def)
    from unreachable_loop [OF w1(1) this, of _ ds empty_sweep] w1(2) show ?thesis
      by (metis run prod.exhaust_sel)
  qed
  have "world_ok ((?sweep ^^ m) w) \<and> unreachable ((?sweep ^^ m) w) \<and>
      delivery_view ((?sweep ^^ m) w) = delivery_view w"
    using assms by (induction m) (simp_all add: one)
  then show ?thesis by simp
qed

section \<open>Concrete deliveries\<close>

definition demo_build :: build_message_received_input where
  "demo_build = \<lparr>bi_Organization = zero_organization, bi_Agent = zero_agent, bi_Inbox = zero_inbox,
     bi_Delivery = zero_delivery\<lparr>wd_ID := ''d-new''\<rparr>,
     bi_Handled = \<lparr>hr_ParsedMessage = demo_parsed, hr_Contact = demo_contact, hr_Thread = demo_thread,
       hr_Message = demo_message, hr_ThreadMatchStrategy = ''in_reply_to'', hr_ThreadCreated = False,
       hr_Duplicate = False\<rparr>,
     bi_ThreadMessages = [demo_message], bi_Memory = []\<rparr>"

text \<open>Two recorded deliveries: an old one that is due for a retry, and a newer one that succeeded.\<close>

definition demo_due :: webhook_delivery where
  "demo_due = zero_delivery\<lparr>wd_ID := ''d-1'', wd_RequestURL := ''http://sub/'', wd_RequestPayload := ''{}'',
     wd_Status := DeliveryStatusRetrying, wd_AttemptCount := 1, wd_NextAttemptAt := 60000000001,
     wd_LastAttemptAt := 1, wd_UpdatedAt := 1\<rparr>"

definition demo_done :: webhook_delivery where
  "demo_done = zero_delivery\<lparr>wd_ID := ''d-2'', wd_RequestURL := ''http://sub/'', wd_RequestPayload := ''{}'',
     wd_Status := DeliveryStatusSucceeded, wd_AttemptCount := 1, wd_UpdatedAt := 5\<rparr>"

definition demo_deliveries :: mem_store where
  "demo_deliveries = NewStore\<lparr>webhookDeliveriesByID := [(''d-1'', demo_due), (''d-2'', demo_done)]\<rparr>"

definition demo_dark :: "mem_store \<Rightarrow> world" where
  "demo_dark m = (demo_world m)\<lparr>http_srv := (\<lambda>log q. Inl (ErrExternal ''connection refused''))\<rparr>"

lemma demo_deliveries_ok: "mem_ok demo_deliveries"
  by (simp add: mem_ok_def keyed_def gmap_ok_def points_into_def demo_deliveries_def NewStore_def
      demo_due_def demo_done_def)

lemma demo_dark_ok: "world_ok (demo_dark m) = mem_ok m" "unreachable (demo_dark m)"
  by (simp_all add: demo_dark_def world_ok_def unreachable_def)

lemma demo_delivery_view:
  "delivery_view (demo_world demo_deliveries) = [''d-1'' \<mapsto> demo_due, ''d-2'' \<mapsto> demo_done]"
  "delivery_view (demo_dark demo_deliveries) = [''d-1'' \<mapsto> demo_due, ''d-2'' \<mapsto> demo_done]"
  by (auto simp: delivery_view_def demo_deliveries_def demo_dark_def)

lemma demo_deliver: "\<exists>r w'. newMessageReceivedDeliveryService ''http://sub/'' ''key'' demo_build (demo_world NewStore) = (Inr r, w')"
  by (simp add: newMessageReceivedDeliveryService_def DeliverAndRecordMessageReceived_def
      DeliverMessageReceived_def go_bind_def Signer_Sign_run Dispatch_run RecordAttempt_def rt_eqs
      Store_SaveWebhookDelivery_def Let_def)

theorem delivered_webhook_recorded_witness:
  "\<exists>r w' q. newMessageReceivedDeliveryService ''http://sub/'' ''key'' demo_build (demo_world NewStore) = (Inr r, w') \<and>
     http_log w' = [q] \<and> subscriber_accepts ''key'' q \<and> delivery_view w' ''d-new'' = Some (dv_Delivery r)"
proof -
  obtain r w' where run: "newMessageReceivedDeliveryService ''http://sub/'' ''key'' demo_build (demo_world NewStore) = (Inr r, w')"
    using demo_deliver by blast
  have "wd_AttemptCount (bi_Delivery demo_build) = 0" "wd_ID (bi_Delivery demo_build) = ''d-new''"
    by (simp_all add: demo_build_def zero_delivery_def)
  with delivered_webhook_recorded [OF _ run] run show ?thesis
    by (auto simp: mem_ok_NewStore)
qed

theorem failed_dispatch_unrecorded_witness:
  "\<exists>e w1 e' w2. newMessageReceivedDeliveryService ''http://sub/'' ''key'' demo_build (demo_dark demo_deliveries) = (Inl e, w1) \<and>
     delivery_view w1 = [''d-1'' \<mapsto> demo_due, ''d-2'' \<mapsto> demo_done] \<and>
     rt_ReplayDelivery ''d-1'' (demo_dark demo_deliveries) = (Inl e', w2) \<and>
     delivery_view w2 = [''d-1'' \<mapsto> demo_due, ''d-2'' \<mapsto> demo_done]"
proof -
  let ?w = "demo_dark demo_deliveries"
  have ok: "world_ok ?w" by (simp add: demo_dark_ok demo_deliveries_ok)
  obtain e w1 where d: "newMessageReceivedDeliveryService ''http://sub/'' ''key'' demo_build ?w = (Inl e, w1)"
    by (simp add: demo_dark_def newMessageReceivedDeliveryService_def DeliverAndRecordMessageReceived_def
        DeliverMessageReceived_def go_bind_def Signer_Sign_run Dispatch_run Let_def)
  obtain e' w2 where r: "rt_ReplayDelivery ''d-1'' ?w = (Inl e', w2)"
    using unreachable_Replay [OF ok demo_dark_ok(2)] by blast
  from failed_dispatch_unrecorded [OF ok, of "''http://sub/''" "''key''" demo_build e w1 "''d-1''" e' w2] d r
  show ?thesis by (auto simp: demo_delivery_view)
qed

lemma demo_replay: "\<exists>r w'. rt_ReplayDelivery ''d-1'' (demo_world demo_deliveries) = (Inr r, w')"
  by (simp add: rt_ReplayDelivery_def ReplayDelivery_def go_bind_def rt_eqs Store_GetWebhookDeliveryByID_def
      demo_deliveries_def demo_due_def Dispatch_run RecordAttempt_def Store_SaveWebhookDelivery_def Let_def)

theorem replay_resends_recorded_request_witness:
  "\<exists>r w' q. rt_ReplayDelivery ''d-1'' (demo_world demo_deliveries) = (Inr r, w') \<and> http_log w' = [q] \<and>
     hq_Body q = ''{}'' \<and> hq_URL q = ''http://sub/'' \<and>
     (\<exists>d. delivery_view w' ''d-1'' = Some d \<and> wd_AttemptCount d = 2)"
proof -
  obtain r w' where run: "rt_ReplayDelivery ''d-1'' (demo_world demo_deliveries) = (Inr r, w')"
    using demo_replay by blast
  have due: "wd_RequestURL demo_due = ''http://sub/''" "wd_RequestPayload demo_due = ''{}''" "wd_AttemptCount demo_due = 1"
    by (simp_all add: demo_due_def)
  from replay_resends_recorded_request [OF _ run] run show ?thesis
    by (auto simp: demo_deliveries_ok demo_delivery_view due)
qed


theorem retry_budget_witness:
  "\<exists>r v d. newMessageReceivedDeliveryService ''http://sub/'' ''key'' demo_build (demo_world NewStore) = (Inr r, v) \<and>
     delivery_view v ''d-new'' = Some d \<and> wd_AttemptCount d \<le> 4 \<and> delivery_ok d"
proof -
  obtain r v where run: "newMessageReceivedDeliveryService ''http://sub/'' ''key'' demo_build (demo_world NewStore) = (Inr r, v)"
    using demo_deliver by blast
  have b: "wd_AttemptCount (bi_Delivery demo_build) = 0" "wd_ID (bi_Delivery demo_build) = ''d-new''"
    by (simp_all add: demo_build_def zero_delivery_def)
  have empty: "delivery_view (demo_world NewStore) = Map.empty" by (simp add: delivery_view_def NewStore_def fun_eq_iff)
  have ok: "world_ok (demo_world NewStore)" by (simp add: mem_ok_NewStore)
  have start: "within_budget (demo_world NewStore)" by (simp add: within_budget_def empty)
  note all = retry_budget [OF ok start webhook_history.announce [OF webhook_history.start b(1) run]]
  have "delivery_view v ''d-new'' = Some (dv_Delivery r)" using deliver_recorded [OF ok run b(1)] b(2) by auto
  with run all show ?thesis by blast
qed

theorem sweep_starves_old_deliveries_witness:
  "isRetryDue demo_due 63903204007000000000 \<and>
   (\<exists>out w'. newWebhookRetrySweepService 1 (demo_world demo_deliveries) = (Inr out, w') \<and>
      delivery_view w' ''d-1'' = Some demo_due)"
proof
  show "isRetryDue demo_due 63903204007000000000" by code_simp
  let ?w = "demo_world demo_deliveries"
  have ids: "''d-1'' \<noteq> (''d-2'' :: string)" by simp
  have ran: "ran (delivery_view ?w) = {demo_due, demo_done}"
    unfolding demo_delivery_view(1) using ids by (simp add: insert_commute)
  have "delivery_recency demo_done < delivery_recency demo_due" "\<not> delivery_recency demo_due < delivery_recency demo_due"
    by (simp_all add: delivery_recency_def demo_due_def demo_done_def)
  then have "{d'. d' \<in> ran (delivery_view ?w) \<and> delivery_recency d' < delivery_recency demo_due} = {demo_done}"
    unfolding ran by blast
  then have "nat 1 \<le> card {d'. d' \<in> ran (delivery_view ?w) \<and> delivery_recency d' < delivery_recency demo_due}"
    by simp
  from sweep_starves_old_deliveries [OF _ _ _ this, of "''d-1''"]
  show "\<exists>out w'. newWebhookRetrySweepService 1 ?w = (Inr out, w') \<and> delivery_view w' ''d-1'' = Some demo_due"
    by (simp add: demo_deliveries_ok demo_delivery_view)
qed

theorem unreachable_never_dead_letters_witness:
  "delivery_view (((\<lambda>v. snd (newWebhookRetrySweepService 20 v)) ^^ 100) (demo_dark demo_deliveries)) ''d-1'' = Some demo_due"
  using unreachable_never_dead_letters [of "demo_dark demo_deliveries" 100 20]
  by (simp add: demo_dark_ok demo_deliveries_ok demo_delivery_view)

end
