(* ===== verification/Postgres_Deliveries.thy ===== *)
theory Postgres_Deliveries
  imports Postgres_Services Store_Laws Webhook_Laws
begin

text \<open>
  Webhook deliveries over the SQL store: what is recorded, what can be read back, and what becomes of
  replays and retries.
\<close>

section \<open>The services\<close>

definition pg_newMessageReceivedDeliveryService ::
    "string \<Rightarrow> string \<Rightarrow> build_message_received_input \<Rightarrow> ('z pg_world_scheme, delivery_result) go" where
  "pg_newMessageReceivedDeliveryService =
     DeliverAndRecordMessageReceived Dispatcher_Dispatch pg_SaveWebhookDelivery"

definition pg_ReplayDelivery :: "string \<Rightarrow> ('z pg_world_scheme, delivery_result) go" where
  "pg_ReplayDelivery = ReplayDelivery pg_GetWebhookDeliveryByID Dispatcher_Dispatch pg_SaveWebhookDelivery"

definition pg_newWebhookRetrySweepService :: "int \<Rightarrow> ('z pg_world_scheme, retry_sweep_result) go" where
  "pg_newWebhookRetrySweepService = RetryDueDeliveries pg_ListWebhookDeliveries pg_ReplayDelivery"

section \<open>Rows\<close>

lemma upsert_find:
  assumes "\<And>old. key (set_row new old) = key old"
  shows "List.find (\<lambda>r. key r = key new) (upsert key set_row new rows) =
    Some (case List.find (\<lambda>r. key r = key new) rows of None \<Rightarrow> new | Some old \<Rightarrow> set_row new old)"
proof (cases "list_ex (\<lambda>r. key r = key new) rows")
  case True
  then show ?thesis
    by (simp add: upsert_def) (induction rows, auto simp: assms)
next
  case False
  then have "List.find (\<lambda>r. key r = key new) rows = None" "List.find (\<lambda>r. key r = key new) (rows @ [new]) = Some new"
    by (induction rows) auto
  with False show ?thesis by (simp add: upsert_def)
qed

lemma upsert_other: "r \<in> set (upsert key set_row new rows) \<Longrightarrow>
    (\<And>old. key (set_row new old) = key old) \<Longrightarrow> key r \<noteq> key new \<Longrightarrow> r \<in> set rows"
  by (auto simp: upsert_def split: if_splits)

lemma set_delivery_id [simp]: "dl_id (set_delivery new old) = dl_id old"
  by (simp add: set_delivery_def)

lemma set_delivery_sel [simp]:
  "dl_next_attempt_at (set_delivery new old) = dl_next_attempt_at new"
  "dl_updated_at (set_delivery new old) = dl_updated_at new"
  by (simp_all add: set_delivery_def)

lemma scan_rows_isl: "r \<in> set rs \<Longrightarrow> isl (scan r) \<Longrightarrow> isl (scan_rows scan rs)"
  by (induction rs) (auto split: sum.splits)

lemma built_row_iff: "(case x of Inl e \<Rightarrow> Inl e | Inr row \<Rightarrow> Inr (f row)) = Inr y \<longleftrightarrow> (\<exists>row. x = Inr row \<and> y = f row)"
  by (cases x) auto

lemma delivery_row_sel:
  assumes "WebhookDeliveryToModel d = Inr model" and "delivery_row p model = Inr row"
  shows "dl_id row = wd_ID d" "dl_next_attempt_at row = time_column p (wd_NextAttemptAt d)"
    "dl_updated_at row = pr_time p (wd_UpdatedAt d)"
  using assms by (auto simp: delivery_row_def WebhookDeliveryToModel_def Marshal_string_map_def split: sum.splits if_splits)

text \<open>What a save that succeeds leaves in the table: the row of the delivery.\<close>

lemma pg_saved_delivery:
  assumes "pg_SaveWebhookDelivery d w = (Inr x, w')"
  obtains ts ts' r where "pg_db w = Some ts" and "pg_db w' = Some ts'" and "schema_ok ts'"
    and "List.find (\<lambda>r. dl_id r = wd_ID d) (tb_webhook_deliveries ts') = Some r"
    and "dl_next_attempt_at r = time_column (pg_par w) (wd_NextAttemptAt d)"
    and "dl_updated_at r = pr_time (pg_par w) (wd_UpdatedAt d)"
    and "\<forall>s \<in> set (tb_webhook_deliveries ts'). dl_id s \<noteq> wd_ID d \<longrightarrow> s \<in> set (tb_webhook_deliveries ts)"
    and "pg_par w' = pg_par w" and "http_log w' = http_log w"
proof -
  from assms obtain model ts row where m: "WebhookDeliveryToModel d = Inr model" "pg_db w = Some ts"
      "delivery_row (pg_par w) model = Inr row"
    and ok: "schema_ok (ts\<lparr>tb_webhook_deliveries := upsert dl_id set_delivery row (tb_webhook_deliveries ts)\<rparr>)"
    and w': "w' = w\<lparr>sql_ix := Suc (sql_ix w),
        pg_db := Some (ts\<lparr>tb_webhook_deliveries := upsert dl_id set_delivery row (tb_webhook_deliveries ts)\<rparr>)\<rparr>"
    by (auto simp: pg_defs WebhookDeliveryStore_SaveWebhookDelivery_def go_bind_Inr_iff sql_exec_Inr
        go_lift_def built_row_iff)
  note row = delivery_row_sel [OF m(1,3)]
  define r where "r = (case List.find (\<lambda>r. dl_id r = wd_ID d) (tb_webhook_deliveries ts) of
     None \<Rightarrow> row | Some old \<Rightarrow> set_delivery row old)"
  have "List.find (\<lambda>r. dl_id r = wd_ID d) (upsert dl_id set_delivery row (tb_webhook_deliveries ts)) = Some r"
    using upsert_find [of dl_id set_delivery row "tb_webhook_deliveries ts"] by (simp add: row r_def)
  moreover have "s \<in> set (tb_webhook_deliveries ts)"
    if "s \<in> set (upsert dl_id set_delivery row (tb_webhook_deliveries ts))" "dl_id s \<noteq> wd_ID d" for s
    using upsert_other [OF that(1)] that(2) row(1) by simp
  moreover have "dl_next_attempt_at r = dl_next_attempt_at row" "dl_updated_at r = dl_updated_at row"
    by (auto simp: r_def split: option.splits)
  ultimately show thesis
    using that [of ts "ts\<lparr>tb_webhook_deliveries := upsert dl_id set_delivery row (tb_webhook_deliveries ts)\<rparr>" r]
      ok w' m(2) row by simp
qed

section \<open>A finished delivery cannot be read\<close>

lemma frames_log [intro, simp, keeps_rules]:
  "frames (http_log :: 'z pg_world_scheme \<Rightarrow> _) (sql_query q)"
  "frames (http_log :: 'z pg_world_scheme \<Rightarrow> _) (sql_exec u)"
  by (auto simp: frames_def sql_query_def sql_exec_def sql_def Let_def split: option.splits sum.splits prod.splits)

definition unscannable :: "webhook_delivery_row \<Rightarrow> bool" where
  "unscannable r \<longleftrightarrow> dl_last_attempt_at r = None \<or> dl_next_attempt_at r = None"

lemma scan_unscannable: "unscannable r \<Longrightarrow> isl (scan_delivery r)"
  by (auto simp: unscannable_def scan_delivery_def split: option.splits)

lemma sql_query_fails:
  assumes "\<And>ts. pg_db w = Some ts \<Longrightarrow> isl (q (pg_par w) ts)"
  shows "isl (fst (sql_query q w))"
  using assms by (auto simp: sql_query_def sql_def Let_def split: option.splits)

lemma pg_get_fails:
  fixes w :: "'z pg_world_scheme"
  assumes db: "pg_db w = Some ts" and r: "List.find (\<lambda>r. dl_id r = k) (tb_webhook_deliveries ts) = Some r"
    and bad: "unscannable r"
  shows "isl (fst (pg_GetWebhookDeliveryByID k w)) \<and> http_log (snd (pg_GetWebhookDeliveryByID k w)) = http_log w \<and>
    pg_db (snd (pg_GetWebhookDeliveryByID k w)) = pg_db w"
proof -
  have "frames (http_log :: 'z pg_world_scheme \<Rightarrow> _) (pg_GetWebhookDeliveryByID k)"
    "frames (pg_db :: 'z pg_world_scheme \<Rightarrow> _) (pg_GetWebhookDeliveryByID k)"
    unfolding pg_defs WebhookDeliveryStore_GetWebhookDeliveryByID_def by (auto intro!: frames_bind)
  moreover have "isl (fst (pg_GetWebhookDeliveryByID k w))"
    using scan_unscannable [OF bad] r db
    by (auto simp: pg_defs WebhookDeliveryStore_GetWebhookDeliveryByID_def go_bind_def row_or_not_found_def
        sql_query_def sql_def Let_def split: option.splits)
  ultimately show ?thesis by (simp add: frames_def)
qed

lemma pg_replay_fails:
  assumes "pg_db w = Some ts" and "List.find (\<lambda>r. dl_id r = k) (tb_webhook_deliveries ts) = Some r"
    and "unscannable r"
  shows "isl (fst (pg_ReplayDelivery k w)) \<and> http_log (snd (pg_ReplayDelivery k w)) = http_log w \<and>
    pg_db (snd (pg_ReplayDelivery k w)) = pg_db w"
proof -
  obtain g w1 where "pg_GetWebhookDeliveryByID k w = (g, w1)" by (cases "pg_GetWebhookDeliveryByID k w")
  with pg_get_fails [OF assms] show ?thesis
    by (cases g) (auto simp: pg_ReplayDelivery_def ReplayDelivery_def go_bind_def)
qed

lemma pg_list_fails:
  fixes w :: "'z pg_world_scheme"
  assumes "\<And>ts. pg_db w = Some ts \<Longrightarrow> \<exists>r \<in> set (take (limit_or 20 limit)
       (order_desc (pg_par w) dl_updated_at dl_id (tb_webhook_deliveries ts))). unscannable r"
  shows "isl (fst (pg_ListWebhookDeliveries limit w)) \<and>
    http_log (snd (pg_ListWebhookDeliveries limit w)) = http_log w \<and>
    pg_db (snd (pg_ListWebhookDeliveries limit w)) = pg_db w"
proof -
  have "frames (http_log :: 'z pg_world_scheme \<Rightarrow> _) (pg_ListWebhookDeliveries limit)"
    "frames (pg_db :: 'z pg_world_scheme \<Rightarrow> _) (pg_ListWebhookDeliveries limit)"
    unfolding pg_defs WebhookDeliveryStore_ListWebhookDeliveries_def by auto
  moreover have "isl (fst (pg_ListWebhookDeliveries limit w))"
    unfolding pg_defs WebhookDeliveryStore_ListWebhookDeliveries_def
    using assms by (intro sql_query_fails) (blast intro: scan_rows_isl scan_unscannable)
  ultimately show ?thesis by (simp add: frames_def)
qed

lemma pg_sweep_fails:
  assumes "\<And>ts. pg_db w = Some ts \<Longrightarrow> \<exists>r \<in> set (take (limit_or 20 limit)
       (order_desc (pg_par w) dl_updated_at dl_id (tb_webhook_deliveries ts))). unscannable r"
  shows "isl (fst (pg_newWebhookRetrySweepService limit w)) \<and>
    http_log (snd (pg_newWebhookRetrySweepService limit w)) = http_log w \<and>
    pg_db (snd (pg_newWebhookRetrySweepService limit w)) = pg_db w"
proof -
  obtain g w1 where "pg_ListWebhookDeliveries limit w = (g, w1)" by (cases "pg_ListWebhookDeliveries limit w")
  with pg_list_fails [OF assms] show ?thesis
    by (cases g) (auto simp: pg_newWebhookRetrySweepService_def RetryDueDeliveries_def go_bind_def)
qed

lemma pg_deliver_Inr:
  assumes "pg_newMessageReceivedDeliveryService url secret bi w = (Inr res, w')"
  obtains w1 where "pg_SaveWebhookDelivery (dv_Delivery res) w1 = (Inr (dv_Delivery res), w')"
    and "wd_ID (dv_Delivery res) = wd_ID (bi_Delivery bi)"
    and "dv_Delivery res = attempted (to_record url (dv_Request res)) (dv_Response res)"
    and "pg_db w1 = pg_db w" and "pg_par w1 = pg_par w"
proof -
  from assms obtain request response w0 w1 x where
    s: "Signer_Sign (Builder_Build bi) secret w = (Inr request, w0)"
    and d: "Dispatcher_Dispatch url request w0 = (Inr response, w1)"
    and r: "RecordAttempt pg_SaveWebhookDelivery (to_record url request) response w1 = (Inr x, w')"
    and res: "res = \<lparr>dv_Request = request, dv_Response = response, dv_Delivery = x\<rparr>"
    by (auto simp: pg_newMessageReceivedDeliveryService_def DeliverAndRecordMessageReceived_def
        DeliverMessageReceived_def go_bind_Inr_iff to_record_def copyHeaders_def)
  have "wq_Delivery request = bi_Delivery bi" "pg_db w0 = pg_db w" "pg_par w0 = pg_par w"
    using s by (auto simp: Signer_Sign_run Builder_Build_def split: if_splits)
  moreover have "pg_db w1 = pg_db w0" "pg_par w1 = pg_par w0"
    using d by (auto simp: Dispatch_run Let_def split: option.splits sum.splits)
  moreover have "x = attempted (to_record url request) response"
    using r by (auto simp: RecordAttempt_def pg_defs WebhookDeliveryStore_SaveWebhookDelivery_def go_bind_Inr_iff)
  ultimately show thesis using r res by (intro that [of w1]) (auto simp: RecordAttempt_def)
qed

lemma pg_replay_Inr:
  assumes "pg_ReplayDelivery k w = (Inr res, w')"
  obtains w1 d where "pg_SaveWebhookDelivery (dv_Delivery res) w1 = (Inr (dv_Delivery res), w')"
    and "dv_Delivery res = attempted d (dv_Response res)"
proof -
  from assms obtain request response d w1 x where
    r: "RecordAttempt pg_SaveWebhookDelivery d response w1 = (Inr x, w')"
    and res: "res = \<lparr>dv_Request = request, dv_Response = response, dv_Delivery = x\<rparr>"
    by (auto simp: pg_ReplayDelivery_def ReplayDelivery_def Let_def go_bind_Inr_iff split: if_splits)
  moreover have "x = attempted d response"
    using r by (auto simp: RecordAttempt_def pg_defs WebhookDeliveryStore_SaveWebhookDelivery_def go_bind_Inr_iff)
  ultimately show thesis by (intro that [of w1 d]) (auto simp: RecordAttempt_def)
qed

section \<open>A row nobody saves again\<close>

definition row_at :: "string \<Rightarrow> webhook_delivery_row \<Rightarrow> 'z pg_world_scheme \<Rightarrow> bool" where
  "row_at d row w \<longleftrightarrow> (\<exists>ts. pg_db w = Some ts \<and> List.find (\<lambda>r. dl_id r = d) (tb_webhook_deliveries ts) = Some row)"

lemma row_at_frames: "frames pg_db m \<Longrightarrow> keeps (row_at d row) m"
  by (auto simp: keeps_def frames_def row_at_def)

lemma row_at_cong: "pg_db w' = pg_db w \<Longrightarrow> row_at d row w' = row_at d row w"
  by (simp add: row_at_def)

lemma upsert_find_other:
  assumes "\<And>old. key (set_row new old) = key old" and "key new \<noteq> k"
  shows "List.find (\<lambda>r. key r = k) (upsert key set_row new rows) = List.find (\<lambda>r. key r = k) rows"
proof -
  have "List.find (\<lambda>r. key r = k) (map (\<lambda>r. if key r = key new then set_row new r else r) rows) =
      List.find (\<lambda>r. key r = k) rows"
    by (induction rows) (use assms in auto)
  moreover have "List.find (\<lambda>r. key r = k) (rows @ [new]) = List.find (\<lambda>r. key r = k) rows"
    by (induction rows) (use assms(2) in auto)
  ultimately show ?thesis by (simp add: upsert_def)
qed

lemma row_at_save:
  assumes "wd_ID x \<noteq> d"
  shows "keeps (row_at d row :: 'z pg_world_scheme \<Rightarrow> bool) (pg_SaveWebhookDelivery x)"
  unfolding keeps_def
proof (intro allI impI)
  fix w :: "'z pg_world_scheme"
  assume row: "row_at d row w"
  then obtain ts where ts: "pg_db w = Some ts" "List.find (\<lambda>r. dl_id r = d) (tb_webhook_deliveries ts) = Some row"
    by (auto simp: row_at_def)
  show "row_at d row (snd (pg_SaveWebhookDelivery x w))"
  proof (cases "WebhookDeliveryToModel x")
    case (Inl e)
    with row show ?thesis by (simp add: pg_defs WebhookDeliveryStore_SaveWebhookDelivery_def go_bind_def)
  next
    case (Inr model)
    let ?u = "\<lambda>p ts. case delivery_row p model of Inl e \<Rightarrow> Inl e
      | Inr row \<Rightarrow> Inr (ts\<lparr>tb_webhook_deliveries := upsert dl_id set_delivery row (tb_webhook_deliveries ts)\<rparr>)"
    obtain r w' where run: "sql_exec ?u w = (r, w')" by (cases "sql_exec ?u w")
    from run ts(1) have "row_at d row w'"
    proof (rule sql_exec_cases)
      fix ts'
      assume "?u (pg_par w) ts = Inr ts'" and "pg_db w' = Some ts'"
      then obtain new where new: "delivery_row (pg_par w) model = Inr new"
        "pg_db w' = Some (ts\<lparr>tb_webhook_deliveries := upsert dl_id set_delivery new (tb_webhook_deliveries ts)\<rparr>)"
        by (auto simp: built_row_iff)
      then show ?thesis
        using ts(2) assms delivery_row_sel(1) [OF Inr new(1)]
          upsert_find_other [of dl_id set_delivery new d "tb_webhook_deliveries ts"]
        by (simp add: row_at_def)
    qed (use row ts in \<open>simp add: row_at_def\<close>)
    with run Inr show ?thesis
      by (cases r) (simp_all add: pg_defs WebhookDeliveryStore_SaveWebhookDelivery_def go_bind_def)
  qed
qed

lemma frames_db_deliveries [intro, simp, keeps_rules]:
  "frames (pg_db :: 'z pg_world_scheme \<Rightarrow> _) (pg_GetWebhookDeliveryByID k)"
  "frames (pg_db :: 'z pg_world_scheme \<Rightarrow> _) (pg_ListWebhookDeliveries limit)"
  "frames (pg_db :: 'z pg_world_scheme \<Rightarrow> _) (Dispatcher_Dispatch url request)"
  "frames (pg_db :: 'z pg_world_scheme \<Rightarrow> _) (Signer_Sign rq secret)"
  unfolding pg_defs WebhookDeliveryStore_GetWebhookDeliveryByID_def WebhookDeliveryStore_ListWebhookDeliveries_def
  by (auto intro!: frames_bind) (auto simp: frames_def Dispatch_run Signer_Sign_run Let_def split: option.splits sum.splits)

lemma pg_got_delivery:
  assumes "pg_GetWebhookDeliveryByID k w = (Inr x, w')"
  shows "wd_ID x = k"
proof -
  from assms obtain ts :: pg_tables and row where "List.find (\<lambda>r. dl_id r = k) (tb_webhook_deliveries ts) = Some row"
    and "scan_delivery row = Inr x"
    by (auto simp: pg_defs WebhookDeliveryStore_GetWebhookDeliveryByID_def go_bind_Inr_iff row_or_not_found_def
        go_lift_def sql_query_Inr split: option.splits)
  from List_find_Some [OF this(1)] this(2) show ?thesis
    by (auto simp: scan_delivery_def WebhookDeliveryFromModel_def split: option.splits sum.splits if_splits)
qed

lemma row_at_announce:
  assumes "wd_ID (bi_Delivery bi) \<noteq> d"
  shows "keeps (row_at d row :: 'z pg_world_scheme \<Rightarrow> bool) (pg_newMessageReceivedDeliveryService url secret bi)"
  unfolding keeps_def
proof (intro allI impI)
  fix w :: "'z pg_world_scheme"
  assume row: "row_at d row w"
  obtain rq w1 where s: "Signer_Sign (Builder_Build bi) secret w = (rq, w1)" by (cases "Signer_Sign (Builder_Build bi) secret w")
  have row1: "row_at d row w1" using row_at_cong [OF framesD [OF frames_db_deliveries(4) s]] row by simp
  show "row_at d row (snd (pg_newMessageReceivedDeliveryService url secret bi w))"
  proof (cases rq)
    case (Inl e)
    with s row1 show ?thesis
      by (simp add: pg_newMessageReceivedDeliveryService_def DeliverAndRecordMessageReceived_def
          DeliverMessageReceived_def go_bind_def)
  next
    case (Inr q)
    have id: "wd_ID (wq_Delivery q) \<noteq> d"
      using s Inr assms by (auto simp: Signer_Sign_run Builder_Build_def split: if_splits)
    obtain rs w2 where ds: "Dispatcher_Dispatch url q w1 = (rs, w2)" by (cases "Dispatcher_Dispatch url q w1")
    have row2: "row_at d row w2" using row_at_cong [OF framesD [OF frames_db_deliveries(3) ds]] row1 by simp
    show ?thesis
    proof (cases rs)
      case (Inl e)
      with s Inr ds row2 show ?thesis
        by (simp add: pg_newMessageReceivedDeliveryService_def DeliverAndRecordMessageReceived_def
            DeliverMessageReceived_def go_bind_def)
    next
      case (Inr response)
      let ?d = "to_record url q"
      obtain y w3 where sv: "pg_SaveWebhookDelivery (attempted ?d response) w2 = (y, w3)"
        by (cases "pg_SaveWebhookDelivery (attempted ?d response) w2")
      have "row_at d row w3"
        by (rule keepsD [OF row_at_save row2 sv]) (simp add: id to_record_def)
      with s \<open>rq = Inr q\<close> ds Inr sv show ?thesis
        by (cases y) (simp_all add: pg_newMessageReceivedDeliveryService_def DeliverAndRecordMessageReceived_def
            DeliverMessageReceived_def go_bind_def RecordAttempt_def to_record_def copyHeaders_def)
    qed
  qed
qed

lemma row_at_replay:
  assumes "unscannable row"
  shows "keeps (row_at d row :: 'z pg_world_scheme \<Rightarrow> bool) (pg_ReplayDelivery k)"
  unfolding keeps_def
proof (intro allI impI)
  fix w :: "'z pg_world_scheme"
  assume row: "row_at d row w"
  show "row_at d row (snd (pg_ReplayDelivery k w))"
  proof (cases "k = d")
    case True
    obtain ts where ts: "pg_db w = Some ts" "List.find (\<lambda>r. dl_id r = d) (tb_webhook_deliveries ts) = Some row"
      using row by (auto simp: row_at_def)
    from pg_replay_fails [OF this assms] ts True show ?thesis by (simp add: row_at_def)
  next
    case False
    obtain g w1 where get: "pg_GetWebhookDeliveryByID k w = (g, w1)" by (cases "pg_GetWebhookDeliveryByID k w")
    have row1: "row_at d row w1" using row_at_cong [OF framesD [OF frames_db_deliveries(1) get]] row by simp
    show ?thesis
    proof (cases g)
      case (Inr x)
      define rest where "rest = (if wd_RequestURL x = [] \<or> length (wd_RequestPayload x) = 0
        then go_fail ErrReplayRequestUnavailable
        else let request = \<lparr>wq_Delivery = x, wq_Payload = wd_RequestPayload x,
                        wq_Headers = copyHeaders (wd_RequestHeaders x)\<rparr>
         in go_bind (Dispatcher_Dispatch (wd_RequestURL x) request) (\<lambda>response.
            go_bind (RecordAttempt pg_SaveWebhookDelivery x response) (\<lambda>recorded.
            (go_ret \<lparr>dv_Request = request, dv_Response = response, dv_Delivery = recorded\<rparr>
              :: ('z pg_world_scheme, delivery_result) go))))"
      have "wd_ID x \<noteq> d" using pg_got_delivery get Inr False by blast
      then have "keeps (row_at d row) rest"
        unfolding rest_def RecordAttempt_def Let_def
        by (intro keeps_rules row_at_save row_at_frames) simp_all
      then have "row_at d row (snd (rest w1))" using row1 by (simp add: keeps_def)
      with get Inr show ?thesis by (simp add: pg_ReplayDelivery_def ReplayDelivery_def go_bind_def rest_def)
    qed (use get row1 in \<open>simp add: pg_ReplayDelivery_def ReplayDelivery_def go_bind_def\<close>)
  qed
qed

lemma row_at_sweep:
  assumes "unscannable row"
  shows "keeps (row_at d row :: 'z pg_world_scheme \<Rightarrow> bool) (pg_newWebhookRetrySweepService limit)"
proof -
  have "keeps (row_at d row :: 'z pg_world_scheme \<Rightarrow> bool) (sweep_loop pg_ReplayDelivery at ds res)" for at ds res
  proof (induction ds arbitrary: res)
    case (Cons x ds)
    then show ?case
      using keeps_try [OF row_at_replay [OF assms]] by (auto simp: Let_def intro!: keeps_bind split: sum.split)
  qed simp
  then show ?thesis
    unfolding pg_newWebhookRetrySweepService_def RetryDueDeliveries_def
    by (intro keeps_bind row_at_frames [where m = "pg_ListWebhookDeliveries limit"] row_at_frames [where m = time_now])
      simp_all
qed

text \<open>
  What the process does to the deliveries other than to save \<open>d\<close>: replays and sweeps, the announcement of a
  message with a delivery id of its own, and everything that leaves that table as it is: every other call of
  the store, and every call without one.
\<close>

inductive delivery_work :: "string \<Rightarrow> 'z pg_world_scheme \<Rightarrow> 'z pg_world_scheme \<Rightarrow> bool" for d where
  replay: "pg_ReplayDelivery k w = (r, w') \<Longrightarrow> delivery_work d w w'"
| sweep: "pg_newWebhookRetrySweepService limit w = (s, w') \<Longrightarrow> delivery_work d w w'"
| announce: "wd_ID (bi_Delivery bi) \<noteq> d \<Longrightarrow>
    pg_newMessageReceivedDeliveryService url secret bi w = (r, w') \<Longrightarrow> delivery_work d w w'"
| elsewhere: "map_option tb_webhook_deliveries (pg_db w') = map_option tb_webhook_deliveries (pg_db w) \<Longrightarrow>
    delivery_work d w w'"

lemma row_at_work:
  assumes "(delivery_work d)\<^sup>*\<^sup>* w w'" and "row_at d row w" and "unscannable row"
  shows "row_at d row w'"
  using assms(1,2)
proof (induction rule: rtranclp_induct)
  case (step y z)
  then have row: "row_at d row y" by simp
  from step.hyps(2) show ?case
  proof cases
    case (replay k r)
    show ?thesis by (rule keepsD [OF row_at_replay [OF assms(3)] row replay])
  next
    case (sweep limit s)
    show ?thesis by (rule keepsD [OF row_at_sweep [OF assms(3)] row sweep])
  next
    case (announce bi url secret r)
    show ?thesis by (rule keepsD [OF row_at_announce [OF announce(1)] row announce(2)])
  next
    case elsewhere
    with row show ?thesis by (auto simp: row_at_def)
  qed
qed simp

text \<open>An operation that fails without a request and without a change of the tables.\<close>

definition refused :: "('z pg_world_scheme, 'a) go \<Rightarrow> 'z pg_world_scheme \<Rightarrow> bool" where
  "refused m w \<longleftrightarrow> isl (fst (m w)) \<and> http_log (snd (m w)) = http_log w \<and> pg_db (snd (m w)) = pg_db w"

text \<open>The sweep with this limit lists the row.\<close>

definition lists_row :: "int \<Rightarrow> webhook_delivery_row \<Rightarrow> 'z pg_world_scheme \<Rightarrow> bool" where
  "lists_row limit row w \<longleftrightarrow> (\<exists>ts. pg_db w = Some ts \<and>
     row \<in> set (take (limit_or 20 limit) (order_desc (pg_par w) dl_updated_at dl_id (tb_webhook_deliveries ts))))"

text \<open>The newest row is listed whatever the limit is.\<close>

lemma newest_listed:
  assumes "pg_db w = Some ts" and "row \<in> set (tb_webhook_deliveries ts)"
    and "\<forall>s \<in> set (tb_webhook_deliveries ts). s \<noteq> row \<longrightarrow> dl_updated_at s < dl_updated_at row"
  shows "lists_row limit row w"
proof (cases "order_desc (pg_par w) dl_updated_at dl_id (tb_webhook_deliveries ts)")
  case Nil
  then have "set (tb_webhook_deliveries ts) = {}" by (metis empty_set set_order_desc)
  with assms(2) show ?thesis by simp
next
  case (Cons m ms)
  note m = order_desc_head [OF Cons]
  then have "m = row" using assms(2,3) by force
  moreover have "0 < limit_or 20 limit" by (simp add: limit_or_def)
  ultimately show ?thesis using Cons assms(1) by (cases "limit_or 20 limit") (auto simp: lists_row_def)
qed

lemma finished_unscannable:
  assumes "d = attempted d0 response" and "ok_status response \<or> wd_Status d = DeliveryStatusDeadLetter"
  shows "time_column p (wd_NextAttemptAt d) = None"
proof -
  have "wd_NextAttemptAt d = 0"
    using assms by (auto simp: attempt_delivery_def ok_status_def Let_def DeliveryStatusRetrying_def
        DeliveryStatusDeadLetter_def split: if_splits)
  then show ?thesis by (simp add: time_column_def nullableTime_def is_zero_time_def)
qed

text \<open>C39: over the SQL store a finished delivery can never be read again. Once an announcement or a replay has
  recorded that the subscriber answered 2xx, or that the delivery is given up, then after any number of replays,
  sweeps, other announcements and calls of the store that do not save this delivery, its row is as it was recorded, and
  to get it and to replay it fail, and so do as a whole the listing and the retry sweep with every limit with
  which the row is among those listed; with every limit, while no other row is as new. None of them sends a
  request or changes a table: a delivery that is due is not retried.\<close>

theorem pg_finished_delivery_blocks:
  assumes "pg_newMessageReceivedDeliveryService url secret bi w0 = (Inr res, w) \<or> pg_ReplayDelivery k w0 = (Inr res, w)"
    and "ok_status (dv_Response res) \<or> wd_Status (dv_Delivery res) = DeliveryStatusDeadLetter"
    and "(delivery_work (wd_ID (dv_Delivery res)))\<^sup>*\<^sup>* w w'"
  shows "\<exists>ts row. row_at (wd_ID (dv_Delivery res)) row w \<and> row_at (wd_ID (dv_Delivery res)) row w' \<and>
    dl_next_attempt_at row = None \<and> pg_db w' = Some ts \<and>
    refused (pg_GetWebhookDeliveryByID (wd_ID (dv_Delivery res))) w' \<and>
    refused (pg_ReplayDelivery (wd_ID (dv_Delivery res))) w' \<and>
    (\<forall>limit. lists_row limit row w' \<or>
        (\<forall>s \<in> set (tb_webhook_deliveries ts). s \<noteq> row \<longrightarrow> dl_updated_at s < dl_updated_at row) \<longrightarrow>
      refused (pg_ListWebhookDeliveries limit) w' \<and> refused (pg_newWebhookRetrySweepService limit) w')"
proof -
  let ?d = "dv_Delivery res"
  obtain w1 d0 where save: "pg_SaveWebhookDelivery ?d w1 = (Inr ?d, w)" and att: "?d = attempted d0 (dv_Response res)"
    using assms(1) by (metis pg_deliver_Inr pg_replay_Inr)
  obtain row where row: "row_at (wd_ID ?d) row w" and null: "dl_next_attempt_at row = None"
    using pg_saved_delivery [OF save] finished_unscannable [OF att assms(2)] unfolding row_at_def by metis
  then have bad: "unscannable row" by (simp add: unscannable_def)
  have row': "row_at (wd_ID ?d) row w'" by (rule row_at_work [OF assms(3) row bad])
  then obtain ts where ts: "pg_db w' = Some ts" "List.find (\<lambda>r. dl_id r = wd_ID ?d) (tb_webhook_deliveries ts) = Some row"
    by (auto simp: row_at_def)
  have listed: "refused (pg_ListWebhookDeliveries limit) w' \<and> refused (pg_newWebhookRetrySweepService limit) w'"
    if "lists_row limit row w'" for limit
    using pg_sweep_fails [of w' limit] pg_list_fails [of w' limit] that ts(1) bad
    unfolding refused_def lists_row_def by auto
  have "lists_row limit row w'"
    if "\<forall>s \<in> set (tb_webhook_deliveries ts). s \<noteq> row \<longrightarrow> dl_updated_at s < dl_updated_at row" for limit
    using newest_listed [OF ts(1) _ that] List_find_Some [OF ts(2)] by simp
  with listed row row' null ts(1) pg_get_fails [OF ts bad] pg_replay_fails [OF ts bad] show ?thesis
    unfolding refused_def by blast
qed

text \<open>Over the SQL store, where a nil \<open>[]byte\<close> is NULL, a subscriber that answers with an empty body is
  never recorded: the delivery fails though the signed request was posted, the table keeps what it had, so
  a replay or a sweep posts it again.\<close>

theorem pg_empty_response_unrecorded:
  assumes "pr_nil_bytes (pg_par w) = None"
    and "\<forall>log q. \<exists>code. http_srv w log q = Inr \<lparr>hp_StatusCode = code, hp_Body = Inr []\<rparr>"
    and "secret \<noteq> []" and "url_check w url = None"
  shows "isl (fst (pg_newMessageReceivedDeliveryService url secret bi w)) \<and>
    pg_db (snd (pg_newMessageReceivedDeliveryService url secret bi w)) = pg_db w \<and>
    (\<exists>q. http_log (snd (pg_newMessageReceivedDeliveryService url secret bi w)) = http_log w @ [q] \<and>
      hq_Method q = ''POST'' \<and> hq_URL q = url \<and> hq_Body q = json_encode (message_received_payload bi))"
proof -
  obtain request w0 where s: "Signer_Sign (Builder_Build bi) secret w = (Inr request, w0)"
    using assms(3) by (simp add: Signer_Sign_run)
  then have w0: "wq_Payload request = json_encode (message_received_payload bi)"
    "pg_db w0 = pg_db w" "pg_par w0 = pg_par w" "http_srv w0 = http_srv w" "url_check w0 = url_check w"
    "http_log w0 = http_log w"
    by (auto simp: Signer_Sign_run Builder_Build_def split: if_splits)
  define q where "q = \<lparr>hq_Method = ''POST'', hq_URL = url,
     hq_Headers = set_headers (iter_src w0 (iter_ix w0)) (wq_Headers request), hq_Body = wq_Payload request\<rparr>"
  obtain code where srv: "http_srv w0 (http_log w0) q = Inr \<lparr>hp_StatusCode = code, hp_Body = Inr []\<rparr>"
    using assms(2) w0 by metis
  define response where "response = \<lparr>wr_StatusCode = code, wr_Body = [], wr_DeliveredAt = clock_src w0 (clock_ix w0)\<rparr>"
  obtain w1 where d: "Dispatcher_Dispatch url request w0 = (Inr response, w1)"
    and w1: "pg_db w1 = pg_db w" "pg_par w1 = pg_par w" "http_log w1 = http_log w @ [q]"
    using srv w0 assms(4) by (simp add: Dispatch_run Let_def q_def response_def)
  let ?save = "pg_SaveWebhookDelivery (attempted (to_record url request) response)"
  have fr: "frames (http_log :: 'a pg_world_scheme \<Rightarrow> _) ?save"
    unfolding pg_defs WebhookDeliveryStore_SaveWebhookDelivery_def by (auto intro!: frames_bind)
  have "isl (fst (?save w1)) \<and> pg_db (snd (?save w1)) = pg_db w1"
  proof -
    have "wd_ResponseBody (attempted (to_record url request) response) = []"
      by (simp add: attempt_delivery_def response_def Let_def)
    then have "isl (delivery_row (pg_par w1) m)"
      if "WebhookDeliveryToModel (attempted (to_record url request) response) = Inr m" for m
      using that assms(1) w1
      by (auto simp: WebhookDeliveryToModel_def Marshal_string_map_def delivery_row_def bytes_column_def
          split: sum.split)
    then have fails: "isl (fst (sql_exec u w1)) \<and> pg_db (snd (sql_exec u w1)) = pg_db w1"
      if "WebhookDeliveryToModel (attempted (to_record url request) response) = Inr m"
        and "u = (\<lambda>p ts. case delivery_row p m of Inl e \<Rightarrow> Inl e
        | Inr row \<Rightarrow> Inr (ts\<lparr>tb_webhook_deliveries := upsert dl_id set_delivery row (tb_webhook_deliveries ts)\<rparr>))"
      for m and u :: "pg_params \<Rightarrow> pg_tables \<Rightarrow> gerr + pg_tables"
      using that by (intro sql_exec_fails) (force simp: isl_def)
    show ?thesis
    proof (cases "WebhookDeliveryToModel (attempted (to_record url request) response)")
      case (Inr m)
      define u :: "pg_params \<Rightarrow> pg_tables \<Rightarrow> gerr + pg_tables" where "u = (\<lambda>p ts. case delivery_row p m of Inl e \<Rightarrow> Inl e
        | Inr row \<Rightarrow> Inr (ts\<lparr>tb_webhook_deliveries := upsert dl_id set_delivery row (tb_webhook_deliveries ts)\<rparr>))"
      from fails [OF Inr u_def] Inr show ?thesis
        by (auto simp: pg_defs WebhookDeliveryStore_SaveWebhookDelivery_def go_bind_def u_def [symmetric] isl_def
            split: prod.splits sum.splits)
    qed (simp add: pg_defs WebhookDeliveryStore_SaveWebhookDelivery_def go_bind_def)
  qed
  then obtain e w2 where save: "?save w1 = (Inl e, w2)" "pg_db w2 = pg_db w"
    using w1 by (cases "?save w1") (auto simp: isl_def)
  with fr w1 have "http_log w2 = http_log w @ [q]" by (metis framesD)
  moreover have "pg_newMessageReceivedDeliveryService url secret bi w = (Inl e, w2)"
    using s d save by (simp add: pg_newMessageReceivedDeliveryService_def DeliverAndRecordMessageReceived_def
        DeliverMessageReceived_def go_bind_def RecordAttempt_def to_record_def copyHeaders_def)
  ultimately show ?thesis using save w0 by (simp add: q_def)
qed

section \<open>What is read back\<close>

text \<open>
  What PostgreSQL documents of \<open>JSONB\<close>: \<open>null\<close> stays \<open>null\<close>, and an object without NUL characters keeps its
  members, in an order of its own.
\<close>

definition no_nul :: "(string \<times> string) list \<Rightarrow> bool" where
  "no_nul fs \<longleftrightarrow> list_all (\<lambda>(k, v). CHR 0x00 \<notin> set k \<and> CHR 0x00 \<notin> set v) fs"

definition documented_jsonb :: "pg_params \<Rightarrow> bool" where
  "documented_jsonb p \<longleftrightarrow>
     (\<exists>s. pr_jsonb p (json_encode JNull) = Inr s \<and> Unmarshal_value s = Inr JNull) \<and>
     (\<forall>fs. distinct (map fst fs) \<and> valid_strings fs \<and> no_nul fs \<longrightarrow>
       (\<exists>s fs'. pr_jsonb p (json_encode (JObject (string_fields fs))) = Inr s \<and>
          Unmarshal_value s = Inr (JObject (string_fields fs')) \<and> set fs' = set fs \<and> distinct (map fst fs')))"

lemma headers_stored:
  assumes "documented_jsonb p" and "gmap_ok m" and "valid_strings m" and "no_nul m"
  shows "\<exists>s headers. pr_jsonb p (json_encode (string_map_json m)) = Inr s \<and>
    (if 0 < length s then Unmarshal_string_map s else Inr []) = Inr headers \<and> map_of headers = map_of m"
proof (cases "m = []")
  case True
  with assms(1) show ?thesis
    by (auto simp: documented_jsonb_def string_map_json_def Unmarshal_string_map_def json_string_map_def)
next
  case False
  let ?fs = "sort_key fst m"
  have "distinct (map fst ?fs)" using assms(2) by (simp add: gmap_ok_def distinct_map inj_on_def)
  moreover have "valid_strings ?fs" "no_nul ?fs"
    using assms(3,4) by (simp_all add: valid_strings_def no_nul_def list_all_iff)
  ultimately obtain s fs' where s: "pr_jsonb p (json_encode (JObject (string_fields ?fs))) = Inr s"
      "Unmarshal_value s = Inr (JObject (string_fields fs'))" and fs': "set fs' = set ?fs" "distinct (map fst fs')"
    using assms(1) unfolding documented_jsonb_def by blast
  have "isl (Unmarshal_value [])" by code_simp
  with s(2) have "s \<noteq> []" by auto
  moreover obtain r where "json_string_map (JObject (string_fields fs')) = Inr r" "map_of r = map_of m"
    using headers_read [OF assms(2) _ fs'(2)] fs'(1) by auto
  moreover have "string_map_json m = JObject (string_fields ?fs)"
    using False by (simp add: string_map_json_def string_fields_def)
  ultimately show ?thesis using s by (auto simp: Unmarshal_string_map_def)
qed

text \<open>C20: a delivery whose attempt is to be retried is read back as it was saved: every column, the times
  to the precision of the database, the headers as the same map; of the first save of its id it keeps the
  time of creation.\<close>

theorem pg_delivery_reads_back:
  assumes "pg_SaveWebhookDelivery d w = (Inr x, w')"
    and "wd_LastAttemptAt d \<noteq> 0" and "wd_NextAttemptAt d \<noteq> 0"
    and "gmap_ok (wd_RequestHeaders d)" and "valid_strings (wd_RequestHeaders d)" and "no_nul (wd_RequestHeaders d)"
    and "documented_jsonb (pg_par w)" and "pr_nil_bytes (pg_par w) \<in> {None, Some []}"
    and "sql_fault w' (sql_ix w') = None"
  shows "\<exists>headers w2. pg_GetWebhookDeliveryByID (wd_ID d) w' = (Inr (d\<lparr>wd_RequestHeaders := headers,
       wd_LastAttemptAt := pr_time (pg_par w) (wd_LastAttemptAt d),
       wd_NextAttemptAt := pr_time (pg_par w) (wd_NextAttemptAt d),
       wd_CreatedAt := (case List.find (\<lambda>r. dl_id r = wd_ID d) (tb_webhook_deliveries (pg_tables_of w)) of
          None \<Rightarrow> pr_time (pg_par w) (wd_CreatedAt d) | Some r \<Rightarrow> dl_created_at r),
       wd_UpdatedAt := pr_time (pg_par w) (wd_UpdatedAt d)\<rparr>), w2) \<and>
     map_of headers = map_of (wd_RequestHeaders d)"
proof -
  let ?p = "pg_par w"
  from headers_stored [OF assms(7,4-6)] obtain s headers where
    s: "pr_jsonb ?p (json_encode (string_map_json (wd_RequestHeaders d))) = Inr s"
    "(if 0 < length s then Unmarshal_string_map s else Inr []) = Inr headers"
    "map_of headers = map_of (wd_RequestHeaders d)" by blast
  from assms(1) obtain model ts row where m: "WebhookDeliveryToModel d = Inr model" "pg_db w = Some ts"
      "delivery_row ?p model = Inr row"
    and w': "w' = w\<lparr>sql_ix := Suc (sql_ix w),
        pg_db := Some (ts\<lparr>tb_webhook_deliveries := upsert dl_id set_delivery row (tb_webhook_deliveries ts)\<rparr>)\<rparr>"
    by (auto simp: pg_defs WebhookDeliveryStore_SaveWebhookDelivery_def go_bind_Inr_iff sql_exec_Inr
        go_lift_def built_row_iff)
  have bytes: "bytes_column ?p b = Inr c \<Longrightarrow> c = b" for b c
    using assms(8) by (auto simp: bytes_column_def split: if_splits option.splits)
  have row: "row = \<lparr>dl_id = wd_ID d, dl_organization_id = wd_OrganizationID d, dl_agent_id = wd_AgentID d,
      dl_event_type = wd_EventType d, dl_event_id = wd_EventID d, dl_request_url = wd_RequestURL d,
      dl_request_payload = wd_RequestPayload d, dl_request_headers = s, dl_status = wd_Status d,
      dl_attempt_count = wd_AttemptCount d, dl_last_attempt_at = Some (pr_time ?p (wd_LastAttemptAt d)),
      dl_next_attempt_at = Some (pr_time ?p (wd_NextAttemptAt d)), dl_response_code = wd_ResponseCode d,
      dl_response_body = wd_ResponseBody d, dl_created_at = pr_time ?p (wd_CreatedAt d),
      dl_updated_at = pr_time ?p (wd_UpdatedAt d)\<rparr>"
    using m(1,3) s(1) assms(2,3)
    by (auto simp: WebhookDeliveryToModel_def Marshal_string_map_def delivery_row_def time_column_def
        nullableTime_def is_zero_time_def dest: bytes split: sum.splits if_splits)
  have "List.find (\<lambda>r. dl_id r = wd_ID d) (upsert dl_id set_delivery row (tb_webhook_deliveries ts)) =
    Some (case List.find (\<lambda>r. dl_id r = wd_ID d) (tb_webhook_deliveries ts) of None \<Rightarrow> row | Some old \<Rightarrow> set_delivery row old)"
    using upsert_find [of dl_id set_delivery row "tb_webhook_deliveries ts"] by (simp add: row)
  moreover have "scan_delivery (case List.find (\<lambda>r. dl_id r = wd_ID d) (tb_webhook_deliveries ts) of
      None \<Rightarrow> row | Some old \<Rightarrow> set_delivery row old) =
    Inr (d\<lparr>wd_RequestHeaders := headers,
       wd_LastAttemptAt := pr_time ?p (wd_LastAttemptAt d), wd_NextAttemptAt := pr_time ?p (wd_NextAttemptAt d),
       wd_CreatedAt := (case List.find (\<lambda>r. dl_id r = wd_ID d) (tb_webhook_deliveries ts) of
          None \<Rightarrow> pr_time ?p (wd_CreatedAt d) | Some r \<Rightarrow> dl_created_at r),
       wd_UpdatedAt := pr_time ?p (wd_UpdatedAt d)\<rparr>)"
  proof (cases "List.find (\<lambda>r. dl_id r = wd_ID d) (tb_webhook_deliveries ts)")
    case None
    with s(2) show ?thesis
      by (cases "s = []") (simp_all add: scan_delivery_def row WebhookDeliveryFromModel_def)
  next
    case (Some old)
    with s(2) List_find_Some [OF Some] show ?thesis
      by (cases "s = []") (simp_all add: scan_delivery_def row set_delivery_def WebhookDeliveryFromModel_def)
  qed
  ultimately show ?thesis
    using s(3) w' m(2) assms(9)
    by (intro exI [of _ headers]) (simp add: pg_defs WebhookDeliveryStore_GetWebhookDeliveryByID_def go_bind_def sql_query_run
        row_or_not_found_def pg_tables_of_def)
qed

section \<open>A concrete delivery\<close>

definition demo_subscriber :: "string \<Rightarrow> pg_world" where
  "demo_subscriber body = (demo_pg (Some demo_tables))
     \<lparr>http_srv := (\<lambda>log q. Inr \<lparr>hp_StatusCode = 200, hp_Body = Inr body\<rparr>)\<rparr>"

lemma demo_subscriber_sel [simp]:
  "pg_db (demo_subscriber b) = Some demo_tables" "pg_par (demo_subscriber b) = demo_params"
  "sql_fault (demo_subscriber b) i = None" "url_check (demo_subscriber b) u = None"
  "http_log (demo_subscriber b) = []" "clock_ix (demo_subscriber b) = 0"
  "clock_src (demo_subscriber b) i = 63903204007000000000 + int i * nanos_per_second"
  "http_srv (demo_subscriber b) log q = Inr \<lparr>hp_StatusCode = 200, hp_Body = Inr b\<rparr>"
  by (simp_all add: demo_subscriber_def)

definition demo_announcement :: build_message_received_input where
  "demo_announcement = demo_build\<lparr>bi_Delivery := (bi_Delivery demo_build)
     \<lparr>wd_OrganizationID := ''org'', wd_AgentID := ''agent''\<rparr>\<rparr>"

lemma demo_announcement_sel [simp]:
  "wd_ID (bi_Delivery demo_announcement) = ''d-new''" "wd_OrganizationID (bi_Delivery demo_announcement) = ''org''"
  "wd_AgentID (bi_Delivery demo_announcement) = ''agent''" "wd_AttemptCount (bi_Delivery demo_announcement) = 0"
  by (simp_all add: demo_announcement_def demo_build_def zero_delivery_def)

lemma demo_recorded_ok: "dl_organization_id r = ''org'' \<Longrightarrow> dl_agent_id r = ''agent'' \<Longrightarrow>
    schema_ok (demo_tables\<lparr>tb_webhook_deliveries := [r]\<rparr>)"
  by (simp add: schema_defs demo_tables_def empty_tables_def Let_def)

lemma demo_deliveries_empty [simp]: "tb_webhook_deliveries demo_tables = []"
  by (simp add: demo_tables_def empty_tables_def)

lemma demo_subscriber_answered:
  "\<exists>res w'. pg_newMessageReceivedDeliveryService ''http://sub/'' ''key'' demo_announcement (demo_subscriber ''ok'') = (Inr res, w') \<and>
     wr_StatusCode (dv_Response res) = 200"
proof -
  have payload: "json_encode (message_received_payload demo_announcement) \<noteq> []"
    by (simp add: message_received_payload_def Let_def)
  show ?thesis
    using payload
    by (simp add: pg_newMessageReceivedDeliveryService_def DeliverAndRecordMessageReceived_def
        DeliverMessageReceived_def go_bind_def Signer_Sign_run Dispatch_run RecordAttempt_def Let_def copyHeaders_def
        Builder_Build_def pg_defs WebhookDeliveryStore_SaveWebhookDelivery_def WebhookDeliveryToModel_def
        Marshal_string_map_def delivery_row_def bytes_column_def attempt_delivery_def int4_def
        sql_exec_def sql_def demo_params_def upsert_def demo_recorded_ok)
qed

text \<open>The subscriber answers 200; a sweep fails, and after it the delivery is still lost.\<close>

theorem pg_finished_delivery_blocks_witness:
  "\<exists>res w x w'. pg_newMessageReceivedDeliveryService ''http://sub/'' ''key'' demo_announcement (demo_subscriber ''ok'') = (Inr res, w) \<and>
     pg_newWebhookRetrySweepService 10 w = (x, w') \<and> refused (pg_ReplayDelivery (wd_ID (dv_Delivery res))) w'"
proof -
  obtain res w where run: "pg_newMessageReceivedDeliveryService ''http://sub/'' ''key'' demo_announcement
      (demo_subscriber ''ok'') = (Inr res, w)" and "wr_StatusCode (dv_Response res) = 200"
    using demo_subscriber_answered by blast
  then have ok: "ok_status (dv_Response res)" by (simp add: ok_status_def)
  obtain x w' where sweep: "pg_newWebhookRetrySweepService 10 w = (x, w')"
    by (cases "pg_newWebhookRetrySweepService 10 w")
  have "(delivery_work (wd_ID (dv_Delivery res)))\<^sup>*\<^sup>* w w'"
    by (rule r_into_rtranclp, rule delivery_work.sweep [OF sweep])
  from pg_finished_delivery_blocks [OF disjI1 [OF run] disjI1 [OF ok] this] run sweep show ?thesis by blast
qed

theorem pg_empty_response_unrecorded_witness:
  "isl (fst (pg_newMessageReceivedDeliveryService ''http://sub/'' ''key'' demo_announcement (demo_subscriber []))) \<and>
   (\<exists>q. http_log (snd (pg_newMessageReceivedDeliveryService ''http://sub/'' ''key'' demo_announcement
     (demo_subscriber []))) = [q] \<and> hq_URL q = ''http://sub/'')"
  using pg_empty_response_unrecorded [of "demo_subscriber []" "''key''" "''http://sub/''" demo_announcement]
  by (auto simp: demo_params_def)

lemma demo_jsonb [simp]: "documented_jsonb demo_params"
proof -
  have "Unmarshal_value (json_encode JNull) = Inr JNull" by code_simp
  then show ?thesis
    unfolding documented_jsonb_def using string_object_read by (auto simp: demo_params_def)
qed

definition demo_retrying :: webhook_delivery where
  "demo_retrying = zero_delivery\<lparr>wd_ID := ''d-1'', wd_OrganizationID := ''org'', wd_AgentID := ''agent'',
     wd_RequestURL := ''http://sub/'', wd_RequestPayload := ''{}'', wd_RequestHeaders := [(''a'', ''1'')],
     wd_Status := DeliveryStatusRetrying, wd_AttemptCount := 1, wd_ResponseCode := 500, wd_ResponseBody := ''no'',
     wd_LastAttemptAt := 5001, wd_NextAttemptAt := 7001\<rparr>"

lemma demo_retrying_sel [simp]:
  "wd_ID demo_retrying = ''d-1''" "wd_OrganizationID demo_retrying = ''org''" "wd_AgentID demo_retrying = ''agent''"
  "wd_RequestPayload demo_retrying = ''{}''" "wd_RequestHeaders demo_retrying = [(''a'', ''1'')]"
  "wd_AttemptCount demo_retrying = 1" "wd_ResponseCode demo_retrying = 500" "wd_ResponseBody demo_retrying = ''no''"
  "wd_LastAttemptAt demo_retrying = 5001" "wd_NextAttemptAt demo_retrying = 7001"
  by (simp_all add: demo_retrying_def)

theorem pg_delivery_reads_back_witness:
  "\<exists>w' got w2. pg_SaveWebhookDelivery demo_retrying (demo_pg (Some demo_tables)) = (Inr demo_retrying, w') \<and>
     pg_GetWebhookDeliveryByID ''d-1'' w' = (Inr got, w2) \<and> wd_NextAttemptAt got = 7000 \<and>
     map_of (wd_RequestHeaders got) ''a'' = Some ''1''"
proof -
  obtain w' where save: "pg_SaveWebhookDelivery demo_retrying (demo_pg (Some demo_tables)) = (Inr demo_retrying, w')"
    and w': "sql_fault w' (sql_ix w') = None"
    by (simp add: pg_defs WebhookDeliveryStore_SaveWebhookDelivery_def WebhookDeliveryToModel_def go_bind_def
        Marshal_string_map_def delivery_row_def bytes_column_def int4_def sql_exec_def sql_def Let_def
        demo_params_def upsert_def demo_recorded_ok)
  have "gmap_ok [(''a'', ''1'')]" "valid_strings [(''a'', ''1'')]" "no_nul [(''a'', ''1'')]"
    by (simp_all add: gmap_ok_def valid_strings_def no_nul_def byte_of_def)
  moreover have "pr_nil_bytes demo_params = None" "pr_time demo_params t = t - t mod 1000" for t
    by (simp_all add: demo_params_def)
  ultimately obtain headers w2 c u where "pg_GetWebhookDeliveryByID ''d-1'' w' = (Inr (demo_retrying
      \<lparr>wd_RequestHeaders := headers, wd_LastAttemptAt := 5000, wd_NextAttemptAt := 7000, wd_CreatedAt := c,
       wd_UpdatedAt := u\<rparr>), w2)" "map_of headers = map_of [(''a'', ''1'')]"
    using pg_delivery_reads_back [OF save] w' by auto
  with save show ?thesis by fastforce
qed

end
