(* ===== verification/Startup.thy ===== *)
theory Startup
  imports Postgres_Deliveries
begin

text \<open>
  How the process gets its store, \<open>newRuntimeStore\<close> of \<open>cmd/agentlayer/main.go\<close>: the database it opens and
  may migrate, or the store in memory, and the records it seeds. What becomes of a second start.
\<close>

section \<open>Opening the store\<close>

text \<open>\<open>PingContext\<close>: a statement that reads nothing.\<close>

definition sql_ping :: "('z pg_world_scheme, unit) go" where
  "sql_ping = (\<lambda>w. (case sql_fault w (sql_ix w) of None \<Rightarrow> Inr () | Some (e, _) \<Rightarrow> Inl (ErrExternal e),
     w\<lparr>sql_ix := Suc (sql_ix w)\<rparr>))"

text \<open>
  The migration is one request without parameters, so one transaction. Its statements create tables
  that may not exist.
\<close>

definition applyV0Schema :: "('z pg_world_scheme, unit) go" where
  "applyV0Schema = (\<lambda>w. let w' = w\<lparr>sql_ix := Suc (sql_ix w)\<rparr> in
     (case sql_fault w (sql_ix w) of
        None \<Rightarrow> (case pg_db w of
            None \<Rightarrow> (Inr (), w'\<lparr>pg_db := Some empty_tables\<rparr>)
          | Some _ \<Rightarrow> (Inl (ErrExternal ''relation already exists''), w'))
      | Some (e, applied) \<Rightarrow> (Inl (ErrExternal e),
          if applied \<and> pg_db w = None then w'\<lparr>pg_db := Some empty_tables\<rparr> else w')))"

datatype 's runtime_store = MemoryRuntime | PostgresRuntime "'s raw_store"

text \<open>
  A panic is an \<open>Inl\<close>. \<open>sql.Open\<close>, whose driver is not under \<open>src/\<close>, is the argument \<open>open_db\<close>: its error
  for a connection string, if it has one; what loads the AWS configuration is \<open>load\<close>.
\<close>

definition newRuntimeStore ::
    "(string \<Rightarrow> gerr option) \<Rightarrow> 'z pg_world_scheme load_s3 \<Rightarrow> getenv \<Rightarrow>
     ('z pg_world_scheme, 'z pg_world_scheme runtime_store) go" where
  "newRuntimeStore open_db load env =
     (if databaseURL env \<noteq> [] then
        go_bind (go_lift (validateRawStoreConfig env)) (\<lambda>_.
        go_bind (go_lift (case open_db (databaseURL env) of None \<Rightarrow> Inr () | Some e \<Rightarrow> Inl e)) (\<lambda>_.
        go_bind sql_ping (\<lambda>_.
        go_bind (if autoMigrateEnabled env then applyV0Schema else go_ret ()) (\<lambda>_.
        go_bind (go_lift (newRawStore load env)) (\<lambda>(rawStore, rawStoreDescription).
        go_bind (seedLocalRuntime pg_SaveOrganization pg_SaveAgent pg_SaveInbox) (\<lambda>_.
        go_ret (PostgresRuntime rawStore)))))))
      else
        go_bind (\<lambda>w. (Inr (), w\<lparr>mem := NewStore\<rparr>)) (\<lambda>_.
        go_bind seedMemoryRuntime (\<lambda>_.
        go_ret MemoryRuntime)))"

section \<open>Migrating twice\<close>

lemma sql_ping_run:
  "sql_ping w = (r, w') \<Longrightarrow> pg_db w' = pg_db w \<and> sql_fault w' = sql_fault w \<and> (r = Inr () \<or> isl r)"
  by (auto simp: sql_ping_def split: option.splits)

lemma applyV0Schema_again: "pg_db w \<noteq> None \<Longrightarrow> isl (fst (applyV0Schema w)) \<and> pg_db (snd (applyV0Schema w)) = pg_db w"
  by (auto simp: applyV0Schema_def Let_def split: option.splits prod.splits)

text \<open>With \<open>AGENTLAYER_AUTO_MIGRATE\<close> the process starts on a database once: on one that has the tables,
  whatever is in them, it panics before it serves, and changes nothing.\<close>

theorem second_migration_panics:
  assumes "databaseURL env \<noteq> []" and "autoMigrateEnabled env" and "pg_db w \<noteq> None"
  shows "isl (fst (newRuntimeStore open_db load env w)) \<and>
    pg_db (snd (newRuntimeStore open_db load env w)) = pg_db w"
proof -
  obtain r w1 where ping: "sql_ping w = (r, w1)" by (cases "sql_ping w")
  obtain u w2 where mig: "applyV0Schema w1 = (u, w2)" by (cases "applyV0Schema w1")
  have "pg_db w1 = pg_db w" using sql_ping_run [OF ping] by simp
  moreover from this have "isl u" "pg_db w2 = pg_db w1"
    using applyV0Schema_again [of w1] mig assms(3) by simp_all
  ultimately show ?thesis
    using assms(1,2) ping mig
    by (cases "validateRawStoreConfig env"; cases "open_db (databaseURL env)"; cases r; cases u)
      (simp_all add: newRuntimeStore_def go_bind_def)
qed

section \<open>The seed over the tables\<close>

lemma upsert_keys:
  assumes "\<And>old. key (set_row new old) = key old"
  shows "key ` set (upsert key set_row new rows) = insert (key new) (key ` set rows)"
proof (cases "list_ex (\<lambda>r. key r = key new) rows")
  case True
  have same: "key (if key r = key new then set_row new r else r) = key r" for r by (simp add: assms)
  have "key ` set (upsert key set_row new rows) = key ` set rows"
    using True by (simp only: upsert_def if_True list.set_map image_image same)
  moreover have "key new \<in> key ` set rows" using True by (auto simp: list_ex_iff) (metis imageI)
  ultimately show ?thesis by blast
qed (simp add: upsert_def)

lemma unique_upsert:
  assumes "\<And>old. key (set_row new old) = key old" and "unique_by key rows"
  shows "unique_by key (upsert key set_row new rows)"
proof -
  have "map key (map (\<lambda>r. if key r = key new then set_row new r else r) rows) = map key rows"
    using assms(1) by simp
  with assms(2) show ?thesis by (auto simp: upsert_def unique_by_def list_ex_iff simp del: map_map)
qed

lemma references_upsert:
  assumes "references col rows key targets" and "col new \<in> key ` set targets"
    and "\<And>old. col (set_row new old) = col new"
  shows "references col (upsert k set_row new rows) key targets"
  using assms by (auto simp: references_def upsert_def list_all_iff)

lemma references_grow: "references col rows key targets \<Longrightarrow> key ` set targets \<subseteq> key ` set targets' \<Longrightarrow>
    references col rows key targets'"
  by (auto simp: references_def list_all_iff)

lemma org_saved_ok:
  assumes "schema_ok ts" and "\<And>new old. org_ID (set_row new old) = org_ID old"
  shows "schema_ok (ts\<lparr>tb_organizations := upsert org_ID set_row new (tb_organizations ts)\<rparr>)"
proof -
  have sub: "org_ID ` set (tb_organizations ts) \<subseteq> org_ID ` set (upsert org_ID set_row new (tb_organizations ts))"
    using upsert_keys [of org_ID set_row new] assms(2) by auto
  have "organization_references (ts\<lparr>tb_organizations := upsert org_ID set_row new (tb_organizations ts)\<rparr>)"
    using assms(1) unfolding schema_ok_def organization_references_def Let_def
    by (auto intro: references_grow [OF _ sub])
  moreover have "unique_by org_ID (upsert org_ID set_row new (tb_organizations ts))"
    using assms by (intro unique_upsert) (simp_all add: schema_ok_def unique_constraints_def)
  ultimately show ?thesis
    using assms(1) by (simp add: schema_ok_def unique_constraints_def record_references_def)
qed

lemma agent_saved_ok:
  assumes "schema_ok ts" and "\<And>new old. agt_ID (set_row new old) = agt_ID old"
    and "\<And>new old. agt_OrganizationID (set_row new old) = agt_OrganizationID new"
    and "agt_OrganizationID new \<in> org_ID ` set (tb_organizations ts)"
  shows "schema_ok (ts\<lparr>tb_agents := upsert agt_ID set_row new (tb_agents ts)\<rparr>)"
proof -
  have sub: "agt_ID ` set (tb_agents ts) \<subseteq> agt_ID ` set (upsert agt_ID set_row new (tb_agents ts))"
    using upsert_keys [of agt_ID set_row new] assms(2) by auto
  have "record_references (ts\<lparr>tb_agents := upsert agt_ID set_row new (tb_agents ts)\<rparr>)"
    using assms(1) unfolding schema_ok_def record_references_def by (auto intro: references_grow [OF _ sub])
  moreover have "unique_by agt_ID (upsert agt_ID set_row new (tb_agents ts))"
    using assms(1,2) by (intro unique_upsert) (simp_all add: schema_ok_def unique_constraints_def)
  moreover have "references agt_OrganizationID (upsert agt_ID set_row new (tb_agents ts)) org_ID (tb_organizations ts)"
    using assms by (intro references_upsert) (simp_all add: schema_ok_def organization_references_def Let_def)
  ultimately show ?thesis
    using assms(1) by (simp add: schema_ok_def unique_constraints_def organization_references_def Let_def)
qed

text \<open>One statement that the constraints allow: what a fault leaves of it, and what it does without one.\<close>

lemma sql_exec_outcome:
  assumes "sql_exec u w = (r, w')" and "pg_db w = Some ts" and "u (pg_par w) ts = Inr ts'" and "schema_ok ts'"
  shows "sql_ix w' = Suc (sql_ix w)" and "sql_fault w' = sql_fault w" and "pg_par w' = pg_par w"
    and "pg_db w' = Some ts \<or> pg_db w' = Some ts'"
    and "sql_fault w (sql_ix w) = None \<Longrightarrow> pg_db w' = Some ts'"
    and "sql_fault w (sql_ix w) = Some (e, False) \<Longrightarrow> pg_db w' = Some ts"
  using assms by (auto simp: sql_exec_def sql_def Let_def split: option.splits if_splits)

lemma pg_org_seeded:
  assumes "pg_SaveOrganization organization w = (r, w')" and "pg_db w = Some ts" and "schema_ok ts"
  obtains ts' where "pg_db w' = Some ts'" and "schema_ok ts'" and "tb_agents ts' = tb_agents ts"
    and "sql_fault w (sql_ix w) = None \<or> o_ID organization \<in> org_ID ` set (tb_organizations ts) \<Longrightarrow>
      o_ID organization \<in> org_ID ` set (tb_organizations ts')"
    and "sql_ix w' = Suc (sql_ix w)" and "sql_fault w' = sql_fault w" and "pg_par w' = pg_par w"
proof -
  let ?set = "\<lambda>new old. old\<lparr>org_Name := org_Name new, org_UpdatedAt := org_UpdatedAt new\<rparr>"
  let ?new = "organization_row (pg_par w) (OrganizationToModel organization)"
  let ?ts = "ts\<lparr>tb_organizations := upsert org_ID ?set ?new (tb_organizations ts)\<rparr>"
  let ?u = "\<lambda>p ts. Inr (ts\<lparr>tb_organizations := upsert org_ID ?set
      (organization_row p (OrganizationToModel organization)) (tb_organizations ts)\<rparr>)"
  have ok: "schema_ok ?ts" using assms(3) by (intro org_saved_ok) simp_all
  obtain r0 where "sql_exec ?u w = (r0, w')"
    using assms(1) by (auto simp: pg_defs BootstrapStore_SaveOrganization_def go_bind_def split: prod.splits sum.splits)
  note out = sql_exec_outcome [OF this assms(2) refl ok]
  have saved: "o_ID organization \<in> org_ID ` set (tb_organizations ?ts)"
    using upsert_keys [of org_ID ?set ?new "tb_organizations ts"]
    by (simp add: organization_row_def OrganizationToModel_def)
  define T where "T = ?ts"
  have T: "schema_ok T" "tb_agents T = tb_agents ts" "o_ID organization \<in> org_ID ` set (tb_organizations T)"
    using ok saved by (simp_all add: T_def)
  note written = out(4,5) [folded T_def]
  from written(1) show thesis
  proof
    assume same: "pg_db w' = Some ts"
    have "o_ID organization \<in> org_ID ` set (tb_organizations ts)"
      if "sql_fault w (sql_ix w) = None \<or> o_ID organization \<in> org_ID ` set (tb_organizations ts)"
      using that written(2) same T(3) by (metis option.inject)
    then show thesis by (rule that [OF same assms(3) refl _ out(1-3)])
  next
    assume "pg_db w' = Some T"
    then show thesis by (rule that [OF _ T out(1-3)])
  qed
qed

lemma pg_agent_seeded:
  assumes "pg_SaveAgent agent w = (r, w')" and "pg_db w = Some ts" and "schema_ok ts"
    and "ag_OrganizationID agent \<in> org_ID ` set (tb_organizations ts)"
  obtains ts' where "pg_db w' = Some ts'" and "schema_ok ts'"
    and "sql_fault w (sql_ix w) = None \<Longrightarrow> \<exists>row. List.find (\<lambda>r. agt_ID r = ag_ID agent) (tb_agents ts') = Some row \<and>
      agt_Name row = ag_Name agent \<and> agt_WebhookURL row = ag_WebhookURL agent \<and> agt_WebhookSecret row = ag_WebhookSecret agent"
proof -
  let ?set = "\<lambda>new old. old\<lparr>agt_OrganizationID := agt_OrganizationID new, agt_Name := agt_Name new,
     agt_Status := agt_Status new, agt_WebhookURL := agt_WebhookURL new,
     agt_WebhookSecret := agt_WebhookSecret new, agt_UpdatedAt := agt_UpdatedAt new\<rparr>"
  let ?new = "agent_row (pg_par w) (AgentToModel agent)"
  let ?ts = "ts\<lparr>tb_agents := upsert agt_ID ?set ?new (tb_agents ts)\<rparr>"
  let ?u = "\<lambda>p ts. Inr (ts\<lparr>tb_agents := upsert agt_ID ?set (agent_row p (AgentToModel agent)) (tb_agents ts)\<rparr>)"
  have sel: "agt_ID ?new = ag_ID agent" "agt_OrganizationID ?new = ag_OrganizationID agent"
    "agt_Name ?new = ag_Name agent" "agt_WebhookURL ?new = ag_WebhookURL agent"
    "agt_WebhookSecret ?new = ag_WebhookSecret agent"
    by (simp_all add: agent_row_def AgentToModel_def)
  have ok: "schema_ok ?ts" using assms(3,4) by (intro agent_saved_ok) (simp_all add: sel)
  obtain r0 where "sql_exec ?u w = (r0, w')"
    using assms(1) by (auto simp: pg_defs BootstrapStore_SaveAgent_def go_bind_def split: prod.splits sum.splits)
  note out = sql_exec_outcome [OF this assms(2) refl ok]
  define row where "row = (case List.find (\<lambda>r. agt_ID r = ag_ID agent) (tb_agents ts) of
     None \<Rightarrow> ?new | Some old \<Rightarrow> ?set ?new old)"
  have found: "List.find (\<lambda>r. agt_ID r = ag_ID agent) (tb_agents ?ts) = Some row"
    using upsert_find [of agt_ID ?set ?new "tb_agents ts"] by (simp add: sel row_def)
  have cols: "agt_Name row = ag_Name agent" "agt_WebhookURL row = ag_WebhookURL agent"
    "agt_WebhookSecret row = ag_WebhookSecret agent"
    by (auto simp: row_def sel split: option.splits)
  define T where "T = ?ts"
  have T: "schema_ok T" "List.find (\<lambda>r. agt_ID r = ag_ID agent) (tb_agents T) = Some row"
    using ok found by (simp_all add: T_def)
  note written = out(4,5) [folded T_def]
  from written(1) show thesis
  proof
    assume same: "pg_db w' = Some ts"
    show thesis by (rule that [OF same assms(3)]) (use written(2) same T(2) cols in \<open>metis option.inject\<close>)
  next
    assume "pg_db w' = Some T"
    then show thesis by (rule that [OF _ T(1)]) (use T(2) cols in blast)
  qed
qed

text \<open>A refused statement changes nothing, whatever it says.\<close>

lemma pg_agent_refused:
  assumes "pg_SaveAgent agent w = (r, w')" and "pg_db w = Some ts" and "sql_fault w (sql_ix w) = Some (e, False)"
  shows "pg_db w' = Some ts"
  using assms
  by (auto simp: pg_defs BootstrapStore_SaveAgent_def go_bind_def sql_exec_def sql_def Let_def
      split: prod.splits sum.splits)

text \<open>Saving an inbox touches no agent, whether it is accepted or not.\<close>

lemma pg_inbox_agents:
  assumes "pg_SaveInbox inbox w = (r, w')" and "pg_db w = Some ts" and "schema_ok ts"
  obtains ts' where "pg_db w' = Some ts'" and "schema_ok ts'" and "tb_agents ts' = tb_agents ts"
  using assms
  by (auto simp: pg_defs BootstrapStore_SaveInbox_def go_bind_def sql_exec_def sql_def Let_def
      split: if_splits option.splits prod.splits sum.splits)

lemma agent_schema_kept:
  assumes "pg_SaveAgent agent w = (r, w')" and "pg_db w = Some ts" and "schema_ok ts"
  obtains ts' where "pg_db w' = Some ts'" and "schema_ok ts'"
  using assms
  by (auto simp: pg_defs BootstrapStore_SaveAgent_def go_bind_def sql_exec_def sql_def Let_def
      split: if_splits option.splits prod.splits sum.splits)

text \<open>The statements of a start on a database that has the tables: the ping, then the three of the seed.\<close>

lemma started_statements:
  assumes "newRuntimeStore open_db load env w = (Inr (PostgresRuntime raw), w')" and "pg_db w = Some ts"
  obtains w1 w2 r1 r2 r3 where
    "pg_SaveOrganization (zero_organization\<lparr>o_ID := ''org-local'', o_Name := ''AgentLayer Local''\<rparr>)
       (w\<lparr>sql_ix := Suc (sql_ix w)\<rparr>) = (r1, w1)"
    and "pg_SaveAgent (zero_agent\<lparr>ag_ID := ''agent-local'', ag_OrganizationID := ''org-local'',
        ag_Name := ''Local Agent'', ag_Status := AgentStatusActive\<rparr>) w1 = (r2, w2)"
    and "pg_SaveInbox (zero_inbox\<lparr>i_ID := ''inbox-local'', i_OrganizationID := ''org-local'',
        i_AgentID := ''agent-local'', i_EmailAddress := ''agent@localhost'', i_Domain := ''localhost'',
        i_DisplayName := ''AgentLayer Local''\<rparr>) w2 = (r3, w')"
proof -
  have url: "databaseURL env \<noteq> []" using assms(1) by (auto simp: newRuntimeStore_def go_bind_Inr_iff)
  have off: "\<not> autoMigrateEnabled env"
    using second_migration_panics [OF url, of w open_db load] assms by auto
  have ping: "sql_ping w = (Inr (), w0) \<Longrightarrow> w0 = w\<lparr>sql_ix := Suc (sql_ix w)\<rparr>" for w0
    by (auto simp: sql_ping_def split: option.splits)
  from assms(1) have "seedLocalRuntime pg_SaveOrganization pg_SaveAgent pg_SaveInbox (w\<lparr>sql_ix := Suc (sql_ix w)\<rparr>) = (Inr (), w')"
    using url off ping by (auto simp: newRuntimeStore_def go_bind_Inr_iff split: prod.splits)
  then show thesis
    by (auto simp: seedLocalRuntime_def go_bind_def go_try_def split: prod.splits intro: that)
qed


section \<open>Concrete starts\<close>

definition start_env :: "string \<Rightarrow> getenv" where
  "start_env migrate = (\<lambda>name. if name = ''AGENTLAYER_DATABASE_URL'' then ''postgres://db''
     else if name = ''AGENTLAYER_AUTO_MIGRATE'' then migrate else [])"

lemma start_env_sel [simp]:
  "databaseURL (start_env m) = ''postgres://db''" "autoMigrateEnabled (start_env m) = (m \<in> {''1'', ''true'', ''TRUE''})"
  "rawStoreType (start_env m) = ''fs''" "validateRawStoreConfig (start_env m) = Inr ()"
  by (simp_all add: start_env_def databaseURL_def autoMigrateEnabled_def rawStoreType_def env_or_def
      validateRawStoreConfig_def)

lemma seed_returns: "\<exists>w'. seedLocalRuntime a b c w = (Inr (), w')"
  by (simp add: seedLocalRuntime_def go_bind_def go_try_def split: prod.split)

lemma frames_none_db [simp]:
  "frames (\<lambda>w. pg_db (w :: 'z pg_world_scheme) = None) (pg_SaveOrganization o1)"
  "frames (\<lambda>w. pg_db (w :: 'z pg_world_scheme) = None) (pg_SaveAgent a)"
  "frames (\<lambda>w. pg_db (w :: 'z pg_world_scheme) = None) (pg_SaveInbox i)"
  by (auto simp: frames_def pg_defs BootstrapStore_SaveOrganization_def BootstrapStore_SaveAgent_def
      BootstrapStore_SaveInbox_def go_bind_def sql_exec_def sql_def Let_def
      split: option.splits sum.splits prod.splits if_splits)

lemma seed_keeps_tables:
  assumes "seedLocalRuntime pg_SaveOrganization pg_SaveAgent pg_SaveInbox w = (r, w')"
  shows "(pg_db (w' :: 'z pg_world_scheme) = None) = (pg_db w = None)"
proof -
  have "frames (\<lambda>w. pg_db (w :: 'z pg_world_scheme) = None)
      (seedLocalRuntime pg_SaveOrganization pg_SaveAgent pg_SaveInbox)"
    unfolding seedLocalRuntime_def by (auto intro!: frames_bind frames_try)
  then show ?thesis using assms by (rule framesD)
qed

definition no_s3 :: "'s load_s3" where
  "no_s3 = (\<lambda>region keys path_style endpoint. Inl (ErrExternal ''no credentials''))"

lemma first_start:
  "\<exists>store w'. newRuntimeStore (\<lambda>u. None) no_s3 (start_env ''1'') (demo_pg None) = (Inr store, w') \<and> pg_db w' \<noteq> None"
proof -
  obtain w0 where w0: "sql_ping (demo_pg None) = (Inr (), w0)" "pg_db w0 = None" "\<And>i. sql_fault w0 i = None"
    by (simp add: sql_ping_def)
  obtain w1 where w1: "applyV0Schema w0 = (Inr (), w1)" "pg_db w1 = Some empty_tables"
    using w0 by (simp add: applyV0Schema_def Let_def)
  obtain w2 where w2: "seedLocalRuntime pg_SaveOrganization pg_SaveAgent pg_SaveInbox w1 = (Inr (), w2)"
    using seed_returns [of pg_SaveOrganization pg_SaveAgent pg_SaveInbox w1] by blast
  with seed_keeps_tables [OF w2] w1 w0(1) show ?thesis
    by (simp add: newRuntimeStore_def go_bind_def newRawStore_def)
qed

theorem second_migration_panics_witness:
  "\<exists>store w'. newRuntimeStore (\<lambda>u. None) no_s3 (start_env ''1'') (demo_pg None) = (Inr store, w') \<and>
     isl (fst (newRuntimeStore (\<lambda>u. None) no_s3 (start_env ''1'') w'))"
  using first_start second_migration_panics [of "start_env ''1''" _ "\<lambda>u. None" no_s3] by fastforce

text \<open>A database on which a bootstrap gave the local agent a webhook.\<close>

definition bootstrapped_tables :: pg_tables where
  "bootstrapped_tables = demo_tables\<lparr>tb_agents := tb_agents demo_tables @
     [\<lparr>agt_ID = ''agent-local'', agt_OrganizationID = ''org'', agt_Name = ''Support'', agt_Status = ''active'',
       agt_WebhookURL = ''http://hook'', agt_WebhookSecret = ''key'', agt_CreatedAt = 0, agt_UpdatedAt = 0\<rparr>]\<rparr>"


end
