(* ===== verification/Postgres_History.thy ===== *)
theory Postgres_History
  imports Startup
begin

text \<open>
  The database over the life of the process: the steps that the calls of the runtime store make, and what
  stays true along every sequence of them.
\<close>

section \<open>Tables that only grow\<close>

text \<open>
  What identifies the rows of every table: the primary key, except for contacts and suppressed addresses.
  Their primary key is \<open>id\<close>, but \<open>UpsertByEmail\<close> and \<open>SuppressionStore.Save\<close> overwrite the id of the row
  in conflict; what stays is the key of the conflict, the organization and the address, which is
  unique as well.
\<close>

record table_keys =
  ky_organizations :: "string set"
  ky_agents :: "string set"
  ky_inboxes :: "string set"
  ky_contacts :: "(string \<times> string) set"
  ky_threads :: "string set"
  ky_messages :: "string set"
  ky_reply_submissions :: "string set"
  ky_contact_memory :: "string set"
  ky_inbound_receipts :: "string set"
  ky_webhook_deliveries :: "string set"
  ky_suppressed_addresses :: "(string \<times> string) set"

definition keys_of :: "pg_tables \<Rightarrow> table_keys" where
  "keys_of ts = \<lparr>ky_organizations = org_ID ` set (tb_organizations ts), ky_agents = agt_ID ` set (tb_agents ts),
     ky_inboxes = ibx_ID ` set (tb_inboxes ts),
     ky_contacts = (\<lambda>r. (con_OrganizationID r, con_EmailAddress r)) ` set (tb_contacts ts),
     ky_threads = thr_ID ` set (tb_threads ts), ky_messages = mr_id ` set (tb_messages ts),
     ky_reply_submissions = rp_submission_key ` set (tb_reply_submissions ts),
     ky_contact_memory = my_id ` set (tb_contact_memory ts),
     ky_inbound_receipts = rx_raw_message_object_key ` set (tb_inbound_receipts ts),
     ky_webhook_deliveries = dl_id ` set (tb_webhook_deliveries ts),
     ky_suppressed_addresses = (\<lambda>r. (sup_OrganizationID r, sup_EmailAddress r)) ` set (tb_suppressed_addresses ts)\<rparr>"

definition within :: "table_keys \<Rightarrow> table_keys \<Rightarrow> bool" where
  "within k k' \<longleftrightarrow> ky_organizations k \<subseteq> ky_organizations k' \<and> ky_agents k \<subseteq> ky_agents k' \<and>
     ky_inboxes k \<subseteq> ky_inboxes k' \<and> ky_contacts k \<subseteq> ky_contacts k' \<and> ky_threads k \<subseteq> ky_threads k' \<and>
     ky_messages k \<subseteq> ky_messages k' \<and> ky_reply_submissions k \<subseteq> ky_reply_submissions k' \<and>
     ky_contact_memory k \<subseteq> ky_contact_memory k' \<and> ky_inbound_receipts k \<subseteq> ky_inbound_receipts k' \<and>
     ky_webhook_deliveries k \<subseteq> ky_webhook_deliveries k' \<and>
     ky_suppressed_addresses k \<subseteq> ky_suppressed_addresses k'"

lemma within_refl [simp, intro]: "within k k"
  by (simp add: within_def)

lemma within_trans: "within k l \<Longrightarrow> within l m \<Longrightarrow> within k m"
  unfolding within_def by (elim conjE, intro conjI) (erule (1) subset_trans)+

text \<open>The number of rows of every table.\<close>

definition row_counts :: "pg_tables \<Rightarrow> nat list" where
  "row_counts ts = [length (tb_organizations ts), length (tb_agents ts), length (tb_inboxes ts),
     length (tb_contacts ts), length (tb_threads ts), length (tb_messages ts), length (tb_reply_submissions ts),
     length (tb_contact_memory ts), length (tb_inbound_receipts ts), length (tb_webhook_deliveries ts),
     length (tb_suppressed_addresses ts)]"

lemma unique_counts:
  assumes "unique_by k rows" and "k ` set rows \<subseteq> k ` set rows'"
  shows "length rows \<le> length rows'"
proof -
  have "length rows = card (k ` set rows)"
    using assms(1) distinct_card [of "map k rows"] by (simp add: unique_by_def)
  also have "\<dots> \<le> card (k ` set rows')" using assms(2) by (intro card_mono) simp_all
  also have "\<dots> \<le> length rows'" by (metis card_length length_map list.set_map)
  finally show ?thesis .
qed

lemma within_counts:
  assumes "schema_ok ts" and "within (keys_of ts) (keys_of ts')"
  shows "list_all2 (\<le>) (row_counts ts) (row_counts ts')"
  using assms
  by (auto simp: row_counts_def schema_ok_def unique_constraints_def within_def keys_of_def intro: unique_counts)

text \<open>A call that keeps the constraints and every key.\<close>

definition grows :: "('z pg_world_scheme, 'a) go \<Rightarrow> bool" where
  "grows m \<longleftrightarrow> (\<forall>w ts r w'. pg_db w = Some ts \<longrightarrow> schema_ok ts \<longrightarrow> m w = (r, w') \<longrightarrow>
     (\<exists>ts'. pg_db w' = Some ts' \<and> schema_ok ts' \<and> within (keys_of ts) (keys_of ts')))"

lemma growsD: "grows m \<Longrightarrow> m w = (r, w') \<Longrightarrow> pg_db w = Some ts \<Longrightarrow> schema_ok ts \<Longrightarrow>
    \<exists>ts'. pg_db w' = Some ts' \<and> schema_ok ts' \<and> within (keys_of ts) (keys_of ts')"
  unfolding grows_def by blast

lemma grows_frames: "frames pg_db m \<Longrightarrow> grows m"
  unfolding grows_def by (metis framesD within_refl)

lemma grows_bind:
  assumes "grows m" and "\<And>x. grows (f x)"
  shows "grows (go_bind m f)"
  unfolding grows_def
proof (intro allI impI)
  fix w ts r w'
  assume a: "pg_db w = Some ts" "schema_ok ts" "go_bind m f w = (r, w')"
  obtain x w1 where m: "m w = (x, w1)" by (cases "m w")
  from growsD [OF assms(1) m a(1,2)] obtain ts1 where
    t1: "pg_db w1 = Some ts1" "schema_ok ts1" "within (keys_of ts) (keys_of ts1)" by blast
  show "\<exists>ts'. pg_db w' = Some ts' \<and> schema_ok ts' \<and> within (keys_of ts) (keys_of ts')"
  proof (cases x)
    case (Inl e)
    with a(3) m t1 show ?thesis by (auto simp: go_bind_def)
  next
    case (Inr y)
    with a(3) m have "f y w1 = (r, w')" by (simp add: go_bind_def)
    from growsD [OF assms(2) this t1(1,2)] t1(3) show ?thesis by (blast intro: within_trans)
  qed
qed

lemma grows_exec:
  assumes "\<And>p ts ts'. u p ts = Inr ts' \<Longrightarrow> within (keys_of ts) (keys_of ts')"
  shows "grows (sql_exec u)"
  unfolding grows_def
proof (intro allI impI)
  fix w ts r w'
  assume a: "pg_db w = Some ts" "schema_ok ts" "sql_exec u w = (r, w')"
  from a(3,1) show "\<exists>ts'. pg_db w' = Some ts' \<and> schema_ok ts' \<and> within (keys_of ts) (keys_of ts')"
    by (rule sql_exec_cases) (use a(2) assms in auto)
qed

lemma upsert_grows: "(\<And>old. key (set_row new old) = key old) \<Longrightarrow> key ` set rows \<subseteq> key ` set (upsert key set_row new rows)"
  using upsert_keys [of key set_row new rows] by auto

lemmas write_defs = pg_defs BootstrapStore_SaveOrganization_def BootstrapStore_SaveAgent_def
  BootstrapStore_SaveInbox_def InboundReceiptStore_SaveInboundReceipt_def ContactStore_UpsertByEmail_def
  ThreadStore_Save_def MessageStore_Create_def MessageStore_Save_def MessageStore_SaveReplySubmission_def
  ContactMemoryStore_CreateMemory_def SuppressionStore_Save_def WebhookDeliveryStore_SaveWebhookDelivery_def

lemma frames_contact [simp]: "frames (pg_db :: 'z pg_world_scheme \<Rightarrow> _) (ContactStore_GetContactByID k)"
  unfolding ContactStore_GetContactByID_def by (auto intro!: frames_bind)

lemma grows_writes:
  "grows (pg_SaveOrganization organization)" "grows (pg_SaveAgent agent)" "grows (pg_SaveInbox inbox)"
  "grows (pg_SaveInboundReceipt receipt)" "grows (pg_UpsertByEmail contact)" "grows (pg_Save thread)"
  "grows (pg_Create message)" "grows (pg_SaveMessage message)" "grows (pg_SaveReplySubmission key messageID)"
  "grows (pg_CreateMemory entry)" "grows (pg_SaveSuppression address)" "grows (pg_SaveWebhookDelivery delivery)"
  unfolding write_defs
  by (intro grows_bind grows_exec grows_frames frames_ret frames_lift frames_contact frames_db_env;
      force simp: within_def keys_of_def set_message_def set_delivery_def built_row_iff
        intro!: upsert_grows [THEN subsetD])+

text \<open>The other calls leave the deliveries as they are: for C39 they happen elsewhere.\<close>

definition deliveries_of :: "'z pg_world_scheme \<Rightarrow> webhook_delivery_row list option" where
  "deliveries_of w = map_option tb_webhook_deliveries (pg_db w)"

lemma deliveries_exec:
  assumes "\<And>p ts ts'. u p ts = Inr ts' \<Longrightarrow> tb_webhook_deliveries ts' = tb_webhook_deliveries ts"
  shows "frames (deliveries_of :: 'z pg_world_scheme \<Rightarrow> _) (sql_exec u)"
  using assms
  by (auto simp: frames_def deliveries_of_def sql_exec_def sql_def Let_def split: option.splits sum.splits prod.splits if_splits)

lemma deliveries_frames: "frames pg_db m \<Longrightarrow> frames deliveries_of m"
  by (simp add: frames_def deliveries_of_def)

lemma writes_elsewhere:
  "frames deliveries_of (pg_SaveOrganization organization)" "frames deliveries_of (pg_SaveAgent agent)"
  "frames deliveries_of (pg_SaveInbox inbox)" "frames deliveries_of (pg_SaveInboundReceipt receipt)"
  "frames deliveries_of (pg_UpsertByEmail contact)" "frames deliveries_of (pg_Save thread)"
  "frames deliveries_of (pg_Create message)" "frames deliveries_of (pg_SaveMessage message)"
  "frames deliveries_of (pg_SaveReplySubmission key messageID)" "frames deliveries_of (pg_CreateMemory entry)"
  "frames deliveries_of (pg_SaveSuppression address)"
  unfolding write_defs
  by (intro frames_bind deliveries_exec deliveries_frames [OF frames_contact] deliveries_frames [OF frames_db_env(1)]
      deliveries_frames [OF frames_db_env(2)] frames_ret frames_lift; auto simp: built_row_iff)+

lemma elsewhere_work: "frames deliveries_of m \<Longrightarrow> m w = (r, w') \<Longrightarrow> delivery_work d w w'"
  by (rule delivery_work.elsewhere) (drule (1) framesD, simp add: deliveries_of_def)

section \<open>Steps\<close>

text \<open>
  One step is one call that writes, or anything that leaves the tables as they are: a read, the clock, the
  network, the files, another statement of the migrated process.
\<close>

inductive pg_step :: "'z pg_world_scheme \<Rightarrow> 'z pg_world_scheme \<Rightarrow> bool" where
  save_organization: "pg_SaveOrganization organization w = (r, w') \<Longrightarrow> pg_step w w'"
| save_agent: "pg_SaveAgent agent w = (r, w') \<Longrightarrow> pg_step w w'"
| save_inbox: "pg_SaveInbox inbox w = (r, w') \<Longrightarrow> pg_step w w'"
| save_receipt: "pg_SaveInboundReceipt receipt w = (r, w') \<Longrightarrow> pg_step w w'"
| upsert_contact: "pg_UpsertByEmail contact w = (r, w') \<Longrightarrow> pg_step w w'"
| save_thread: "pg_Save thread w = (r, w') \<Longrightarrow> pg_step w w'"
| create_message: "pg_Create message w = (r, w') \<Longrightarrow> pg_step w w'"
| save_message: "pg_SaveMessage message w = (r, w') \<Longrightarrow> pg_step w w'"
| save_submission: "pg_SaveReplySubmission key messageID w = (r, w') \<Longrightarrow> pg_step w w'"
| create_memory: "pg_CreateMemory entry w = (r, w') \<Longrightarrow> pg_step w w'"
| save_suppression: "pg_SaveSuppression address w = (r, w') \<Longrightarrow> pg_step w w'"
| save_delivery: "pg_SaveWebhookDelivery delivery w = (r, w') \<Longrightarrow> pg_step w w'"
| no_write: "pg_db w' = pg_db w \<Longrightarrow> pg_step w w'"

lemma pg_step_grows:
  assumes "pg_step w w'" and "pg_db w = Some ts" and "schema_ok ts"
  shows "\<exists>ts'. pg_db w' = Some ts' \<and> schema_ok ts' \<and> within (keys_of ts) (keys_of ts')"
  using assms
proof cases
  case no_write
  with assms(2,3) show ?thesis by auto
qed (use assms(2,3) in \<open>blast dest: grows_writes [THEN growsD]\<close>)+

lemma pg_steps_grow:
  assumes "pg_step\<^sup>*\<^sup>* w w'" and "pg_db w = Some ts" and "schema_ok ts"
  shows "\<exists>ts'. pg_db w' = Some ts' \<and> schema_ok ts' \<and> within (keys_of ts) (keys_of ts')"
  using assms
proof (induction rule: rtranclp_induct)
  case (step w1 w2)
  then obtain ts1 where "pg_db w1 = Some ts1" "schema_ok ts1" "within (keys_of ts) (keys_of ts1)" by blast
  with pg_step_grows [OF step.hyps(2)] show ?case by (blast intro: within_trans)
qed auto

section \<open>What stays\<close>

text \<open>C19: whatever sequence of store calls the process makes on a migrated database, refused ones included, the
  constraints of the schema hold after it and no row is lost: every organization, agent, inbox, thread, message,
  submission, memory entry, receipt and delivery that was there still is, by its primary key, and
  every contact and suppressed address by its organization and address (the upserts of these two may
  have given the row another id); no table has fewer rows.\<close>

theorem pg_rows_kept:
  assumes "pg_db w = Some ts" and "schema_ok ts" and "pg_step\<^sup>*\<^sup>* w w'"
  shows "\<exists>ts'. pg_db w' = Some ts' \<and> schema_ok ts' \<and> within (keys_of ts) (keys_of ts') \<and>
    list_all2 (\<le>) (row_counts ts) (row_counts ts')"
  using pg_steps_grow [OF assms(3,1,2)] within_counts [OF assms(2)] by blast

lemma pg_saved_suppression:
  assumes "pg_SaveSuppression address w = (Inr x, w1)"
  obtains ts where "pg_db w1 = Some ts" and "schema_ok ts"
    and "(sa_OrganizationID address, sa_EmailAddress address) \<in> ky_suppressed_addresses (keys_of ts)"
proof -
  let ?key = "\<lambda>r. (sup_OrganizationID r, sup_EmailAddress r)"
  let ?set = "\<lambda>new old. old\<lparr>sup_ID := sup_ID new, sup_Reason := sup_Reason new, sup_Source := sup_Source new,
     sup_UpdatedAt := sup_UpdatedAt new\<rparr>"
  let ?new = "suppression_row (pg_par w) (SuppressedAddressToModel address)"
  from assms obtain ts where w1: "pg_db w1 = Some (ts\<lparr>tb_suppressed_addresses :=
      upsert ?key ?set ?new (tb_suppressed_addresses ts)\<rparr>)"
    and ok: "schema_ok (ts\<lparr>tb_suppressed_addresses := upsert ?key ?set ?new (tb_suppressed_addresses ts)\<rparr>)"
    by (auto simp: pg_defs SuppressionStore_Save_def go_bind_Inr_iff sql_exec_Inr)
  have "?key ?new \<in> ?key ` set (upsert ?key ?set ?new (tb_suppressed_addresses ts))"
    using upsert_keys [of ?key ?set ?new "tb_suppressed_addresses ts"] by simp
  then have "(sa_OrganizationID address, sa_EmailAddress address) \<in>
      ?key ` set (upsert ?key ?set ?new (tb_suppressed_addresses ts))"
    by (simp add: suppression_row_def SuppressedAddressToModel_def)
  then show thesis by (intro that [OF w1 ok]) (simp add: keys_of_def)
qed

lemma pg_IsSuppressed_run:
  assumes "pg_db w = Some ts" and "(org, e) \<in> ky_suppressed_addresses (keys_of ts)"
    and "sql_fault w (sql_ix w) = None"
  shows "fst (pg_IsSuppressed org e w) = Inr True"
  using assms by (auto simp: pg_defs SuppressionStore_IsSuppressed_def sql_query_run keys_of_def list_ex_iff)

text \<open>C21: an address once suppressed stays suppressed over the SQL store: after any sequence of store calls a
  reply to it in that organization is refused as suppressed, unless the check itself fails.\<close>

theorem pg_suppression_permanent:
  assumes "pg_SaveSuppression address w = (Inr x, w1)" and "pg_step\<^sup>*\<^sup>* w1 w2"
    and "sql_fault w2 (sql_ix w2) = None"
    and "o_ID (si_Organization input) = sa_OrganizationID address"
    and "c_EmailAddress (si_Contact input) = sa_EmailAddress address"
  shows "fst (pg_IsSuppressed (sa_OrganizationID address) (sa_EmailAddress address) w2) = Inr True \<and>
    fst (SendReply (pg_newReplyService raw provider) input w2) = Inl ErrRecipientSuppressed"
proof -
  from pg_saved_suppression [OF assms(1)] obtain ts where
    ts: "pg_db w1 = Some ts" "schema_ok ts"
      "(sa_OrganizationID address, sa_EmailAddress address) \<in> ky_suppressed_addresses (keys_of ts)" .
  from pg_steps_grow [OF assms(2) ts(1,2)] obtain ts' where
    ts': "pg_db w2 = Some ts'" "within (keys_of ts) (keys_of ts')" by blast
  have "(sa_OrganizationID address, sa_EmailAddress address) \<in> ky_suppressed_addresses (keys_of ts')"
    using ts(3) ts'(2) by (auto simp: within_def)
  from pg_IsSuppressed_run [OF ts'(1) this assms(3)] obtain w3 where
    "pg_IsSuppressed (sa_OrganizationID address) (sa_EmailAddress address) w2 = (Inr True, w3)"
    by (metis prod.collapse)
  then show ?thesis by (simp add: SendReply_def pg_newReplyService_def go_bind_def assms(4,5))
qed

section \<open>A concrete history\<close>

definition demo_suppression :: suppressed_address where
  "demo_suppression = \<lparr>sa_ID = ''suppression-1'', sa_OrganizationID = ''org'', sa_EmailAddress = ''ada@x'',
     sa_Reason = ''hard_bounce'', sa_Source = ''outbound_callback'', sa_CreatedAt = 0, sa_UpdatedAt = 0\<rparr>"

lemma demo_suppressed:
  "\<exists>w1. pg_SaveSuppression demo_suppression (demo_pg (Some demo_tables)) = (Inr demo_suppression, w1) \<and>
     (\<forall>i. sql_fault w1 i = None)"
  by (simp add: pg_defs SuppressionStore_Save_def go_bind_def sql_exec_def sql_def Let_def schema_defs upsert_def
      suppression_row_def SuppressedAddressToModel_def demo_suppression_def demo_tables_def empty_tables_def)

theorem pg_rows_kept_witness:
  "\<exists>w' ts'. pg_SaveSuppression demo_suppression (demo_pg (Some demo_tables)) = (Inr demo_suppression, w') \<and>
     pg_db w' = Some ts' \<and> schema_ok ts' \<and> ''thread-1'' \<in> thr_ID ` set (tb_threads ts')"
proof -
  obtain w1 where run: "pg_SaveSuppression demo_suppression (demo_pg (Some demo_tables)) = (Inr demo_suppression, w1)"
    using demo_suppressed by blast
  then have "pg_step\<^sup>*\<^sup>* (demo_pg (Some demo_tables)) w1" by (blast intro: pg_step.save_suppression)
  from pg_rows_kept [OF _ demo_tables_ok this] obtain ts' where
    "pg_db w1 = Some ts'" "schema_ok ts'" "within (keys_of demo_tables) (keys_of ts')" by auto
  moreover from this have "''thread-1'' \<in> thr_ID ` set (tb_threads ts')"
    by (auto simp: within_def keys_of_def demo_tables_def)
  ultimately show ?thesis using run by blast
qed

theorem pg_suppression_permanent_witness:
  "\<exists>w1 w2. pg_SaveSuppression demo_suppression (demo_pg (Some demo_tables)) = (Inr demo_suppression, w1) \<and>
     fst (pg_IsSuppressed ''org'' ''ada@x'' w2) = Inr True \<and>
     (\<exists>r. pg_SaveSuppression (demo_suppression\<lparr>sa_Reason := ''complaint''\<rparr>) w1 = (r, w2))"
proof -
  obtain w1 where run: "pg_SaveSuppression demo_suppression (demo_pg (Some demo_tables)) = (Inr demo_suppression, w1)"
    and nf: "\<And>i. sql_fault w1 i = None"
    using demo_suppressed by blast
  obtain r w2 where again: "pg_SaveSuppression (demo_suppression\<lparr>sa_Reason := ''complaint''\<rparr>) w1 = (r, w2)"
    by (cases "pg_SaveSuppression (demo_suppression\<lparr>sa_Reason := ''complaint''\<rparr>) w1")
  have "frames (sql_fault :: pg_world \<Rightarrow> _) (pg_SaveSuppression (demo_suppression\<lparr>sa_Reason := ''complaint''\<rparr>))"
    unfolding write_defs by (auto intro!: frames_bind)
  from this again have "sql_fault w2 = sql_fault w1" by (rule framesD)
  then have "sql_fault w2 (sql_ix w2) = None" using nf by simp
  moreover have "pg_step\<^sup>*\<^sup>* w1 w2" using again by (blast intro: pg_step.save_suppression)
  ultimately have "fst (pg_IsSuppressed ''org'' ''ada@x'' w2) = Inr True"
    using pg_suppression_permanent [OF run, of w2 "\<lparr>si_Organization = zero_organization\<lparr>o_ID := ''org''\<rparr>,
      si_Agent = zero_agent, si_Inbox = zero_inbox, si_Thread = zero_thread, si_ReplyToMessage = zero_message,
      si_Contact = zero_contact\<lparr>c_EmailAddress := ''ada@x''\<rparr>, si_BodyText = [], si_ObjectKey = [],
      si_IdempotencyKey = []\<rparr>" "blobfs_NewStore []" dev_provider]
    by (simp add: demo_suppression_def)
  with run again show ?thesis by blast
qed

end
