(* ===== verification/Control_Tool.thy ===== *)
theory Control_Tool
  imports Server Store_Models
begin

text \<open>
  \<open>cmd/agentlayerctl\<close>: the command line tool. Written out of the standard library are the package \<open>flag\<close>, with
  the integers of \<open>strconv.ParseInt\<close> in base 0, \<open>fmt.Sscanf\<close> of one \<open>%d\<close>. What the tool
  prints is kept, except for the text on standard error.
\<close>

section \<open>Integers of flags\<close>

text \<open>\<open>strconv.underscoreOK\<close>: an underscore stands between two digits; a base prefix counts as a digit.\<close>

datatype underscore_saw = Saw_Start | Saw_Digit | Saw_Underscore | Saw_Other

definition is_hex_letter :: "char \<Rightarrow> bool" where
  "is_hex_letter c \<longleftrightarrow> 97 \<le> byte_of (lower_char c) \<and> byte_of (lower_char c) \<le> 102"

fun underscores_from :: "bool \<Rightarrow> underscore_saw \<Rightarrow> string \<Rightarrow> bool" where
  "underscores_from hex saw [] = (saw \<noteq> Saw_Underscore)"
| "underscores_from hex saw (c # s) =
     (if is_digit c \<or> (hex \<and> is_hex_letter c) then underscores_from hex Saw_Digit s
      else if c = CHR ''_'' then (if saw \<noteq> Saw_Digit then False else underscores_from hex Saw_Underscore s)
      else if saw = Saw_Underscore then False
      else underscores_from hex Saw_Other s)"

definition base_letter :: "string \<Rightarrow> char option" where
  "base_letter s = (case s of
     z # b # _ \<Rightarrow> if z = CHR ''0'' \<and> lower_char b \<in> {CHR ''b'', CHR ''o'', CHR ''x''} then Some (lower_char b) else None
   | _ \<Rightarrow> None)"

definition underscoreOK :: "string \<Rightarrow> bool" where
  "underscoreOK s = (case base_letter s of
     Some b \<Rightarrow> underscores_from (b = CHR ''x'') Saw_Digit (drop 2 s)
   | None \<Rightarrow> underscores_from False Saw_Start s)"

definition digit_of :: "char \<Rightarrow> int option" where
  "digit_of c =
     (if is_digit c then Some (int (byte_of c) - 48)
      else if 97 \<le> byte_of (lower_char c) \<and> byte_of (lower_char c) \<le> 122 then Some (int (byte_of (lower_char c)) - 87)
      else None)"

fun base_digits :: "int \<Rightarrow> int \<Rightarrow> string \<Rightarrow> int option" where
  "base_digits base n [] = Some n"
| "base_digits base n (c # s) =
     (if c = CHR ''_'' then base_digits base n s
      else case digit_of c of
        None \<Rightarrow> None
      | Some d \<Rightarrow> if base \<le> d then None else base_digits base (base * n + d) s)"

text \<open>\<open>strconv.ParseUint(s, 0, 64)\<close>: the value, which the caller compares with its own bounds.\<close>

definition parse_uint :: "string \<Rightarrow> int option" where
  "parse_uint s =
     (if s = [] then None
      else let (base, ds) =
          (case base_letter s of
             Some b \<Rightarrow> if 3 \<le> length s
               then (if b = CHR ''b'' then 2 else if b = CHR ''o'' then 8 else 16, drop 2 s) else (8, drop 1 s)
           | None \<Rightarrow> if hd s = CHR ''0'' then (8, drop 1 s) else (10, s))
        in if CHR ''_'' \<in> set ds \<and> \<not> underscoreOK s then None else base_digits base 0 ds)"

text \<open>\<open>strconv.ParseInt(s, 0, strconv.IntSize)\<close>\<close>

definition parse_int0 :: "string \<Rightarrow> gerr + int" where
  "parse_int0 s =
     (let (neg, ds) = (case s of
        c # t \<Rightarrow> if c = CHR ''-'' then (True, t) else if c = CHR ''+'' then (False, t) else (False, s)
      | [] \<Rightarrow> (False, []))
      in case parse_uint ds of
           None \<Rightarrow> Inl (ErrExternal ''parse error'')
         | Some n \<Rightarrow> if (if neg then 2 ^ 63 < n else 2 ^ 63 \<le> n) then Inl (ErrExternal ''value out of range'')
                     else Inr (if neg then - n else n))"

section \<open>Flags\<close>

datatype flag_value = Flag_String string | Flag_Int int

type_synonym flag_set = "flag_value gmap"

definition flag_assign :: "flag_value \<Rightarrow> string \<Rightarrow> gerr + flag_value" where
  "flag_assign old value = (case old of
     Flag_String _ \<Rightarrow> Inr (Flag_String value)
   | Flag_Int _ \<Rightarrow> (case parse_int0 value of Inl e \<Rightarrow> Inl e | Inr n \<Rightarrow> Inr (Flag_Int n)))"

text \<open>What \<open>FlagSet.parseOne\<close> makes of one argument: the end of the flags, an error, or a name and perhaps a
  value.\<close>

datatype flag_word = Flag_Stop | Flag_Bad | Flag_Word string "string option"

definition flag_word :: "string \<Rightarrow> flag_word" where
  "flag_word s =
     (if length s < 2 \<or> hd s \<noteq> CHR ''-'' \<or> s = ''--'' then Flag_Stop
      else let name = (if s ! 1 = CHR ''-'' then drop 2 s else drop 1 s)
        in if hd name = CHR ''-'' \<or> hd name = CHR ''='' then Flag_Bad
           else (case dropWhile (\<lambda>c. c \<noteq> CHR ''='') name of
                   [] \<Rightarrow> Flag_Word name None
                 | _ # value \<Rightarrow> Flag_Word (takeWhile (\<lambda>c. c \<noteq> CHR ''='') name) (Some value)))"

text \<open>\<open>FlagSet.Parse\<close>; an argument that is no flag ends it, and the tool looks at none of the rest.\<close>

fun flag_parse :: "flag_set \<Rightarrow> string list \<Rightarrow> gerr + flag_set" where
  "flag_parse fs [] = Inr fs"
| "flag_parse fs (s # args) = (case flag_word s of
     Flag_Stop \<Rightarrow> Inr fs
   | Flag_Bad \<Rightarrow> Inl (ErrExternal ''bad flag syntax'')
   | Flag_Word name given \<Rightarrow> (case map_of fs name of
       None \<Rightarrow> Inl (ErrExternal ''flag provided but not defined'')
     | Some old \<Rightarrow> (case given of
         Some value \<Rightarrow> (case flag_assign old value of
             Inl e \<Rightarrow> Inl e
           | Inr new \<Rightarrow> flag_parse (gput name new fs) args)
       | None \<Rightarrow> (case args of
           [] \<Rightarrow> Inl (ErrExternal ''flag needs an argument'')
         | value # rest \<Rightarrow> (case flag_assign old value of
             Inl e \<Rightarrow> Inl e
           | Inr new \<Rightarrow> flag_parse (gput name new fs) rest)))))"

definition flag_string :: "flag_set \<Rightarrow> string \<Rightarrow> string" where
  "flag_string fs name = (case map_of fs name of Some (Flag_String v) \<Rightarrow> v | _ \<Rightarrow> [])"

definition flag_int :: "flag_set \<Rightarrow> string \<Rightarrow> int" where
  "flag_int fs name = (case map_of fs name of Some (Flag_Int n) \<Rightarrow> n | _ \<Rightarrow> 0)"

section \<open>The process\<close>

text \<open>
  The environment, the clock, what was printed so far, and the other side of the network. \<open>cn_url\<close> is the error
  \<open>http.NewRequest\<close> gives for a URL it cannot parse, \<open>cn_do\<close> the exchange of one request, \<open>cn_SendMail\<close> the
  package \<open>net/smtp\<close>: server, sender, recipients, message.
\<close>

record 'r ctl =
  ct_env :: getenv
  ct_now :: gtime
  ct_out :: string
  ct_remote :: 'r

record 'r ctl_net =
  cn_url :: "string \<Rightarrow> gerr option"
  cn_do :: "http_request \<Rightarrow> ('r, http_response) go"
  cn_SendMail :: "string \<Rightarrow> string \<Rightarrow> string list \<Rightarrow> string \<Rightarrow> ('r, unit) go"

definition ctl_remote :: "('r, 'a) go \<Rightarrow> ('r ctl, 'a) go" where
  "ctl_remote f = (\<lambda>c. case f (ct_remote c) of (r, w) \<Rightarrow> (r, c\<lparr>ct_remote := w\<rparr>))"

definition ctl_print :: "string \<Rightarrow> ('r ctl, unit) go" where
  "ctl_print s = (\<lambda>c. (Inr (), c\<lparr>ct_out := ct_out c @ s\<rparr>))"

definition ctl_env :: "('r ctl, getenv) go" where
  "ctl_env = (\<lambda>c. (Inr (ct_env c), c))"

text \<open>\<open>http.NewRequest\<close> and \<open>http.DefaultClient.Do\<close>; \<open>http.Get\<close> is the same without headers and body.\<close>

definition ctl_do :: "'r ctl_net \<Rightarrow> http_request \<Rightarrow> ('r ctl, http_response) go" where
  "ctl_do net q = (case cn_url net (hq_URL q) of Some e \<Rightarrow> go_fail e | None \<Rightarrow> ctl_remote (cn_do net q))"

definition http_Get :: "'r ctl_net \<Rightarrow> string \<Rightarrow> ('r ctl, http_response) go" where
  "http_Get net url = ctl_do net \<lparr>hq_Method = ''GET'', hq_URL = url, hq_Headers = [], hq_Body = []\<rparr>"

text \<open>The verb \<open>%d\<close>.\<close>

definition fmt_d :: "int \<Rightarrow> string" where
  "fmt_d i = (if i < 0 then ''-'' else []) @ nat_digits (nat \<bar>i\<bar>)"

definition ctl_newline :: string where
  "ctl_newline = [CHR 0x0A]"

definition printResponse :: "string \<Rightarrow> http_response \<Rightarrow> ('r ctl, unit) go" where
  "printResponse label resp = (case hp_Body resp of
     Inl e \<Rightarrow> go_fail e
   | Inr data \<Rightarrow>
       go_bind (ctl_print (ctl_newline @ ''== '' @ label @ '' ('' @ fmt_d (hp_StatusCode resp) @ '') =='' @ ctl_newline @
         trim_space data @ ctl_newline)) (\<lambda>_.
       if 400 \<le> hp_StatusCode resp
       then go_fail (ErrMsg (''request failed with status '' @ fmt_d (hp_StatusCode resp))) else go_ret ()))"

definition printJSONRequest :: "'r ctl_net \<Rightarrow> string \<Rightarrow> string \<Rightarrow> json \<Rightarrow> ('r ctl, unit) go" where
  "printJSONRequest net verb url payload =
     go_bind (ctl_do net \<lparr>hq_Method = verb, hq_URL = url,
       hq_Headers = gput (canonical_key ''Content-Type'') ''application/json'' [], hq_Body = json_encode payload\<rparr>)
     (printResponse url)"

definition envOrDefault :: "getenv \<Rightarrow> string \<Rightarrow> string \<Rightarrow> string" where
  "envOrDefault env key fallback = (if env key \<noteq> [] then env key else fallback)"

text \<open>\<open>fmt.Sscanf(s, "%d", &n)\<close>: white space, but no newline, then a decimal literal; what follows it is not read.\<close>

definition scan_space :: "string \<Rightarrow> string option" where
  "scan_space s = (case dropWhile (\<lambda>c. is_space c \<and> c \<noteq> CHR 0x0A) s of
     [] \<Rightarrow> Some [] | c # t \<Rightarrow> if c = CHR 0x0A then None else Some (c # t))"

definition scan_int :: "string \<Rightarrow> gerr + int" where
  "scan_int s = (case scan_space s of
     None \<Rightarrow> Inl (ErrExternal ''unexpected newline'')
   | Some t \<Rightarrow> (case t of
       c # u \<Rightarrow> if c = CHR ''-'' \<or> c = CHR ''+'' then atoi (c # takeWhile is_digit u) else atoi (takeWhile is_digit t)
     | [] \<Rightarrow> Inl (ErrExternal ''unexpected EOF'')))"

definition envIntOrDefault :: "getenv \<Rightarrow> string \<Rightarrow> int \<Rightarrow> int" where
  "envIntOrDefault env key fallback =
     (if env key \<noteq> []
      then (case scan_int (env key) of Inr parsed \<Rightarrow> if parsed > 0 then parsed else fallback | Inl _ \<Rightarrow> fallback)
      else fallback)"

definition env_flag :: "getenv \<Rightarrow> string \<Rightarrow> string \<Rightarrow> string \<Rightarrow> string \<times> flag_value" where
  "env_flag env name key fallback = (name, Flag_String (envOrDefault env key fallback))"

definition base_url_flag :: "getenv \<Rightarrow> string \<times> flag_value" where
  "base_url_flag env = env_flag env ''base-url'' ''AGENTLAYER_BASE_URL'' ''http://localhost:8080''"

text \<open>\<open>strings.TrimRight(s, "/")\<close>\<close>

definition trim_right_slash :: "string \<Rightarrow> string" where
  "trim_right_slash s = rev (dropWhile (\<lambda>c. c = CHR ''/'') (rev s))"

definition ctl_flags :: "(getenv \<Rightarrow> flag_set) \<Rightarrow> string list \<Rightarrow> ('r ctl, flag_set) go" where
  "ctl_flags flags args = go_bind ctl_env (\<lambda>env. go_lift (flag_parse (flags env) args))"

section \<open>The commands\<close>

definition bootstrap_flags :: "getenv \<Rightarrow> flag_set" where
  "bootstrap_flags env =
     [base_url_flag env,
      env_flag env ''webhook-url'' ''AGENTLAYER_WEBHOOK_URL'' ''http://localhost:3000/webhook'',
      env_flag env ''webhook-secret'' ''AGENTLAYER_WEBHOOK_SECRET'' ''dev-secret'',
      env_flag env ''org-name'' ''AGENTLAYER_ORG_NAME'' ''Acme Support'',
      env_flag env ''agent-name'' ''AGENTLAYER_AGENT_NAME'' ''Acme Agent'',
      env_flag env ''agent-status'' ''AGENTLAYER_AGENT_STATUS'' ''active'',
      env_flag env ''inbox-address'' ''AGENTLAYER_INBOX_ADDRESS'' ''agent@localhost'',
      env_flag env ''inbox-domain'' ''AGENTLAYER_INBOX_DOMAIN'' ''localhost'',
      env_flag env ''inbox-display-name'' ''AGENTLAYER_INBOX_DISPLAY_NAME'' ''Acme Inbox'']"

definition runBootstrap :: "'r ctl_net \<Rightarrow> string list \<Rightarrow> ('r ctl, unit) go" where
  "runBootstrap net args = go_bind (ctl_flags bootstrap_flags args) (\<lambda>fs.
     printJSONRequest net ''POST'' (trim_right_slash (flag_string fs ''base-url'') @ ''/bootstrap'') (string_map_json
       [(''organization_name'', flag_string fs ''org-name''), (''agent_name'', flag_string fs ''agent-name''),
        (''agent_status'', flag_string fs ''agent-status''), (''webhook_url'', flag_string fs ''webhook-url''),
        (''webhook_secret'', flag_string fs ''webhook-secret''), (''inbox_address'', flag_string fs ''inbox-address''),
        (''inbox_domain'', flag_string fs ''inbox-domain''),
        (''inbox_display_name'', flag_string fs ''inbox-display-name'')]))"

definition show_flags :: "getenv \<Rightarrow> flag_set" where
  "show_flags env =
     [base_url_flag env,
      (''webhook-limit'', Flag_Int (envIntOrDefault env ''AGENTLAYER_WEBHOOK_LIMIT'' 5)),
      (''receipt-limit'', Flag_Int (envIntOrDefault env ''AGENTLAYER_RECEIPT_LIMIT'' 5))]"

primrec show_endpoints :: "'r ctl_net \<Rightarrow> string \<Rightarrow> string list \<Rightarrow> ('r ctl, unit) go" where
  "show_endpoints net base [] = go_ret ()"
| "show_endpoints net base (endpoint # endpoints) =
     go_bind (http_Get net (base @ endpoint)) (\<lambda>resp.
     go_bind (printResponse endpoint resp) (\<lambda>_. show_endpoints net base endpoints))"

definition runShow :: "'r ctl_net \<Rightarrow> string list \<Rightarrow> ('r ctl, unit) go" where
  "runShow net args = go_bind (ctl_flags show_flags args) (\<lambda>fs.
     show_endpoints net (trim_right_slash (flag_string fs ''base-url''))
       [''/readyz'', ''/bootstrap'',
        ''/webhooks/deliveries?limit='' @ fmt_d (flag_int fs ''webhook-limit''),
        ''/inbound/receipts/list?limit='' @ fmt_d (flag_int fs ''receipt-limit'')])"

definition runReady :: "'r ctl_net \<Rightarrow> string list \<Rightarrow> ('r ctl, unit) go" where
  "runReady net args = go_bind (ctl_flags (\<lambda>env. [base_url_flag env]) args) (\<lambda>fs.
     go_bind (http_Get net (trim_right_slash (flag_string fs ''base-url'') @ ''/readyz'')) (printResponse ''/readyz''))"

definition retry_flags :: "getenv \<Rightarrow> flag_set" where
  "retry_flags env =
     [base_url_flag env, (''limit'', Flag_Int (envIntOrDefault env ''AGENTLAYER_WEBHOOK_RETRY_LIMIT'' 20))]"

definition runRetryWebhooks :: "'r ctl_net \<Rightarrow> string list \<Rightarrow> ('r ctl, unit) go" where
  "runRetryWebhooks net args = go_bind (ctl_flags retry_flags args) (\<lambda>fs.
     go_bind (ctl_do net \<lparr>hq_Method = ''POST'',
         hq_URL = trim_right_slash (flag_string fs ''base-url'') @ ''/webhooks/deliveries/retry?limit='' @
           fmt_d (flag_int fs ''limit''),
         hq_Headers = [], hq_Body = []\<rparr>)
       (printResponse ''/webhooks/deliveries/retry''))"

definition sample_flags :: "getenv \<Rightarrow> flag_set" where
  "sample_flags env =
     [env_flag env ''smtp-addr'' ''AGENTLAYER_SMTP_ADDR'' ''localhost:2525'',
      env_flag env ''from'' ''AGENTLAYER_SAMPLE_FROM'' ''sender@example.com'',
      env_flag env ''to'' ''AGENTLAYER_SAMPLE_TO'' ''agent@localhost'',
      env_flag env ''subject'' ''AGENTLAYER_SAMPLE_SUBJECT'' ''Hello from agentlayerctl'',
      env_flag env ''body'' ''AGENTLAYER_SAMPLE_BODY'' ''This is a sample inbound message for AgentLayer.'']"

text \<open>\<open>time.Now().UTC().UnixNano()\<close>: nanoseconds since 1970 as a 64-bit integer.\<close>

definition unix_nano :: "gtime \<Rightarrow> int" where
  "unix_nano t = sint (word_of_int (t - 62135596800 * nanos_per_second) :: 64 word)"

definition sample_message_id :: "gtime \<Rightarrow> string" where
  "sample_message_id now = ''<sample-'' @ fmt_d (unix_nano now) @ ''@agentlayer.local>''"

definition sample_message :: "string \<Rightarrow> string \<Rightarrow> string \<Rightarrow> string \<Rightarrow> string \<Rightarrow> string" where
  "sample_message from to subject messageID body =
     join [''From: '' @ from, ''To: '' @ to, ''Subject: '' @ subject, ''Message-ID: '' @ messageID,
       ''MIME-Version: 1.0'', ''Content-Type: text/plain; charset=utf-8'', [], body, []] crlf"

definition runSendSample :: "'r ctl_net \<Rightarrow> string list \<Rightarrow> ('r ctl, unit) go" where
  "runSendSample net args = go_bind (ctl_flags sample_flags args) (\<lambda>fs.
     let addr = flag_string fs ''smtp-addr''; from = flag_string fs ''from''; to = flag_string fs ''to'' in
     go_bind (\<lambda>c. (Inr (sample_message_id (ct_now c)), c)) (\<lambda>messageID.
     go_bind (ctl_remote (cn_SendMail net addr from [to]
       (sample_message from to (flag_string fs ''subject'') messageID (flag_string fs ''body'')))) (\<lambda>_.
     ctl_print (''sent sample email to '' @ to @ '' via '' @ addr @ ctl_newline))))"

text \<open>\<open>main\<close> without the name of the program: the exit code and what it leaves.\<close>

definition exit_code :: "('r ctl, unit) go \<Rightarrow> 'r ctl \<Rightarrow> int \<times> 'r ctl" where
  "exit_code run c = (case run c of (Inl _, c') \<Rightarrow> (1, c') | (Inr _, c') \<Rightarrow> (0, c'))"

definition ctl_main :: "'r ctl_net \<Rightarrow> string list \<Rightarrow> 'r ctl \<Rightarrow> int \<times> 'r ctl" where
  "ctl_main net args c = (case args of
     [] \<Rightarrow> (2, c)
   | command # rest \<Rightarrow>
       if command = ''bootstrap'' then exit_code (runBootstrap net rest) c
       else if command = ''ready'' then exit_code (runReady net rest) c
       else if command = ''show'' then exit_code (runShow net rest) c
       else if command = ''retry-webhooks'' then exit_code (runRetryWebhooks net rest) c
       else if command = ''send-sample'' then exit_code (runSendSample net rest) c
       else (2, c))"

end
