(* ===== verification/Outbound_Laws.thy ===== *)
theory Outbound_Laws
  imports Outbound
begin

text \<open>
  What the reply path and the provider callbacks guarantee: the assembled message read back,
  the suppression check, what a sent or failed reply leaves in the store, and how a callback
  finds the reply it is about.
\<close>

section \<open>Reading an assembled message back\<close>

text \<open>A header block ends at the first empty line; lines end in CR LF.\<close>

fun break_line :: "string \<Rightarrow> string \<times> string option" where
  "break_line [] = ([], None)"
| "break_line [c] = ([c], None)"
| "break_line (c # d # s) =
     (if c = CHR 0x0D \<and> d = CHR 0x0A then ([], Some s)
      else case break_line (d # s) of (l, r) \<Rightarrow> (c # l, r))"

lemma break_line_shorter: "break_line s = (l, Some r) \<Longrightarrow> length r < length s"
  by (induction s arbitrary: l r rule: break_line.induct) (force split: if_splits prod.splits)+

function mime_split :: "string \<Rightarrow> string list \<times> string" where
  "mime_split s = (case break_line s of
       (l, None) \<Rightarrow> ([l], [])
     | (l, Some r) \<Rightarrow> if l = [] then ([], r) else (case mime_split r of (hs, b) \<Rightarrow> (l # hs, b)))"
  by pat_completeness auto

termination
  by (relation "measure length") (auto dest: break_line_shorter [OF sym])

declare mime_split.simps [simp del]

text \<open>A value that cannot end a header line.\<close>

definition one_line :: "string \<Rightarrow> bool" where
  "one_line s \<longleftrightarrow> CHR 0x0D \<notin> set s \<and> CHR 0x0A \<notin> set s"

lemma one_line_simps [simp]:
  "one_line []"
  "one_line (c # s) = (c \<noteq> CHR 0x0D \<and> c \<noteq> CHR 0x0A \<and> one_line s)"
  by (auto simp: one_line_def)

lemma break_line_crlf: "one_line l \<Longrightarrow> break_line (l @ crlf @ r) = (l, Some r)"
proof (induction l)
  case Nil
  then show ?case by (simp add: crlf_def)
next
  case (Cons c l)
  then have IH: "break_line (l @ crlf @ r) = (l, Some r)" and c: "c \<noteq> CHR 0x0D"
    by (auto simp: one_line_def)
  obtain d s where ds: "l @ crlf @ r = d # s" by (cases l) (auto simp: crlf_def)
  have "break_line (c # d # s) = (c # l, Some r)"
    using c IH by (simp add: ds)
  then show ?case by (simp add: ds)
qed

lemma mime_split_lines:
  "\<forall>l \<in> set hs. one_line l \<and> l \<noteq> [] \<Longrightarrow> mime_split (join (hs @ [[], body]) crlf) = (hs, body)"
proof (induction hs)
  case Nil
  show ?case
    by (subst mime_split.simps) (use break_line_crlf [of "[]" body] in \<open>simp add: one_line_def\<close>)
next
  case (Cons h hs)
  have "join ((h # hs) @ [[], body]) crlf = h @ crlf @ join (hs @ [[], body]) crlf"
    by (cases hs) simp_all
  moreover have "break_line (h @ crlf @ join (hs @ [[], body]) crlf) = (h, Some (join (hs @ [[], body]) crlf))"
    by (rule break_line_crlf) (use Cons.prems in simp)
  ultimately show ?case
    using Cons by (subst mime_split.simps) simp
qed

lemma one_line_append [simp]: "one_line (a @ b) = (one_line a \<and> one_line b)"
  by (auto simp: one_line_def)

lemma one_line_join: "(\<forall>x \<in> set xs. one_line x) \<Longrightarrow> one_line sep \<Longrightarrow> one_line (join xs sep)"
proof (induction xs sep rule: join.induct)
  case (1 sep)
  then show ?case by (simp add: one_line_def)
next
  case (2 x sep)
  then show ?case by simp
next
  case (3 x y ys sep)
  then show ?case by simp
qed

definition clean_reply :: "reply_assembly_input \<Rightarrow> string \<Rightarrow> bool" where
  "clean_reply input messageID \<longleftrightarrow>
     one_line (i_DisplayName (ra_Inbox input)) \<and> one_line (i_EmailAddress (ra_Inbox input)) \<and>
     one_line (c_DisplayName (ra_Contact input)) \<and> one_line (c_EmailAddress (ra_Contact input)) \<and>
     one_line (m_Subject (ra_ReplyToMessage input)) \<and> one_line messageID \<and>
     one_line (m_MessageIDHeader (ra_ReplyToMessage input)) \<and>
     (\<forall>k \<in> set (m_References (ra_ReplyToMessage input)). one_line k)"

lemma one_line_formatAddress: "one_line n \<Longrightarrow> one_line e \<Longrightarrow> one_line (formatAddress n e)"
  by (simp add: formatAddress_def)

lemma one_line_replySubject: "one_line s \<Longrightarrow> one_line (replySubject s)"
  by (simp add: replySubject_def)

lemma clean_reply_lines:
  assumes "clean_reply input messageID"
  shows "\<forall>l \<in> set (reply_lines input messageID). one_line l \<and> l \<noteq> []"
proof -
  have "one_line (join (m_References (ra_ReplyToMessage input) @
      [m_MessageIDHeader (ra_ReplyToMessage input)]) '' '')"
    using assms by (intro one_line_join) (auto simp: clean_reply_def)
  with assms show ?thesis
    by (simp add: reply_lines_def Let_def clean_reply_def one_line_formatAddress one_line_replySubject)
qed

text \<open>What \<open>AssembleReply\<close> writes can be read back. When no field holds a line break, the raw
  message splits at its first empty line into exactly the eight header lines of the reply and the
  body text, whatever the body holds; the metadata names the same subject, message id and
  references, the last of which is the message replied to.\<close>

theorem assembled_reply_reads_back:
  assumes "AssembleReply (go_ret messageID) input s = (Inr (raw, meta), s')"
    and "clean_reply input messageID"
  shows "mime_split raw = (reply_lines input messageID, ra_BodyText input) \<and>
    reply_lines input messageID ! 2 = ''Subject: '' @ rm_Subject meta \<and>
    reply_lines input messageID ! 3 = ''Message-ID: '' @ rm_MessageIDHeader meta \<and>
    reply_lines input messageID ! 4 = ''In-Reply-To: '' @ rm_InReplyTo meta \<and>
    reply_lines input messageID ! 5 = ''References: '' @ join (rm_References meta) '' '' \<and>
    last (rm_References meta) = m_MessageIDHeader (ra_ReplyToMessage input)"
proof -
  from assms(1) have "raw = join (reply_lines input messageID @ [[], ra_BodyText input]) crlf"
    and "meta = \<lparr>rm_MessageIDHeader = messageID, rm_Subject = replySubject (m_Subject (ra_ReplyToMessage input)),
      rm_InReplyTo = m_MessageIDHeader (ra_ReplyToMessage input),
      rm_References = m_References (ra_ReplyToMessage input) @ [m_MessageIDHeader (ra_ReplyToMessage input)]\<rparr>"
    by (auto simp: AssembleReply_def Let_def split: if_splits)
  with mime_split_lines [OF clean_reply_lines [OF assms(2)]] show ?thesis
    by (simp add: reply_lines_def Let_def)
qed

definition demo_assembly :: "string \<Rightarrow> reply_assembly_input" where
  "demo_assembly subject = \<lparr>ra_Organization = zero_organization, ra_Agent = zero_agent,
     ra_Inbox = zero_inbox\<lparr>i_EmailAddress := ''agent@x'', i_DisplayName := ''Agent''\<rparr>,
     ra_Thread = demo_thread, ra_ReplyToMessage = demo_message\<lparr>m_Subject := subject\<rparr>,
     ra_Contact = demo_contact, ra_BodyText = ''Hello''\<rparr>"

lemmas demo_assembly_defs = demo_assembly_def demo_defs

theorem assembled_reply_reads_back_witness:
  "\<exists>raw meta. AssembleReply (go_ret ''<c@x>'') (demo_assembly ''Hello'') () = (Inr (raw, meta), ()) \<and>
     mime_split raw = (reply_lines (demo_assembly ''Hello'') ''<c@x>'', ''Hello'')"
proof -
  obtain raw meta where run: "AssembleReply (go_ret ''<c@x>'') (demo_assembly ''Hello'') () = (Inr (raw, meta), ())"
    by (simp add: AssembleReply_def demo_assembly_defs Let_def)
  moreover have "clean_reply (demo_assembly ''Hello'') ''<c@x>''"
    by (simp add: clean_reply_def demo_assembly_defs)
  ultimately show ?thesis
    using assembled_reply_reads_back [OF run] by (auto simp: demo_assembly_def)
qed

text \<open>A subject that holds a line break becomes more than one header line: the assembler does not
  encode it, so whoever wrote the original subject adds a header of their own to the reply.\<close>

theorem reply_subject_injects_header:
  "let raw = join (reply_lines (demo_assembly (''Hello'' @ crlf @ ''Bcc: eve@x'')) ''<c@x>'' @ [[], ''Hello'']) crlf
   in AssembleReply (go_ret ''<c@x>'') (demo_assembly (''Hello'' @ crlf @ ''Bcc: eve@x'')) () =
        (Inr (raw, \<lparr>rm_MessageIDHeader = ''<c@x>'', rm_Subject = ''Re: Hello'' @ crlf @ ''Bcc: eve@x'',
           rm_InReplyTo = ''<a@x>'', rm_References = [''<a@x>'']\<rparr>), ()) \<and>
      ''Bcc: eve@x'' \<in> set (fst (mime_split raw)) \<and> length (fst (mime_split raw)) = 9"
  by code_simp

section \<open>Subjects of replies\<close>

lemma trim_space_Re:
  assumes "trim_space s \<noteq> []"
  shows "trim_space (''Re: '' @ s) = ''Re: '' @ trim_right s"
proof -
  have "trim_right s \<noteq> []"
    using assms by (metis trim_space_Nil trim_space_right)
  moreover have "\<not> is_space (CHR ''R'')" "\<not> is_space (CHR ''e'')" "\<not> is_space (CHR '':'')"
    by (simp_all add: is_space_def byte_of_def)
  ultimately show ?thesis
    by (simp add: trim_space_nonspace trim_right_Cons)
qed

text \<open>A reply stays in its conversation's subject group: whatever the subject, the subject the
  reply carries normalises to the same key.\<close>

theorem normalize_replySubject: "normalizeSubject (replySubject s) = normalizeSubject s"
proof -
  have re: "has_prefix (to_lower (''Re:'' @ t)) ''re:''" for t
  proof -
    have "lower_char (CHR ''R'') = CHR ''r''" "lower_char (CHR ''e'') = CHR ''e''"
      "lower_char (CHR '':'') = CHR '':''" by code_simp+
    then show ?thesis by simp
  qed
  have strip: "normalize_loop (''Re:'' @ t) = normalize_loop (trim_space t)" for t
    using normalize_loop_step(1) [OF re [of t]] by simp
  have sp: "is_space (CHR '' '')" by (simp add: is_space_def byte_of_def)
  show ?thesis
  proof (cases "trim_space s = []")
    case True
    moreover have "trim_space ''Re:'' = ''Re:''" by code_simp
    ultimately show ?thesis
      using strip [of "[]"] by (auto simp: replySubject_def normalizeSubject_def)
  next
    case False
    have "normalizeSubject (''Re: '' @ s) = normalize_loop (trim_space (CHR '' '' # trim_right s))"
      using strip [of "CHR '' '' # trim_right s"] trim_space_Re [OF False]
      by (simp add: normalizeSubject_def)
    with sp False show ?thesis
      by (simp add: replySubject_def normalizeSubject_def)
  qed
qed

section \<open>Suppression\<close>

text \<open>Whatever store and provider the service runs on: a suppressed recipient is refused before
  anything is assembled, recorded or sent.\<close>

context suppression_repo
begin

lemma SendReply_refuses:
  assumes "inv s" and "rs_isSuppressed svc = Some is_suppressed"
    and "(o_ID (si_Organization input), c_EmailAddress (si_Contact input)) \<in> snd (view s)"
  shows "\<exists>s'. SendReply svc input s = (Inl ErrRecipientSuppressed, s') \<and> inv s' \<and> view s' = view s"
proof -
  obtain s' where run: "is_suppressed (o_ID (si_Organization input)) (c_EmailAddress (si_Contact input)) s = (Inr True, s')"
    using check_returns [OF assms(1)] assms(3) by metis
  with check_frame [OF assms(1) run] show ?thesis
    by (auto simp: SendReply_def assms(2) go_bind_def)
qed

lemma SendReply_passes:
  assumes "inv s" and "rs_isSuppressed svc = Some is_suppressed"
    and "(o_ID (si_Organization input), c_EmailAddress (si_Contact input)) \<notin> snd (view s)"
  shows "\<exists>s'. SendReply svc input s = send_unsuppressed svc input s' \<and> inv s' \<and> view s' = view s \<and>
    is_suppressed (o_ID (si_Organization input)) (c_EmailAddress (si_Contact input)) s = (Inr False, s')"
proof -
  obtain s' where run: "is_suppressed (o_ID (si_Organization input)) (c_EmailAddress (si_Contact input)) s = (Inr False, s')"
    using check_returns [OF assms(1)] assms(3) by metis
  with check_frame [OF assms(1) run] show ?thesis
    by (auto simp: SendReply_def assms(2) go_bind_def)
qed

lemma Apply_suppresses:
  assumes "inv s" and "Suppression_Apply save message contact status at s = (Inr (rec, changed), s')"
    and "status = DeliveryStateHardBounce \<or> status = DeliveryStateComplaint"
  shows "inv s' \<and> changed \<and> (m_OrganizationID message, c_EmailAddress contact) \<in> snd (view s')"
proof -
  obtain i s1 where i: "newSuppressionID s = (Inr i, s1)"
    unfolding newSuppressionID_def using random_id_returns by blast
  have s1: "inv s1" using view_random_id [OF i [unfolded newSuppressionID_def]] assms(1) by simp
  let ?r = "\<lparr>sa_ID = i, sa_OrganizationID = m_OrganizationID message, sa_EmailAddress = c_EmailAddress contact,
     sa_Reason = status, sa_Source = ''provider_callback'', sa_CreatedAt = at, sa_UpdatedAt = at\<rparr>"
  obtain s2 where sv: "save ?r s1 = (Inr ?r, s2)" using save_returns [OF s1] by blast
  from assms(2,3) i sv have "s' = s2" "changed"
    by (auto simp: Suppression_Apply_def go_bind_def)
  with save_adds [OF s1 sv] show ?thesis by simp
qed

end

text \<open>C30: a hard bounce or a complaint ends the conversation for that recipient: once the callback flow
  has taken one, every reply of the same organization to that address is refused with
  \<open>ErrRecipientSuppressed\<close>, whichever provider is configured, and nothing is written.\<close>

theorem bounce_suppresses_replies:
  assumes "world_ok w" and "newOutboundCallbackFlow event contact w = (Inr res, w')"
    and "ce_Status event = DeliveryStateHardBounce \<or> ce_Status event = DeliveryStateComplaint"
    and "o_ID (si_Organization input) = m_OrganizationID (cf_Message res)"
    and "c_EmailAddress (si_Contact input) = c_EmailAddress contact"
  shows "cf_Suppressed res \<and>
    (\<exists>w''. SendReply (newReplyService provider) input w' = (Inl ErrRecipientSuppressed, w'') \<and> mem w'' = mem w')"
proof -
  obtain m w1 where m: "ApplyCallback rt_FindByProviderMessageID (RecordStatus rt_SaveMessage) event w = (Inr m, w1)"
    and rest: "go_bind (Suppression_Apply rt_SaveSuppression m contact (ce_Status event) (ce_OccurredAt event))
      (\<lambda>(suppression, changed).
        go_ret \<lparr>cf_Message = m, cf_Suppression = suppression, cf_Suppressed = changed\<rparr>) w1 = (Inr res, w')"
    using assms(2) unfolding newOutboundCallbackFlow_def CallbackFlow_Apply_def by (rule go_bind_InrE)
  have "keeps world_ok (ApplyCallback rt_FindByProviderMessageID (RecordStatus rt_SaveMessage) event)"
    unfolding ApplyCallback_def RecordStatus_def Let_def by (auto intro!: keeps_bind split: option.split)
  then have ok: "world_ok w1" using assms(1) m by (rule keepsD)
  from rest obtain rec changed where
    s: "Suppression_Apply rt_SaveSuppression m contact (ce_Status event) (ce_OccurredAt event) w1 = (Inr (rec, changed), w')"
    and res: "res = \<lparr>cf_Message = m, cf_Suppression = rec, cf_Suppressed = changed\<rparr>"
    by (auto simp: go_bind_Inr_iff)
  from sup.Apply_suppresses [OF ok s assms(3)] have "world_ok w'" "changed"
    and "(m_OrganizationID m, c_EmailAddress contact) \<in> snd (suppression_view w')" by simp_all
  moreover from this have "(o_ID (si_Organization input), c_EmailAddress (si_Contact input)) \<in> snd (suppression_view w')"
    using assms(4,5) by (simp add: res)
  moreover have "mem w'' = mem w'"
    if "SendReply (newReplyService provider) input w' = (Inl ErrRecipientSuppressed, w'')"
      "rt_IsSuppressed (o_ID (si_Organization input)) (c_EmailAddress (si_Contact input)) w' = (Inr True, w'')" for w''
    by (rule framesD [OF frames_rt_reads(21), OF that(2)])
  ultimately show ?thesis
    using sup.check_returns [of w' "o_ID (si_Organization input)" "c_EmailAddress (si_Contact input)"]
    by (force simp: res SendReply_def newReplyService_def go_bind_def)
qed

section \<open>What a reply leaves in the store\<close>

definition reply_recorded :: "mem_store \<Rightarrow> thread \<Rightarrow> message \<Rightarrow> string \<Rightarrow> mem_store \<Rightarrow> bool" where
  "reply_recorded s t m raw s' \<longleftrightarrow>
     map_of (threadsByID s') = (map_of (threadsByID s))(t_ID t \<mapsto> t) \<and>
     map_of (messagesByID s') = (map_of (messagesByID s))(m_ID m \<mapsto> m) \<and>
     map_of (messagesByInboundKey s') =
       (if m_InboxID m \<noteq> [] \<and> m_MessageIDHeader m \<noteq> []
        then (map_of (messagesByInboundKey s))(InboundMessageKey (m_InboxID m) (m_MessageIDHeader m) \<mapsto> m_ID m)
        else map_of (messagesByInboundKey s)) \<and>
     map_of (messagesByProviderID s') =
       (if m_ProviderMessageID m \<noteq> [] then (map_of (messagesByProviderID s))(m_ProviderMessageID m \<mapsto> m)
        else map_of (messagesByProviderID s)) \<and>
     (\<forall>k. slice_at (messagesByThreadID s') k =
        slice_at (messagesByThreadID s) k @ (if k = m_ThreadID m \<and> k \<noteq> [] then [m_ID m] else [])) \<and>
     map_of (rawMessages s') = (map_of (rawMessages s))(m_RawMIMEObjectKey m \<mapsto> raw) \<and>
     organizationsByID s' = organizationsByID s \<and> agentsByID s' = agentsByID s \<and>
     inboxesByID s' = inboxesByID s \<and> inboxesByEmail s' = inboxesByEmail s \<and>
     contactsByID s' = contactsByID s \<and> contactsByEmail s' = contactsByEmail s \<and>
     inboundReceiptsByKey s' = inboundReceiptsByKey s \<and>
     replySubmissionsByKey s' = replySubmissionsByKey s \<and>
     memoriesByID s' = memoriesByID s \<and> memoriesByContactID s' = memoriesByContactID s \<and>
     suppressionsByID s' = suppressionsByID s \<and> webhookDeliveriesByID s' = webhookDeliveriesByID s"

lemma queued_message_sel [simp]:
  "m_ID (queued_message q i) = i" "m_ThreadID (queued_message q i) = t_ID (rq_Thread q)"
  "m_InboxID (queued_message q i) = i_ID (rq_Inbox q)"
  "m_ContactID (queued_message q i) = c_ID (rq_Contact q)"
  "m_OrganizationID (queued_message q i) = o_ID (rq_Organization q)"
  "m_ProviderMessageID (queued_message q i) = []"
  "m_DeliveryState (queued_message q i) = DeliveryStateQueued"
  "m_MessageIDHeader (queued_message q i) = rm_MessageIDHeader (rq_Metadata q)"
  "m_RawMIMEObjectKey (queued_message q i) = rq_ObjectKey q"
  "m_Direction (queued_message q i) = MessageDirectionOutbound"
  "m_InReplyTo (queued_message q i) = rm_InReplyTo (rq_Metadata q)"
  "m_References (queued_message q i) = rm_References (rq_Metadata q)"
  "m_TextBody (queued_message q i) = rq_BodyText q"
  by (simp_all add: queued_message_def zero_message_def)

abbreviation rt_queue_recorder :: "'z world_scheme queue_recorder" where
  "rt_queue_recorder \<equiv> \<lparr>qr_Create = rt_Create, qr_Save = Some rt_Save, qr_Put = Some rt_Put\<rparr>"

definition touch_outbound :: "string \<Rightarrow> gtime \<Rightarrow> thread \<Rightarrow> thread" where
  "touch_outbound i at t = t\<lparr>t_LastOutboundID := i, t_LastActivityAt := at, t_UpdatedAt := at\<rparr>"

lemma touch_outbound_ID [simp]: "t_ID (touch_outbound i at t) = t_ID t"
  by (simp add: touch_outbound_def)

lemma Store_Create_provider:
  "map_of (messagesByProviderID (snd (Store_Create m s))) =
     (if m_ProviderMessageID m \<noteq> [] then (map_of (messagesByProviderID s))(m_ProviderMessageID m \<mapsto> m)
      else map_of (messagesByProviderID s))"
  by (simp add: Store_Create_def Let_def index_message_provider)

text \<open>The id the recorder draws, and what a call leaves of the random source.\<close>

definition drawn_message_id :: "'z env_scheme \<Rightarrow> string" where
  "drawn_message_id w = (case rand_src w (rand_ix w) 8 of
       None \<Rightarrow> ''outbound-message-generated''
     | Some b \<Rightarrow> ''message-'' @ hex_encode (take 8 (b @ replicate 8 (CHR 0x00))))"

definition drew :: "nat \<Rightarrow> 'z env_scheme \<Rightarrow> 'z env_scheme \<Rightarrow> bool" where
  "drew n w w' \<longleftrightarrow> rand_ix w' = rand_ix w + n \<and> rand_src w' = rand_src w"

lemma drew_0: "drew 0 w w' \<Longrightarrow> drawn_message_id w' = drawn_message_id w"
  by (simp add: drew_def drawn_message_id_def)

lemma drew_trans: "drew a w w' \<Longrightarrow> drew b w' w'' \<Longrightarrow> drew (a + b) w w''"
  by (simp add: drew_def)

lemma RecordQueuedReply_run:
  assumes run: "RecordQueuedReply rt_queue_recorder q w = (r, w')" and key: "rq_ObjectKey q \<noteq> []"
  shows "\<exists>i. let t = stored_thread (mem w) (touch_outbound i (rq_QueuedAt q) (rq_Thread q)) in
    i = drawn_message_id w \<and> drew 1 w w' \<and> r = Inr \<lparr>qd_Thread = t, qd_Message = queued_message q i\<rparr> \<and>
    reply_recorded (mem w) t (queued_message q i) (rq_RawMIME q) (mem w')"
proof -
  define w1 where "w1 = w\<lparr>mem := mem w\<lparr>rawMessages := gput (rq_ObjectKey q) (rq_RawMIME q) (rawMessages (mem w))\<rparr>\<rparr>"
  have put: "(case Some rt_Put of None \<Rightarrow> go_ret ()
       | Some put \<Rightarrow> if rq_ObjectKey q = [] then go_fail (ErrMsg ''object key is required'')
           else put (rq_ObjectKey q) (rq_RawMIME q)) w = (Inr (), w1)"
    using key by (simp add: rt_eqs Store_Put_def w1_def)
  obtain i w2 where i: "newOutboundMessageID w1 = (Inr i, w2)"
    unfolding newOutboundMessageID_def using random_id_returns by blast
  have w2: "mem w2 = mem w1" by (rule framesD [OF frames_mem_env(4), OF i [unfolded newOutboundMessageID_def]])
  have draw: "i = drawn_message_id w" "drew 1 w w2"
    using i by (auto simp: newOutboundMessageID_def random_id_run drawn_message_id_def drew_def w1_def)
  define m where "m = queued_message q i"
  obtain w3 where cr: "rt_Create m w2 = (Inr m, w3)"
    using rt_Create_returns [of m w2] by (metis prod.exhaust_sel)
  have w3: "mem w3 = snd (Store_Create m (mem w2))" and d3: "drew 0 w2 w3"
    using cr by (auto simp: rt_eqs drew_def)
  define u where "u = touch_outbound i (rq_QueuedAt q) (rq_Thread q)"
  define t where "t = stored_thread (mem w) u"
  have same: "stored_thread (mem w3) u = t"
    by (simp add: stored_thread_def t_def w3 Store_Create_effect w2 w1_def)
  have tid: "t_ID t = t_ID u" by (simp add: t_def)
  have sv: "(case Some rt_Save of None \<Rightarrow> go_ret (rq_Thread q)
       | Some save \<Rightarrow> save ((rq_Thread q)\<lparr>t_LastOutboundID := m_ID m, t_LastActivityAt := rq_QueuedAt q,
                                   t_UpdatedAt := rq_QueuedAt q\<rparr>)) w3 =
      (Inr t, w3\<lparr>mem := mem w3\<lparr>threadsByID := gput (t_ID t) t (threadsByID (mem w3))\<rparr>\<rparr>)"
    using rt_Save_run [of u w3] by (simp add: same tid m_def) (simp add: u_def touch_outbound_def)
  have "RecordQueuedReply rt_queue_recorder q w = (Inr \<lparr>qd_Thread = t, qd_Message = m\<rparr>,
      w3\<lparr>mem := mem w3\<lparr>threadsByID := gput (t_ID t) t (threadsByID (mem w3))\<rparr>\<rparr>)"
    unfolding RecordQueuedReply_def queue_recorder.simps
    by (rule go_bind_okI, rule put, rule go_bind_okI, rule i, fold m_def, rule go_bind_okI, rule cr,
        rule go_bind_okI, rule sv, rule go_ret_run)
  with run have r: "r = Inr \<lparr>qd_Thread = t, qd_Message = m\<rparr>"
    and w': "w' = w3\<lparr>mem := mem w3\<lparr>threadsByID := gput (t_ID t) t (threadsByID (mem w3))\<rparr>\<rparr>"
    by simp_all
  have "reply_recorded (mem w) t m (rq_RawMIME q) (mem w')"
    unfolding reply_recorded_def
    by (simp add: w' w3 Store_Create_effect Store_Create_provider w2 w1_def) (simp add: m_def)
  moreover have "drew 1 w w'"
    using draw(2) d3 by (simp add: drew_def w')
  ultimately show ?thesis
    using r draw(1) by (intro exI [of _ i]) (simp add: Let_def t_def m_def u_def)
qed

lemma reply_recorded_resave:
  assumes "reply_recorded s t m raw s1" and "m_ProviderMessageID m = []"
    and "m_ID m' = m_ID m" and "m_ThreadID m' = m_ThreadID m" and "m_InboxID m' = m_InboxID m"
    and "m_MessageIDHeader m' = m_MessageIDHeader m" and "m_RawMIMEObjectKey m' = m_RawMIMEObjectKey m"
  shows "reply_recorded s t m' raw (index_message m' s1)"
  using assms by (simp add: reply_recorded_def index_message_inbound index_message_provider)

text \<open>The input of a reply that the service can assemble and record.\<close>

definition sendable :: "send_reply_input \<Rightarrow> bool" where
  "sendable input \<longleftrightarrow> i_EmailAddress (si_Inbox input) \<noteq> [] \<and> c_EmailAddress (si_Contact input) \<noteq> [] \<and>
     m_MessageIDHeader (si_ReplyToMessage input) \<noteq> [] \<and> si_ObjectKey input \<noteq> []"

definition reply_assembly :: "send_reply_input \<Rightarrow> reply_assembly_input" where
  "reply_assembly input = \<lparr>ra_Organization = si_Organization input, ra_Agent = si_Agent input,
     ra_Inbox = si_Inbox input, ra_Thread = si_Thread input, ra_ReplyToMessage = si_ReplyToMessage input,
     ra_Contact = si_Contact input, ra_BodyText = si_BodyText input\<rparr>"

definition reply_raw :: "send_reply_input \<Rightarrow> string" where
  "reply_raw input = join (reply_lines (reply_assembly input) generated_message_id @ [[], si_BodyText input]) crlf"

definition reply_queue_input :: "send_reply_input \<Rightarrow> gtime \<Rightarrow> record_queued_input" where
  "reply_queue_input input now =
     \<lparr>rq_Organization = si_Organization input, rq_Agent = si_Agent input, rq_Inbox = si_Inbox input,
      rq_Thread = si_Thread input, rq_Contact = si_Contact input,
      rq_Metadata = \<lparr>rm_MessageIDHeader = generated_message_id,
        rm_Subject = replySubject (m_Subject (si_ReplyToMessage input)),
        rm_InReplyTo = m_MessageIDHeader (si_ReplyToMessage input),
        rm_References = m_References (si_ReplyToMessage input) @ [m_MessageIDHeader (si_ReplyToMessage input)]\<rparr>,
      rq_RawMIME = reply_raw input, rq_ObjectKey = si_ObjectKey input, rq_BodyText = si_BodyText input,
      rq_QueuedAt = now\<rparr>"

definition sent_message :: "message \<Rightarrow> send_result \<Rightarrow> message" where
  "sent_message m sr = m\<lparr>m_DeliveryState := DeliveryStateSent, m_ProviderMessageID := sr_ProviderMessageID sr,
     m_SentAt := sr_AcceptedAt sr\<rparr>"

lemma sent_message_sel [simp]:
  "m_ID (sent_message m sr) = m_ID m" "m_ThreadID (sent_message m sr) = m_ThreadID m"
  "m_InboxID (sent_message m sr) = m_InboxID m" "m_ContactID (sent_message m sr) = m_ContactID m"
  "m_OrganizationID (sent_message m sr) = m_OrganizationID m"
  "m_MessageIDHeader (sent_message m sr) = m_MessageIDHeader m"
  "m_RawMIMEObjectKey (sent_message m sr) = m_RawMIMEObjectKey m"
  "m_DeliveryState (sent_message m sr) = DeliveryStateSent"
  "m_ProviderMessageID (sent_message m sr) = sr_ProviderMessageID sr"
  "m_SentAt (sent_message m sr) = sr_AcceptedAt sr"
  "m_InReplyTo (sent_message m sr) = m_InReplyTo m" "m_References (sent_message m sr) = m_References m"
  "m_TextBody (sent_message m sr) = m_TextBody m" "m_Direction (sent_message m sr) = m_Direction m"
  by (simp_all add: sent_message_def)

lemma rt_SaveMessage_run: "rt_SaveMessage m w = (Inr m, w\<lparr>mem := index_message m (mem w)\<rparr>)"
  by (simp add: rt_eqs Store_SaveMessage_def)

lemma reply_queued:
  assumes "sendable input"
  shows "\<exists>now i w2. let q = reply_queue_input input now; m = queued_message q i;
      t = stored_thread (mem w) (touch_outbound i now (si_Thread input)) in
    i = drawn_message_id w \<and> drew 1 w w2 \<and>
    reply_recorded (mem w) t m (reply_raw input) (mem w2) \<and>
    send_unsuppressed (newReplyService provider) input w =
      go_bind (ep_Send provider
        \<lparr>os_Organization = si_Organization input, os_Agent = si_Agent input, os_Inbox = si_Inbox input,
         os_Thread = t, os_Contact = si_Contact input, os_Message = m, os_RawMIME = reply_raw input\<rparr>)
       (\<lambda>sr. go_bind (rt_SaveMessage (sent_message m sr))
         (\<lambda>message. go_ret \<lparr>so_Thread = t, so_Message = message, so_SendResult = sr\<rparr>)) w2"
proof -
  define a where "a = reply_assembly input"
  define now where "now = clock_src w (clock_ix w)"
  define q where "q = reply_queue_input input now"
  have asm: "AssembleReply (go_ret generated_message_id) a w = (Inr (reply_raw input, rq_Metadata q), w)"
    using assms by (simp add: AssembleReply_def a_def reply_assembly_def sendable_def q_def
        reply_queue_input_def reply_raw_def Let_def)
  define w1 where "w1 = w\<lparr>clock_ix := Suc (clock_ix w)\<rparr>"
  have tick: "time_now w = (Inr now, w1)" by (simp add: time_now_def now_def w1_def)
  obtain r w2 where rec: "RecordQueuedReply rt_queue_recorder q w1 = (r, w2)"
    by (cases "RecordQueuedReply rt_queue_recorder q w1")
  have key: "rq_ObjectKey q \<noteq> []" using assms by (simp add: q_def reply_queue_input_def sendable_def)
  have qs: "rq_QueuedAt q = now" "rq_Thread q = si_Thread input" "rq_RawMIME q = reply_raw input"
    "mem w1 = mem w"
    by (simp_all add: q_def reply_queue_input_def w1_def)
  from RecordQueuedReply_run [OF rec key] obtain i where
    r: "r = Inr \<lparr>qd_Thread = stored_thread (mem w) (touch_outbound i now (si_Thread input)),
          qd_Message = queued_message q i\<rparr>"
    and eff: "reply_recorded (mem w) (stored_thread (mem w) (touch_outbound i now (si_Thread input)))
      (queued_message q i) (reply_raw input) (mem w2)"
    and draw: "i = drawn_message_id w1" "drew 1 w1 w2"
    by (auto simp: Let_def qs)
  have draw': "i = drawn_message_id w" "drew 1 w w2"
    using draw by (simp_all add: w1_def drew_def drawn_message_id_def)
  have "send_unsuppressed (newReplyService provider) input w =
      go_bind (ep_Send provider
        \<lparr>os_Organization = si_Organization input, os_Agent = si_Agent input, os_Inbox = si_Inbox input,
         os_Thread = stored_thread (mem w) (touch_outbound i now (si_Thread input)),
         os_Contact = si_Contact input, os_Message = queued_message q i, os_RawMIME = reply_raw input\<rparr>)
       (\<lambda>sr. go_bind (rt_SaveMessage (sent_message (queued_message q i) sr))
         (\<lambda>message. go_ret \<lparr>so_Thread = stored_thread (mem w) (touch_outbound i now (si_Thread input)),
            so_Message = message, so_SendResult = sr\<rparr>)) w2"
    unfolding send_unsuppressed_def newReplyService_def reply_service.simps
    apply (fold reply_assembly_def a_def)
    apply (rule go_bind_okI, rule asm, simp only: prod.case)
    apply (rule go_bind_okI, rule tick)
    apply (rule go_bind_okI [where x = "\<lparr>qd_Thread = stored_thread (mem w) (touch_outbound i now (si_Thread input)),
          qd_Message = queued_message q i\<rparr>"])
     apply (use rec r in \<open>simp add: q_def reply_queue_input_def\<close>)
    apply (simp add: SendQueuedReply_def RecordSent_def sent_message_def)
    done
  with eff draw' show ?thesis
    by (intro exI [of _ now] exI [of _ i] exI [of _ w2]) (simp add: Let_def q_def)
qed

text \<open>What the store and the result look like after a reply was sent.\<close>

definition reply_sent :: "mem_store \<Rightarrow> send_reply_input \<Rightarrow> send_reply_result \<Rightarrow> mem_store \<Rightarrow> bool" where
  "reply_sent s input r s' \<longleftrightarrow>
     reply_recorded s (so_Thread r) (so_Message r) (reply_raw input) s' \<and>
     m_DeliveryState (so_Message r) = DeliveryStateSent \<and>
     m_ProviderMessageID (so_Message r) = sr_ProviderMessageID (so_SendResult r) \<and>
     m_SentAt (so_Message r) = sr_AcceptedAt (so_SendResult r) \<and>
     m_InReplyTo (so_Message r) = m_MessageIDHeader (si_ReplyToMessage input) \<and>
     m_References (so_Message r) = m_References (si_ReplyToMessage input) @ [m_MessageIDHeader (si_ReplyToMessage input)] \<and>
     m_Direction (so_Message r) = MessageDirectionOutbound \<and> m_RawMIMEObjectKey (so_Message r) = si_ObjectKey input \<and>
     m_MessageIDHeader (so_Message r) = generated_message_id \<and>
     m_ThreadID (so_Message r) = t_ID (si_Thread input) \<and> t_ID (so_Thread r) = t_ID (si_Thread input) \<and>
     t_LastOutboundID (so_Thread r) = m_ID (so_Message r)"

text \<open>A reply the service can assemble, to a recipient that is not suppressed, is recorded and then
  handed to the provider: what is left of the call is the provider's answer \<open>ep_Send\<close> to the
  request \<open>q\<close> in the state \<open>v\<close> with the queued message, and the saving of the sent one.\<close>

definition handed_over :: "'z world_scheme \<Rightarrow> send_reply_input \<Rightarrow> outbound_send_request \<Rightarrow> 'z world_scheme \<Rightarrow> bool" where
  "handed_over w input q v \<longleftrightarrow>
     os_RawMIME q = reply_raw input \<and> os_Organization q = si_Organization input \<and> os_Agent q = si_Agent input \<and>
     os_Inbox q = si_Inbox input \<and> os_Contact q = si_Contact input \<and>
     reply_recorded (mem w) (os_Thread q) (os_Message q) (reply_raw input) (mem v) \<and>
     m_RawMIMEObjectKey (os_Message q) = si_ObjectKey input \<and>
     m_DeliveryState (os_Message q) = DeliveryStateQueued \<and> m_ProviderMessageID (os_Message q) = [] \<and>
     m_InReplyTo (os_Message q) = m_MessageIDHeader (si_ReplyToMessage input) \<and>
     m_References (os_Message q) = m_References (si_ReplyToMessage input) @ [m_MessageIDHeader (si_ReplyToMessage input)] \<and>
     m_Direction (os_Message q) = MessageDirectionOutbound \<and> m_MessageIDHeader (os_Message q) = generated_message_id \<and>
     m_ThreadID (os_Message q) = t_ID (si_Thread input) \<and> t_ID (os_Thread q) = t_ID (si_Thread input) \<and>
     t_LastOutboundID (os_Thread q) = m_ID (os_Message q)"

lemma handed_over_stored:
  "handed_over w input q v \<Longrightarrow> map_of (rawMessages (mem v)) (si_ObjectKey input) = Some (os_RawMIME q)"
  "handed_over w input q v \<Longrightarrow> map_of (messagesByID (mem v)) (m_ID (os_Message q)) = Some (os_Message q)"
  by (auto simp: handed_over_def reply_recorded_def)

lemma SendReply_hands_over:
  fixes w :: "'z world_scheme"
  assumes "world_ok w" and "sendable input"
    and free: "(o_ID (si_Organization input), c_EmailAddress (si_Contact input)) \<notin> snd (suppression_view w)"
  shows "\<exists>q v. handed_over w input q v \<and>
    SendReply (newReplyService provider) input w =
      go_bind (ep_Send provider q) (\<lambda>sr. go_bind (rt_SaveMessage (sent_message (os_Message q) sr))
        (\<lambda>message. go_ret \<lparr>so_Thread = os_Thread q, so_Message = message, so_SendResult = sr\<rparr>)) v"
proof -
  have svc: "rs_isSuppressed (newReplyService provider) = Some rt_IsSuppressed"
    by (simp add: newReplyService_def)
  obtain w0 where eq0: "SendReply (newReplyService provider) input w = send_unsuppressed (newReplyService provider) input w0"
    and chk: "rt_IsSuppressed (o_ID (si_Organization input)) (c_EmailAddress (si_Contact input)) w = (Inr False, w0)"
    using sup.SendReply_passes [OF assms(1) svc free] by auto
  have w0: "mem w0 = mem w" by (rule framesD [OF frames_rt_reads(21), OF chk])
  from reply_queued [OF assms(2), of w0 provider] obtain now i and w2 :: "'z world_scheme" where
    eff: "reply_recorded (mem w) (stored_thread (mem w) (touch_outbound i now (si_Thread input)))
      (queued_message (reply_queue_input input now) i) (reply_raw input) (mem w2)"
    and eq: "send_unsuppressed (newReplyService provider) input w0 =
      go_bind (ep_Send provider
        \<lparr>os_Organization = si_Organization input, os_Agent = si_Agent input, os_Inbox = si_Inbox input,
         os_Thread = stored_thread (mem w) (touch_outbound i now (si_Thread input)),
         os_Contact = si_Contact input, os_Message = queued_message (reply_queue_input input now) i,
         os_RawMIME = reply_raw input\<rparr>)
       (\<lambda>sr. go_bind (rt_SaveMessage (sent_message (queued_message (reply_queue_input input now) i) sr))
         (\<lambda>message. go_ret \<lparr>so_Thread = stored_thread (mem w) (touch_outbound i now (si_Thread input)),
            so_Message = message, so_SendResult = sr\<rparr>)) w2"
    by (auto simp: Let_def w0)
  have "t_LastOutboundID (stored_thread (mem w) (touch_outbound i now (si_Thread input))) = i"
    by (simp add: stored_thread_def merge_thread_def touch_outbound_def split: option.splits)
  with eff have "handed_over w input
        \<lparr>os_Organization = si_Organization input, os_Agent = si_Agent input, os_Inbox = si_Inbox input,
         os_Thread = stored_thread (mem w) (touch_outbound i now (si_Thread input)),
         os_Contact = si_Contact input, os_Message = queued_message (reply_queue_input input now) i,
         os_RawMIME = reply_raw input\<rparr> w2"
    by (simp add: handed_over_def) (simp add: reply_queue_input_def)
  with eq eq0 show ?thesis by (intro exI conjI) (assumption, simp)
qed

lemma SendReply_sent:
  fixes w w' :: "'z world_scheme"
  assumes "world_ok w" and "sendable input" and "\<And>q. frames mem (ep_Send provider q)"
    and "SendReply (newReplyService provider) input w = (Inr r, w')"
  shows "reply_sent (mem w) input r (mem w') \<and>
    (o_ID (si_Organization input), c_EmailAddress (si_Contact input)) \<notin> snd (suppression_view w) \<and>
    (\<exists>q v v'. handed_over w input q v \<and> ep_Send provider q v = (Inr (so_SendResult r), v') \<and>
      m_ID (os_Message q) = m_ID (so_Message r) \<and> mem v' = mem v)"
proof -
  have svc: "rs_isSuppressed (newReplyService provider) = Some rt_IsSuppressed"
    by (simp add: newReplyService_def)
  have free: "(o_ID (si_Organization input), c_EmailAddress (si_Contact input)) \<notin> snd (suppression_view w)"
    using sup.SendReply_refuses [OF assms(1) svc] assms(4) by force
  from SendReply_hands_over [OF assms(1,2) free, of provider] obtain q v where
    h: "handed_over w input q v" and
    eq: "SendReply (newReplyService provider) input w =
      go_bind (ep_Send provider q) (\<lambda>sr. go_bind (rt_SaveMessage (sent_message (os_Message q) sr))
        (\<lambda>message. go_ret \<lparr>so_Thread = os_Thread q, so_Message = message, so_SendResult = sr\<rparr>)) v"
    by blast
  from assms(4) [unfolded eq] obtain sr v' where
    send: "ep_Send provider q v = (Inr sr, v')"
    and r: "r = \<lparr>so_Thread = os_Thread q, so_Message = sent_message (os_Message q) sr, so_SendResult = sr\<rparr>"
    and w': "w' = v'\<lparr>mem := index_message (sent_message (os_Message q) sr) (mem v')\<rparr>"
    by (auto simp: go_bind_Inr_iff rt_SaveMessage_run)
  have v': "mem v' = mem v" by (rule framesD [OF assms(3), OF send])
  have "reply_recorded (mem w) (so_Thread r) (so_Message r) (reply_raw input) (mem w')"
    using h reply_recorded_resave [of "mem w" "os_Thread q" "os_Message q" "reply_raw input" "mem v"]
    by (simp add: handed_over_def w' r v')
  with h have "reply_sent (mem w) input r (mem w')"
    by (simp add: handed_over_def r reply_sent_def)
  with free h send v' show ?thesis by (auto simp: r)
qed

text \<open>C12: a reply that is sent leaves one outbound message in state \<open>sent\<close> under the provider's id,
  answering the message it replies to and carrying its references; the thread, with the caller's
  fields merged into the stored ones, points at the new message; no other map or entry of the
  store changes. The recipient was not suppressed, and the provider's answer is its answer to a
  request with the assembled bytes, made in a state in which exactly those bytes are already stored
  under the object key and the message of the request is already recorded as queued.\<close>

theorem sent_reply_recorded:
  assumes "world_ok w" and "sendable input" and "\<And>q. frames mem (ep_Send provider q)"
    and "SendReply (newReplyService provider) input w = (Inr r, w')"
  shows "reply_sent (mem w) input r (mem w') \<and>
    (o_ID (si_Organization input), c_EmailAddress (si_Contact input)) \<notin> snd (suppression_view w) \<and>
    (\<exists>q v v'. ep_Send provider q v = (Inr (so_SendResult r), v') \<and>
      os_RawMIME q = reply_raw input \<and>
      map_of (rawMessages (mem v)) (si_ObjectKey input) = Some (os_RawMIME q) \<and>
      map_of (messagesByID (mem v)) (m_ID (so_Message r)) = Some (os_Message q) \<and>
      m_DeliveryState (os_Message q) = DeliveryStateQueued \<and>
      handed_over w input q v)"
proof -
  from SendReply_sent [OF assms] obtain q v v' where "handed_over w input q v"
    "ep_Send provider q v = (Inr (so_SendResult r), v')" "m_ID (os_Message q) = m_ID (so_Message r)" by blast
  then show ?thesis
    using SendReply_sent [OF assms] handed_over_stored [of w input q v]
    by (intro conjI exI [of _ q] exI [of _ v] exI [of _ v']) (auto simp: handed_over_def)
qed


section \<open>Callbacks\<close>

context message_repo
begin

lemma ApplyCallback_unknown:
  assumes "inv s" and "snd (view s) (ce_ProviderMessageID event) = None"
  shows "\<exists>s'. ApplyCallback find_provider (RecordStatus save) event s = (Inl ErrProviderMessageNotFound, s') \<and>
    inv s' \<and> view s' = view s"
  using find_reads [OF assms(1), of "ce_ProviderMessageID event"] assms(2)
  by (auto simp: ApplyCallback_def go_bind_def)

lemma ApplyCallback_known:
  assumes "inv s" and m: "snd (view s) (ce_ProviderMessageID event) = Some m"
  defines "m' \<equiv> status_message m (ce_Status event) (ce_OccurredAt event)"
  shows "\<exists>s'. ApplyCallback find_provider (RecordStatus save) event s = (Inr m', s') \<and> inv s' \<and>
    fst (view s') = (fst (view s))(m_ID m \<mapsto> m') \<and>
    snd (view s') = (snd (view s))(ce_ProviderMessageID event \<mapsto> m')"
proof -
  obtain s1 where f: "find_provider (ce_ProviderMessageID event) s = (Inr (Some m), s1)"
    and s1: "inv s1" "view s1 = view s"
    using find_reads [OF assms(1), of "ce_ProviderMessageID event"] m by auto
  have pid: "m_ProviderMessageID m = ce_ProviderMessageID event" "ce_ProviderMessageID event \<noteq> []"
    using find_keyed [OF assms(1) m] by simp_all
  obtain s2 where sv: "save m' s1 = (Inr m', s2)" "inv s2"
    "fst (view s2) = (fst (view s1))(m_ID m' \<mapsto> m')"
    "snd (view s2) = (if m_ProviderMessageID m' = [] then snd (view s1)
                      else (snd (view s1))(m_ProviderMessageID m' \<mapsto> m'))"
    using save_stores [OF s1(1)] by blast
  have "ApplyCallback find_provider (RecordStatus save) event s = (Inr m', s2)"
    using f sv(1) by (simp add: ApplyCallback_def go_bind_def RecordStatus_def m'_def)
  with sv s1 pid show ?thesis by (intro exI [of _ s2]) (simp add: m'_def)
qed

end

lemma keeps_SendReply:
  assumes "\<And>q. frames mem (ep_Send provider q)"
  shows "keeps world_ok (SendReply (newReplyService provider) input)"
proof -
  have "keeps world_ok (ep_Send provider q)" for q
    by (rule frames_keeps_world [OF assms])
  then show ?thesis
    unfolding SendReply_def send_unsuppressed_def newReplyService_def reply_service.simps
      AssembleReply_def RecordQueuedReply_def queue_recorder.simps SendQueuedReply_def RecordSent_def
      newOutboundMessageID_def Let_def option.case
    by (auto intro!: keeps_bind keeps_if split: prod.split)
qed

lemma keeps_newOutboundCallbackFlow [intro, simp, keeps_rules]:
  "keeps world_ok (newOutboundCallbackFlow event contact)"
  unfolding newOutboundCallbackFlow_def CallbackFlow_Apply_def ApplyCallback_def RecordStatus_def
    Suppression_Apply_def newSuppressionID_def
  by (auto intro!: keeps_bind keeps_if split: option.split prod.split)

lemma CallbackFlow_known:
  assumes ok: "world_ok w" and m: "map_of (messagesByProviderID (mem w)) (ce_ProviderMessageID event) = Some m"
  shows "\<exists>res w'. newOutboundCallbackFlow event contact w = (Inr res, w') \<and>
    cf_Message res = status_message m (ce_Status event) (ce_OccurredAt event) \<and>
    map_of (messagesByID (mem w')) = (map_of (messagesByID (mem w)))(m_ID m \<mapsto> cf_Message res) \<and>
    map_of (messagesByProviderID (mem w')) =
      (map_of (messagesByProviderID (mem w)))(ce_ProviderMessageID event \<mapsto> cf_Message res) \<and>
    (cf_Suppressed res \<longleftrightarrow> ce_Status event = DeliveryStateHardBounce \<or> ce_Status event = DeliveryStateComplaint)"
proof -
  define m' where "m' = status_message m (ce_Status event) (ce_OccurredAt event)"
  have "snd (message_view w) (ce_ProviderMessageID event) = Some m"
    using m by (simp add: message_view_def)
  from msgs.ApplyCallback_known [OF ok this] obtain w1 where
    cb: "ApplyCallback rt_FindByProviderMessageID (RecordStatus rt_SaveMessage) event w = (Inr m', w1)"
    and maps: "map_of (messagesByID (mem w1)) = (map_of (messagesByID (mem w)))(m_ID m \<mapsto> m')"
      "map_of (messagesByProviderID (mem w1)) =
         (map_of (messagesByProviderID (mem w)))(ce_ProviderMessageID event \<mapsto> m')"
    by (auto simp: message_view_def m'_def)
  have "\<exists>res w'. newOutboundCallbackFlow event contact w = (Inr res, w') \<and> cf_Message res = m' \<and>
      messagesByID (mem w') = messagesByID (mem w1) \<and> messagesByProviderID (mem w') = messagesByProviderID (mem w1) \<and>
      (cf_Suppressed res \<longleftrightarrow> ce_Status event = DeliveryStateHardBounce \<or> ce_Status event = DeliveryStateComplaint)"
    unfolding newOutboundCallbackFlow_def CallbackFlow_Apply_def
    by (simp add: go_bind_def cb)
      (simp add: Suppression_Apply_def newSuppressionID_def go_bind_def random_id_run rt_eqs
        Store_SaveSuppression_def)
  with maps show ?thesis by (auto simp: m'_def)
qed

lemma CallbackFlow_unknown:
  "map_of (messagesByProviderID (mem w)) (ce_ProviderMessageID event) = None \<Longrightarrow>
   newOutboundCallbackFlow event contact w = (Inl ErrProviderMessageNotFound, w)"
  by (simp add: newOutboundCallbackFlow_def CallbackFlow_Apply_def ApplyCallback_def go_bind_def
        rt_eqs Store_FindByProviderMessageID_def)

text \<open>C31: a provider callback reaches the reply it is about. After a reply was sent under a provider id,
  the callback flow for that id finds that very message and moves it to the state the event
  names, with the time of the event, in both message indexes, and reports a suppression exactly
  for hard bounces and complaints; for an id nobody was given it fails and writes nothing.\<close>

theorem callback_reaches_reply:
  assumes "world_ok w" and "sendable input" and "\<And>q. frames mem (ep_Send provider q)"
    and "SendReply (newReplyService provider) input w = (Inr r, w')"
    and "sr_ProviderMessageID (so_SendResult r) \<noteq> []"
  shows "(\<exists>res w''. newOutboundCallbackFlow
        \<lparr>ce_ProviderMessageID = sr_ProviderMessageID (so_SendResult r), ce_Status = status, ce_OccurredAt = at\<rparr>
        contact w' = (Inr res, w'') \<and>
      m_ID (cf_Message res) = m_ID (so_Message r) \<and> m_ThreadID (cf_Message res) = t_ID (si_Thread input) \<and>
      m_DeliveryState (cf_Message res) = status \<and>
      map_of (messagesByID (mem w'')) (m_ID (so_Message r)) = Some (cf_Message res) \<and>
      map_of (messagesByProviderID (mem w'')) (sr_ProviderMessageID (so_SendResult r)) = Some (cf_Message res) \<and>
      (status = DeliveryStateDelivered \<longrightarrow> m_DeliveredAt (cf_Message res) = at) \<and>
      (cf_Suppressed res \<longleftrightarrow> status = DeliveryStateHardBounce \<or> status = DeliveryStateComplaint)) \<and>
    (map_of (messagesByProviderID (mem w')) (ce_ProviderMessageID other) = None \<longrightarrow>
      (\<exists>w''. newOutboundCallbackFlow other contact w' = (Inl ErrProviderMessageNotFound, w'') \<and> mem w'' = mem w'))"
proof -
  define event where "event = \<lparr>ce_ProviderMessageID = sr_ProviderMessageID (so_SendResult r),
     ce_Status = status, ce_OccurredAt = at\<rparr>"
  from SendReply_sent [OF assms(1-4)] have sent: "reply_sent (mem w) input r (mem w')" ..
  have ok: "world_ok w'" by (rule keepsD [OF keeps_SendReply, OF assms(3,1,4)])
  have "map_of (messagesByProviderID (mem w')) (ce_ProviderMessageID event) = Some (so_Message r)"
    using sent assms(5) by (simp add: event_def reply_sent_def reply_recorded_def)
  from CallbackFlow_known [OF ok this, of contact] sent CallbackFlow_unknown [of w' other contact] show ?thesis
    by (auto simp: event_def reply_sent_def)
qed

section \<open>The constant Message-ID\<close>

definition first_key :: "string \<Rightarrow> string list \<Rightarrow> string list" where
  "first_key k ks = k # remove1 k ks"

lemma grange_first:
  assumes "gmap_ok m" and "map_of m k = Some v"
  shows "\<exists>vs. grange (first_key k) m = v # vs"
proof -
  from assms(2) have k: "k \<in> set (gkeys m)" by (auto simp: set_gkeys)
  then have "length (first_key k (gkeys m)) = length (gkeys m)"
    by (simp add: first_key_def length_remove1) (metis Suc_pred length_pos_if_in_set)
  then have "is_order (first_key k (gkeys m)) (gkeys m)"
    using k distinct_gkeys [OF assms(1)]
    by (auto simp: is_order_def first_key_def list_all_iff dest: in_set_remove1 [THEN iffD1, rotated] notin_set_remove1)
  then show ?thesis using assms(2) by (simp add: grange_def legal_order_def first_key_def)
qed

text \<open>The reply service gives every reply the same Message-ID, so an answer to one of two replies
  cannot be told from an answer to the other: after replies in two threads, the lookup of that
  id finds the one thread or the other, depending on nothing but the order in which the map is
  visited.\<close>

theorem generated_message_id_ambiguous:
  assumes "world_ok w" and "sendable input1" and "sendable input2"
    and "\<And>q. frames mem (ep_Send provider q)"
    and run1: "SendReply (newReplyService provider) input1 w = (Inr r1, w1)"
    and run2: "SendReply (newReplyService provider) input2 w1 = (Inr r2, w2)"
    and "m_ID (so_Message r1) \<noteq> m_ID (so_Message r2)"
    and "t_ID (si_Thread input1) \<noteq> t_ID (si_Thread input2)"
  shows "\<exists>ord1 ord2.
    Store_FindByMessageID ord1 generated_message_id (mem w2) = (Inr (Some (so_Thread r1)), mem w2) \<and>
    Store_FindByMessageID ord2 generated_message_id (mem w2) = (Inr (Some (so_Thread r2)), mem w2) \<and>
    so_Thread r1 \<noteq> so_Thread r2"
proof -
  have ok1: "world_ok w1" by (rule keepsD [OF keeps_SendReply, OF assms(4,1) run1])
  have "world_ok w2" by (rule keepsD [OF keeps_SendReply, OF assms(4) ok1 run2])
  then have ok: "gmap_ok (messagesByID (mem w2))" by (simp add: world_ok_def mem_ok_def keyed_def)
  have s1: "reply_sent (mem w) input1 r1 (mem w1)" using SendReply_sent [OF assms(1,2,4) run1] ..
  have s2: "reply_sent (mem w1) input2 r2 (mem w2)" using SendReply_sent [OF ok1 assms(3,4) run2] ..
  have find: "Store_FindByMessageID (first_key (m_ID m)) generated_message_id (mem w2) = (Inr (Some t), mem w2)"
    if "map_of (messagesByID (mem w2)) (m_ID m) = Some m" "m_MessageIDHeader m = generated_message_id"
      "map_of (threadsByID (mem w2)) (m_ThreadID m) = Some t" for m t
    using grange_first [OF ok that(1)] that(2,3) by (auto simp: Store_FindByMessageID_def)
  have "Store_FindByMessageID (first_key (m_ID (so_Message r1))) generated_message_id (mem w2) =
      (Inr (Some (so_Thread r1)), mem w2)"
    by (rule find) (use s1 s2 assms(7,8) in \<open>simp_all add: reply_sent_def reply_recorded_def\<close>)
  moreover have "Store_FindByMessageID (first_key (m_ID (so_Message r2))) generated_message_id (mem w2) =
      (Inr (Some (so_Thread r2)), mem w2)"
    by (rule find) (use s2 in \<open>simp_all add: reply_sent_def reply_recorded_def\<close>)
  moreover have "so_Thread r1 \<noteq> so_Thread r2"
    using s1 s2 assms(8) by (auto simp: reply_sent_def)
  ultimately show ?thesis by blast
qed

section \<open>A concrete reply\<close>

definition demo_reply :: "string \<Rightarrow> string \<Rightarrow> send_reply_input" where
  "demo_reply threadID objectKey =
     \<lparr>si_Organization = zero_organization\<lparr>o_ID := ''org''\<rparr>, si_Agent = zero_agent,
      si_Inbox = zero_inbox\<lparr>i_ID := ''inbox'', i_EmailAddress := ''agent@x''\<rparr>,
      si_Thread = demo_thread\<lparr>t_ID := threadID\<rparr>, si_ReplyToMessage = demo_message,
      si_Contact = demo_contact, si_BodyText = ''Hello'', si_ObjectKey = objectKey,
      si_IdempotencyKey = []\<rparr>"

lemma demo_reply_sendable: "k \<noteq> [] \<Longrightarrow> sendable (demo_reply i k)"
  by (simp add: sendable_def demo_reply_def demo_defs)

lemma frames_dev_provider: "frames mem (ep_Send dev_provider q)"
  by (auto simp: dev_provider_def dev_randomID_def intro!: frames_bind)

lemma dev_Send_run:
  "\<exists>sr w'. ep_Send dev_provider q w = (Inr sr, w') \<and> sr_ProviderMessageID sr \<noteq> [] \<and> drew 1 w w'"
  by (simp add: dev_provider_def go_bind_def dev_randomID_def random_id_run time_now_def drew_def)

text \<open>With the local provider a reply to a recipient that is not suppressed always goes out.\<close>

lemma SendReply_dev:
  assumes "world_ok w" and "sendable input"
    and free: "(o_ID (si_Organization input), c_EmailAddress (si_Contact input)) \<notin> snd (suppression_view w)"
  shows "\<exists>r w'. SendReply (newReplyService dev_provider) input w = (Inr r, w') \<and>
    sr_ProviderMessageID (so_SendResult r) \<noteq> [] \<and> m_ID (so_Message r) = drawn_message_id w \<and> drew 2 w w'"
proof -
  have svc: "rs_isSuppressed (newReplyService dev_provider) = Some rt_IsSuppressed"
    by (simp add: newReplyService_def)
  obtain w0 where eq0: "SendReply (newReplyService dev_provider) input w = send_unsuppressed (newReplyService dev_provider) input w0"
    and chk: "rt_IsSuppressed (o_ID (si_Organization input)) (c_EmailAddress (si_Contact input)) w = (Inr False, w0)"
    using sup.SendReply_passes [OF assms(1) svc free] by auto
  have d0: "drew 0 w w0" using chk by (auto simp: rt_eqs drew_def)
  from reply_queued [OF assms(2), of w0 dev_provider] obtain now i w2 q t where
    i: "i = drawn_message_id w0" and d2: "drew 1 w0 w2" and
    eq: "send_unsuppressed (newReplyService dev_provider) input w0 = go_bind (ep_Send dev_provider q)
       (\<lambda>sr. go_bind (rt_SaveMessage (sent_message (queued_message (reply_queue_input input now) i) sr))
         (\<lambda>message. go_ret \<lparr>so_Thread = t, so_Message = message, so_SendResult = sr\<rparr>)) w2"
    by (auto simp: Let_def)
  obtain sr w3 where "ep_Send dev_provider q w2 = (Inr sr, w3)" "sr_ProviderMessageID sr \<noteq> []" "drew 1 w2 w3"
    using dev_Send_run by blast
  with i d0 d2 show ?thesis
    by (auto simp: eq0 eq go_bind_def rt_SaveMessage_run drew_0) (simp add: drew_def)
qed

lemma demo_not_suppressed:
  "suppressionsByID (mem w) = [] \<Longrightarrow> p \<notin> snd (suppression_view w)"
  by (simp add: suppression_view_def)

lemma demo_store_unsuppressed [simp]: "suppressionsByID demo_store = []"
  by (simp add: demo_defs)

lemma demo_sent:
  obtains r w' where "SendReply (newReplyService dev_provider) (demo_reply ''thread-1'' ''out'') (demo_world demo_store) = (Inr r, w')"
    and "sr_ProviderMessageID (so_SendResult r) \<noteq> []"
  using SendReply_dev [of "demo_world demo_store" "demo_reply ''thread-1'' ''out''"]
  by (auto simp: demo_store_ok demo_reply_sendable demo_not_suppressed)

theorem sent_reply_recorded_witness:
  "\<exists>r w' q (v :: world) v'. SendReply (newReplyService dev_provider) (demo_reply ''thread-1'' ''out'') (demo_world demo_store) = (Inr r, w') \<and>
     reply_sent demo_store (demo_reply ''thread-1'' ''out'') r (mem w') \<and>
     ep_Send dev_provider q v = (Inr (so_SendResult r), v') \<and>
     map_of (rawMessages (mem v)) ''out'' = Some (reply_raw (demo_reply ''thread-1'' ''out''))"
proof -
  obtain r w' where run: "SendReply (newReplyService dev_provider) (demo_reply ''thread-1'' ''out'') (demo_world demo_store) = (Inr r, w')"
    by (rule demo_sent)
  have key: "si_ObjectKey (demo_reply ''thread-1'' ''out'') = ''out''" by (simp add: demo_reply_def)
  have "world_ok (demo_world demo_store)" "sendable (demo_reply ''thread-1'' ''out'')"
    by (simp_all add: demo_store_ok demo_reply_sendable)
  from sent_reply_recorded [OF this frames_dev_provider run] obtain q and v v' :: world where
    "reply_sent demo_store (demo_reply ''thread-1'' ''out'') r (mem w')"
    "ep_Send dev_provider q v = (Inr (so_SendResult r), v')"
    "map_of (rawMessages (mem v)) ''out'' = Some (reply_raw (demo_reply ''thread-1'' ''out''))"
    by (auto simp: key)
  with run show ?thesis by blast
qed

theorem callback_reaches_reply_witness:
  "\<exists>r w' res w''. SendReply (newReplyService dev_provider) (demo_reply ''thread-1'' ''out'') (demo_world demo_store) = (Inr r, w') \<and>
     newOutboundCallbackFlow \<lparr>ce_ProviderMessageID = sr_ProviderMessageID (so_SendResult r),
        ce_Status = DeliveryStateDelivered, ce_OccurredAt = 7\<rparr> demo_contact w' = (Inr res, w'') \<and>
     m_ID (cf_Message res) = m_ID (so_Message r) \<and> m_DeliveredAt (cf_Message res) = 7"
proof -
  obtain r w' where run: "SendReply (newReplyService dev_provider) (demo_reply ''thread-1'' ''out'') (demo_world demo_store) = (Inr r, w')"
    and pid: "sr_ProviderMessageID (so_SendResult r) \<noteq> []"
    by (rule demo_sent)
  from callback_reaches_reply [OF _ demo_reply_sendable frames_dev_provider run pid,
      of DeliveryStateDelivered 7 demo_contact undefined] run show ?thesis
    by (auto simp: demo_store_ok)
qed

text \<open>A provider that refuses everything.\<close>

definition failing_provider :: "'s email_provider" where
  "failing_provider = \<lparr>ep_Send = (\<lambda>_. go_fail (ErrExternal ''throttled'')),
     ep_GetDeliveryStatus = (\<lambda>_. go_fail (ErrExternal ''throttled'')),
     ep_HealthCheck = go_fail (ErrExternal ''throttled'')\<rparr>"


definition demo_sent_store :: mem_store where
  "demo_sent_store = (let m = demo_message\<lparr>m_ProviderMessageID := ''p1''\<rparr> in
     demo_store\<lparr>messagesByID := [(''message-1'', m)], messagesByProviderID := [(''p1'', m)]\<rparr>)"

lemma demo_sent_store_ok: "mem_ok demo_sent_store"
  by (simp add: mem_ok_def keyed_def gmap_ok_def points_into_def demo_sent_store_def demo_defs Let_def)

theorem bounce_suppresses_replies_witness:
  "\<exists>res w' w''. newOutboundCallbackFlow \<lparr>ce_ProviderMessageID = ''p1'', ce_Status = DeliveryStateHardBounce,
        ce_OccurredAt = 7\<rparr> demo_contact (demo_world demo_sent_store) = (Inr res, w') \<and>
     SendReply (newReplyService dev_provider) (demo_reply ''thread-1'' ''out'') w' = (Inl ErrRecipientSuppressed, w'') \<and>
     mem w'' = mem w'"
proof -
  let ?ev = "\<lparr>ce_ProviderMessageID = ''p1'', ce_Status = DeliveryStateHardBounce, ce_OccurredAt = 7\<rparr>"
  have known: "map_of (messagesByProviderID (mem (demo_world demo_sent_store))) (ce_ProviderMessageID ?ev) =
      Some (demo_message\<lparr>m_ProviderMessageID := ''p1''\<rparr>)"
    by (simp add: demo_sent_store_def Let_def)
  have org: "m_OrganizationID (demo_message\<lparr>m_ProviderMessageID := ''p1''\<rparr>) = ''org''"
    by (simp add: demo_message_def)
  obtain res w' where run: "newOutboundCallbackFlow ?ev demo_contact (demo_world demo_sent_store) = (Inr res, w')"
    and m: "m_OrganizationID (cf_Message res) = ''org''"
    using CallbackFlow_known [OF _ known, of demo_contact] org by (auto simp: demo_sent_store_ok)
  from bounce_suppresses_replies [OF _ run, of "demo_reply ''thread-1'' ''out''" dev_provider] run m show ?thesis
    by (auto simp: demo_sent_store_ok demo_reply_def demo_defs)
qed

theorem generated_message_id_ambiguous_witness:
  "\<exists>r1 w1 r2 w2 ord1 ord2.
     SendReply (newReplyService dev_provider) (demo_reply ''thread-1'' ''out'') (demo_world demo_store) = (Inr r1, w1) \<and>
     SendReply (newReplyService dev_provider) (demo_reply ''thread-2'' ''out-2'') w1 = (Inr r2, w2) \<and>
     Store_FindByMessageID ord1 generated_message_id (mem w2) = (Inr (Some (so_Thread r1)), mem w2) \<and>
     Store_FindByMessageID ord2 generated_message_id (mem w2) = (Inr (Some (so_Thread r2)), mem w2) \<and>
     so_Thread r1 \<noteq> so_Thread r2"
proof -
  let ?w = "demo_world demo_store" and ?i1 = "demo_reply ''thread-1'' ''out''" and ?i2 = "demo_reply ''thread-2'' ''out-2''"
  obtain r1 w1 where run1: "SendReply (newReplyService dev_provider) ?i1 ?w = (Inr r1, w1)"
    and id1: "m_ID (so_Message r1) = drawn_message_id ?w" and d1: "drew 2 ?w w1"
    using SendReply_dev [of ?w ?i1] by (auto simp: demo_store_ok demo_reply_sendable demo_not_suppressed)
  have ok1: "world_ok w1"
    by (rule keepsD [OF keeps_SendReply, OF frames_dev_provider _ run1]) (simp add: demo_store_ok)
  have "reply_sent demo_store ?i1 r1 (mem w1)"
    using SendReply_sent [OF _ demo_reply_sendable frames_dev_provider run1] by (simp add: demo_store_ok)
  then have "suppressionsByID (mem w1) = []" by (simp add: reply_sent_def reply_recorded_def)
  then obtain r2 w2 where run2: "SendReply (newReplyService dev_provider) ?i2 w1 = (Inr r2, w2)"
    and id2: "m_ID (so_Message r2) = drawn_message_id w1"
    using SendReply_dev [OF ok1, of ?i2] by (auto simp: demo_reply_sendable demo_not_suppressed)
  have "m_ID (so_Message r1) \<noteq> m_ID (so_Message r2)"
    using d1 by (simp add: id1 id2 drawn_message_id_def drew_def hex_encode_inj)
  moreover have "t_ID (si_Thread ?i1) \<noteq> t_ID (si_Thread ?i2)" by (simp add: demo_reply_def)
  ultimately show ?thesis
    using generated_message_id_ambiguous [OF _ demo_reply_sendable demo_reply_sendable frames_dev_provider run1 run2]
      run1 run2 by (auto simp: demo_store_ok)
qed

end
