(* ===== verification/Services_Laws.thy ===== *)
theory Services_Laws
  imports Services Outbound_Laws Webhook_Laws
begin

text \<open>
  The laws of the application services: what the inbound runtime dispatches and when, that
  accepted mail is durable, and what happens to an announcement that cannot be delivered.
\<close>

section \<open>What the inbound runtime writes\<close>

definition inbox_view :: "'z world_scheme \<Rightarrow> string \<Rightarrow> inbox option" where
  "inbox_view w = map_of (inboxesByEmail (mem w))"

text \<open>The parts of the store that handling a message never touches.\<close>

definition edge_maps :: "'z world_scheme \<Rightarrow> string gmap \<times> durable_receipt_request gmap \<times> inbox gmap \<times>
    inbox gmap \<times> agent gmap \<times> organization gmap" where
  "edge_maps w = (rawMessages (mem w), inboundReceiptsByKey (mem w), inboxesByEmail (mem w),
     inboxesByID (mem w), agentsByID (mem w), organizationsByID (mem w))"

lemma frames_of_mem: "frames mem m \<Longrightarrow> frames edge_maps m"
  by (auto simp: frames_def edge_maps_def)

lemmas frames_edge_reads [intro, simp] = frames_mem_env [THEN frames_of_mem] frames_rt_reads [THEN frames_of_mem]
  frames_newInboundProcessor [THEN frames_of_mem] frames_find_duplicate [THEN frames_of_mem]
  frames_Dispatch [THEN frames_of_mem]

lemma keeps_Dispatch [intro, simp]: "keeps world_ok (Dispatcher_Dispatch url request)"
  by (rule frames_keeps_world [OF frames_Dispatch])

lemma frames_edge_writes [intro, simp]:
  "frames edge_maps (rt_UpsertByEmail c)"
  "frames edge_maps (rt_Save t)"
  "frames edge_maps (rt_Create m)"
  "frames edge_maps (rt_SaveWebhookDelivery d)"
  by (simp_all add: frames_def edge_maps_def rt_eqs Store_UpsertByEmail_def Store_Save_def
      Store_SaveWebhookDelivery_def Store_Create_def Let_def)

lemma frames_edge_inbound_base [intro, simp]: "frames edge_maps (inbound_base decode stored)"
  unfolding inbound_base_def HandleStoredMessage_def newInboundRecorder_def inbound_Record_def newMessageID_def
  by (auto intro!: frames_bind split: option.split)

lemma frames_edge_deliver [intro, simp]: "frames edge_maps (newMessageReceivedDeliveryService url secret bi)"
  unfolding newMessageReceivedDeliveryService_def DeliverAndRecordMessageReceived_def
    DeliverMessageReceived_def RecordAttempt_def Signer_Sign_def Let_def
  by (auto intro!: frames_bind frames_if split: prod.split)

lemma frames_edge_runtime: "frames edge_maps (runtime_handler decode config stored)"
  unfolding runtime_handler_def InboundRuntime_HandleStoredMessage_def dispatch_handled_def
    newMessageReceivedDelivery_def randomHexID_def
  by (auto intro!: frames_bind frames_if)

lemma keeps_deliver [intro, simp]: "keeps world_ok (newMessageReceivedDeliveryService url secret bi)"
  unfolding newMessageReceivedDeliveryService_def DeliverAndRecordMessageReceived_def
    DeliverMessageReceived_def RecordAttempt_def Signer_Sign_def Let_def
  by (auto intro!: keeps_bind keeps_if split: prod.split)

lemma keeps_runtime: "keeps world_ok (runtime_handler decode config stored)"
  unfolding runtime_handler_def InboundRuntime_HandleStoredMessage_def dispatch_handled_def
    newMessageReceivedDelivery_def randomHexID_def
  by (auto intro!: keeps_bind keeps_if)

section \<open>Accepted mail is durable\<close>

interpretation edge: durable_edge blob_view world_ok rt_Put rt_Get receipt_view rt_SaveInboundReceipt
  rt_GetInboundReceiptByObjectKey inbox_view rt_FindByEmailAddress "runtime_handler decode config"
  for decode config
proof unfold_locales
  show "world_ok s' \<and> blob_view s' = blob_view s \<and> receipt_view s' = receipt_view s \<and> inbox_view s' = inbox_view s"
    if "world_ok s" "runtime_handler decode config m s = (h, s')" for s m h and s' :: "'a world_scheme"
    using framesD [OF frames_edge_runtime that(2)] keepsD [OF keeps_runtime that]
    by (simp add: edge_maps_def blob_view_def receipt_view_def inbox_view_def)
qed (auto simp: rt_eqs inbox_view_def Store_FindByEmailAddress_def Store_Put_def Store_SaveInboundReceipt_def
    receipt_view_def blob_view_def world_ok_def intro: mem_ok_upds)

lemma newInboundService_run:
  "\<exists>config. newInboundService env decode w = (Inr (runtime_handler decode config), w)"
  by (auto simp: newInboundService_def currentOrganization_def currentAgent_def currentInbox_def go_bind_def
      go_try_def rt_reads_run)

lemma newSMTPSession_run:
  "\<exists>config sid w0. newSMTPSession env decode w =
     (Inr (edge_session rt_FindByEmailAddress rt_Put rt_SaveInboundReceipt (runtime_handler decode config)
             (clock_src w (clock_ix w)) sid), w0) \<and> mem w0 = mem w \<and> sid \<noteq> []"
proof -
  define w1 where "w1 = w\<lparr>clock_ix := Suc (clock_ix w)\<rparr>"
  obtain h where h: "randomHex 6 w1 = (Inr h, w1\<lparr>rand_ix := Suc (rand_ix w1)\<rparr>)"
    using randomHex_run [of 6 w1] by auto
  obtain config where "newInboundService env decode (w1\<lparr>rand_ix := Suc (rand_ix w1)\<rparr>) =
      (Inr (runtime_handler decode config), w1\<lparr>rand_ix := Suc (rand_ix w1)\<rparr>)"
    using newInboundService_run by blast
  with h show ?thesis
    by (intro exI [of _ config] exI [of _ "''smtp-'' @ format_session (clock_src w (clock_ix w)) @ ''-'' @ h"]
        exI [of _ "w1\<lparr>rand_ix := Suc (rand_ix w1)\<rparr>"])
      (simp add: newSMTPSession_def go_bind_def time_now_def NewSessionID_def w1_def)
qed

lemma smtp_session_inv:
  assumes "world_ok w" and "newSMTPSession env decode w = (Inr s0, w0)" and "session_reach s0 w0 s w1"
  obtains config sid where "edge.edge_inv (clock_src w (clock_ix w)) s0 w0 s w1" and "mem w0 = mem w"
    and "s0 = edge_session rt_FindByEmailAddress rt_Put rt_SaveInboundReceipt (runtime_handler decode config)
           (clock_src w (clock_ix w)) sid" and "sid \<noteq> []"
proof -
  obtain config sid where s0: "s0 = edge_session rt_FindByEmailAddress rt_Put rt_SaveInboundReceipt
      (runtime_handler decode config) (clock_src w (clock_ix w)) sid" and m: "mem w0 = mem w" and sid: "sid \<noteq> []"
    using newSMTPSession_run [of env decode w] assms(2) by auto
  have ok: "world_ok w0" using mem_eq_ok [OF m] assms(1) by simp
  from edge.edge_inv_reach [OF assms(3) s0 ok] s0 m sid show thesis by (intro that [of config sid]) simp_all
qed

text \<open>C6: whatever commands a client sends in one SMTP session, in any order and with any of them refused,
  every receipt that the session adds to the store names the session, its time, a sender that was
  given, and as its only recipient an address that belongs to an inbox of the store, with that
  inbox's organization, agent and id; and the bytes it points at are stored.\<close>

theorem smtp_session_receipts:
  assumes "world_ok w" and "newSMTPSession env decode w = (Inr s0, w0)" and "session_reach s0 w0 s w1"
    and "receipt_view w1 k = Some q"
  shows "receipt_view w k = Some q \<or>
    receipt_from (ss_sessionID s0) (clock_src w (clock_ix w)) (inbox_view w) k q \<and> blob_view w1 k \<noteq> None"
proof -
  obtain config where I: "edge.edge_inv (clock_src w (clock_ix w)) s0 w0 s w1" and m: "mem w0 = mem w"
    using smtp_session_inv [OF assms(1-3)] by blast
  have views: "receipt_view w0 = receipt_view w" "inbox_view w0 = inbox_view w"
    by (simp_all add: receipt_view_def inbox_view_def m)
  from I assms(4) show ?thesis unfolding edge.edge_inv_def views by blast
qed

lemma rt_Put_returns: "fst (rt_Put k d w) = Inr ()"
  by (simp add: rt_eqs Store_Put_def)

lemma rt_SaveInboundReceipt_returns: "fst (rt_SaveInboundReceipt q w) = Inr ()"
  by (simp add: rt_eqs Store_SaveInboundReceipt_def)

text \<open>C7: mail the session takes is durable before it is processed: once sender and recipient are
  accepted, DATA stores the bytes and a receipt for them under one key even when processing
  them fails, so that reprocessing that key later hands the pipeline the very receipt the sink
  handed it; the receipt passes validation when the inbox has its three ids.\<close>

theorem accepted_mail_is_durable:
  assumes "world_ok w" and "newSMTPSession env decode w = (Inr s0, w0)" and "session_reach s0 w0 s w1"
    and "ss_sender s \<noteq> []" and "ss_recipient s \<noteq> []"
    and run: "AdapterSession_call (NewAdapterSession session_core) (Data (Inr raw)) (s, w1) = (r, (s', w2))"
  shows "\<exists>k. blob_view w2 = (blob_view w1)(k \<mapsto> raw) \<and>
    receipt_view w2 = (receipt_view w1)(k \<mapsto> session_receipt s k (clock_src w (clock_ix w))) \<and>
    newInboundReprocessService decode config k w2 =
      runtime_handler decode config \<lparr>sm_Receipt = receipt_to_inbound (session_receipt s k (clock_src w (clock_ix w))),
        sm_RawSizeBytes = 0\<rparr> w2 \<and>
    (i_OrganizationID (ss_targetInbox s) \<noteq> [] \<and> i_AgentID (ss_targetInbox s) \<noteq> [] \<and>
     i_ID (ss_targetInbox s) \<noteq> [] \<and> clock_src w (clock_ix w) \<noteq> 0 \<longrightarrow>
       Validate (session_receipt s k (clock_src w (clock_ix w))) = None)"
proof -
  let ?at = "clock_src w (clock_ix w)"
  obtain config' sid where I: "edge.edge_inv ?at s0 w0 s w1"
    and s0: "s0 = edge_session rt_FindByEmailAddress rt_Put rt_SaveInboundReceipt (runtime_handler decode config')
           ?at sid" and sid: "sid \<noteq> []"
    using smtp_session_inv [OF assms(1-3)] by blast
  have ok: "world_ok w1" and wired: "same_wiring s s0" using I by (simp_all add: edge.edge_inv_def)
  from run assms(4,5) have acc: "session_accept s raw w1 = (r, w2)"
    by (auto simp: NewAdapterSession_def session_core_def Session_Data_def split: prod.splits)
  from edge.accept_effect [OF ok wired [unfolded s0] acc] obtain k where k: "k \<noteq> []"
    and eff: "blob_view w2 = (blob_view w1)(k \<mapsto> raw)"
      "receipt_view w2 = (receipt_view w1)(k \<mapsto> session_receipt s k ?at)"
    by (auto simp: rt_Put_returns rt_SaveInboundReceipt_returns)
  have "map_of (inboundReceiptsByKey (mem w2)) k = Some (session_receipt s k ?at)"
    using eff(2) by (simp add: receipt_view_def)
  then have "newInboundReprocessService decode config k w2 =
      runtime_handler decode config \<lparr>sm_Receipt = receipt_to_inbound (session_receipt s k ?at), sm_RawSizeBytes = 0\<rparr> w2"
    by (simp add: newInboundReprocessService_def ReprocessByObjectKey_def go_bind_def rt_reads_run)
  moreover have "ss_sessionID s \<noteq> []" using same_wiringD [OF wired] sid by (simp add: s0)
  ultimately show ?thesis
    using eff k assms(4) by (intro exI [of _ k]) (auto simp: Validate_None_iff session_receipt_def)
qed

text \<open>A session on a store with one inbox, after MAIL and RCPT, with a parser that rejects everything.\<close>

definition demo_inbox :: inbox where
  "demo_inbox = zero_inbox\<lparr>i_ID := ''inbox'', i_OrganizationID := ''org'', i_AgentID := ''agent'',
     i_EmailAddress := ''agent@x''\<rparr>"

definition demo_edge_store :: mem_store where
  "demo_edge_store = NewStore\<lparr>inboxesByID := [(''inbox'', demo_inbox)], inboxesByEmail := [(''agent@x'', demo_inbox)]\<rparr>"

definition demo_reject :: "string \<Rightarrow> gerr + parsed_message" where
  "demo_reject raw = Inl (ErrMsg ''malformed message'')"

lemma demo_edge_store_ok: "mem_ok demo_edge_store"
  by (simp add: mem_ok_def keyed_def gmap_ok_def points_into_def demo_edge_store_def NewStore_def demo_inbox_def)

lemma demo_session:
  "\<exists>s0 w0 s. newSMTPSession (\<lambda>_. []) demo_reject (demo_world demo_edge_store) = (Inr s0, w0) \<and>
     session_reach s0 w0 s w0 \<and> ss_sender s = ''ada@x'' \<and> ss_recipient s = ''agent@x'' \<and>
     ss_targetInbox s = demo_inbox \<and> mem w0 = demo_edge_store"
proof -
  obtain config sid w0 where s0: "newSMTPSession (\<lambda>_. []) demo_reject (demo_world demo_edge_store) =
      (Inr (edge_session rt_FindByEmailAddress rt_Put rt_SaveInboundReceipt (runtime_handler demo_reject config)
             (clock_src (demo_world demo_edge_store) (clock_ix (demo_world demo_edge_store))) sid), w0)"
    and m: "mem w0 = demo_edge_store"
    using newSMTPSession_run [of "\<lambda>_. []" demo_reject "demo_world demo_edge_store"] by auto
  define s :: "world session" where "s = edge_session rt_FindByEmailAddress rt_Put rt_SaveInboundReceipt (runtime_handler demo_reject config)
    (clock_src (demo_world demo_edge_store) (clock_ix (demo_world demo_edge_store))) sid"
  define s1 where "s1 = s\<lparr>ss_sender := ''ada@x''\<rparr>"
  define s2 where "s2 = s1\<lparr>ss_recipient := ''agent@x'', ss_targetInbox := demo_inbox\<rparr>"
  have a: "AdapterSession_call (NewAdapterSession session_core) (Mail ''ada@x'') (s, w0) = (Inr (), (s1, w0))"
    by (simp add: NewAdapterSession_def session_core_def Session_Mail_def s1_def)
  have lk: "ss_lookup s1 = rt_FindByEmailAddress" by (simp add: s1_def s_def)
  have b: "AdapterSession_call (NewAdapterSession session_core) (Rcpt ''agent@x'') (s1, w0) = (Inr (), (s2, w0))"
    by (simp add: NewAdapterSession_def session_core_def Session_Rcpt_def lk rt_reads_run m demo_edge_store_def s2_def)
  have "session_reach s w0 s2 w0"
    by (rule session_reach.call [OF session_reach.call [OF session_reach.start a] b])
  moreover have "ss_sender s2 = ''ada@x''" "ss_recipient s2 = ''agent@x''" "ss_targetInbox s2 = demo_inbox"
    by (simp_all add: s2_def s1_def)
  ultimately show ?thesis using s0 [folded s_def] m by blast
qed

theorem smtp_session_receipts_witness:
  "\<exists>s0 w0 s w1 r k q. newSMTPSession (\<lambda>_. []) demo_reject (demo_world demo_edge_store) = (Inr s0, w0) \<and>
     AdapterSession_call (NewAdapterSession session_core) (Data (Inr ''RAW'')) (s, w0) = (r, (s, w1)) \<and>
     receipt_view w1 k = Some q \<and> dr_EnvelopeRecipients q = [''agent@x''] \<and> blob_view w1 k \<noteq> None \<and>
     receipt_from (ss_sessionID s0) 63903204007000000000 (inbox_view (demo_world demo_edge_store)) k q"
proof -
  let ?w = "demo_world demo_edge_store"
  obtain s0 w0 s where new: "newSMTPSession (\<lambda>_. []) demo_reject ?w = (Inr s0, w0)"
    and reach: "session_reach s0 w0 s w0" and env: "ss_sender s = ''ada@x''" "ss_recipient s = ''agent@x''"
    and m: "mem w0 = demo_edge_store"
    using demo_session by blast
  obtain r w1 where acc: "session_accept s ''RAW'' w0 = (r, w1)" by (cases "session_accept s ''RAW'' w0")
  then have call: "AdapterSession_call (NewAdapterSession session_core) (Data (Inr ''RAW'')) (s, w0) = (r, (s, w1))"
    by (simp add: NewAdapterSession_def session_core_def Session_Data_def env)
  have ok: "world_ok ?w" by (simp add: demo_edge_store_ok)
  obtain config sid where I: "edge.edge_inv (clock_src ?w (clock_ix ?w)) s0 w0 s w0"
    and s0: "s0 = edge_session rt_FindByEmailAddress rt_Put rt_SaveInboundReceipt (runtime_handler demo_reject config)
      (clock_src ?w (clock_ix ?w)) sid"
    using smtp_session_inv [OF ok new reach] by blast
  have inv: "world_ok w0" and wired: "same_wiring s s0" using I by (simp_all add: edge.edge_inv_def)
  from edge.accept_effect [OF inv wired [unfolded s0] acc] obtain k where
    q: "receipt_view w1 = (receipt_view w0)(k \<mapsto> session_receipt s k (clock_src ?w (clock_ix ?w)))"
    by (auto simp: rt_Put_returns rt_SaveInboundReceipt_returns)
  have reach1: "session_reach s0 w0 s w1" by (rule session_reach.call [OF reach call])
  have none: "receipt_view ?w k = None" by (simp add: receipt_view_def demo_edge_store_def NewStore_def)
  have q': "receipt_view w1 k = Some (session_receipt s k (clock_src ?w (clock_ix ?w)))" using q by simp
  from smtp_session_receipts [OF ok new reach1 q'] none q' new call show ?thesis
    by (intro exI [of _ s0] exI [of _ w0] exI [of _ s] exI [of _ w1] exI [of _ r] exI [of _ k]
        exI [of _ "session_receipt s k (clock_src ?w (clock_ix ?w))"])
      (simp add: env session_receipt_def)
qed

theorem accepted_mail_is_durable_witness:
  "\<exists>s0 w0 s w1 r k. newSMTPSession (\<lambda>_. []) demo_reject (demo_world demo_edge_store) = (Inr s0, w0) \<and>
     AdapterSession_call (NewAdapterSession session_core) (Data (Inr ''RAW'')) (s, w0) = (r, (s, w1)) \<and>
     blob_view w1 k = Some ''RAW'' \<and> receipt_view w1 k \<noteq> None"
proof -
  let ?w = "demo_world demo_edge_store"
  obtain s0 w0 s where new: "newSMTPSession (\<lambda>_. []) demo_reject ?w = (Inr s0, w0)"
    and reach: "session_reach s0 w0 s w0" and env: "ss_sender s = ''ada@x''" "ss_recipient s = ''agent@x''"
    using demo_session by blast
  obtain r w1 where acc: "session_accept s ''RAW'' w0 = (r, w1)" by (cases "session_accept s ''RAW'' w0")
  then have call: "AdapterSession_call (NewAdapterSession session_core) (Data (Inr ''RAW'')) (s, w0) = (r, (s, w1))"
    by (simp add: NewAdapterSession_def session_core_def Session_Data_def env)
  have ok: "world_ok ?w" and given: "ss_sender s \<noteq> []" "ss_recipient s \<noteq> []"
    by (simp_all add: demo_edge_store_ok env)
  from accepted_mail_is_durable [OF ok new reach given call] obtain k where
    "blob_view w1 = (blob_view w0)(k \<mapsto> ''RAW'')"
    "receipt_view w1 = (receipt_view w0)(k \<mapsto> session_receipt s k (clock_src ?w (clock_ix ?w)))"
    by blast
  then have "blob_view w1 k = Some ''RAW''" "receipt_view w1 k \<noteq> None" by simp_all
  with new call show ?thesis by blast
qed

section \<open>Dispatching what was handled\<close>

text \<open>The network side of the world.\<close>

definition net :: "'z world_scheme \<Rightarrow> http_request list \<times>
    (http_request list \<Rightarrow> http_request \<Rightarrow> gerr + http_response) \<times> (string \<Rightarrow> gerr option)" where
  "net w = (http_log w, http_srv w, url_check w)"

lemma netD: "net w' = net w \<Longrightarrow> http_log w' = http_log w"
  "net w' = net w \<Longrightarrow> http_srv w' = http_srv w" "net w' = net w \<Longrightarrow> url_check w' = url_check w"
  by (simp_all add: net_def)

lemma frames_net_env [intro, simp]:
  "frames net (rand_read n)" "frames net time_now" "frames net next_order" "frames net (random_id p f)"
  by (auto simp: net_def frames_def rand_read_def time_now_def next_order_def random_id_run)

lemma frames_net_mem [intro, simp]: "frames net (on_mem f)" "frames net (on_mem_range g)"
  by (simp_all add: net_def frames_def on_mem_eq on_mem_range_eq)

lemma frames_net_find_reference: "frames net (find_reference rt_FindByMessageID refs)"
  by (induction refs) (auto intro!: frames_bind simp: rt_range_defs split: option.split)

lemma frames_net_subject: "frames net (resolve_subject rt_FindMostRecentBySubject threshold input)"
  unfolding resolve_subject_def newThreadID_def rt_range_defs Let_def
  by (auto intro!: frames_bind)

lemma frames_net_Resolve [intro, simp]:
  "frames net (threading_Resolve rt_FindByMessageID rt_FindMostRecentBySubject threshold input)"
  unfolding threading_Resolve_def Let_def
  by (auto intro!: frames_bind frames_net_subject frames_net_find_reference simp: rt_FindByMessageID_def split: option.split)

lemma frames_net_inbound_base: "frames net (inbound_base decode stored)"
proof -
  have c: "frames net (contacts_Resolve rt_FindByEmail ci)" for ci
    unfolding contacts_Resolve_def newContactID_def rt_read_defs Let_def
    by (auto intro!: frames_bind split: option.split)
  have p: "frames net (newInboundProcessor decode stored)"
    unfolding newInboundProcessor_def Processor_Process_def Parser_Parse_def Let_def
    by (auto intro!: frames_bind c simp: rt_Get_def)
  have d: "frames net (find_duplicate (Some rt_duplicates) stored parsed)" for parsed
    unfolding find_duplicate_def rt_duplicates_def rt_read_defs
    by (auto intro!: frames_bind split: option.split)
  have r: "frames net (newInboundRecorder stored pr)" for pr
    unfolding newInboundRecorder_def inbound_Record_def newMessageID_def rt_write_defs
    by (auto intro!: frames_bind)
  show ?thesis
    unfolding inbound_base_def HandleStoredMessage_def
    by (auto intro!: frames_bind p d r split: option.split)
qed

text \<open>What a webhook delivery leaves alone: everything in the store but the deliveries.\<close>

definition but_deliveries :: "'z world_scheme \<Rightarrow> mem_store" where
  "but_deliveries w = (mem w)\<lparr>webhookDeliveriesByID := []\<rparr>"

lemma frames_but_deliveries_of_mem: "frames mem m \<Longrightarrow> frames but_deliveries m"
  by (auto simp: frames_def but_deliveries_def)

lemmas frames_but_reads [intro, simp] = frames_mem_env [THEN frames_but_deliveries_of_mem]
  frames_rt_reads [THEN frames_but_deliveries_of_mem] frames_Dispatch [THEN frames_but_deliveries_of_mem]

lemma frames_but_save [intro, simp]: "frames but_deliveries (rt_SaveWebhookDelivery d)"
  by (simp add: frames_def but_deliveries_def rt_eqs Store_SaveWebhookDelivery_def)

lemma frames_but_deliver: "frames but_deliveries (newMessageReceivedDeliveryService url secret bi)"
  unfolding newMessageReceivedDeliveryService_def DeliverAndRecordMessageReceived_def
    DeliverMessageReceived_def RecordAttempt_def Signer_Sign_def Let_def
  by (auto intro!: frames_bind frames_if split: prod.split)

lemma but_deliveriesD:
  assumes "but_deliveries w' = but_deliveries w"
  shows "messagesByID (mem w') = messagesByID (mem w)" "messagesByThreadID (mem w') = messagesByThreadID (mem w)"
    "messagesByInboundKey (mem w') = messagesByInboundKey (mem w)" "threadsByID (mem w') = threadsByID (mem w)"
    "contactsByID (mem w') = contactsByID (mem w)" "rawMessages (mem w') = rawMessages (mem w)"
    "memoriesByID (mem w') = memoriesByID (mem w)" "memoriesByContactID (mem w') = memoriesByContactID (mem w)"
  using arg_cong [OF assms, of messagesByID] arg_cong [OF assms, of messagesByThreadID]
    arg_cong [OF assms, of messagesByInboundKey] arg_cong [OF assms, of threadsByID]
    arg_cong [OF assms, of contactsByID] arg_cong [OF assms, of rawMessages]
    arg_cong [OF assms, of memoriesByID] arg_cong [OF assms, of memoriesByContactID]
  by (simp_all add: but_deliveries_def)

text \<open>The ways the runtime comes out.\<close>

definition dispatching :: "inbound_runtime_config \<Rightarrow> handle_result \<Rightarrow> bool" where
  "dispatching config handled \<longleftrightarrow>
     \<not> hr_Duplicate handled \<and> rc_WebhookURL config \<noteq> [] \<and> ag_Status (rc_Agent config) = AgentStatusActive"

abbreviation rt_dispatch :: "inbound_runtime_config \<Rightarrow> handle_result \<Rightarrow> ('z world_scheme, handle_result) go" where
  "rt_dispatch config \<equiv> dispatch_handled rt_ListByThreadID rt_ListMemoryByContactID
     newMessageReceivedDeliveryService time_now (NewInboundRuntimeService config)"

lemma NewInboundRuntimeService_sel [simp]:
  "rc_Organization (NewInboundRuntimeService c) = rc_Organization c"
  "rc_Agent (NewInboundRuntimeService c) = rc_Agent c" "rc_Inbox (NewInboundRuntimeService c) = rc_Inbox c"
  "rc_WebhookURL (NewInboundRuntimeService c) = rc_WebhookURL c"
  "rc_WebhookSecret (NewInboundRuntimeService c) = rc_WebhookSecret c"
  "rc_HistoryLimit (NewInboundRuntimeService c) = (if rc_HistoryLimit c \<le> 0 then 20 else rc_HistoryLimit c)"
  "rc_MemoryLimit (NewInboundRuntimeService c) = (if rc_MemoryLimit c \<le> 0 then 10 else rc_MemoryLimit c)"
  by (simp_all add: NewInboundRuntimeService_def Let_def)

lemma runtime_handler_run:
  "runtime_handler decode config stored =
     go_bind (inbound_base decode stored) (\<lambda>h. if dispatching config h then rt_dispatch config h else go_ret h)"
  by (auto simp: runtime_handler_def InboundRuntime_HandleStoredMessage_def dispatching_def intro!: arg_cong2 [of _ _ _ _ go_bind])

lemma rt_lists_run:
  "rt_ListByThreadID k n w = (Inr (map (\<lambda>i. case map_of (messagesByID (mem w)) i of None \<Rightarrow> zero_message | Some m \<Rightarrow> m)
     (take_limit n (slice_at (messagesByThreadID (mem w)) k))), w)"
  "rt_ListMemoryByContactID k n w = (Inr (map (\<lambda>i. case map_of (memoriesByID (mem w)) i of None \<Rightarrow> zero_memory | Some m \<Rightarrow> m)
     (take_limit n (slice_at (memoriesByContactID (mem w)) k))), w)"
  by (simp_all add: rt_eqs store_read_defs)

text \<open>The messages a dispatch sends along, and its build input.\<close>

definition thread_history :: "inbound_runtime_config \<Rightarrow> handle_result \<Rightarrow> 'z world_scheme \<Rightarrow> message list" where
  "thread_history config h w = projr (fst (rt_ListByThreadID (t_ID (hr_Thread h))
     (if rc_HistoryLimit config \<le> 0 then 20 else rc_HistoryLimit config) w))"

definition contact_memory :: "inbound_runtime_config \<Rightarrow> handle_result \<Rightarrow> 'z world_scheme \<Rightarrow> contact_memory_entry list" where
  "contact_memory config h w = projr (fst (rt_ListMemoryByContactID (c_ID (hr_Contact h))
     (if rc_MemoryLimit config \<le> 0 then 10 else rc_MemoryLimit config) w))"

definition dispatch_input ::
    "inbound_runtime_config \<Rightarrow> handle_result \<Rightarrow> message list \<Rightarrow> contact_memory_entry list \<Rightarrow>
     build_message_received_input \<Rightarrow> bool" where
  "dispatch_input config handled history memory bi \<longleftrightarrow> bi_Memory bi = memory \<and>
     bi_Organization bi = rc_Organization config \<and> bi_Agent bi = rc_Agent config \<and> bi_Inbox bi = rc_Inbox config \<and>
     bi_Handled bi = handled \<and> bi_ThreadMessages bi = history \<and>
     wd_EventType (bi_Delivery bi) = ''message.received'' \<and> wd_AttemptCount (bi_Delivery bi) = 0 \<and>
     wd_OrganizationID (bi_Delivery bi) = o_ID (rc_Organization config)"

lemma dispatch_handled_run:
  "\<exists>bi w1. dispatch_input config h (thread_history config h w) (contact_memory config h w) bi \<and> mem w1 = mem w \<and> net w1 = net w \<and>
     rt_dispatch config h w =
       go_bind (newMessageReceivedDeliveryService (rc_WebhookURL config) (rc_WebhookSecret config) bi) (\<lambda>_. go_ret h) w1"
proof -
  let ?hist = "thread_history config h w"
  let ?n = "rc_HistoryLimit (NewInboundRuntimeService config)"
  have l: "rt_ListByThreadID (t_ID (hr_Thread h)) ?n w = (Inr ?hist, w)"
    by (simp add: thread_history_def rt_lists_run)
  let ?ms = "contact_memory config h w"
  have m: "rt_ListMemoryByContactID (c_ID (hr_Contact h)) (rc_MemoryLimit (NewInboundRuntimeService config)) w = (Inr ?ms, w)"
    by (simp add: contact_memory_def rt_lists_run)
  define w1 where "w1 = w\<lparr>clock_ix := Suc (clock_ix w)\<rparr>"
  have t: "time_now w = (Inr (clock_src w (clock_ix w)), w1)" by (simp add: time_now_def w1_def)
  obtain d w2 where d: "newMessageReceivedDelivery (o_ID (rc_Organization config)) (ag_ID (rc_Agent config))
      (clock_src w (clock_ix w)) w1 = (Inr d, w2)"
    and w2: "mem w2 = mem w1" "net w2 = net w1"
    and ds: "wd_EventType d = ''message.received''" "wd_AttemptCount d = 0"
      "wd_OrganizationID d = o_ID (rc_Organization config)"
    by (simp add: newMessageReceivedDelivery_def randomHexID_def go_bind_def random_id_run zero_delivery_def net_def)
  show ?thesis
    by (rule exI [of _ "\<lparr>bi_Organization = rc_Organization config, bi_Agent = rc_Agent config,
         bi_Inbox = rc_Inbox config, bi_Delivery = d, bi_Handled = h, bi_ThreadMessages = ?hist, bi_Memory = ?ms\<rparr>"],
        rule exI [of _ w2])
      (use l m t d w2 ds in \<open>simp add: dispatch_handled_def dispatch_input_def go_bind_def w1_def net_def\<close>)
qed

lemma inbound_base_deliveries:
  "inbound_base decode stored w = (Inr r, w') \<Longrightarrow> delivery_view w' = delivery_view w"
  by (erule inbound_base_cases) (simp_all add: delivery_view_def recorded_defs)

lemma dispatched:
  fixes w w' :: "'z world_scheme"
  assumes "rt_dispatch config h w = (r, w')"
  shows "but_deliveries w' = but_deliveries w \<and> (case r of Inl e \<Rightarrow> True | Inr x \<Rightarrow> x = h)"
proof -
  obtain bi and w2 :: "'z world_scheme" where w2: "mem w2 = mem w"
    and eq: "rt_dispatch config h w =
      go_bind (newMessageReceivedDeliveryService (rc_WebhookURL config) (rc_WebhookSecret config) bi) (\<lambda>_. go_ret h) w2"
    using dispatch_handled_run [of config h w] by blast
  obtain x w3 where x: "newMessageReceivedDeliveryService (rc_WebhookURL config) (rc_WebhookSecret config) bi w2 = (x, w3)"
    by (cases "newMessageReceivedDeliveryService (rc_WebhookURL config) (rc_WebhookSecret config) bi w2")
  have "w' = w3" "case r of Inl e \<Rightarrow> True | Inr y \<Rightarrow> y = h"
    using assms eq x by (cases x; auto simp: go_bind_def)+
  then show ?thesis using framesD [OF frames_but_deliver x] w2 by (simp add: but_deliveries_def)
qed

text \<open>The handler is the base service and the announcement, which writes deliveries only.\<close>

lemma handled_base:
  fixes w w' w1 :: "'z world_scheme"
  assumes "inbound_base decode stored w = (Inr h, w1)" and "runtime_handler decode config stored w = (r, w')"
  shows "but_deliveries w' = but_deliveries w1"
    and "r = Inr h \<or> (\<exists>e. r = Inl e \<and> dispatching config h \<and> rt_dispatch config h w1 = (Inl e, w'))"
proof -
  have run: "(if dispatching config h then rt_dispatch config h else go_ret h) w1 = (r, w')"
    using assms by (simp add: runtime_handler_run go_bind_def)
  then show "but_deliveries w' = but_deliveries w1"
    using dispatched [of config h w1 r w'] by (auto split: if_splits)
  from run show "r = Inr h \<or> (\<exists>e. r = Inl e \<and> dispatching config h \<and> rt_dispatch config h w1 = (Inl e, w'))"
    using dispatched [of config h w1 r w'] by (cases r) (auto split: if_splits)
qed

lemma thread_history_cong:
  "messagesByID (mem w') = messagesByID (mem w) \<Longrightarrow> messagesByThreadID (mem w') = messagesByThreadID (mem w) \<Longrightarrow>
   thread_history config h w' = thread_history config h w"
  by (simp add: thread_history_def rt_lists_run)

lemma contact_memory_cong:
  "memoriesByID (mem w') = memoriesByID (mem w) \<Longrightarrow> memoriesByContactID (mem w') = memoriesByContactID (mem w) \<Longrightarrow>
   contact_memory config h w' = contact_memory config h w"
  by (simp add: contact_memory_def rt_lists_run)

lemma handler_announces:
  assumes "world_ok w" and run: "runtime_handler decode config stored w = (Inr r, w')"
  shows "if dispatching config r
    then \<exists>q bi d. http_log w' = http_log w @ [q] \<and> hq_Method q = ''POST'' \<and> hq_URL q = rc_WebhookURL config \<and>
      subscriber_accepts (rc_WebhookSecret config) q \<and> hq_Body q = json_encode (message_received_payload bi) \<and>
      dispatch_input config r (thread_history config r w') (contact_memory config r w') bi \<and>
      delivery_view w' = (delivery_view w)(wd_ID (bi_Delivery bi) \<mapsto> d) \<and>
      wd_RequestPayload d = hq_Body q \<and> wd_AttemptCount d = 1
    else http_log w' = http_log w \<and> delivery_view w' = delivery_view w"
proof -
  from run obtain h w1 where base: "inbound_base decode stored w = (Inr h, w1)"
    and rest: "(if dispatching config h then rt_dispatch config h else go_ret h) w1 = (Inr r, w')"
    unfolding runtime_handler_run by (rule go_bind_InrE)
  have log1: "http_log w1 = http_log w" by (rule netD(1) [OF framesD [OF frames_net_inbound_base base]])
  note view1 = inbound_base_deliveries [OF base]
  have ok1: "world_ok w1" by (rule keepsD [OF keeps_inbound_base assms(1) base])
  show ?thesis
  proof (cases "dispatching config h")
    case False
    with rest log1 view1 show ?thesis by simp
  next
    case True
    obtain bi w2 where bi: "dispatch_input config h (thread_history config h w1) (contact_memory config h w1) bi"
      and w2: "mem w2 = mem w1" "net w2 = net w1"
      and eq: "rt_dispatch config h w1 =
        go_bind (newMessageReceivedDeliveryService (rc_WebhookURL config) (rc_WebhookSecret config) bi) (\<lambda>_. go_ret h) w2"
      using dispatch_handled_run [of config h w1] by blast
    from rest True obtain x where
      del: "newMessageReceivedDeliveryService (rc_WebhookURL config) (rc_WebhookSecret config) bi w2 = (Inr x, w')"
      and r: "r = h"
      by (auto simp: eq go_bind_Inr_iff)
    have ok2: "world_ok w2" using ok1 mem_eq_ok [OF w2(1)] by simp
    have "wd_AttemptCount (bi_Delivery bi) = 0" using bi by (simp add: dispatch_input_def)
    from deliver_recorded [OF ok2 del this] obtain q where
      q: "http_log w' = http_log w2 @ [q]" "hq_Method q = ''POST''" "hq_URL q = rc_WebhookURL config"
        "hq_Body q = json_encode (message_received_payload bi)" "subscriber_accepts (rc_WebhookSecret config) q"
        "delivery_view w' = (delivery_view w2)(wd_ID (bi_Delivery bi) \<mapsto> dv_Delivery x)"
        "wd_RequestPayload (dv_Delivery x) = hq_Body q" "wd_AttemptCount (dv_Delivery x) = 1"
      by blast
    have "thread_history config h w' = thread_history config h w1"
      using but_deliveriesD [OF framesD [OF frames_but_deliver del]] w2 by (intro thread_history_cong) simp_all
    moreover have "contact_memory config h w' = contact_memory config h w1"
      using but_deliveriesD [OF framesD [OF frames_but_deliver del]] w2 by (intro contact_memory_cong) simp_all
    ultimately have bi': "dispatch_input config h (thread_history config h w') (contact_memory config h w') bi"
      using bi by simp
    with q w2 netD(1) [OF w2(2)] log1 view1 True r show ?thesis
      by (auto simp: delivery_view_def intro!: exI [of _ q] exI [of _ bi] exI [of _ "dv_Delivery x"])
  qed
qed

text \<open>C8: exactly the messages that are new, for an active agent with a webhook URL, are announced: then
  one signed POST goes to that URL, its body is the payload that describes this message, the
  configured records, the history of its thread and what is remembered of its contact, and one delivery with that body is recorded
  after one attempt. A duplicate, a paused agent or a missing URL sends and records nothing.\<close>

theorem new_messages_announced:
  assumes "world_ok w" and run: "runtime_handler decode config stored w = (Inr r, w')"
  shows "if dispatching config r
    then \<exists>q bi d. http_log w' = http_log w @ [q] \<and> hq_Method q = ''POST'' \<and> hq_URL q = rc_WebhookURL config \<and>
      subscriber_accepts (rc_WebhookSecret config) q \<and> hq_Body q = json_encode (message_received_payload bi) \<and>
      dispatch_input config r (thread_history config r w') (contact_memory config r w') bi \<and>
      delivery_view w' = (delivery_view w)(wd_ID (bi_Delivery bi) \<mapsto> d) \<and>
      wd_RequestPayload d = hq_Body q \<and> wd_AttemptCount d = 1
    else http_log w' = http_log w \<and> delivery_view w' = delivery_view w"
  using assms by (rule handler_announces)

text \<open>A failed dispatch, and what a later delivery of the same message does.\<close>

lemma deliver_failed_mem:
  assumes "newMessageReceivedDeliveryService url secret bi w = (Inl e, w')"
  shows "mem w' = mem w"
proof -
  have frame: "frames mem (DeliverMessageReceived Dispatcher_Dispatch url secret bi)"
    unfolding DeliverMessageReceived_def Signer_Sign_def Let_def by (auto intro!: frames_bind frames_if)
  from assms have "DeliverMessageReceived Dispatcher_Dispatch url secret bi w = (Inl e, w')"
    unfolding newMessageReceivedDeliveryService_def DeliverAndRecordMessageReceived_def go_bind_Inl_iff
    by (auto simp: go_bind_Inl_iff RecordAttempt_def rt_eqs Store_SaveWebhookDelivery_def)
  then show ?thesis by (rule framesD [OF frame])
qed

lemma unreachable_deliver:
  assumes "unreachable w"
  shows "\<exists>e w'. newMessageReceivedDeliveryService url secret bi w = (Inl e, w')"
proof (cases "secret = []")
  case True
  then show ?thesis
    by (simp add: newMessageReceivedDeliveryService_def DeliverAndRecordMessageReceived_def
        DeliverMessageReceived_def go_bind_def Signer_Sign_run)
next
  case False
  then obtain request where sign: "Signer_Sign (Builder_Build bi) secret w = (Inr request, w\<lparr>clock_ix := Suc (clock_ix w)\<rparr>)"
    by (simp add: Signer_Sign_run)
  have "unreachable (w\<lparr>clock_ix := Suc (clock_ix w)\<rparr>)" using assms by (simp add: unreachable_def)
  from unreachable_Dispatch [OF this, of url request] sign show ?thesis
    by (auto simp: newMessageReceivedDeliveryService_def DeliverAndRecordMessageReceived_def
        DeliverMessageReceived_def go_bind_def)
qed

text \<open>A message that is already there comes back as it is, and nothing is sent.\<close>

lemma runtime_duplicate:
  assumes "world_ok v"
    and "map_of (rawMessages (mem v)) (ir_RawMessageObjectKey (sm_Receipt stored)) = Some raw"
    and "decode raw = Inr parsed" and "pm_MessageIDHeader parsed \<noteq> []"
    and "known_inbound (mem v) (ir_InboxID (sm_Receipt stored)) (pm_MessageIDHeader parsed) m t c"
  shows "\<exists>r v'. runtime_handler decode config stored v = (Inr r, v') \<and> hr_Duplicate r \<and> hr_Message r = m \<and>
    mem v' = mem v \<and> http_log v' = http_log v"
proof -
  obtain v' where dup: "inbound_base decode stored v = (Inr \<lparr>hr_ParsedMessage = parsed,
      hr_Contact = c, hr_Thread = t, hr_Message = m,
      hr_ThreadMatchStrategy = ''duplicate'', hr_ThreadCreated = False, hr_Duplicate = True\<rparr>, v')" (is "_ = (Inr ?r, _)")
    and v': "mem v' = mem v"
    using inbound_base_known [of v stored raw decode parsed m t c, OF assms] by auto
  have "runtime_handler decode config stored v = (Inr ?r, v')"
    unfolding runtime_handler_run by (rule go_bind_okI, rule dup) (simp add: dispatching_def)
  with v' netD(1) [OF framesD [OF frames_net_inbound_base dup]] show ?thesis by auto
qed


section \<open>Concrete announcements\<close>

definition demo_config :: inbound_runtime_config where
  "demo_config = \<lparr>rc_Organization = zero_organization, rc_Agent = zero_agent\<lparr>ag_Status := AgentStatusActive\<rparr>,
     rc_Inbox = zero_inbox, rc_WebhookURL = ''http://sub/'', rc_WebhookSecret = ''key'', rc_HistoryLimit = 1,
     rc_MemoryLimit = 0\<rparr>"

lemma demo_config_sel [simp]:
  "rc_WebhookURL demo_config = ''http://sub/''" "rc_WebhookSecret demo_config = ''key''"
  "ag_Status (rc_Agent demo_config) = AgentStatusActive" "rc_HistoryLimit demo_config = 1"
  by (simp_all add: demo_config_def)

text \<open>A subscriber that answers 200 to everything.\<close>

lemma reachable_deliver:
  assumes "http_srv w = (\<lambda>log q. Inr \<lparr>hp_StatusCode = 200, hp_Body = Inr []\<rparr>)" and "url_check w url = None"
    and "secret \<noteq> []"
  shows "\<exists>r w'. newMessageReceivedDeliveryService url secret bi w = (Inr r, w')"
  using assms
  by (simp add: newMessageReceivedDeliveryService_def DeliverAndRecordMessageReceived_def
      DeliverMessageReceived_def go_bind_def Signer_Sign_run Dispatch_run RecordAttempt_def rt_eqs
      Store_SaveWebhookDelivery_def Let_def)

lemma demo_announced:
  "\<exists>r w'. runtime_handler demo_decode demo_config demo_stored (demo_world demo_raw_store) = (Inr r, w') \<and>
     dispatching demo_config r"
proof -
  let ?w = "demo_world demo_raw_store"
  obtain h w1 where base: "inbound_base demo_decode demo_stored ?w = (Inr h, w1)" and new: "\<not> hr_Duplicate h"
    using inbound_base_fresh [of ?w demo_stored "''RAW''" demo_decode demo_parsed]
    by (auto simp: demo_raw_store_ok demo_raw_store_maps demo_delivery)
  have on: "dispatching demo_config h" using new by (simp add: dispatching_def)
  obtain bi w2 where net: "net w2 = net w1"
    and eq: "rt_dispatch demo_config h w1 = go_bind (newMessageReceivedDeliveryService ''http://sub/'' ''key'' bi) (\<lambda>_. go_ret h) w2"
    using dispatch_handled_run [of demo_config h w1] by auto
  have net2: "net w2 = net ?w" using net framesD [OF frames_net_inbound_base base] by simp
  have srv: "http_srv w2 = (\<lambda>log q. Inr \<lparr>hp_StatusCode = 200, hp_Body = Inr []\<rparr>)"
    by (simp add: netD(2) [OF net2] fun_eq_iff)
  obtain x w' where del: "newMessageReceivedDeliveryService ''http://sub/'' ''key'' bi w2 = (Inr x, w')"
    using reachable_deliver [OF srv] by (force simp: netD(3) [OF net2])
  have "runtime_handler demo_decode demo_config demo_stored ?w = (Inr h, w')"
    unfolding runtime_handler_run by (rule go_bind_okI, rule base) (simp add: on eq go_bind_def del)
  with on show ?thesis by blast
qed

theorem new_messages_announced_witness:
  "\<exists>r w' q. runtime_handler demo_decode demo_config demo_stored (demo_world demo_raw_store) = (Inr r, w') \<and>
     \<not> hr_Duplicate r \<and> http_log w' = [q] \<and> hq_URL q = ''http://sub/'' \<and> subscriber_accepts ''key'' q"
proof -
  obtain r w' where run: "runtime_handler demo_decode demo_config demo_stored (demo_world demo_raw_store) = (Inr r, w')"
    and on: "dispatching demo_config r"
    using demo_announced by blast
  from new_messages_announced [OF _ run] on run show ?thesis
    by (auto simp: demo_raw_store_ok dispatching_def)
qed


end
