(* ===== verification/Reply_Laws.thy ===== *)
theory Reply_Laws
  imports Services_Laws
begin

text \<open>
  The reply handler: a reply that carries an idempotency key is sent once, and what a failed send
  leaves behind.
\<close>

section \<open>Replies are idempotent\<close>

lemma AssembleReply_InrD:
  "AssembleReply g a w = (Inr x, w') \<Longrightarrow> i_EmailAddress (ra_Inbox a) \<noteq> [] \<and>
     c_EmailAddress (ra_Contact a) \<noteq> [] \<and> m_MessageIDHeader (ra_ReplyToMessage a) \<noteq> []"
  by (auto simp: AssembleReply_def Let_def split: if_splits)

lemma RecordQueuedReply_InrD: "RecordQueuedReply rt_queue_recorder y w = (Inr x, w') \<Longrightarrow> rq_ObjectKey y \<noteq> []"
  by (auto simp: RecordQueuedReply_def go_bind_Inr_iff split: if_splits)

lemma SendReply_sendable:
  assumes "SendReply (newReplyService provider) input w = (Inr r, w')"
  shows "sendable input"
proof -
  from assms obtain w1 where "send_unsuppressed (newReplyService provider) input w1 = (Inr r, w')"
    unfolding SendReply_def by (rule go_bind_InrE)
  then show ?thesis
    unfolding send_unsuppressed_def sendable_def
    by (auto simp: go_bind_Inr_iff newReplyService_def dest!: AssembleReply_InrD RecordQueuedReply_InrD)
qed

lemma rt_submission_run:
  "rt_FindReplyBySubmissionKey k w =
     (Inr (case map_of (replySubmissionsByKey (mem w)) k of None \<Rightarrow> None | Some i \<Rightarrow> map_of (messagesByID (mem w)) i), w)"
  "rt_SaveReplySubmission k i w =
     (Inr (), w\<lparr>mem := mem w\<lparr>replySubmissionsByKey := gput k i (replySubmissionsByKey (mem w))\<rparr>\<rparr>)"
  by (simp_all add: rt_eqs Store_FindReplyBySubmissionKey_def Store_SaveReplySubmission_def)

text \<open>A submission that is on record: the message it made and the thread, both stored.\<close>

definition submitted :: "mem_store \<Rightarrow> string \<Rightarrow> string \<Rightarrow> send_reply_result \<Rightarrow> bool" where
  "submitted s threadID key r \<longleftrightarrow>
     (\<exists>i. map_of (replySubmissionsByKey s) (ReplySubmissionKey threadID key) = Some i \<and>
          map_of (messagesByID s) i = Some (so_Message r)) \<and>
     map_of (threadsByID s) threadID = Some (so_Thread r) \<and>
     r = reply_from_existing (so_Thread r) (so_Message r)"

lemma find_submission_iff:
  assumes "si_IdempotencyKey input \<noteq> []"
  shows "find_submission rt_reply_adapter input w = (Inr (Some r), w') \<longleftrightarrow>
    w' = w \<and> submitted (mem w) (t_ID (si_Thread input)) (si_IdempotencyKey input) r"
  using assms
  by (auto simp: find_submission_def rt_reply_adapter_def go_bind_Inr_iff rt_submission_run rt_reads_run
      submitted_def reply_from_existing_def found_or_def split: option.splits)

lemma find_submission_reads: "find_submission rt_reply_adapter input w = (x, w') \<Longrightarrow> w' = w"
  by (auto simp: find_submission_def rt_reply_adapter_def go_bind_def rt_submission_run rt_reads_run
      found_or_def split: if_splits option.splits)

lemma load_reply_run:
  "load_reply rt_reply_adapter input w = (x, w') \<Longrightarrow> w' = w \<and>
    (\<forall>l. x = Inr l \<longrightarrow> map_of (threadsByID (mem w)) (t_ID (si_Thread input)) = Some (si_Thread l) \<and>
       (\<exists>c. map_of (contactsByID (mem w)) c = Some (si_Contact l)) \<and>
       si_ObjectKey l = si_ObjectKey input \<and> si_IdempotencyKey l = si_IdempotencyKey input)"
  by (auto simp: load_reply_def rt_reply_adapter_def go_bind_def rt_reads_run found_or_def
      split: option.splits prod.splits sum.splits)


lemma submitted_unique: "submitted s t k r \<Longrightarrow> submitted s t k r' \<Longrightarrow> r = r'"
  by (auto simp: submitted_def)

lemma load_reply_thread:
  assumes "world_ok w" and "load_reply rt_reply_adapter input w = (Inr l, w')"
  shows "t_ID (si_Thread l) = t_ID (si_Thread input)"
proof -
  have "map_of (threadsByID (mem w)) (t_ID (si_Thread input)) = Some (si_Thread l)"
    using load_reply_run [OF assms(2)] by simp
  moreover have "keyed t_ID (threadsByID (mem w))" using assms(1) by (simp add: world_ok_def mem_ok_def)
  ultimately show ?thesis by (auto dest: keyedD)
qed

lemma reply_sent_submitted:
  assumes "reply_sent s input r s'" and "t_ID (si_Thread input) = t"
    and "mem w = s'\<lparr>replySubmissionsByKey := gput (ReplySubmissionKey t k) (m_ID (so_Message r)) (replySubmissionsByKey s')\<rparr>"
  shows "submitted (mem w) t k r"
proof -
  have "so_SendResult r = \<lparr>sr_ProviderMessageID = m_ProviderMessageID (so_Message r),
      sr_AcceptedAt = m_SentAt (so_Message r)\<rparr>"
    using assms(1) by (simp add: reply_sent_def)
  then have "r = reply_from_existing (so_Thread r) (so_Message r)"
    by (simp add: reply_from_existing_def)
  then show ?thesis
    using assms by (auto simp: submitted_def reply_sent_def reply_recorded_def)
qed

text \<open>The two ways a reply handler succeeds under a key.\<close>

lemma newReplyHandlerService_submitted:
  assumes "world_ok w" and "\<And>q. frames mem (ep_Send provider q)" and key: "si_IdempotencyKey input \<noteq> []"
    and run: "newReplyHandlerService provider input w = (Inr r, w')"
  shows "submitted (mem w') (t_ID (si_Thread input)) (si_IdempotencyKey input) r"
proof -
  let ?t = "t_ID (si_Thread input)" and ?k = "si_IdempotencyKey input"
  from run obtain x w1 where find: "find_submission rt_reply_adapter input w = (Inr x, w1)"
    and rest: "(case x of Some result \<Rightarrow> go_ret result | None \<Rightarrow>
         go_bind (load_reply rt_reply_adapter input) (\<lambda>loaded.
         go_bind (SendReply (newReplyService provider) loaded) (\<lambda>result.
         go_bind (if ?k \<noteq> [] then ad_SaveSubmission rt_reply_adapter (ReplySubmissionKey ?t ?k) (m_ID (so_Message result))
                  else go_ret ()) (\<lambda>_. go_ret result)))) w1 = (Inr r, w')"
    unfolding newReplyHandlerService_def replyServiceAdapter_def by (rule go_bind_InrE)
  have w1: "w1 = w" by (rule find_submission_reads [OF find])
  show ?thesis
  proof (cases x)
    case (Some result)
    with rest find find_submission_iff [OF key, of w result w] show ?thesis by (simp add: w1)
  next
    case None
    from rest None obtain l w2 where load: "load_reply rt_reply_adapter input w = (Inr l, w2)"
      and r2: "go_bind (SendReply (newReplyService provider) l) (\<lambda>result.
         go_bind (if ?k \<noteq> [] then ad_SaveSubmission rt_reply_adapter (ReplySubmissionKey ?t ?k) (m_ID (so_Message result))
                  else go_ret ()) (\<lambda>_. go_ret result)) w2 = (Inr r, w')"
      by (auto simp: w1 go_bind_Inr_iff)
    have w2: "w2 = w" using load_reply_run [OF load] by simp
    from r2 obtain w3 where send: "SendReply (newReplyService provider) l w = (Inr r, w3)"
      and w': "w' = w3\<lparr>mem := mem w3\<lparr>replySubmissionsByKey :=
           gput (ReplySubmissionKey ?t ?k) (m_ID (so_Message r)) (replySubmissionsByKey (mem w3))\<rparr>\<rparr>"
      using key by (auto simp: go_bind_Inr_iff w2 rt_reply_adapter_def rt_submission_run)
    have "reply_sent (mem w) l r (mem w3)"
      using SendReply_sent [OF assms(1) SendReply_sendable [OF send] assms(2) send] by simp
    then show ?thesis
      by (rule reply_sent_submitted [OF _ load_reply_thread [OF assms(1) load]]) (simp add: w')
  qed
qed

text \<open>The submissions on record are only written by the handler itself.\<close>

definition submissions :: "'z world_scheme \<Rightarrow> string gmap" where
  "submissions w = replySubmissionsByKey (mem w)"

lemma frames_submissions_of_mem: "frames mem m \<Longrightarrow> frames submissions m"
  by (auto simp: frames_def submissions_def)

lemmas frames_submissions_reads [intro, simp] = frames_mem_env [THEN frames_submissions_of_mem]
  frames_rt_reads [THEN frames_submissions_of_mem]

lemma frames_submissions_writes [intro, simp]:
  "frames submissions (rt_Save t)" "frames submissions (rt_Create m)" "frames submissions (rt_SaveMessage m)"
  "frames submissions (rt_Put k d)"
  by (simp_all add: frames_def submissions_def rt_eqs Store_Save_def Store_Create_def Store_SaveMessage_def
      Store_Put_def index_message_def Let_def)

lemma frames_submissions_SendReply:
  assumes "\<And>q. frames mem (ep_Send provider q)"
  shows "frames submissions (SendReply (newReplyService provider) input)"
proof -
  have "frames submissions (ep_Send provider q)" for q
    by (rule frames_submissions_of_mem [OF assms])
  then show ?thesis
    unfolding SendReply_def send_unsuppressed_def newReplyService_def reply_service.simps
      AssembleReply_def RecordQueuedReply_def queue_recorder.simps SendQueuedReply_def RecordSent_def
      newOutboundMessageID_def Let_def option.case
    by (auto intro!: frames_bind frames_if split: prod.split)
qed

text \<open>A reply that fails is never taken for sent: when the handler returns an error, whether from a
  missing record, the suppression check, the assembly or the provider, no submission is recorded
  under any key, so the caller can ask again with the same key.\<close>

theorem failed_reply_not_submitted:
  assumes "\<And>q. frames mem (ep_Send provider q)"
    and run: "newReplyHandlerService provider input w = (Inl e, w')"
  shows "submissions w' = submissions w"
proof -
  obtain x w1 where find: "find_submission rt_reply_adapter input w = (x, w1)"
    by (cases "find_submission rt_reply_adapter input w")
  have w1: "w1 = w" by (rule find_submission_reads [OF find])
  show ?thesis
  proof (cases "x = Inr None")
    case False
    with run find show ?thesis
      by (cases x) (auto simp: newReplyHandlerService_def replyServiceAdapter_def go_bind_def w1 split: option.splits)
  next
    case True
    obtain y w2 where load: "load_reply rt_reply_adapter input w = (y, w2)"
      by (cases "load_reply rt_reply_adapter input w")
    have w2: "w2 = w" using load_reply_run [OF load] by simp
    show ?thesis
    proof (cases y)
      case (Inl f)
      with run find load True show ?thesis
        by (simp add: newReplyHandlerService_def replyServiceAdapter_def go_bind_def w1 w2)
    next
      case (Inr l)
      obtain z w3 where send: "SendReply (newReplyService provider) l w = (z, w3)"
        by (cases "SendReply (newReplyService provider) l w")
      have "submissions w3 = submissions w" by (rule framesD [OF frames_submissions_SendReply [OF assms(1)] send])
      with run find load True Inr send show ?thesis
        by (cases z) (auto simp: newReplyHandlerService_def replyServiceAdapter_def go_bind_def w1 w2
            rt_reply_adapter_def rt_submission_run split: if_splits)
    qed
  qed
qed

section \<open>A concrete request\<close>

definition demo_runtime_store :: mem_store where
  "demo_runtime_store = demo_store\<lparr>
     organizationsByID := [(''org-local'', zero_organization\<lparr>o_ID := ''org-local''\<rparr>)],
     agentsByID := [(''agent-local'', zero_agent\<lparr>ag_ID := ''agent-local''\<rparr>)],
     inboxesByID := [(''inbox-local'', zero_inbox\<lparr>i_ID := ''inbox-local'', i_EmailAddress := ''agent@x''\<rparr>)]\<rparr>"

definition demo_request :: "string \<Rightarrow> string \<Rightarrow> send_reply_input" where
  "demo_request key text = \<lparr>si_Organization = zero_organization, si_Agent = zero_agent, si_Inbox = zero_inbox,
     si_Thread = zero_thread\<lparr>t_ID := ''thread-1''\<rparr>, si_ReplyToMessage = zero_message\<lparr>m_ID := ''message-1''\<rparr>,
     si_Contact = zero_contact, si_BodyText = text, si_ObjectKey = ''out'', si_IdempotencyKey = key\<rparr>"

lemma demo_runtime_store_ok: "mem_ok demo_runtime_store"
  by (simp add: mem_ok_def keyed_def gmap_ok_def points_into_def demo_runtime_store_def demo_defs)

definition demo_loaded :: "string \<Rightarrow> string \<Rightarrow> send_reply_input" where
  "demo_loaded key text = \<lparr>si_Organization = zero_organization\<lparr>o_ID := ''org-local''\<rparr>,
     si_Agent = zero_agent\<lparr>ag_ID := ''agent-local''\<rparr>,
     si_Inbox = zero_inbox\<lparr>i_ID := ''inbox-local'', i_EmailAddress := ''agent@x''\<rparr>, si_Thread = demo_thread,
     si_ReplyToMessage = demo_message, si_Contact = demo_contact, si_BodyText = text, si_ObjectKey = ''out'',
     si_IdempotencyKey = key\<rparr>"

lemma demo_load: "load_reply rt_reply_adapter (demo_request key text) (demo_world demo_runtime_store) =
    (Inr (demo_loaded key text), demo_world demo_runtime_store)"
  by (simp add: load_reply_def rt_reply_adapter_def go_bind_def rt_reads_run found_or_def demo_request_def
      demo_loaded_def demo_runtime_store_def or_else_def demo_defs)

lemma demo_request_run:
  "newReplyHandlerService provider (demo_request ''k1'' text) (demo_world demo_runtime_store) =
     go_bind (SendReply (newReplyService provider) (demo_loaded ''k1'' text)) (\<lambda>result.
       go_bind (rt_SaveReplySubmission (ReplySubmissionKey ''thread-1'' ''k1'') (m_ID (so_Message result)))
         (\<lambda>_. go_ret result)) (demo_world demo_runtime_store)"
proof -
  have find: "find_submission rt_reply_adapter (demo_request ''k1'' text) (demo_world demo_runtime_store) =
      (Inr None, demo_world demo_runtime_store)"
    by (simp add: find_submission_def rt_reply_adapter_def go_bind_def rt_submission_run demo_request_def
        demo_runtime_store_def demo_defs)
  have sel: "si_IdempotencyKey (demo_request ''k1'' text) = ''k1''"
    "t_ID (si_Thread (demo_request ''k1'' text)) = ''thread-1''"
    "ad_SaveSubmission (rt_reply_adapter :: world reply_adapter) = rt_SaveReplySubmission"
    by (simp_all add: demo_request_def rt_reply_adapter_def)
  show ?thesis
    by (simp add: newReplyHandlerService_def replyServiceAdapter_def go_bind_ok find
        demo_load sel)
qed

lemma demo_loaded_sendable: "sendable (demo_loaded key text)"
  by (simp add: sendable_def demo_loaded_def demo_defs)

lemma demo_runtime_unsuppressed [simp]: "suppressionsByID demo_runtime_store = []"
  by (simp add: demo_runtime_store_def)

lemma demo_request_sent:
  "\<exists>r w'. newReplyHandlerService dev_provider (demo_request ''k1'' ''Hello'') (demo_world demo_runtime_store) = (Inr r, w')"
proof -
  let ?w = "demo_world demo_runtime_store"
  have ok: "world_ok ?w" by (simp add: demo_runtime_store_ok)
  obtain r w1 where "SendReply (newReplyService dev_provider) (demo_loaded ''k1'' ''Hello'') ?w = (Inr r, w1)"
    using SendReply_dev [OF ok demo_loaded_sendable [of "''k1''" "''Hello''"]] by (auto simp: demo_not_suppressed)
  then show ?thesis by (simp add: demo_request_run go_bind_def rt_submission_run)
qed

theorem failed_reply_not_submitted_witness:
  "\<exists>e w'. newReplyHandlerService failing_provider (demo_request ''k1'' ''Hello'') (demo_world demo_runtime_store) = (Inl e, w') \<and>
     submissions w' = []"
proof -
  let ?w = "demo_world demo_runtime_store"
  have ok: "world_ok ?w" by (simp add: demo_runtime_store_ok)
  have free: "(o_ID (si_Organization (demo_loaded ''k1'' ''Hello'')), c_EmailAddress (si_Contact (demo_loaded ''k1'' ''Hello'')))
      \<notin> snd (suppression_view ?w)"
    by (simp add: demo_not_suppressed)
  obtain w0 where eq: "SendReply (newReplyService failing_provider) (demo_loaded ''k1'' ''Hello'') ?w =
      send_unsuppressed (newReplyService failing_provider) (demo_loaded ''k1'' ''Hello'') w0"
    using sup.SendReply_passes [OF ok _ free, of "newReplyService failing_provider"] by (auto simp: newReplyService_def)
  have fail: "ep_Send failing_provider q = go_fail (ErrExternal ''throttled'')" for q
    by (simp add: failing_provider_def)
  obtain w' where "send_unsuppressed (newReplyService failing_provider) (demo_loaded ''k1'' ''Hello'') w0 =
      (Inl (ErrExternal ''throttled''), w')"
    using reply_queued [OF demo_loaded_sendable, of "''k1''" "''Hello''" w0 failing_provider]
    by (auto simp: Let_def fail)
  then have run: "newReplyHandlerService failing_provider (demo_request ''k1'' ''Hello'') ?w = (Inl (ErrExternal ''throttled''), w')"
    by (simp add: demo_request_run go_bind_def eq)
  have fr: "frames mem (ep_Send failing_provider q)" for q by (simp add: failing_provider_def)
  from failed_reply_not_submitted [OF fr run] run show ?thesis
    by (auto simp: submissions_def demo_runtime_store_def demo_defs)
qed

end
