(* ===== verification/App_Laws.thy ===== *)
theory App_Laws
  imports Services_Laws
begin

text \<open>
  The laws of the smaller application services: the listings, the bootstrap records and who reads
  them, escalation, contact memory, and the thread history that goes out with an announcement.
\<close>

section \<open>Listings\<close>

text \<open>\<open>newest f n m xs\<close>: the at most \<open>n\<close> values of \<open>m\<close> that come first in the order \<open>f\<close>, in that order.\<close>

definition newest :: "('v \<Rightarrow> recency) \<Rightarrow> int \<Rightarrow> 'v gmap \<Rightarrow> 'v list \<Rightarrow> bool" where
  "newest f n m xs \<longleftrightarrow> sorted (map f xs) \<and> distinct xs \<and> set xs \<subseteq> ran (map_of m) \<and> int (length xs) \<le> n \<and>
     (\<forall>v \<in> ran (map_of m). v \<notin> set xs \<longrightarrow> int (length xs) = n \<and> (\<forall>u \<in> set xs. f u \<le> f v))"

lemma sorted_take_rest:
  assumes "sorted (map f ys)" and "v \<in> set ys" and "v \<notin> set (take k ys)" and "u \<in> set (take k ys)"
  shows "(f u :: 'b :: linorder) \<le> f v"
proof -
  have "v \<in> set (drop k ys)" using assms(2,3) by (metis Un_iff append_take_drop_id set_append)
  moreover have "sorted (map f (take k ys) @ map f (drop k ys))"
    using assms(1) by (metis append_take_drop_id map_append)
  ultimately show ?thesis using assms(4) by (auto simp: sorted_append)
qed

lemma newest_listing:
  assumes "keyed g m" and "0 < n"
  shows "newest f n m (take_limit n (sort_key f (grange ord m)))"
proof -
  let ?ys = "sort_key f (grange ord m)"
  have ok: "gmap_ok m" by (rule keyed_gmap_ok [OF assms(1)])
  have eq: "take_limit n ?ys = take (nat n) ?ys" using assms(2) by (simp add: take_limit_take)
  have dist: "distinct (take (nat n) ?ys)"
    using distinct_listing [OF assms(1), of n f ord] by (simp add: eq distinct_map)
  have rest: "int (length (take (nat n) ?ys)) = n \<and> (\<forall>u \<in> set (take (nat n) ?ys). f u \<le> f v)"
    if v: "v \<in> ran (map_of m)" "v \<notin> set (take (nat n) ?ys)" for v
  proof -
    have mem: "v \<in> set ?ys" using v(1) by (simp add: set_grange [OF ok])
    then have "\<not> length ?ys \<le> nat n" using v(2) by auto
    moreover have "f u \<le> f v" if "u \<in> set (take (nat n) ?ys)" for u
      by (rule sorted_take_rest [OF _ mem v(2) that]) simp
    ultimately show ?thesis using assms(2) by simp
  qed
  have sub: "set (take (nat n) ?ys) \<subseteq> ran (map_of m)"
    using set_sort_listing [OF ok, of n f ord] by (simp add: eq)
  have srt: "sorted (map f (take (nat n) ?ys))" by (simp add: take_map [symmetric] sorted_wrt_take)
  show ?thesis
    unfolding newest_def eq using srt dist sub rest assms(2) by (auto simp: min_def)
qed

lemma listing_order_free:
  assumes "keyed g m" and "\<And>v. f v = Recency (h v) (g v)"
  shows "sort_key f (grange ord m) = sort_key f (grange ord' m)"
  by (rule sort_grange_unique [OF keyed_gmap_ok [OF assms(1)]])
    (use keyed_inj_recency [OF assms(1), of h] assms(2) in \<open>simp add: inj_on_def\<close>)

definition list_limit :: "int \<Rightarrow> int" where
  "list_limit limit = (if limit \<le> 0 then 20 else limit)"

lemma list_limit_pos: "0 < list_limit limit"
  by (simp add: list_limit_def)

lemma listing_services_run:
  "fst (newInboundReceiptListService limit w) = Inr (take_limit (list_limit limit)
     (sort_key receipt_recency (grange (iter_src w (iter_ix w)) (inboundReceiptsByKey (mem w)))))"
  "fst (newSuppressionListService limit w) = Inr (take_limit (list_limit limit)
     (sort_key suppression_recency (grange (iter_src w (iter_ix w)) (suppressionsByID (mem w)))))"
  "fst (newWebhookDeliveryListService limit w) = Inr (take_limit (list_limit limit)
     (sort_key delivery_recency (grange (iter_src w (iter_ix w)) (webhookDeliveriesByID (mem w)))))"
  by (simp_all add: newInboundReceiptListService_def ListInboundReceipts_def newSuppressionListService_def
      ListSuppressions_def newWebhookDeliveryListService_def ListWebhookDeliveries_def NewListService_def
      list_limit_def rt_eqs Store_ListInboundReceipts_def Store_ListSuppressions_def
      Store_ListWebhookDeliveries_def)

text \<open>C36: each of the three listings returns the most recent records, newest first, each once, no more
  than the limit (20 when the caller gives none), and leaves out a record only when the list is
  full of ones at least as recent; the answer does not depend on the order in which Go happens to
  visit the map, and listing changes nothing.\<close>

theorem listings_newest_first:
  assumes "world_ok w"
  shows "\<exists>rs ss ds. newest receipt_recency (list_limit limit) (inboundReceiptsByKey (mem w)) rs \<and>
    newest suppression_recency (list_limit limit) (suppressionsByID (mem w)) ss \<and>
    newest delivery_recency (list_limit limit) (webhookDeliveriesByID (mem w)) ds \<and>
    (\<forall>v. mem v = mem w \<longrightarrow> fst (newInboundReceiptListService limit v) = Inr rs \<and>
      fst (newSuppressionListService limit v) = Inr ss \<and> fst (newWebhookDeliveryListService limit v) = Inr ds)"
proof -
  have k: "keyed dr_RawMessageObjectKey (inboundReceiptsByKey (mem w))" "keyed sa_ID (suppressionsByID (mem w))"
    "keyed wd_ID (webhookDeliveriesByID (mem w))"
    using assms by (simp_all add: world_ok_def mem_ok_def)
  have free: "sort_key receipt_recency (grange ord (inboundReceiptsByKey (mem w))) =
      sort_key receipt_recency (grange ord' (inboundReceiptsByKey (mem w)))"
    "sort_key suppression_recency (grange ord (suppressionsByID (mem w))) =
      sort_key suppression_recency (grange ord' (suppressionsByID (mem w)))"
    "sort_key delivery_recency (grange ord (webhookDeliveriesByID (mem w))) =
      sort_key delivery_recency (grange ord' (webhookDeliveriesByID (mem w)))" for ord ord'
    by (rule listing_order_free [OF k(1), of _ dr_ReceivedAt], simp add: receipt_recency_def)
      (rule listing_order_free [OF k(2), of _ sa_UpdatedAt], simp add: suppression_recency_def,
       rule listing_order_free [OF k(3), of _ wd_UpdatedAt], simp add: delivery_recency_def)
  note new = newest_listing [OF k(1) list_limit_pos, where ord = id]
    newest_listing [OF k(2) list_limit_pos, where ord = id] newest_listing [OF k(3) list_limit_pos, where ord = id]
  have run: "fst (newInboundReceiptListService limit v) = Inr (take_limit (list_limit limit)
        (sort_key receipt_recency (grange id (inboundReceiptsByKey (mem w)))))"
    "fst (newSuppressionListService limit v) = Inr (take_limit (list_limit limit)
        (sort_key suppression_recency (grange id (suppressionsByID (mem w)))))"
    "fst (newWebhookDeliveryListService limit v) = Inr (take_limit (list_limit limit)
        (sort_key delivery_recency (grange id (webhookDeliveriesByID (mem w)))))" if "mem v = mem w" for v
    unfolding listing_services_run that
    using free [of "iter_src v (iter_ix v)" id] by simp_all
  show ?thesis using new run by blast
qed

text \<open>Three deliveries, two of them updated at the same time, listed with limit 2.\<close>

definition demo_delivery_at :: "string \<Rightarrow> gtime \<Rightarrow> webhook_delivery" where
  "demo_delivery_at i at = zero_delivery\<lparr>wd_ID := i, wd_UpdatedAt := at\<rparr>"

definition demo_list_store :: mem_store where
  "demo_list_store = NewStore\<lparr>webhookDeliveriesByID := [(''a'', demo_delivery_at ''a'' 5),
     (''b'', demo_delivery_at ''b'' 9), (''c'', demo_delivery_at ''c'' 5)]\<rparr>"

theorem listings_newest_first_witness:
  "mem_ok demo_list_store \<and>
   (\<exists>ds. newest delivery_recency 2 (webhookDeliveriesByID demo_list_store) ds \<and>
      fst (newWebhookDeliveryListService 2 (demo_world demo_list_store)) = Inr ds)"
proof -
  have ok: "mem_ok demo_list_store"
    by (simp add: mem_ok_def keyed_def gmap_ok_def points_into_def demo_list_store_def NewStore_def
        demo_delivery_at_def)
  then have "world_ok (demo_world demo_list_store)" by simp
  from listings_newest_first [OF this, of 2] obtain ds where
    new: "newest delivery_recency 2 (webhookDeliveriesByID demo_list_store) ds"
    and fst: "\<And>v :: world. mem v = demo_list_store \<Longrightarrow> fst (newWebhookDeliveryListService 2 v) = Inr ds"
    by (auto simp: list_limit_def)
  have "fst (newWebhookDeliveryListService 2 (demo_world demo_list_store)) = Inr ds" by (rule fst) simp
  with new ok show ?thesis by blast
qed

section \<open>Bootstrap\<close>

text \<open>The agent the runtime announces for: the environment supplies what the record leaves empty.\<close>

definition effective_agent :: "getenv \<Rightarrow> agent \<Rightarrow> agent" where
  "effective_agent env agent = agent\<lparr>ag_WebhookURL := or_else (ag_WebhookURL agent) (webhookURL env),
     ag_WebhookSecret := or_else (ag_WebhookSecret agent) (webhookSecret env)\<rparr>"

definition runtime_config :: "getenv \<Rightarrow> bootstrap_result \<Rightarrow> inbound_runtime_config" where
  "runtime_config env r = \<lparr>rc_Organization = br_Organization r, rc_Agent = effective_agent env (br_Agent r),
     rc_Inbox = br_Inbox r, rc_WebhookURL = or_else (ag_WebhookURL (br_Agent r)) (webhookURL env),
     rc_WebhookSecret = or_else (ag_WebhookSecret (br_Agent r)) (webhookSecret env),
     rc_HistoryLimit = 20, rc_MemoryLimit = 10\<rparr>"

lemma rt_bootstrap_run:
  "rt_SaveOrganization a w = (Inr a, w\<lparr>mem := mem w\<lparr>organizationsByID := gput (o_ID a) a (organizationsByID (mem w))\<rparr>\<rparr>)"
  "rt_SaveAgent b w = (Inr b, w\<lparr>mem := mem w\<lparr>agentsByID := gput (ag_ID b) b (agentsByID (mem w))\<rparr>\<rparr>)"
  "rt_SaveInbox x w = (Inr x, w\<lparr>mem := mem w\<lparr>inboxesByID := gput (i_ID x) x (inboxesByID (mem w)),
     inboxesByEmail := gput (i_EmailAddress x) x (inboxesByEmail (mem w))\<rparr>\<rparr>)"
  by (simp_all add: rt_eqs Store_SaveOrganization_def Store_SaveAgent_def Store_SaveInbox_def)

lemma newBootstrapService_run:
  "newBootstrapService input w = (Inr r, w') \<Longrightarrow>
     i_EmailAddress (br_Inbox r) = bs_InboxAddress input \<and> ag_WebhookURL (br_Agent r) = bs_WebhookURL input \<and>
     ag_Status (br_Agent r) = (if bs_AgentStatus input = [] then AgentStatusActive else bs_AgentStatus input) \<and>
     map_of (organizationsByID (mem w')) ''org-local'' = Some (br_Organization r) \<and>
     map_of (agentsByID (mem w')) ''agent-local'' = Some (br_Agent r) \<and>
     map_of (inboxesByID (mem w')) ''inbox-local'' = Some (br_Inbox r) \<and>
     inbox_view w' = (inbox_view w)(bs_InboxAddress input \<mapsto> br_Inbox r)"
  by (auto simp: newBootstrapService_def BootstrapLocal_def go_bind_def time_now_def rt_bootstrap_run Let_def
      inbox_view_def)

lemma newBootstrapService_returns: "\<exists>r w'. newBootstrapService input w = (Inr r, w')"
  by (simp add: newBootstrapService_def BootstrapLocal_def go_bind_def time_now_def rt_bootstrap_run Let_def)

text \<open>C37: bootstrap never fails, and what it stores is what everyone reads afterwards: the read service
  returns the same three records, mail to the address is accepted for that inbox, every other
  address resolves as before, and the inbound service is built from exactly those records, the
  environment supplying the webhook URL and secret only where they are empty.\<close>

theorem bootstrap_reads_back:
  "\<exists>r w'. newBootstrapService input w = (Inr r, w') \<and> newBootstrapReadService w' = (Inr r, w') \<and>
     inbox_view w' = (inbox_view w)(bs_InboxAddress input \<mapsto> br_Inbox r) \<and>
     i_EmailAddress (br_Inbox r) = bs_InboxAddress input \<and>
     newInboundService env decode w' = (Inr (runtime_handler decode (runtime_config env r)), w')"
proof -
  obtain r w' where run: "newBootstrapService input w = (Inr r, w')" using newBootstrapService_returns by blast
  note got = newBootstrapService_run [OF run]
  have "newBootstrapReadService w' = (Inr r, w')"
    using got by (simp add: newBootstrapReadService_def GetBootstrap_def go_bind_def rt_reads_run)
  moreover have "newInboundService env decode w' = (Inr (runtime_handler decode (runtime_config env r)), w')"
    using got by (simp add: newInboundService_def currentOrganization_def currentAgent_def currentInbox_def
        go_bind_def go_try_def rt_reads_run runtime_config_def effective_agent_def)
  ultimately show ?thesis using run got by blast
qed

text \<open>A second bootstrap with another address does not retire the first address: it still resolves,
  to the old record of the inbox, so a client may still send mail to it.\<close>

theorem stale_inbox_address:
  assumes "newBootstrapService first w = (Inr r1, w1)" and "newBootstrapService second w1 = (Inr r2, w2)"
    and "bs_InboxAddress second \<noteq> bs_InboxAddress first" and "bs_InboxAddress first \<noteq> []"
    and "ss_lookup s = rt_FindByEmailAddress"
  shows "newBootstrapReadService w2 = (Inr r2, w2) \<and>
    (\<exists>s'. Session_Rcpt (bs_InboxAddress first) (s, w2) = (Inr (), (s', w2)) \<and> ss_targetInbox s' = br_Inbox r1 \<and>
       i_EmailAddress (ss_targetInbox s') \<noteq> i_EmailAddress (br_Inbox r2))"
proof -
  note one = newBootstrapService_run [OF assms(1)] and two = newBootstrapService_run [OF assms(2)]
  have "inbox_view w2 (bs_InboxAddress first) = Some (br_Inbox r1)"
    using one two assms(3) by simp
  then have "map_of (inboxesByEmail (mem w2)) (bs_InboxAddress first) = Some (br_Inbox r1)"
    by (simp add: inbox_view_def)
  then have "Session_Rcpt (bs_InboxAddress first) (s, w2) =
      (Inr (), (s\<lparr>ss_recipient := bs_InboxAddress first, ss_targetInbox := br_Inbox r1\<rparr>, w2))"
    using assms(4,5) by (simp add: Session_Rcpt_def rt_reads_run)
  moreover have "newBootstrapReadService w2 = (Inr r2, w2)"
    using two by (simp add: newBootstrapReadService_def GetBootstrap_def go_bind_def rt_reads_run)
  ultimately show ?thesis using one two assms(3) by simp
qed

definition demo_bootstrap :: "string \<Rightarrow> bootstrap_input" where
  "demo_bootstrap address = \<lparr>bs_OrganizationName = ''Org'', bs_AgentName = ''Agent'', bs_AgentStatus = [],
     bs_WebhookURL = [], bs_WebhookSecret = [], bs_InboxAddress = address, bs_InboxDomain = ''x'',
     bs_InboxDisplayName = ''Agent''\<rparr>"

theorem stale_inbox_address_witness:
  "\<exists>r1 r2 w1 w2 s s'. newBootstrapService (demo_bootstrap ''old@x'') (demo_world NewStore) = (Inr r1, w1) \<and>
     newBootstrapService (demo_bootstrap ''new@x'') w1 = (Inr r2, w2) \<and>
     Session_Rcpt ''old@x'' (s, w2) = (Inr (), (s', w2)) \<and> i_EmailAddress (br_Inbox r2) = ''new@x''"
proof -
  obtain r1 w1 where one: "newBootstrapService (demo_bootstrap ''old@x'') (demo_world NewStore) = (Inr r1, w1)"
    using newBootstrapService_returns by blast
  obtain r2 w2 where two: "newBootstrapService (demo_bootstrap ''new@x'') w1 = (Inr r2, w2)"
    using newBootstrapService_returns by blast
  define s :: "world session" where "s = edge_session rt_FindByEmailAddress rt_Put rt_SaveInboundReceipt
    (runtime_handler demo_reject undefined) 0 ''sid''"
  have s: "ss_lookup s = rt_FindByEmailAddress" by (simp add: s_def)
  have "i_EmailAddress (br_Inbox r2) = ''new@x''"
    using newBootstrapService_run [OF two] by (simp add: demo_bootstrap_def)
  with stale_inbox_address [OF one two _ _ s] one two show ?thesis
    by (auto simp: demo_bootstrap_def)
qed

section \<open>Escalation\<close>

text \<open>Escalating a known thread stores it as escalated, but only the five identifying fields and the
  subject survive: the saved record has no last messages, no last activity and no creation time,
  because the service saves a thread that has only an id, a state and a time. Nothing else
  changes. An unknown thread is refused and nothing is written.\<close>

theorem escalation_forgets_activity:
  assumes "world_ok w"
  shows "case map_of (threadsByID (mem w)) threadID of
      None \<Rightarrow> newThreadEscalationHandlerService threadID w = (Inl (ErrNotFound ''thread''), w)
    | Some t \<Rightarrow> (\<exists>w'. newThreadEscalationHandlerService threadID w =
          (Inr (t\<lparr>t_State := ThreadStateEscalated, t_LastInboundID := [], t_LastOutboundID := [],
                  t_LastActivityAt := 0, t_CreatedAt := 0, t_UpdatedAt := clock_src w (clock_ix w)\<rparr>), w') \<and>
        mem w' = mem w\<lparr>threadsByID := gput threadID (t\<lparr>t_State := ThreadStateEscalated, t_LastInboundID := [],
            t_LastOutboundID := [], t_LastActivityAt := 0, t_CreatedAt := 0,
            t_UpdatedAt := clock_src w (clock_ix w)\<rparr>) (threadsByID (mem w))\<rparr>)"
proof (cases "map_of (threadsByID (mem w)) threadID")
  case None
  then show ?thesis
    by (simp add: newThreadEscalationHandlerService_def threadEscalationServiceAdapter_def go_bind_def rt_reads_run)
next
  case (Some t)
  have "keyed t_ID (threadsByID (mem w))" using assms by (simp add: world_ok_def mem_ok_def)
  then have "t_ID t = threadID" using Some by (rule keyedD)
  then have "merge_thread t (zero_thread\<lparr>t_ID := threadID, t_State := ThreadStateEscalated,
        t_UpdatedAt := clock_src w (clock_ix w)\<rparr>) =
      t\<lparr>t_State := ThreadStateEscalated, t_LastInboundID := [], t_LastOutboundID := [], t_LastActivityAt := 0,
        t_CreatedAt := 0, t_UpdatedAt := clock_src w (clock_ix w)\<rparr>"
    by (cases t) (simp add: merge_thread_def or_else_def zero_thread_def ThreadStateEscalated_def)
  then show ?thesis
    using Some by (simp add: newThreadEscalationHandlerService_def threadEscalationServiceAdapter_def go_bind_def
        rt_reads_run EscalateThread_def time_now_def rt_Save_run stored_thread_def)
qed

theorem escalation_forgets_activity_witness:
  "mem_ok demo_store \<and> (\<exists>t w'. newThreadEscalationHandlerService ''thread-1'' (demo_world demo_store) = (Inr t, w') \<and>
     t_LastActivityAt demo_thread \<noteq> 0 \<and> t_LastActivityAt t = 0 \<and> t_State t = ThreadStateEscalated)"
proof -
  have "map_of (threadsByID (mem (demo_world demo_store))) ''thread-1'' = Some demo_thread"
    by (simp add: demo_store_def)
  with escalation_forgets_activity [of "demo_world demo_store" "''thread-1''"] show ?thesis
    by (auto simp: demo_store_ok) (simp add: demo_thread_def)
qed

section \<open>Contact memory\<close>

lemma rt_CreateMemory_run: "rt_CreateMemory e w = (Inr e, w\<lparr>mem := snd (Store_CreateMemory e (mem w))\<rparr>)"
  by (simp add: rt_eqs Store_CreateMemory_def Let_def)

text \<open>A note about a known contact, on no thread or on a known one, is stored under a new id and
  appended to that contact's notes, which the announcements of its next messages read; a note about
  an unknown contact or thread is refused and nothing is written.\<close>

theorem memory_note_recorded:
  assumes "contactID \<noteq> []"
  shows "if contactID \<in> dom (map_of (contactsByID (mem w))) \<and>
       (mi_ThreadID input = [] \<or> mi_ThreadID input \<in> dom (map_of (threadsByID (mem w))))
    then \<exists>e w'. newContactMemoryHandlerService contactID input w = (Inr e, w') \<and>
      cm_ContactID e = contactID \<and> cm_ThreadID e = mi_ThreadID input \<and> cm_Note e = mi_Note input \<and>
      map_of (memoriesByID (mem w')) = (map_of (memoriesByID (mem w)))(cm_ID e \<mapsto> e) \<and>
      (\<forall>k. slice_at (memoriesByContactID (mem w')) k =
         slice_at (memoriesByContactID (mem w)) k @ (if k = contactID then [cm_ID e] else [])) \<and>
      (\<exists>notes. fst (rt_ListMemoryByContactID contactID 0 w') = Inr (notes @ [e]))
    else \<exists>what. newContactMemoryHandlerService contactID input w = (Inl (ErrNotFound what), w)"
proof (cases "contactID \<in> dom (map_of (contactsByID (mem w))) \<and>
       (mi_ThreadID input = [] \<or> mi_ThreadID input \<in> dom (map_of (threadsByID (mem w))))")
  case False
  then show ?thesis
    by (auto simp: newContactMemoryHandlerService_def contactMemoryServiceAdapter_def go_bind_def rt_reads_run
        found_or_def domIff split: option.splits)
next
  case True
  define i where "i = (case rand_src w (rand_ix w) 8 of None \<Rightarrow> ''memory-generated''
     | Some b \<Rightarrow> ''memory-'' @ hex_encode (take 8 (b @ replicate 8 (CHR 0x00))))"
  define e where "e = \<lparr>cm_ID = i, cm_ContactID = contactID, cm_ThreadID = mi_ThreadID input,
     cm_Note = mi_Note input, cm_Tags = mi_Tags input, cm_CreatedAt = clock_src w (clock_ix w)\<rparr>"
  obtain w' where run: "newContactMemoryHandlerService contactID input w = (Inr e, w')"
    and m: "mem w' = snd (Store_CreateMemory e (mem w))"
  proof -
    obtain c where "rt_GetContactByID contactID w = (Inr c, w)"
      using True by (auto simp: rt_reads_run)
    moreover have "(if mi_ThreadID input \<noteq> [] then go_bind (rt_GetByID (mi_ThreadID input)) (\<lambda>_. go_ret ())
        else go_ret ()) w = (Inr (), w)"
      using True by (auto simp: rt_reads_run go_bind_def)
    ultimately have "newContactMemoryHandlerService contactID input w =
        CreateContactMemory rt_CreateMemory time_now contactID input w"
      unfolding newContactMemoryHandlerService_def contactMemoryServiceAdapter_def by (simp add: go_bind_ok)
    then show thesis
      by (intro that) (auto simp: CreateContactMemory_def newContactMemoryID_def random_id_run time_now_def
          rt_CreateMemory_run e_def i_def go_bind_def)
  qed
  have slices: "slice_at (memoriesByContactID (mem w')) k =
      slice_at (memoriesByContactID (mem w)) k @ (if k = contactID then [cm_ID e] else [])" for k
    using assms by (simp add: m Store_CreateMemory_def slice_at_gput Let_def e_def)
  have byID: "map_of (memoriesByID (mem w')) = (map_of (memoriesByID (mem w)))(cm_ID e \<mapsto> e)"
    by (simp add: m Store_CreateMemory_def Let_def)
  have "\<exists>notes. fst (rt_ListMemoryByContactID contactID 0 w') = Inr (notes @ [e])"
    by (simp add: rt_lists_run slices byID take_limit_def)
  with True run slices byID show ?thesis
    by (auto simp: e_def)
qed

theorem memory_note_recorded_witness:
  "\<exists>e w'. newContactMemoryHandlerService ''contact-1'' \<lparr>mi_ThreadID = ''thread-1'', mi_Note = ''prefers mail'',
       mi_Tags = None\<rparr> (demo_world demo_store) = (Inr e, w') \<and>
     cm_Note e = ''prefers mail'' \<and> slice_at (memoriesByContactID (mem w')) ''contact-1'' = [cm_ID e]"
proof -
  have "''contact-1'' \<in> dom (map_of (contactsByID (mem (demo_world demo_store))))"
    "''thread-1'' \<in> dom (map_of (threadsByID (mem (demo_world demo_store))))"
    "memoriesByContactID demo_store = []"
    by (simp_all add: demo_defs)
  with memory_note_recorded [of "''contact-1''" "demo_world demo_store" "\<lparr>mi_ThreadID = ''thread-1'',
      mi_Note = ''prefers mail'', mi_Tags = None\<rparr>"]
  show ?thesis by (auto simp: slice_at_def)
qed

section \<open>The history that goes out\<close>

text \<open>The history sent with an announcement is the beginning of the thread, not its end: once a
  thread has as many messages as the history limit, a new message is not among the messages that
  its own announcement carries.\<close>

theorem history_drops_new_message:
  assumes "world_ok w" and run: "inbound_base decode stored w = (Inr r, w')" and "\<not> hr_Duplicate r"
    and fresh: "m_ID (hr_Message r) \<notin> set (slice_at (messagesByThreadID (mem w)) (t_ID (hr_Thread r)))"
    and full: "list_limit (rc_HistoryLimit config) \<le>
      int (length (slice_at (messagesByThreadID (mem w)) (t_ID (hr_Thread r))))"
  shows "int (length (thread_history config r w')) = list_limit (rc_HistoryLimit config) \<and>
    hr_Message r \<notin> set (thread_history config r w')"
proof -
  let ?is = "slice_at (messagesByThreadID (mem w)) (t_ID (hr_Thread r))"
  let ?n = "nat (list_limit (rc_HistoryLimit config))"
  have pos: "0 < list_limit (rc_HistoryLimit config)" by (rule list_limit_pos)
  from run assms(3) have rec: "recorded (mem w) (hr_Contact r) (hr_Thread r) (hr_Message r) (mem w')"
    by (cases rule: inbound_base_cases) simp_all
  have ok': "world_ok w'" by (rule keepsD [OF keeps_inbound_base assms(1) run])
  then have pts: "points_into (messagesByThreadID (mem w')) (messagesByID (mem w'))"
    and key: "keyed m_ID (messagesByID (mem w'))"
    by (simp_all add: world_ok_def mem_ok_def)
  obtain more where is': "slice_at (messagesByThreadID (mem w')) (t_ID (hr_Thread r)) = ?is @ more"
    using rec by (simp add: recorded_defs)
  have hist: "thread_history config r w' = map (\<lambda>i. case map_of (messagesByID (mem w')) i of
      None \<Rightarrow> zero_message | Some m \<Rightarrow> m) (take ?n ?is)"
    using full pos by (simp add: thread_history_def rt_lists_run is' take_limit_take list_limit_def split: if_splits)
  have "hr_Message r \<notin> set (thread_history config r w')"
  proof
    assume "hr_Message r \<in> set (thread_history config r w')"
    then obtain i where i: "i \<in> set (take ?n ?is)"
      and m: "hr_Message r = (case map_of (messagesByID (mem w')) i of None \<Rightarrow> zero_message | Some m \<Rightarrow> m)"
      unfolding hist by auto
    have "i \<in> set ?is" using i by (rule in_set_takeD)
    moreover have "i \<in> dom (map_of (messagesByID (mem w')))"
      using points_into_slice [OF pts, of "t_ID (hr_Thread r)"] calculation by (auto simp: is')
    then have "m_ID (hr_Message r) = i" using m key by (auto dest: keyedD)
    ultimately show False using fresh by simp
  qed
  moreover have "length (thread_history config r w') = ?n"
    using full pos by (simp add: hist)
  ultimately show ?thesis using pos by simp
qed

lemma recorder_message_id:
  fixes w :: "'a world_scheme"
  assumes "newInboundRecorder stored pr w = (Inr x, w')"
  shows "m_ID (rr_Message x) = ''message-generated'' \<or> length (m_ID (rr_Message x)) = 24"
proof -
  from assms obtain c i m t' s3 and t :: thread and s1 s2 :: "'a world_scheme" where i: "newMessageID s1 = (Inr i, s2)"
    and m: "rt_Create (inbound_message stored (pr_ParsedMessage pr) i (t_ID t) (c_ID c)) s2 = (Inr m, s3)"
    and x: "x = \<lparr>rr_Contact = c, rr_Thread = t', rr_Message = m\<rparr>"
    unfolding newInboundRecorder_def inbound_Record_def by (auto elim!: go_bind_InrE)
  have "m = inbound_message stored (pr_ParsedMessage pr) i (t_ID t) (c_ID c)"
    using rt_Create_returns [of "inbound_message stored (pr_ParsedMessage pr) i (t_ID t) (c_ID c)" s2] m by simp
  then have "m_ID (rr_Message x) = i" by (simp add: x)
  with i show ?thesis unfolding newMessageID_def by (auto dest: random_id_length)
qed

lemma demo_process:
  assumes "newInboundProcessor demo_decode demo_stored (demo_world demo_raw_store) = (Inr pr, w1)"
  shows "t_ID (pr_Thread pr) = ''thread-1'' \<and> mem w1 = demo_raw_store"
  using assms
  by (auto simp: newInboundProcessor_def Processor_Process_def Parser_Parse_def go_bind_def rt_eqs store_read_defs
     demo_raw_store_def demo_defs demo_stored_def demo_decode_def demo_parsed_def contacts_Resolve_def
     threading_Resolve_def Let_def grange_def gkeys_def legal_order_def is_order_def matched_def)

text \<open>The message of the concrete delivery joins the thread that has one message.\<close>

theorem history_drops_new_message_witness:
  "\<exists>r w'. inbound_base demo_decode demo_stored (demo_world demo_raw_store) = (Inr r, w') \<and>
     length (thread_history demo_config r w') = 1 \<and> hr_Message r \<notin> set (thread_history demo_config r w')"
proof -
  let ?w = "demo_world demo_raw_store"
  have ok: "world_ok ?w" by (simp add: demo_raw_store_ok)
  obtain r w' where run: "inbound_base demo_decode demo_stored ?w = (Inr r, w')" and new: "\<not> hr_Duplicate r"
    using inbound_base_fresh [of ?w demo_stored "''RAW''" demo_decode demo_parsed]
    by (auto simp: demo_raw_store_ok demo_raw_store_maps demo_delivery)
  from run new obtain pr x w1 w2 where p: "newInboundProcessor demo_decode demo_stored ?w = (Inr pr, w1)"
    and rec: "newInboundRecorder demo_stored pr w2 = (Inr x, w')"
    and r: "hr_Thread r = rr_Thread x" "hr_Message r = rr_Message x"
    unfolding inbound_base_def HandleStoredMessage_def
    by (auto simp: go_bind_Inr_iff split: option.splits dest: find_duplicate_SomeD)
  have t: "t_ID (hr_Thread r) = ''thread-1''"
    using inbound_Record_run [OF rec] demo_process [OF p] by (auto simp: r)
  have one: "slice_at (messagesByThreadID demo_raw_store) ''thread-1'' = [''message-1'']"
    by (simp add: demo_raw_store_def demo_defs slice_at_def)
  have "m_ID (hr_Message r) \<noteq> ''message-1''"
    using recorder_message_id [OF rec] by (auto simp: r)
  with history_drops_new_message [OF ok run new, of demo_config] run show ?thesis
    by (simp add: t one list_limit_def)
qed

end
