(* ===== verification/System.thy ===== *)
theory System
  imports Reply_Laws App_Laws
begin

text \<open>
  The running system: a store, any number of open SMTP sessions, and the requests of the HTTP API
  and the retry worker, interleaved in any order. A session command, an API request and a sweep
  are one step each, kept whole on their error paths too. The invariant says that the records
  refer to each other properly and that every receipt has its bytes.
\<close>

section \<open>What a step may rely on\<close>

text \<open>A fact about the store that, once true, stays true.\<close>

datatype fact = HasThread string | HasContact string | Listed string string | HasBlob string

fun holds :: "fact \<Rightarrow> mem_store \<Rightarrow> bool" where
  "holds (HasThread t) s \<longleftrightarrow> t \<in> dom (map_of (threadsByID s))"
| "holds (HasContact c) s \<longleftrightarrow> c \<in> dom (map_of (contactsByID s))"
| "holds (Listed t i) s \<longleftrightarrow> t = [] \<or> i \<in> set (slice_at (messagesByThreadID s) t)"
| "holds (HasBlob k) s \<longleftrightarrow> k \<in> dom (map_of (rawMessages s))"

definition message_facts :: "message \<Rightarrow> fact set" where
  "message_facts m = {HasThread (m_ThreadID m), HasContact (m_ContactID m), Listed (m_ThreadID m) (m_ID m)}"

text \<open>Every message, in either index, belongs to a stored thread that lists it and to a stored contact.\<close>

definition linked :: "mem_store \<Rightarrow> bool" where
  "linked s \<longleftrightarrow> (\<forall>m \<in> ran (map_of (messagesByID s)) \<union> ran (map_of (messagesByProviderID s)).
     \<forall>f \<in> message_facts m. holds f s)"

text \<open>Every receipt has its bytes.\<close>

definition durable :: "mem_store \<Rightarrow> bool" where
  "durable s \<longleftrightarrow> (\<forall>k \<in> dom (map_of (inboundReceiptsByKey s)). holds (HasBlob k) s)"

definition sys_ok :: "'z world_scheme \<Rightarrow> bool" where
  "sys_ok w \<longleftrightarrow> world_ok w \<and> linked (mem w) \<and> durable (mem w)"

definition known :: "fact set \<Rightarrow> 'z world_scheme \<Rightarrow> bool" where
  "known F w \<longleftrightarrow> sys_ok w \<and> (\<forall>f \<in> F. holds f (mem w))"

text \<open>
  \<open>ensures F m G\<close>: from a good store in which the facts \<open>F\<close> hold, \<open>m\<close> leaves a good store, and
  when it returns a value \<open>x\<close> the facts \<open>G x\<close> hold.
\<close>

definition ensures :: "fact set \<Rightarrow> ('z world_scheme, 'a) go \<Rightarrow> ('a \<Rightarrow> fact set) \<Rightarrow> bool" where
  "ensures F m G \<longleftrightarrow> (\<forall>w. known F w \<longrightarrow>
     (case m w of (Inl e, w') \<Rightarrow> sys_ok w' | (Inr x, w') \<Rightarrow> known (G x) w'))"

lemma ensuresD: "ensures F m G \<Longrightarrow> known F w \<Longrightarrow> m w = (r, w') \<Longrightarrow> sys_ok w'"
  by (cases r) (auto simp: ensures_def known_def)

lemma ensures_bind:
  fixes m :: "('z world_scheme, 'a) go"
  assumes m: "ensures F m G" and f: "\<And>x. ensures (G x) (f x) H"
  shows "ensures F (go_bind m f) H"
  unfolding ensures_def
proof (intro allI impI)
  fix w :: "'z world_scheme"
  assume "known F w"
  obtain r w1 where r: "m w = (r, w1)" by (cases "m w")
  show "case go_bind m f w of (Inl e, w') \<Rightarrow> sys_ok w' | (Inr x, w') \<Rightarrow> known (H x) w'"
  proof (cases r)
    case (Inl e)
    with r m \<open>known F w\<close> show ?thesis by (auto simp: go_bind_def ensures_def)
  next
    case (Inr x)
    with r m \<open>known F w\<close> have "known (G x) w1" by (auto simp: ensures_def)
    with f [of x] have "case f x w1 of (Inl e, w') \<Rightarrow> sys_ok w' | (Inr x, w') \<Rightarrow> known (H x) w'"
      by (simp add: ensures_def)
    with r Inr show ?thesis by (simp add: go_bind_def)
  qed
qed

lemma ensures_try:
  fixes m :: "('z world_scheme, 'a) go"
  assumes "ensures F m G"
  shows "ensures F (go_try m) (\<lambda>_. {})"
  unfolding ensures_def
proof (intro allI impI)
  fix w :: "'z world_scheme"
  assume k: "known F w"
  obtain r w' where r: "m w = (r, w')" by (cases "m w")
  with ensuresD [OF assms k] show "case go_try m w of (Inl e, w') \<Rightarrow> sys_ok w' | (Inr x, w') \<Rightarrow> known {} w'"
    by (simp add: go_try_def known_def)
qed

lemma ensures_ret: "G x \<subseteq> F \<Longrightarrow> ensures F (go_ret x) G"
  by (auto simp: ensures_def known_def)

lemma ensures_fail [intro]: "ensures F (go_fail e) G"
  by (auto simp: ensures_def known_def)

lemma ensures_weaken: "ensures F m G \<Longrightarrow> F \<subseteq> F' \<Longrightarrow> (\<And>x. G' x \<subseteq> G x) \<Longrightarrow> ensures F' m G'"
  unfolding ensures_def known_def by (fastforce split: prod.splits sum.splits)

lemma ensures_if [intro]:
  "(b \<Longrightarrow> ensures F m G) \<Longrightarrow> (\<not> b \<Longrightarrow> ensures F m' G) \<Longrightarrow> ensures F (if b then m else m') G"
  by simp

section \<open>Operations that leave the referenced records alone\<close>

definition link_view :: "'z world_scheme \<Rightarrow> thread gmap \<times> contact gmap \<times> message gmap \<times> message gmap \<times>
    string list gmap \<times> string gmap \<times> durable_receipt_request gmap" where
  "link_view w = (threadsByID (mem w), contactsByID (mem w), messagesByID (mem w),
     messagesByProviderID (mem w), messagesByThreadID (mem w), rawMessages (mem w), inboundReceiptsByKey (mem w))"

lemma holds_cong:
  assumes "link_view w' = link_view w"
  shows "holds f (mem w') = holds f (mem w)"
  using assms by (cases f) (simp_all add: link_view_def)

lemma known_cong:
  assumes "link_view w' = link_view w" and "world_ok w'" and "known F w"
  shows "known F w'"
proof -
  have "messagesByID (mem w') = messagesByID (mem w)" "messagesByProviderID (mem w') = messagesByProviderID (mem w)"
    "inboundReceiptsByKey (mem w') = inboundReceiptsByKey (mem w)"
    using assms(1) by (simp_all add: link_view_def)
  with assms(2,3) show ?thesis
    unfolding known_def sys_ok_def linked_def durable_def holds_cong [OF assms(1)] by simp
qed

lemma ensures_frames:
  fixes m :: "('z world_scheme, 'a) go"
  assumes "frames link_view m" and "keeps world_ok m"
  shows "ensures F m (\<lambda>_. F)"
  unfolding ensures_def
proof (intro allI impI)
  fix w :: "'z world_scheme"
  assume k: "known F w"
  obtain r w' where r: "m w = (r, w')" by (cases "m w")
  have "world_ok w" using k by (simp add: known_def sys_ok_def)
  have "known F w'"
    by (rule known_cong [OF framesD [OF assms(1) r] keepsD [OF assms(2) \<open>world_ok w\<close> r] k])
  then show "case m w of (Inl e, w') \<Rightarrow> sys_ok w' | (Inr x, w') \<Rightarrow> known F w'"
    by (simp add: r known_def split: sum.split)
qed

lemma frames_link_of_mem: "frames mem m \<Longrightarrow> frames link_view m"
  by (auto simp: frames_def link_view_def)

lemmas frames_link_reads [intro, simp] = frames_mem_env [THEN frames_link_of_mem]
  frames_rt_reads [THEN frames_link_of_mem] frames_newInboundProcessor [THEN frames_link_of_mem]
  frames_find_duplicate [THEN frames_link_of_mem] frames_Dispatch [THEN frames_link_of_mem]

lemma frames_link_writes [intro, simp]:
  "frames link_view (rt_SaveWebhookDelivery d)" "frames link_view (rt_SaveSuppression x)"
  "frames link_view (rt_SaveReplySubmission k i)" "frames link_view (rt_CreateMemory e)"
  "frames link_view (rt_SaveOrganization a)" "frames link_view (rt_SaveAgent b)" "frames link_view (rt_SaveInbox y)"
  by (simp_all add: frames_def link_view_def rt_eqs Store_SaveWebhookDelivery_def Store_SaveSuppression_def
      Store_SaveReplySubmission_def Store_CreateMemory_def Store_SaveOrganization_def Store_SaveAgent_def
      Store_SaveInbox_def Let_def)

lemma ensures_mem: "frames mem m \<Longrightarrow> ensures F m (\<lambda>_. F)"
  by (intro ensures_frames frames_link_of_mem frames_keeps_world)

section \<open>Operations that write the referenced records\<close>

text \<open>What a write may do to a good store: keep every fact, and add messages that are linked.\<close>

lemma ensures_write:
  fixes w w' :: "'z world_scheme"
  assumes "known F w" and "world_ok w'"
    and mono: "\<And>f. holds f (mem w) \<Longrightarrow> holds f (mem w')"
    and msgs: "\<And>m. m \<in> ran (map_of (messagesByID (mem w'))) \<union> ran (map_of (messagesByProviderID (mem w'))) \<Longrightarrow>
       m \<in> ran (map_of (messagesByID (mem w))) \<union> ran (map_of (messagesByProviderID (mem w))) \<or>
       (\<forall>f \<in> message_facts m. holds f (mem w'))"
    and rcpt: "dom (map_of (inboundReceiptsByKey (mem w'))) \<subseteq>
       dom (map_of (inboundReceiptsByKey (mem w))) \<union> {k. holds (HasBlob k) (mem w')}"
    and G: "\<forall>f \<in> G - F. holds f (mem w')"
  shows "known G w'"
proof -
  have old: "linked (mem w)" "durable (mem w)" "\<forall>f \<in> F. holds f (mem w)"
    using assms(1) by (simp_all add: known_def sys_ok_def)
  have "linked (mem w')"
    unfolding linked_def
  proof (intro ballI)
    fix m f
    assume m: "m \<in> ran (map_of (messagesByID (mem w'))) \<union> ran (map_of (messagesByProviderID (mem w')))"
      and f: "f \<in> message_facts m"
    from msgs [OF m] show "holds f (mem w')"
      using old(1) f mono unfolding linked_def by blast
  qed
  moreover have "durable (mem w')"
    using rcpt old(2) mono unfolding durable_def by blast
  moreover have "\<forall>f \<in> G. holds f (mem w')"
    using G old(3) mono by blast
  ultimately show ?thesis using assms(2) by (simp add: known_def sys_ok_def)
qed

lemma known_world_ok: "known F w \<Longrightarrow> world_ok w"
  by (simp add: known_def sys_ok_def)

lemma ensures_Save: "ensures F (rt_Save t) (\<lambda>t'. insert (HasThread (t_ID t')) F)"
  unfolding ensures_def rt_Save_run
proof (simp, intro allI impI)
  fix w :: "'z world_scheme"
  assume k: "known F w"
  let ?t = "stored_thread (mem w) t"
  let ?w = "w\<lparr>mem := mem w\<lparr>threadsByID := gput (t_ID t) ?t (threadsByID (mem w))\<rparr>\<rparr>"
  have "world_ok ?w" using keepsD [OF keeps_rt_writes(7) known_world_ok [OF k]] rt_Save_run by blast
  moreover have "holds f (mem ?w)" if "holds f (mem w)" for f using that by (cases f) auto
  ultimately show "known (insert (HasThread (t_ID t)) F) ?w" by (intro ensures_write [OF k]) auto
qed

lemma ensures_Upsert: "ensures F (rt_UpsertByEmail c) (\<lambda>c'. insert (HasContact (c_ID c')) F)"
  unfolding ensures_def rt_UpsertByEmail_run
proof (simp, intro allI impI)
  fix w :: "'z world_scheme"
  assume k: "known F w"
  let ?w = "w\<lparr>mem := mem w\<lparr>contactsByID := gput (c_ID c) c (contactsByID (mem w)),
     contactsByEmail := gput (c_EmailAddress c) c (contactsByEmail (mem w))\<rparr>\<rparr>"
  have "world_ok ?w" using keepsD [OF keeps_rt_writes(6) known_world_ok [OF k]] rt_UpsertByEmail_run by blast
  moreover have "holds f (mem ?w)" if "holds f (mem w)" for f using that by (cases f) auto
  ultimately show "known (insert (HasContact (c_ID c)) F) ?w" by (intro ensures_write [OF k]) auto
qed

lemma ensures_Put: "ensures F (rt_Put k d) (\<lambda>_. insert (HasBlob k) F)"
  unfolding ensures_def
proof (intro allI impI)
  fix w :: "'z world_scheme"
  assume k: "known F w"
  let ?w = "w\<lparr>mem := mem w\<lparr>rawMessages := gput k d (rawMessages (mem w))\<rparr>\<rparr>"
  have run: "rt_Put k d w = (Inr (), ?w)" by (simp add: rt_eqs Store_Put_def)
  have "world_ok ?w" by (rule keepsD [OF keeps_rt_writes(4) known_world_ok [OF k] run])
  moreover have "holds f (mem ?w)" if "holds f (mem w)" for f using that by (cases f) auto
  ultimately have "known (insert (HasBlob k) F) ?w" by (intro ensures_write [OF k]) auto
  with run show "case rt_Put k d w of (Inl e, w') \<Rightarrow> sys_ok w' | (Inr x, w') \<Rightarrow> known (insert (HasBlob k) F) w'"
    by simp
qed

lemma ensures_SaveReceipt:
  assumes "HasBlob (dr_RawMessageObjectKey q) \<in> F"
  shows "ensures F (rt_SaveInboundReceipt q) (\<lambda>_. F)"
  unfolding ensures_def
proof (intro allI impI)
  fix w :: "'z world_scheme"
  assume k: "known F w"
  let ?w = "w\<lparr>mem := mem w\<lparr>inboundReceiptsByKey := gput (dr_RawMessageObjectKey q) q (inboundReceiptsByKey (mem w))\<rparr>\<rparr>"
  have run: "rt_SaveInboundReceipt q w = (Inr (), ?w)" by (simp add: rt_eqs Store_SaveInboundReceipt_def)
  have "world_ok ?w" by (rule keepsD [OF keeps_rt_writes(5) known_world_ok [OF k] run])
  moreover have "holds f (mem ?w) = holds f (mem w)" for f by (cases f) auto
  moreover have "holds (HasBlob (dr_RawMessageObjectKey q)) (mem w)" using k assms by (auto simp: known_def)
  ultimately have "known F ?w" by (intro ensures_write [OF k]) auto
  with run show "case rt_SaveInboundReceipt q w of (Inl e, w') \<Rightarrow> sys_ok w' | (Inr x, w') \<Rightarrow> known F w'"
    by simp
qed

lemma ran_index_message:
  "m' \<in> ran (map_of (messagesByID (index_message m s))) \<union> ran (map_of (messagesByProviderID (index_message m s))) \<Longrightarrow>
   m' \<in> ran (map_of (messagesByID s)) \<union> ran (map_of (messagesByProviderID s)) \<or> m' = m"
  by (auto simp: index_message_def Let_def ran_def split: if_splits)

lemma index_message_other [simp]:
  "threadsByID (index_message m s) = threadsByID s" "contactsByID (index_message m s) = contactsByID s"
  "rawMessages (index_message m s) = rawMessages s" "inboundReceiptsByKey (index_message m s) = inboundReceiptsByKey s"
  by (simp_all add: index_message_def Let_def)

lemma ensures_Create:
  assumes "{HasThread (m_ThreadID m), HasContact (m_ContactID m)} \<subseteq> F"
  shows "ensures F (rt_Create m) (\<lambda>m'. message_facts m' \<union> F)"
  unfolding ensures_def
proof (intro allI impI)
  fix w :: "'z world_scheme"
  assume k: "known F w"
  obtain w' where run: "rt_Create m w = (Inr m, w')" and w': "mem w' = snd (Store_Create m (mem w))"
    using rt_Create_returns [of m w] by (auto simp: rt_eqs)
  have "world_ok w'" by (rule keepsD [OF keeps_rt_writes(8) known_world_ok [OF k] run])
  moreover have mono: "holds f (mem w')" if "holds f (mem w)" for f
    using that by (cases f) (auto simp: w' Store_Create_effect)
  moreover have here: "\<forall>f \<in> message_facts m. holds f (mem w')"
    using assms k by (auto simp: message_facts_def known_def w' Store_Create_effect)
  moreover have "m' \<in> ran (map_of (messagesByID (mem w))) \<union> ran (map_of (messagesByProviderID (mem w))) \<or> m' = m"
    if "m' \<in> ran (map_of (messagesByID (mem w'))) \<union> ran (map_of (messagesByProviderID (mem w')))" for m'
    using that ran_index_message [of m' m "mem w"] by (auto simp: w' Store_Create_def Let_def split: if_splits)
  ultimately have "known (message_facts m \<union> F) w'"
    by (intro ensures_write [OF k]) (auto simp: w' Store_Create_effect)
  with run show "case rt_Create m w of (Inl e, w') \<Rightarrow> sys_ok w' | (Inr x, w') \<Rightarrow> known (message_facts x \<union> F) w'"
    by simp
qed

lemma ensures_SaveMessage:
  assumes "message_facts m \<subseteq> F"
  shows "ensures F (rt_SaveMessage m) (\<lambda>_. F)"
  unfolding ensures_def rt_SaveMessage_run
proof (simp, intro allI impI)
  fix w :: "'z world_scheme"
  assume k: "known F w"
  let ?w = "w\<lparr>mem := index_message m (mem w)\<rparr>"
  have "world_ok ?w" using keepsD [OF keeps_rt_writes(9) known_world_ok [OF k]] rt_SaveMessage_run by blast
  moreover have "holds f (mem ?w) = holds f (mem w)" for f by (cases f) simp_all
  moreover have "\<forall>f \<in> message_facts m. holds f (mem w)" using assms k by (auto simp: known_def)
  ultimately show "known F ?w"
    using ran_index_message [of _ m "mem w"] by (intro ensures_write [OF k]) auto
qed

lemma message_facts_cong:
  "m_ThreadID m' = m_ThreadID m \<Longrightarrow> m_ContactID m' = m_ContactID m \<Longrightarrow> m_ID m' = m_ID m \<Longrightarrow>
   message_facts m' = message_facts m"
  by (simp add: message_facts_def)

lemma ensures_FindProvider:
  "ensures F (rt_FindByProviderMessageID p) (\<lambda>r. case r of None \<Rightarrow> F | Some m \<Rightarrow> message_facts m)"
proof -
  have "holds f (mem w)" if "known F w" "map_of (messagesByProviderID (mem w)) p = Some m" "f \<in> message_facts m"
    for w :: "'z world_scheme" and m f
    using that unfolding known_def sys_ok_def linked_def by (blast intro: ranI)
  then show ?thesis
    by (auto simp: ensures_def rt_eqs Store_FindByProviderMessageID_def known_def split: option.split)
qed

lemma ensures_load_reply:
  "ensures F (load_reply rt_reply_adapter input)
     (\<lambda>l. {HasThread (t_ID (si_Thread l)), HasContact (c_ID (si_Contact l))})"
  unfolding ensures_def
proof (intro allI impI)
  fix w :: "'z world_scheme"
  assume k: "known F w"
  then have keyed: "keyed t_ID (threadsByID (mem w))" "keyed c_ID (contactsByID (mem w))"
    by (simp_all add: known_def sys_ok_def world_ok_def mem_ok_def)
  obtain x w' where run: "load_reply rt_reply_adapter input w = (x, w')" by (cases "load_reply rt_reply_adapter input w")
  note eff = load_reply_run [OF run]
  have "holds (HasThread (t_ID (si_Thread l))) (mem w) \<and> holds (HasContact (c_ID (si_Contact l))) (mem w)"
    if "x = Inr l" for l
    using eff that keyedD [OF keyed(1)] keyedD [OF keyed(2)] by fastforce
  with k eff show "case load_reply rt_reply_adapter input w of (Inl e, w') \<Rightarrow> sys_ok w'
      | (Inr l, w') \<Rightarrow> known {HasThread (t_ID (si_Thread l)), HasContact (c_ID (si_Contact l))} w'"
    by (auto simp: run known_def split: sum.split)
qed

section \<open>The services keep the store good\<close>

lemma ensures_inbound_Record: "ensures F (newInboundRecorder stored pr) (\<lambda>_. {})"
proof -
  have id: "ensures F newMessageID (\<lambda>_. F)" for F
    unfolding newMessageID_def by (rule ensures_mem) simp
  show ?thesis
    unfolding newInboundRecorder_def inbound_Record_def
    by (rule ensures_bind [OF ensures_Upsert], rule ensures_bind [OF ensures_Save], rule ensures_bind [OF id],
        rule ensures_bind [OF ensures_Create], simp, rule ensures_bind [OF ensures_Save], rule ensures_ret, simp)
qed

lemma ensures_inbound_base: "ensures F (inbound_base decode stored) (\<lambda>_. {})"
proof -
  have p: "ensures F (newInboundProcessor decode stored) (\<lambda>_. {})"
    by (rule ensures_weaken [OF ensures_mem [OF frames_newInboundProcessor, where F = F]]) simp_all
  have d: "ensures {} (find_duplicate (Some rt_duplicates) stored parsed) (\<lambda>_. {})" for parsed
    by (rule ensures_weaken [OF ensures_mem [OF frames_find_duplicate, where F = "{}"]]) simp_all
  show ?thesis
    unfolding inbound_base_def HandleStoredMessage_def
    by (rule ensures_bind [OF p], rule ensures_bind [OF d])
      (auto intro!: ensures_ret ensures_bind [OF ensures_inbound_Record] split: option.split)
qed

lemma frames_link_deliver [intro, simp]: "frames link_view (newMessageReceivedDeliveryService url secret bi)"
  unfolding newMessageReceivedDeliveryService_def DeliverAndRecordMessageReceived_def
    DeliverMessageReceived_def RecordAttempt_def Signer_Sign_def Let_def
  by (auto intro!: frames_bind frames_if split: prod.split)

lemma ensures_runtime: "ensures F (runtime_handler decode config stored) (\<lambda>_. {})"
proof -
  have "frames link_view (rt_dispatch config h)" "keeps world_ok (rt_dispatch config h)" for h
    unfolding dispatch_handled_def newMessageReceivedDelivery_def randomHexID_def
    by (auto intro!: frames_bind keeps_bind)
  then have d: "ensures {} (rt_dispatch config h) (\<lambda>_. {})" for h
    by (rule ensures_frames)
  show ?thesis
    unfolding runtime_handler_run
    by (rule ensures_bind [OF ensures_inbound_base]) (auto intro!: d ensures_ret)
qed

lemma message_facts_sent [simp]: "message_facts (sent_message m sr) = message_facts m"
  by (simp add: message_facts_def)

lemma ensures_SendReply:
  assumes prov: "\<And>q. frames mem (ep_Send provider q)"
    and F: "{HasThread (t_ID (si_Thread input)), HasContact (c_ID (si_Contact input))} \<subseteq> F"
  shows "ensures F (SendReply (newReplyService provider) input) (\<lambda>_. {})"
proof -
  have rec: "ensures F (RecordQueuedReply rt_queue_recorder q) (\<lambda>r. message_facts (qd_Message r))"
    if q: "rq_Thread q = si_Thread input" "rq_Contact q = si_Contact input" for q
  proof -
    have put: "ensures F (if rq_ObjectKey q = [] then go_fail e else rt_Put (rq_ObjectKey q) (rq_RawMIME q)) (\<lambda>_. F)" for e
      using ensures_weaken [OF ensures_Put order_refl, where G' = "\<lambda>_. F"] by auto
    have id: "ensures F newOutboundMessageID (\<lambda>_. F)"
      unfolding newOutboundMessageID_def by (rule ensures_mem) simp
    have cr: "ensures F (rt_Create (queued_message q i)) (\<lambda>m. message_facts m)" for i
      by (rule ensures_weaken [OF ensures_Create [of _ F]]) (use F q in simp_all)
    have sv: "ensures (message_facts m) (go_bind (rt_Save t) (\<lambda>thread. go_ret \<lparr>qd_Thread = thread, qd_Message = m\<rparr>))
        (\<lambda>r. message_facts (qd_Message r))" for m t
      by (rule ensures_bind [OF ensures_Save], rule ensures_ret) auto
    show ?thesis
      unfolding RecordQueuedReply_def queue_recorder.simps option.case
      by (rule ensures_bind [OF put], rule ensures_bind [OF id], rule ensures_bind [OF cr], rule sv)
  qed
  have send: "ensures (message_facts m) (go_bind (ep_Send provider req) (\<lambda>sr.
      go_bind (RecordSent rt_SaveMessage m sr) (\<lambda>message. go_ret (g sr message)))) (\<lambda>_. {})" for m req g
    by (rule ensures_bind [OF ensures_mem [OF prov]], rule ensures_bind, unfold RecordSent_def,
        rule ensures_SaveMessage) (auto simp: message_facts_def intro: ensures_ret)
  have asm: "ensures F (AssembleReply (go_ret g) a) (\<lambda>_. F)" for g a
    by (rule ensures_mem) (auto simp: AssembleReply_def Let_def intro!: frames_bind frames_if)
  have tick: "ensures F time_now (\<lambda>_. F)" by (rule ensures_mem) simp
  have unsup: "ensures F (send_unsuppressed (newReplyService provider) input) (\<lambda>_. {})"
    unfolding send_unsuppressed_def newReplyService_def reply_service.simps SendQueuedReply_def
    by (rule ensures_bind [OF asm], simp only: split_beta, rule ensures_bind [OF tick],
        rule ensures_bind [OF rec], simp, simp, rule send)
  have chk: "ensures F (go_bind (rt_IsSuppressed a b) (\<lambda>x. if x then go_fail e else go_ret ())) (\<lambda>_. F)" for a b e
    by (rule ensures_mem) (auto intro!: frames_bind frames_if)
  have svc: "rs_isSuppressed (newReplyService provider) = Some rt_IsSuppressed" by (simp add: newReplyService_def)
  show ?thesis
    unfolding SendReply_def svc option.case by (rule ensures_bind [OF chk unsup])
qed

lemma ensures_newReplyHandlerService:
  assumes "\<And>q. frames mem (ep_Send provider q)"
  shows "ensures F (newReplyHandlerService provider input) (\<lambda>_. {})"
proof -
  have find: "ensures F (find_submission rt_reply_adapter input) (\<lambda>_. F)"
    by (rule ensures_mem) (metis find_submission_reads frames_def prod.collapse)
  have sub: "ensures {} (if b then ad_SaveSubmission rt_reply_adapter k i else go_ret ()) (\<lambda>_. {})" for b k i
    by (auto simp: rt_reply_adapter_def intro!: ensures_ret ensures_frames)
  show ?thesis
    unfolding newReplyHandlerService_def replyServiceAdapter_def
    by (rule ensures_bind [OF find])
      (auto split: option.split intro!: ensures_ret ensures_bind [OF ensures_load_reply]
        ensures_bind [OF ensures_SendReply [OF assms]] ensures_bind [OF sub])
qed

lemma frames_link_Suppression [intro, simp]: "frames link_view (Suppression_Apply rt_SaveSuppression m c st at)"
  and keeps_Suppression [intro, simp]: "keeps world_ok (Suppression_Apply rt_SaveSuppression m c st at)"
  unfolding Suppression_Apply_def newSuppressionID_def
  by (auto intro!: frames_bind frames_if keeps_bind keeps_if)

lemma ensures_newOutboundCallbackFlow: "ensures F (newOutboundCallbackFlow event contact) (\<lambda>_. {})"
proof -
  have rec: "ensures (message_facts m) (RecordStatus rt_SaveMessage m st at) (\<lambda>_. {})" for m st at
    unfolding RecordStatus_def
    by (rule ensures_weaken [OF ensures_SaveMessage [of _ "message_facts m"]]) (simp_all add: message_facts_def)
  have cb: "ensures F (ApplyCallback rt_FindByProviderMessageID (RecordStatus rt_SaveMessage) event) (\<lambda>_. {})"
    unfolding ApplyCallback_def
    by (rule ensures_bind [OF ensures_FindProvider]) (auto split: option.split intro: rec)
  have sup: "ensures {} (Suppression_Apply rt_SaveSuppression m c st at) (\<lambda>_. {})" for m c st at
    by (rule ensures_frames) simp_all
  show ?thesis
    unfolding newOutboundCallbackFlow_def CallbackFlow_Apply_def
    by (rule ensures_bind [OF cb], rule ensures_bind [OF sup]) (simp add: split_beta ensures_ret)
qed

lemma link_ReplayDelivery: "frames link_view (rt_ReplayDelivery k)" "keeps world_ok (rt_ReplayDelivery k)"
  unfolding rt_ReplayDelivery_def ReplayDelivery_def RecordAttempt_def Let_def
  by (auto intro!: frames_bind frames_if keeps_bind keeps_if)

lemma ensures_ReplayDelivery: "ensures F (rt_ReplayDelivery k) (\<lambda>_. F)"
  by (rule ensures_frames) (simp_all add: link_ReplayDelivery)

lemma ensures_sweep_loop: "ensures {} (sweep_loop rt_ReplayDelivery at ds res) (\<lambda>_. {})"
proof (induction ds arbitrary: res)
  case (Cons d ds)
  have "ensures {} (go_try (rt_ReplayDelivery (wd_ID d))) (\<lambda>_. {})" by (rule ensures_try [OF ensures_ReplayDelivery])
  with Cons show ?case by (auto simp: Let_def intro!: ensures_bind split: sum.split)
qed (simp add: ensures_ret)

lemma ensures_sweep: "ensures {} (newWebhookRetrySweepService limit) (\<lambda>_. {})"
  unfolding newWebhookRetrySweepService_def RetryDueDeliveries_def
  by (rule ensures_bind [OF ensures_mem], simp, rule ensures_bind [OF ensures_mem], simp, rule ensures_sweep_loop)

lemma ensures_escalate: "ensures F (newThreadEscalationHandlerService i) (\<lambda>_. {})"
proof -
  have get: "ensures F (rt_GetByID i) (\<lambda>_. F)" and tick: "ensures F time_now (\<lambda>_. F)"
    by (rule ensures_mem, simp)+
  show ?thesis
    unfolding newThreadEscalationHandlerService_def threadEscalationServiceAdapter_def EscalateThread_def
    by (rule ensures_bind [OF get], rule ensures_bind [OF tick], rule ensures_weaken [OF ensures_Save order_refl]) simp
qed

lemma link_memory: "frames link_view (newContactMemoryHandlerService c input)"
    "keeps world_ok (newContactMemoryHandlerService c input)"
  unfolding newContactMemoryHandlerService_def contactMemoryServiceAdapter_def CreateContactMemory_def
    newContactMemoryID_def
  by (auto intro!: frames_bind frames_if keeps_bind keeps_if)

lemma link_bootstrap: "frames link_view (newBootstrapService input)" "keeps world_ok (newBootstrapService input)"
  unfolding newBootstrapService_def BootstrapLocal_def Let_def
  by (auto intro!: frames_bind keeps_bind)

section \<open>The system\<close>

text \<open>The requests that write, as the HTTP API and the worker hand them to the services.\<close>

datatype request =
    Reply send_reply_input
  | Escalate string
  | Remember string create_memory_input
  | Callback delivery_callback_event contact
  | Replay string
  | Sweep int
  | Reprocess string
  | Bootstrap bootstrap_input

text \<open>The dispatch of \<open>cmd/agentlayer\<close>: each request goes to the service wired for it. The email
  provider and the configuration the reprocessing service captured are fixed at start-up.\<close>

fun serve ::
    "(string \<Rightarrow> gerr + parsed_message) \<Rightarrow> world email_provider \<Rightarrow> inbound_runtime_config \<Rightarrow> request \<Rightarrow>
     (world, unit) go" where
  "serve decode provider config (Reply input) = go_bind (newReplyHandlerService provider input) (\<lambda>_. go_ret ())"
| "serve decode provider config (Escalate i) = go_bind (newThreadEscalationHandlerService i) (\<lambda>_. go_ret ())"
| "serve decode provider config (Remember c input) = go_bind (newContactMemoryHandlerService c input) (\<lambda>_. go_ret ())"
| "serve decode provider config (Callback event contact) = go_bind (newOutboundCallbackFlow event contact) (\<lambda>_. go_ret ())"
| "serve decode provider config (Replay k) = go_bind (rt_ReplayDelivery k) (\<lambda>_. go_ret ())"
| "serve decode provider config (Sweep n) = runOnce n"
| "serve decode provider config (Reprocess k) = go_bind (newInboundReprocessService decode config k) (\<lambda>_. go_ret ())"
| "serve decode provider config (Bootstrap input) = go_bind (newBootstrapService input) (\<lambda>_. go_ret ())"

lemma ensures_serve:
  assumes "\<And>q. frames mem (ep_Send provider q)"
  shows "ensures {} (serve decode provider config q) (\<lambda>_. {})"
proof -
  have fin: "ensures F (go_ret ()) (\<lambda>_. {})" for F by (rule ensures_ret) simp
  have get: "ensures {} (rt_GetInboundReceiptByObjectKey k) (\<lambda>_. {})" for k by (rule ensures_mem) simp
  have rep: "ensures {} (newInboundReprocessService decode config k) (\<lambda>_. {})" for k
    unfolding newInboundReprocessService_def ReprocessByObjectKey_def
    by (rule ensures_bind [OF get ensures_runtime])
  have mem: "ensures {} (newContactMemoryHandlerService c input) (\<lambda>_. {})"
    and boot: "ensures {} (newBootstrapService b) (\<lambda>_. {})" for c input b
    by (rule ensures_frames, simp_all add: link_memory link_bootstrap)+
  show ?thesis
    by (cases q) (auto simp: runOnce_def intro!: fin ensures_bind [OF ensures_newReplyHandlerService [OF assms]]
        ensures_bind [OF ensures_escalate] ensures_bind [OF mem] ensures_bind [OF ensures_newOutboundCallbackFlow]
        ensures_bind [OF ensures_ReplayDelivery] ensures_bind [OF ensures_try [OF ensures_sweep]]
        ensures_bind [OF rep] ensures_bind [OF boot])
qed

text \<open>A session of this server: as the factory makes it, whatever the client has sent so far.\<close>

definition served :: "(string \<Rightarrow> gerr + parsed_message) \<Rightarrow> world session \<Rightarrow> bool" where
  "served decode s \<longleftrightarrow> (\<exists>config at sid. same_wiring s (edge_session rt_FindByEmailAddress rt_Put
     rt_SaveInboundReceipt (runtime_handler decode config) at sid))"

lemma command_served:
  assumes "served decode s" and "sys_ok w"
    and run: "AdapterSession_call (NewAdapterSession session_core) cmd (s, w) = (r, (s', w'))"
  shows "served decode s' \<and> sys_ok w'"
proof -
  obtain config at sid where wired: "same_wiring s (edge_session rt_FindByEmailAddress rt_Put
      rt_SaveInboundReceipt (runtime_handler decode config) at sid)"
    using assms(1) unfolding served_def by blast
  note parts = same_wiringD [OF wired]
  have accept: "ensures {} (session_accept s raw) (\<lambda>_. {})" for raw
  proof -
    have key: "ensures {} (NewRawMessageObjectKey t i) (\<lambda>_. {})" for t i
      by (rule ensures_mem) (auto simp: NewRawMessageObjectKey_def randomHex_def Let_def
          intro!: frames_bind split: option.split)
    have enq: "ensures {HasBlob (dr_RawMessageObjectKey q)} (Enqueue (runtime_handler decode config)
        (Some rt_SaveInboundReceipt) q) (\<lambda>_. {})" for q
      unfolding Enqueue_def option.case
      by (rule ensures_bind [OF ensures_SaveReceipt], simp, rule ensures_bind [OF ensures_runtime], rule ensures_ret) simp
    show ?thesis
      unfolding session_accept_def using parts
      by (simp, intro ensures_bind [OF key] ensures_bind [OF ensures_Put])
        (use enq [of "session_receipt s _ _"] in \<open>simp add: session_receipt_def\<close>)
  qed
  have k: "known {} w" using assms(2) by (simp add: known_def)
  have "same_wiring s' s \<and> sys_ok w'"
  proof (cases cmd)
    case (Rcpt to)
    then show ?thesis
      using run parts assms(2) by (auto simp: NewAdapterSession_def session_core_def Session_Rcpt_def rt_reads_run
          split: if_splits option.splits)
  next
    case (Data reader)
    then show ?thesis
      using run assms(2) ensuresD [OF accept k]
      by (auto simp: NewAdapterSession_def session_core_def Session_Data_def split: if_splits sum.splits prod.splits)
  qed (use run assms(2) in \<open>auto simp: NewAdapterSession_def session_core_def Session_Mail_def split: if_splits\<close>)
  with wired show ?thesis
    unfolding served_def by (auto simp: same_wiring_def)
qed

text \<open>The open sessions and the world they share.\<close>

type_synonym sys_state = "world session list \<times> world"

inductive sys_step ::
    "getenv \<Rightarrow> (string \<Rightarrow> gerr + parsed_message) \<Rightarrow> world email_provider \<Rightarrow> inbound_runtime_config \<Rightarrow>
     sys_state \<Rightarrow> sys_state \<Rightarrow> bool"
  for env decode provider config where
  connect: "newSMTPSession env decode w = (Inr s, w') \<Longrightarrow>
    sys_step env decode provider config (ss, w) (ss @ [s], w')"
| command: "i < length ss \<Longrightarrow>
    AdapterSession_call (NewAdapterSession session_core) cmd (ss ! i, w) = (r, (s', w')) \<Longrightarrow>
    sys_step env decode provider config (ss, w) (ss[i := s'], w')"
| disconnect: "sys_step env decode provider config (ss, w) (take i ss @ drop (Suc i) ss, w)"
| request: "serve decode provider config q w = (r, w') \<Longrightarrow>
    sys_step env decode provider config (ss, w) (ss, w')"

text \<open>The process starts with an empty store, which it seeds.\<close>

inductive sys_reach ::
    "getenv \<Rightarrow> (string \<Rightarrow> gerr + parsed_message) \<Rightarrow> world email_provider \<Rightarrow> inbound_runtime_config \<Rightarrow>
     sys_state \<Rightarrow> bool"
  for env decode provider config where
  start: "mem w0 = NewStore \<Longrightarrow> seedMemoryRuntime w0 = (r, w) \<Longrightarrow> sys_reach env decode provider config ([], w)"
| step: "sys_reach env decode provider config st \<Longrightarrow> sys_step env decode provider config st st' \<Longrightarrow>
    sys_reach env decode provider config st'"

inductive_cases sys_stepE: "sys_step env decode provider config (ss, w) st'"

definition system_inv :: "(string \<Rightarrow> gerr + parsed_message) \<Rightarrow> sys_state \<Rightarrow> bool" where
  "system_inv decode st \<longleftrightarrow> sys_ok (snd st) \<and> (\<forall>s \<in> set (fst st). served decode s)"

lemma sys_ok_cong: "mem w' = mem w \<Longrightarrow> sys_ok w \<Longrightarrow> sys_ok w'"
  by (simp add: sys_ok_def world_ok_def)

lemma ensures_seed: "ensures {} seedMemoryRuntime (\<lambda>_. {})"
proof -
  have "ensures {} (go_try (rt_SaveOrganization a)) (\<lambda>_. {})" "ensures {} (go_try (rt_SaveAgent b)) (\<lambda>_. {})"
    "ensures {} (go_try (rt_SaveInbox c)) (\<lambda>_. {})" for a b c
    by (rule ensures_try [OF ensures_frames], simp, simp)+
  then show ?thesis
    unfolding seedLocalRuntime_def by (auto intro!: ensures_bind ensures_ret)
qed

lemma step_inv:
  assumes prov: "\<And>q. frames mem (ep_Send provider q)"
    and "sys_step env decode provider config st st'" and "system_inv decode st"
  shows "system_inv decode st'"
  using assms(2,3)
proof (cases rule: sys_step.cases)
  case (connect w s w' ss)
  obtain cfg sid where "s = edge_session rt_FindByEmailAddress rt_Put rt_SaveInboundReceipt
      (runtime_handler decode cfg) (clock_src w (clock_ix w)) sid" and m: "mem w' = mem w"
    using newSMTPSession_run [of env decode w] connect(3) by auto
  then have "served decode s" unfolding served_def using same_wiring_simps(1) by blast
  with connect assms(3) sys_ok_cong [OF m] show ?thesis by (auto simp: system_inv_def)
next
  case (command i ss cmd w r s' w')
  then have "served decode (ss ! i)" "sys_ok w" using assms(3) by (auto simp: system_inv_def)
  from command_served [OF this command(4)] have new: "served decode s'" "sys_ok w'" by simp_all
  have "set (ss[i := s']) \<subseteq> insert s' (set ss)" by (rule set_update_subset_insert)
  with new assms(3) show ?thesis unfolding system_inv_def command(1,2) fst_conv snd_conv by blast
next
  case (disconnect ss w i)
  with assms(3) show ?thesis by (auto simp: system_inv_def dest: in_set_takeD in_set_dropD)
next
  case (request q w r w' ss)
  have "known {} w" using assms(3) request by (simp add: system_inv_def known_def)
  with request assms(3) ensuresD [OF ensures_serve [OF prov]] show ?thesis by (auto simp: system_inv_def)
qed

lemma reach_inv:
  assumes "\<And>q. frames mem (ep_Send provider q)" and "sys_reach env decode provider config st"
  shows "system_inv decode st"
  using assms(2)
proof (induction rule: sys_reach.induct)
  case (start w0 r w)
  have "linked NewStore" "durable NewStore" by (simp_all add: linked_def durable_def NewStore_def)
  then have "known {} w0" using start(1) mem_ok_NewStore by (simp add: known_def sys_ok_def world_ok_def)
  with start(2) ensuresD [OF ensures_seed] show ?case by (auto simp: system_inv_def)
next
  case (step st st')
  then show ?case using step_inv [OF assms(1)] by blast
qed

text \<open>C4: in every state the process can reach, however SMTP sessions, API requests and retry sweeps
  interleave and whichever of them fail, the store is well formed, every message belongs to a
  stored thread that lists it and to a stored contact, and every receipt has its bytes. The email
  provider is assumed not to write the store.\<close>

theorem system_invariant:
  assumes "\<And>q. frames mem (ep_Send provider q)" and "sys_reach env decode provider config (ss, w)"
  shows "world_ok w \<and> linked (mem w) \<and> durable (mem w) \<and> (\<forall>s \<in> set ss. served decode s)"
  using reach_inv [OF assms] by (simp add: system_inv_def sys_ok_def)

lemma known_inbound_linked:
  assumes "sys_ok w" and "map_of (messagesByInboundKey (mem w)) (InboundMessageKey inboxID header) = Some i"
  shows "\<exists>m t c. known_inbound (mem w) inboxID header m t c"
proof -
  have "i \<in> dom (map_of (messagesByID (mem w)))"
    using assms by (auto simp: sys_ok_def world_ok_def mem_ok_def)
  then obtain m where m: "map_of (messagesByID (mem w)) i = Some m" by blast
  have "\<forall>f \<in> message_facts m. holds f (mem w)"
    using assms(1) m unfolding sys_ok_def linked_def by (blast intro: ranI)
  then obtain t c where "map_of (threadsByID (mem w)) (m_ThreadID m) = Some t"
    "map_of (contactsByID (mem w)) (m_ContactID m) = Some c"
    by (auto simp: message_facts_def)
  with m assms(2) show ?thesis unfolding known_inbound_def by blast
qed

lemma stored_message:
  assumes "world_ok w" and "inbound_base decode stored w = (Inr h, w')"
  shows "map_of (messagesByID (mem w')) (m_ID (hr_Message h)) = Some (hr_Message h)"
proof -
  have "world_ok w'" by (rule keepsD [OF keeps_inbound_base assms])
  then have "keyed m_ID (messagesByID (mem w'))" by (simp add: world_ok_def mem_ok_def)
  with assms(2) show ?thesis
    by (cases rule: inbound_base_cases) (auto simp: known_inbound_def recorded_def dest: keyedD)
qed

text \<open>The base service finishes on every stored receipt whose bytes parse.\<close>

lemma receipt_handled:
  assumes "sys_ok w" and "map_of (rawMessages (mem w)) (ir_RawMessageObjectKey (sm_Receipt stored)) = Some raw"
    and "decode raw = Inr p"
  shows "\<exists>h w'. inbound_base decode stored w = (Inr h, w') \<and> hr_ParsedMessage h = p"
proof (cases "pm_MessageIDHeader p = [] \<or> map_of (messagesByInboundKey (mem w))
    (InboundMessageKey (ir_InboxID (sm_Receipt stored)) (pm_MessageIDHeader p)) = None")
  case True
  then show ?thesis using inbound_base_fresh [of w stored raw decode p] assms by (auto simp: sys_ok_def)
next
  case False
  then obtain i where i: "map_of (messagesByInboundKey (mem w))
      (InboundMessageKey (ir_InboxID (sm_Receipt stored)) (pm_MessageIDHeader p)) = Some i" by blast
  obtain m t c where "known_inbound (mem w) (ir_InboxID (sm_Receipt stored)) (pm_MessageIDHeader p) m t c"
    using known_inbound_linked [OF assms(1) i] by blast
  then show ?thesis using inbound_base_known [of w stored raw decode p m t c] assms False by (auto simp: sys_ok_def)
qed

lemma reprocess_run:
  assumes "receipt_view w k = Some q"
  shows "newInboundReprocessService decode config k w =
    runtime_handler decode config \<lparr>sm_Receipt = receipt_to_inbound q, sm_RawSizeBytes = 0\<rparr> w"
  using assms
  by (simp add: newInboundReprocessService_def ReprocessByObjectKey_def go_bind_def rt_reads_run receipt_view_def)

lemma receipt_frames:
  assumes "runtime_handler decode config stored w = (r, w')"
  shows "receipt_view w' = receipt_view w" and "blob_view w' = blob_view w"
  using framesD [OF frames_edge_runtime assms] by (simp_all add: edge_maps_def receipt_view_def blob_view_def)


section \<open>A concrete run\<close>

text \<open>The process is seeded, a client connects and sends one message to the seeded inbox.\<close>

lemma demo_seed:
  "\<exists>w i. seedMemoryRuntime (demo_world NewStore) = (Inr (), w) \<and> inbox_view w ''agent@localhost'' = Some i"
  by (simp add: seedLocalRuntime_def go_bind_def go_try_def rt_bootstrap_run inbox_view_def zero_inbox_def)

lemma one_session:
  assumes "sys_reach env decode provider config ([s], w)"
    and "AdapterSession_call (NewAdapterSession session_core) cmd (s, w) = (r, (s', w'))"
  shows "sys_reach env decode provider config ([s'], w')"
proof (rule sys_reach.step [OF assms(1)])
  show "sys_step env decode provider config ([s], w) ([s'], w')"
    using sys_step.command [of 0 "[s]" cmd w r s' w'] assms(2) by simp
qed

lemma demo_reach:
  "\<exists>ss w k q. sys_reach (\<lambda>_. []) demo_decode dev_provider demo_config (ss, w) \<and>
     receipt_view w k = Some q \<and> blob_view w k = Some ''RAW''"
proof -
  let ?reach = "sys_reach (\<lambda>_. []) demo_decode dev_provider demo_config"
  obtain w i where "seedMemoryRuntime (demo_world NewStore) = (Inr (), w)" and inbox: "inbox_view w ''agent@localhost'' = Some i"
    using demo_seed by blast
  then have r0: "?reach ([], w)" by (intro sys_reach.start [of "demo_world NewStore"]) simp_all
  then have ok: "world_ok w" using reach_inv [OF frames_dev_provider r0] by (simp add: system_inv_def sys_ok_def)
  obtain cfg sid w0 where new: "newSMTPSession (\<lambda>_. []) demo_decode w =
      (Inr (edge_session rt_FindByEmailAddress rt_Put rt_SaveInboundReceipt (runtime_handler demo_decode cfg)
        (clock_src w (clock_ix w)) sid), w0)" and m: "mem w0 = mem w"
    using newSMTPSession_run [of "\<lambda>_. []" demo_decode w] by auto
  define s :: "world session" where "s = edge_session rt_FindByEmailAddress rt_Put rt_SaveInboundReceipt (runtime_handler demo_decode cfg)
    (clock_src w (clock_ix w)) sid"
  define s1 where "s1 = s\<lparr>ss_sender := ''ada@x''\<rparr>"
  define s2 where "s2 = s1\<lparr>ss_recipient := ''agent@localhost'', ss_targetInbox := i\<rparr>"
  have a: "AdapterSession_call (NewAdapterSession session_core) (Mail ''ada@x'') (s, w0) = (Inr (), (s1, w0))"
    by (simp add: NewAdapterSession_def session_core_def Session_Mail_def s1_def)
  have lk: "ss_lookup s1 = rt_FindByEmailAddress" by (simp add: s1_def s_def)
  have b: "AdapterSession_call (NewAdapterSession session_core) (Rcpt ''agent@localhost'') (s1, w0) = (Inr (), (s2, w0))"
    using inbox by (simp add: NewAdapterSession_def session_core_def Session_Rcpt_def lk rt_reads_run m s2_def inbox_view_def)
  obtain x w2 where acc: "session_accept s2 ''RAW'' w0 = (x, w2)" by (cases "session_accept s2 ''RAW'' w0")
  then have c: "AdapterSession_call (NewAdapterSession session_core) (Data (Inr ''RAW'')) (s2, w0) = (x, (s2, w2))"
    by (simp add: NewAdapterSession_def session_core_def Session_Data_def s2_def s1_def)
  have "?reach ([s], w0)"
    using sys_reach.step [OF r0 sys_step.connect [OF new]] by (simp add: s_def)
  from one_session [OF this a] have "?reach ([s1], w0)" .
  from one_session [OF this b] have "?reach ([s2], w0)" .
  from one_session [OF this c] have r3: "?reach ([s2], w2)" .
  have ok0: "world_ok w0" using mem_eq_ok [OF m] ok by simp
  have wired: "same_wiring s2 (edge_session rt_FindByEmailAddress rt_Put rt_SaveInboundReceipt (runtime_handler demo_decode cfg)
      (clock_src w (clock_ix w)) sid)"
    by (simp add: s2_def s1_def s_def)
  from edge.accept_effect [OF ok0 wired acc] obtain k where
    "blob_view w2 = (blob_view w0)(k \<mapsto> ''RAW'')"
    "receipt_view w2 = (receipt_view w0)(k \<mapsto> session_receipt s2 k (clock_src w (clock_ix w)))"
    by (auto simp: rt_Put_returns rt_SaveInboundReceipt_returns)
  with r3 show ?thesis by force
qed

theorem system_invariant_witness:
  "\<exists>ss w. sys_reach (\<lambda>_. []) demo_decode dev_provider demo_config (ss, w) \<and>
     inboundReceiptsByKey (mem w) \<noteq> [] \<and> linked (mem w) \<and> durable (mem w)"
proof -
  obtain ss w k q where r: "sys_reach (\<lambda>_. []) demo_decode dev_provider demo_config (ss, w)"
    and q: "receipt_view w k = Some q"
    using demo_reach by blast
  from q have "inboundReceiptsByKey (mem w) \<noteq> []" by (auto simp: receipt_view_def)
  with r system_invariant [OF frames_dev_provider r] show ?thesis by blast
qed


end
