(* ===== verification/Routes.thy ===== *)
theory Routes
  imports Server
begin

text \<open>
  The adapters of \<open>cmd/agentlayer/main.go\<close> between the services and the handlers, and the route table
  of \<open>newServer\<close> with the matching of \<open>http.ServeMux\<close> for canonical paths (the mux redirects others).
\<close>

section \<open>Read services\<close>

text \<open>\<open>GetThread\<close>, \<open>GetContact\<close>, \<open>GetInboundReceipt\<close>, \<open>GetSuppression\<close> and \<open>GetWebhookDelivery\<close> of the read
  services forward to a repository method.\<close>

definition GetThread :: "(string \<Rightarrow> ('s, thread) go) \<Rightarrow> string \<Rightarrow> ('s, thread) go" where
  "GetThread repository threadID = repository threadID"

definition GetContact :: "(string \<Rightarrow> ('s, contact) go) \<Rightarrow> string \<Rightarrow> ('s, contact) go" where
  "GetContact repository contactID = repository contactID"

definition GetInboundReceipt ::
    "(string \<Rightarrow> ('s, durable_receipt_request) go) \<Rightarrow> string \<Rightarrow> ('s, durable_receipt_request) go" where
  "GetInboundReceipt receipts objectKey = receipts objectKey"

definition GetSuppression :: "(string \<Rightarrow> ('s, suppressed_address) go) \<Rightarrow> string \<Rightarrow> ('s, suppressed_address) go" where
  "GetSuppression repository suppressionID = repository suppressionID"

definition GetWebhookDelivery :: "(string \<Rightarrow> ('s, webhook_delivery) go) \<Rightarrow> string \<Rightarrow> ('s, webhook_delivery) go" where
  "GetWebhookDelivery deliveries deliveryID = deliveries deliveryID"

section \<open>Adapters\<close>

definition app_bootstrap_input :: "api_bootstrap_input \<Rightarrow> bootstrap_input" where
  "app_bootstrap_input input =
     \<lparr>bs_OrganizationName = bt_OrganizationName input, bs_AgentName = bt_AgentName input,
      bs_AgentStatus = bt_AgentStatus input, bs_WebhookURL = bt_WebhookURL input,
      bs_WebhookSecret = bt_WebhookSecret input, bs_InboxAddress = bt_InboxAddress input,
      bs_InboxDomain = bt_InboxDomain input, bs_InboxDisplayName = bt_InboxDisplayName input\<rparr>"

definition api_bootstrap_view :: "bootstrap_result \<Rightarrow> api_bootstrap_result" where
  "api_bootstrap_view result =
     \<lparr>bo_OrganizationID = o_ID (br_Organization result), bo_AgentID = ag_ID (br_Agent result),
      bo_InboxID = i_ID (br_Inbox result), bo_WebhookURL = ag_WebhookURL (br_Agent result),
      bo_InboxAddress = i_EmailAddress (br_Inbox result)\<rparr>"

definition bootstrapServiceAdapter ::
    "(bootstrap_input \<Rightarrow> ('s, bootstrap_result) go) \<Rightarrow> api_bootstrap_input \<Rightarrow> ('s, api_bootstrap_result) go" where
  "bootstrapServiceAdapter service input =
     go_bind (service (app_bootstrap_input input)) (\<lambda>result. go_ret (api_bootstrap_view result))"

definition bootstrapReadServiceAdapter :: "('s, bootstrap_result) go \<Rightarrow> ('s, api_bootstrap_result) go" where
  "bootstrapReadServiceAdapter service = go_bind service (\<lambda>result. go_ret (api_bootstrap_view result))"

definition inboundReprocessServiceAdapter ::
    "(string \<Rightarrow> ('s, handle_result) go) \<Rightarrow> string \<Rightarrow> ('s, api_reprocess_result) go" where
  "inboundReprocessServiceAdapter service objectKey = go_bind (service objectKey) (\<lambda>result.
     go_ret \<lparr>pr_MessageID = m_ID (hr_Message result), pr_ThreadID = t_ID (hr_Thread result),
             pr_Duplicate = hr_Duplicate result\<rparr>)"

definition webhookRetryServiceAdapter ::
    "(int \<Rightarrow> ('s, retry_sweep_result) go) \<Rightarrow> int \<Rightarrow> ('s, api_retry_result) go" where
  "webhookRetryServiceAdapter service limit = go_bind (service limit) (\<lambda>result.
     go_ret \<lparr>ar_Attempted = rw_Attempted result, ar_Succeeded = rw_Succeeded result,
             ar_Failed = rw_Failed result, ar_Skipped = rw_Skipped result\<rparr>)"

definition webhookReplayServiceAdapter ::
    "(string \<Rightarrow> ('s, delivery_result) go) \<Rightarrow> string \<Rightarrow> ('s, webhook_delivery) go" where
  "webhookReplayServiceAdapter service deliveryID =
     go_bind (service deliveryID) (\<lambda>result. go_ret (dv_Delivery result))"

section \<open>Matching\<close>

datatype segment = Lit string | Wild

text \<open>A wildcard takes one segment; the empty segment after a trailing slash is not one.\<close>

fun path_matches :: "segment list \<Rightarrow> string list \<Rightarrow> bool" where
  "path_matches [] [] = True"
| "path_matches (Lit p # ps) (s # ss) = (p = s \<and> path_matches ps ss)"
| "path_matches (Wild # ps) (s # ss) = (s \<noteq> [] \<and> path_matches ps ss)"
| "path_matches _ _ = False"

text \<open>A pattern for GET also takes HEAD.\<close>

definition method_matches :: "string \<Rightarrow> string \<Rightarrow> bool" where
  "method_matches pattern actual \<longleftrightarrow> actual = pattern \<or> pattern = ''GET'' \<and> actual = ''HEAD''"

record 's route =
  ro_Method :: string
  ro_Path :: "segment list"
  ro_Handler :: "'s handler"

definition route_matches :: "'s route \<Rightarrow> http_in \<Rightarrow> bool" where
  "route_matches r request \<longleftrightarrow>
     method_matches (ro_Method r) (hi_Method request) \<and> path_matches (ro_Path r) (hi_Segments request)"

definition mux :: "'s route list \<Rightarrow> 's handler" where
  "mux table request = (case List.find (\<lambda>r. route_matches r request) table of
     Some r \<Rightarrow> ro_Handler r request
   | None \<Rightarrow>
       if \<exists>r \<in> set table. path_matches (ro_Path r) (hi_Segments request)
       then refuse ''Method Not Allowed'' 405 else refuse ''404 page not found'' 404)"

section \<open>The server\<close>

definition handleHealth :: "'s handler" where
  "handleHealth request = (\<lambda>s.
     (\<lparr>ho_Status = 200, ho_ContentType = ''text/plain; charset=utf-8'', ho_Body = ''ok'' @ newline\<rparr>, s))"

definition handleNotImplemented :: "'s handler" where
  "handleNotImplemented request = refuse ''service wiring not implemented'' 501"

definition route :: "string \<Rightarrow> segment list \<Rightarrow> 's handler \<Rightarrow> 's route" where
  "route verb path h = \<lparr>ro_Method = verb, ro_Path = path, ro_Handler = h\<rparr>"

definition routes ::
    "'z world_scheme readiness_checker \<Rightarrow> (stored_inbound_message \<Rightarrow> ('z world_scheme, handle_result) go) \<Rightarrow>
     'z world_scheme email_provider \<Rightarrow> 'z world_scheme route list" where
  "routes checker inbound provider =
     [route ''GET'' [Lit ''healthz''] handleHealth,
      route ''GET'' [Lit ''readyz''] (ReadinessHandler checker),
      route ''GET'' [Lit ''bootstrap''] (BootstrapReadHandler (bootstrapReadServiceAdapter newBootstrapReadService)),
      route ''POST'' [Lit ''bootstrap''] (BootstrapHandler (bootstrapServiceAdapter newBootstrapService)),
      route ''GET'' [Lit ''inbound'', Lit ''receipts'', Lit ''list'']
        (InboundReceiptsHandler newInboundReceiptListService),
      route ''GET'' [Lit ''inbound'', Lit ''receipts'']
        (InboundReceiptHandler (GetInboundReceipt rt_GetInboundReceiptByObjectKey)),
      route ''POST'' [Lit ''inbound'', Lit ''reprocess''] (InboundReprocessHandler
        (inboundReprocessServiceAdapter (ReprocessByObjectKey rt_GetInboundReceiptByObjectKey inbound))),
      route ''GET'' [Lit ''webhooks'', Lit ''deliveries''] (WebhookDeliveriesHandler newWebhookDeliveryListService),
      route ''POST'' [Lit ''webhooks'', Lit ''deliveries'', Lit ''retry'']
        (WebhookRetryHandler (webhookRetryServiceAdapter newWebhookRetrySweepService)),
      route ''GET'' [Lit ''webhooks'', Lit ''deliveries'', Wild]
        (WebhookDeliveryHandler (GetWebhookDelivery rt_GetWebhookDeliveryByID)),
      route ''POST'' [Lit ''webhooks'', Lit ''deliveries'', Wild, Lit ''replay'']
        (WebhookReplayHandler (webhookReplayServiceAdapter rt_ReplayDelivery)),
      route ''POST'' [Lit ''threads'', Wild, Lit ''reply''] (ReplyHandler (newReplyHandlerService provider)),
      route ''POST'' [Lit ''threads'', Wild, Lit ''escalate'']
        (ThreadEscalateHandler (\<lambda>threadID _. newThreadEscalationHandlerService threadID)),
      route ''GET'' [Lit ''threads'', Wild] (ThreadHandler (GetThread rt_GetByID)),
      route ''GET'' [Lit ''threads'', Wild, Lit ''messages''] (ThreadMessagesHandler newThreadMessagesReadService),
      route ''GET'' [Lit ''contacts'', Wild] (ContactHandler (GetContact rt_GetContactByID)),
      route ''POST'' [Lit ''contacts'', Wild, Lit ''memory''] (ContactMemoryHandler newContactMemoryHandlerService),
      route ''GET'' [Lit ''suppressions''] (SuppressionsHandler newSuppressionListService),
      route ''GET'' [Lit ''suppressions'', Wild] (SuppressionHandler (GetSuppression rt_GetSuppressionByID)),
      route ''POST'' [Lit ''provider'', Lit ''callbacks'', Lit ''outbound'']
        (OutboundCallbackHandler CallbackParser_Parse newOutboundCallbackFlow)]"

text \<open>Building the server reads the inbound configuration from the store once, and panics (\<open>Inl\<close>) when
  the email provider cannot be made.\<close>

definition newServer ::
    "(string option \<Rightarrow> gerr + ('z world_scheme ses_client \<times> string)) \<Rightarrow> getenv \<Rightarrow> (string \<Rightarrow> gerr + parsed_message) \<Rightarrow>
     ('z world_scheme, 'z world_scheme handler) go" where
  "newServer load_aws env decode =
     go_bind (newInboundService env decode) (\<lambda>inbound.
     case newEmailProvider load_aws env of
       Inl panic \<Rightarrow> go_fail panic
     | Inr provider \<Rightarrow> go_ret (mux (routes (newReadinessChecker load_aws env) inbound provider)))"

end
