(* ===== verification/Time_Laws.thy ===== *)
theory Time_Laws
  imports Go_Parse
begin

text \<open>
  The calendar and the RFC 3339 reader: the date of an instant is a date, the instant of that date is
  the instant again, and a printed time reads back as the time, to the second.
\<close>

section \<open>The calendar\<close>

lemma div_split: "0 < k \<Longrightarrow> a = k * (a div k) + a mod k \<and> 0 \<le> a mod k \<and> a mod k < k" for a k :: int
  by simp

lemma div_bounds:
  fixes a k n :: int
  assumes "0 < k" "0 \<le> a" "a < k * n"
  shows "0 \<le> a div k \<and> a div k < n"
proof -
  have "k * (a div k) < k * n"
    using div_split [OF assms(1), of a] assms(3) by (elim conjE) (rule order.strict_trans1 [of _ a], linarith+)
  with assms show ?thesis by (simp add: pos_imp_zdiv_nonneg_iff)
qed

lemma year_day_sound:
  assumes "0 \<le> days" and "year_day days = (y, yd)"
  shows "days_before_year y + yd = days \<and> 1 \<le> y \<and> 0 \<le> yd \<and> yd < (if is_leap y then 366 else 365)"
proof -
  define n400 r400 where "n400 = days div 146097" and "r400 = days mod 146097"
  define n100 where "n100 = min 3 (r400 div 36524)"
  define r100 where "r100 = r400 - n100 * 36524"
  define n4 r4 where "n4 = r100 div 1461" and "r4 = r100 mod 1461"
  define n1 where "n1 = min 3 (r4 div 365)"
  have y: "y = 400 * n400 + 100 * n100 + 4 * n4 + n1 + 1" and yd: "yd = r4 - n1 * 365"
    using assms(2) unfolding year_day_def Let_def n400_def [symmetric] r400_def [symmetric] n100_def [symmetric]
      r100_def [symmetric] n4_def [symmetric] r4_def [symmetric] n1_def [symmetric]
    by simp_all
  have days: "days = 146097 * n400 + r400" and r400: "0 \<le> r400" "r400 < 146097" and n400: "0 \<le> n400"
    using assms(1) by (simp_all add: n400_def r400_def)
  have r400_split: "r400 = 36524 * (r400 div 36524) + r400 mod 36524" "0 \<le> r400 mod 36524" "r400 mod 36524 < 36524"
    using div_split [of 36524 r400] by (simp_all only: zero_less_numeral simp_thms)
  have "0 \<le> r400 div 36524" "r400 div 36524 \<le> 4" using r400 r400_split by linarith+
  then have n100: "0 \<le> n100" "n100 \<le> 3" and r100: "0 \<le> r100" "r100 \<le> 36524" "r100 = 36524 \<longrightarrow> n100 = 3"
    using r400 r400_split unfolding r100_def n100_def by (simp_all add: min_def; linarith)+
  have split4: "r100 = 1461 * n4 + r4" and r4: "0 \<le> r4" "r4 < 1461" by (simp_all add: n4_def r4_def)
  then have n4: "0 \<le> n4" "n4 \<le> 24" using r100 by linarith+
  have r4_split: "r4 = 365 * (r4 div 365) + r4 mod 365" "0 \<le> r4 mod 365" "r4 mod 365 < 365"
    using div_split [of 365 r4] by (simp_all only: zero_less_numeral simp_thms)
  have "0 \<le> r4 div 365" "r4 div 365 \<le> 4" using r4 r4_split by linarith+
  then have n1: "0 \<le> n1" "n1 \<le> 3" and rest: "0 \<le> yd" "yd \<le> 365" "yd = 365 \<longrightarrow> n1 = 3" "yd = 365 \<longrightarrow> r4 = 1460"
    using r4 r4_split unfolding yd n1_def by (simp_all add: min_def; linarith)+
  have q: "(y - 1) div 4 = 100 * n400 + 25 * n100 + n4" "(y - 1) div 100 = 4 * n400 + n100" "(y - 1) div 400 = n400"
    using n100 n4 n1 unfolding y
    by (intro int_div_pos_eq [where r = n1] int_div_pos_eq [where r = "4 * n4 + n1"]
        int_div_pos_eq [where r = "100 * n100 + 4 * n4 + n1"]; simp)+
  have sum: "days_before_year y + yd = days"
    unfolding days_before_year_def Let_def q using days split4 by (simp add: y yd r100_def)
  have leap: "is_leap y" if "yd = 365"
  proof -
    have full: "n1 = 3" "r4 = 1460" using rest(3,4) that by simp_all
    show ?thesis
    proof (cases "n4 = 24")
      case True
      then have "n100 = 3" using split4 full r100 by simp
      with True full show ?thesis unfolding is_leap_def y by simp
    next
      case False
      then have "(4 * n4 + 4) mod 100 \<noteq> 0" using n4 by simp
      moreover have year: "y = (4 * n4 + 4) + 100 * (4 * n400 + n100)" using full y by simp
      then have "y mod 100 = (4 * n4 + 4) mod 100" by (metis mod_mult_self2)
      moreover have "y mod 4 = 0" unfolding year by simp
      ultimately show ?thesis unfolding is_leap_def by simp
    qed
  qed
  show ?thesis
  proof (intro conjI)
    show "1 \<le> y" using n400 n100 n4 n1 unfolding y by simp
    show "yd < (if is_leap y then 366 else 365)" using rest(1,2) leap by (cases "yd = 365") auto
  qed (simp_all add: sum rest)
qed

lemma split_month_sound:
  assumes "split_month ls m d = (mo, dd)" and "0 \<le> d" and "d < sum_list ls"
  shows "m \<le> mo \<and> mo < m + int (length ls) \<and> 1 \<le> dd \<and> dd \<le> ls ! nat (mo - m) \<and>
    sum_list (take (nat (mo - m)) ls) + (dd - 1) = d"
  using assms
proof (induction ls arbitrary: m d)
  case (Cons l ls)
  show ?case
  proof (cases "d < l")
    case False
    with Cons.prems have "split_month ls (m + 1) (d - l) = (mo, dd)" "0 \<le> d - l" "d - l < sum_list ls" by simp_all
    note IH = Cons.IH [OF this]
    then have "nat (mo - m) = Suc (nat (mo - (m + 1)))" by linarith
    with IH show ?thesis by simp
  qed (use Cons.prems in auto)
qed simp

lemma month_lengths_sum: "sum_list (month_lengths leap) = (if leap then 366 else 365)"
  by (simp add: month_lengths_def)

definition last_instant :: gtime where
  "last_instant = 3652059 * 86400 * nanos_per_second"

lemma days_lower:
  fixes p :: int
  assumes "p = 4 * a + ra" "0 \<le> ra" "ra < 4" "p = 100 * b + rb" "0 \<le> rb" "p = 400 * c + rc" "rc < 400" "9999 \<le> p"
  shows "3652059 \<le> 365 * p + a - b + c"
  using assms by linarith

lemma civil_of_sound:
  assumes "0 \<le> t" and "t < last_instant"
  defines "c \<equiv> civil_of t"
  shows "0 < cv_year c \<and> cv_year c < 10000" and "1 \<le> cv_month c \<and> cv_month c \<le> 12"
    and "1 \<le> cv_day c \<and> cv_day c \<le> month_lengths (is_leap (cv_year c)) ! nat (cv_month c - 1)"
    and "0 \<le> cv_hour c \<and> cv_hour c < 24" and "0 \<le> cv_min c \<and> cv_min c < 60" and "0 \<le> cv_sec c \<and> cv_sec c < 60"
    and "instant_of (cv_year c) (cv_month c) (cv_day c) (cv_hour c) (cv_min c) (cv_sec c) 0 =
      t div nanos_per_second * nanos_per_second"
proof -
  define secs where "secs = t div nanos_per_second"
  define days where "days = secs div 86400"
  define sod where "sod = secs mod 86400"
  obtain y yd where yd: "year_day days = (y, yd)" by (cases "year_day days")
  obtain mo dd where md: "split_month (month_lengths (is_leap y)) 1 yd = (mo, dd)"
    by (cases "split_month (month_lengths (is_leap y)) 1 yd")
  have c: "c = \<lparr>cv_year = y, cv_month = mo, cv_day = dd, cv_hour = sod div 3600,
      cv_min = sod mod 3600 div 60, cv_sec = sod mod 60, cv_nano = t mod nanos_per_second\<rparr>"
    unfolding c_def civil_of_def Let_def secs_def [symmetric] days_def [symmetric] sod_def [symmetric] yd
    using md by simp
  have "0 \<le> secs" "secs < 3652059 * 86400"
    using div_bounds [of nanos_per_second t "3652059 * 86400"] assms(1,2)
    by (simp_all add: secs_def last_instant_def nanos_per_second_def)
  then have days: "0 \<le> days" "days < 3652059"
    using div_bounds [of 86400 secs 3652059] by (simp_all add: days_def)
  note sound = year_day_sound [OF days(1) yd]
  have "yd < sum_list (month_lengths (is_leap y))" using sound by (simp add: month_lengths_sum)
  note mon = split_month_sound [OF md _ this]
  have months: "length (month_lengths b) = 12" for b by (simp add: month_lengths_def)
  have year: "y < 10000"
  proof (rule ccontr)
    assume "\<not> y < 10000"
    then have "9999 \<le> y - 1" by simp
    then have "3652059 \<le> days_before_year y"
      unfolding days_before_year_def Let_def
      by (intro days_lower [of _ _ "(y - 1) mod 4" _ "(y - 1) mod 100" _ "(y - 1) mod 400"]) simp_all
    with sound days(2) show False by simp
  qed
  have sod: "0 \<le> sod" "sod < 86400" by (simp_all add: sod_def)
  show "0 < cv_year c \<and> cv_year c < 10000" using year sound by (simp add: c)
  show "1 \<le> cv_month c \<and> cv_month c \<le> 12" using mon sound by (simp add: c months)
  show "1 \<le> cv_day c \<and> cv_day c \<le> month_lengths (is_leap (cv_year c)) ! nat (cv_month c - 1)"
    using mon sound by (simp add: c)
  show "0 \<le> cv_hour c \<and> cv_hour c < 24" using div_bounds [of 3600 sod 24] sod by (simp add: c)
  show "0 \<le> cv_min c \<and> cv_min c < 60" using div_bounds [of 60 "sod mod 3600" 60] by (simp add: c)
  show "0 \<le> cv_sec c \<and> cv_sec c < 60" using sod by (simp add: c)
  have "days_of_date y mo dd = days" using mon sound by (simp add: days_of_date_def)
  moreover have "sod mod 3600 mod 60 = sod mod 60" by (rule mod_mod_cancel) simp
  then have "sod div 3600 * 3600 + sod mod 3600 div 60 * 60 + sod mod 60 = sod"
    using div_mult_mod_eq [of "sod mod 3600" 60] div_mult_mod_eq [of sod 3600] by (metis add.assoc)
  moreover have "days * 86400 + sod = secs" by (simp add: days_def sod_def)
  ultimately have "days_of_date y mo dd * 86400 + sod div 3600 * 3600 + sod mod 3600 div 60 * 60 + sod mod 60 = secs"
    by simp
  then show "instant_of (cv_year c) (cv_month c) (cv_day c) (cv_hour c) (cv_min c) (cv_sec c) 0 =
      t div nanos_per_second * nanos_per_second"
    by (simp add: instant_of_def c secs_def)
qed

section \<open>Printed times\<close>

lemma byte_of_digit: "byte_of (digit_char n) = 48 + n mod 10"
  by (simp add: digit_char_def byte_of_def of_char_of)

lemma is_digit_digit [simp]: "is_digit (digit_char n)"
  by (simp add: is_digit_def byte_of_digit)

lemma digits_value_snoc: "digits_value (ds @ [c]) = 10 * digits_value ds + (int (byte_of c) - 48)"
  by (simp add: digits_value_def)

lemma digits_value_digit [simp]: "digits_value [digit_char n] = int (n mod 10)"
  by (simp add: digits_value_def byte_of_digit)

lemma digit_zero: "digit_char 0 = CHR ''0''"
  by code_simp

lemma zero_pad_one: "n < 10 \<Longrightarrow> zero_pad (Suc 0) n = [digit_char n]"
  by (simp add: zero_pad_def nat_digits.simps [of n])

lemma zero_pad_snoc: "zero_pad (Suc (Suc w)) n = zero_pad (Suc w) (n div 10) @ [digit_char n]"
proof (cases "n < 10")
  case True
  then show ?thesis
    by (simp add: zero_pad_def nat_digits.simps [of n] nat_digits.simps [of 0] digit_zero replicate_append_same)
qed (simp add: zero_pad_def Let_def nat_digits.simps [of n])

lemma pad2: "n < 100 \<Longrightarrow> zero_pad 2 n = [digit_char (n div 10), digit_char n]"
  by (simp add: numeral_2_eq_2 zero_pad_snoc zero_pad_one)

lemma pad4:
  assumes "n < 10000"
  shows "zero_pad 4 n = [digit_char (n div 1000), digit_char (n div 100), digit_char (n div 10), digit_char n]"
proof -
  have "n div 10 div 10 = n div 100" "n div 100 div 10 = n div 1000" by (simp_all flip: div_mult2_eq)
  moreover have "4 = Suc (Suc (Suc (Suc 0)))" by simp
  ultimately show ?thesis using assms by (simp only: zero_pad_snoc) (simp add: zero_pad_one)
qed

lemma getnum_pad2:
  assumes "0 \<le> i" "i < 100"
  shows "getnum fixed (pad_int 2 i @ r) = Some (i, r)"
proof -
  obtain n where n: "i = int n" "n < 100" using assms by (metis nonneg_int_cases of_nat_less_iff of_nat_numeral)
  have "digits_value [digit_char (n div 10), digit_char n] = int (10 * (n div 10 mod 10) + n mod 10)"
    using digits_value_snoc [of "[digit_char (n div 10)]" "digit_char n"] by (simp add: byte_of_digit)
  moreover have "10 * (n div 10 mod 10) + n mod 10 = n" using n(2) by simp
  ultimately show ?thesis using n by (simp add: pad_int_def pad2 getnum_def)
qed

lemma num_in_pad2:
  "0 \<le> lo \<Longrightarrow> lo \<le> i \<Longrightarrow> i \<le> hi \<Longrightarrow> hi < 100 \<Longrightarrow> num_in fixed lo hi (pad_int 2 i @ r) = Some (i, r)"
  by (simp add: num_in_def getnum_pad2)

lemma long_year_pad4:
  assumes "0 \<le> i" "i < 10000"
  shows "long_year (pad_int 4 i @ r) = Some (i, r)"
proof -
  obtain n where n: "i = int n" "n < 10000" using assms by (metis nonneg_int_cases of_nat_less_iff of_nat_numeral)
  let ?a = "digit_char (n div 1000)" and ?b = "digit_char (n div 100)" and ?c = "digit_char (n div 10)" and ?d = "digit_char n"
  have "digits_value [?a, ?b, ?c, ?d] =
      int (10 * (10 * (10 * (n div 1000 mod 10) + n div 100 mod 10) + n div 10 mod 10) + n mod 10)"
    using digits_value_snoc [of "[?a, ?b, ?c]" ?d] digits_value_snoc [of "[?a, ?b]" ?c] digits_value_snoc [of "[?a]" ?b]
    by (simp add: byte_of_digit)
  moreover have "10 * (10 * (10 * (n div 1000 mod 10) + n div 100 mod 10) + n div 10 mod 10) + n mod 10 = n"
  proof -
    have "n div 10 div 10 = n div 100" "n div 100 div 10 = n div 1000" by (simp_all flip: div_mult2_eq)
    moreover have "n div 1000 mod 10 = n div 1000" using n(2) by simp
    ultimately show ?thesis by (metis mult_div_mod_eq)
  qed
  ultimately have "digits_value [?a, ?b, ?c, ?d] = int n" by (simp only:)
  then show ?thesis using n by (simp add: pad_int_def pad4 long_year_def)
qed

lemma skip_same [simp]: "skip_char c (c # s) = Some s"
  by (simp add: skip_char_def)

text \<open>A printed time reads back as the time, cut to the second.\<close>

lemma rfc3339_reads_back:
  assumes "0 \<le> t" and "t < last_instant"
  shows "parse_rfc3339 (format_rfc3339 t) = Inr (t div nanos_per_second * nanos_per_second)"
proof -
  note c = civil_of_sound [OF assms]
  let ?c = "civil_of t"
  have ml: "month_lengths (is_leap (cv_year ?c)) ! nat (cv_month ?c - 1) < 100"
  proof -
    have "nat (cv_month ?c - 1) < length (month_lengths (is_leap (cv_year ?c)))"
      using c(2) by (simp add: month_lengths_def nat_less_iff)
    then have "month_lengths (is_leap (cv_year ?c)) ! nat (cv_month ?c - 1) \<in> set (month_lengths (is_leap (cv_year ?c)))"
      by (rule nth_mem)
    then show ?thesis by (auto simp: month_lengths_def split: if_splits)
  qed
  have date: "read_date (pad_int 4 (cv_year ?c) @ CHR ''-'' # pad_int 2 (cv_month ?c) @ CHR ''-'' #
      pad_int 2 (cv_day ?c) @ r) = Some ((cv_year ?c, cv_month ?c, cv_day ?c), r)" for r
    using c(1-3) ml by (simp add: read_date_def long_year_pad4 num_in_pad2 getnum_pad2)
  have clock: "read_clock (pad_int 2 (cv_hour ?c) @ CHR '':'' # pad_int 2 (cv_min ?c) @ CHR '':'' #
      pad_int 2 (cv_sec ?c) @ r) = Some ((cv_hour ?c, cv_min ?c, cv_sec ?c), r)" for r
    using c(4-6) by (simp add: read_clock_def num_in_pad2)
  have "read_fraction ''Z'' = (0, ''Z'')" "read_offset ''Z'' = Some (0, [])"
    by (simp_all add: read_fraction_def read_offset_def)
  with c(7) show ?thesis
    using date [of "''T'' @ pad_int 2 (cv_hour ?c) @ CHR '':'' # pad_int 2 (cv_min ?c) @ CHR '':'' #
      pad_int 2 (cv_sec ?c) @ ''Z''"] clock [of "''Z''"]
    by (simp add: parse_rfc3339_def format_rfc3339_def Let_def)
qed

end
