(* ===== verification/Callback_Laws.thy ===== *)
theory Callback_Laws
  imports Callback_Parser Json_Laws Time_Laws
begin

text \<open>
  A callback body written as the provider is told to write it reads back as the event it describes.
\<close>

lemma to_valid_ascii: "\<forall>c \<in> set s. byte_of c < 128 \<Longrightarrow> to_valid s = s"
  by (induction s) simp_all

lemma unmarshal_written:
  "fits max_nesting v \<Longrightarrow> Unmarshal decode (json_encode v) = decode (valid_json v)"
  using json_reads_back [of v "[]"] by (simp add: Unmarshal_def Unmarshal_value_def skip_space_def)

lemma decode_written:
  "fits max_nesting v \<Longrightarrow> hi = Inr (json_encode v) \<Longrightarrow>
   (case hi of Inl e \<Rightarrow> Inl e | Inr body \<Rightarrow> (case Decoder_value body of Inl e \<Rightarrow> Inl e | Inr v \<Rightarrow> decode v)) =
   decode (valid_json v)"
  using json_reads_back [of v "[]"] by (simp add: Decoder_value_def)

lemma ascii_digits: "\<forall>c \<in> set (nat_digits n). byte_of c < 128"
  by (induction n rule: nat_digits.induct) (subst nat_digits.simps, auto simp: byte_of_digit)

lemma ascii_pad: "\<forall>c \<in> set (pad_int k i). byte_of c < 128"
proof -
  have "byte_of (CHR ''0'') < 128" "byte_of (CHR ''-'') < 128" by code_simp+
  then show ?thesis using ascii_digits by (auto simp: pad_int_def zero_pad_def Let_def)
qed

lemma ascii_rfc3339: "\<forall>c \<in> set (format_rfc3339 t). byte_of c < 128"
proof -
  have "byte_of (CHR ''T'') < 128" "byte_of (CHR ''-'') < 128" "byte_of (CHR '':'') < 128" "byte_of (CHR ''Z'') < 128"
    by code_simp+
  then show ?thesis using ascii_pad by (auto simp: format_rfc3339_def Let_def)
qed

text \<open>The body of a callback, with the address of the contact.\<close>

definition callback_json :: "string \<Rightarrow> string \<Rightarrow> gtime \<Rightarrow> string \<Rightarrow> json" where
  "callback_json eventType providerMessageID occurredAt email = JObject
     [(''event_type'', JString eventType), (''provider_message_id'', JString providerMessageID),
      (''occurred_at'', JString (format_rfc3339 occurredAt)), (''contact_email'', JString email)]"

definition callback_states :: "string set" where
  "callback_states = {DeliveryStateDelivered, DeliveryStateHardBounce, DeliveryStateSoftBounce, DeliveryStateComplaint}"

lemma valid_literals [simp]:
  "to_valid ''event_type'' = ''event_type''" "to_valid ''provider_message_id'' = ''provider_message_id''"
  "to_valid ''occurred_at'' = ''occurred_at''" "to_valid ''contact_email'' = ''contact_email''"
  by (rule to_valid_ascii, code_simp)+

lemma valid_states: "st \<in> callback_states \<Longrightarrow> to_valid st = st \<and> mapCallbackEventType st = Inr st"
proof -
  assume st: "st \<in> callback_states"
  have "to_valid DeliveryStateDelivered = DeliveryStateDelivered" "to_valid DeliveryStateHardBounce = DeliveryStateHardBounce"
    "to_valid DeliveryStateSoftBounce = DeliveryStateSoftBounce" "to_valid DeliveryStateComplaint = DeliveryStateComplaint"
    unfolding delivery_state_defs by (rule to_valid_ascii, code_simp)+
  with st show ?thesis unfolding callback_states_def mapCallbackEventType_def by auto
qed

lemma callback_fits: "fits max_nesting (callback_json st pid t email)"
  by (simp add: callback_json_def max_nesting_def)

lemma callback_written:
  fixes pid email :: string
  assumes "st \<in> callback_states" and "0 \<le> t" and "t < last_instant"
  defines "body \<equiv> json_encode (callback_json st pid t email)"
  shows "CallbackParser_Parse body = Inr \<lparr>ce_ProviderMessageID = to_valid pid, ce_Status = st,
      ce_OccurredAt = t div nanos_per_second * nanos_per_second\<rparr>"
    and "Unmarshal (decode_struct (\<lambda>_. set_string (\<lambda>f. f)) [''contact_email''] []) body = Inr (to_valid email)"
proof -
  have other: "key_field [''event_type'', ''provider_message_id'', ''occurred_at''] ''contact_email'' = None"
    "key_field [''contact_email''] ''event_type'' = None" "key_field [''contact_email''] ''provider_message_id'' = None"
    "key_field [''contact_email''] ''occurred_at'' = None"
    by code_simp+
  have same: "key_field names k = Some k" if "k \<in> set names" for names k using that by (simp add: key_field_def)
  have v: "valid_json (callback_json st pid t email) = JObject
     [(''event_type'', JString st), (''provider_message_id'', JString (to_valid pid)),
      (''occurred_at'', JString (format_rfc3339 t)), (''contact_email'', JString (to_valid email))]"
    using valid_states [OF assms(1)] to_valid_ascii [OF ascii_rfc3339]
    by (simp add: callback_json_def del: to_valid.simps)
  have "Unmarshal callbackPayload body = Inr \<lparr>cp_EventType = st, cp_ProviderMessageID = to_valid pid,
      cp_OccurredAt = format_rfc3339 t\<rparr>"
    unfolding body_def unmarshal_written [OF callback_fits] v
    by (simp add: callbackPayload_def decode_struct_def set_callback_payload_def set_string_def other same)
  then show "CallbackParser_Parse body = Inr \<lparr>ce_ProviderMessageID = to_valid pid, ce_Status = st,
      ce_OccurredAt = t div nanos_per_second * nanos_per_second\<rparr>"
    using valid_states [OF assms(1)] rfc3339_reads_back [OF assms(2,3)] by (simp add: CallbackParser_Parse_def)
  show "Unmarshal (decode_struct (\<lambda>_. set_string (\<lambda>f. f)) [''contact_email''] []) body = Inr (to_valid email)"
    unfolding body_def unmarshal_written [OF callback_fits] v
    by (simp add: decode_struct_def set_string_def other same)
qed

end
