(* ===== verification/Http_Laws.thy ===== *)
theory Http_Laws
  imports System Routes Callback_Laws
begin

text \<open>
  What a client of the HTTP server can rely on, whatever the request: the routes reach the handlers
  with the ids of the path, refused requests and reads change nothing, every request keeps the
  invariant of the system.
\<close>

section \<open>Contracts of handlers\<close>

text \<open>\<open>abides R h\<close>: the response, the state before and the state after are related by \<open>R\<close>.\<close>

definition abides :: "(http_out \<Rightarrow> 's \<Rightarrow> 's \<Rightarrow> bool) \<Rightarrow> ('s \<Rightarrow> http_out \<times> 's) \<Rightarrow> bool" where
  "abides R h \<longleftrightarrow> (\<forall>s. case h s of (out, s') \<Rightarrow> R out s s')"

lemma abidesD: "abides R h \<Longrightarrow> h s = (out, s') \<Longrightarrow> R out s s'"
  unfolding abides_def by (metis case_prod_conv)

lemma abides_refuse: "(\<And>s. R (http_Error msg code) s s) \<Longrightarrow> abides R (refuse msg code)"
  by (simp add: abides_def refuse_def)

lemma abides_respond:
  assumes "\<And>s s' e. m s = (Inl e, s') \<Longrightarrow> R (on_error e) s s'"
    and "\<And>s s' x. m s = (Inr x, s') \<Longrightarrow> R (on_ok x) s s'"
  shows "abides R (respond m on_error on_ok)"
  unfolding abides_def respond_def using assms by (auto split: prod.split sum.split)

lemma abides_mux:
  assumes "\<And>msg code. code \<in> {404, 405} \<Longrightarrow> abides R (refuse msg code)"
    and "\<And>r. r \<in> set table \<Longrightarrow> route_matches r request \<Longrightarrow> abides R (ro_Handler r request)"
  shows "abides R (mux table request)"
proof (cases "List.find (\<lambda>r. route_matches r request) table")
  case (Some r)
  then have "r \<in> set table" "route_matches r request" by (auto simp: find_Some_iff)
  with Some assms(2) show ?thesis by (simp add: mux_def)
qed (simp add: mux_def assms(1))

lemma http_Error_status [simp]: "ho_Status (http_Error msg code) = code"
  by (simp add: http_Error_def)

lemma respond_json_status [simp]: "ho_Status (respond_json code v) = code"
  by (simp add: respond_json_def)

lemmas handler_defs = ThreadHandler_def ContactHandler_def ThreadMessagesHandler_def InboundReceiptsHandler_def
  InboundReceiptHandler_def WebhookDeliveriesHandler_def WebhookDeliveryHandler_def SuppressionsHandler_def
  SuppressionHandler_def ReplyHandler_def BootstrapHandler_def BootstrapReadHandler_def ContactMemoryHandler_def
  ThreadEscalateHandler_def InboundReprocessHandler_def WebhookReplayHandler_def WebhookRetryHandler_def
  OutboundCallbackHandler_def ReadinessHandler_def

lemmas handler_splits = if_splits sum.splits

section \<open>Refused requests\<close>

definition untouched :: "http_out \<Rightarrow> 's \<Rightarrow> 's \<Rightarrow> bool" where
  "untouched out s s' \<longleftrightarrow> (ho_Status out \<in> {400, 405} \<longrightarrow> s' = s)"

lemma untouched_refuse: "abides untouched (refuse msg code)"
  by (rule abides_refuse) (simp add: untouched_def)

lemma untouched_respond:
  assumes "\<And>e. ho_Status (on_error e) \<notin> {400, 405}" and "\<And>x. ho_Status (on_ok x) \<notin> {400, 405}"
  shows "abides untouched (respond m on_error on_ok)"
  using assms by (intro abides_respond) (simp_all add: untouched_def)

lemma untouched_handlers:
  "abides untouched (ThreadHandler f1 request)" "abides untouched (ContactHandler f2 request)"
  "abides untouched (ThreadMessagesHandler f3 request)" "abides untouched (InboundReceiptsHandler f4 request)"
  "abides untouched (InboundReceiptHandler f5 request)" "abides untouched (WebhookDeliveriesHandler f6 request)"
  "abides untouched (WebhookDeliveryHandler f7 request)" "abides untouched (SuppressionsHandler f8 request)"
  "abides untouched (SuppressionHandler f9 request)" "abides untouched (ReplyHandler f10 request)"
  "abides untouched (BootstrapHandler f11 request)" "abides untouched (BootstrapReadHandler f12 request)"
  "abides untouched (ContactMemoryHandler f13 request)" "abides untouched (ThreadEscalateHandler f14 request)"
  "abides untouched (InboundReprocessHandler f15 request)" "abides untouched (WebhookReplayHandler f16 request)"
  "abides untouched (WebhookRetryHandler f17 request)" "abides untouched (OutboundCallbackHandler p f18 request)"
  "abides untouched (ReadinessHandler f19 request)"
  unfolding handler_defs Let_def
  by (auto split: handler_splits intro!: untouched_refuse untouched_respond
      simp: writeLookupError_def reply_error_def callback_error_def cut_off_def)

lemma untouched_health: "abides untouched (handleHealth request)"
  by (simp add: abides_def handleHealth_def untouched_def)

lemma routes_untouched: "r \<in> set (routes checker inbound provider) \<Longrightarrow> abides untouched (ro_Handler r request)"
  unfolding routes_def route_def by (auto intro: untouched_handlers untouched_health)

text \<open>A request answered with status 400 or 405 changed nothing: the store, the clock, the log of
  requests sent and everything else are as they were, whatever is wrong with the request and
  whichever route it took.\<close>

theorem bad_request_changes_nothing:
  assumes "mux (routes checker inbound provider) request w = (out, w')" and "ho_Status out \<in> {400, 405}"
  shows "w' = w"
proof -
  have "abides untouched (mux (routes checker inbound provider) request)"
    by (rule abides_mux) (simp_all add: untouched_refuse routes_untouched)
  from abidesD [OF this assms(1)] assms(2) show ?thesis by (auto simp: untouched_def)
qed

section \<open>Requests and the invariant of the system\<close>

definition system_kept :: "http_out \<Rightarrow> 'z world_scheme \<Rightarrow> 'z world_scheme \<Rightarrow> bool" where
  "system_kept out w w' \<longleftrightarrow> (sys_ok w \<longrightarrow> sys_ok w')"

lemma kept_refuse: "abides system_kept (refuse msg code)"
  by (rule abides_refuse) (simp add: system_kept_def)

lemma kept_respond:
  assumes "ensures {} m G"
  shows "abides system_kept (respond m on_error on_ok)"
  using ensuresD [OF assms] by (intro abides_respond) (auto simp: system_kept_def known_def)

lemma kept_handlers:
  "(\<And>i. ensures {} (f1 i) (\<lambda>_. {})) \<Longrightarrow> abides system_kept (ThreadHandler f1 request)"
  "(\<And>i. ensures {} (f2 i) (\<lambda>_. {})) \<Longrightarrow> abides system_kept (ContactHandler f2 request)"
  "(\<And>i n. ensures {} (f3 i n) (\<lambda>_. {})) \<Longrightarrow> abides system_kept (ThreadMessagesHandler f3 request)"
  "(\<And>n. ensures {} (f4 n) (\<lambda>_. {})) \<Longrightarrow> abides system_kept (InboundReceiptsHandler f4 request)"
  "(\<And>i. ensures {} (f5 i) (\<lambda>_. {})) \<Longrightarrow> abides system_kept (InboundReceiptHandler f5 request)"
  "(\<And>n. ensures {} (f6 n) (\<lambda>_. {})) \<Longrightarrow> abides system_kept (WebhookDeliveriesHandler f6 request)"
  "(\<And>i. ensures {} (f7 i) (\<lambda>_. {})) \<Longrightarrow> abides system_kept (WebhookDeliveryHandler f7 request)"
  "(\<And>n. ensures {} (f8 n) (\<lambda>_. {})) \<Longrightarrow> abides system_kept (SuppressionsHandler f8 request)"
  "(\<And>i. ensures {} (f9 i) (\<lambda>_. {})) \<Longrightarrow> abides system_kept (SuppressionHandler f9 request)"
  "(\<And>q. ensures {} (f10 q) (\<lambda>_. {})) \<Longrightarrow> abides system_kept (ReplyHandler f10 request)"
  "(\<And>q. ensures {} (f11 q) (\<lambda>_. {})) \<Longrightarrow> abides system_kept (BootstrapHandler f11 request)"
  "ensures {} f12 (\<lambda>_. {}) \<Longrightarrow> abides system_kept (BootstrapReadHandler f12 request)"
  "(\<And>i q. ensures {} (f13 i q) (\<lambda>_. {})) \<Longrightarrow> abides system_kept (ContactMemoryHandler f13 request)"
  "(\<And>i q. ensures {} (f14 i q) (\<lambda>_. {})) \<Longrightarrow> abides system_kept (ThreadEscalateHandler f14 request)"
  "(\<And>k. ensures {} (f15 k) (\<lambda>_. {})) \<Longrightarrow> abides system_kept (InboundReprocessHandler f15 request)"
  "(\<And>i. ensures {} (f16 i) (\<lambda>_. {})) \<Longrightarrow> abides system_kept (WebhookReplayHandler f16 request)"
  "(\<And>n. ensures {} (f17 n) (\<lambda>_. {})) \<Longrightarrow> abides system_kept (WebhookRetryHandler f17 request)"
  "(\<And>e c. ensures {} (f18 e c) (\<lambda>_. {})) \<Longrightarrow> abides system_kept (OutboundCallbackHandler p f18 request)"
  "ensures {} (Check checker) (\<lambda>_. {}) \<Longrightarrow> abides system_kept (ReadinessHandler checker request)"
  unfolding handler_defs Let_def
  by (auto split: handler_splits intro!: kept_refuse kept_respond)

text \<open>What the email provider and the readiness probes may do to the process: not write its store.\<close>

definition quiet_provider :: "'z world_scheme email_provider \<Rightarrow> bool" where
  "quiet_provider provider \<longleftrightarrow> (\<forall>q. frames mem (ep_Send provider q)) \<and> frames mem (ep_HealthCheck provider)"

definition quiet_checker :: "'z world_scheme readiness_checker \<Rightarrow> bool" where
  "quiet_checker checker \<longleftrightarrow> (\<forall>ping. rn_db checker = Some ping \<longrightarrow> frames mem ping) \<and>
     (\<forall>provider. rn_email checker = Inr provider \<longrightarrow> quiet_provider provider)"

lemma frames_Check:
  assumes "quiet_checker checker"
  shows "frames mem (Check checker)"
  using assms unfolding Check_def Let_def quiet_checker_def quiet_provider_def
  by (auto split: option.split sum.split intro!: frames_bind frames_try)

lemma ensures_then: "ensures F m G \<Longrightarrow> ensures F (go_bind m (\<lambda>x. go_ret (g x))) (\<lambda>_. {})"
  by (erule ensures_bind) (rule ensures_ret, simp)

lemma ensures_services:
  "ensures {} (bootstrapServiceAdapter newBootstrapService b) (\<lambda>_. {})"
  "ensures {} (bootstrapReadServiceAdapter newBootstrapReadService) (\<lambda>_. {})"
  "ensures {} (newInboundReceiptListService n) (\<lambda>_. {})"
  "ensures {} (GetInboundReceipt rt_GetInboundReceiptByObjectKey k) (\<lambda>_. {})"
  "ensures {} (newWebhookDeliveryListService n) (\<lambda>_. {})"
  "ensures {} (webhookRetryServiceAdapter newWebhookRetrySweepService n) (\<lambda>_. {})"
  "ensures {} (GetWebhookDelivery rt_GetWebhookDeliveryByID k) (\<lambda>_. {})"
  "ensures {} (webhookReplayServiceAdapter rt_ReplayDelivery k) (\<lambda>_. {})"
  "ensures {} (newThreadEscalationHandlerService k) (\<lambda>_. {})"
  "ensures {} (GetThread rt_GetByID k) (\<lambda>_. {})"
  "ensures {} (newThreadMessagesReadService k n) (\<lambda>_. {})"
  "ensures {} (GetContact rt_GetContactByID k) (\<lambda>_. {})"
  "ensures {} (newContactMemoryHandlerService k input) (\<lambda>_. {})"
  "ensures {} (newSuppressionListService n) (\<lambda>_. {})"
  "ensures {} (GetSuppression rt_GetSuppressionByID k) (\<lambda>_. {})"
  "ensures {} (newOutboundCallbackFlow event contact) (\<lambda>_. {})"
proof -
  have boot: "ensures {} (newBootstrapService b') (\<lambda>_. {})" for b'
    by (rule ensures_frames) (simp_all add: link_bootstrap)
  show "ensures {} (bootstrapServiceAdapter newBootstrapService b) (\<lambda>_. {})"
    unfolding bootstrapServiceAdapter_def by (rule ensures_then [OF boot])
  show "ensures {} (bootstrapReadServiceAdapter newBootstrapReadService) (\<lambda>_. {})"
    unfolding bootstrapReadServiceAdapter_def newBootstrapReadService_def GetBootstrap_def
    by (rule ensures_mem) (auto intro!: frames_bind)
  show "ensures {} (webhookRetryServiceAdapter newWebhookRetrySweepService n) (\<lambda>_. {})"
    unfolding webhookRetryServiceAdapter_def by (rule ensures_then [OF ensures_sweep])
  show "ensures {} (webhookReplayServiceAdapter rt_ReplayDelivery k) (\<lambda>_. {})"
    unfolding webhookReplayServiceAdapter_def by (rule ensures_then [OF ensures_ReplayDelivery])
  show "ensures {} (newContactMemoryHandlerService k input) (\<lambda>_. {})"
    by (rule ensures_frames) (simp_all add: link_memory)
qed (unfold newInboundReceiptListService_def ListInboundReceipts_def GetInboundReceipt_def
    newWebhookDeliveryListService_def ListWebhookDeliveries_def GetWebhookDelivery_def GetThread_def GetContact_def
    newThreadMessagesReadService_def ListThreadMessages_def newSuppressionListService_def ListSuppressions_def
    GetSuppression_def, auto intro!: ensures_mem ensures_escalate ensures_newOutboundCallbackFlow)

lemma ensures_reprocess:
  "ensures {} (inboundReprocessServiceAdapter
     (ReprocessByObjectKey rt_GetInboundReceiptByObjectKey (runtime_handler decode config)) k) (\<lambda>_. {})"
proof -
  have get: "ensures {} (rt_GetInboundReceiptByObjectKey k) (\<lambda>_. {})" by (rule ensures_mem) simp
  show ?thesis
    unfolding inboundReprocessServiceAdapter_def ReprocessByObjectKey_def
    by (rule ensures_then, rule ensures_bind [OF get ensures_runtime])
qed

lemma routes_kept:
  assumes "quiet_checker checker" and "quiet_provider provider"
    and "r \<in> set (routes checker (runtime_handler decode config) provider)"
  shows "abides system_kept (ro_Handler r request)"
proof -
  have check: "ensures {} (Check checker) (\<lambda>_. {})" by (rule ensures_mem [OF frames_Check [OF assms(1)]])
  have reply: "ensures {} (newReplyHandlerService provider q) (\<lambda>_. {})" for q
    using assms(2) by (intro ensures_newReplyHandlerService) (simp add: quiet_provider_def)
  have health: "abides system_kept (handleHealth request)"
    by (simp add: abides_def handleHealth_def system_kept_def)
  show ?thesis
    using assms(3) unfolding routes_def route_def
    by (auto intro!: kept_handlers ensures_services ensures_reprocess check reply health)
qed

lemma server_kept:
  assumes "quiet_checker checker" and "quiet_provider provider"
  shows "abides system_kept (mux (routes checker (runtime_handler decode config) provider) request)"
  by (rule abides_mux) (simp_all add: kept_refuse routes_kept [OF assms])

text \<open>C9: every HTTP request, to whatever path, with whatever body and whether it succeeds or fails,
  takes a good system to a good one: the store well formed, every message in a stored thread that
  lists it, every receipt with its bytes. The server runs with the configuration its start-up
  captured and a provider that does not write the store.\<close>

theorem http_requests_keep_system:
  assumes "quiet_checker checker" and "quiet_provider provider" and "sys_ok w"
    and "mux (routes checker (runtime_handler decode config) provider) request w = (out, w')"
  shows "sys_ok w'"
  using abidesD [OF server_kept [OF assms(1,2)] assms(4)] assms(3) by (simp add: system_kept_def)

section \<open>Reads\<close>

definition effects :: "'z world_scheme \<Rightarrow> mem_store \<times> http_request list" where
  "effects w = (mem w, http_log w)"

lemma frames_effects: "frames mem m \<Longrightarrow> frames net m \<Longrightarrow> frames effects m"
  unfolding frames_def effects_def by (blast dest: netD(1))

lemma effects_read: "store_read f \<Longrightarrow> frames effects (on_mem f)"
  by (rule frames_effects) simp_all

lemma effects_range: "(\<And>ord. store_read (f ord)) \<Longrightarrow> frames effects (on_mem_range f)"
  by (rule frames_effects) simp_all

definition read_only :: "http_out \<Rightarrow> 'z world_scheme \<Rightarrow> 'z world_scheme \<Rightarrow> bool" where
  "read_only out w w' \<longleftrightarrow> effects w' = effects w"

lemma read_refuse: "abides read_only (refuse msg code)"
  by (rule abides_refuse) (simp add: read_only_def)

lemma read_respond: "frames effects m \<Longrightarrow> abides read_only (respond m on_error on_ok)"
  by (intro abides_respond) (auto simp: read_only_def dest: framesD)

lemma read_handlers:
  "(\<And>i. frames effects (f1 i)) \<Longrightarrow> abides read_only (ThreadHandler f1 request)"
  "(\<And>i. frames effects (f2 i)) \<Longrightarrow> abides read_only (ContactHandler f2 request)"
  "(\<And>i n. frames effects (f3 i n)) \<Longrightarrow> abides read_only (ThreadMessagesHandler f3 request)"
  "(\<And>n. frames effects (f4 n)) \<Longrightarrow> abides read_only (InboundReceiptsHandler f4 request)"
  "(\<And>i. frames effects (f5 i)) \<Longrightarrow> abides read_only (InboundReceiptHandler f5 request)"
  "(\<And>n. frames effects (f6 n)) \<Longrightarrow> abides read_only (WebhookDeliveriesHandler f6 request)"
  "(\<And>i. frames effects (f7 i)) \<Longrightarrow> abides read_only (WebhookDeliveryHandler f7 request)"
  "(\<And>n. frames effects (f8 n)) \<Longrightarrow> abides read_only (SuppressionsHandler f8 request)"
  "(\<And>i. frames effects (f9 i)) \<Longrightarrow> abides read_only (SuppressionHandler f9 request)"
  "frames effects f12 \<Longrightarrow> abides read_only (BootstrapReadHandler f12 request)"
  "frames effects (Check checker) \<Longrightarrow> abides read_only (ReadinessHandler checker request)"
  unfolding handler_defs Let_def
  by (auto split: handler_splits intro!: read_refuse read_respond)

lemma read_services:
  "frames effects (bootstrapReadServiceAdapter newBootstrapReadService)"
  "frames effects (newInboundReceiptListService n)"
  "frames effects (GetInboundReceipt rt_GetInboundReceiptByObjectKey k)"
  "frames effects (newWebhookDeliveryListService n)"
  "frames effects (GetWebhookDelivery rt_GetWebhookDeliveryByID k)"
  "frames effects (GetThread rt_GetByID k)"
  "frames effects (newThreadMessagesReadService k n)"
  "frames effects (GetContact rt_GetContactByID k)"
  "frames effects (newSuppressionListService n)"
  "frames effects (GetSuppression rt_GetSuppressionByID k)"
  unfolding bootstrapReadServiceAdapter_def newBootstrapReadService_def GetBootstrap_def
    newInboundReceiptListService_def ListInboundReceipts_def GetInboundReceipt_def
    newWebhookDeliveryListService_def ListWebhookDeliveries_def GetWebhookDelivery_def GetThread_def GetContact_def
    newThreadMessagesReadService_def ListThreadMessages_def newSuppressionListService_def ListSuppressions_def
    GetSuppression_def rt_read_defs rt_range_defs
  by (auto intro!: frames_bind effects_read effects_range)

definition silent_checker :: "'z world_scheme readiness_checker \<Rightarrow> bool" where
  "silent_checker checker \<longleftrightarrow> (\<forall>ping. rn_db checker = Some ping \<longrightarrow> frames effects ping) \<and>
     (\<forall>provider. rn_email checker = Inr provider \<longrightarrow> frames effects (ep_HealthCheck provider))"

lemma read_Check: "silent_checker checker \<Longrightarrow> frames effects (Check checker)"
  unfolding Check_def Let_def silent_checker_def
  by (auto split: option.split sum.split intro!: frames_bind frames_try)

lemma routes_read:
  assumes "silent_checker checker" and "r \<in> set (routes checker inbound provider)" and "ro_Method r = ''GET''"
  shows "abides read_only (ro_Handler r request)"
proof -
  have health: "abides read_only (handleHealth request)"
    by (simp add: abides_def handleHealth_def read_only_def)
  show ?thesis
    using assms(2,3) unfolding routes_def route_def
    by (auto intro!: read_handlers read_services read_Check [OF assms(1)] health)
qed

lemma mux_reads:
  assumes "silent_checker checker" and "hi_Method request \<in> {''GET'', ''HEAD''}"
  shows "abides read_only (mux (routes checker inbound provider) request)"
proof (rule abides_mux [OF read_refuse])
  fix r
  assume r: "r \<in> set (routes checker inbound provider)" "route_matches r request"
  show "abides read_only (ro_Handler r request)"
  proof (rule routes_read [OF assms(1) r(1)])
    have "ro_Method r \<in> {''GET'', ''POST''}" using r(1) unfolding routes_def route_def by auto
    with r(2) assms(2) show "ro_Method r = ''GET''" by (auto simp: route_matches_def method_matches_def)
  qed
qed

text \<open>GET and HEAD requests are safe: whatever the path and the query, they write nothing to the
  store and send nothing to a subscriber. The probes of the readiness check are assumed to do the
  same.\<close>

theorem reads_have_no_effect:
  assumes "silent_checker checker" and "hi_Method request \<in> {''GET'', ''HEAD''}"
    and "mux (routes checker inbound provider) request w = (out, w')"
  shows "mem w' = mem w \<and> http_log w' = http_log w"
  using abidesD [OF mux_reads [OF assms(1,2)] assms(3)] by (simp add: read_only_def effects_def)

section \<open>Paths and ids\<close>

definition plain_segment :: "string \<Rightarrow> bool" where
  "plain_segment s \<longleftrightarrow> s \<noteq> [] \<and> CHR ''/'' \<notin> set s"

lemma segments_from_append: "CHR ''/'' \<notin> set p \<Longrightarrow> segments_from cur (p @ s) = segments_from (cur @ p) s"
  by (induction p arbitrary: cur) auto

lemma segments_of_path:
  "\<forall>s \<in> set segs. plain_segment s \<Longrightarrow> filterEmptySegments (concat (map ((#) (CHR ''/'')) segs)) = segs"
proof (induction segs)
  case (Cons s segs)
  then have "segments_from s (concat (map ((#) (CHR ''/'')) segs)) = s # segs"
    by (cases segs) (auto simp: filterEmptySegments_def plain_segment_def)
  with Cons.prems show ?case
    by (simp add: filterEmptySegments_def segments_from_append plain_segment_def)
qed (simp add: filterEmptySegments_def)

lemma split_slash_of_path:
  "segs \<noteq> [] \<Longrightarrow> \<forall>s \<in> set segs. plain_segment s \<Longrightarrow> split_slash (tl (concat (map ((#) (CHR ''/'')) segs))) = segs"
proof (induction segs)
  case (Cons s segs)
  then show ?case
    by (cases segs) (simp_all add: plain_segment_def split_slash_plain split_slash_append)
qed simp

lemma dropWhile_rev_last: "xs \<noteq> [] \<Longrightarrow> \<not> P (last xs) \<Longrightarrow> dropWhile P (rev xs) = rev xs"
  by (cases xs rule: rev_cases) simp_all

lemma trim_path:
  assumes "segs \<noteq> []" and "\<forall>s \<in> set segs. plain_segment s"
  shows "trim_slashes (concat (map ((#) (CHR ''/'')) segs)) = tl (concat (map ((#) (CHR ''/'')) segs))"
proof -
  obtain s rest where segs: "segs = s # rest" using assms(1) by (cases segs) simp
  obtain init l where ends: "segs = init @ [l]" using assms(1) by (cases segs rule: rev_cases) simp
  let ?p = "tl (concat (map ((#) (CHR ''/'')) segs))"
  have first: "?p \<noteq> [] \<and> hd ?p \<noteq> CHR ''/''" using assms(2) unfolding segs
    by (cases s) (auto simp: plain_segment_def)
  have l: "plain_segment l" using assms(2) ends by simp
  have "last ?p = last l" and "l \<noteq> []"
    using l unfolding ends by (cases init; auto simp: plain_segment_def)+
  with l have final: "last ?p \<noteq> CHR ''/''"
    by (metis plain_segment_def last_in_set)
  obtain path where "concat (map ((#) (CHR ''/'')) segs) = CHR ''/'' # path" by (simp add: segs)
  moreover have "dropWhile (\<lambda>c. c = CHR ''/'') ?p = ?p" using first by (cases ?p) simp_all
  moreover have "dropWhile (\<lambda>c. c = CHR ''/'') (rev ?p) = rev ?p"
    by (rule dropWhile_rev_last) (use first final in simp_all)
  ultimately show ?thesis by (simp add: trim_slashes_def)
qed

lemma splitPath_segments:
  "hi_Segments request \<noteq> [] \<Longrightarrow> \<forall>s \<in> set (hi_Segments request). plain_segment s \<Longrightarrow>
   splitPath (URL_Path request) = hi_Segments request"
  using segments_of_path [of "hi_Segments request"]
  by (cases "hi_Segments request") (simp_all add: splitPath_def URL_Path_def)

lemma literal_segments [simp]: "plain_segment ''threads''" "plain_segment ''reply''" "plain_segment ''escalate''"
  "plain_segment ''messages''" "plain_segment ''contacts''" "plain_segment ''memory''" "plain_segment ''suppressions''"
  "plain_segment ''webhooks''" "plain_segment ''deliveries''" "plain_segment ''replay''"
  by (simp_all add: plain_segment_def)

text \<open>The handlers, which take the path apart again, find the id the route matched: for every id
  without a slash, the segment in the wildcard's place is what each path function returns.\<close>

theorem routed_ids:
  assumes "plain_segment i"
  shows "(hi_Segments request = [''threads'', i, ''reply''] \<longrightarrow> threadIDFromPath (URL_Path request) = i) \<and>
    (hi_Segments request = [''threads'', i] \<longrightarrow> threadIDFromThreadPath (URL_Path request) = i) \<and>
    (hi_Segments request = [''threads'', i, ''messages''] \<longrightarrow>
      threadIDFromThreadMessagesPath (URL_Path request) = i) \<and>
    (hi_Segments request = [''threads'', i, ''escalate''] \<longrightarrow> threadIDFromEscalatePath (URL_Path request) = i) \<and>
    (hi_Segments request = [''contacts'', i] \<longrightarrow> contactIDFromPath (URL_Path request) = i) \<and>
    (hi_Segments request = [''contacts'', i, ''memory''] \<longrightarrow> contactIDFromMemoryPath (URL_Path request) = i) \<and>
    (hi_Segments request = [''suppressions'', i] \<longrightarrow> suppressionIDFromPath (URL_Path request) = i) \<and>
    (hi_Segments request = [''webhooks'', ''deliveries'', i] \<longrightarrow>
      webhookDeliveryIDFromShowPath (URL_Path request) = i) \<and>
    (hi_Segments request = [''webhooks'', ''deliveries'', i, ''replay''] \<longrightarrow>
      webhookDeliveryIDFromReplayPath (URL_Path request) = i)"
proof (intro conjI impI)
  assume segs: "hi_Segments request = [''threads'', i, ''reply'']"
  then have "split_slash (trim_slashes (URL_Path request)) = [''threads'', i, ''reply'']"
    using trim_path [of "hi_Segments request"] split_slash_of_path [of "hi_Segments request"] assms
    unfolding URL_Path_def by simp
  then show "threadIDFromPath (URL_Path request) = i" by (simp add: threadIDFromPath_def)
qed (simp_all add: splitPath_segments assms threadIDFromThreadPath_def
    threadIDFromThreadMessagesPath_def threadIDFromEscalatePath_def contactIDFromPath_def contactIDFromMemoryPath_def
    suppressionIDFromPath_def webhookDeliveryIDFromShowPath_def webhookDeliveryIDFromReplayPath_def)

text \<open>An id with an escaped slash is taken apart differently: the thread of another segment is read, or
  none.\<close>

lemma escaped_slash_ids:
  "hi_Segments request = [''threads'', ''/t1''] \<Longrightarrow> threadIDFromThreadPath (URL_Path request) = ''t1''"
  "hi_Segments request = [''threads'', ''a/b''] \<Longrightarrow> threadIDFromThreadPath (URL_Path request) = []"
  by (simp_all add: URL_Path_def threadIDFromThreadPath_def splitPath_def filterEmptySegments_def)

lemma mux_reply:
  "hi_Method request = ''POST'' \<Longrightarrow> hi_Segments request = [''threads'', i, ''reply''] \<Longrightarrow> i \<noteq> [] \<Longrightarrow>
   mux (routes checker inbound provider) request = ReplyHandler (newReplyHandlerService provider) request"
  by (simp add: mux_def routes_def route_def route_matches_def method_matches_def)

section \<open>Delivery callbacks\<close>

definition callback_request :: "http_in \<Rightarrow> bool" where
  "callback_request request \<longleftrightarrow> hi_Method request = ''POST'' \<and>
     hi_Segments request = [''provider'', ''callbacks'', ''outbound'']"

lemma mux_callback:
  assumes "callback_request request"
  shows "mux (routes checker inbound provider) request =
    OutboundCallbackHandler CallbackParser_Parse newOutboundCallbackFlow request"
  using assms
  by (simp add: callback_request_def mux_def routes_def route_def route_matches_def method_matches_def)

text \<open>C28: a provider that posts a callback in the documented form, with any of the four event types and
  a time printed in RFC 3339, has exactly that event applied, to the second, with the address it
  gave; bytes of the ids that are not UTF-8 are replaced. The response is that of the flow: status
  200 with the message, 404 for an unknown provider id.\<close>

theorem callback_request_applied:
  assumes "callback_request request" and "st \<in> callback_states" and "0 \<le> t" and "t < last_instant"
    and "hi_Body request = Inr (json_encode (callback_json st pid t email))" and "\<not> blank (to_valid email)"
  shows "mux (routes checker inbound provider) request w =
    respond (newOutboundCallbackFlow
        \<lparr>ce_ProviderMessageID = to_valid pid, ce_Status = st,
         ce_OccurredAt = t div nanos_per_second * nanos_per_second\<rparr>
        (zero_contact\<lparr>c_EmailAddress := to_valid email\<rparr>))
      callback_error (\<lambda>result. respond_json 200 (outboundCallbackResponse result)) w"
  using callback_written [OF assms(2-4), of pid email] assms(5,6)
  by (simp add: mux_callback [OF assms(1)] OutboundCallbackHandler_def outboundCallbackPayload_def one_string_def)

section \<open>Announcements\<close>

lemma fits_strings: "fits_items d (map JString xs)"
  by (induction xs) simp_all

lemma fits_map: "(\<And>x. fits d (f x)) \<Longrightarrow> fits_items d (map f xs)"
  by (induction xs) simp_all

lemma payload_fits: "fits max_nesting (message_received_payload bi)"
  by (auto simp: message_received_payload_def mapMessage_def payload_memory_def max_nesting_def Let_def
      intro!: fits_map fits_strings split: option.split)

text \<open>A subscriber looks fields of a document up by their names.\<close>

fun json_at :: "string list \<Rightarrow> json \<Rightarrow> json option" where
  "json_at [] v = Some v"
| "json_at (k # ks) (JObject fs) = (case map_of fs k of None \<Rightarrow> None | Some v \<Rightarrow> json_at ks v)"
| "json_at (k # ks) v = None"

definition text_at :: "string list \<Rightarrow> json \<Rightarrow> string option" where
  "text_at path v = (case json_at path v of Some (JString s) \<Rightarrow> Some s | _ \<Rightarrow> None)"

definition items_at :: "string list \<Rightarrow> json \<Rightarrow> json list option" where
  "items_at path v = (case json_at path v of Some (JArray vs) \<Rightarrow> Some vs | _ \<Rightarrow> None)"

text \<open>What a document says of a message and of a memory entry, field by field.\<close>

definition tells_message :: "message \<Rightarrow> json \<Rightarrow> bool" where
  "tells_message m v \<longleftrightarrow>
     text_at [''id''] v = Some (to_valid (m_ID m)) \<and> text_at [''thread_id''] v = Some (to_valid (m_ThreadID m)) \<and>
     text_at [''direction''] v = Some (to_valid (m_Direction m)) \<and> text_at [''subject''] v = Some (to_valid (m_Subject m)) \<and>
     text_at [''text_body''] v = Some (to_valid (m_TextBody m)) \<and>
     text_at [''message_id_header''] v = Some (to_valid (m_MessageIDHeader m)) \<and>
     text_at [''created_at''] v = Some (format_rfc3339 (m_CreatedAt m))"

definition tells_memory :: "contact_memory_entry \<Rightarrow> json \<Rightarrow> bool" where
  "tells_memory e v \<longleftrightarrow>
     text_at [''id''] v = Some (to_valid (cm_ID e)) \<and> text_at [''contact_id''] v = Some (to_valid (cm_ContactID e)) \<and>
     text_at [''thread_id''] v = Some (to_valid (cm_ThreadID e)) \<and> text_at [''note''] v = Some (to_valid (cm_Note e)) \<and>
     (\<forall>tags. cm_Tags e = Some tags \<longrightarrow> items_at [''tags''] v = Some (map (\<lambda>t. JString (to_valid t)) tags)) \<and>
     text_at [''created_at''] v = Some (format_rfc3339 (cm_CreatedAt e))"

lemma valid_items_map: "valid_items xs = map valid_json xs"
  by (induction xs) simp_all

lemma valid_members_map: "valid_members fs = map (\<lambda>(k, v). (to_valid k, valid_json v)) fs"
  by (induction fs) auto

lemma valid_rfc3339: "to_valid (format_rfc3339 t) = format_rfc3339 t"
  by (rule to_valid_ascii [OF ascii_rfc3339])

lemma payload_keys:
  "list_all (\<lambda>k. to_valid k = k) [''id'', ''thread_id'', ''direction'', ''subject'', ''text_body'',
     ''message_id_header'', ''created_at'', ''contact_id'', ''note'', ''tags'', ''event_id'', ''event_type'',
     ''occurred_at'', ''organization'', ''agent'', ''inbox'', ''message'', ''thread'', ''contact'',
     ''thread_messages'', ''memory'', ''name'', ''email_address'', ''display_name'', ''subject_normalized'', ''state'',
     ''message.received'']"
  by code_simp

lemma mapMessage_tells: "tells_message m (valid_json (mapMessage m))"
  using payload_keys
  by (simp add: mapMessage_def tells_message_def text_at_def valid_rfc3339)

lemma payload_memory_tells: "tells_memory e (valid_json (payload_memory e))"
  using payload_keys
  by (simp add: payload_memory_def tells_memory_def text_at_def items_at_def valid_rfc3339 valid_items_map split: option.split)


section \<open>At concrete requests\<close>

definition demo_http :: "string \<Rightarrow> string list \<Rightarrow> string \<Rightarrow> http_in" where
  "demo_http verb path body =
     \<lparr>hi_Method = verb, hi_Segments = path, hi_Query = [], hi_Header = [], hi_Body = Inr body\<rparr>"

definition demo_checker :: "world readiness_checker" where
  "demo_checker = \<lparr>rn_config = [], rn_db = None, rn_email = Inr dev_provider\<rparr>"

abbreviation demo_server :: "world handler" where
  "demo_server \<equiv> mux (routes demo_checker (runtime_handler demo_decode demo_config) dev_provider)"

lemma demo_server_quiet: "quiet_provider (dev_provider :: world email_provider)" "quiet_checker demo_checker"
    "silent_checker demo_checker"
proof -
  have health: "frames mem (ep_HealthCheck (dev_provider :: world email_provider))"
    "frames net (ep_HealthCheck (dev_provider :: world email_provider))"
    unfolding dev_provider_def by (auto intro!: frames_bind)
  show quiet: "quiet_provider (dev_provider :: world email_provider)" using health
    by (simp add: quiet_provider_def frames_dev_provider)
  then show "quiet_checker demo_checker" by (simp add: quiet_checker_def demo_checker_def)
  show "silent_checker demo_checker"
    using frames_effects [OF health] by (simp add: silent_checker_def demo_checker_def)
qed


theorem bad_request_changes_nothing_witness:
  "\<exists>out w'. demo_server (demo_http ''POST'' [''threads'', ''t1'', ''reply''] ''[]'') (demo_world NewStore) = (out, w') \<and>
     ho_Status out = 400 \<and> w' = demo_world NewStore"
proof -
  let ?q = "demo_http ''POST'' [''threads'', ''t1'', ''reply''] ''[]''"
  have q: "hi_Method ?q = ''POST''" "hi_Segments ?q = [''threads'', ''t1'', ''reply'']" and p: "plain_segment ''t1''"
    by (simp_all add: plain_segment_def demo_http_def)
  then have i: "threadIDFromPath (URL_Path ?q) = ''t1''"
    using trim_path [of "hi_Segments ?q"] split_slash_of_path [of "hi_Segments ?q"]
    by (simp add: threadIDFromPath_def URL_Path_def)
  have "Decoder_value ''[]'' = Inr (JArray [])" by code_simp
  then have d: "decode_body replyRequest ?q = Inl (ErrExternal ''json: cannot unmarshal'')"
    by (simp add: decode_body_def demo_http_def replyRequest_def decode_struct_def)
  have "demo_server ?q = ReplyHandler (newReplyHandlerService dev_provider) ?q" by (rule mux_reply [OF q]) simp
  then have "demo_server ?q (demo_world NewStore) = (http_Error ''invalid json payload'' 400, demo_world NewStore)"
    by (simp add: ReplyHandler_def i d refuse_def)
  with bad_request_changes_nothing [OF this] show ?thesis by simp
qed

theorem http_requests_keep_system_witness:
  "\<exists>w out w'. inboundReceiptsByKey (mem w) \<noteq> [] \<and> sys_ok w \<and>
     demo_server (demo_http ''POST'' [''inbound'', ''reprocess''] ''{}'') w = (out, w') \<and> sys_ok w'"
proof -
  let ?q = "demo_http ''POST'' [''inbound'', ''reprocess''] ''{}''"
  obtain ss w k r where reach: "sys_reach (\<lambda>_. []) demo_decode dev_provider demo_config (ss, w)"
    and "receipt_view w k = Some r"
    using demo_reach by blast
  then have "inboundReceiptsByKey (mem w) \<noteq> []" by (auto simp: receipt_view_def)
  moreover have ok: "sys_ok w" using reach_inv [OF frames_dev_provider reach] by (simp add: system_inv_def)
  moreover obtain out w' where run: "demo_server ?q w = (out, w')" by (cases "demo_server ?q w")
  ultimately show ?thesis using http_requests_keep_system [OF demo_server_quiet(2,1) ok run] by blast
qed

theorem reads_have_no_effect_witness:
  "\<exists>out w'. demo_server (demo_http ''GET'' [''readyz''] []) (demo_world NewStore) = (out, w') \<and>
     w' \<noteq> demo_world NewStore \<and> mem w' = NewStore \<and> http_log w' = []"
proof -
  let ?q = "demo_http ''GET'' [''readyz''] []"
  have "demo_server ?q = ReadinessHandler demo_checker ?q"
    by (simp add: mux_def routes_def route_def route_matches_def method_matches_def demo_http_def)
  then obtain out w' where run: "demo_server ?q (demo_world NewStore) = (out, w')" and "clock_ix w' = 1"
    by (simp add: ReadinessHandler_def respond_def Check_def demo_checker_def dev_provider_def go_bind_def go_try_def
        time_now_def)
  then have "w' \<noteq> demo_world NewStore" by auto
  with run reads_have_no_effect [OF demo_server_quiet(3) _ run] show ?thesis by (simp add: demo_http_def)
qed

theorem routed_ids_witness:
  "threadIDFromPath (URL_Path (demo_http ''POST'' [''threads'', ''t1'', ''reply''] [])) = ''t1'' \<and>
   webhookDeliveryIDFromReplayPath
     (URL_Path (demo_http ''POST'' [''webhooks'', ''deliveries'', ''d-1'', ''replay''] [])) = ''d-1''"
  using routed_ids [of "''t1''" "demo_http ''POST'' [''threads'', ''t1'', ''reply''] []"]
    routed_ids [of "''d-1''" "demo_http ''POST'' [''webhooks'', ''deliveries'', ''d-1'', ''replay''] []"]
  by (simp add: plain_segment_def demo_http_def)

theorem callback_request_applied_witness:
  "\<exists>w'. demo_server (demo_http ''POST'' [''provider'', ''callbacks'', ''outbound'']
       (json_encode (callback_json ''hard_bounce'' ''p-1'' 63903204007000000000 ''ada@x''))) (demo_world NewStore) =
     (http_Error ''provider message not found'' 404, w')"
proof -
  let ?q = "demo_http ''POST'' [''provider'', ''callbacks'', ''outbound'']
       (json_encode (callback_json ''hard_bounce'' ''p-1'' 63903204007000000000 ''ada@x''))"
  have valid: "to_valid ''ada@x'' = ''ada@x''" "\<not> blank ''ada@x''" by code_simp+
  have "demo_server ?q (demo_world NewStore) =
    respond (newOutboundCallbackFlow
        \<lparr>ce_ProviderMessageID = to_valid ''p-1'', ce_Status = ''hard_bounce'',
         ce_OccurredAt = 63903204007000000000 div nanos_per_second * nanos_per_second\<rparr>
        (zero_contact\<lparr>c_EmailAddress := to_valid ''ada@x''\<rparr>))
      callback_error (\<lambda>result. respond_json 200 (outboundCallbackResponse result)) (demo_world NewStore)"
    by (rule callback_request_applied)
      (simp_all only: valid, simp_all add: demo_http_def callback_request_def callback_states_def delivery_state_defs
        last_instant_def nanos_per_second_def)
  moreover have "newOutboundCallbackFlow e c (demo_world NewStore) = (Inl ErrProviderMessageNotFound, demo_world NewStore)"
    for e c
    by (simp add: newOutboundCallbackFlow_def CallbackFlow_Apply_def ApplyCallback_def go_bind_def rt_eqs
        Store_FindByProviderMessageID_def go_fail_def NewStore_def)
  ultimately show ?thesis by (simp add: respond_def callback_error_def)
qed

end
