(* ===== verification/Mail_Parser.thy ===== *)
theory Mail_Parser
  imports Outbound Webhooks
begin

text \<open>
  \<open>internal/parser/parser.go\<close>: from the bytes of a mail to the parsed message. \<open>mail.ReadMessage\<close> with its
  header reader (\<open>net/textproto\<close>) is written out; the rest of the MIME library (media types, multipart
  readers, encoded words, address lists, transfer encodings) is a record of functions, \<open>mime_lib\<close>.
\<close>

section \<open>Lines and headers\<close>

text \<open>\<open>bufio.Reader.ReadLine\<close>: \<open>None\<close> is the end of the input.\<close>

definition read_line :: "string \<Rightarrow> (string \<times> string) option" where
  "read_line s = (if s = [] then None else
     (let line = takeWhile (\<lambda>c. c \<noteq> CHR 0x0A) s
      in case dropWhile (\<lambda>c. c \<noteq> CHR 0x0A) s of
           [] \<Rightarrow> Some (line, [])
         | _ # rest \<Rightarrow> Some (if line \<noteq> [] \<and> last line = CHR 0x0D then butlast line else line, rest)))"

definition is_blank :: "char \<Rightarrow> bool" where
  "is_blank c \<longleftrightarrow> c = CHR 0x20 \<or> c = CHR 0x09"

definition drop_blank :: "string \<Rightarrow> string" where
  "drop_blank s = dropWhile is_blank s"

definition trim_blank :: "string \<Rightarrow> string" where
  "trim_blank s = rev (drop_blank (rev (drop_blank s)))"

lemma length_drop_blank: "length (drop_blank s) \<le> length s"
  by (simp add: drop_blank_def length_dropWhile_le)

lemma read_line_shorter: "read_line s = Some (line, rest) \<Longrightarrow> length rest < length s"
proof -
  assume a: "read_line s = Some (line, rest)"
  have "length (dropWhile (\<lambda>c. c \<noteq> CHR 0x0A) s) \<le> length s" by (rule length_dropWhile_le)
  with a show ?thesis
    by (auto simp: read_line_def Let_def split: if_splits list.splits)
qed

text \<open>\<open>textproto.Reader.ReadContinuedLine\<close>: the lines that begin with a blank belong to the line before.\<close>

function continue_line :: "string \<Rightarrow> string \<Rightarrow> string \<times> string" where
  "continue_line buf s =
     (if drop_blank s = s then (buf, s)
      else case read_line (drop_blank s) of
        None \<Rightarrow> (buf @ '' '', [])
      | Some (line, rest) \<Rightarrow> continue_line (buf @ '' '' @ trim_blank line) rest)"
  by pat_completeness auto

termination
proof (relation "measure (\<lambda>(buf, s). length s)")
  fix buf s p line rest
  assume "read_line (drop_blank s) = Some p" "(line, rest) = p"
  then show "((buf @ '' '' @ trim_blank line, rest), (buf, s)) \<in> measure (\<lambda>(buf, s). length s)"
    using read_line_shorter [of "drop_blank s" line rest] length_drop_blank [of s] by auto
qed simp

declare continue_line.simps [simp del]

definition read_continued_line :: "string \<Rightarrow> (string \<times> string) option" where
  "read_continued_line s = (case read_line s of
     None \<Rightarrow> None
   | Some (line, rest) \<Rightarrow> if line = [] then Some ([], rest) else Some (continue_line (trim_blank line) rest))"

lemma length_continue_line: "length (snd (continue_line buf s)) \<le> length s"
proof (induction buf s rule: continue_line.induct)
  case (1 buf s)
  show ?case
  proof (cases "drop_blank s = s")
    case True
    then show ?thesis by (simp add: continue_line.simps [of buf s])
  next
    case False
    show ?thesis
    proof (cases "read_line (drop_blank s)")
      case None
      with False show ?thesis by (simp add: continue_line.simps [of buf s])
    next
      case (Some p)
      obtain line rest where p: "p = (line, rest)" by (cases p)
      from 1 [OF False Some p [symmetric]] read_line_shorter [of "drop_blank s" line rest]
        length_drop_blank [of s] False Some p
      show ?thesis by (simp add: continue_line.simps [of buf s])
    qed
  qed
qed

lemma read_continued_line_shorter:
  "read_continued_line s = Some (kv, rest) \<Longrightarrow> length rest < length s"
  using length_continue_line read_line_shorter
  by (auto simp: read_continued_line_def split: option.splits prod.splits if_splits)
    (metis le_less_trans snd_conv)

type_synonym mail_header = "string list gmap"

definition header_add :: "string \<Rightarrow> string \<Rightarrow> mail_header \<Rightarrow> mail_header" where
  "header_add key value m = gput key ((case map_of m key of None \<Rightarrow> [] | Some vs \<Rightarrow> vs) @ [value]) m"

text \<open>\<open>textproto.MIMEHeader.Get\<close>\<close>

definition header_get :: "mail_header \<Rightarrow> string \<Rightarrow> string" where
  "header_get m key = (case map_of m (canonical_key key) of Some (v # _) \<Rightarrow> v | _ \<Rightarrow> [])"

definition cut_colon :: "string \<Rightarrow> (string \<times> string) option" where
  "cut_colon s = (case dropWhile (\<lambda>c. c \<noteq> CHR '':'') s of
     [] \<Rightarrow> None | _ # v \<Rightarrow> Some (takeWhile (\<lambda>c. c \<noteq> CHR '':'') s, v))"

text \<open>\<open>readHeader\<close> of \<open>net/mail\<close>: how it ended, the header and what is left of the input.\<close>

datatype header_end = Blank_Line | At_EOF | Malformed string

function read_header :: "string \<Rightarrow> mail_header \<Rightarrow> header_end \<times> mail_header \<times> string" where
  "read_header s m = (case read_continued_line s of
     None \<Rightarrow> (At_EOF, m, [])
   | Some (kv, rest) \<Rightarrow>
       if kv = [] then (Blank_Line, m, rest)
       else case cut_colon kv of
         None \<Rightarrow> (Malformed kv, m, rest)
       | Some (k, v) \<Rightarrow>
           let key = canonical_key k
           in read_header rest (if key = [] then m else header_add key (drop_blank v) m))"
  by pat_completeness auto

termination
  by (relation "measure (\<lambda>(s, m). length s)") (auto dest: read_continued_line_shorter)

declare read_header.simps [simp del]

definition mail_ReadMessage :: "string \<Rightarrow> gerr + (mail_header \<times> string)" where
  "mail_ReadMessage raw =
     (if raw \<noteq> [] \<and> is_blank (hd raw) then Inl (ErrExternal ''malformed initial line'')
      else case read_header raw [] of
        (Blank_Line, m, body) \<Rightarrow> Inr (m, body)
      | (At_EOF, m, body) \<Rightarrow> if m = [] then Inl (ErrExternal ''EOF'') else Inr (m, body)
      | (Malformed kv, m, body) \<Rightarrow> Inl (ErrExternal ''malformed header line''))"

section \<open>The MIME library\<close>

text \<open>A stream: its bytes, and the error its reader ends with if it does not end in \<open>io.EOF\<close>.\<close>

record mime_body =
  bd_bytes :: string
  bd_err :: "gerr option"

record mime_part =
  mp_Header :: mail_header
  mp_FileName :: string
  mp_Body :: mime_body

text \<open>
  \<open>ml_Parts\<close> takes the boundary and gives what \<open>NextPart\<close> returns until \<open>io.EOF\<close> or an error. An address
  is a name and an address.
\<close>

record mime_lib =
  ml_ParseMediaType :: "string \<Rightarrow> gerr + (string \<times> string gmap)"
  ml_Parts :: "string \<Rightarrow> mime_body \<Rightarrow> mime_part list \<times> gerr option"
  ml_DecodeHeader :: "string \<Rightarrow> gerr + string"
  ml_ParseAddressList :: "string \<Rightarrow> gerr + (string \<times> string) list"
  ml_base64 :: "mime_body \<Rightarrow> gerr + string"
  ml_quotedprintable :: "mime_body \<Rightarrow> gerr + string"

definition io_ReadAll :: "mime_body \<Rightarrow> gerr + string" where
  "io_ReadAll body = (case bd_err body of None \<Rightarrow> Inr (bd_bytes body) | Some e \<Rightarrow> Inl e)"

section \<open>Headers of a message\<close>

definition decodeHeader :: "mime_lib \<Rightarrow> string \<Rightarrow> string" where
  "decodeHeader lib value =
     (if trim_space value = [] then []
      else case ml_DecodeHeader lib value of Inl _ \<Rightarrow> value | Inr decoded \<Rightarrow> decoded)"

definition parseAddressList :: "mime_lib \<Rightarrow> string \<Rightarrow> parsed_address list" where
  "parseAddressList lib value =
     (if trim_space value = [] then []
      else case ml_ParseAddressList lib value of
        Inl _ \<Rightarrow> []
      | Inr addresses \<Rightarrow> map (\<lambda>(name, address). \<lparr>pa_Email = address, pa_DisplayName = decodeHeader lib name\<rparr>) addresses)"

definition parseSingleAddress :: "mime_lib \<Rightarrow> string \<Rightarrow> parsed_address" where
  "parseSingleAddress lib value = (case parseAddressList lib value of
     [] \<Rightarrow> \<lparr>pa_Email = [], pa_DisplayName = []\<rparr> | a # _ \<Rightarrow> a)"

text \<open>\<open>strings.Fields\<close>\<close>

function fields :: "string \<Rightarrow> string list" where
  "fields s = (case trim_left s of
     [] \<Rightarrow> []
   | c # t \<Rightarrow> takeWhile (\<lambda>c. \<not> is_space c) (c # t) # fields (dropWhile (\<lambda>c. \<not> is_space c) (c # t)))"
  by pat_completeness auto

termination
proof (relation "measure length")
  fix s c t
  assume a: "trim_left s = c # t"
  then have c: "\<not> is_space c" by (simp add: trim_left_def dropWhile_eq_Cons_conv)
  have "length (dropWhile (\<lambda>c. \<not> is_space c) t) \<le> length t" by (rule length_dropWhile_le)
  moreover have "length (c # t) \<le> length s" using a length_trim_left [of s] by simp
  ultimately show "(dropWhile (\<lambda>c. \<not> is_space c) (c # t), s) \<in> measure length" using c by simp
qed simp

declare fields.simps [simp del]

section \<open>Bodies\<close>

definition readDecodedBody :: "mime_lib \<Rightarrow> mime_body \<Rightarrow> string \<Rightarrow> gerr + string" where
  "readDecodedBody lib body transferEncoding =
     (let encoding = to_lower (trim_space transferEncoding)
      in if encoding = ''base64'' then ml_base64 lib body
         else if encoding = ''quoted-printable'' then ml_quotedprintable lib body
         else io_ReadAll body)"

definition mediaTypeFromHeader :: "mime_lib \<Rightarrow> string \<Rightarrow> string" where
  "mediaTypeFromHeader lib contentType =
     (case ml_ParseMediaType lib contentType of Inl _ \<Rightarrow> contentType | Inr (mediaType, _) \<Rightarrow> mediaType)"

definition part_get :: "mime_part \<Rightarrow> string \<Rightarrow> string" where
  "part_get part key = header_get (mp_Header part) key"

definition is_attachment :: "mime_part \<Rightarrow> bool" where
  "is_attachment part \<longleftrightarrow> has_prefix (to_lower (part_get part ''Content-Disposition'')) ''attachment''"

definition part_attachment :: "mime_lib \<Rightarrow> mime_part \<Rightarrow> string \<Rightarrow> parsed_attachment" where
  "part_attachment lib part payload =
     \<lparr>pt_FileName = mp_FileName part,
      pt_ContentType = mediaTypeFromHeader lib (part_get part ''Content-Type''), pt_ObjectKey = [],
      pt_SizeBytes = int (length payload), pt_ContentID = part_get part ''Content-ID'',
      pt_ContentDisposition = part_get part ''Content-Disposition''\<rparr>"

text \<open>The \<open>switch mediaType\<close> after a body that is not multipart was read.\<close>

definition put_payload :: "string \<Rightarrow> string \<Rightarrow> parsed_message \<Rightarrow> parsed_message" where
  "put_payload mediaType payload parsed =
     (if mediaType = ''text/plain'' then (if pm_TextBody parsed = [] then parsed\<lparr>pm_TextBody := payload\<rparr> else parsed)
      else if mediaType = ''text/html'' then (if pm_HTMLBody parsed = [] then parsed\<lparr>pm_HTMLBody := payload\<rparr> else parsed)
      else parsed)"

text \<open>
  \<open>populateBodiesAndAttachments\<close> and its loop over the parts. The number bounds the nesting of multipart
  bodies; \<open>None\<close> means that it was exceeded.
\<close>

function populate :: "mime_lib \<Rightarrow> nat \<Rightarrow> parsed_message \<Rightarrow> string \<Rightarrow> string \<Rightarrow> mime_body \<Rightarrow> (gerr + parsed_message) option"
  and populate_parts :: "mime_lib \<Rightarrow> nat \<Rightarrow> parsed_message \<Rightarrow> mime_part list \<Rightarrow> gerr option \<Rightarrow> (gerr + parsed_message) option"
where
  "populate lib n parsed contentType transferEncoding body =
     (case ml_ParseMediaType lib contentType of
        Inr (mediaType, params) \<Rightarrow>
          if mediaType = [] then
            Some (case io_ReadAll body of Inl e \<Rightarrow> Inl e | Inr payload \<Rightarrow> Inr (parsed\<lparr>pm_TextBody := payload\<rparr>))
          else if has_prefix mediaType ''multipart/'' then
            (case n of
               0 \<Rightarrow> None
             | Suc m \<Rightarrow> (case ml_Parts lib (case map_of params ''boundary'' of None \<Rightarrow> [] | Some b \<Rightarrow> b) body of
                 (parts, ended) \<Rightarrow> populate_parts lib m parsed parts ended))
          else Some (case readDecodedBody lib body transferEncoding of
              Inl e \<Rightarrow> Inl e
            | Inr payload \<Rightarrow> Inr (put_payload mediaType payload parsed))
      | Inl _ \<Rightarrow>
          Some (case io_ReadAll body of Inl e \<Rightarrow> Inl e | Inr payload \<Rightarrow> Inr (parsed\<lparr>pm_TextBody := payload\<rparr>)))"
| "populate_parts lib n parsed [] ended = Some (case ended of None \<Rightarrow> Inr parsed | Some e \<Rightarrow> Inl e)"
| "populate_parts lib n parsed (part # parts) ended =
     (if is_attachment part then
        (case readDecodedBody lib (mp_Body part) (part_get part ''Content-Transfer-Encoding'') of
           Inl e \<Rightarrow> Some (Inl e)
         | Inr payload \<Rightarrow> populate_parts lib n
             (parsed\<lparr>pm_Attachments := pm_Attachments parsed @ [part_attachment lib part payload]\<rparr>) parts ended)
      else
        (case populate lib n parsed (part_get part ''Content-Type'') (part_get part ''Content-Transfer-Encoding'')
             (mp_Body part) of
           None \<Rightarrow> None
         | Some (Inl e) \<Rightarrow> Some (Inl e)
         | Some (Inr parsed') \<Rightarrow> populate_parts lib n parsed' parts ended))"
  by pat_completeness auto

termination
  by (relation "measures [\<lambda>x. case x of Inl (lib, n, _) \<Rightarrow> n | Inr (lib, n, _) \<Rightarrow> n,
    \<lambda>x. case x of Inl _ \<Rightarrow> 0 | Inr (lib, n, parsed, parts, ended) \<Rightarrow> Suc (length parts)]") auto

declare populate.simps [simp del]

section \<open>The parser\<close>

definition parsed_headers :: "mime_lib \<Rightarrow> mail_header \<Rightarrow> parsed_message" where
  "parsed_headers lib h =
     \<lparr>pm_MessageIDHeader = header_get h ''Message-ID'', pm_InReplyTo = header_get h ''In-Reply-To'',
      pm_References = fields (header_get h ''References''),
      pm_Subject = decodeHeader lib (header_get h ''Subject''),
      pm_SubjectNormalized = normalizeSubject (decodeHeader lib (header_get h ''Subject'')),
      pm_TextBody = [], pm_HTMLBody = [], pm_From = parseSingleAddress lib (header_get h ''From''),
      pm_ReplyTo = parseAddressList lib (header_get h ''Reply-To''),
      pm_To = parseAddressList lib (header_get h ''To''), pm_CC = parseAddressList lib (header_get h ''Cc''),
      pm_Attachments = [], pm_RawHeaders = h\<rparr>"

text \<open>What \<open>Parser.Parse\<close> makes of the bytes it has read. A body of \<open>n\<close> bytes nests less than \<open>n + 1\<close> deep.\<close>

definition parse_raw :: "mime_lib \<Rightarrow> string \<Rightarrow> gerr + parsed_message" where
  "parse_raw lib raw = (case mail_ReadMessage raw of
     Inl e \<Rightarrow> Inl e
   | Inr (h, body) \<Rightarrow>
       (case populate lib (Suc (length body)) (parsed_headers lib h) (header_get h ''Content-Type'')
           (header_get h ''Content-Transfer-Encoding'') \<lparr>bd_bytes = body, bd_err = None\<rparr> of
          None \<Rightarrow> Inl (ErrExternal ''nesting'')
        | Some r \<Rightarrow> r))"

end
