(* ===== verification/Mail_Laws.thy ===== *)
theory Mail_Laws
  imports Mail_Parser Outbound_Laws
begin

text \<open>
  The parser returns, collects bodies and attachments in the order of the mail, and reads the mails that this
  program writes.
\<close>

section \<open>The three kinds of body\<close>

lemma populate_multipart:
  assumes "ml_ParseMediaType lib ct = Inr (mediaType, params)" "mediaType \<noteq> []" "has_prefix mediaType ''multipart/''"
  shows "populate lib 0 parsed ct cte body = None"
    and "populate lib (Suc m) parsed ct cte body =
      (case ml_Parts lib (case map_of params ''boundary'' of None \<Rightarrow> [] | Some b \<Rightarrow> b) body of
         (parts, ended) \<Rightarrow> populate_parts lib m parsed parts ended)"
  using assms by (simp_all add: populate.simps [of lib "0"] populate.simps [of lib "Suc m"])

lemma populate_single:
  assumes "\<And>mediaType params. ml_ParseMediaType lib ct = Inr (mediaType, params) \<Longrightarrow>
    mediaType = [] \<or> \<not> has_prefix mediaType ''multipart/''"
  shows "populate lib n parsed ct cte body = populate lib 0 parsed ct cte body"
    and "populate lib 0 parsed ct cte body \<noteq> None"
  using assms
  by (auto simp: populate.simps [of lib n] populate.simps [of lib "0"] split: sum.splits)

lemma populate_cases:
  obtains mediaType params where "ml_ParseMediaType lib ct = Inr (mediaType, params)" "mediaType \<noteq> []"
    "has_prefix mediaType ''multipart/''"
  | "\<And>mediaType params. ml_ParseMediaType lib ct = Inr (mediaType, params) \<Longrightarrow>
    mediaType = [] \<or> \<not> has_prefix mediaType ''multipart/''"
  by (cases "ml_ParseMediaType lib ct") auto

section \<open>Enough depth\<close>

text \<open>The body of a part lies inside the body it is a part of, between two delimiter lines.\<close>

definition parts_shrink :: "mime_lib \<Rightarrow> bool" where
  "parts_shrink lib \<longleftrightarrow> (\<forall>boundary body. \<forall>p \<in> set (fst (ml_Parts lib boundary body)).
     length (bd_bytes (mp_Body p)) < length (bd_bytes body))"

lemma populate_more:
  "populate lib n parsed ct cte body = Some r \<Longrightarrow> n \<le> k \<Longrightarrow> populate lib k parsed ct cte body = Some r"
  "populate_parts lib n parsed parts ended = Some r \<Longrightarrow> n \<le> k \<Longrightarrow> populate_parts lib k parsed parts ended = Some r"
proof (induction lib n parsed ct cte body and lib n parsed parts ended arbitrary: r k and r k
    rule: populate_populate_parts.induct)
  case (1 lib n parsed ct cte body)
  show ?case
  proof (cases rule: populate_cases [of lib ct])
    case (1 mediaType params)
    note m = 1
    obtain j where k: "n \<le> k" and n: "n = Suc j"
      using 1 "1.prems" populate_multipart (1) [OF m, of parsed cte body] by (cases n) auto
    then obtain i where i: "k = Suc i" "j \<le> i" by (cases k) auto
    obtain parts ended where p: "ml_Parts lib (case map_of params ''boundary'' of None \<Rightarrow> [] | Some b \<Rightarrow> b) body = (parts, ended)"
      by (cases "ml_Parts lib (case map_of params ''boundary'' of None \<Rightarrow> [] | Some b \<Rightarrow> b) body")
    have "populate_parts lib j parsed parts ended = Some r"
      using "1.prems" n p populate_multipart (2) [OF m, of j parsed cte body] by simp
    then have "populate_parts lib i parsed parts ended = Some r"
      using "1.IH" [OF m(1) refl m(2) m(3) n p [symmetric]] i by blast
    then show ?thesis using i p populate_multipart (2) [OF m, of i parsed cte body] by simp
  next
    case 2
    then show ?thesis
      using "1.prems" populate_single (1) [of lib ct n] populate_single (1) [of lib ct k] 2 by simp
  qed
next
  case (2 lib n parsed ended)
  then show ?case by simp
next
  case (3 lib n parsed part parts ended)
  show ?case
  proof (cases "is_attachment part")
    case True
    show ?thesis
    proof (cases "readDecodedBody lib (mp_Body part) (part_get part ''Content-Transfer-Encoding'')")
      case (Inl e)
      then show ?thesis using "3.prems" True by simp
    next
      case (Inr payload)
      then show ?thesis using "3.IH"(1) [OF True Inr _ "3.prems"(2)] "3.prems"(1) True by simp
    qed
  next
    case False
    let ?p = "\<lambda>n. populate lib n parsed (part_get part ''Content-Type'') (part_get part ''Content-Transfer-Encoding'')
      (mp_Body part)"
    obtain x where x: "?p n = Some x" using "3.prems" False by (cases "?p n") simp_all
    then have k: "?p k = Some x" by (rule "3.IH"(2) [OF False _ "3.prems"(2)])
    show ?thesis
    proof (cases x)
      case (Inl e)
      then show ?thesis using "3.prems" False x k by auto
    next
      case (Inr parsed')
      have "populate_parts lib k parsed' parts ended = Some r"
        by (rule "3.IH"(3) [OF False x Inr _ "3.prems"(2)]) (use "3.prems"(1) False x Inr in simp)
      then show ?thesis using False k Inr by simp
    qed
  qed
qed

lemma populate_enough:
  "parts_shrink lib \<Longrightarrow> length (bd_bytes body) < n \<Longrightarrow> populate lib n parsed ct cte body \<noteq> None"
  "parts_shrink lib \<Longrightarrow> \<forall>p \<in> set parts. length (bd_bytes (mp_Body p)) < n \<Longrightarrow>
     populate_parts lib n parsed parts ended \<noteq> None"
proof (induction lib n parsed ct cte body and lib n parsed parts ended rule: populate_populate_parts.induct)
  case (1 lib n parsed ct cte body)
  show ?case
  proof (cases rule: populate_cases [of lib ct])
    case (1 mediaType params)
    note m = 1
    obtain j where n: "n = Suc j" using "1.prems" by (cases n) auto
    obtain parts ended where p: "ml_Parts lib (case map_of params ''boundary'' of None \<Rightarrow> [] | Some b \<Rightarrow> b) body = (parts, ended)"
      by (cases "ml_Parts lib (case map_of params ''boundary'' of None \<Rightarrow> [] | Some b \<Rightarrow> b) body")
    have "\<forall>q \<in> set parts. length (bd_bytes (mp_Body q)) < j"
    proof
      fix q
      assume "q \<in> set parts"
      then have "length (bd_bytes (mp_Body q)) < length (bd_bytes body)"
        using "1.prems" p by (simp add: parts_shrink_def) (metis fst_conv)
      then show "length (bd_bytes (mp_Body q)) < j" using "1.prems" n by simp
    qed
    with "1.IH" [OF m(1) refl m(2) m(3) n p [symmetric]] "1.prems"
    show ?thesis using n p populate_multipart (2) [OF m, of j parsed cte body] by simp
  next
    case 2
    then show ?thesis using populate_single (1) [of lib ct n parsed cte body] populate_single (2) [of lib ct parsed cte body] by simp
  qed
next
  case (2 lib n parsed ended)
  then show ?case by simp
next
  case (3 lib n parsed part parts ended)
  show ?case
  proof (cases "is_attachment part")
    case True
    show ?thesis
      using "3.IH"(1) [OF True] "3.prems" True
      by (cases "readDecodedBody lib (mp_Body part) (part_get part ''Content-Transfer-Encoding'')") simp_all
  next
    case False
    let ?p = "populate lib n parsed (part_get part ''Content-Type'') (part_get part ''Content-Transfer-Encoding'')
      (mp_Body part)"
    have "?p \<noteq> None" using "3.IH"(2) [OF False] "3.prems" by simp
    moreover have "?p = Some (Inr parsed') \<Longrightarrow> populate_parts lib n parsed' parts ended \<noteq> None" for parsed'
      using "3.IH"(3) [OF False] "3.prems" by simp
    ultimately show ?thesis using False by (cases ?p) (simp_all split: sum.splits)
  qed
qed

section \<open>The leaves of a mail\<close>

text \<open>
  A mail is a tree of multipart bodies. Its leaves, from left to right: a body taken as it is because its media
  type cannot be parsed, a decoded body with its media type, and an attachment.
\<close>

datatype mail_leaf = Whole string | Typed string string | Attached parsed_attachment

definition leaf_of :: "mime_lib \<Rightarrow> string \<Rightarrow> string \<Rightarrow> mime_body \<Rightarrow> gerr + mail_leaf" where
  "leaf_of lib ct cte body = (case ml_ParseMediaType lib ct of
     Inl _ \<Rightarrow> (case io_ReadAll body of Inl e \<Rightarrow> Inl e | Inr p \<Rightarrow> Inr (Whole p))
   | Inr (mediaType, _) \<Rightarrow>
       if mediaType = [] then (case io_ReadAll body of Inl e \<Rightarrow> Inl e | Inr p \<Rightarrow> Inr (Whole p))
       else (case readDecodedBody lib body cte of Inl e \<Rightarrow> Inl e | Inr p \<Rightarrow> Inr (Typed mediaType p)))"

definition multipart_of :: "mime_lib \<Rightarrow> string \<Rightarrow> mime_body \<Rightarrow> (mime_part list \<times> gerr option) option" where
  "multipart_of lib ct body = (case ml_ParseMediaType lib ct of
     Inl _ \<Rightarrow> None
   | Inr (mediaType, params) \<Rightarrow>
       if mediaType \<noteq> [] \<and> has_prefix mediaType ''multipart/''
       then Some (ml_Parts lib (case map_of params ''boundary'' of None \<Rightarrow> [] | Some b \<Rightarrow> b) body) else None)"

definition then_leaves :: "gerr + mail_leaf list \<Rightarrow> gerr + mail_leaf list \<Rightarrow> gerr + mail_leaf list" where
  "then_leaves a b = (case a of Inl e \<Rightarrow> Inl e | Inr xs \<Rightarrow> (case b of Inl e \<Rightarrow> Inl e | Inr ys \<Rightarrow> Inr (xs @ ys)))"

definition attached_leaf :: "mime_lib \<Rightarrow> mime_part \<Rightarrow> gerr + mail_leaf list" where
  "attached_leaf lib part =
     (case readDecodedBody lib (mp_Body part) (part_get part ''Content-Transfer-Encoding'') of
        Inl e \<Rightarrow> Inl e | Inr payload \<Rightarrow> Inr [Attached (part_attachment lib part payload)])"

text \<open>The leaves of a body whose nesting is at most \<open>n\<close>; a deeper body counts as an error.\<close>

primrec leaves :: "mime_lib \<Rightarrow> nat \<Rightarrow> string \<Rightarrow> string \<Rightarrow> mime_body \<Rightarrow> gerr + mail_leaf list" where
  "leaves lib 0 ct cte body = (case multipart_of lib ct body of
     Some _ \<Rightarrow> Inl (ErrExternal ''nesting'')
   | None \<Rightarrow> (case leaf_of lib ct cte body of Inl e \<Rightarrow> Inl e | Inr l \<Rightarrow> Inr [l]))"
| "leaves lib (Suc n) ct cte body = (case multipart_of lib ct body of
     Some (parts, ended) \<Rightarrow>
       foldr (\<lambda>part. then_leaves
           (if is_attachment part then attached_leaf lib part
            else leaves lib n (part_get part ''Content-Type'') (part_get part ''Content-Transfer-Encoding'')
              (mp_Body part)))
         parts (case ended of None \<Rightarrow> Inr [] | Some e \<Rightarrow> Inl e)
   | None \<Rightarrow> (case leaf_of lib ct cte body of Inl e \<Rightarrow> Inl e | Inr l \<Rightarrow> Inr [l]))"

primrec put_leaf :: "mail_leaf \<Rightarrow> parsed_message \<Rightarrow> parsed_message" where
  "put_leaf (Whole p) parsed = parsed\<lparr>pm_TextBody := p\<rparr>"
| "put_leaf (Typed mediaType p) parsed = put_payload mediaType p parsed"
| "put_leaf (Attached a) parsed = parsed\<lparr>pm_Attachments := pm_Attachments parsed @ [a]\<rparr>"

definition put_leaves :: "gerr + mail_leaf list \<Rightarrow> parsed_message \<Rightarrow> gerr + parsed_message" where
  "put_leaves ls parsed = (case ls of Inl e \<Rightarrow> Inl e | Inr xs \<Rightarrow> Inr (fold put_leaf xs parsed))"

lemma put_then_leaves:
  "put_leaves (then_leaves a b) parsed =
     (case put_leaves a parsed of Inl e \<Rightarrow> Inl e | Inr parsed' \<Rightarrow> put_leaves b parsed')"
  by (simp add: put_leaves_def then_leaves_def split: sum.splits)

lemma populate_leaf:
  assumes "multipart_of lib ct body = None"
  shows "populate lib n parsed ct cte body =
    Some (put_leaves (case leaf_of lib ct cte body of Inl e \<Rightarrow> Inl e | Inr l \<Rightarrow> Inr [l]) parsed)"
  using assms
  by (auto simp: populate.simps [of lib n] multipart_of_def leaf_of_def put_leaves_def split: sum.splits prod.splits if_splits)

lemma populate_node:
  assumes "multipart_of lib ct body = Some (parts, ended)"
  shows "populate lib 0 parsed ct cte body = None"
    and "populate lib (Suc n) parsed ct cte body = populate_parts lib n parsed parts ended"
  using assms
  by (auto simp: populate.simps [of lib "0"] populate.simps [of lib "Suc n"] multipart_of_def
      split: sum.splits prod.splits if_splits)

lemma populate_parts_leaves:
  assumes "\<And>parsed ct cte body r. populate lib n parsed ct cte body = Some r \<Longrightarrow> r = put_leaves (leaves lib n ct cte body) parsed"
  shows "populate_parts lib n parsed parts ended = Some r \<Longrightarrow>
    r = put_leaves (foldr (\<lambda>part. then_leaves
           (if is_attachment part then attached_leaf lib part
            else leaves lib n (part_get part ''Content-Type'') (part_get part ''Content-Transfer-Encoding'')
              (mp_Body part)))
         parts (case ended of None \<Rightarrow> Inr [] | Some e \<Rightarrow> Inl e)) parsed"
proof (induction parts arbitrary: parsed)
  case Nil
  then show ?case by (auto simp: put_leaves_def split: option.splits)
next
  case (Cons part parts)
  show ?case
  proof (cases "is_attachment part")
    case True
    show ?thesis
    proof (cases "readDecodedBody lib (mp_Body part) (part_get part ''Content-Transfer-Encoding'')")
      case (Inl e)
      with Cons.prems True show ?thesis
        by (auto simp: put_then_leaves) (simp add: put_leaves_def attached_leaf_def)
    next
      case (Inr payload)
      from Cons.prems True Inr have "populate_parts lib n
          (parsed\<lparr>pm_Attachments := pm_Attachments parsed @ [part_attachment lib part payload]\<rparr>) parts ended = Some r"
        by simp
      from Cons.IH [OF this] True Inr show ?thesis
        by (simp add: put_then_leaves) (simp add: put_leaves_def attached_leaf_def)
    qed
  next
    case False
    let ?p = "populate lib n parsed (part_get part ''Content-Type'') (part_get part ''Content-Transfer-Encoding'')
      (mp_Body part)"
    obtain x where x: "?p = Some x" using Cons.prems False by (cases ?p) simp_all
    have l: "put_leaves (leaves lib n (part_get part ''Content-Type'')
        (part_get part ''Content-Transfer-Encoding'') (mp_Body part)) parsed = x"
      by (rule assms [OF x, symmetric])
    show ?thesis
    proof (cases x)
      case (Inl e)
      then have "r = Inl e" using Cons.prems False x by simp
      with False l Inl show ?thesis by (simp add: put_then_leaves)
    next
      case (Inr parsed')
      from Cons.prems False x Inr have "populate_parts lib n parsed' parts ended = Some r" by simp
      from Cons.IH [OF this] False l Inr show ?thesis by (simp add: put_then_leaves)
    qed
  qed
qed

lemma populate_leaves:
  "populate lib n parsed ct cte body = Some r \<Longrightarrow> r = put_leaves (leaves lib n ct cte body) parsed"
proof (induction n arbitrary: parsed ct cte body r)
  case 0
  then show ?case
    by (cases "multipart_of lib ct body") (auto simp: populate_leaf populate_node(1))
next
  case (Suc n)
  show ?case
  proof (cases "multipart_of lib ct body")
    case None
    with Suc.prems show ?thesis by (simp add: populate_leaf)
  next
    case (Some p)
    obtain parts ended where p: "p = (parts, ended)" by (cases p)
    from Suc.prems Some p have "populate_parts lib n parsed parts ended = Some r"
      by (simp add: populate_node(2))
    from populate_parts_leaves [OF Suc.IH this] Some p show ?thesis by simp
  qed
qed

declare leaves.simps [simp del]

section \<open>Bodies and attachments\<close>

text \<open>The text bodies still in the running: a body that is taken as it is drops the ones before it.\<close>

definition text_candidates :: "mail_leaf list \<Rightarrow> string list" where
  "text_candidates = foldl (\<lambda>ps l. case l of
     Whole p \<Rightarrow> [p] | Typed mediaType p \<Rightarrow> if mediaType = ''text/plain'' then ps @ [p] else ps | Attached _ \<Rightarrow> ps) []"

definition html_candidates :: "mail_leaf list \<Rightarrow> string list" where
  "html_candidates ls = [p. Typed mediaType p \<leftarrow> ls, mediaType = ''text/html'']"

definition first_nonempty :: "string list \<Rightarrow> string" where
  "first_nonempty ps = (case dropWhile (\<lambda>p. p = []) ps of [] \<Rightarrow> [] | p # _ \<Rightarrow> p)"

lemma first_nonempty_simps [simp]:
  "first_nonempty [] = []"
  "first_nonempty (p # ps) = (if p = [] then first_nonempty ps else p)"
  "first_nonempty (ps @ [p]) = (if first_nonempty ps = [] then p else first_nonempty ps)"
  by (simp_all add: first_nonempty_def)
    (induction ps; auto split: list.splits simp: dropWhile_eq_Cons_conv)

lemma text_candidates_snoc:
  "text_candidates [] = []"
  "text_candidates (ls @ [Whole p]) = [p]"
  "text_candidates (ls @ [Typed mediaType p]) =
     (if mediaType = ''text/plain'' then text_candidates ls @ [p] else text_candidates ls)"
  "text_candidates (ls @ [Attached a]) = text_candidates ls"
  by (simp_all add: text_candidates_def)

lemma html_candidates_snoc:
  "html_candidates [] = []"
  "html_candidates (ls @ [Whole p]) = html_candidates ls"
  "html_candidates (ls @ [Typed mediaType p]) =
     (if mediaType = ''text/html'' then html_candidates ls @ [p] else html_candidates ls)"
  "html_candidates (ls @ [Attached a]) = html_candidates ls"
  by (simp_all add: html_candidates_def)

lemma fold_put_leaf:
  assumes "pm_TextBody parsed = []" "pm_HTMLBody parsed = []"
  shows "fold put_leaf ls parsed =
    parsed\<lparr>pm_TextBody := first_nonempty (text_candidates ls), pm_HTMLBody := first_nonempty (html_candidates ls),
      pm_Attachments := pm_Attachments parsed @ [a. Attached a \<leftarrow> ls]\<rparr>"
proof (induction ls rule: rev_induct)
  case Nil
  show ?case using assms by (simp add: text_candidates_snoc html_candidates_snoc)
next
  case (snoc l ls)
  then show ?case
    by (cases l) (simp_all add: text_candidates_snoc html_candidates_snoc put_payload_def)
qed

text \<open>C14: what the parser makes of the body of a mail, stated without its recursion. The leaves of the mail are
  collected from left to right; an error of any of them is the result. Otherwise the HTML body is the first
  non-empty \<open>text/html\<close> leaf, the text body the first non-empty \<open>text/plain\<close> leaf, where a body whose media type
  cannot be parsed starts afresh with its undecoded bytes, and the attachments are those of the mail in order.
  The headers are read once and never touched by the bodies.\<close>

theorem mail_bodies:
  assumes "parts_shrink lib" and "mail_ReadMessage raw = Inr (h, body)"
  shows "parse_raw lib raw =
    (case leaves lib (Suc (length body)) (header_get h ''Content-Type'') (header_get h ''Content-Transfer-Encoding'')
        \<lparr>bd_bytes = body, bd_err = None\<rparr> of
       Inl e \<Rightarrow> Inl e
     | Inr ls \<Rightarrow> Inr ((parsed_headers lib h)
         \<lparr>pm_TextBody := first_nonempty (text_candidates ls), pm_HTMLBody := first_nonempty (html_candidates ls),
           pm_Attachments := [a. Attached a \<leftarrow> ls]\<rparr>))"
proof -
  obtain r where r: "populate lib (Suc (length body)) (parsed_headers lib h) (header_get h ''Content-Type'')
      (header_get h ''Content-Transfer-Encoding'') \<lparr>bd_bytes = body, bd_err = None\<rparr> = Some r"
    using populate_enough(1) [OF assms(1), of "\<lparr>bd_bytes = body, bd_err = None\<rparr>" "Suc (length body)"] by fastforce
  have m: "pm_TextBody (parsed_headers lib h) = []" "pm_HTMLBody (parsed_headers lib h) = []"
    "pm_Attachments (parsed_headers lib h) = []" by (simp_all add: parsed_headers_def)
  from assms(2) r have "parse_raw lib raw = r" by (simp add: parse_raw_def)
  with populate_leaves [OF r] show ?thesis
    by (simp add: put_leaves_def fold_put_leaf [OF m(1,2)] m(3) split: sum.split)
qed

text \<open>C40: the parser always returns. The parts of a multipart body are shorter than the body, so any depth
  above the length of the body is enough, and the depth chosen does not show in the result.\<close>

theorem parser_returns:
  assumes "parts_shrink lib" and "length (bd_bytes body) < n"
  shows "\<exists>r. \<forall>k \<ge> n. populate lib k parsed ct cte body = Some r"
proof -
  obtain r where "populate lib n parsed ct cte body = Some r"
    using populate_enough(1) [OF assms, of parsed ct cte] by auto
  then show ?thesis using populate_more(1) by blast
qed


section \<open>An example\<close>

text \<open>A library that knows one multipart body: a text part, an attachment, and a part without a content type.\<close>

definition demo_part :: "mail_header \<Rightarrow> string \<Rightarrow> string \<Rightarrow> mime_part" where
  "demo_part h name body = \<lparr>mp_Header = h, mp_FileName = name, mp_Body = \<lparr>bd_bytes = body, bd_err = None\<rparr>\<rparr>"

definition demo_parts :: "mime_part list" where
  "demo_parts =
     [demo_part [(''Content-Type'', [''text/plain''])] [] ''Hi'',
      demo_part [(''Content-Type'', [''image/png'']), (''Content-Disposition'', [''Attachment''])] ''a.png'' ''PNG'',
      demo_part [(''Content-Transfer-Encoding'', [''base64''])] [] ''SGk='']"

definition demo_multipart :: mime_lib where
  "demo_multipart = \<lparr>ml_ParseMediaType = (\<lambda>ct.
      if ct = [] then Inl (ErrExternal ''mime: no media type'') else Inr (ct, [(''boundary'', ''b'')])),
     ml_Parts = (\<lambda>boundary body. (if 4 < length (bd_bytes body) then demo_parts else [], None)),
     ml_DecodeHeader = Inr, ml_ParseAddressList = (\<lambda>v. Inr [([], v)]),
     ml_base64 = (\<lambda>body. Inr ''Hi''), ml_quotedprintable = io_ReadAll\<rparr>"

definition demo_mail :: string where
  "demo_mail = ''Content-Type: multipart/mixed'' @ crlf @ crlf @ ''--b ... --b--''"

lemma demo_multipart_shrinks: "parts_shrink demo_multipart"
  by (auto simp: parts_shrink_def demo_multipart_def demo_parts_def demo_part_def)

lemma demo_mail_read:
  "mail_ReadMessage demo_mail = Inr ([(''Content-Type'', [''multipart/mixed''])], ''--b ... --b--'')"
  by code_simp

lemma demo_mail_leaves:
  "leaves demo_multipart 14 ''multipart/mixed'' [] \<lparr>bd_bytes = ''--b ... --b--'', bd_err = None\<rparr> =
     Inr [Typed ''text/plain'' ''Hi'',
          Attached \<lparr>pt_FileName = ''a.png'', pt_ContentType = ''image/png'', pt_ObjectKey = [], pt_SizeBytes = 3,
            pt_ContentID = [], pt_ContentDisposition = ''Attachment''\<rparr>,
          Whole ''SGk='']"
  by code_simp

text \<open>The text part is lost to the part without a content type, whose transfer encoding is not undone.\<close>

theorem mail_bodies_witness:
  "\<exists>parsed. parse_raw demo_multipart demo_mail = Inr parsed \<and> pm_TextBody parsed = ''SGk='' \<and>
     map pt_FileName (pm_Attachments parsed) = [''a.png'']"
proof -
  have "header_get [(''Content-Type'', [''multipart/mixed''])] ''Content-Type'' = ''multipart/mixed''"
    "header_get [(''Content-Type'', [''multipart/mixed''])] ''Content-Transfer-Encoding'' = []"
    "Suc (length ''--b ... --b--'') = 14" by code_simp+
  then show ?thesis
    using mail_bodies [OF demo_multipart_shrinks demo_mail_read]
    by (simp only: demo_mail_leaves) (simp add: text_candidates_def)
qed

theorem parser_returns_witness:
  "\<exists>r. \<forall>k \<ge> 14. populate demo_multipart k (parsed_headers demo_multipart []) ''multipart/mixed'' []
     \<lparr>bd_bytes = ''--b ... --b--'', bd_err = None\<rparr> = Some r"
  by (rule parser_returns [OF demo_multipart_shrinks]) simp

end
