(* ===== verification/Mail_Reply.thy ===== *)
theory Mail_Reply
  imports Mail_Laws "HOL-Library.Sublist"
begin

text \<open>
  The parser reads the mails that this program writes: the header lines of a reply and its body, as
  \<open>internal/outbound/assembler.go\<close> joins them, come back from \<open>internal/parser/parser.go\<close>.
\<close>

section \<open>Blanks\<close>

definition trim_blank_right :: "string \<Rightarrow> string" where
  "trim_blank_right s = rev (drop_blank (rev s))"

lemma trim_blank_alt: "trim_blank s = trim_blank_right (drop_blank s)"
  by (simp add: trim_blank_def trim_blank_right_def)

lemma trim_blank_right_Nil [simp]: "trim_blank_right [] = []"
  by (simp add: trim_blank_right_def drop_blank_def)

lemma trim_blank_right_snoc:
  "trim_blank_right (s @ [c]) = (if is_blank c then trim_blank_right s else s @ [c])"
  by (simp add: trim_blank_right_def drop_blank_def)

lemma trim_blank_right_Cons:
  "trim_blank_right (c # s) = (if trim_blank_right s = [] \<and> is_blank c then [] else c # trim_blank_right s)"
proof (induction s rule: rev_induct)
  case Nil
  then show ?case by (simp add: trim_blank_right_def drop_blank_def)
next
  case (snoc d s)
  have "trim_blank_right (c # s @ [d]) = (if is_blank d then trim_blank_right (c # s) else c # s @ [d])"
    using trim_blank_right_snoc [of "c # s" d] by simp
  with snoc show ?case by (auto simp: trim_blank_right_snoc)
qed

lemma drop_blank_Cons [simp]: "drop_blank (c # s) = (if is_blank c then drop_blank s else c # s)"
  by (simp add: drop_blank_def)

lemma drop_blank_Nil [simp]: "drop_blank [] = []"
  by (simp add: drop_blank_def)

lemma trim_blank_right_append:
  assumes "\<not> is_blank c"
  shows "trim_blank_right (k @ c # v) = k @ c # trim_blank_right v"
  using assms by (induction k) (simp_all add: trim_blank_right_Cons)

lemma drop_trim_blank: "drop_blank (trim_blank_right s) = trim_blank s"
proof (induction s)
  case (Cons c s)
  then show ?case
    by (cases "trim_blank_right s = []") (simp_all add: trim_blank_alt trim_blank_right_Cons flip: Cons.IH)
qed (simp add: trim_blank_alt)

lemma trim_blank_blank: "is_blank c \<Longrightarrow> trim_blank (c # s) = trim_blank s"
  by (simp add: trim_blank_alt)

lemma blank_space: "is_blank c \<Longrightarrow> is_space c"
  by (auto simp: is_blank_def is_space_def byte_of_def)

lemma trim_blank_right_is_space: "trim_right (trim_blank_right s) = trim_right s"
proof (induction s)
  case Nil
  show ?case by simp
next
  case (Cons c s)
  then show ?case using blank_space by (auto simp: trim_blank_right_Cons trim_right_Cons)
qed

lemma trim_space_drop_blank: "trim_space (drop_blank s) = trim_space s"
  by (induction s) (simp_all add: blank_space)

lemma trim_space_trim_blank [simp]: "trim_space (trim_blank s) = trim_space s"
  by (metis trim_blank_alt trim_blank_right_is_space trim_space_drop_blank trim_space_right)

lemma trim_blank_id:
  assumes "\<forall>c \<in> set s. \<not> is_space c"
  shows "trim_blank s = s"
proof -
  have "trim_blank_right s = s" using assms
    by (induction s) (auto simp: trim_blank_right_Cons dest: blank_space)
  moreover have "drop_blank s = s" using assms by (cases s) (auto dest: blank_space)
  ultimately show ?thesis by (simp add: trim_blank_alt)
qed

lemma sublist_trim_blank: "sublist (trim_blank s) s"
proof -
  have d: "suffix (drop_blank t) t" for t
    unfolding drop_blank_def by (rule suffix_dropWhile)
  have "sublist (trim_blank_right t) t" for t
    unfolding trim_blank_right_def using d [of "rev t"]
    by (metis prefix_imp_sublist rev_rev_ident suffix_to_prefix)
  then show ?thesis
    unfolding trim_blank_alt using d [of s] by (meson sublist_order.order.trans suffix_imp_sublist)
qed

section \<open>One field\<close>

definition field_line :: "string \<times> string \<Rightarrow> string" where
  "field_line f = fst f @ '': '' @ snd f"

definition good_field :: "string \<times> string \<Rightarrow> bool" where
  "good_field f \<longleftrightarrow> fst f \<noteq> [] \<and> list_all token_char (fst f) \<and> one_line (snd f)"

lemma token_char_not [simp]:
  assumes "token_char c"
  shows "c \<noteq> CHR '':''" "\<not> is_blank c" "c \<noteq> CHR 0x0D" "c \<noteq> CHR 0x0A"
  using assms by (auto simp: token_char_def is_blank_def Let_def byte_of_def)

lemma read_line_crlf: "one_line l \<Longrightarrow> read_line (l @ crlf @ r) = Some (l, r)"
proof -
  assume l: "one_line l"
  then have "\<forall>c \<in> set l. c \<noteq> CHR 0x0A" by (auto simp: one_line_def)
  then have "takeWhile (\<lambda>c. c \<noteq> CHR 0x0A) (l @ crlf @ r) = l @ [CHR 0x0D]"
    and "dropWhile (\<lambda>c. c \<noteq> CHR 0x0A) (l @ crlf @ r) = CHR 0x0A # r"
    by (simp_all add: crlf_def takeWhile_append2 dropWhile_append2)
  then show ?thesis by (simp add: read_line_def crlf_def)
qed

lemma read_continued_line_crlf:
  assumes "one_line l" and "l \<noteq> []" and "drop_blank r = r"
  shows "read_continued_line (l @ crlf @ r) = Some (trim_blank l, r)"
  using assms by (simp add: read_continued_line_def read_line_crlf continue_line.simps [of _ r])

lemma cut_colon_field:
  assumes "list_all token_char k"
  shows "cut_colon (k @ CHR '':'' # v) = Some (k, v)"
proof -
  have "\<forall>c \<in> set k. c \<noteq> CHR '':''" using assms by (auto simp: list_all_iff)
  then show ?thesis by (simp add: cut_colon_def takeWhile_append2 dropWhile_append2)
qed

lemma trim_field_line:
  assumes "good_field f"
  shows "trim_blank (field_line f) = fst f @ CHR '':'' # trim_blank_right (CHR '' '' # snd f)"
proof -
  obtain c t where k: "fst f = c # t" and c: "token_char c"
    using assms by (cases "fst f") (auto simp: good_field_def)
  have "drop_blank (field_line f) = field_line f" using c by (simp add: field_line_def k)
  moreover have "\<not> is_blank (CHR '':'')" by (simp add: is_blank_def)
  ultimately show ?thesis
    by (simp add: trim_blank_alt field_line_def trim_blank_right_append)
qed

lemma canonical_key_Nil: "canonical_key k = [] \<longleftrightarrow> k = []"
  by (cases k) (simp_all add: canonical_key_def)

definition add_field :: "string \<times> string \<Rightarrow> mail_header \<Rightarrow> mail_header" where
  "add_field f = header_add (canonical_key (fst f)) (trim_blank (snd f))"

lemma read_header_field:
  assumes "good_field f" and "drop_blank r = r"
  shows "read_header (field_line f @ crlf @ r) m = read_header r (add_field f m)"
proof -
  have "one_line (fst f)"
    using assms(1) token_char_not(3,4) unfolding good_field_def one_line_def list_all_iff by blast
  then have one: "one_line (field_line f)" "field_line f \<noteq> []"
    using assms(1) by (simp_all add: good_field_def field_line_def)
  have "is_blank (CHR '' '')" by (simp add: is_blank_def)
  then have v: "drop_blank (trim_blank_right (CHR '' '' # snd f)) = trim_blank (snd f)"
    by (simp add: drop_trim_blank trim_blank_blank)
  from assms(1) have k: "list_all token_char (fst f)" "canonical_key (fst f) \<noteq> []"
    by (simp_all add: good_field_def canonical_key_Nil)
  show ?thesis
    by (simp add: read_header.simps [of "field_line f @ crlf @ r"] read_continued_line_crlf [OF one assms(2)]
        trim_field_line [OF assms(1)] cut_colon_field [OF k(1)] v k(2) add_field_def)
qed

lemma read_header_fields:
  assumes "\<forall>f \<in> set fs. good_field f"
  shows "read_header (join (map field_line fs @ [[], body]) crlf) m = (Blank_Line, fold add_field fs m, body)"
  using assms
proof (induction fs arbitrary: m)
  case Nil
  have "read_line (crlf @ body) = Some ([], body)" using read_line_crlf [of "[]" body] by simp
  then show ?case by (simp add: read_header.simps [of "crlf @ body"] read_continued_line_def)
next
  case (Cons f fs)
  let ?r = "join (map field_line fs @ [[], body]) crlf"
  have j: "join (map field_line (f # fs) @ [[], body]) crlf = field_line f @ crlf @ ?r"
    by (cases fs) simp_all
  have "drop_blank ?r = ?r"
  proof (cases fs)
    case Nil
    then show ?thesis by (simp add: crlf_def is_blank_def)
  next
    case (Cons g gs)
    obtain c t where k: "fst g = c # t" and c: "token_char c"
      using Cons.prems Cons by (cases "fst g") (auto simp: good_field_def)
    then show ?thesis using Cons by (cases gs) (simp_all add: field_line_def)
  qed
  with Cons j show ?case by (simp add: read_header_field)
qed

section \<open>References\<close>

lemma fields_word:
  assumes "x \<noteq> []" and "\<forall>c \<in> set x. \<not> is_space c"
  shows "fields x = [x]" and "is_space b \<Longrightarrow> fields (x @ b # s) = x # fields s"
proof -
  obtain c t where x: "x = c # t" and c: "\<not> is_space c" using assms by (cases x) auto
  have "trim_left x = x" using c by (simp add: x trim_left_nonspace)
  moreover have "fields [] = []" by (simp add: fields.simps)
  ultimately show "fields x = [x]"
    using assms by (subst fields.simps) (simp add: x dropWhile_eq_Nil_conv [THEN iffD2])
  assume b: "is_space b"
  have "trim_left (x @ b # s) = x @ b # s" using c by (simp add: x trim_left_nonspace)
  moreover have "takeWhile (\<lambda>c. \<not> is_space c) (x @ b # s) = x"
    and "dropWhile (\<lambda>c. \<not> is_space c) (x @ b # s) = b # s"
    using assms(2) b by (simp_all add: takeWhile_append2 dropWhile_append2)
  moreover have "fields (b # s) = fields s"
    using b by (simp add: fields.simps [of "b # s"] fields.simps [of s])
  ultimately show "fields (x @ b # s) = x # fields s"
    by (subst fields.simps) (simp add: x)
qed

definition id_word :: "string \<Rightarrow> bool" where
  "id_word x \<longleftrightarrow> x \<noteq> [] \<and> (\<forall>c \<in> set x. \<not> is_space c)"

lemma fields_join: "\<forall>x \<in> set xs. id_word x \<Longrightarrow> fields (join xs '' '') = xs"
proof (induction xs "'' ''" rule: join.induct)
  case 1
  show ?case by (simp add: fields.simps)
next
  case (2 x)
  then show ?case by (simp add: id_word_def fields_word(1))
next
  case (3 x y ys)
  have "is_space (CHR '' '')" by (simp add: is_space_def byte_of_def)
  with 3 show ?case by (simp add: id_word_def fields_word(2))
qed

lemma trim_blank_join:
  assumes "xs \<noteq> []" and "\<forall>x \<in> set xs. id_word x"
  shows "trim_blank (join xs '' '') = join xs '' ''"
proof -
  obtain x ys where xs: "xs = ys @ [x]" using assms(1) by (cases xs rule: rev_cases) auto
  obtain z zs where zs: "xs = z # zs" using assms(1) by (cases xs) auto
  from assms(2) xs obtain t c where x: "x = t @ [c]" and c: "\<not> is_space c"
    by (cases x rule: rev_cases) (auto simp: id_word_def)
  have "\<exists>p. join xs '' '' = p @ [c]"
    using join_append [of ys "[x]" "'' ''"] by (cases "ys = []") (simp_all add: xs x)
  then obtain p where p: "join xs '' '' = p @ [c]" by blast
  from assms(2) zs obtain d u where z: "z = d # u" and d: "\<not> is_space d"
    by (cases z) (auto simp: id_word_def)
  have "\<exists>q. join xs '' '' = d # q" by (cases zs) (simp_all add: zs z)
  then have "drop_blank (join xs '' '') = join xs '' ''" using d blank_space by auto
  moreover have "trim_blank_right (join xs '' '') = join xs '' ''"
    using c blank_space by (auto simp: p trim_blank_right_snoc)
  ultimately show ?thesis by (simp add: trim_blank_alt)
qed

section \<open>A reply\<close>

definition reply_fields :: "reply_assembly_input \<Rightarrow> string \<Rightarrow> (string \<times> string) list" where
  "reply_fields input messageID =
     (let reply = ra_ReplyToMessage input
      in [(''From'', formatAddress (i_DisplayName (ra_Inbox input)) (i_EmailAddress (ra_Inbox input))),
          (''To'', formatAddress (c_DisplayName (ra_Contact input)) (c_EmailAddress (ra_Contact input))),
          (''Subject'', replySubject (m_Subject reply)), (''Message-ID'', messageID),
          (''In-Reply-To'', m_MessageIDHeader reply),
          (''References'', join (m_References reply @ [m_MessageIDHeader reply]) '' ''),
          (''MIME-Version'', ''1.0''), (''Content-Type'', ''text/plain; charset=utf-8'')])"

lemma reply_lines_fields: "reply_lines input messageID = map field_line (reply_fields input messageID)"
  by (simp add: reply_lines_def reply_fields_def field_line_def Let_def)

lemma reply_fields_good:
  assumes "clean_reply input messageID"
  shows "\<forall>f \<in> set (reply_fields input messageID). good_field f"
proof -
  have "list_all token_char ''From''" "list_all token_char ''To''" "list_all token_char ''Subject''"
    "list_all token_char ''Message-ID''" "list_all token_char ''In-Reply-To''" "list_all token_char ''References''"
    "list_all token_char ''MIME-Version''" "list_all token_char ''Content-Type''" by code_simp+
  moreover have "one_line (snd f)" if "f \<in> set (reply_fields input messageID)" for f
  proof -
    have "field_line f \<in> set (reply_lines input messageID)" using that by (simp add: reply_lines_fields)
    then have "one_line (field_line f)" using clean_reply_lines [OF assms] by blast
    then show ?thesis by (simp add: field_line_def)
  qed
  ultimately show ?thesis
    unfolding good_field_def by (auto simp: reply_fields_def Let_def)
qed

text \<open>The header of a reply as the mail reader returns it.\<close>

definition reply_header :: "reply_assembly_input \<Rightarrow> string \<Rightarrow> mail_header" where
  "reply_header input messageID =
     (let reply = ra_ReplyToMessage input
      in [(''From'', [trim_blank (formatAddress (i_DisplayName (ra_Inbox input)) (i_EmailAddress (ra_Inbox input)))]),
          (''To'', [trim_blank (formatAddress (c_DisplayName (ra_Contact input)) (c_EmailAddress (ra_Contact input)))]),
          (''Subject'', [trim_blank (replySubject (m_Subject reply))]), (''Message-Id'', [trim_blank messageID]),
          (''In-Reply-To'', [trim_blank (m_MessageIDHeader reply)]),
          (''References'', [trim_blank (join (m_References reply @ [m_MessageIDHeader reply]) '' '')]),
          (''Mime-Version'', [''1.0'']), (''Content-Type'', [''text/plain; charset=utf-8''])])"

lemma reply_keys [simp]:
  "canonical_key ''From'' = ''From''" "canonical_key ''To'' = ''To''" "canonical_key ''Subject'' = ''Subject''"
  "canonical_key ''Message-ID'' = ''Message-Id''" "canonical_key ''In-Reply-To'' = ''In-Reply-To''"
  "canonical_key ''References'' = ''References''" "canonical_key ''MIME-Version'' = ''Mime-Version''"
  "canonical_key ''Content-Type'' = ''Content-Type''"
  "canonical_key ''Content-Transfer-Encoding'' = ''Content-Transfer-Encoding''"
  by code_simp+

lemma fold_reply_fields: "fold add_field (reply_fields input messageID) [] = reply_header input messageID"
proof -
  have "trim_blank ''1.0'' = ''1.0''" "trim_blank ''text/plain; charset=utf-8'' = ''text/plain; charset=utf-8''"
    by code_simp+
  then show ?thesis
    by (simp add: reply_fields_def reply_header_def Let_def add_field_def header_add_def gput_def)
qed

lemma ReadMessage_reply:
  assumes "clean_reply input messageID"
  shows "mail_ReadMessage (join (reply_lines input messageID @ [[], body]) crlf) = Inr (reply_header input messageID, body)"
proof -
  let ?raw = "join (reply_lines input messageID @ [[], body]) crlf"
  have "read_header ?raw [] = (Blank_Line, reply_header input messageID, body)"
    using read_header_fields [OF reply_fields_good [OF assms], of body "[]"]
    by (simp add: reply_lines_fields fold_reply_fields)
  moreover have "?raw \<noteq> [] \<and> \<not> is_blank (hd ?raw)"
    by (simp add: reply_lines_def Let_def is_blank_def)
  ultimately show ?thesis by (simp add: mail_ReadMessage_def)
qed

text \<open>What the MIME library documents of the two values a reply relies on: its own content type, and a text
  without encoded words.\<close>

definition reads_plain :: "mime_lib \<Rightarrow> bool" where
  "reads_plain lib \<longleftrightarrow>
     ml_ParseMediaType lib ''text/plain; charset=utf-8'' = Inr (''text/plain'', [(''charset'', ''utf-8'')]) \<and>
     (\<forall>v. \<not> sublist ''=?'' v \<longrightarrow> ml_DecodeHeader lib v = Inr v)"

lemma normalize_decoded:
  assumes "reads_plain lib" and "\<not> sublist ''=?'' s"
  shows "normalizeSubject (decodeHeader lib (trim_blank (replySubject s))) = normalizeSubject s"
proof -
  let ?v = "trim_blank (replySubject s)"
  have "\<not> sublist ''=?'' (replySubject s)"
    using assms(2) by (simp add: replySubject_def sublist_Cons_right)
  then have "\<not> sublist ''=?'' ?v"
    using sublist_trim_blank sublist_order.order.trans by blast
  with assms(1) have "ml_DecodeHeader lib ?v = Inr ?v" by (simp add: reads_plain_def)
  then have "normalizeSubject (decodeHeader lib ?v) = normalizeSubject ?v"
    by (auto simp: decodeHeader_def normalizeSubject_def)
  also have "\<dots> = normalizeSubject (replySubject s)" by (simp add: normalizeSubject_def)
  finally show ?thesis by (simp add: normalize_replySubject)
qed

text \<open>A body of plain text is one leaf of the mail.\<close>

lemma parse_plain:
  assumes "mail_ReadMessage raw = Inr (h, body)" and "reads_plain lib"
    and "header_get h ''Content-Type'' = ''text/plain; charset=utf-8''" and "header_get h ''Content-Transfer-Encoding'' = []"
  shows "parse_raw lib raw = Inr ((parsed_headers lib h)\<lparr>pm_TextBody := body\<rparr>)"
proof -
  have e: "to_lower (trim_space []) \<noteq> ''base64''" "to_lower (trim_space []) \<noteq> ''quoted-printable''" by code_simp+
  have "populate lib (Suc n) (parsed_headers lib h) ''text/plain; charset=utf-8'' []
      \<lparr>bd_bytes = b, bd_err = None\<rparr> = Some (Inr ((parsed_headers lib h)\<lparr>pm_TextBody := b\<rparr>))" for n b
    using assms(2) e
    by (simp add: populate.simps [of lib "Suc n"] reads_plain_def has_prefix_def readDecodedBody_def Let_def io_ReadAll_def
        put_payload_def parsed_headers_def)
  then show ?thesis using assms by (simp add: parse_raw_def)
qed

text \<open>C13: the parser reads back what the assembler writes. Let no field of a reply hold a line break, no id white
  space, and the subject no encoded word. Then parsing the raw message gives the reply's own message id, the id it
  answers and the whole list of references, exactly as the metadata records them, the subject key of the
  conversation it belongs to, and the body text unchanged; there is no HTML body and no attachment.\<close>

theorem parser_reads_reply:
  assumes "AssembleReply (go_ret messageID) input s = (Inr (raw, meta), s')"
    and "clean_reply input messageID" and "id_word messageID"
    and "\<forall>x \<in> set (rm_References meta). id_word x"
    and "reads_plain lib" and "\<not> sublist ''=?'' (m_Subject (ra_ReplyToMessage input))"
  shows "\<exists>parsed. parse_raw lib raw = Inr parsed \<and>
    pm_MessageIDHeader parsed = rm_MessageIDHeader meta \<and> pm_InReplyTo parsed = rm_InReplyTo meta \<and>
    pm_References parsed = rm_References meta \<and>
    pm_SubjectNormalized parsed = normalizeSubject (m_Subject (ra_ReplyToMessage input)) \<and>
    pm_TextBody parsed = ra_BodyText input \<and> pm_HTMLBody parsed = [] \<and> pm_Attachments parsed = []"
proof -
  let ?h = "reply_header input messageID"
  let ?m = "\<lparr>rm_MessageIDHeader = messageID, rm_Subject = replySubject (m_Subject (ra_ReplyToMessage input)),
      rm_InReplyTo = m_MessageIDHeader (ra_ReplyToMessage input),
      rm_References = m_References (ra_ReplyToMessage input) @ [m_MessageIDHeader (ra_ReplyToMessage input)]\<rparr>"
  from assms(1) have raw: "raw = join (reply_lines input messageID @ [[], ra_BodyText input]) crlf"
    and meta: "meta = ?m"
    by (auto simp: AssembleReply_def Let_def split: if_splits)
  have get: "header_get ?h ''Message-ID'' = trim_blank messageID"
    "header_get ?h ''In-Reply-To'' = trim_blank (rm_InReplyTo meta)"
    "header_get ?h ''References'' = trim_blank (join (rm_References meta) '' '')"
    "header_get ?h ''Subject'' = trim_blank (replySubject (m_Subject (ra_ReplyToMessage input)))"
    "header_get ?h ''Content-Type'' = ''text/plain; charset=utf-8''"
    "header_get ?h ''Content-Transfer-Encoding'' = []"
    by (simp_all add: header_get_def reply_header_def Let_def meta)
  have refs: "rm_References meta \<noteq> []" "id_word (rm_InReplyTo meta)" using assms(4) by (simp_all add: meta)
  have t: "trim_blank x = x" if "id_word x" for x using that by (simp add: id_word_def trim_blank_id)
  have "parse_raw lib raw = Inr ((parsed_headers lib ?h)\<lparr>pm_TextBody := ra_BodyText input\<rparr>)"
    using parse_plain [OF ReadMessage_reply [OF assms(2)] assms(5) get(5,6)] by (simp add: raw)
  moreover have "pm_SubjectNormalized (parsed_headers lib ?h) = normalizeSubject (m_Subject (ra_ReplyToMessage input))"
    by (simp add: parsed_headers_def get normalize_decoded [OF assms(5,6)])
  ultimately show ?thesis
    using assms(3) refs
    by (simp add: parsed_headers_def get t trim_blank_join [OF refs(1) assms(4)] fields_join [OF assms(4)])
      (simp add: meta)
qed

definition demo_mime :: mime_lib where
  "demo_mime = \<lparr>ml_ParseMediaType = (\<lambda>ct.
      if ct = ''text/plain; charset=utf-8'' then Inr (''text/plain'', [(''charset'', ''utf-8'')])
      else if ct = [] then Inl (ErrExternal ''mime: no media type'') else Inr (ct, [])),
     ml_Parts = (\<lambda>boundary body. ([], None)), ml_DecodeHeader = Inr,
     ml_ParseAddressList = (\<lambda>v. Inr [([], v)]), ml_base64 = io_ReadAll, ml_quotedprintable = io_ReadAll\<rparr>"

theorem parser_reads_reply_witness:
  "\<exists>raw meta parsed. AssembleReply (go_ret ''<c@x>'') (demo_assembly ''Hello'') () = (Inr (raw, meta), ()) \<and>
     parse_raw demo_mime raw = Inr parsed \<and> pm_References parsed = [''<a@x>''] \<and> pm_TextBody parsed = ''Hello''"
proof -
  obtain raw meta where run: "AssembleReply (go_ret ''<c@x>'') (demo_assembly ''Hello'') () = (Inr (raw, meta), ())"
    and m: "rm_References meta = [''<a@x>'']"
    by (simp add: AssembleReply_def demo_assembly_defs Let_def)
  moreover have "clean_reply (demo_assembly ''Hello'') ''<c@x>''"
    by (simp add: clean_reply_def demo_assembly_defs)
  moreover have "id_word ''<c@x>''" "id_word ''<a@x>''" by code_simp+
  moreover have "reads_plain demo_mime" by (simp add: reads_plain_def demo_mime_def)
  moreover have "\<not> sublist ''=?'' (m_Subject (ra_ReplyToMessage (demo_assembly ''Hello'')))"
    by (simp add: demo_assembly_def sublist_Cons_right)
  ultimately show ?thesis
    using parser_reads_reply [OF run, of demo_mime] by (auto simp: demo_assembly_def)
qed

end
