(* ===== verification/Control_Laws.thy ===== *)
theory Control_Laws
  imports Control_Tool Http_Laws Mail_Reply
begin

text \<open>
  The command line tool against the server of the same program: what the flags say is what the server does, and
  the exit code tells whether it did it.
\<close>

section \<open>Decimals\<close>

lemma digit_char_digit: "n < 10 \<Longrightarrow> is_digit (digit_char n) \<and> byte_of (digit_char n) = 48 + n"
  by (simp add: is_digit_def byte_of_digit)

lemma nat_digits_digits: "list_all is_digit (nat_digits n) \<and> nat_digits n \<noteq> []"
proof (induction n rule: nat_digits.induct)
  case (1 n)
  then show ?case
    by (subst (1 2) nat_digits.simps) (simp add: digit_char_digit)
qed

lemma digits_value_nat_digits: "digits_value (nat_digits n) = int n"
proof (induction n rule: nat_digits.induct)
  case (1 n)
  have "10 * int (n div 10) + int (n mod 10) = int n" by (simp add: zdiv_int zmod_int)
  with 1 show ?case
    by (subst nat_digits.simps) (auto simp: digits_value_snoc byte_of_digit)
qed

lemma hd_nat_digits: "hd (nat_digits n) = CHR ''0'' \<longleftrightarrow> n = 0"
proof (induction n rule: nat_digits.induct)
  case (1 n)
  show ?case
  proof (cases "n < 10")
    case True
    have "byte_of (CHR ''0'') = 48" by (simp add: byte_of_def)
    with True digit_char_digit [of n] have "digit_char n = CHR ''0'' \<Longrightarrow> n = 0" by auto
    moreover have "digit_char 0 = CHR ''0''" by code_simp
    ultimately show ?thesis using True by (subst nat_digits.simps) auto
  next
    case False
    with 1 have "hd (nat_digits (n div 10)) = CHR ''0'' \<longleftrightarrow> n div 10 = 0" by simp
    with False nat_digits_digits [of "n div 10"] show ?thesis
      by (subst nat_digits.simps) simp
  qed
qed

lemma atoi_fmt_d:
  assumes "- (2 ^ 63) \<le> i" and "i < 2 ^ 63"
  shows "atoi (fmt_d i) = Inr i"
proof -
  have d: "list_all is_digit (nat_digits (nat \<bar>i\<bar>))" "nat_digits (nat \<bar>i\<bar>) \<noteq> []" using nat_digits_digits by auto
  have "\<not> is_digit (CHR ''-'')" "\<not> is_digit (CHR ''+'')" by code_simp+
  with d have h: "hd (nat_digits (nat \<bar>i\<bar>)) \<noteq> CHR ''-''" "hd (nat_digits (nat \<bar>i\<bar>)) \<noteq> CHR ''+''"
    by (metis list.set_sel(1) list_all_iff)+
  then obtain c t where ct: "nat_digits (nat \<bar>i\<bar>) = c # t" "c \<noteq> CHR ''-''" "c \<noteq> CHR ''+''"
    using d(2) by (cases "nat_digits (nat \<bar>i\<bar>)") auto
  show ?thesis
    using assms d ct digits_value_nat_digits [of "nat \<bar>i\<bar>"]
    by (auto simp: atoi_def fmt_d_def Let_def)
qed

lemma base_digits_decimal:
  "list_all is_digit ds \<Longrightarrow> base_digits 10 n ds = Some (fold (\<lambda>c n. 10 * n + (int (byte_of c) - 48)) ds n)"
proof (induction ds arbitrary: n)
  case (Cons c ds)
  have "\<not> is_digit (CHR ''_'')" by code_simp
  with Cons.prems have "c \<noteq> CHR ''_''" by auto
  with Cons show ?case by (simp add: digit_of_def is_digit_def)
qed simp

lemma parse_uint_decimal: "parse_uint (nat_digits n) = Some (int n)"
proof -
  have d: "list_all is_digit (nat_digits n)" "nat_digits n \<noteq> []" using nat_digits_digits by auto
  have u: "CHR ''_'' \<notin> set (nat_digits n)" using d by (auto simp: list_all_iff is_digit_def byte_of_def)
  have b: "base_letter (nat_digits n) = None"
    using d by (auto simp: base_letter_def is_digit_def lower_char_def byte_of_def split: list.splits)
  show ?thesis
  proof (cases "n = 0")
    case True
    then show ?thesis by (simp add: True) code_simp
  next
    case False
    then show ?thesis
      using d u b hd_nat_digits [of n] base_digits_decimal [OF d(1), of 0] digits_value_nat_digits [of n]
      by (simp add: parse_uint_def digits_value_def)
  qed
qed

lemma parse_int0_fmt_d:
  assumes "- (2 ^ 63) \<le> i" and "i < 2 ^ 63"
  shows "parse_int0 (fmt_d i) = Inr i"
proof -
  have d: "list_all is_digit (nat_digits (nat \<bar>i\<bar>))" "nat_digits (nat \<bar>i\<bar>) \<noteq> []" using nat_digits_digits by auto
  have "\<not> is_digit (CHR ''-'')" "\<not> is_digit (CHR ''+'')" by code_simp+
  with d obtain c t where ct: "nat_digits (nat \<bar>i\<bar>) = c # t" "c \<noteq> CHR ''-''" "c \<noteq> CHR ''+''"
    by (cases "nat_digits (nat \<bar>i\<bar>)") auto
  show ?thesis
    using assms parse_uint_decimal [of "nat \<bar>i\<bar>"] ct
    by (auto simp: parse_int0_def fmt_d_def Let_def)
qed

section \<open>The tool on the network of a server\<close>

text \<open>
  A server at the address \<open>base\<close>. A request for a URL below it is what \<open>net/http\<close> makes of the rest of the URL,
  which for the tool is a path without escapes and at most one query parameter.
\<close>

definition query_of :: "string \<Rightarrow> (string \<times> string) list" where
  "query_of q = (if q = [] then [] else
     [(takeWhile (\<lambda>c. c \<noteq> CHR ''='') q, drop 1 (dropWhile (\<lambda>c. c \<noteq> CHR ''='') q))])"

definition served_request :: "http_request \<Rightarrow> string \<Rightarrow> http_in" where
  "served_request q rest =
     \<lparr>hi_Method = hq_Method q, hi_Segments = split_slash (drop 1 (takeWhile (\<lambda>c. c \<noteq> CHR ''?'') rest)),
      hi_Query = query_of (drop 1 (dropWhile (\<lambda>c. c \<noteq> CHR ''?'') rest)), hi_Header = hq_Headers q,
      hi_Body = Inr (hq_Body q)\<rparr>"

definition answer :: "http_out \<Rightarrow> http_response" where
  "answer out = \<lparr>hp_StatusCode = ho_Status out, hp_Body = Inr (ho_Body out)\<rparr>"

definition server_net :: "string \<Rightarrow> 'r handler \<Rightarrow> (string \<Rightarrow> string \<Rightarrow> string list \<Rightarrow> string \<Rightarrow> ('r, unit) go) \<Rightarrow> 'r ctl_net" where
  "server_net base server mail =
     \<lparr>cn_url = \<lambda>_. None,
      cn_do = \<lambda>q w. if has_prefix (hq_URL q) base
        then (case server (served_request q (drop (length base) (hq_URL q))) w of
                (out, w') \<Rightarrow> (Inr (answer out), w'))
        else (Inl (ErrExternal ''dial tcp: connection refused''), w),
      cn_SendMail = mail\<rparr>"

lemma ctl_do_server:
  assumes "hq_URL q = base @ rest"
  shows "ctl_do (server_net base server mail) q c =
     (case server (served_request q rest) (ct_remote c) of
        (out, w') \<Rightarrow> (Inr (answer out), c\<lparr>ct_remote := w'\<rparr>))"
  using assms by (simp add: ctl_do_def server_net_def ctl_remote_def split: prod.splits)

definition printed :: "string \<Rightarrow> http_out \<Rightarrow> string" where
  "printed label out = ctl_newline @ ''== '' @ label @ '' ('' @ fmt_d (ho_Status out) @ '') =='' @ ctl_newline @
     trim_space (ho_Body out) @ ctl_newline"

lemma response_status:
  "ho_Status (respond_json code v) = code" "ho_Status (http_Error msg code) = code"
  by (simp_all add: respond_json_def http_Error_def)

lemma printResponse_run:
  "printResponse label (answer out) c =
     (if 400 \<le> ho_Status out then Inl (ErrMsg (''request failed with status '' @ fmt_d (ho_Status out))) else Inr (),
      c\<lparr>ct_out := ct_out c @ printed label out\<rparr>)"
  by (simp add: printResponse_def printed_def answer_def go_bind_def ctl_print_def)

section \<open>Bootstrap\<close>

text \<open>What the flags ask for; bytes that are not UTF-8 do not survive the way.\<close>

definition flags_input :: "flag_set \<Rightarrow> bootstrap_input" where
  "flags_input fs = (let v = \<lambda>name. to_valid (flag_string fs name) in
     \<lparr>bs_OrganizationName = v ''org-name'', bs_AgentName = v ''agent-name'', bs_AgentStatus = v ''agent-status'',
      bs_WebhookURL = v ''webhook-url'', bs_WebhookSecret = v ''webhook-secret'', bs_InboxAddress = v ''inbox-address'',
      bs_InboxDomain = v ''inbox-domain'', bs_InboxDisplayName = v ''inbox-display-name''\<rparr>)"

definition acceptable_input :: "bootstrap_input \<Rightarrow> bool" where
  "acceptable_input b \<longleftrightarrow> \<not> blank (bs_OrganizationName b) \<and> \<not> blank (bs_AgentName b) \<and>
     \<not> blank (bs_InboxAddress b) \<and> \<not> blank (bs_InboxDomain b) \<and> \<not> blank (bs_InboxDisplayName b) \<and>
     (bs_AgentStatus b = [] \<or> AgentStatus_IsValid (bs_AgentStatus b))"

lemma insort_assoc: "insort_key fst (k, f k) (map (\<lambda>k. (k, f k)) ks) = map (\<lambda>k. (k, f k)) (insort k ks)"
  by (induction ks) simp_all

lemma sort_assoc: "sort_key fst (map (\<lambda>k. (k, f k)) ks) = map (\<lambda>k. (k, f k)) (sort ks)"
  by (induction ks) (simp_all add: insort_assoc)

definition payload_keys :: "string list" where
  "payload_keys = [''organization_name'', ''agent_name'', ''agent_status'', ''webhook_url'', ''webhook_secret'',
     ''inbox_address'', ''inbox_domain'', ''inbox_display_name'']"

lemma sorted_payload_keys: "sort payload_keys =
   [''agent_name'', ''agent_status'', ''inbox_address'', ''inbox_display_name'', ''inbox_domain'',
    ''organization_name'', ''webhook_secret'', ''webhook_url'']"
  by code_simp

lemma key_field_same: "k \<in> set names \<Longrightarrow> key_field names k = Some k"
  by (simp add: key_field_def)

lemma bootstrap_payload_read:
  "decode_body bootstrapInput \<lparr>hi_Method = m, hi_Segments = p, hi_Query = q, hi_Header = h,
      hi_Body = Inr (json_encode (string_map_json (map (\<lambda>k. (k, f k)) payload_keys)))\<rparr> =
   Inr \<lparr>bt_OrganizationName = to_valid (f ''organization_name''), bt_AgentName = to_valid (f ''agent_name''),
     bt_AgentStatus = to_valid (f ''agent_status''), bt_WebhookURL = to_valid (f ''webhook_url''),
     bt_WebhookSecret = to_valid (f ''webhook_secret''), bt_InboxAddress = to_valid (f ''inbox_address''),
     bt_InboxDomain = to_valid (f ''inbox_domain''), bt_InboxDisplayName = to_valid (f ''inbox_display_name'')\<rparr>"
proof -
  let ?v = "JObject (map (\<lambda>k. (k, JString (f k))) (sort payload_keys))"
  have j: "string_map_json (map (\<lambda>k. (k, f k)) payload_keys) = ?v"
    by (simp add: string_map_json_def sort_assoc comp_def) (simp add: payload_keys_def)
  have fit: "fits max_nesting ?v"
    unfolding sorted_payload_keys by (simp add: max_nesting_def)
  have keys: "to_valid ''agent_name'' = ''agent_name''" "to_valid ''agent_status'' = ''agent_status''"
    "to_valid ''inbox_address'' = ''inbox_address''" "to_valid ''inbox_display_name'' = ''inbox_display_name''"
    "to_valid ''inbox_domain'' = ''inbox_domain''" "to_valid ''organization_name'' = ''organization_name''"
    "to_valid ''webhook_secret'' = ''webhook_secret''" "to_valid ''webhook_url'' = ''webhook_url''"
    by (rule to_valid_ascii, code_simp)+
  have "bootstrapInput (valid_json ?v) =
    Inr \<lparr>bt_OrganizationName = to_valid (f ''organization_name''), bt_AgentName = to_valid (f ''agent_name''),
     bt_AgentStatus = to_valid (f ''agent_status''), bt_WebhookURL = to_valid (f ''webhook_url''),
     bt_WebhookSecret = to_valid (f ''webhook_secret''), bt_InboxAddress = to_valid (f ''inbox_address''),
     bt_InboxDomain = to_valid (f ''inbox_domain''), bt_InboxDisplayName = to_valid (f ''inbox_display_name'')\<rparr>"
    unfolding sorted_payload_keys bootstrapInput_def decode_struct_def
    by (simp add: set_bootstrap_input_def set_string_def key_field_same keys del: to_valid.simps)
  then show ?thesis
    using decode_written [OF fit refl, of bootstrapInput] by (simp add: decode_body_def j)
qed

lemma payload_of_flags:
  "string_map_json
     [(''organization_name'', a), (''agent_name'', b), (''agent_status'', c), (''webhook_url'', d),
      (''webhook_secret'', e), (''inbox_address'', g), (''inbox_domain'', h), (''inbox_display_name'', i)] =
   string_map_json (map (\<lambda>k. (k,
     if k = ''organization_name'' then a else if k = ''agent_name'' then b else if k = ''agent_status'' then c
     else if k = ''webhook_url'' then d else if k = ''webhook_secret'' then e else if k = ''inbox_address'' then g
     else if k = ''inbox_domain'' then h else i)) payload_keys)"
  by (simp add: payload_keys_def)

lemma mux_bootstrap:
  "hi_Method request = ''POST'' \<Longrightarrow> hi_Segments request = [''bootstrap''] \<Longrightarrow>
   mux (routes checker inbound provider) request = BootstrapHandler (bootstrapServiceAdapter newBootstrapService) request"
  by (simp add: mux_def routes_def route_def route_matches_def method_matches_def)

lemma bootstrap_request:
  "hi_Method (served_request q ''/bootstrap'') = hq_Method q"
  "hi_Segments (served_request q ''/bootstrap'') = [''bootstrap'']"
  "served_request q ''/bootstrap'' = \<lparr>hi_Method = hq_Method q, hi_Segments = [''bootstrap''], hi_Query = [],
     hi_Header = hq_Headers q, hi_Body = Inr (hq_Body q)\<rparr>"
proof -
  have "split_slash (drop 1 (takeWhile (\<lambda>c. c \<noteq> CHR ''?'') ''/bootstrap'')) = [''bootstrap'']"
    "query_of (drop 1 (dropWhile (\<lambda>c. c \<noteq> CHR ''?'') ''/bootstrap'')) = []" by code_simp+
  then show "hi_Method (served_request q ''/bootstrap'') = hq_Method q"
    "hi_Segments (served_request q ''/bootstrap'') = [''bootstrap'']"
    "served_request q ''/bootstrap'' = \<lparr>hi_Method = hq_Method q, hi_Segments = [''bootstrap''], hi_Query = [],
       hi_Header = hq_Headers q, hi_Body = Inr (hq_Body q)\<rparr>"
    by (simp_all only: served_request_def http_in.simps)
qed

lemma BootstrapHandler_run:
  assumes "decode_body bootstrapInput request = Inr payload"
  shows "acceptable_input (app_bootstrap_input payload) \<Longrightarrow>
      BootstrapHandler (bootstrapServiceAdapter newBootstrapService) request w =
        (case newBootstrapService (app_bootstrap_input payload) w of
           (Inl e, w') \<Rightarrow> (http_Error ''failed to bootstrap runtime'' 500, w')
         | (Inr r, w') \<Rightarrow> (respond_json 201 (bootstrapResponse (api_bootstrap_view r)), w'))"
    and "\<not> acceptable_input (app_bootstrap_input payload) \<Longrightarrow>
      \<exists>msg. BootstrapHandler (bootstrapServiceAdapter newBootstrapService) request w = (http_Error msg 400, w)"
proof -
  assume "acceptable_input (app_bootstrap_input payload)"
  then show "BootstrapHandler (bootstrapServiceAdapter newBootstrapService) request w =
        (case newBootstrapService (app_bootstrap_input payload) w of
           (Inl e, w') \<Rightarrow> (http_Error ''failed to bootstrap runtime'' 500, w')
         | (Inr r, w') \<Rightarrow> (respond_json 201 (bootstrapResponse (api_bootstrap_view r)), w'))"
    using assms
    by (auto simp: BootstrapHandler_def acceptable_input_def app_bootstrap_input_def respond_def
        bootstrapServiceAdapter_def go_bind_def split: prod.splits sum.splits)
next
  assume "\<not> acceptable_input (app_bootstrap_input payload)"
  then show "\<exists>msg. BootstrapHandler (bootstrapServiceAdapter newBootstrapService) request w = (http_Error msg 400, w)"
    using assms by (auto simp: BootstrapHandler_def acceptable_input_def app_bootstrap_input_def refuse_def)
qed

lemma go_bind_flags:
  "flag_parse (flags (ct_env c)) args = Inr fs \<Longrightarrow> go_bind (ctl_flags flags args) k c = k fs c"
  by (simp add: ctl_flags_def go_bind_def ctl_env_def)

text \<open>C17: \<open>agentlayerctl bootstrap\<close> against the server. Let the arguments parse to flags whose base URL, without
  slashes at its end, is the address of the server. If the fields the flags name are acceptable, the server runs
  the bootstrap with exactly those fields, the response with the ids is printed, and the exit code is 0. If not,
  the server is left as it was and the exit code is 1.\<close>

theorem ctl_bootstrap_applies:
  assumes "flag_parse (bootstrap_flags (ct_env c)) args = Inr fs"
    and "trim_right_slash (flag_string fs ''base-url'') = base"
  shows "if acceptable_input (flags_input fs)
    then \<exists>r w'. newBootstrapService (flags_input fs) (ct_remote c) = (Inr r, w') \<and>
      ctl_main (server_net base (mux (routes checker inbound provider)) mail) (''bootstrap'' # args) c =
        (0, c\<lparr>ct_remote := w', ct_out := ct_out c @ printed (base @ ''/bootstrap'')
           (respond_json 201 (bootstrapResponse (api_bootstrap_view r)))\<rparr>)
    else \<exists>msg. ctl_main (server_net base (mux (routes checker inbound provider)) mail) (''bootstrap'' # args) c =
        (1, c\<lparr>ct_out := ct_out c @ printed (base @ ''/bootstrap'') (http_Error msg 400)\<rparr>)"
proof -
  let ?net = "server_net base (mux (routes checker inbound provider)) mail"
  let ?f = "\<lambda>k. if k = ''organization_name'' then flag_string fs ''org-name''
     else if k = ''agent_name'' then flag_string fs ''agent-name'' else if k = ''agent_status'' then flag_string fs ''agent-status''
     else if k = ''webhook_url'' then flag_string fs ''webhook-url''
     else if k = ''webhook_secret'' then flag_string fs ''webhook-secret''
     else if k = ''inbox_address'' then flag_string fs ''inbox-address''
     else if k = ''inbox_domain'' then flag_string fs ''inbox-domain'' else flag_string fs ''inbox-display-name''"
  define q where "q = \<lparr>hq_Method = ''POST'', hq_URL = base @ ''/bootstrap'',
     hq_Headers = gput (canonical_key ''Content-Type'') ''application/json'' [],
     hq_Body = json_encode (string_map_json (map (\<lambda>k. (k, ?f k)) payload_keys))\<rparr>"
  have url: "hq_URL q = base @ ''/bootstrap''" by (simp add: q_def)
  define payload where "payload = (let v = \<lambda>name. to_valid (flag_string fs name) in
     \<lparr>bt_OrganizationName = v ''org-name'', bt_AgentName = v ''agent-name'', bt_AgentStatus = v ''agent-status'',
      bt_WebhookURL = v ''webhook-url'', bt_WebhookSecret = v ''webhook-secret'', bt_InboxAddress = v ''inbox-address'',
      bt_InboxDomain = v ''inbox-domain'', bt_InboxDisplayName = v ''inbox-display-name''\<rparr>)"
  have p: "decode_body bootstrapInput (served_request q ''/bootstrap'') = Inr payload"
    unfolding bootstrap_request q_def by (simp add: bootstrap_payload_read payload_def Let_def)
  have input: "app_bootstrap_input payload = flags_input fs"
    by (simp add: payload_def app_bootstrap_input_def flags_input_def Let_def)
  have h: "mux (routes checker inbound provider) (served_request q ''/bootstrap'') =
      BootstrapHandler (bootstrapServiceAdapter newBootstrapService) (served_request q ''/bootstrap'')"
    by (rule mux_bootstrap) (simp_all add: bootstrap_request(1,2) q_def)
  have run: "runBootstrap ?net args c = go_bind (ctl_do ?net q) (printResponse (base @ ''/bootstrap'')) c"
    unfolding runBootstrap_def payload_of_flags go_bind_flags [of bootstrap_flags, OF assms(1)] printJSONRequest_def assms(2) q_def ..
  show ?thesis
  proof (cases "acceptable_input (flags_input fs)")
    case True
    obtain r w' where r: "newBootstrapService (flags_input fs) (ct_remote c) = (Inr r, w')"
      using newBootstrapService_returns by blast
    have "mux (routes checker inbound provider) (served_request q ''/bootstrap'') (ct_remote c) =
        (respond_json 201 (bootstrapResponse (api_bootstrap_view r)), w')"
      using BootstrapHandler_run(1) [OF p, of "ct_remote c"] True unfolding h input r by simp
    then have "ctl_main ?net (''bootstrap'' # args) c =
        (0, c\<lparr>ct_remote := w', ct_out := ct_out c @ printed (base @ ''/bootstrap'')
           (respond_json 201 (bootstrapResponse (api_bootstrap_view r)))\<rparr>)"
      by (simp add: ctl_main_def exit_code_def run go_bind_def ctl_do_server [OF url] printResponse_run response_status)
    with True r show ?thesis by simp
  next
    case False
    obtain msg where "mux (routes checker inbound provider) (served_request q ''/bootstrap'') (ct_remote c) =
        (http_Error msg 400, ct_remote c)"
      using BootstrapHandler_run(2) [OF p] False by (auto simp: h input)
    then have "ctl_main ?net (''bootstrap'' # args) c =
        (1, c\<lparr>ct_out := ct_out c @ printed (base @ ''/bootstrap'') (http_Error msg 400)\<rparr>)"
      by (simp add: ctl_main_def exit_code_def run go_bind_def ctl_do_server [OF url] printResponse_run response_status)
    with False show ?thesis by auto
  qed
qed

text \<open>Without arguments and environment the flags are acceptable to the server.\<close>

definition default_env :: getenv where
  "default_env name = []"

definition demo_ctl :: "world ctl" where
  "demo_ctl = \<lparr>ct_env = default_env, ct_now = 63903204007000000000, ct_out = [], ct_remote = demo_world NewStore\<rparr>"

theorem ctl_bootstrap_applies_witness:
  "\<exists>r w' out. newBootstrapService (flags_input (bootstrap_flags default_env)) (demo_world NewStore) = (Inr r, w') \<and>
     i_EmailAddress (br_Inbox r) = ''agent@localhost'' \<and>
     ctl_main (server_net ''http://localhost:8080'' demo_server (\<lambda>addr from to msg. go_ret ())) [''bootstrap''] demo_ctl =
       (0, demo_ctl\<lparr>ct_remote := w', ct_out := out\<rparr>)"
proof -
  have fs: "flag_parse (bootstrap_flags (ct_env demo_ctl)) [] = Inr (bootstrap_flags default_env)"
    by (simp add: demo_ctl_def)
  have base: "trim_right_slash (flag_string (bootstrap_flags default_env) ''base-url'') = ''http://localhost:8080''"
    "acceptable_input (flags_input (bootstrap_flags default_env))"
    "bs_InboxAddress (flags_input (bootstrap_flags default_env)) = ''agent@localhost''" by code_simp+
  show ?thesis
    using ctl_bootstrap_applies [OF fs base(1), of demo_checker "runtime_handler demo_decode demo_config" dev_provider
        "\<lambda>addr from to msg. go_ret ()"] base(2,3) newBootstrapService_run
    by (fastforce simp: demo_ctl_def)
qed

section \<open>Retries\<close>

lemma limit_request:
  assumes "CHR ''?'' \<notin> set path"
  shows "hi_Segments (served_request q (path @ ''?limit='' @ v)) = split_slash (drop 1 path)"
    and "hi_Query (served_request q (path @ ''?limit='' @ v)) = [(''limit'', v)]"
proof -
  have p: "\<forall>c \<in> set path. c \<noteq> CHR ''?''" using assms by auto
  then have "takeWhile (\<lambda>c. c \<noteq> CHR ''?'') (path @ ''?limit='' @ v) = path"
    and "dropWhile (\<lambda>c. c \<noteq> CHR ''?'') (path @ ''?limit='' @ v) = ''?limit='' @ v"
    by (simp_all add: takeWhile_append2 dropWhile_append2)
  then show "hi_Segments (served_request q (path @ ''?limit='' @ v)) = split_slash (drop 1 path)"
    and "hi_Query (served_request q (path @ ''?limit='' @ v)) = [(''limit'', v)]"
    by (simp_all only: served_request_def http_in.simps) (simp add: query_of_def)
qed

lemma verb_request: "hi_Method (served_request q rest) = hq_Method q"
  by (simp add: served_request_def)

lemma limit_read:
  assumes "hi_Query request = [(''limit'', fmt_d n)]" and "- (2 ^ 63) \<le> n" and "n < 2 ^ 63"
  shows "webhookDeliveriesLimit request = (if n < 0 then Inl (ErrMsg ''invalid syntax'') else Inr n)"
proof -
  have "fmt_d n \<noteq> []" using nat_digits_digits by (simp add: fmt_d_def)
  then show ?thesis
    using assms(1) atoi_fmt_d [OF assms(2,3)] by (simp add: webhookDeliveriesLimit_def first_value_def Let_def)
qed

text \<open>\<open>agentlayerctl retry-webhooks\<close>: the limit of the flags, or of the environment, in whatever base it was
  written, is the limit the server sweeps with. The summary of the sweep is printed and the exit code is 0; if
  the sweep fails it is 1. A negative limit is refused by the server, which is left as it was.\<close>

theorem ctl_retry_applies:
  assumes "flag_parse (retry_flags (ct_env c)) args = Inr fs"
    and "trim_right_slash (flag_string fs ''base-url'') = base"
    and "- (2 ^ 63) \<le> flag_int fs ''limit''" and "flag_int fs ''limit'' < 2 ^ 63"
    and "webhookRetryServiceAdapter newWebhookRetrySweepService (flag_int fs ''limit'') (ct_remote c) = (res, w')"
    and "run = ctl_main (server_net base (mux (routes checker inbound provider)) mail) (''retry-webhooks'' # args) c"
  shows "if flag_int fs ''limit'' < 0
    then run = (1, c\<lparr>ct_out := ct_out c @ printed ''/webhooks/deliveries/retry'' (http_Error ''invalid limit parameter'' 400)\<rparr>)
    else run = (case res of
        Inl e \<Rightarrow> (1, c\<lparr>ct_remote := w', ct_out := ct_out c @ printed ''/webhooks/deliveries/retry''
          (http_Error ''failed to retry webhook deliveries'' 500)\<rparr>)
      | Inr r \<Rightarrow> (0, c\<lparr>ct_remote := w', ct_out := ct_out c @ printed ''/webhooks/deliveries/retry''
          (respond_json 202 (webhookRetryResponse r))\<rparr>))"
proof -
  let ?net = "server_net base (mux (routes checker inbound provider)) mail"
  let ?n = "flag_int fs ''limit''" and ?path = "''/webhooks/deliveries/retry''"
  define q where "q = \<lparr>hq_Method = ''POST'', hq_URL = base @ ?path @ ''?limit='' @ fmt_d ?n,
     hq_Headers = [], hq_Body = []\<rparr>"
  define rest where "rest = ?path @ ''?limit='' @ fmt_d ?n"
  have url: "hq_URL q = base @ rest" by (simp add: q_def rest_def)
  have "split_slash (drop 1 ?path) = [''webhooks'', ''deliveries'', ''retry'']" by code_simp
  then have segs: "hi_Segments (served_request q rest) = [''webhooks'', ''deliveries'', ''retry'']"
    and query: "hi_Query (served_request q rest) = [(''limit'', fmt_d ?n)]"
    using limit_request(1,2) [of ?path q "fmt_d ?n"] unfolding rest_def by simp_all
  have verb: "hi_Method (served_request q rest) = ''POST''"
    by (simp add: verb_request q_def)
  have h: "mux (routes checker inbound provider) (served_request q rest) =
      WebhookRetryHandler (webhookRetryServiceAdapter newWebhookRetrySweepService) (served_request q rest)"
    using segs verb by (simp add: mux_def routes_def route_def route_matches_def method_matches_def)
  have "runRetryWebhooks ?net args c = go_bind (ctl_do ?net q) (printResponse ?path) c"
    unfolding runRetryWebhooks_def go_bind_flags [of retry_flags, OF assms(1)] assms(2) q_def by simp
  then have cmd: "run = exit_code (go_bind (ctl_do ?net q) (printResponse ?path)) c"
    by (simp add: assms(6) ctl_main_def exit_code_def)
  show ?thesis
    using assms(5) limit_read [OF query assms(3,4)]
    by (auto simp: cmd exit_code_def go_bind_def ctl_do_server [OF url] h WebhookRetryHandler_def refuse_def respond_def
        printResponse_run response_status split: sum.splits)
qed

theorem ctl_retry_applies_witness:
  "\<exists>res w' run. webhookRetryServiceAdapter newWebhookRetrySweepService 5 (demo_world NewStore) = (res, w') \<and>
     run = ctl_main (server_net ''http://localhost:8080'' demo_server (\<lambda>addr from to msg. go_ret ()))
       [''retry-webhooks'', ''-limit'', ''0x5''] demo_ctl \<and>
     fst run = (case res of Inl _ \<Rightarrow> 1 | Inr _ \<Rightarrow> 0)"
proof -
  obtain fs where fs: "flag_parse (retry_flags (ct_env demo_ctl)) [''-limit'', ''0x5''] = Inr fs"
    and base: "trim_right_slash (flag_string fs ''base-url'') = ''http://localhost:8080''" and n: "flag_int fs ''limit'' = 5"
  proof
    show "flag_parse (retry_flags (ct_env demo_ctl)) [''-limit'', ''0x5''] =
      Inr [(''base-url'', Flag_String ''http://localhost:8080''), (''limit'', Flag_Int 5)]" by code_simp
  qed (code_simp+)
  obtain res w' where res: "webhookRetryServiceAdapter newWebhookRetrySweepService 5 (demo_world NewStore) = (res, w')"
    by (cases "webhookRetryServiceAdapter newWebhookRetrySweepService 5 (demo_world NewStore)")
  have r: "ct_remote demo_ctl = demo_world NewStore" by (simp add: demo_ctl_def)
  show ?thesis
    using ctl_retry_applies [OF fs base, of res w' _ demo_checker "runtime_handler demo_decode demo_config" dev_provider
        "\<lambda>addr from to msg. go_ret ()", OF _ _ _ refl] res
    unfolding n r by (fastforce split: sum.splits)
qed

section \<open>Show\<close>

text \<open>The answers of a server to GET requests one after the other, up to the first that is an error.\<close>

definition get_request :: "string \<Rightarrow> string \<Rightarrow> http_request" where
  "get_request base endpoint = \<lparr>hq_Method = ''GET'', hq_URL = base @ endpoint, hq_Headers = [], hq_Body = []\<rparr>"

primrec visit :: "'r handler \<Rightarrow> string \<Rightarrow> string list \<Rightarrow> 'r \<Rightarrow> (string \<times> http_out) list \<times> 'r" where
  "visit server base [] w = ([], w)"
| "visit server base (e # es) w = (case server (served_request (get_request base e) e) w of
     (out, w1) \<Rightarrow> if 400 \<le> ho_Status out then ([(e, out)], w1)
                  else (case visit server base es w1 of (rs, w2) \<Rightarrow> ((e, out) # rs, w2)))"

definition answered :: "(string \<times> http_out) list \<Rightarrow> bool" where
  "answered rs \<longleftrightarrow> (\<forall>(e, out) \<in> set rs. ho_Status out < 400)"

definition report :: "(string \<times> http_out) list \<Rightarrow> string" where
  "report rs = concat (map (\<lambda>(e, out). printed e out) rs)"

lemma show_endpoints_run:
  "visit server base es (ct_remote c) = (rs, w') \<Longrightarrow>
   \<exists>r. show_endpoints (server_net base server mail) base es c =
       (r, c\<lparr>ct_remote := w', ct_out := ct_out c @ report rs\<rparr>) \<and>
     (case r of Inl _ \<Rightarrow> \<not> answered rs | Inr _ \<Rightarrow> answered rs \<and> map fst rs = es)"
proof (induction es arbitrary: c rs)
  case Nil
  then show ?case by (simp add: report_def answered_def)
next
  case (Cons e es)
  obtain out w1 where out: "server (served_request (get_request base e) e) (ct_remote c) = (out, w1)"
    by (cases "server (served_request (get_request base e) e) (ct_remote c)")
  have url: "hq_URL (get_request base e) = base @ e" by (simp add: get_request_def)
  have get: "http_Get (server_net base server mail) (base @ e) c = (Inr (answer out), c\<lparr>ct_remote := w1\<rparr>)"
    using ctl_do_server [OF url, of server mail c] out by (simp add: http_Get_def get_request_def)
  show ?case
  proof (cases "400 \<le> ho_Status out")
    case True
    with Cons.prems out have "rs = [(e, out)]" "w' = w1" by simp_all
    with True show ?thesis
      by (auto simp: go_bind_def get printResponse_run report_def answered_def)
  next
    case False
    obtain rs' where v: "visit server base es w1 = (rs', w')" and rs: "rs = (e, out) # rs'"
      using Cons.prems out False by (auto split: prod.splits)
    obtain r where r: "show_endpoints (server_net base server mail) base es
        (c\<lparr>ct_remote := w1, ct_out := ct_out c @ printed e out\<rparr>) =
        (r, c\<lparr>ct_remote := w', ct_out := (ct_out c @ printed e out) @ report rs'\<rparr>)"
      and ok: "case r of Inl _ \<Rightarrow> \<not> answered rs' | Inr _ \<Rightarrow> answered rs' \<and> map fst rs' = es"
      using Cons.IH [of "c\<lparr>ct_remote := w1, ct_out := ct_out c @ printed e out\<rparr>" rs'] v by auto
    have "show_endpoints (server_net base server mail) base (e # es) c =
        (r, c\<lparr>ct_remote := w', ct_out := ct_out c @ report rs\<rparr>)"
      using r False by (simp add: go_bind_def get printResponse_run rs report_def)
    with ok False rs show ?thesis by (cases r) (auto simp: answered_def)
  qed
qed

lemma visit_abides:
  assumes "\<And>e. abides read_only (server (served_request (get_request base e) e))"
  shows "visit server base es w = (rs, w') \<Longrightarrow> effects w' = effects w"
proof (induction es arbitrary: w rs)
  case (Cons e es)
  then show ?case
    using abidesD [OF assms] by (fastforce simp: read_only_def split: prod.splits if_splits)
qed simp

definition show_list :: "flag_set \<Rightarrow> string list" where
  "show_list fs = [''/readyz'', ''/bootstrap'',
     ''/webhooks/deliveries?limit='' @ fmt_d (flag_int fs ''webhook-limit''),
     ''/inbound/receipts/list?limit='' @ fmt_d (flag_int fs ''receipt-limit'')]"

text \<open>\<open>agentlayerctl show\<close> changes nothing on the server: no record is written and nothing is sent to a
  subscriber. It prints the answers of the server to its four requests in order, stops after the first that is an
  error, and its exit code is 0 exactly if it printed all four and none is an error.\<close>

theorem ctl_show_reports:
  assumes "flag_parse (show_flags (ct_env c)) args = Inr fs"
    and "trim_right_slash (flag_string fs ''base-url'') = base" and "silent_checker checker"
    and "visit (mux (routes checker inbound provider)) base (show_list fs) (ct_remote c) = (rs, w')"
  shows "ctl_main (server_net base (mux (routes checker inbound provider)) mail) (''show'' # args) c =
      (if answered rs then 0 else 1, c\<lparr>ct_remote := w', ct_out := ct_out c @ report rs\<rparr>) \<and>
    (answered rs \<longrightarrow> map fst rs = show_list fs) \<and> mem w' = mem (ct_remote c) \<and> http_log w' = http_log (ct_remote c)"
proof -
  let ?net = "server_net base (mux (routes checker inbound provider)) mail"
  have "runShow ?net args c = show_endpoints ?net base (show_list fs) c"
    unfolding runShow_def go_bind_flags [of show_flags, OF assms(1)] assms(2) show_list_def ..
  moreover obtain r where "show_endpoints ?net base (show_list fs) c =
      (r, c\<lparr>ct_remote := w', ct_out := ct_out c @ report rs\<rparr>)"
    and ok: "case r of Inl _ \<Rightarrow> \<not> answered rs | Inr _ \<Rightarrow> answered rs \<and> map fst rs = show_list fs"
    using show_endpoints_run [OF assms(4)] by blast
  ultimately have "ctl_main ?net (''show'' # args) c =
      (if answered rs then 0 else 1, c\<lparr>ct_remote := w', ct_out := ct_out c @ report rs\<rparr>)"
    by (cases r) (simp_all add: ctl_main_def exit_code_def)
  moreover have "effects w' = effects (ct_remote c)"
    by (rule visit_abides [OF mux_reads [OF assms(3)] assms(4)]) (simp add: verb_request get_request_def)
  moreover have "answered rs \<longrightarrow> map fst rs = show_list fs" using ok by (cases r) simp_all
  ultimately show ?thesis by (simp add: effects_def)
qed

theorem ctl_show_reports_witness:
  "\<exists>rs w' code. ctl_main (server_net ''http://localhost:8080'' demo_server (\<lambda>addr from to msg. go_ret ())) [''show''] demo_ctl =
       (code, demo_ctl\<lparr>ct_remote := w', ct_out := report rs\<rparr>) \<and> code \<in> {0, 1} \<and> mem w' = NewStore"
proof -
  obtain fs where fs: "flag_parse (show_flags (ct_env demo_ctl)) [] = Inr fs"
    and base: "trim_right_slash (flag_string fs ''base-url'') = ''http://localhost:8080''"
  proof
    show "flag_parse (show_flags (ct_env demo_ctl)) [] = Inr [(''base-url'', Flag_String ''http://localhost:8080''),
      (''webhook-limit'', Flag_Int 5), (''receipt-limit'', Flag_Int 5)]" by code_simp
  qed (code_simp+)
  obtain rs w' where v: "visit demo_server ''http://localhost:8080'' (show_list fs) (ct_remote demo_ctl) = (rs, w')"
    by (cases "visit demo_server ''http://localhost:8080'' (show_list fs) (ct_remote demo_ctl)")
  have "ct_out demo_ctl = []" "mem (ct_remote demo_ctl) = NewStore" by (simp_all add: demo_ctl_def)
  with ctl_show_reports [OF fs base demo_server_quiet(3) v, of "\<lambda>addr from to msg. go_ret ()"]
  show ?thesis by auto
qed

end
