(* ===== verification/Sample_Mail.thy ===== *)
theory Sample_Mail
  imports Control_Laws
begin

text \<open>
  \<open>agentlayerctl send-sample\<close> against the SMTP server of the program, with its own parser: the mail that the tool
  writes goes over the edge into the store, is parsed, resolved to a contact and a thread, and recorded.
\<close>

section \<open>The mail of the tool\<close>

definition sample_fields :: "string \<Rightarrow> string \<Rightarrow> string \<Rightarrow> string \<Rightarrow> (string \<times> string) list" where
  "sample_fields from to subject messageID =
     [(''From'', from), (''To'', to), (''Subject'', subject), (''Message-ID'', messageID),
      (''MIME-Version'', ''1.0''), (''Content-Type'', ''text/plain; charset=utf-8'')]"

lemma sample_message_fields:
  "sample_message from to subject messageID body =
     join (map field_line (sample_fields from to subject messageID) @ [[], body @ crlf]) crlf"
  by (simp add: sample_message_def sample_fields_def field_line_def)

lemma sample_fields_good:
  assumes "one_line from" "one_line to" "one_line subject" "one_line messageID"
  shows "\<forall>f \<in> set (sample_fields from to subject messageID). good_field f"
proof -
  have "list_all token_char ''From''" "list_all token_char ''To''" "list_all token_char ''Subject''"
    "list_all token_char ''Message-ID''" "list_all token_char ''MIME-Version''" "list_all token_char ''Content-Type''"
    by code_simp+
  with assms show ?thesis by (simp add: sample_fields_def good_field_def)
qed

definition sample_header :: "string \<Rightarrow> string \<Rightarrow> string \<Rightarrow> string \<Rightarrow> mail_header" where
  "sample_header from to subject messageID =
     [(''From'', [trim_blank from]), (''To'', [trim_blank to]), (''Subject'', [trim_blank subject]),
      (''Message-Id'', [trim_blank messageID]), (''Mime-Version'', [''1.0'']),
      (''Content-Type'', [''text/plain; charset=utf-8''])]"

lemma ReadMessage_sample:
  assumes "one_line from" "one_line to" "one_line subject" "one_line messageID"
  shows "mail_ReadMessage (sample_message from to subject messageID body) =
    Inr (sample_header from to subject messageID, body @ crlf)"
proof -
  have v: "trim_blank ''1.0'' = ''1.0''" "trim_blank ''text/plain; charset=utf-8'' = ''text/plain; charset=utf-8''"
    by code_simp+
  have "fold add_field (sample_fields from to subject messageID) [] = sample_header from to subject messageID"
    by (simp add: sample_fields_def sample_header_def add_field_def header_add_def gput_def v)
  then have "read_header (sample_message from to subject messageID body) [] =
      (Blank_Line, sample_header from to subject messageID, body @ crlf)"
    using read_header_fields [OF sample_fields_good [OF assms], of "body @ crlf" "[]"]
    by (simp add: sample_message_fields)
  moreover have "sample_message from to subject messageID body \<noteq> [] \<and>
      \<not> is_blank (hd (sample_message from to subject messageID body))"
    by (simp add: sample_message_def is_blank_def)
  ultimately show ?thesis by (simp add: mail_ReadMessage_def)
qed

lemma sample_parsed:
  assumes "one_line from" "one_line to" "one_line subject" "id_word messageID" "reads_plain lib"
    and "\<not> sublist ''=?'' subject"
  shows "\<exists>parsed. parse_raw lib (sample_message from to subject messageID body) = Inr parsed \<and>
    pm_MessageIDHeader parsed = messageID \<and> pm_TextBody parsed = body @ crlf \<and>
    pm_Subject parsed = (if trim_space subject = [] then [] else trim_blank subject) \<and> pm_References parsed = []"
proof -
  let ?h = "sample_header from to subject messageID"
  have "one_line messageID" using assms(4) by (auto simp: id_word_def one_line_def is_space_def byte_of_def)
  note read = ReadMessage_sample [OF assms(1-3) this, of body]
  have get: "header_get ?h ''Message-ID'' = messageID" "header_get ?h ''Subject'' = trim_blank subject"
    "header_get ?h ''References'' = []" "header_get ?h ''Content-Type'' = ''text/plain; charset=utf-8''"
    "header_get ?h ''Content-Transfer-Encoding'' = []"
    using assms(4) by (simp_all add: header_get_def sample_header_def id_word_def trim_blank_id)
  have "\<not> sublist ''=?'' (trim_blank subject)"
    using assms(6) sublist_trim_blank sublist_order.order.trans by blast
  then have "ml_DecodeHeader lib (trim_blank subject) = Inr (trim_blank subject)"
    using assms(5) by (simp add: reads_plain_def)
  then have "decodeHeader lib (trim_blank subject) = (if trim_space subject = [] then [] else trim_blank subject)"
    by (simp add: decodeHeader_def)
  then show ?thesis
    using parse_plain [OF read assms(5) get(4,5)] fields.simps [of "[]"]
    by (simp add: parsed_headers_def get)
qed

section \<open>Through the edge\<close>

text \<open>
  \<open>net/smtp\<close> and \<open>go-smtp\<close> are not part of the program. What is assumed of the pair is what they document. A mail
  between plain addresses whose lines all end in CR LF is given to a session of the server as it is, sender,
  recipients and data in this order, or it is not given to it, and then nothing is stored and the tool gets an
  error: no connection, a line, a mail or a list of recipients over the limits that \<open>NewServer\<close> sets, a
  timeout, a command refused. An error of the session is an error of \<open>SendMail\<close>; success is not always reported.
\<close>

definition address_char :: "char \<Rightarrow> bool" where
  "address_char c \<longleftrightarrow> is_digit c \<or> (65 \<le> byte_of c \<and> byte_of c \<le> 90) \<or> (97 \<le> byte_of c \<and> byte_of c \<le> 122) \<or>
     c \<in> set ''.-_+''"

definition plain_address :: "string \<Rightarrow> bool" where
  "plain_address a \<longleftrightarrow> (\<exists>l d. a = l @ ''@'' @ d \<and> l \<noteq> [] \<and> d \<noteq> [] \<and> list_all address_char (l @ d))"

definition crlf_lines :: "string \<Rightarrow> bool" where
  "crlf_lines msg \<longleftrightarrow> (\<exists>ls. (\<forall>l \<in> set ls. one_line l) \<and> msg = join (ls @ [[]]) crlf)"

primrec smtp_commands :: "smtp_command list \<Rightarrow> ('s session_state, unit) go" where
  "smtp_commands [] = go_ret ()"
| "smtp_commands (cmd # cmds) =
     go_bind (AdapterSession_call (NewAdapterSession session_core) cmd) (\<lambda>_. smtp_commands cmds)"

definition handed ::
    "getenv \<Rightarrow> (string \<Rightarrow> gerr + parsed_message) \<Rightarrow> string \<Rightarrow> string list \<Rightarrow> string \<Rightarrow>
     'z world_scheme \<Rightarrow> gerr + unit \<Rightarrow> 'z world_scheme \<Rightarrow> bool" where
  "handed env decode from to msg w r w' \<longleftrightarrow>
     (\<exists>w1 s w0 answer s'. mem w1 = mem w \<and> newSMTPSession env decode w1 = (Inr s, w0) \<and>
        smtp_commands (Mail from # map Rcpt to @ [Data (Inr msg)]) (s, w0) = (answer, (s', w')) \<and>
        (r = Inr () \<longrightarrow> answer = Inr ()))"

definition carries ::
    "'z world_scheme ctl_net \<Rightarrow> getenv \<Rightarrow> (string \<Rightarrow> gerr + parsed_message) \<Rightarrow> bool" where
  "carries network env decode \<longleftrightarrow>
     (\<forall>addr from to msg w r w'.
        plain_address from \<and> list_all plain_address to \<and> crlf_lines msg \<and>
        cn_SendMail network addr from to msg w = (r, w') \<longrightarrow>
        handed env decode from to msg w r w' \<or> isl r \<and> mem w' = mem w)"

lemma plain_address_one_line:
  assumes "plain_address a"
  shows "one_line a" and "a \<noteq> []"
proof -
  have "\<not> address_char (CHR 0x0A)" "\<not> address_char (CHR 0x0D)"
    by code_simp+
  with assms show "one_line a" "a \<noteq> []" by (auto simp: plain_address_def one_line_def list_all_iff)
qed

lemma sample_crlf:
  assumes "one_line from" "one_line to" "one_line subject" "one_line messageID" "one_line body"
  shows "crlf_lines (sample_message from to subject messageID body)"
  unfolding crlf_lines_def
proof (intro exI conjI)
  let ?ls = "[''From: '' @ from, ''To: '' @ to, ''Subject: '' @ subject, ''Message-ID: '' @ messageID,
       ''MIME-Version: 1.0'', ''Content-Type: text/plain; charset=utf-8'', [], body]"
  show "\<forall>l \<in> set ?ls. one_line l" using assms by simp
  show "sample_message from to subject messageID body = join (?ls @ [[]]) crlf" by (simp add: sample_message_def)
qed

text \<open>Whatever becomes of its announcement, a message that is handled for the first time is processed and recorded.\<close>

lemma handled_fresh:
  fixes w w' :: "'z world_scheme"
  assumes "world_ok w"
    and "map_of (rawMessages (mem w)) (ir_RawMessageObjectKey (sm_Receipt stored)) = Some raw"
    and "decode raw = Inr parsed"
    and "pm_MessageIDHeader parsed = [] \<or>
      map_of (messagesByInboundKey (mem w))
        (InboundMessageKey (ir_InboxID (sm_Receipt stored)) (pm_MessageIDHeader parsed)) = None"
    and "runtime_handler decode config stored w = (r, w')"
  shows "\<exists>h (w1 :: 'z world_scheme). inbound_base decode stored w = (Inr h, w1) \<and> \<not> hr_Duplicate h \<and> hr_ParsedMessage h = parsed \<and>
    but_deliveries w' = but_deliveries w1"
  using inbound_base_fresh [of w stored raw decode parsed] handled_base(1) [OF _ assms(5)] assms(1-4) by blast

text \<open>The data of a mail: its bytes and its receipt are stored, then it is handled on a store that is otherwise the
  same.\<close>

lemma accepted_fresh:
  fixes w w' :: "'z world_scheme"
  assumes "world_ok w"
    and wired: "same_wiring s (edge_session rt_FindByEmailAddress rt_Put rt_SaveInboundReceipt (runtime_handler decode config) at sid)"
    and "decode raw = Inr parsed"
    and "pm_MessageIDHeader parsed = [] \<or>
      map_of (messagesByInboundKey (mem w)) (InboundMessageKey (i_ID (ss_targetInbox s)) (pm_MessageIDHeader parsed)) = None"
    and "session_accept s raw w = (r, w')"
  obtains k h and w1 w2 :: "'z world_scheme" where "world_ok w1" and "messagesByID (mem w1) = messagesByID (mem w)" and "threadsByID (mem w1) = threadsByID (mem w)"
    and "inbound_base decode \<lparr>sm_Receipt = receipt_to_inbound (session_receipt s k at), sm_RawSizeBytes = 0\<rparr> w1 = (Inr h, w2)"
    and "\<not> hr_Duplicate h" and "hr_ParsedMessage h = parsed" and "but_deliveries w' = but_deliveries w2"
proof -
  obtain k where key: "NewRawMessageObjectKey at (ss_targetInbox s) w = (Inr k, w\<lparr>rand_ix := Suc (rand_ix w)\<rparr>)"
    using randomHex_run [of 12 w] by (auto simp: NewRawMessageObjectKey_def Let_def go_bind_def)
  have parts: "ss_now s = go_ret at" "ss_nextKey s = NewRawMessageObjectKey" "ss_store s = rt_Put"
      "ss_sink s = Enqueue (runtime_handler decode config) (Some rt_SaveInboundReceipt)"
    using same_wiringD [OF wired] by simp_all
  let ?q = "session_receipt s k at"
  let ?st = "\<lparr>sm_Receipt = receipt_to_inbound ?q, sm_RawSizeBytes = 0\<rparr>"
  define w1 where "w1 = w\<lparr>rand_ix := Suc (rand_ix w)\<rparr>"
  obtain w2 where put: "rt_Put k raw w1 = (Inr (), w2)" using rt_Put_returns [of k raw w1] by (metis prod.exhaust_sel)
  obtain w3 where sv: "rt_SaveInboundReceipt ?q w2 = (Inr (), w3)"
    using rt_SaveInboundReceipt_returns [of ?q w2] by (metis prod.exhaust_sel)
  have ok: "world_ok w3"
    using assms(1) keepsD [OF keeps_rt_writes(5) keepsD [OF keeps_rt_writes(4) _ put] sv] by (simp add: w1_def)
  have raw: "map_of (rawMessages (mem w3)) k = Some raw" and same: "messagesByInboundKey (mem w3) = messagesByInboundKey (mem w)"
      "messagesByID (mem w3) = messagesByID (mem w)" "threadsByID (mem w3) = threadsByID (mem w)"
    using put sv by (auto simp: rt_eqs w1_def Store_Put_def Store_SaveInboundReceipt_def)
  obtain x w4 where h: "runtime_handler decode config ?st w3 = (x, w4)"
    by (cases "runtime_handler decode config ?st w3")
  have "w' = w4"
    using assms(5) key put sv h
    by (cases x) (auto simp: session_accept_def parts Enqueue_def go_bind_def w1_def)
  moreover obtain hd w5 where "inbound_base decode ?st w3 = (Inr hd, w5)" "\<not> hr_Duplicate hd" "hr_ParsedMessage hd = parsed"
      "but_deliveries w4 = but_deliveries w5"
    using handled_fresh [OF ok _ assms(3) _ h] raw same assms(4)
    by (auto simp: receipt_to_inbound_def session_receipt_def)
  ultimately show thesis by (intro that [OF ok same(2,3)]) simp_all
qed

lemma accepted_stored:
  fixes w w' :: "'z world_scheme"
  assumes "world_ok w"
    and "same_wiring s (edge_session rt_FindByEmailAddress rt_Put rt_SaveInboundReceipt (runtime_handler decode config) at sid)"
    and "decode raw = Inr parsed"
    and "pm_MessageIDHeader parsed = [] \<or>
      map_of (messagesByInboundKey (mem w)) (InboundMessageKey (i_ID (ss_targetInbox s)) (pm_MessageIDHeader parsed)) = None"
    and "session_accept s raw w = (r, w')"
  shows "\<exists>k i t c. map_of (messagesByID (mem w')) i =
    Some (inbound_message \<lparr>sm_Receipt = receipt_to_inbound (session_receipt s k at), sm_RawSizeBytes = 0\<rparr> parsed i t c)"
proof -
  obtain k h and w1 w2 :: "'z world_scheme" where base: "inbound_base decode \<lparr>sm_Receipt = receipt_to_inbound (session_receipt s k at), sm_RawSizeBytes = 0\<rparr> w1 = (Inr h, w2)"
    and "\<not> hr_Duplicate h" and p: "hr_ParsedMessage h = parsed" and "but_deliveries w' = but_deliveries w2"
    by (rule accepted_fresh [OF assms])
  from base show ?thesis
  proof (cases rule: inbound_base_cases)
    case (fresh pr w0 i)
    then show ?thesis using p but_deliveriesD(1) [OF \<open>but_deliveries w' = _\<close>] by (auto simp: recorded_defs)
  qed (use \<open>\<not> hr_Duplicate h\<close> in simp)
qed

section \<open>From the tool to the store\<close>

lemma sample_id_word: "id_word (sample_message_id now)"
proof -
  have d: "\<not> is_space c" if "is_digit c" for c using that by (auto simp: is_digit_def is_space_def byte_of_def)
  have "\<not> is_space (CHR ''-'')" by code_simp
  then have "\<forall>c \<in> set (fmt_d i). \<not> is_space c" for i
    using nat_digits_digits [of "nat \<bar>i\<bar>"] d by (auto simp: fmt_d_def list_all_iff)
  moreover have "\<forall>c \<in> set ''<sample-''. \<not> is_space c" "\<forall>c \<in> set ''@agentlayer.local>''. \<not> is_space c" by code_simp+
  ultimately show ?thesis
    unfolding id_word_def sample_message_id_def set_append by (simp only: ball_Un) simp
qed

text \<open>What a server has of a sample after it arrived.\<close>

definition sample_stored ::
    "inbox \<Rightarrow> string \<Rightarrow> string \<Rightarrow> string \<Rightarrow> mem_store \<Rightarrow> bool" where
  "sample_stored inbox messageID subject body s \<longleftrightarrow>
     (\<exists>i m. map_of (messagesByID s) i = Some m \<and> m_InboxID m = i_ID inbox \<and>
        m_OrganizationID m = i_OrganizationID inbox \<and> m_Direction m = MessageDirectionInbound \<and>
        m_MessageIDHeader m = messageID \<and> m_Subject m = trim_blank subject \<and> m_TextBody m = body @ crlf)"

lemma handed_sample:
  fixes w w' :: "'z world_scheme"
  assumes "world_ok w" and "inbox_view w to = Some inbox"
    and "plain_address from" "plain_address to" "one_line subject" "id_word messageID"
    and "\<not> sublist ''=?'' subject" and "trim_space subject \<noteq> []"
    and "map_of (messagesByInboundKey (mem w)) (InboundMessageKey (i_ID inbox) messageID) = None"
    and "reads_plain lib"
    and "handed env (parse_raw lib) from [to] (sample_message from to subject messageID body) w r w'"
  shows "sample_stored inbox messageID subject body (mem w')"
proof -
  let ?decode = "parse_raw lib" and ?raw = "sample_message from to subject messageID body"
  obtain w1 s0 w0 answer s' where m1: "mem w1 = mem w" and new0: "newSMTPSession env ?decode w1 = (Inr s0, w0)"
    and cmds: "smtp_commands (Mail from # map Rcpt [to] @ [Data (Inr ?raw)]) (s0, w0) = (answer, (s', w'))"
    using assms(11) unfolding handed_def by blast
  obtain parsed where parsed: "?decode ?raw = Inr parsed" "pm_MessageIDHeader parsed = messageID"
      "pm_TextBody parsed = body @ crlf" "pm_Subject parsed = trim_blank subject"
    using sample_parsed [OF plain_address_one_line(1) [OF assms(3)] plain_address_one_line(1) [OF assms(4)]
        assms(5,6,10,7), of body] assms(8) by auto
  let ?at = "clock_src w1 (clock_ix w1)"
  obtain config sid where s0: "s0 = edge_session rt_FindByEmailAddress rt_Put rt_SaveInboundReceipt
        (runtime_handler ?decode config) ?at sid" and m0: "mem w0 = mem w"
    using newSMTPSession_run [of env ?decode w1] new0 m1 by auto
  define s :: "'z world_scheme session" where "s = s0\<lparr>ss_sender := from, ss_recipient := to, ss_targetInbox := inbox\<rparr>"
  have ok0: "world_ok w0" using mem_eq_ok [OF m0] assms(1) by simp
  have wired: "same_wiring s (edge_session rt_FindByEmailAddress rt_Put rt_SaveInboundReceipt
        (runtime_handler ?decode config) ?at sid)" by (simp add: s_def s0)
  obtain x wa where acc: "session_accept s ?raw w0 = (x, wa)" by (cases "session_accept s ?raw w0")
  have "smtp_commands (Mail from # map Rcpt [to] @ [Data (Inr ?raw)]) (s0, w0) = (x, (s, wa))"
    using assms(2) plain_address_one_line(2) [OF assms(3)] plain_address_one_line(2) [OF assms(4)] acc
    by (cases x) (auto simp: NewAdapterSession_def session_core_def Session_Mail_def Session_Rcpt_def Session_Data_def
        go_bind_def rt_reads_run m0 inbox_view_def s_def s0)
  with cmds have wa: "wa = w'" by simp
  obtain k i t cid where "map_of (messagesByID (mem w')) i =
      Some (inbound_message \<lparr>sm_Receipt = receipt_to_inbound (session_receipt s k ?at), sm_RawSizeBytes = 0\<rparr> parsed i t cid)"
    using accepted_stored [OF ok0 wired parsed(1) _ acc] assms(9) by (auto simp: s_def parsed(2) m0 wa)
  with parsed show ?thesis
    unfolding sample_stored_def
    by (intro exI [of _ i] exI) (auto simp: inbound_message_def receipt_to_inbound_def session_receipt_def s_def)
qed

text \<open>The exit code and the output of the tool say what \<open>SendMail\<close> returned.\<close>

definition sample_of :: "gtime \<Rightarrow> flag_set \<Rightarrow> string" where
  "sample_of now fs = sample_message (flag_string fs ''from'') (flag_string fs ''to'') (flag_string fs ''subject'')
     (sample_message_id now) (flag_string fs ''body'')"

lemma runSendSample_outcome:
  assumes "flag_parse (sample_flags (ct_env c)) args = Inr fs"
    and "cn_SendMail network (flag_string fs ''smtp-addr'') (flag_string fs ''from'') [flag_string fs ''to'']
      (sample_of (ct_now c) fs) (ct_remote c) = (r, w')"
  shows "\<exists>c'. ctl_main network (''send-sample'' # args) c = (if isl r then 1 else 0, c') \<and> ct_remote c' = w' \<and>
    ct_out c' = ct_out c @ (if isl r then [] else ''sent sample email to '' @ flag_string fs ''to'' @ '' via '' @
      flag_string fs ''smtp-addr'' @ ctl_newline)"
proof -
  have "runSendSample network args c = (case r of
      Inl e \<Rightarrow> (Inl e, c\<lparr>ct_remote := w'\<rparr>)
    | Inr _ \<Rightarrow> ctl_print (''sent sample email to '' @ flag_string fs ''to'' @ '' via '' @ flag_string fs ''smtp-addr'' @
        ctl_newline) (c\<lparr>ct_remote := w'\<rparr>))"
    unfolding runSendSample_def go_bind_flags [of sample_flags, OF assms(1)]
    by (simp add: Let_def go_bind_def ctl_remote_def assms(2) [unfolded sample_of_def] split: sum.splits)
  then show ?thesis by (cases r) (simp_all add: ctl_main_def exit_code_def ctl_print_def)
qed

text \<open>C15: the whole way of a mail. Let the sample be between plain addresses, its subject and body single lines, the
  subject without encoded words, and the recipient the address of an inbox of the server that has not seen the
  id of the sample; and let the SMTP libraries carry mail as documented. If \<open>agentlayerctl send-sample\<close> exits with
  0, the server has a message in that inbox with the id the tool made up, the subject of the flag without blanks
  around it, and the body followed by a line end, and the tool has said so. It exits with 1 otherwise: then the
  store of the server either is the same as before or has that message, the session having failed after it was
  recorded or its answer having been lost.\<close>

theorem sample_mail_arrives:
  fixes c :: "'z world_scheme ctl"
  assumes "flag_parse (sample_flags (ct_env c)) args = Inr fs"
    and "world_ok (ct_remote c)" and "inbox_view (ct_remote c) (flag_string fs ''to'') = Some inbox"
    and "plain_address (flag_string fs ''from'')" "plain_address (flag_string fs ''to'')"
      "one_line (flag_string fs ''subject'')" "one_line (flag_string fs ''body'')"
    and "\<not> sublist ''=?'' (flag_string fs ''subject'')" and "trim_space (flag_string fs ''subject'') \<noteq> []"
    and "map_of (messagesByInboundKey (mem (ct_remote c)))
      (InboundMessageKey (i_ID inbox) (sample_message_id (ct_now c))) = None"
    and "reads_plain lib" and "carries network env (parse_raw lib)"
  shows "\<exists>code c'. ctl_main network (''send-sample'' # args) c = (code, c') \<and> (code = 0 \<or> code = 1) \<and>
    (sample_stored inbox (sample_message_id (ct_now c)) (flag_string fs ''subject'') (flag_string fs ''body'')
       (mem (ct_remote c')) \<or>
     code = 1 \<and> mem (ct_remote c') = mem (ct_remote c)) \<and>
    (code = 0 \<longleftrightarrow> ct_out c' = ct_out c @ ''sent sample email to '' @ flag_string fs ''to'' @ '' via '' @
       flag_string fs ''smtp-addr'' @ ctl_newline)"
proof -
  let ?from = "flag_string fs ''from''" and ?to = "flag_string fs ''to''" and ?id = "sample_message_id (ct_now c)"
  have id: "id_word ?id" by (rule sample_id_word)
  then have one: "one_line ?id" by (auto simp: id_word_def one_line_def is_space_def byte_of_def)
  obtain r w' where send: "cn_SendMail network (flag_string fs ''smtp-addr'') ?from [?to] (sample_of (ct_now c) fs)
      (ct_remote c) = (r, w')" by (metis surj_pair)
  have "crlf_lines (sample_of (ct_now c) fs)"
    unfolding sample_of_def
    by (rule sample_crlf [OF plain_address_one_line(1) [OF assms(4)] plain_address_one_line(1) [OF assms(5)]
        assms(6) one assms(7)])
  then have "handed env (parse_raw lib) ?from [?to] (sample_of (ct_now c) fs) (ct_remote c) r w' \<or>
      isl r \<and> mem w' = mem (ct_remote c)"
    using assms(4,5,12) send unfolding carries_def by (metis list.pred_inject)
  then have "sample_stored inbox ?id (flag_string fs ''subject'') (flag_string fs ''body'') (mem w') \<or>
      isl r \<and> mem w' = mem (ct_remote c)"
    using handed_sample [OF assms(2-6) id assms(8-11)] unfolding sample_of_def by blast
  with runSendSample_outcome [OF assms(1) send] show ?thesis by fastforce
qed

text \<open>The sample as it is without flags, to a server with the inbox it is for.\<close>

definition local_inbox :: inbox where
  "local_inbox = zero_inbox\<lparr>i_ID := ''inbox'', i_OrganizationID := ''org'', i_AgentID := ''agent'',
     i_EmailAddress := ''agent@localhost''\<rparr>"

definition local_server :: world where
  "local_server = demo_world (NewStore\<lparr>inboxesByID := [(''inbox'', local_inbox)],
     inboxesByEmail := [(''agent@localhost'', local_inbox)]\<rparr>)"

lemma local_server_ok: "world_ok local_server"
  by (simp add: local_server_def mem_ok_def keyed_def gmap_ok_def points_into_def NewStore_def local_inbox_def)

text \<open>A connection that is always made and never lost.\<close>

definition direct_mail :: "world ctl_net" where
  "direct_mail = \<lparr>cn_url = \<lambda>_. None, cn_do = \<lambda>q. go_fail (ErrExternal ''refused''),
     cn_SendMail = \<lambda>addr from to msg. go_bind (newSMTPSession default_env (parse_raw demo_mime)) (\<lambda>s w.
       case smtp_commands (Mail from # map Rcpt to @ [Data (Inr msg)]) (s, w) of (r, (s', w')) \<Rightarrow> (r, w'))\<rparr>"

lemma direct_mail_hands:
  assumes "cn_SendMail direct_mail addr from to msg w = (r, w')"
  shows "handed default_env (parse_raw demo_mime) from to msg w r w'"
proof -
  obtain s w0 where new: "newSMTPSession default_env (parse_raw demo_mime) w = (Inr s, w0)"
    using newSMTPSession_run [of default_env "parse_raw demo_mime" w] by blast
  obtain a s' w1 where run: "smtp_commands (Mail from # map Rcpt to @ [Data (Inr msg)]) (s, w0) = (a, (s', w1))"
    by (metis surj_pair)
  have "r = a" "w1 = w'" using assms new run by (simp_all add: direct_mail_def go_bind_def)
  with new run show ?thesis unfolding handed_def by blast
qed

lemma direct_mail_carries: "carries direct_mail default_env (parse_raw demo_mime)"
  using direct_mail_hands unfolding carries_def by blast

theorem sample_mail_arrives_witness:
  "\<exists>code c'. ctl_main direct_mail [''send-sample''] (demo_ctl\<lparr>ct_remote := local_server\<rparr>) = (code, c') \<and>
     sample_stored local_inbox (sample_message_id (ct_now demo_ctl)) ''Hello from agentlayerctl''
       ''This is a sample inbound message for AgentLayer.'' (mem (ct_remote c')) \<and>
     mem (ct_remote c') \<noteq> mem local_server"
proof -
  let ?c = "demo_ctl\<lparr>ct_remote := local_server\<rparr>" and ?fs = "sample_flags default_env"
  have fs: "flag_parse (sample_flags (ct_env ?c)) [] = Inr ?fs" by (simp add: demo_ctl_def)
  have at: "plain_address (l @ ''@'' @ d)" if "l \<noteq> []" "d \<noteq> []" "list_all address_char (l @ d)" for l d
    using that unfolding plain_address_def by blast
  have v: "flag_string ?fs ''to'' = ''agent@localhost''" "flag_string ?fs ''from'' = ''sender@example.com''"
    "one_line (flag_string ?fs ''body'')" "flag_string ?fs ''subject'' = ''Hello from agentlayerctl''"
    "flag_string ?fs ''body'' = ''This is a sample inbound message for AgentLayer.''"
    "one_line ''Hello from agentlayerctl''" "trim_space ''Hello from agentlayerctl'' \<noteq> []"
    "list_all address_char (''agent'' @ ''localhost'')" "list_all address_char (''sender'' @ ''example.com'')"
    by code_simp+
  have plain: "plain_address (flag_string ?fs ''from'')" "plain_address (flag_string ?fs ''to'')"
    using at [of "''sender''" "''example.com''"] at [of "''agent''" "''localhost''"] v by simp_all
  have ok: "world_ok (ct_remote ?c)" by (simp add: local_server_ok)
  have inbox: "inbox_view (ct_remote ?c) (flag_string ?fs ''to'') = Some local_inbox"
    and new: "map_of (messagesByInboundKey (mem (ct_remote ?c)))
      (InboundMessageKey (i_ID local_inbox) (sample_message_id (ct_now ?c))) = None"
    by (simp_all add: v(1) inbox_view_def local_server_def NewStore_def)
  have lib: "reads_plain demo_mime" by (simp add: reads_plain_def demo_mime_def)
  have q: "\<not> sublist ''=?'' ''Hello from agentlayerctl''" by (simp add: sublist_Cons_right)
  obtain code c' where run: "ctl_main direct_mail [''send-sample''] ?c = (code, c')"
    and out: "sample_stored local_inbox (sample_message_id (ct_now ?c)) (flag_string ?fs ''subject'')
       (flag_string ?fs ''body'') (mem (ct_remote c')) \<or> code = 1 \<and> mem (ct_remote c') = mem (ct_remote ?c)"
    using sample_mail_arrives [OF fs ok inbox plain _ v(3) _ _ new lib direct_mail_carries, unfolded v(4), OF v(6) q v(7)]
    by (auto simp: v(4))
  obtain r w' where send: "cn_SendMail direct_mail (flag_string ?fs ''smtp-addr'') (flag_string ?fs ''from'')
      [flag_string ?fs ''to''] (sample_of (ct_now ?c) ?fs) (ct_remote ?c) = (r, w')" by (metis surj_pair)
  have "sample_stored local_inbox (sample_message_id (ct_now ?c)) (flag_string ?fs ''subject'')
       (flag_string ?fs ''body'') (mem w')"
    using handed_sample [OF ok inbox plain _ sample_id_word _ _ new lib direct_mail_hands [OF send, unfolded sample_of_def]]
      v(6,7) q by (simp add: v(4))
  moreover have "ct_remote c' = w'" using runSendSample_outcome [OF fs send] run by auto
  moreover have "\<not> sample_stored i a b d (mem local_server)" for i a b d
    by (simp add: sample_stored_def local_server_def NewStore_def)
  ultimately show ?thesis using run by (auto simp: v(4,5) demo_ctl_def)
qed

end
