(* ===== verification/Reply_History.thy ===== *)
theory Reply_History
  imports System
begin

text \<open>
  Replies over the life of the process: what every later step of the system leaves of a recorded
  submission, so that a request that repeats its key finds it.
\<close>

section \<open>What is kept\<close>

text \<open>Threads and messages stay, perhaps updated, and so does a submission whose message is stored.\<close>

definition kept :: "mem_store \<Rightarrow> mem_store \<Rightarrow> bool" where
  "kept s s' \<longleftrightarrow> dom (map_of (threadsByID s)) \<subseteq> dom (map_of (threadsByID s')) \<and>
     dom (map_of (messagesByID s)) \<subseteq> dom (map_of (messagesByID s')) \<and>
     (\<forall>k i. map_of (replySubmissionsByKey s) k = Some i \<and> i \<in> dom (map_of (messagesByID s)) \<longrightarrow>
       map_of (replySubmissionsByKey s') k = Some i)"

lemma kept_refl [simp]: "kept s s"
  by (simp add: kept_def)

lemma kept_trans: "kept s t \<Longrightarrow> kept t u \<Longrightarrow> kept s u"
  unfolding kept_def by (meson subset_trans subsetD)

lemma kept_submission:
  assumes "kept s s'" and "map_of (replySubmissionsByKey s) k = Some i" and "map_of (messagesByID s) i = Some m"
    and "map_of (threadsByID s) j = Some t"
  shows "\<exists>m' t'. map_of (replySubmissionsByKey s') k = Some i \<and> map_of (messagesByID s') i = Some m' \<and>
    map_of (threadsByID s') j = Some t'"
proof -
  have "i \<in> dom (map_of (messagesByID s'))" "j \<in> dom (map_of (threadsByID s'))"
    using assms unfolding kept_def by blast+
  moreover have "map_of (replySubmissionsByKey s') k = Some i" using assms unfolding kept_def by blast
  ultimately show ?thesis by blast
qed

definition keeps_replies :: "('z world_scheme, 'a) go \<Rightarrow> bool" where
  "keeps_replies m \<longleftrightarrow> (\<forall>w r w'. m w = (r, w') \<longrightarrow> kept (mem w) (mem w'))"

lemma keeps_repliesD: "keeps_replies m \<Longrightarrow> m w = (r, w') \<Longrightarrow> kept (mem w) (mem w')"
  by (simp add: keeps_replies_def)

named_theorems keeps_replies_rules

lemma keeps_replies_frames: "frames mem m \<Longrightarrow> keeps_replies m"
  unfolding keeps_replies_def by (metis framesD kept_refl)

lemma keeps_replies_bind [keeps_replies_rules]:
  fixes m :: "('z world_scheme, 'a) go"
  assumes "keeps_replies m" and "\<And>x. keeps_replies (f x)"
  shows "keeps_replies (go_bind m f)"
  unfolding keeps_replies_def
proof (intro allI impI)
  fix w w' :: "'z world_scheme" and r
  assume run: "go_bind m f w = (r, w')"
  obtain x and w1 :: "'z world_scheme" where m: "m w = (x, w1)" by (cases "m w")
  have one: "kept (mem w) (mem w1)" by (rule keeps_repliesD [OF assms(1) m])
  show "kept (mem w) (mem w')"
  proof (cases x)
    case (Inr y)
    with run m have "f y w1 = (r, w')" by (simp add: go_bind_def)
    from kept_trans [OF one keeps_repliesD [OF assms(2) this]] show ?thesis .
  qed (use run m one in \<open>simp add: go_bind_def\<close>)
qed

lemma keeps_replies_simple [keeps_replies_rules]:
  "keeps_replies (go_ret x)" "keeps_replies (go_fail e)" "keeps_replies (go_lift y)"
  by (simp_all add: keeps_replies_frames)

lemma keeps_replies_try [keeps_replies_rules]: "keeps_replies m \<Longrightarrow> keeps_replies (go_try m)"
  unfolding keeps_replies_def go_try_def by (auto split: prod.splits)

lemma keeps_replies_if [keeps_replies_rules]:
  "(b \<Longrightarrow> keeps_replies m) \<Longrightarrow> (\<not> b \<Longrightarrow> keeps_replies m') \<Longrightarrow> keeps_replies (if b then m else m')"
  by simp

lemma keeps_replies_option [keeps_replies_rules]:
  "keeps_replies m \<Longrightarrow> (\<And>y. keeps_replies (f y)) \<Longrightarrow> keeps_replies (case x of None \<Rightarrow> m | Some y \<Rightarrow> f y)"
  by (cases x) simp_all

lemmas keeps_replies_reads [keeps_replies_rules] = frames_mem_env [THEN keeps_replies_frames]
  frames_rt_reads [THEN keeps_replies_frames] frames_newInboundProcessor [THEN keeps_replies_frames]
  frames_find_duplicate [THEN keeps_replies_frames] frames_Dispatch [THEN keeps_replies_frames]

lemma kept_index_message: "kept s (index_message m s)"
  by (auto simp: kept_def)

lemma keeps_replies_writes [keeps_replies_rules]:
  "keeps_replies (rt_Save t)" "keeps_replies (rt_UpsertByEmail c)" "keeps_replies (rt_Create m)"
  "keeps_replies (rt_SaveMessage m)" "keeps_replies (rt_Put k d)" "keeps_replies (rt_SaveInboundReceipt q)"
  "keeps_replies (rt_SaveWebhookDelivery d')" "keeps_replies (rt_SaveSuppression a)" "keeps_replies (rt_CreateMemory e)"
  "keeps_replies (rt_SaveOrganization o')" "keeps_replies (rt_SaveAgent g)" "keeps_replies (rt_SaveInbox i)"
  by (auto simp: keeps_replies_def kept_def rt_eqs Store_Save_def Store_UpsertByEmail_def Store_Create_def
      Store_SaveMessage_def Store_Put_def Store_SaveInboundReceipt_def Store_SaveWebhookDelivery_def
      Store_SaveSuppression_def Store_CreateMemory_def Store_SaveOrganization_def Store_SaveAgent_def
      Store_SaveInbox_def Let_def)

section \<open>The services keep replies\<close>

lemma keeps_replies_inbound_base [keeps_replies_rules]: "keeps_replies (inbound_base decode stored)"
  unfolding inbound_base_def HandleStoredMessage_def newInboundRecorder_def inbound_Record_def newMessageID_def
  by (intro keeps_replies_rules)

lemma keeps_replies_deliver [keeps_replies_rules]: "keeps_replies (newMessageReceivedDeliveryService url secret bi)"
  unfolding newMessageReceivedDeliveryService_def DeliverAndRecordMessageReceived_def
    DeliverMessageReceived_def RecordAttempt_def Signer_Sign_def Let_def split_beta
  by (intro keeps_replies_rules)

lemma keeps_replies_runtime [keeps_replies_rules]: "keeps_replies (runtime_handler decode config stored)"
  unfolding runtime_handler_def InboundRuntime_HandleStoredMessage_def dispatch_handled_def
    newMessageReceivedDelivery_def randomHexID_def option.case
  by (intro keeps_replies_rules)

lemma keeps_replies_SendReply:
  assumes "\<And>q. frames mem (ep_Send provider q)"
  shows "keeps_replies (SendReply (newReplyService provider) input)"
  unfolding SendReply_def send_unsuppressed_def newReplyService_def reply_service.simps
    AssembleReply_def RecordQueuedReply_def queue_recorder.simps SendQueuedReply_def RecordSent_def
    newOutboundMessageID_def Let_def option.case split_beta
  by (intro keeps_replies_rules keeps_replies_frames [OF assms])

lemma rt_reply_adapter_save: "ad_SaveSubmission rt_reply_adapter = rt_SaveReplySubmission"
  by (simp add: rt_reply_adapter_def)

text \<open>The handler writes a submission only under a key that has no stored message.\<close>

lemma keeps_replies_handler:
  fixes provider :: "'z world_scheme email_provider"
  assumes "\<And>q. frames mem (ep_Send provider q)"
  shows "keeps_replies (newReplyHandlerService provider input)"
  unfolding keeps_replies_def
proof (intro allI impI)
  fix w w' :: "'z world_scheme" and r
  assume run: "newReplyHandlerService provider input w = (r, w')"
  let ?k = "ReplySubmissionKey (t_ID (si_Thread input)) (si_IdempotencyKey input)"
  obtain x and w1 :: "'z world_scheme" where find: "find_submission rt_reply_adapter input w = (x, w1)"
    by (cases "find_submission rt_reply_adapter input w")
  have w1: "w1 = w" by (rule find_submission_reads [OF find])
  obtain y and w2 :: "'z world_scheme" where load: "load_reply rt_reply_adapter input w = (y, w2)"
    by (cases "load_reply rt_reply_adapter input w")
  have w2: "w2 = w" using load_reply_run [OF load] by simp
  show "kept (mem w) (mem w')"
  proof (cases "x = Inr None \<and> (\<exists>l. y = Inr l)")
    case False
    with run find load have "w' = w"
      by (cases x; cases y) (auto simp: newReplyHandlerService_def replyServiceAdapter_def go_bind_def w1 w2 split: option.splits)
    then show ?thesis by simp
  next
    case True
    then obtain l where l: "x = Inr None" "y = Inr l" by blast
    obtain z and w3 :: "'z world_scheme" where send: "SendReply (newReplyService provider) l w = (z, w3)"
      by (cases "SendReply (newReplyService provider) l w")
    have sent: "kept (mem w) (mem w3)" by (rule keeps_repliesD [OF keeps_replies_SendReply [OF assms] send])
    show ?thesis
    proof (cases "isl z \<or> si_IdempotencyKey input = []")
      case True
      with run find load l send have "w' = w3"
        by (cases z) (auto simp: newReplyHandlerService_def replyServiceAdapter_def go_bind_def w1 w2)
      with sent show ?thesis by simp
    next
      case False
      then obtain res where res: "z = Inr res" and key: "si_IdempotencyKey input \<noteq> []" by (cases z) auto
      have w': "mem w' = (mem w3)\<lparr>replySubmissionsByKey := gput ?k (m_ID (so_Message res)) (replySubmissionsByKey (mem w3))\<rparr>"
        using run find load l send res key
        by (auto simp: newReplyHandlerService_def replyServiceAdapter_def go_bind_def w1 w2 rt_submission_run
            rt_reply_adapter_save)
      have "i \<notin> dom (map_of (messagesByID (mem w)))" if "map_of (replySubmissionsByKey (mem w)) ?k = Some i" for i
        using find l(1) key that
        by (auto simp: find_submission_def rt_reply_adapter_def go_bind_def rt_submission_run rt_reads_run
            found_or_def split: option.splits sum.splits)
      then show ?thesis using sent by (auto simp: kept_def w')
    qed
  qed
qed

lemma keeps_replies_Replay [keeps_replies_rules]: "keeps_replies (rt_ReplayDelivery k)"
  unfolding rt_ReplayDelivery_def ReplayDelivery_def RecordAttempt_def Let_def
  by (intro keeps_replies_rules)

lemma keeps_replies_sweep_loop [keeps_replies_rules]: "keeps_replies (sweep_loop rt_ReplayDelivery at ds res)"
proof (induction ds arbitrary: res)
  case (Cons d ds)
  then show ?case by (auto simp: Let_def intro!: keeps_replies_rules split: sum.split)
qed (simp add: keeps_replies_rules)

lemma keeps_replies_serve:
  assumes "\<And>q. frames mem (ep_Send provider q)"
  shows "keeps_replies (serve decode provider config q)"
proof (cases q)
  case (Reply input)
  then show ?thesis by (simp add: keeps_replies_rules keeps_replies_handler [OF assms])
next
  case (Callback event contact)
  show ?thesis
    unfolding Callback serve.simps newOutboundCallbackFlow_def CallbackFlow_Apply_def ApplyCallback_def RecordStatus_def
      Suppression_Apply_def newSuppressionID_def split_beta
    by (intro keeps_replies_rules)
qed (simp_all only: serve.simps newThreadEscalationHandlerService_def threadEscalationServiceAdapter_def EscalateThread_def
    newContactMemoryHandlerService_def contactMemoryServiceAdapter_def CreateContactMemory_def newContactMemoryID_def
    runOnce_def newWebhookRetrySweepService_def RetryDueDeliveries_def newInboundReprocessService_def ReprocessByObjectKey_def
    newBootstrapService_def BootstrapLocal_def Let_def, (intro keeps_replies_rules)+)

lemma session_keeps_replies:
  assumes "served decode s" and run: "AdapterSession_call (NewAdapterSession session_core) cmd (s, w) = (r, (s', w'))"
  shows "kept (mem w) (mem w')"
proof -
  obtain config at sid where wired: "same_wiring s (edge_session rt_FindByEmailAddress rt_Put
      rt_SaveInboundReceipt (runtime_handler decode config) at sid)"
    using assms(1) unfolding served_def by blast
  note parts = same_wiringD [OF wired]
  have accept: "keeps_replies (session_accept s raw)" for raw
    unfolding session_accept_def using parts
    by (simp add: Enqueue_def NewRawMessageObjectKey_def randomHex_def Let_def)
      (intro conjI impI keeps_replies_rules)
  show ?thesis
  proof (cases cmd)
    case (Rcpt to)
    then show ?thesis
      using run parts by (auto simp: NewAdapterSession_def session_core_def Session_Rcpt_def rt_reads_run
          split: if_splits option.splits)
  next
    case (Data reader)
    then show ?thesis
      using run keeps_repliesD [OF accept]
      by (auto simp: NewAdapterSession_def session_core_def Session_Data_def split: if_splits sum.splits prod.splits)
  qed (use run in \<open>auto simp: NewAdapterSession_def session_core_def Session_Mail_def split: if_splits\<close>)
qed

lemma step_keeps_replies:
  assumes prov: "\<And>q. frames mem (ep_Send provider q)"
    and "sys_step env decode provider config st st'" and "system_inv decode st"
  shows "kept (mem (snd st)) (mem (snd st'))"
  using assms(2,3)
proof (cases rule: sys_step.cases)
  case (connect w s w' ss)
  then show ?thesis using newSMTPSession_run [of env decode w] by auto
next
  case (command i ss cmd w r s' w')
  then have "served decode (ss ! i)" using assms(3) by (auto simp: system_inv_def)
  from session_keeps_replies [OF this command(4)] command show ?thesis by simp
next
  case (request q w r w' ss)
  with keeps_repliesD [OF keeps_replies_serve [OF prov]] show ?thesis by simp
qed simp

lemma steps_keep_replies:
  assumes prov: "\<And>q. frames mem (ep_Send provider q)"
    and "(sys_step env decode provider config)\<^sup>*\<^sup>* st st'" and "system_inv decode st"
  shows "kept (mem (snd st)) (mem (snd st')) \<and> system_inv decode st'"
  using assms(2,3)
proof (induction rule: rtranclp_induct)
  case (step y z)
  then show ?case
    using step_keeps_replies [OF prov step.hyps(2)] step_inv [OF prov step.hyps(2)] by (blast intro: kept_trans)
qed simp

section \<open>A repeated request\<close>

text \<open>C11: a reply is sent once per idempotency key, for the rest of the life of the process. Once a request with a
  key has succeeded, then after any sequence of steps of the system (requests, callbacks, mail, sweeps, other
  sends, failing or not) every request with that key for that thread, whatever else it asks for and whichever
  provider is configured, succeeds with the same message, as it and its thread are recorded by then,
  with the provider id and the time of sending on record; it changes nothing and sends nothing.
  Repeated at once it returns the very first result.\<close>

theorem reply_idempotent:
  fixes w w' v :: world
  assumes "\<And>q. frames mem (ep_Send provider q)" and "system_inv decode (ss, w)"
    and "si_IdempotencyKey input \<noteq> []" and "newReplyHandlerService provider input w = (Inr r, w')"
    and "(sys_step env decode provider config)\<^sup>*\<^sup>* (ss, w') (ss', v)"
    and "t_ID (si_Thread again) = t_ID (si_Thread input)"
    and "si_IdempotencyKey again = si_IdempotencyKey input"
  shows "\<exists>r'. newReplyHandlerService provider' again v = (Inr r', v) \<and>
    m_ID (so_Message r') = m_ID (so_Message r) \<and>
    map_of (messagesByID (mem v)) (m_ID (so_Message r)) = Some (so_Message r') \<and>
    map_of (threadsByID (mem v)) (t_ID (si_Thread input)) = Some (so_Thread r') \<and>
    so_SendResult r' = \<lparr>sr_ProviderMessageID = m_ProviderMessageID (so_Message r'),
      sr_AcceptedAt = m_SentAt (so_Message r')\<rparr> \<and>
    (mem v = mem w' \<longrightarrow> r' = r)"
proof -
  let ?t = "t_ID (si_Thread input)" and ?k = "si_IdempotencyKey input"
  note inv = assms(2)
  then have ok: "world_ok w" by (simp add: system_inv_def sys_ok_def)
  have "sys_step env decode provider config (ss, w) (ss, w')"
    by (rule sys_step.request [where q = "Reply input"]) (simp add: go_bind_def assms(4))
  then have inv': "system_inv decode (ss, w')" using inv by (rule step_inv [OF assms(1)])
  have sub: "submitted (mem w') ?t ?k r" by (rule newReplyHandlerService_submitted [OF ok assms(1,3,4)])
  then obtain i where i: "map_of (replySubmissionsByKey (mem w')) (ReplySubmissionKey ?t ?k) = Some i"
    "map_of (messagesByID (mem w')) i = Some (so_Message r)" "map_of (threadsByID (mem w')) ?t = Some (so_Thread r)"
    by (auto simp: submitted_def)
  from steps_keep_replies [OF assms(1,5) inv'] have k: "kept (mem w') (mem v)" and v: "world_ok v"
    by (simp_all add: system_inv_def sys_ok_def)
  obtain m t where later: "map_of (replySubmissionsByKey (mem v)) (ReplySubmissionKey ?t ?k) = Some i"
    "map_of (messagesByID (mem v)) i = Some m" "map_of (threadsByID (mem v)) ?t = Some t"
    using kept_submission [OF k i] by blast
  define r' where "r' = reply_from_existing t m"
  have sel: "so_Message r' = m" "so_Thread r' = t"
    "so_SendResult r' = \<lparr>sr_ProviderMessageID = m_ProviderMessageID m, sr_AcceptedAt = m_SentAt m\<rparr>"
    by (simp_all add: r'_def reply_from_existing_def)
  have sub': "submitted (mem v) ?t ?k r'"
    using later by (auto simp: submitted_def sel) (simp add: r'_def)
  then have "find_submission rt_reply_adapter again v = (Inr (Some r'), v)"
    using find_submission_iff [of again v r' v] assms(3,6,7) by simp
  then have run: "newReplyHandlerService provider' again v = (Inr r', v)"
    by (simp add: newReplyHandlerService_def replyServiceAdapter_def go_bind_def)
  have "keyed m_ID (messagesByID (mem v))" "keyed m_ID (messagesByID (mem w'))"
    using v inv' by (simp_all add: system_inv_def sys_ok_def world_ok_def mem_ok_def)
  then have ids: "m_ID m = i" "m_ID (so_Message r) = i" using later(2) i(2) by (auto dest: keyedD)
  have "r' = r" if "mem v = mem w'" using submitted_unique [OF sub' [unfolded that] sub] .
  with run later ids sel show ?thesis by (intro exI [of _ r']) simp
qed

lemma demo_runtime_good: "sys_ok (demo_world demo_runtime_store)"
proof -
  have "linked demo_runtime_store" "durable demo_runtime_store"
    by (simp_all add: linked_def durable_def message_facts_def demo_runtime_store_def demo_defs slice_at_def)
  then show ?thesis by (simp add: sys_ok_def demo_runtime_store_ok world_ok_def)
qed

text \<open>Between the two requests the thread is escalated and a sweep runs; the second request has another
  text and a provider that refuses everything.\<close>

theorem reply_idempotent_witness:
  "\<exists>r w' x u y v r'. newReplyHandlerService dev_provider (demo_request ''k1'' ''Hello'') (demo_world demo_runtime_store) = (Inr r, w') \<and>
     serve demo_decode dev_provider demo_config (Escalate ''thread-1'') w' = (x, u) \<and>
     serve demo_decode dev_provider demo_config (Sweep 5) u = (y, v) \<and>
     newReplyHandlerService failing_provider (demo_request ''k1'' ''Other'') v = (Inr r', v) \<and>
     m_ID (so_Message r') = m_ID (so_Message r)"
proof -
  let ?step = "sys_step (\<lambda>_. []) demo_decode dev_provider demo_config"
  obtain r w' where run: "newReplyHandlerService dev_provider (demo_request ''k1'' ''Hello'') (demo_world demo_runtime_store) = (Inr r, w')"
    using demo_request_sent by blast
  obtain x and u :: world where esc: "serve demo_decode dev_provider demo_config (Escalate ''thread-1'') w' = (x, u)"
    by (cases "serve demo_decode dev_provider demo_config (Escalate ''thread-1'') w'")
  obtain y and v :: world where sweep: "serve demo_decode dev_provider demo_config (Sweep 5) u = (y, v)"
    by (cases "serve demo_decode dev_provider demo_config (Sweep 5) u")
  have steps: "?step\<^sup>*\<^sup>* ([], w') ([], v)"
    using sys_step.request [OF esc] sys_step.request [OF sweep] by (meson converse_rtranclp_into_rtranclp r_into_rtranclp)
  have inv: "system_inv demo_decode ([], demo_world demo_runtime_store)"
    by (simp add: system_inv_def demo_runtime_good)
  have key: "si_IdempotencyKey (demo_request ''k1'' ''Hello'') \<noteq> []" by (simp add: demo_request_def)
  obtain r' where "newReplyHandlerService failing_provider (demo_request ''k1'' ''Other'') v = (Inr r', v)"
    "m_ID (so_Message r') = m_ID (so_Message r)"
    using reply_idempotent [OF frames_dev_provider inv key run steps,
        where again = "demo_request ''k1'' ''Other''" and provider' = failing_provider]
    by (auto simp: demo_request_def)
  with run esc sweep show ?thesis by blast
qed

end
