(* ===== verification/Conversation.thy ===== *)
theory Conversation
  imports Sample_Mail Reply_History
begin

text \<open>
  A conversation: a mail that answers a recorded message comes in through an SMTP session of the running system.
  The parts of the way are the session, the parser's result, the thread resolver and the recorder.
\<close>

section \<open>The thread a mail answers\<close>

text \<open>\<open>i\<close> is the thread of a stored message that the mail names as the one it answers.\<close>

definition answers :: "thread set \<times> message set \<Rightarrow> parsed_message \<Rightarrow> string \<Rightarrow> bool" where
  "answers v p i \<longleftrightarrow> i \<in> t_ID ` fst v \<and> (\<exists>m \<in> snd v. m_MessageIDHeader m = pm_InReplyTo p \<and> m_ThreadID m = i)"

lemma resolution_of_answer:
  assumes "resolution_spec v threshold input res" and "pm_InReplyTo (ti_ParsedMessage input) \<noteq> []"
    and "\<exists>m \<in> snd v. m_MessageIDHeader m = pm_InReplyTo (ti_ParsedMessage input)"
  shows "\<not> tr_Created res \<and> answers v (ti_ParsedMessage input) (t_ID (tr_Thread res))"
proof -
  have "by_reply v (ti_ParsedMessage input) res"
    using assms by (auto simp: resolution_spec_def Let_def no_reply_def uncited_def)
  then show ?thesis by (auto simp: by_reply_def answers_def cites_def matched_def)
qed

section \<open>A mail that answers a message\<close>

lemma Processor_thread:
  assumes "world_ok w" and "attached (thread_view w)" and "newInboundProcessor decode stored w = (Inr pr, w')"
    and "pm_InReplyTo (pr_ParsedMessage pr) \<noteq> []"
    and "\<exists>m \<in> snd (thread_view w). m_MessageIDHeader m = pm_InReplyTo (pr_ParsedMessage pr)"
  shows "\<not> pr_ThreadCreated pr \<and> answers (thread_view w) (pr_ParsedMessage pr) (t_ID (pr_Thread pr))"
proof -
  obtain parsed cr w1 tr w2 ti where c: "contacts_Resolve rt_FindByEmail
      \<lparr>ci_OrganizationID = ir_OrganizationID (sm_Receipt stored), ci_ParsedMessage = parsed,
       ci_ReceivedAt = ir_ReceivedAt (sm_Receipt stored)\<rparr> w = (Inr cr, w1)"
    and t: "threading_Resolve rt_FindByMessageID rt_FindMostRecentBySubject NewResolver ti w1 = (Inr tr, w2)"
    and ti: "ti_ParsedMessage ti = pr_ParsedMessage pr"
    and pr: "pr_Thread pr = tr_Thread tr" "pr_ThreadCreated pr = tr_Created tr"
    using assms(3)
    by (auto simp: newInboundProcessor_def Processor_Process_def Parser_Parse_def Let_def go_bind_Inr_iff rt_Get_run)
  have m: "mem w1 = mem w" by (rule framesD [OF frames_contacts_Resolve, OF c])
  then have v: "thread_view w1 = thread_view w" and "world_ok w1"
    using assms(1) mem_eq_ok [OF m] by (simp_all add: thread_view_def)
  with threads.Resolve_spec [OF _ _ t] assms(2) have "resolution_spec (thread_view w) NewResolver ti tr" by simp
  from resolution_of_answer [OF this] assms(4,5) ti pr show ?thesis by simp
qed

lemma inbound_base_thread:
  assumes "world_ok w" and "attached (thread_view w)" and "inbound_base decode stored w = (Inr h, w')" and "\<not> hr_Duplicate h"
    and "pm_InReplyTo (hr_ParsedMessage h) \<noteq> []"
    and "\<exists>m \<in> snd (thread_view w). m_MessageIDHeader m = pm_InReplyTo (hr_ParsedMessage h)"
  shows "\<not> hr_ThreadCreated h \<and> answers (thread_view w) (hr_ParsedMessage h) (m_ThreadID (hr_Message h))"
proof -
  obtain pr w0 where p: "newInboundProcessor decode stored w = (Inr pr, w0)"
    and rest: "go_bind (find_duplicate (Some rt_duplicates) stored (pr_ParsedMessage pr)) (\<lambda>dup. case dup of
       Some result \<Rightarrow> go_ret result
     | None \<Rightarrow>
         go_bind (newInboundRecorder stored pr) (\<lambda>recorded.
         go_ret \<lparr>hr_ParsedMessage = pr_ParsedMessage pr, hr_Contact = rr_Contact recorded,
                 hr_Thread = rr_Thread recorded, hr_Message = rr_Message recorded,
                 hr_ThreadMatchStrategy = pr_ThreadMatchStrategy pr,
                 hr_ThreadCreated = pr_ThreadCreated pr, hr_Duplicate = False\<rparr>)) w0 = (Inr h, w')"
    using assms(3) unfolding inbound_base_def HandleStoredMessage_def by (rule go_bind_InrE)
  from rest obtain d w1 where d: "find_duplicate (Some rt_duplicates) stored (pr_ParsedMessage pr) w0 = (Inr d, w1)"
    and fin: "(case d of Some result \<Rightarrow> go_ret result
     | None \<Rightarrow>
         go_bind (newInboundRecorder stored pr) (\<lambda>recorded.
         go_ret \<lparr>hr_ParsedMessage = pr_ParsedMessage pr, hr_Contact = rr_Contact recorded,
                 hr_Thread = rr_Thread recorded, hr_Message = rr_Message recorded,
                 hr_ThreadMatchStrategy = pr_ThreadMatchStrategy pr,
                 hr_ThreadCreated = pr_ThreadCreated pr, hr_Duplicate = False\<rparr>)) w1 = (Inr h, w')"
    by (rule go_bind_InrE)
  have "d = None"
  proof (rule ccontr)
    assume "d \<noteq> None"
    then obtain x where x: "d = Some x" by blast
    with fin have "h = x" by simp
    with find_duplicate_SomeD [OF d [unfolded x]] assms(4) show False by simp
  qed
  with fin obtain rr w2 where rec: "newInboundRecorder stored pr w1 = (Inr rr, w2)"
    and h: "hr_ParsedMessage h = pr_ParsedMessage pr" "hr_Message h = rr_Message rr" "hr_ThreadCreated h = pr_ThreadCreated pr"
    by (auto simp: go_bind_Inr_iff)
  from inbound_Record_run [OF rec] have "m_ThreadID (hr_Message h) = t_ID (pr_Thread pr)" by (auto simp: h)
  with Processor_thread [OF assms(1,2) p] assms(5,6) h show ?thesis by simp
qed

lemma sys_attached:
  assumes "sys_ok w"
  shows "attached (thread_view w)"
  unfolding attached_def thread_view_def fst_conv snd_conv
proof
  fix m assume "m \<in> ran (map_of (messagesByID (mem w)))"
  then have "holds (HasThread (m_ThreadID m)) (mem w)"
    using assms unfolding sys_ok_def linked_def message_facts_def by blast
  then obtain t where t: "map_of (threadsByID (mem w)) (m_ThreadID m) = Some t" by auto
  moreover have "keyed t_ID (threadsByID (mem w))" using assms by (simp add: sys_ok_def world_ok_def mem_ok_def)
  ultimately show "\<exists>t \<in> ran (map_of (threadsByID (mem w))). t_ID t = m_ThreadID m"
    by (metis keyedD ranI)
qed

text \<open>What the store has of an answer: the message, in a thread of the message it answers, and no other change.\<close>

definition answer_stored :: "mem_store \<Rightarrow> parsed_message \<Rightarrow> inbox \<Rightarrow> message \<Rightarrow> mem_store \<Rightarrow> bool" where
  "answer_stored s p inbox m s' \<longleftrightarrow>
     map_of (messagesByID s') = (map_of (messagesByID s))(m_ID m \<mapsto> m) \<and>
     m_Direction m = MessageDirectionInbound \<and> m_InboxID m = i_ID inbox \<and>
     m_MessageIDHeader m = pm_MessageIDHeader p \<and> m_InReplyTo m = pm_InReplyTo p \<and> m_TextBody m = pm_TextBody p \<and>
     (\<exists>j m1. map_of (messagesByID s) j = Some m1 \<and> m_MessageIDHeader m1 = pm_InReplyTo p \<and>
        m_ThreadID m = m_ThreadID m1) \<and>
     (\<exists>t0 t. map_of (threadsByID s) (m_ThreadID m) = Some t0 \<and>
        map_of (threadsByID s') = (map_of (threadsByID s))(m_ThreadID m \<mapsto> t) \<and> t_LastInboundID t = m_ID m)"

lemma answer_recorded:
  fixes w w' :: "'z world_scheme"
  assumes "world_ok w" and "attached (thread_view w)"
    and "same_wiring s (edge_session rt_FindByEmailAddress rt_Put rt_SaveInboundReceipt (runtime_handler decode config) at sid)"
    and "decode raw = Inr parsed"
    and "pm_MessageIDHeader parsed = [] \<or>
      map_of (messagesByInboundKey (mem w)) (InboundMessageKey (i_ID (ss_targetInbox s)) (pm_MessageIDHeader parsed)) = None"
    and "session_accept s raw w = (r, w')"
    and "pm_InReplyTo parsed \<noteq> []"
    and "map_of (messagesByID (mem w)) k0 = Some m0" and "m_MessageIDHeader m0 = pm_InReplyTo parsed"
  shows "\<exists>m. answer_stored (mem w) parsed (ss_targetInbox s) m (mem w')"
proof -
  obtain k h and w1 w2 :: "'z world_scheme" where ok: "world_ok w1"
    and same: "messagesByID (mem w1) = messagesByID (mem w)" "threadsByID (mem w1) = threadsByID (mem w)"
    and base: "inbound_base decode \<lparr>sm_Receipt = receipt_to_inbound (session_receipt s k at), sm_RawSizeBytes = 0\<rparr> w1 = (Inr h, w2)"
    and new: "\<not> hr_Duplicate h" and p: "hr_ParsedMessage h = parsed" and after: "but_deliveries w' = but_deliveries w2"
    by (rule accepted_fresh [OF assms(1,3-6)])
  have view: "thread_view w1 = thread_view w" by (simp add: thread_view_def same)
  have cited: "\<exists>m \<in> snd (thread_view w). m_MessageIDHeader m = pm_InReplyTo parsed"
    using assms(8,9) by (auto simp: thread_view_def intro!: bexI [of _ m0] ranI [of _ k0])
  have thread: "answers (thread_view w) parsed (m_ThreadID (hr_Message h))"
    using inbound_base_thread [OF ok _ base new] assms(2,7) cited by (simp add: view p)
  then obtain j m1 where m1: "map_of (messagesByID (mem w)) j = Some m1" "m_MessageIDHeader m1 = pm_InReplyTo parsed"
      "m_ThreadID (hr_Message h) = m_ThreadID m1"
    by (auto simp: answers_def thread_view_def ran_def)
  from thread assms(1) obtain t0 where t0: "map_of (threadsByID (mem w)) (m_ThreadID (hr_Message h)) = Some t0"
    by (auto simp: answers_def thread_view_def world_ok_def mem_ok_def ran_def dest: keyedD)
  from base show ?thesis
  proof (cases rule: inbound_base_cases)
    case (fresh pr w0 j')
    then have ids: "t_ID (hr_Thread h) = m_ThreadID (hr_Message h)" "t_LastInboundID (hr_Thread h) = m_ID (hr_Message h)"
      by simp_all
    have maps: "map_of (messagesByID (mem w')) = (map_of (messagesByID (mem w)))(m_ID (hr_Message h) \<mapsto> hr_Message h)"
      "map_of (threadsByID (mem w')) = (map_of (threadsByID (mem w)))(m_ThreadID (hr_Message h) \<mapsto> hr_Thread h)"
      using fresh(8,9) ids but_deliveriesD [OF after] by (simp_all add: recorded_defs same fresh(4))
    have m: "m_Direction (hr_Message h) = MessageDirectionInbound" "m_InboxID (hr_Message h) = i_ID (ss_targetInbox s)"
      "m_MessageIDHeader (hr_Message h) = pm_MessageIDHeader parsed" "m_InReplyTo (hr_Message h) = pm_InReplyTo parsed"
      "m_TextBody (hr_Message h) = pm_TextBody parsed"
      using fresh(4-9) p by (simp_all add: inbound_message_def receipt_to_inbound_def session_receipt_def)
    show ?thesis
      unfolding answer_stored_def using maps m m1 t0 ids(2) by (intro exI [of _ "hr_Message h"] conjI) auto
  qed (use new in simp)
qed

section \<open>An answer\<close>

text \<open>C16: a conversation stays together. In every state in which the invariant of C4 holds, so in every one the
  process can reach, let a mail arrive in a session that has a sender and a recipient, from whomever, at whatever
  inbox and with whatever subject. If its bytes parse, its In-Reply-To is the id of a message on record, a
  reply of the agent or a mail, and the inbox has not had its own id, then it is recorded as an inbound message of
  that inbox in the thread of a message with the id it names: no thread is opened, that thread points at it,
  and no other thread or message changes, whatever becomes of the announcement and so of the session's answer.
  All replies carry one id, so when replies were sent in several threads the named messages are of several
  threads, and the mail goes to one of those; when they are all of one thread, to that one.\<close>

theorem answer_continues_thread:
  fixes w w' :: world
  assumes "system_inv decode (ss, w)" and "s \<in> set ss" and "ss_sender s \<noteq> []" and "ss_recipient s \<noteq> []"
    and "decode raw = Inr parsed" and "pm_InReplyTo parsed \<noteq> []"
    and "map_of (messagesByID (mem w)) k0 = Some m0" and "m_MessageIDHeader m0 = pm_InReplyTo parsed"
    and "pm_MessageIDHeader parsed = [] \<or>
      map_of (messagesByInboundKey (mem w)) (InboundMessageKey (i_ID (ss_targetInbox s)) (pm_MessageIDHeader parsed)) = None"
    and "AdapterSession_call (NewAdapterSession session_core) (Data (Inr raw)) (s, w) = (r, (s', w'))"
  shows "s' = s \<and> (\<exists>m. answer_stored (mem w) parsed (ss_targetInbox s) m (mem w') \<and>
    ((\<forall>m1 \<in> ran (map_of (messagesByID (mem w))). m_MessageIDHeader m1 = pm_InReplyTo parsed \<longrightarrow>
        m_ThreadID m1 = m_ThreadID m0) \<longrightarrow> m_ThreadID m = m_ThreadID m0))"
proof -
  have ok: "sys_ok w" "world_ok w" and "served decode s"
    using assms(1,2) by (auto simp: system_inv_def sys_ok_def)
  then obtain config at sid where wired: "same_wiring s (edge_session rt_FindByEmailAddress rt_Put
      rt_SaveInboundReceipt (runtime_handler decode config) at sid)"
    unfolding served_def by blast
  have acc: "session_accept s raw w = (r, w')" and "s' = s"
    using assms(3,4,10) by (auto simp: NewAdapterSession_def session_core_def Session_Data_def split: prod.splits)
  obtain m where m: "answer_stored (mem w) parsed (ss_targetInbox s) m (mem w')"
    using answer_recorded [OF ok(2) sys_attached [OF ok(1)] wired assms(5,9) acc assms(6-8)] by blast
  then obtain j m1 where "map_of (messagesByID (mem w)) j = Some m1" "m_MessageIDHeader m1 = pm_InReplyTo parsed"
      "m_ThreadID m = m_ThreadID m1"
    unfolding answer_stored_def by blast
  moreover from this(1) have "m1 \<in> ran (map_of (messagesByID (mem w)))" by (rule ranI)
  ultimately show ?thesis using m \<open>s' = s\<close> by (intro conjI exI [of _ m]) auto
qed

section \<open>A concrete answer\<close>

text \<open>The reply of the agent goes out, its answer comes in.\<close>

definition demo_answer :: string where
  "demo_answer = ''In-Reply-To: <generated@agentlayer.local>'' @ crlf @
     ''Subject: Thanks'' @ crlf @ crlf @ ''ok''"

lemma demo_answer_parsed:
  "\<exists>p. parse_raw demo_mime demo_answer = Inr p \<and> pm_InReplyTo p = generated_message_id \<and> pm_MessageIDHeader p = []"
proof -
  have "case parse_raw demo_mime demo_answer of Inl _ \<Rightarrow> False
    | Inr p \<Rightarrow> pm_InReplyTo p = generated_message_id \<and> pm_MessageIDHeader p = []"
    by code_simp
  then show ?thesis by (cases "parse_raw demo_mime demo_answer") auto
qed

lemma demo_store_good: "sys_ok (demo_world demo_store)"
proof -
  have "linked demo_store" "durable demo_store"
    by (simp_all add: linked_def durable_def message_facts_def demo_defs slice_at_def)
  then show ?thesis by (simp add: sys_ok_def demo_store_ok world_ok_def)
qed

theorem answer_continues_thread_witness:
  "\<exists>sent w' r w'' (s :: world session) m. SendReply (newReplyService dev_provider) (demo_reply ''thread-1'' ''out'') (demo_world demo_store) = (Inr sent, w') \<and>
     AdapterSession_call (NewAdapterSession session_core) (Data (Inr demo_answer)) (s, w') = (r, (s, w'')) \<and>
     map_of (messagesByID (mem w'')) (m_ID m) = Some m \<and> m_ThreadID m = ''thread-1'' \<and> m_Direction m = MessageDirectionInbound"
proof -
  let ?decode = "parse_raw demo_mime"
  let ?s = "(edge_session rt_FindByEmailAddress rt_Put rt_SaveInboundReceipt
       (runtime_handler ?decode demo_config) 9 ''smtp'')\<lparr>ss_sender := ''ada@x'', ss_recipient := ''agent@x''\<rparr> :: world session"
  obtain sent w' where run: "SendReply (newReplyService dev_provider) (demo_reply ''thread-1'' ''out'') (demo_world demo_store) = (Inr sent, w')"
    by (rule demo_sent)
  obtain p where p: "?decode demo_answer = Inr p" "pm_InReplyTo p = generated_message_id" "pm_MessageIDHeader p = []"
    using demo_answer_parsed by blast
  obtain r s' and w'' :: world where call:
    "AdapterSession_call (NewAdapterSession session_core) (Data (Inr demo_answer)) (?s, w') = (r, (s', w''))"
    by (metis surj_pair)
  have sent: "reply_sent demo_store (demo_reply ''thread-1'' ''out'') sent (mem w')"
    using SendReply_sent [OF _ demo_reply_sendable frames_dev_provider run] by (simp add: demo_store_ok)
  then have maps: "map_of (messagesByID (mem w')) = (map_of (messagesByID demo_store))(m_ID (so_Message sent) \<mapsto> so_Message sent)"
    and h: "m_MessageIDHeader (so_Message sent) = generated_message_id" "m_ThreadID (so_Message sent) = ''thread-1''"
    by (simp_all add: reply_sent_def reply_recorded_def demo_reply_def)
  have "sys_ok w'"
    by (rule ensuresD [OF ensures_SendReply [OF frames_dev_provider order_refl] _ run])
      (use demo_store_good in \<open>auto simp: known_def demo_reply_def demo_defs\<close>)
  moreover have "served ?decode ?s"
    unfolding served_def
    by (intro exI [of _ demo_config] exI [of _ 9] exI [of _ "''smtp''"]) (simp add: same_wiring_def)
  ultimately have inv: "system_inv ?decode ([?s], w')" by (simp add: system_inv_def)
  have named: "map_of (messagesByID (mem w')) (m_ID (so_Message sent)) = Some (so_Message sent)"
    "m_MessageIDHeader (so_Message sent) = pm_InReplyTo p" by (simp_all add: maps h p)
  have "s' = ?s \<and> (\<exists>m. answer_stored (mem w') p (ss_targetInbox ?s) m (mem w'') \<and>
    ((\<forall>m1 \<in> ran (map_of (messagesByID (mem w'))). m_MessageIDHeader m1 = pm_InReplyTo p \<longrightarrow>
        m_ThreadID m1 = m_ThreadID (so_Message sent)) \<longrightarrow> m_ThreadID m = m_ThreadID (so_Message sent)))"
    by (rule answer_continues_thread [OF inv _ _ _ p(1) _ named _ call]) (simp_all add: p generated_message_id_def)
  moreover have "\<forall>m1 \<in> ran (map_of (messagesByID (mem w'))). m_MessageIDHeader m1 = pm_InReplyTo p \<longrightarrow>
        m_ThreadID m1 = m_ThreadID (so_Message sent)"
    by (auto simp: maps p ran_def demo_defs generated_message_id_def split: if_splits)
  ultimately obtain m where "s' = ?s" "answer_stored (mem w') p (ss_targetInbox ?s) m (mem w'')" "m_ThreadID m = ''thread-1''"
    using h(2) by auto
  with run call show ?thesis
    by (intro exI [of _ sent] exI [of _ w'] exI [of _ r] exI [of _ w''] exI [of _ ?s] exI [of _ m])
      (auto simp: answer_stored_def)
qed

end
