(* ===== verification/Go_Duration.thy ===== *)
theory Go_Duration
  imports Go_Parse
begin

text \<open>
  \<open>time.ParseDuration\<close>, which reads the interval of the retry worker: segments of an integer, a fraction
  and a unit, added up in \<open>uint64\<close>. The fraction goes through \<open>float64\<close>, whose rounding to 53 bits is
  written out. A number that is not negative needs no sign here. Its exponent is unbounded: the numbers at
  which the exponent of a \<open>float64\<close> overflows or loses bits come from fractions of more than 300 digits,
  and those are cut down to 0 nanoseconds either way.
\<close>

section \<open>Floating point\<close>

function bit_size :: "int \<Rightarrow> int" where
  "bit_size n = (if n \<le> 0 then 0 else 1 + bit_size (n div 2))"
  by pat_completeness auto
termination by (relation "measure nat") auto

declare bit_size.simps [simp del]

text \<open>A pair \<open>(m, e)\<close> is the number \<open>m * 2 ^ e\<close>.\<close>

type_synonym float64 = "int \<times> int"

text \<open>The nearest integer to \<open>p / q\<close>, the even one of two.\<close>

definition round_even :: "int \<Rightarrow> int \<Rightarrow> int" where
  "round_even p q = (let n = p div q; r = 2 * (p mod q) in if r < q \<or> r = q \<and> even n then n else n + 1)"

definition scaled :: "int \<Rightarrow> int \<Rightarrow> int \<Rightarrow> int \<times> int" where
  "scaled p q e = (if 0 \<le> e then (p, q * 2 ^ nat e) else (p * 2 ^ nat (- e), q))"

text \<open>\<open>p / q\<close> with a significand of 53 bits.\<close>

definition float_ratio :: "int \<Rightarrow> int \<Rightarrow> float64" where
  "float_ratio p q =
     (if p = 0 then (0, 0)
      else let e0 = bit_size p - bit_size q - 53;
               e = (case scaled p q e0 of (p0, q0) \<Rightarrow> if p0 div q0 < 2 ^ 53 then e0 else e0 + 1)
           in case scaled p q e of (p1, q1) \<Rightarrow> (round_even p1 q1, e))"

definition float_of_uint :: "64 word \<Rightarrow> float64" where
  "float_of_uint x = float_ratio (uint x) 1"

definition float_mul :: "float64 \<Rightarrow> float64 \<Rightarrow> float64" where
  "float_mul x y = (let (m, e) = float_ratio (fst x * fst y) 1 in (m, e + snd x + snd y))"

definition float_div :: "float64 \<Rightarrow> float64 \<Rightarrow> float64" where
  "float_div x y = (let (m, e) = float_ratio (fst x) (fst y) in (m, e + snd x - snd y))"

text \<open>The conversion to \<open>uint64\<close> drops the fraction.\<close>

definition uint_of_float :: "float64 \<Rightarrow> 64 word" where
  "uint_of_float x = word_of_int (case x of (m, e) \<Rightarrow> if 0 \<le> e then m * 2 ^ nat e else m div 2 ^ nat (- e))"

section \<open>Segments\<close>

definition digit_word :: "char \<Rightarrow> 64 word" where
  "digit_word c = of_nat (byte_of c) - 48"

text \<open>\<open>leadingInt\<close> with what it has read so far; \<open>None\<close> is overflow.\<close>

fun leadingInt :: "64 word \<Rightarrow> string \<Rightarrow> (64 word \<times> string) option" where
  "leadingInt x [] = Some (x, [])"
| "leadingInt x (c # s) =
     (if \<not> is_digit c then Some (x, c # s)
      else if 2 ^ 63 div 10 < x then None
      else let y = x * 10 + digit_word c in if 2 ^ 63 < y then None else leadingInt y s)"

text \<open>\<open>leadingFraction\<close>: digits past the range of a \<open>uint64\<close> are skipped.\<close>

fun leadingFraction :: "bool \<Rightarrow> 64 word \<Rightarrow> float64 \<Rightarrow> string \<Rightarrow> 64 word \<times> float64 \<times> string" where
  "leadingFraction overflow x scale [] = (x, scale, [])"
| "leadingFraction overflow x scale (c # s) =
     (if \<not> is_digit c then (x, scale, c # s)
      else if overflow \<or> (2 ^ 63 - 1) div 10 < x then leadingFraction True x scale s
      else let y = x * 10 + digit_word c
           in if 2 ^ 63 < y then leadingFraction True x scale s
              else leadingFraction False y (float_mul scale (float_ratio 10 1)) s)"

text \<open>The two letters of micro are UTF-8.\<close>

definition unit_map :: "(string \<times> 64 word) list" where
  "unit_map =
     [(''ns'', 1), (''us'', 1000), ([CHR 0xC2, CHR 0xB5] @ ''s'', 1000), ([CHR 0xCE, CHR 0xBC] @ ''s'', 1000),
      (''ms'', 1000000), (''s'', 1000000000), (''m'', 60000000000), (''h'', 3600000000000)]"

definition unit_char :: "char \<Rightarrow> bool" where
  "unit_char c \<longleftrightarrow> c \<noteq> CHR ''.'' \<and> \<not> is_digit c"

definition bad_duration :: gerr where
  "bad_duration = ErrExternal ''time: invalid duration''"

text \<open>The optional fraction: its value, its scale, whether it has a digit, and the rest.\<close>

definition point_fraction :: "string \<Rightarrow> 64 word \<times> float64 \<times> bool \<times> string" where
  "point_fraction s = (case s of
     c # t \<Rightarrow> if c = CHR ''.'' then
         let (f, scale, u) = leadingFraction False 0 (float_ratio 1 1) t in (f, scale, length u \<noteq> length t, u)
       else (0, float_ratio 1 1, False, s)
   | [] \<Rightarrow> (0, float_ratio 1 1, False, []))"

text \<open>One round of the loop: the nanoseconds of a segment and the rest of the text.\<close>

definition duration_segment :: "string \<Rightarrow> gerr + 64 word \<times> string" where
  "duration_segment s =
     (if s = [] \<or> \<not> (hd s = CHR ''.'' \<or> is_digit (hd s)) then Inl bad_duration
      else case leadingInt 0 s of None \<Rightarrow> Inl bad_duration
      | Some (v, s1) \<Rightarrow>
          let (f, scale, post, s2) = point_fraction s1;
              u = takeWhile unit_char s2
          in if length s1 = length s \<and> \<not> post then Inl bad_duration
             else if u = [] then Inl bad_duration
             else case map_of unit_map u of None \<Rightarrow> Inl bad_duration
             | Some unit \<Rightarrow>
                 if 2 ^ 63 div unit < v then Inl bad_duration
                 else let v1 = v * unit;
                          v2 = (if f = 0 then v1 else
                            v1 + uint_of_float (float_mul (float_of_uint f) (float_div (float_of_uint unit) scale)))
                      in if f \<noteq> 0 \<and> 2 ^ 63 < v2 then Inl bad_duration
                         else Inr (v2, dropWhile unit_char s2))"

lemma leadingInt_length: "leadingInt x s = Some (v, r) \<Longrightarrow> length r \<le> length s"
  by (induction x s rule: leadingInt.induct) (auto simp: Let_def split: if_splits)

lemma leadingFraction_length: "leadingFraction b x y s = (f, k, r) \<Longrightarrow> length r \<le> length s"
  by (induction b x y s rule: leadingFraction.induct) (auto simp: Let_def split: if_splits)

lemma point_fraction_length: "point_fraction s = (f, k, b, r) \<Longrightarrow> length r \<le> length s"
  by (auto simp: point_fraction_def Let_def split: list.splits if_splits prod.splits dest: leadingFraction_length)

lemma duration_segment_length:
  assumes "duration_segment s = Inr (v, r)"
  shows "length r < length s"
proof -
  obtain v1 s1 f k b s2 where i: "leadingInt 0 s = Some (v1, s1)" and p: "point_fraction s1 = (f, k, b, s2)"
    and u: "takeWhile unit_char s2 \<noteq> []" and r: "r = dropWhile unit_char s2"
    using assms by (auto simp: duration_segment_def Let_def split: if_splits option.splits prod.splits)
  have "length s2 = length (takeWhile unit_char s2) + length r"
    unfolding r by (metis length_append takeWhile_dropWhile_id)
  with u have "length r < length s2" by simp
  also have "\<dots> \<le> length s1" by (rule point_fraction_length [OF p])
  also have "\<dots> \<le> length s" by (rule leadingInt_length [OF i])
  finally show ?thesis .
qed

section \<open>The parser\<close>

function duration_loop :: "64 word \<Rightarrow> string \<Rightarrow> gerr + 64 word" where
  "duration_loop d s =
     (if s = [] then Inr d
      else case duration_segment s of Inl err \<Rightarrow> Inl err
      | Inr (v, r) \<Rightarrow> if 2 ^ 63 < d + v then Inl bad_duration else duration_loop (d + v) r)"
  by pat_completeness auto
termination
  by (relation "measure (length \<circ> snd)") (auto dest: duration_segment_length)

declare duration_loop.simps [simp del]

definition ParseDuration :: "string \<Rightarrow> gerr + duration" where
  "ParseDuration orig =
     (let signed = orig \<noteq> [] \<and> (hd orig = CHR ''-'' \<or> hd orig = CHR ''+'');
          neg = signed \<and> hd orig = CHR ''-'';
          s = (if signed then tl orig else orig)
      in if s = ''0'' then Inr 0
         else if s = [] then Inl bad_duration
         else case duration_loop 0 s of Inl err \<Rightarrow> Inl err
         | Inr d \<Rightarrow> if neg then Inr (- d)
                   else if 2 ^ 63 - 1 < d then Inl bad_duration else Inr d)"

end
