(* ===== verification/Process.thy ===== *)
theory Process
  imports Control_Laws Go_Duration
begin

text \<open>
  The process of \<open>cmd/agentlayer\<close>: the retry worker as it is configured (\<open>retry_worker.go\<close>), \<open>main\<close>,
  and \<open>runServers\<close> with its goroutines, the channel they report to and the exit. The listeners of
  \<open>net/http\<close> and \<open>go-smtp\<close> may end at any time with any error; requests, commands, connections
  and ticks come in any order.
\<close>

section \<open>The worker's configuration\<close>

definition second :: duration where
  "second = 1000000000"

definition webhookRetryInterval :: "getenv \<Rightarrow> duration" where
  "webhookRetryInterval env = (let value = env ''AGENTLAYER_WEBHOOK_RETRY_INTERVAL'' in
     if value = [] then 30 * second
     else case ParseDuration value of
       Inl _ \<Rightarrow> 30 * second
     | Inr d \<Rightarrow> if sint d \<le> 0 then 30 * second else d)"

text \<open>The fields of \<open>webhookRetryWorker\<close>; its service is \<open>newWebhookRetrySweepService\<close>.\<close>

record retry_worker =
  wk_interval :: duration
  wk_limit :: int

definition newWebhookRetryWorker :: "getenv \<Rightarrow> retry_worker option" where
  "newWebhookRetryWorker env =
     (if \<not> webhookRetryEnabled env then None
      else Some \<lparr>wk_interval = webhookRetryInterval env, wk_limit = webhookRetryLimit env\<rparr>)"

section \<open>Reading an interval\<close>

lemma digit_word_uint: "is_digit c \<Longrightarrow> uint (digit_word c) = int (byte_of c) - 48"
  unfolding digit_word_def is_digit_def
  by (simp add: uint_sub_if_size word_size unsigned_of_nat take_bit_nat_eq_self)

text \<open>Below the limit of \<open>leadingInt\<close>, an accumulator and a digit make no overflow.\<close>

lemma leading_step:
  fixes x :: "64 word"
  assumes "is_digit c" and "10 * uint x + (int (byte_of c) - 48) \<le> 2 ^ 63"
  shows "uint (x * 10 + digit_word c) = 10 * uint x + (int (byte_of c) - 48)"
    and "\<not> 2 ^ 63 div 10 < x" and "\<not> 2 ^ 63 < x * 10 + digit_word c"
proof -
  have d: "uint (digit_word c) = int (byte_of c) - 48" "48 \<le> byte_of c"
    using assms(1) digit_word_uint by (auto simp: is_digit_def)
  have "uint (x * 10 + digit_word c) = (uint x * 10 + uint (digit_word c)) mod 2 ^ 64"
    by (simp add: uint_word_ariths mod_simps)
  also have "\<dots> = 10 * uint x + (int (byte_of c) - 48)" using assms(2) d by simp
  finally show u: "uint (x * 10 + digit_word c) = 10 * uint x + (int (byte_of c) - 48)" .
  show "\<not> 2 ^ 63 div 10 < x" using assms(2) d by (simp add: word_less_def uint_div)
  show "\<not> 2 ^ 63 < x * 10 + digit_word c" using u assms(2) by (simp add: word_less_def)
qed

abbreviation digit_fold :: "string \<Rightarrow> int \<Rightarrow> int" where
  "digit_fold \<equiv> fold (\<lambda>c n. 10 * n + (int (byte_of c) - 48))"

lemma digit_fold_mono: "list_all is_digit ds \<Longrightarrow> 0 \<le> n \<Longrightarrow> n \<le> digit_fold ds n"
proof (induction ds arbitrary: n)
  case (Cons c ds)
  then have "48 \<le> byte_of c" by (simp add: is_digit_def)
  with Cons.prems have "n \<le> 10 * n + (int (byte_of c) - 48)" by simp
  also have "\<dots> \<le> digit_fold (c # ds) n" using Cons \<open>48 \<le> byte_of c\<close> by simp
  finally show ?case .
qed simp

lemma leadingInt_digits:
  assumes "list_all is_digit ds" and "r = [] \<or> \<not> is_digit (hd r)" and "digit_fold ds (uint x) \<le> 2 ^ 63"
  shows "\<exists>v. leadingInt x (ds @ r) = Some (v, r) \<and> uint v = digit_fold ds (uint x)"
  using assms
proof (induction ds arbitrary: x)
  case Nil
  then show ?case by (cases r) auto
next
  case (Cons c ds)
  let ?n = "10 * uint x + (int (byte_of c) - 48)"
  have d: "is_digit c" "list_all is_digit ds" using Cons.prems(1) by simp_all
  then have "48 \<le> byte_of c" by (simp add: is_digit_def)
  with d have "?n \<le> digit_fold ds ?n" by (intro digit_fold_mono) simp_all
  with Cons.prems(3) have "?n \<le> 2 ^ 63" by simp
  note step = leading_step [OF d(1) this]
  have "digit_fold ds (uint (x * 10 + digit_word c)) \<le> 2 ^ 63" using Cons.prems(3) step(1) by simp
  from Cons.IH [OF d(2) Cons.prems(2) this] show ?case using d(1) step by (simp add: Let_def)
qed

lemma units_read:
  assumes "map_of unit_map u = Some k"
  shows "u \<noteq> []" and "list_all unit_char u" and "hd u \<noteq> CHR ''.''" and "\<not> is_digit (hd u)" and "0 < uint k"
    and "uint k < 2 ^ 63" and "length u \<noteq> 0"
proof -
  have "list_all (\<lambda>(u, k). u \<noteq> [] \<and> list_all unit_char u \<and> 0 < uint k \<and> uint k < 2 ^ 63) unit_map" by code_simp
  with map_of_SomeD [OF assms] have a: "u \<noteq> [] \<and> list_all unit_char u \<and> 0 < uint k \<and> uint k < 2 ^ 63"
    by (auto simp: list_all_iff)
  then show "u \<noteq> []" "list_all unit_char u" "0 < uint k" "uint k < 2 ^ 63" "length u \<noteq> 0" by auto
  from a show "hd u \<noteq> CHR ''.''" "\<not> is_digit (hd u)" by (cases u; simp add: unit_char_def)+
qed

text \<open>A decimal number of a unit, in the range of a duration.\<close>

lemma decimal_segment:
  assumes u: "map_of unit_map u = Some k" and n: "int n * uint k < 2 ^ 63"
  shows "\<exists>v. duration_segment (nat_digits n @ u) = Inr (v, []) \<and> uint v = int n * uint k"
proof -
  note unit = units_read [OF u]
  have d: "list_all is_digit (nat_digits n)" "nat_digits n \<noteq> []" using nat_digits_digits by auto
  have "int n * 1 \<le> int n * uint k" using unit(5) by (intro mult_left_mono) simp_all
  with n have n63: "int n < 2 ^ 63" by simp
  have "digit_fold (nat_digits n) (uint (0 :: 64 word)) = int n"
    using digits_value_nat_digits [of n] by (simp add: digits_value_def)
  with leadingInt_digits [of "nat_digits n" u 0] d unit n63 obtain v
    where v: "leadingInt 0 (nat_digits n @ u) = Some (v, u)" "uint v = int n" by auto
  have h: "is_digit (hd (nat_digits n @ u))" using d by (cases "nat_digits n") auto
  have p: "point_fraction u = (0, float_ratio 1 1, False, u)"
    using unit(1,3) by (cases u) (simp_all add: point_fraction_def)
  have t: "takeWhile unit_char u = u" "dropWhile unit_char u = []"
    using unit(2) by (simp_all add: list_all_iff takeWhile_eq_all_conv)
  have "int n \<le> 2 ^ 63 div uint k"
    using n zdiv_mono1 [of "int n * uint k" "2 ^ 63" "uint k"] unit(5) by simp
  then have g: "\<not> 2 ^ 63 div k < v" by (simp add: word_less_def uint_div v(2))
  have "uint (v * k) = int n * uint k" using n unit(5) v(2) by (simp add: uint_word_ariths)
  then show ?thesis using d(2) unit(1) h g by (simp add: duration_segment_def Let_def u v(1) p t)
qed

lemma decimal_interval:
  assumes u: "map_of unit_map u = Some k" and n: "int n * uint k < 2 ^ 63"
  shows "\<exists>v. ParseDuration (nat_digits n @ u) = Inr v \<and> sint v = int n * uint k"
proof -
  obtain v where v: "duration_segment (nat_digits n @ u) = Inr (v, [])" "uint v = int n * uint k"
    using decimal_segment [OF assms] by blast
  have d: "is_digit (hd (nat_digits n))" "nat_digits n \<noteq> []"
    using nat_digits_digits [of n] by (cases "nat_digits n"; simp)+
  moreover have "\<not> is_digit (CHR ''-'')" "\<not> is_digit (CHR ''+'')" by code_simp+
  ultimately have s: "hd (nat_digits n) \<noteq> CHR ''-''" "hd (nat_digits n) \<noteq> CHR ''+''" by auto
  have z: "nat_digits n @ u \<noteq> ''0''" using units_read(1) [OF u] d(2) by (cases "nat_digits n") auto
  have "\<not> 2 ^ 63 < v" "\<not> 2 ^ 63 - 1 < v" using n v(2) by (simp_all add: word_less_def)
  then have "duration_loop 0 (nat_digits n @ u) = Inr v" "ParseDuration (nat_digits n @ u) = Inr v"
    using d s z v(1) by (simp_all add: ParseDuration_def Let_def duration_loop.simps)
  moreover have nonneg: "0 \<le> int n * uint k" by simp
  have "sint v = int n * uint k"
    using n v(2) by (subst sint_uint) (simp add: signed_take_bit_int_eq_self_iff order.trans [OF _ nonneg])
  ultimately show ?thesis by blast
qed

lemma interval_positive: "0 < sint (webhookRetryInterval env)"
  by (simp add: webhookRetryInterval_def second_def Let_def split: sum.splits)

lemma limit_positive: "0 < webhookRetryLimit env"
  by (simp add: webhookRetryLimit_def Let_def split: sum.splits)

text \<open>C27: whatever the environment says, the interval of the retry worker and its limit are positive, so
  its guard never stops it and \<open>time.NewTicker\<close> never panics: once started it sweeps at once and then
  at every tick. The interval is 30 seconds when the variable is unset and exactly what the variable
  says when that is a positive decimal number of any unit the \<open>time\<close> package knows, as long as it is in
  the range of a duration.\<close>

theorem retry_worker_runs:
  assumes "newWebhookRetryWorker env = Some worker"
  shows "webhookRetryWorker_Run (wk_interval worker) (wk_limit worker) ticks = worker_ticks (wk_limit worker) (Suc ticks) \<and>
    0 < sint (wk_interval worker) \<and> 0 < wk_limit worker \<and>
    (env ''AGENTLAYER_WEBHOOK_RETRY_INTERVAL'' = [] \<longrightarrow> sint (wk_interval worker) = 30 * nanos_per_second) \<and>
    (\<forall>n u k. env ''AGENTLAYER_WEBHOOK_RETRY_INTERVAL'' = nat_digits n @ u \<and> map_of unit_map u = Some k \<and>
       0 < n \<and> int n * uint k < 2 ^ 63 \<longrightarrow> sint (wk_interval worker) = int n * uint k)"
proof -
  have w: "wk_interval worker = webhookRetryInterval env" "wk_limit worker = webhookRetryLimit env"
    using assms by (auto simp: newWebhookRetryWorker_def split: if_splits)
  have unset: "sint (wk_interval worker) = 30 * nanos_per_second" if "env ''AGENTLAYER_WEBHOOK_RETRY_INTERVAL'' = []"
    using that by (simp add: w webhookRetryInterval_def second_def nanos_per_second_def)
  have set: "sint (wk_interval worker) = int n * uint k"
    if v: "env ''AGENTLAYER_WEBHOOK_RETRY_INTERVAL'' = nat_digits n @ u" and u: "map_of unit_map u = Some k"
      and n: "0 < n" "int n * uint k < 2 ^ 63" for n u k
  proof -
    obtain d where d: "ParseDuration (nat_digits n @ u) = Inr d" "sint d = int n * uint k"
      using decimal_interval [OF u n(2)] by blast
    moreover have "0 < int n * uint k" using n(1) units_read(5) [OF u] by simp
    ultimately show ?thesis using units_read(1) [OF u] by (simp add: w webhookRetryInterval_def v)
  qed
  from interval_positive [of env] limit_positive [of env] unset set show ?thesis
    by (simp add: w webhookRetryWorker_Run_def)
qed

theorem retry_worker_runs_witness:
  "\<exists>worker. newWebhookRetryWorker ((\<lambda>_. [])(''AGENTLAYER_WEBHOOK_RETRY_INTERVAL'' := ''90s'')) = Some worker \<and>
     sint (wk_interval worker) = 90000000000"
proof -
  let ?env = "(\<lambda>_. [])(''AGENTLAYER_WEBHOOK_RETRY_INTERVAL'' := ''90s'')"
  obtain worker where w: "newWebhookRetryWorker ?env = Some worker"
    by (simp add: newWebhookRetryWorker_def webhookRetryEnabled_def)
  have "?env ''AGENTLAYER_WEBHOOK_RETRY_INTERVAL'' = nat_digits 90 @ ''s''"
    "map_of unit_map ''s'' = Some 1000000000" "int 90 * uint (1000000000 :: 64 word) < 2 ^ 63" by code_simp+
  then have "sint (wk_interval worker) = int 90 * uint (1000000000 :: 64 word)"
    using retry_worker_runs [OF w] by (metis zero_less_numeral)
  with w show ?thesis by simp
qed

section \<open>The process\<close>

text \<open>
  A listener's goroutine: in \<open>ListenAndServe\<close>, about to send what that returned on \<open>errCh\<close>, or done.
  \<open>None\<close> is a nil error.
\<close>

datatype listener = Serving | Sending "gerr option" | Done

datatype worker_state = Started | Waiting | Stopped

text \<open>
  \<open>pc_accepted\<close> holds the HTTP requests that are accepted and not answered, \<open>pc_returned\<close> what
  \<open>runServers\<close> returned and \<open>pc_exit\<close> the status the process exited with.
\<close>

record process =
  pc_http :: listener
  pc_smtp :: listener
  pc_errCh :: "gerr option list"
  pc_worker :: "worker_state option"
  pc_cancelled :: bool
  pc_accepted :: "http_in list"
  pc_returned :: "gerr option option"
  pc_exit :: "int option"

definition runServers :: "retry_worker option \<Rightarrow> process" where
  "runServers worker =
     \<lparr>pc_http = Serving, pc_smtp = Serving, pc_errCh = [], pc_worker = map_option (\<lambda>_. Started) worker,
      pc_cancelled = False, pc_accepted = [], pc_returned = None, pc_exit = None\<rparr>"

text \<open>The variable \<open>runtimeStore\<close> and \<open>main\<close> up to \<open>runServers\<close>, without a database.\<close>

definition start_main ::
    "(string option \<Rightarrow> gerr + ('z world_scheme ses_client \<times> string)) \<Rightarrow> getenv \<Rightarrow> (string \<Rightarrow> gerr + parsed_message) \<Rightarrow>
     ('z world_scheme, 'z world_scheme handler) go" where
  "start_main load_aws env decode =
     go_bind (\<lambda>w. (Inr (), w\<lparr>mem := NewStore\<rparr>)) (\<lambda>_. go_bind seedMemoryRuntime (\<lambda>_. newServer load_aws env decode))"

text \<open>\<open>log.Fatal\<close> exits with 1; a \<open>main\<close> that returns, with 0.\<close>

definition main_exit :: "gerr option \<Rightarrow> int" where
  "main_exit err = (if err = None then 0 else 1)"

text \<open>The channel has room for two errors; a send on a full channel would wait.\<close>

definition errCh_capacity :: nat where
  "errCh_capacity = 2"

text \<open>
  One step of the process. When a listener has ended, requests and sessions it had accepted go on.
  \<open>select\<close> may choose a tick over a context that is done.
\<close>

inductive run_step ::
    "getenv \<Rightarrow> (string \<Rightarrow> gerr + parsed_message) \<Rightarrow> world handler \<Rightarrow> retry_worker option \<Rightarrow>
     process \<times> sys_state \<Rightarrow> process \<times> sys_state \<Rightarrow> bool"
  for env decode server worker where
  http_ends: "pc_exit p = None \<Longrightarrow> pc_http p = Serving \<Longrightarrow>
    run_step env decode server worker (p, st) (p\<lparr>pc_http := Sending e\<rparr>, st)"
| http_sends: "pc_exit p = None \<Longrightarrow> pc_http p = Sending e \<Longrightarrow> length (pc_errCh p) < errCh_capacity \<Longrightarrow>
    run_step env decode server worker (p, st) (p\<lparr>pc_http := Done, pc_errCh := pc_errCh p @ [e]\<rparr>, st)"
| smtp_ends: "pc_exit p = None \<Longrightarrow> pc_smtp p = Serving \<Longrightarrow>
    run_step env decode server worker (p, st) (p\<lparr>pc_smtp := Sending e\<rparr>, st)"
| smtp_sends: "pc_exit p = None \<Longrightarrow> pc_smtp p = Sending e \<Longrightarrow> length (pc_errCh p) < errCh_capacity \<Longrightarrow>
    run_step env decode server worker (p, st) (p\<lparr>pc_smtp := Done, pc_errCh := pc_errCh p @ [e]\<rparr>, st)"
| returns: "pc_exit p = None \<Longrightarrow> pc_returned p = None \<Longrightarrow> pc_errCh p = e # es \<Longrightarrow>
    run_step env decode server worker (p, st) (p\<lparr>pc_errCh := es, pc_returned := Some e, pc_cancelled := True\<rparr>, st)"
| exits: "pc_exit p = None \<Longrightarrow> pc_returned p = Some e \<Longrightarrow>
    run_step env decode server worker (p, st) (p\<lparr>pc_exit := Some (main_exit e)\<rparr>, st)"
| worker_refused: "pc_exit p = None \<Longrightarrow> pc_worker p = Some Started \<Longrightarrow> worker = Some wk \<Longrightarrow> sint (wk_interval wk) \<le> 0 \<Longrightarrow>
    run_step env decode server worker (p, st) (p\<lparr>pc_worker := Some Stopped\<rparr>, st)"
| worker_starts: "pc_exit p = None \<Longrightarrow> pc_worker p = Some Started \<Longrightarrow> worker = Some wk \<Longrightarrow> 0 < sint (wk_interval wk) \<Longrightarrow>
    runOnce (wk_limit wk) w = (r, w') \<Longrightarrow>
    run_step env decode server worker (p, (ss, w)) (p\<lparr>pc_worker := Some Waiting\<rparr>, (ss, w'))"
| worker_ticks: "pc_exit p = None \<Longrightarrow> pc_worker p = Some Waiting \<Longrightarrow> worker = Some wk \<Longrightarrow>
    runOnce (wk_limit wk) w = (r, w') \<Longrightarrow>
    run_step env decode server worker (p, (ss, w)) (p, (ss, w'))"
| worker_stops: "pc_exit p = None \<Longrightarrow> pc_worker p = Some Waiting \<Longrightarrow> pc_cancelled p \<Longrightarrow>
    run_step env decode server worker (p, st) (p\<lparr>pc_worker := Some Stopped\<rparr>, st)"
| accepts: "pc_exit p = None \<Longrightarrow> pc_http p = Serving \<Longrightarrow>
    run_step env decode server worker (p, st) (p\<lparr>pc_accepted := pc_accepted p @ [q]\<rparr>, st)"
| answers: "pc_exit p = None \<Longrightarrow> i < length (pc_accepted p) \<Longrightarrow> server (pc_accepted p ! i) w = (out, w') \<Longrightarrow>
    run_step env decode server worker (p, (ss, w))
      (p\<lparr>pc_accepted := take i (pc_accepted p) @ drop (Suc i) (pc_accepted p)\<rparr>, (ss, w'))"
| connects: "pc_exit p = None \<Longrightarrow> pc_smtp p = Serving \<Longrightarrow> newSMTPSession env decode w = (Inr s, w') \<Longrightarrow>
    run_step env decode server worker (p, (ss, w)) (p, (ss @ [s], w'))"
| commands: "pc_exit p = None \<Longrightarrow> i < length ss \<Longrightarrow>
    AdapterSession_call (NewAdapterSession session_core) cmd (ss ! i, w) = (r, (s', w')) \<Longrightarrow>
    run_step env decode server worker (p, (ss, w)) (p, (ss[i := s'], w'))"
| disconnects: "pc_exit p = None \<Longrightarrow>
    run_step env decode server worker (p, (ss, w)) (p, (take i ss @ drop (Suc i) ss, w))"

inductive run_reach ::
    "(string option \<Rightarrow> gerr + (world ses_client \<times> string)) \<Rightarrow> getenv \<Rightarrow> (string \<Rightarrow> gerr + parsed_message) \<Rightarrow>
     world handler \<Rightarrow> process \<times> sys_state \<Rightarrow> bool"
  for load_aws env decode server where
  start: "databaseURL env = [] \<Longrightarrow> start_main load_aws env decode w0 = (Inr server, w) \<Longrightarrow>
    run_reach load_aws env decode server (runServers (newWebhookRetryWorker env), ([], w))"
| step: "run_reach load_aws env decode server c \<Longrightarrow>
    run_step env decode server (newWebhookRetryWorker env) c c' \<Longrightarrow> run_reach load_aws env decode server c'"

section \<open>Errors and the exit\<close>

text \<open>Every listener that is done has its error in the channel or received.\<close>

definition reported :: "process \<Rightarrow> nat" where
  "reported p = (if pc_http p = Done then 1 else 0) + (if pc_smtp p = Done then 1 else 0)"

definition channel_inv :: "process \<Rightarrow> bool" where
  "channel_inv p \<longleftrightarrow>
     length (pc_errCh p) + (if pc_returned p = None then 0 else 1) = reported p \<and>
     (pc_cancelled p \<longleftrightarrow> pc_returned p \<noteq> None) \<and>
     (\<forall>c. pc_exit p = Some c \<longrightarrow> (\<exists>e. pc_returned p = Some e \<and> c = main_exit e))"

lemma channel_step:
  assumes "run_step env decode server worker c c'" and "channel_inv (fst c)"
  shows "channel_inv (fst c')"
  using assms
  by (cases rule: run_step.cases) (auto simp: channel_inv_def reported_def split: if_splits)

lemma channel_reach: "run_reach load_aws env decode server c \<Longrightarrow> channel_inv (fst c)"
proof (induction rule: run_reach.induct)
  case start
  show ?case by (simp add: channel_inv_def reported_def runServers_def)
next
  case (step c c')
  from channel_step [OF step(2,3)] show ?case .
qed

section \<open>The store of a running process\<close>

lemma start_main_run:
  assumes "start_main load_aws env decode w0 = (Inr server, w)"
  shows "\<exists>config provider. server = mux (routes (newReadinessChecker load_aws env) (runtime_handler decode config) provider) \<and>
    newEmailProvider load_aws env = Inr provider \<and> (\<exists>r. seedMemoryRuntime (w0\<lparr>mem := NewStore\<rparr>) = (r, w))"
proof -
  obtain u w1 where seed: "seedMemoryRuntime (w0\<lparr>mem := NewStore\<rparr>) = (Inr u, w1)"
    and new: "newServer load_aws env decode w1 = (Inr server, w)"
    using assms by (auto simp: start_main_def go_bind_def split: prod.splits sum.splits)
  obtain config where "newInboundService env decode w1 = (Inr (runtime_handler decode config), w1)"
    using newInboundService_run by blast
  with new have "server = mux (routes (newReadinessChecker load_aws env) (runtime_handler decode config) provider) \<and> w = w1"
    if "newEmailProvider load_aws env = Inr provider" for provider
    using that by (auto simp: newServer_def go_bind_def go_ret_def)
  moreover from new \<open>newInboundService env decode w1 = _\<close> obtain provider where "newEmailProvider load_aws env = Inr provider"
    by (auto simp: newServer_def go_bind_def go_fail_def split: sum.splits)
  ultimately show ?thesis using seed by blast
qed

lemma run_step_system:
  assumes server: "\<And>q w out w'. server q w = (out, w') \<Longrightarrow> sys_ok w \<Longrightarrow> sys_ok w'"
    and run: "run_step env decode server worker c c'" and inv: "system_inv decode (snd c)"
  shows "system_inv decode (snd c')"
proof -
  have sys: "system_inv decode st'" if "sys_step env decode dev_provider config (snd c) st'" for config st'
    using step_inv [OF frames_dev_provider that inv] .
  show ?thesis
    using run inv
  proof (cases rule: run_step.cases)
    case (worker_starts p wk w r w' ss)
    with sys [of undefined "(ss, w')"] sys_step.request [of decode dev_provider undefined "Sweep (wk_limit wk)"]
    show ?thesis by simp
  next
    case (worker_ticks p wk w r w' ss)
    with sys [of undefined "(ss, w')"] sys_step.request [of decode dev_provider undefined "Sweep (wk_limit wk)"]
    show ?thesis by simp
  next
    case (answers p i w out w' ss)
    with server inv show ?thesis by (auto simp: system_inv_def)
  next
    case (connects p w s w' ss)
    with sys sys_step.connect show ?thesis by simp
  next
    case (commands p i ss cmd w r s' w')
    with sys sys_step.command show ?thesis by simp
  next
    case (disconnects p ss w i)
    with sys sys_step.disconnect show ?thesis by simp
  qed auto
qed

lemma run_system:
  assumes quiet: "\<And>provider. newEmailProvider load_aws env = Inr provider \<Longrightarrow> quiet_provider provider"
    and "run_reach load_aws env decode server c"
  shows "system_inv decode (snd c)"
proof -
  have "system_inv decode (snd c) \<and> (\<forall>q w out w'. server q w = (out, w') \<longrightarrow> sys_ok w \<longrightarrow> sys_ok w')"
    using assms(2)
  proof (induction rule: run_reach.induct)
    case (start w0 w)
    obtain config provider where server: "server =
        mux (routes (newReadinessChecker load_aws env) (runtime_handler decode config) provider)"
      and p: "newEmailProvider load_aws env = Inr provider"
      and seed: "\<exists>r. seedMemoryRuntime (w0\<lparr>mem := NewStore\<rparr>) = (r, w)"
      using start_main_run [OF start(2)] by blast
    have "mem (w0\<lparr>mem := NewStore\<rparr>) = NewStore" by simp
    with seed have "sys_reach env decode dev_provider undefined ([], w)" by (blast intro: sys_reach.start)
    from reach_inv [OF frames_dev_provider this] have "system_inv decode ([], w)" .
    moreover have "quiet_checker (newReadinessChecker load_aws env)"
      using quiet by (simp add: quiet_checker_def newReadinessChecker_def)
    from abidesD [OF server_kept [OF this quiet [OF p]]]
    have "sys_ok w'" if "server q w = (out, w')" "sys_ok w" for q w out w'
      using that unfolding server system_kept_def by blast
    ultimately show ?case by auto
  next
    case (step c c')
    with run_step_system [of server env decode "newWebhookRetryWorker env" c c'] show ?case by blast
  qed
  then show ?thesis by blast
qed

text \<open>C10: from the start of \<open>main\<close> on, however HTTP requests, SMTP sessions and the retry worker interleave
  and whenever a listener ends, the store is good and every session is one the factory made. The
  goroutines of \<open>runServers\<close> never wait to report, so none is left behind, and the process exits only
  with the error that \<open>runServers\<close> received: 0 for nil and 1 otherwise.\<close>

theorem process_invariant:
  assumes "\<And>provider. newEmailProvider load_aws env = Inr provider \<Longrightarrow> quiet_provider provider"
    and "run_reach load_aws env decode server (p, (ss, w))"
  shows "sys_ok w \<and> (\<forall>s \<in> set ss. served decode s) \<and>
    (\<forall>e. pc_http p = Sending e \<or> pc_smtp p = Sending e \<longrightarrow> length (pc_errCh p) < errCh_capacity) \<and>
    (\<forall>c. pc_exit p = Some c \<longrightarrow> (\<exists>e. pc_returned p = Some e \<and> c = main_exit e))"
proof -
  have "system_inv decode (ss, w)" using run_system [OF assms] by simp
  moreover have "channel_inv p" using channel_reach [OF assms(2)] by simp
  ultimately show ?thesis
    by (auto simp: system_inv_def channel_inv_def reported_def errCh_capacity_def split: if_splits)
qed

text \<open>Steps of one goroutine and of \<open>main\<close> only: what the other goroutines have is as it was.\<close>

definition exits_within ::
    "(process \<times> sys_state \<Rightarrow> process \<times> sys_state \<Rightarrow> bool) \<Rightarrow> nat \<Rightarrow> process \<Rightarrow> sys_state \<Rightarrow> process \<Rightarrow> bool" where
  "exits_within stp k p st q \<longleftrightarrow> (\<exists>n \<le> k. (stp ^^ n) (p, st) (q, st)) \<and> pc_exit q \<noteq> None \<and>
     pc_worker q = pc_worker p \<and> pc_accepted q = pc_accepted p"

lemma exits_within_step:
  assumes "stp (p, st) (q, st)" and "exits_within stp k q st r"
    and "pc_worker q = pc_worker p" and "pc_accepted q = pc_accepted p"
  shows "exits_within stp (Suc k) p st r"
  using assms by (auto simp: exits_within_def intro: relpowp_Suc_I2)

lemma exits_within_now: "pc_exit p \<noteq> None \<Longrightarrow> exits_within stp k p st p"
  by (auto simp: exits_within_def intro: exI [of _ 0])

lemma exits_within_mono: "exits_within stp k p st q \<Longrightarrow> k \<le> l \<Longrightarrow> exits_within stp l p st q"
  unfolding exits_within_def by (meson order.trans)

lemma run_exit:
  assumes "pc_exit p = None" and "pc_returned p \<noteq> None \<or> pc_errCh p \<noteq> []"
  shows "\<exists>q. exits_within (run_step env decode server worker) 2 p st q \<and> pc_http q = pc_http p \<and> pc_smtp q = pc_smtp p"
proof -
  let ?step = "run_step env decode server worker"
  have exit: "exits_within ?step 1 q st (q\<lparr>pc_exit := Some (main_exit e)\<rparr>)"
    if "pc_exit q = None" "pc_returned q = Some e" for q e
    using exits_within_step [of ?step q st, OF run_step.exits [OF that] exits_within_now, where k = 0] by simp
  show ?thesis
  proof (cases "pc_returned p")
    case None
    then obtain e es where "pc_errCh p = e # es" using assms(2) by (cases "pc_errCh p") auto
    note rets = run_step.returns [OF assms(1) None this]
    define q where "q = p\<lparr>pc_errCh := es, pc_returned := Some e, pc_cancelled := True\<rparr>"
    have "exits_within ?step (Suc 1) p st (q\<lparr>pc_exit := Some (main_exit e)\<rparr>)"
      by (rule exits_within_step [where q = q]) (use rets exit [of q e] assms(1) in \<open>simp_all add: q_def\<close>)
    then show ?thesis
      by (intro exI [of _ "q\<lparr>pc_exit := Some (main_exit e)\<rparr>"]) (simp add: q_def numeral_2_eq_2)
  next
    case (Some e)
    from exits_within_mono [OF exit [OF assms(1) Some], of 2] show ?thesis
      by (intro exI [of _ "p\<lparr>pc_exit := Some (main_exit e)\<rparr>"]) simp
  qed
qed

text \<open>The two listeners are treated alike: what is shown for one holds for the other.\<close>

lemma listener_exit:
  assumes inv: "channel_inv p" and live: "pc_exit p = None"
  shows "pc_http p \<noteq> Serving \<Longrightarrow>
      \<exists>q. exits_within (run_step env decode server worker) 3 p st q \<and> pc_smtp q = pc_smtp p"
    and "pc_smtp p \<noteq> Serving \<Longrightarrow>
      \<exists>q. exits_within (run_step env decode server worker) 3 p st q \<and> pc_http q = pc_http p"
proof -
  let ?step = "run_step env decode server worker"
  have room: "pc_http p = Sending e \<or> pc_smtp p = Sending e \<Longrightarrow> length (pc_errCh p) < errCh_capacity" for e
    using inv by (auto simp: channel_inv_def reported_def errCh_capacity_def split: if_splits)
  have go: "\<exists>r. exits_within ?step 3 p st r \<and> pc_http r = pc_http q \<and> pc_smtp r = pc_smtp q"
    if "?step (p, st) (q, st)" "pc_exit q = None" "pc_errCh q \<noteq> []" "pc_worker q = pc_worker p"
      "pc_accepted q = pc_accepted p" for q
    using run_exit [OF that(2), where st = st and env = env and decode = decode and server = server and worker = worker]
      exits_within_step [of ?step, OF that(1) _ that(4,5)] that(3)
    by (metis numeral_2_eq_2 numeral_3_eq_3)
  have ended: "\<exists>q. exits_within ?step 3 p st q \<and> pc_http q = pc_http p \<and> pc_smtp q = pc_smtp p"
    if "pc_http p = Done \<or> pc_smtp p = Done"
  proof -
    from inv that have "pc_returned p \<noteq> None \<or> pc_errCh p \<noteq> []"
      by (auto simp: channel_inv_def reported_def split: if_splits)
    from run_exit [OF live this] show ?thesis by (meson exits_within_mono le_add2 numeral_le_iff semiring_norm)
  qed
  show "\<exists>q. exits_within ?step 3 p st q \<and> pc_smtp q = pc_smtp p" if gone: "pc_http p \<noteq> Serving"
  proof (cases "pc_http p")
    case (Sending e)
    with room have "length (pc_errCh p) < errCh_capacity" by blast
    from go [OF run_step.http_sends [OF live Sending this]] live show ?thesis by auto
  qed (use gone ended in auto)
  show "\<exists>q. exits_within ?step 3 p st q \<and> pc_http q = pc_http p" if gone: "pc_smtp p \<noteq> Serving"
  proof (cases "pc_smtp p")
    case (Sending e)
    with room have "length (pc_errCh p) < errCh_capacity" by blast
    from go [OF run_step.smtp_sends [OF live Sending this]] live show ?thesis by auto
  qed (use gone ended in auto)
qed

text \<open>C26: the process serves until a listener ends and no longer. It has not exited while both listeners
  serve. In every state in which one listener has ended and the process has not, at most three steps
  (of that listener's goroutine, of \<open>runServers\<close> and of \<open>main\<close>) lead to the exit, and they are no
  steps of the others: the other listener, the worker, the requests that are being answered, the
  sessions and the store are at the exit as they were, so none of them is waited for.\<close>

theorem process_ends:
  assumes "run_reach load_aws env decode server (p, st)"
  shows "(pc_http p = Serving \<and> pc_smtp p = Serving \<longrightarrow> pc_exit p = None) \<and>
    (pc_exit p = None \<and> pc_http p \<noteq> Serving \<longrightarrow>
      (\<exists>n \<le> 3. \<exists>q. (run_step env decode server (newWebhookRetryWorker env) ^^ n) (p, st) (q, st) \<and>
        pc_exit q \<noteq> None \<and> pc_smtp q = pc_smtp p \<and> pc_worker q = pc_worker p \<and> pc_accepted q = pc_accepted p)) \<and>
    (pc_exit p = None \<and> pc_smtp p \<noteq> Serving \<longrightarrow>
      (\<exists>n \<le> 3. \<exists>q. (run_step env decode server (newWebhookRetryWorker env) ^^ n) (p, st) (q, st) \<and>
        pc_exit q \<noteq> None \<and> pc_http q = pc_http p \<and> pc_worker q = pc_worker p \<and> pc_accepted q = pc_accepted p))"
proof -
  have inv: "channel_inv p" using channel_reach [OF assms] by simp
  then have none: "pc_exit p = None" if "pc_http p = Serving \<and> pc_smtp p = Serving"
    using that by (auto simp: channel_inv_def reported_def)
  show ?thesis
    using none listener_exit [OF inv, of env decode server "newWebhookRetryWorker env" st]
    unfolding exits_within_def by blast
qed

section \<open>A concrete process\<close>

text \<open>A process on the default configuration whose SMTP address is taken: the listener fails at once.\<close>

definition no_aws :: "string option \<Rightarrow> gerr + (world ses_client \<times> string)" where
  "no_aws _ = Inl (ErrExternal ''no configuration'')"

definition address_taken :: "gerr option" where
  "address_taken = Some (ErrExternal ''listen tcp 127.0.0.1:2525: bind: address already in use'')"

lemma default_provider: "newEmailProvider load_aws (\<lambda>_. []) = Inr dev_provider"
proof -
  have "emailProviderType (\<lambda>_. []) = ''dev''" by code_simp
  then show ?thesis by (simp add: newEmailProvider_def validateEmailProviderConfig_def)
qed

lemma demo_started: "\<exists>server w. start_main no_aws (\<lambda>_. []) demo_decode (demo_world NewStore) = (Inr server, w)"
proof -
  obtain w where "seedMemoryRuntime (demo_world NewStore) = (Inr (), w)" using demo_seed by blast
  moreover have fresh: "(demo_world NewStore)\<lparr>mem := NewStore\<rparr> = demo_world NewStore" by (simp add: demo_world_def)
  moreover obtain config where "newInboundService (\<lambda>_. []) demo_decode w = (Inr (runtime_handler demo_decode config), w)"
    using newInboundService_run by blast
  ultimately show ?thesis by (simp add: start_main_def newServer_def default_provider go_bind_def go_ret_def fresh)
qed

lemma demo_failing:
  "\<exists>server p w. run_reach no_aws (\<lambda>_. []) demo_decode server (p, ([], w)) \<and>
     pc_exit p = None \<and> pc_returned p = None \<and> pc_errCh p = [] \<and> pc_http p = Serving \<and> pc_smtp p = Sending address_taken"
proof -
  obtain server w where start: "start_main no_aws (\<lambda>_. []) demo_decode (demo_world NewStore) = (Inr server, w)"
    using demo_started by blast
  let ?p = "runServers (newWebhookRetryWorker (\<lambda>_. []))"
  have "run_reach no_aws (\<lambda>_. []) demo_decode server (?p, ([], w))"
    by (rule run_reach.start [OF _ start]) (simp add: databaseURL_def)
  from run_reach.step [OF this run_step.smtp_ends [where e = address_taken]]
  have "run_reach no_aws (\<lambda>_. []) demo_decode server (?p\<lparr>pc_smtp := Sending address_taken\<rparr>, ([], w))"
    by (simp add: runServers_def)
  then show ?thesis
    by (intro exI [of _ server] exI [of _ "?p\<lparr>pc_smtp := Sending address_taken\<rparr>"] exI [of _ w])
      (simp add: runServers_def)
qed

theorem process_ends_witness:
  "\<exists>server p st n q. run_reach no_aws (\<lambda>_. []) demo_decode server (p, st) \<and> pc_http p = Serving \<and>
     (run_step (\<lambda>_. []) demo_decode server (newWebhookRetryWorker (\<lambda>_. [])) ^^ n) (p, st) (q, st) \<and>
     pc_exit q \<noteq> None \<and> pc_http q = Serving"
proof -
  obtain server p w where r: "run_reach no_aws (\<lambda>_. []) demo_decode server (p, ([], w))"
    and p: "pc_exit p = None" "pc_http p = Serving" "pc_smtp p = Sending address_taken"
    using demo_failing by blast
  from process_ends [OF r] p obtain n q where
    "(run_step (\<lambda>_. []) demo_decode server (newWebhookRetryWorker (\<lambda>_. [])) ^^ n) (p, [], w) (q, [], w)"
    "pc_exit q \<noteq> None" "pc_http q = Serving" by auto
  with r p show ?thesis by blast
qed

theorem process_invariant_witness:
  "\<exists>server p w. run_reach no_aws (\<lambda>_. []) demo_decode server (p, ([], w)) \<and> pc_exit p = Some 1 \<and>
     pc_returned p = Some address_taken \<and> sys_ok w"
proof -
  obtain server p w where r: "run_reach no_aws (\<lambda>_. []) demo_decode server (p, ([], w))"
    and p: "pc_exit p = None" "pc_returned p = None" "pc_errCh p = []" "pc_smtp p = Sending address_taken"
    using demo_failing by blast
  have full: "length (pc_errCh p) < errCh_capacity" by (simp add: p(3) errCh_capacity_def)
  define p1 where "p1 = p\<lparr>pc_smtp := Done, pc_errCh := pc_errCh p @ [address_taken]\<rparr>"
  define p2 where "p2 = p1\<lparr>pc_errCh := [], pc_returned := Some address_taken, pc_cancelled := True\<rparr>"
  define p3 where "p3 = p2\<lparr>pc_exit := Some (main_exit address_taken)\<rparr>"
  have one: "pc_exit p1 = None" "pc_returned p1 = None" "pc_errCh p1 = address_taken # []" by (simp_all add: p1_def p)
  have two: "pc_exit p2 = None" "pc_returned p2 = Some address_taken" by (simp_all add: p2_def p1_def p)
  have r1: "run_reach no_aws (\<lambda>_. []) demo_decode server (p1, ([], w))"
    unfolding p1_def by (rule run_reach.step [OF r run_step.smtp_sends [OF p(1,4) full]])
  have r2: "run_reach no_aws (\<lambda>_. []) demo_decode server (p2, ([], w))"
    unfolding p2_def by (rule run_reach.step [OF r1 run_step.returns [OF one]])
  have r3: "run_reach no_aws (\<lambda>_. []) demo_decode server (p3, ([], w))"
    unfolding p3_def by (rule run_reach.step [OF r2 run_step.exits [OF two]])
  have "quiet_provider provider" if "newEmailProvider no_aws (\<lambda>_. []) = Inr provider" for provider
    using that demo_server_quiet(1) by (simp add: default_provider)
  from process_invariant [OF this r3] have "sys_ok w" by blast
  moreover have "pc_exit p3 = Some 1" "pc_returned p3 = Some address_taken"
    by (simp_all add: p3_def p2_def main_exit_def address_taken_def)
  ultimately show ?thesis using r3 by blast
qed

end
