(* ===== verification/Spec2Isabelle.thy ===== *)
theory Spec2Isabelle
  imports Postgres_History Conversation Process
begin

text \<open>
  A model of agentlayer, the email layer for AI agents under \<open>src/\<close>: mail arrives over SMTP, is
  recorded and threaded, is announced to an agent by webhook, and is answered over an HTTP API.

  \<^bold>\<open>Shape of the model.\<close> A Go function with effects is a function from a state to an error or a
  result and the state it leaves (\<open>go\<close>, theory \<open>Prelude\<close>); structs are records, errors are values
  of \<open>gerr\<close>. The components a struct holds are arguments of its methods. The state is \<open>world\<close>
  (theory \<open>World\<close>): the in-memory store, the clock, the random source, the order in which map
  loops run, and the remote HTTP side, the last four as parameters; \<open>disk_world\<close> adds a file system and
  \<open>pg_world\<close> a database.

  \<^bold>\<open>Theories.\<close>
  \<^item> \<open>Prelude\<close>, \<open>Go_Strings\<close>, \<open>Go_Time\<close>, \<open>Go_Parse\<close>, \<open>Sha256\<close>, \<open>Json\<close>, \<open>Json_Decode\<close>: errors, calls, maps, and
    what the code uses of Go's \<open>strings\<close>, \<open>strconv\<close>, \<open>time\<close>, \<open>crypto\<close> and \<open>encoding/json\<close>;
    \<open>Time_Laws\<close> and \<open>Json_Laws\<close> show that what is printed reads back;
  \<^item> \<open>Domain\<close>, \<open>Receipt\<close>: \<open>internal/domain\<close>, \<open>internal/core\<close>, \<open>internal/inbound/receipt.go\<close>,
    \<open>internal/platform/idempotency\<close>;
  \<^item> \<open>Memory_Store\<close>, \<open>Memory_Laws\<close>, \<open>Runtime_Store\<close>: \<open>internal/store/memory\<close> and the interface
    \<open>appStore\<close> of \<open>cmd/agentlayer\<close>, with the invariant \<open>mem_ok\<close> of the store;
  \<^item> \<open>Interfaces\<close>: the repository contracts as locales, interpreted on the store in \<open>Runtime_Store\<close>;
  \<^item> \<open>Resolution\<close>, \<open>Inbound\<close>: \<open>internal/contacts\<close>, \<open>internal/threading\<close>, \<open>internal/inbound\<close>;
  \<^item> \<open>Outbound\<close>, \<open>Outbound_Laws\<close>: \<open>internal/outbound\<close> and \<open>internal/providers/dev\<close>;
    \<open>Callback_Parser\<close>, \<open>Callback_Laws\<close>: \<open>outbound/callback_parser.go\<close>;
  \<^item> \<open>Webhooks\<close>, \<open>Webhook_Laws\<close>: \<open>internal/webhooks\<close>;
  \<^item> \<open>Mail_Parser\<close>: \<open>internal/parser/parser.go\<close> with the reader of \<open>net/mail\<close>; \<open>Mail_Laws\<close>: the parser returns
    and chooses among the leaves of a mail; \<open>Mail_Reply\<close>: it reads what \<open>internal/outbound\<close> writes;
  \<^item> \<open>Smtp_Edge\<close>: \<open>internal/smtpedge\<close>;
  \<^item> \<open>Services\<close>: \<open>internal/app\<close> and the wiring in \<open>cmd/agentlayer\<close>, with \<open>Services_Laws\<close> on announcements,
    \<open>Reply_Laws\<close> on idempotent replies, \<open>App_Laws\<close> on bootstrap, listings, escalation and memory;
  \<^item> \<open>System\<close>: sessions, requests and sweeps interleaved, the invariant of every reachable state;
    \<open>Reply_History\<close>: what every later step leaves of a reply, so that a repeated request finds it;
  \<^item> \<open>Http_Api\<close>: the handlers of \<open>internal/api\<close>; \<open>Server\<close>: configuration, \<open>internal/providers/ses\<close> and
    \<open>cmd/agentlayer/readiness.go\<close>; \<open>Routes\<close>: the adapters and the route table of \<open>newServer\<close>;
    \<open>Http_Laws\<close>: what holds of every request to that server;
  \<^item> \<open>Blob_Stores\<close>, \<open>Blob_Laws\<close>: \<open>internal/store/blobfs\<close> and \<open>internal/store/blobs3\<close>, keys that stay under
    the root and bytes that are read back;
  \<^item> \<open>Store_Models\<close>, \<open>Store_Laws\<close>: \<open>internal/store/models.go\<close> and \<open>convert.go\<close>, conversions that lose nothing;
  \<^item> \<open>Postgres_Tables\<close>, \<open>Postgres_Store\<close>: the tables and constraints of \<open>db/migrations/0001_v0_core.sql\<close> and
    the methods of \<open>internal/store/postgres\<close> as statements on them, behind \<open>postgresRuntimeStore\<close>;
    \<open>Postgres_Laws\<close>: thread resolution over them, by the contract of \<open>Interfaces\<close>; \<open>Postgres_Services\<close>,
    \<open>Postgres_Deliveries\<close>: what becomes of mail, replies, escalations and webhooks over them, and of a
    finished delivery for good;
  \<^item> \<open>Startup\<close>: \<open>newRuntimeStore\<close>, the migration and the seed; \<open>Postgres_History\<close>: the invariant of the
    tables and the rows that stay along every sequence of calls;
  \<^item> \<open>Control_Tool\<close>: \<open>cmd/agentlayerctl\<close>; \<open>Control_Laws\<close>: its commands against the server of \<open>Routes\<close>;
    \<open>Sample_Mail\<close>: a mail from the tool through \<open>Smtp_Edge\<close>, \<open>Mail_Parser\<close> and \<open>Inbound\<close> into the store;
  \<^item> \<open>Conversation\<close>: the answer to a recorded message, from a session of the running system to its thread;
  \<^item> \<open>Process\<close>: \<open>main\<close> and \<open>runServers\<close> as steps over the states of \<open>System\<close>, the retry worker, whose interval
    \<open>Go_Duration\<close> reads as \<open>time.ParseDuration\<close> does, and the exit.

  \<^bold>\<open>Steps.\<close> In \<open>System\<close> and \<open>Process\<close> a command of an SMTP session, an HTTP request and a sweep are one step
  each, on their error paths too. In the program the methods of the store are atomic, by its mutex or by
  the statement, and requests interleave between them: what is proved of every reachable state is proved of
  the states between whole requests. The theorems on single operations, which start from any store that
  is well formed, do not rest on that.

  \<^bold>\<open>Bounds.\<close> Integers that are counted or compared are unbounded; durations are 64-bit words, since
  the backoff overflows. The JSON reader has fuel twice the length of its text and two, which is
  enough for every text (\<open>parse_fuel\<close>); the body of a mail is nested less deep than it is long, so its length
  is enough depth for the parser (\<open>populate_enough\<close>); every other loop is structural or has a measure.

  \<^bold>\<open>Parameters.\<close> Of the MIME library: media types, multipart readers, encoded words, address lists and
  transfer encodings (\<open>mime_lib\<close>); the inbound pipeline takes any parser (\<open>decode\<close>), of which \<open>parse_raw\<close> is
  the program's own. The email provider where it is not the
  local one, the clients of the AWS SDK, the remote HTTP side, random bytes, clock and map order. Of the
  file system: which call fails (\<open>disk_fault\<close>). Of the database and its driver: which statement fails
  and whether it took effect (\<open>sql_fault\<close>), and \<open>pg_params\<close>: the instant a time column keeps, what array
  and JSON columns make of a text, what a nil byte slice is, the collation. The hypotheses
  \<open>documented_arrays\<close> and \<open>documented_jsonb\<close> state what PostgreSQL documents of the two column types; a
  statement is a transaction of its own, as the code runs it, and holds the constraints or does nothing.

  \<^bold>\<open>Not modelled.\<close> The SQL text itself: a statement is given as its meaning on the tables; the SMTP
  libraries: \<open>go-smtp\<close> may call the session in any order, and what \<open>net/smtp\<close> and \<open>go-smtp\<close> do with a mail
  of the tool is the hypothesis \<open>carries\<close> of \<open>Sample_Mail\<close>; of \<open>net/http\<close> all but the
  matching of routes; how a listener binds and why it ends; the types named \<open>notImplemented\<close> in \<open>main.go\<close> and
  the context values of \<open>internal/platform/correlation\<close>, which nothing uses. Case and white space of strings are those of ASCII.
\<close>

end
